(* ===== verification/Prelude.thy ===== *)
theory Prelude
  imports Main "HOL-Library.Char_ord" "HOL-Library.List_Lexorder" "HOL-Library.Product_Lexorder"
begin

text \<open>
  The vocabulary shared by every component.

  \<^item> Errors: one datatype for the sentinel errors of the Go packages (\<open>store.Err...\<close>,
    \<open>workflow.Err...\<close>, \<open>robot.Err...\<close>, \<open>robotruntime.Err...\<close>, \<open>sql.ErrNoRows\<close>, \<open>context.Canceled\<close>), \<open>Wrapped\<close> for
    \<open>fmt.Errorf("...: %w", err)\<close>, \<open>Detailed\<close> for \<open>fmt.Errorf("%w: ...", err)\<close>, \<open>Joined\<close> for
    \<open>errors.Join\<close>, and \<open>errors_is\<close> for \<open>errors.Is\<close>.
  \<^item> Programs: a Go method that may read and write the whole server state and returns
    \<open>(value, error)\<close> is a function \<open>'s \<Rightarrow> (error + 'a) \<times> 's\<close>.  The combinators are
    named after the three ways the code treats an error: \<open>go\<close> (return it),
    \<open>attempt\<close> (look at it), \<open>ignoring\<close> (\<open>_, _ = ...\<close>).
  \<^item> Tables: a SQL table is the list of its rows in insertion order; a query by key is
    \<open>find_by\<close>, an \<open>UPDATE ... WHERE\<close> is \<open>update_where\<close> together with the count of
    the rows it hits.
  \<^item> JSON values and \<open>strings.TrimSpace\<close>.

  \<open>keeps R m\<close> says that a program relates its start state to its end state by \<open>R\<close> on
  every path, errors included; the collection \<open>keeps_intros\<close> proves it for composed
  programs.
\<close>

named_theorems keeps_intros
named_theorems run_simps

section \<open>Errors\<close>

datatype error =
    ErrNotFound | ErrNoRows | ErrRevisionConflict | ErrInvalidState
  | ErrProjectInactive | ErrProjectArchived | ErrWorkflowExists | ErrRobotReserved
  | ErrOperatorConfirmationRequired | ErrContinuationInterrupted | ErrStaleMapGeneration
  | ErrPlannerUnavailable | ErrExecutorUnavailable | ErrTaskWaitingInput | ErrTaskBusy
  | ErrTaskWaitingResource | ErrRobotAgentDecisionInvalid | ErrCanceled
  | ErrSkillOutsideTask | ErrPilotOffline | ErrRobotBusy | ErrExecutionNotActive | ErrSkillUnavailable
  | ErrAbilityTaskUnknown | ErrRequestConflict | ErrSkillInputInvalid | ErrUnsafePackage
  | ErrTransferUnavailable | ErrDirectRunScope | ErrPilotCredentialInvalid
  | ErrNotPending | ErrInteractionNotFound | ErrInteractionClosed
  | ErrConversationArchived | ErrProjectHasActiveWork | ErrConversationHasActiveWork | ErrDefaultProject | ErrEventGap
  | ErrBundleNotFound | ErrBundleAmbiguous | ErrInstanceNotFound | ErrRobotAlreadyInUse | ErrPortUnavailable
  | ErrUnique string
  | ErrJson
  | ErrText string
  | Wrapped string error
  | Detailed error string
  | Joined error error

text \<open>\<open>errors.Is\<close>: follow the chain of wrapped errors, and both branches of \<open>errors.Join\<close>.\<close>

fun errors_is :: "error \<Rightarrow> error \<Rightarrow> bool" where
  "errors_is (Wrapped m e) target = (Wrapped m e = target \<or> errors_is e target)"
| "errors_is (Detailed e m) target = (Detailed e m = target \<or> errors_is e target)"
| "errors_is (Joined e f) target = (Joined e f = target \<or> errors_is e target \<or> errors_is f target)"
| "errors_is e target = (e = target)"

text \<open>
  \<open>err.Error()\<close>.  The texts in the source are Chinese sentences; the model keeps one ASCII
  text per sentinel, and the formatting of a wrapped error.
\<close>

fun error_text :: "error \<Rightarrow> string" where
  "error_text ErrNotFound = ''not found''"
| "error_text ErrNoRows = ''sql: no rows in result set''"
| "error_text ErrRevisionConflict = ''revision conflict''"
| "error_text ErrInvalidState = ''invalid state''"
| "error_text ErrProjectInactive = ''project inactive''"
| "error_text ErrProjectArchived = ''project archived''"
| "error_text ErrWorkflowExists = ''workflow exists''"
| "error_text ErrRobotReserved = ''robot reserved''"
| "error_text ErrOperatorConfirmationRequired = ''operator confirmation required''"
| "error_text ErrContinuationInterrupted = ''continuation interrupted''"
| "error_text ErrStaleMapGeneration = ''stale map generation''"
| "error_text ErrPlannerUnavailable = ''planner unavailable''"
| "error_text ErrExecutorUnavailable = ''executor unavailable''"
| "error_text ErrTaskWaitingInput = ''task waiting input''"
| "error_text ErrTaskBusy = ''task busy''"
| "error_text ErrTaskWaitingResource = ''task waiting resource''"
| "error_text ErrRobotAgentDecisionInvalid = ''robot_agent_decision_invalid''"
| "error_text ErrCanceled = ''context canceled''"
| "error_text (ErrUnique c) = ''UNIQUE constraint failed: '' @ c"
| "error_text ErrJson = ''json: cannot unmarshal''"
| "error_text (ErrText t) = t"
| "error_text ErrSkillOutsideTask = ''skill outside task''"
| "error_text ErrPilotOffline = ''pilot offline''"
| "error_text ErrRobotBusy = ''robot busy''"
| "error_text ErrExecutionNotActive = ''execution not active''"
| "error_text ErrSkillUnavailable = ''skill unavailable''"
| "error_text ErrAbilityTaskUnknown = ''ability task unknown''"
| "error_text ErrRequestConflict = ''request conflict''"
| "error_text ErrSkillInputInvalid = ''skill input invalid''"
| "error_text ErrUnsafePackage = ''unsafe package''"
| "error_text ErrTransferUnavailable = ''transfer unavailable''"
| "error_text ErrDirectRunScope = ''direct run scope''"
| "error_text ErrPilotCredentialInvalid = ''pilot credential invalid''"
| "error_text ErrNotPending = ''interaction is not pending''"
| "error_text ErrInteractionNotFound = ''interaction not found''"
| "error_text ErrInteractionClosed = ''interaction is closed''"
| "error_text ErrConversationArchived = ''conversation archived''"
| "error_text ErrProjectHasActiveWork = ''project has active work''"
| "error_text ErrConversationHasActiveWork = ''conversation has active work''"
| "error_text ErrDefaultProject = ''default project''"
| "error_text ErrEventGap = ''event gap''"
| "error_text ErrBundleNotFound = ''bundle not found''"
| "error_text ErrBundleAmbiguous = ''bundle ambiguous''"
| "error_text ErrInstanceNotFound = ''runtime instance not found''"
| "error_text ErrRobotAlreadyInUse = ''robot already in use''"
| "error_text ErrPortUnavailable = ''port unavailable''"
| "error_text (Wrapped m e) = m @ '': '' @ error_text e"
| "error_text (Detailed e m) = error_text e @ '': '' @ m"
| "error_text (Joined e f) = error_text e @ [char_of (10::nat)] @ error_text f"

section \<open>Programs\<close>

type_synonym ('s, 'a) prog = "'s \<Rightarrow> (error + 'a) \<times> 's"

definition ok :: "'a \<Rightarrow> ('s, 'a) prog" where
  "ok x = (\<lambda>s. (Inr x, s))"

definition err :: "error \<Rightarrow> ('s, 'a) prog" where
  "err e = (\<lambda>s. (Inl e, s))"

text \<open>\<open>x, err := m; if err != nil { return err }; k(x)\<close>\<close>

definition go :: "('s, 'a) prog \<Rightarrow> ('a \<Rightarrow> ('s, 'b) prog) \<Rightarrow> ('s, 'b) prog" where
  "go m k = (\<lambda>s. case m s of (Inl e, t) \<Rightarrow> (Inl e, t) | (Inr x, t) \<Rightarrow> k x t)"

text \<open>\<open>x, err := m; k(x, err)\<close>\<close>

definition attempt :: "('s, 'a) prog \<Rightarrow> (error + 'a \<Rightarrow> ('s, 'b) prog) \<Rightarrow> ('s, 'b) prog" where
  "attempt m k = (\<lambda>s. case m s of (r, t) \<Rightarrow> k r t)"

text \<open>\<open>_, _ = m; k\<close>\<close>

definition ignoring :: "('s, 'a) prog \<Rightarrow> ('s, 'b) prog \<Rightarrow> ('s, 'b) prog" where
  "ignoring m k = (\<lambda>s. k (snd (m s)))"

definition reading :: "('s \<Rightarrow> ('s, 'a) prog) \<Rightarrow> ('s, 'a) prog" where
  "reading k = (\<lambda>s. k s s)"

definition writing :: "('s \<Rightarrow> 's) \<Rightarrow> ('s, unit) prog" where
  "writing f = (\<lambda>s. (Inr (), f s))"

text \<open>A \<open>for\<close> loop over a list that stops at the first returned error.\<close>

fun for_each :: "('x \<Rightarrow> ('s, unit) prog) \<Rightarrow> 'x list \<Rightarrow> ('s, unit) prog" where
  "for_each f [] = ok ()"
| "for_each f (x # xs) = go (f x) (\<lambda>_. for_each f xs)"

fun collect :: "('x \<Rightarrow> ('s, 'y) prog) \<Rightarrow> 'x list \<Rightarrow> ('s, 'y list) prog" where
  "collect f [] = ok []"
| "collect f (x # xs) = go (f x) (\<lambda>y. go (collect f xs) (\<lambda>ys. ok (y # ys)))"

lemma run_ok [simp, run_simps]: "ok x s = (Inr x, s)"
  by (simp add: ok_def)

lemma run_err [simp, run_simps]: "err e s = (Inl e, s)"
  by (simp add: err_def)

lemma run_go [run_simps]: "go m k s = (case m s of (Inl e, t) \<Rightarrow> (Inl e, t) | (Inr x, t) \<Rightarrow> k x t)"
  by (simp add: go_def)

lemma run_attempt [run_simps]: "attempt m k s = k (fst (m s)) (snd (m s))"
  by (simp add: attempt_def split: prod.splits)

lemma run_ignoring [run_simps]: "ignoring m k s = k (snd (m s))"
  by (simp add: ignoring_def)

lemma run_reading [run_simps]: "reading k s = k s s"
  by (simp add: reading_def)

lemma run_writing [run_simps]: "writing f s = (Inr (), f s)"
  by (simp add: writing_def)

lemma go_Inr_iff:
  "go m k s = (Inr y, u) \<longleftrightarrow> (\<exists>x t. m s = (Inr x, t) \<and> k x t = (Inr y, u))"
  by (auto simp: go_def split: prod.splits sum.splits)

lemma go_Inl_iff:
  "go m k s = (Inl e, u) \<longleftrightarrow> m s = (Inl e, u) \<or> (\<exists>x t. m s = (Inr x, t) \<and> k x t = (Inl e, u))"
  by (auto simp: go_def split: prod.splits sum.splits)

definition succeeds :: "(error + 'a) \<times> 's \<Rightarrow> bool" where
  "succeeds r = (case fst r of Inl _ \<Rightarrow> False | Inr _ \<Rightarrow> True)"

lemma succeedsD: "succeeds r \<Longrightarrow> \<exists>x t. r = (Inr x, t)"
  by (cases r) (auto simp: succeeds_def split: sum.splits)

lemma failsD: "\<not> succeeds r \<Longrightarrow> \<exists>e t. r = (Inl e, t)"
  by (cases r) (auto simp: succeeds_def split: sum.splits)

text \<open>Run programs one after the other; the number of them that succeed.\<close>

fun successes :: "('s, 'a) prog list \<Rightarrow> 's \<Rightarrow> nat" where
  "successes [] s = 0"
| "successes (m # ms) s = (case m s of (Inl _, t) \<Rightarrow> successes ms t | (Inr _, t) \<Rightarrow> successes ms t + 1)"

section \<open>Relations a program keeps\<close>

definition keeps :: "('s \<Rightarrow> 's \<Rightarrow> bool) \<Rightarrow> ('s, 'a) prog \<Rightarrow> bool" where
  "keeps R m \<longleftrightarrow> (\<forall>s. R s (snd (m s)))"

lemma keepsI: "(\<And>s. R s (snd (m s))) \<Longrightarrow> keeps R m"
  by (simp add: keeps_def)

lemma keepsD: "keeps R m \<Longrightarrow> R s (snd (m s))"
  by (simp add: keeps_def)

lemma keeps_run: "keeps R m \<Longrightarrow> m s = (r, t) \<Longrightarrow> R s t"
  by (metis keepsD snd_conv)

text \<open>A relation that every program may be composed in: a preorder on states.\<close>

locale frame_relation =
  fixes R :: "'s \<Rightarrow> 's \<Rightarrow> bool"
  assumes frame_refl: "R s s"
    and frame_trans: "R s t \<Longrightarrow> R t u \<Longrightarrow> R s u"
begin

lemma keeps_ok: "keeps R (ok x)"
  by (simp add: keeps_def frame_refl)

lemma keeps_err: "keeps R (err e)"
  by (simp add: keeps_def frame_refl)

lemma keeps_go: "keeps R m \<Longrightarrow> (\<And>x. keeps R (k x)) \<Longrightarrow> keeps R (go m k)"
proof (rule keepsI)
  fix s
  assume m: "keeps R m" and k: "\<And>x. keeps R (k x)"
  show "R s (snd (go m k s))"
  proof (cases "m s")
    case (Pair r t)
    with m have "R s t" by (rule keeps_run)
    with Pair k show ?thesis
      by (cases r) (auto simp: go_def intro: frame_trans dest: keepsD)
  qed
qed

lemma keeps_attempt: "keeps R m \<Longrightarrow> (\<And>x. keeps R (k x)) \<Longrightarrow> keeps R (attempt m k)"
  by (rule keepsI) (auto simp: run_attempt intro: frame_trans dest: keepsD)

lemma keeps_ignoring: "keeps R m \<Longrightarrow> keeps R k \<Longrightarrow> keeps R (ignoring m k)"
  by (rule keepsI) (auto simp: run_ignoring intro: frame_trans dest: keepsD)

lemma keeps_reading: "(\<And>s. keeps R (k s)) \<Longrightarrow> keeps R (reading k)"
  by (auto simp: keeps_def run_reading)

lemma keeps_for_each: "(\<And>x. keeps R (f x)) \<Longrightarrow> keeps R (for_each f xs)"
  by (induction xs) (auto intro: keeps_ok keeps_go)

lemma keeps_collect: "(\<And>x. keeps R (f x)) \<Longrightarrow> keeps R (collect f xs)"
  by (induction xs) (auto intro!: keeps_ok keeps_go)

lemma keeps_if: "(b \<Longrightarrow> keeps R m) \<Longrightarrow> (\<not> b \<Longrightarrow> keeps R n) \<Longrightarrow> keeps R (if b then m else n)"
  by simp

lemma keeps_case_sum:
  "(\<And>e. r = Inl e \<Longrightarrow> keeps R (f e)) \<Longrightarrow> (\<And>x. r = Inr x \<Longrightarrow> keeps R (g x)) \<Longrightarrow>
   keeps R (case r of Inl e \<Rightarrow> f e | Inr x \<Rightarrow> g x)"
  by (cases r) auto

lemma keeps_case_option:
  "(r = None \<Longrightarrow> keeps R n) \<Longrightarrow> (\<And>x. r = Some x \<Longrightarrow> keeps R (g x)) \<Longrightarrow>
   keeps R (case r of None \<Rightarrow> n | Some x \<Rightarrow> g x)"
  by (cases r) auto

lemma keeps_case_list:
  "(r = [] \<Longrightarrow> keeps R n) \<Longrightarrow> (\<And>x xs. r = x # xs \<Longrightarrow> keeps R (g x xs)) \<Longrightarrow>
   keeps R (case r of [] \<Rightarrow> n | x # xs \<Rightarrow> g x xs)"
  by (cases r) auto

lemma keeps_case_prod: "(\<And>a b. r = (a, b) \<Longrightarrow> keeps R (g a b)) \<Longrightarrow> keeps R (case r of (a, b) \<Rightarrow> g a b)"
  by (cases r) auto

lemma keeps_let: "(\<And>x. keeps R (k x)) \<Longrightarrow> keeps R (Let m k)"
  by (simp add: Let_def)

lemma keeps_writing: "(\<And>s. R s (f s)) \<Longrightarrow> keeps R (writing f)"
  by (simp add: keeps_def run_writing)

lemma keeps_pure: "(\<And>s. snd (m s) = s) \<Longrightarrow> keeps R m"
  by (simp add: keeps_def frame_refl)

lemmas keeps_rules =
  keeps_ok keeps_err keeps_go keeps_attempt keeps_ignoring keeps_reading
  keeps_for_each keeps_collect keeps_if keeps_case_sum keeps_case_option keeps_case_list
  keeps_case_prod keeps_let

end

text \<open>The two preorders used most: nothing changes, and a projection does not change.\<close>

interpretation frame_eq: frame_relation "(=)"
  by unfold_locales auto

interpretation frame_true: frame_relation "\<lambda>_ _. True"
  by unfold_locales auto

section \<open>Tables\<close>

definition find_by :: "('r \<Rightarrow> 'k) \<Rightarrow> 'k \<Rightarrow> 'r list \<Rightarrow> 'r option" where
  "find_by key k rows = find (\<lambda>r. key r = k) rows"

definition update_where :: "('r \<Rightarrow> bool) \<Rightarrow> ('r \<Rightarrow> 'r) \<Rightarrow> 'r list \<Rightarrow> 'r list" where
  "update_where p f rows = map (\<lambda>r. if p r then f r else r) rows"

definition count_where :: "('r \<Rightarrow> bool) \<Rightarrow> 'r list \<Rightarrow> nat" where
  "count_where p rows = length (filter p rows)"

lemma find_by_Nil [simp]: "find_by key k [] = None"
  by (simp add: find_by_def)

lemma find_by_Cons [simp]:
  "find_by key k (r # rows) = (if key r = k then Some r else find_by key k rows)"
  by (simp add: find_by_def)

lemma update_where_Nil [simp]: "update_where p f [] = []"
  by (simp add: update_where_def)

lemma update_where_Cons [simp]:
  "update_where p f (r # rows) = (if p r then f r else r) # update_where p f rows"
  by (simp add: update_where_def)

lemma count_where_0: "count_where p rows = 0 \<longleftrightarrow> (\<forall>r \<in> set rows. \<not> p r)"
  by (simp add: count_where_def filter_empty_conv)

lemma find_by_SomeD: "find_by key k rows = Some r \<Longrightarrow> r \<in> set rows \<and> key r = k"
  by (induction rows) (auto split: if_splits)

lemma find_by_None: "find_by key k rows = None \<longleftrightarrow> k \<notin> key ` set rows"
  by (induction rows) auto

lemma find_by_distinct:
  "distinct (map key rows) \<Longrightarrow> r \<in> set rows \<Longrightarrow> find_by key (key r) rows = Some r"
  by (induction rows) (auto simp: rev_image_eqI)

lemma find_by_iff:
  "distinct (map key rows) \<Longrightarrow> find_by key k rows = Some r \<longleftrightarrow> r \<in> set rows \<and> key r = k"
  using find_by_SomeD find_by_distinct by metis

lemma find_by_update_where:
  "(\<And>r. key (f r) = key r) \<Longrightarrow>
   find_by key k (update_where p f rows) =
     map_option (\<lambda>r. if p r then f r else r) (find_by key k rows)"
  by (induction rows) auto

lemma find_SomeD: "find p xs = Some x \<Longrightarrow> x \<in> set xs \<and> p x"
  by (induction xs) (auto split: if_splits)

lemma find_append: "find p (xs @ ys) = (case find p xs of None \<Rightarrow> find p ys | Some x \<Rightarrow> Some x)"
  by (induction xs) auto

lemma find_by_filter: "find_by key k rows = Some r \<Longrightarrow> p r \<Longrightarrow> find_by key k (filter p rows) = Some r"
  by (induction rows) (auto split: if_splits)

lemma find_by_append:
  "find_by key k (xs @ ys) = (case find_by key k xs of None \<Rightarrow> find_by key k ys | Some r \<Rightarrow> Some r)"
  by (induction xs) auto

lemma map_key_update_where:
  "(\<And>r. key (f r) = key r) \<Longrightarrow> map key (update_where p f rows) = map key rows"
  by (simp add: update_where_def)

lemma set_update_where:
  "set (update_where p f rows) = {if p r then f r else r | r. r \<in> set rows}"
  by (auto simp: update_where_def)

lemma length_update_where [simp]: "length (update_where p f rows) = length rows"
  by (simp add: update_where_def)

lemma update_where_none: "(\<And>r. r \<in> set rows \<Longrightarrow> \<not> p r) \<Longrightarrow> update_where p f rows = rows"
  by (induction rows) auto

lemma find_count_pos:
  "find_by key k rows = Some r \<Longrightarrow> p r \<Longrightarrow> count_where p rows \<noteq> 0"
  by (auto simp: count_where_0 dest: find_by_SomeD)

section \<open>JSON values and text\<close>

text \<open>
  A decoded \<open>any\<close>.  Numbers keep the distinction \<open>encoding/json\<close> makes when it decodes into an
  integer: an integer literal, or any other literal as its text.
\<close>

datatype json =
    JNull
  | JBool bool
  | JInt int
  | JNum string
  | JStr string
  | JArr "json list"
  | JObj "(string \<times> json) list"

text \<open>\<open>json.RawMessage\<close>: zero bytes, a well-formed text, or a text that does not parse.\<close>

datatype raw_json = NoRaw | Raw json | BadRaw string

type_synonym any_map = "(string \<times> json) list"

definition json_or :: "raw_json \<Rightarrow> json \<Rightarrow> raw_json" where
  "json_or raw fallback = (case raw of NoRaw \<Rightarrow> Raw fallback | _ \<Rightarrow> raw)"

text \<open>The checked type assertions \<open>v, ok := m[k].(T)\<close> of Go.\<close>

definition get_bool :: "any_map \<Rightarrow> string \<Rightarrow> bool option" where
  "get_bool m k = (case map_of m k of Some (JBool b) \<Rightarrow> Some b | _ \<Rightarrow> None)"

definition get_string :: "any_map \<Rightarrow> string \<Rightarrow> string option" where
  "get_string m k = (case map_of m k of Some (JStr t) \<Rightarrow> Some t | _ \<Rightarrow> None)"

definition get_object :: "any_map \<Rightarrow> string \<Rightarrow> any_map option" where
  "get_object m k = (case map_of m k of Some (JObj fs) \<Rightarrow> Some fs | _ \<Rightarrow> None)"

text \<open>\<open>strings.TrimSpace\<close> on the ASCII white space.\<close>

definition is_space :: "char \<Rightarrow> bool" where
  "is_space c \<longleftrightarrow> of_char c \<in> ({9, 10, 11, 12, 13, 32} :: nat set)"

definition trim_space :: "string \<Rightarrow> string" where
  "trim_space t = rev (dropWhile is_space (rev (dropWhile is_space t)))"

definition has_prefix :: "string \<Rightarrow> string \<Rightarrow> bool" where
  "has_prefix t p \<longleftrightarrow> take (length p) t = p"

lemma trim_space_Nil [simp]: "trim_space [] = []"
  by (simp add: trim_space_def)

lemma trim_space_blank: "trim_space t = [] \<longleftrightarrow> (\<forall>c \<in> set t. is_space c)"
proof
  assume "trim_space t = []"
  then have rev_blank: "\<forall>c \<in> set (dropWhile is_space t). is_space c"
    by (simp add: trim_space_def)
  have "dropWhile is_space t = []"
  proof (rule ccontr)
    assume ne: "dropWhile is_space t \<noteq> []"
    then have "\<not> is_space (hd (dropWhile is_space t))"
      by (rule hd_dropWhile)
    with ne rev_blank show False by (metis hd_in_set)
  qed
  then show "\<forall>c \<in> set t. is_space c" by simp
next
  assume "\<forall>c \<in> set t. is_space c"
  then show "trim_space t = []" by (auto simp: trim_space_def dest: set_dropWhileD)
qed

type_synonym time = nat

end
