(* ===== verification/StoreData.thy ===== *)
theory StoreData
  imports Prelude
begin

text \<open>
  The tables of the SQLite database the workflow subsystem works on
  (\<open>internal/store/workflow.go\<close>, \<open>robot.go\<close>, \<open>chat.go\<close>, \<open>plan_proposal.go\<close>,
  \<open>interaction.go\<close>, \<open>project.go\<close>, \<open>semantic_map.go\<close> and the schema in \<open>migrate*.go\<close>).
  One record per Go struct, with its fields in the order of the source; the record \<open>db\<close>
  holds the tables, each the list of its rows in insertion order, and the number of
  identifiers drawn from \<open>uuid.NewString\<close> so far.

  A SQL constraint is a function from the rows of its table to the name of the violated
  constraint; \<open>insert\<close> and the updates that touch a key run it and fail with \<open>ErrUnique\<close>.
  \<open>tx\<close> is a transaction: its error path restores every table, but not the supply of
  identifiers.
\<close>

section \<open>Statuses\<close>

datatype work_status = WSPending | WSRunning | WSPaused | WSStopping | WSCompleted | WSFailed | WSStopped

datatype run_status =
  RQueued | RRunning | RWaitingInput | RCancelling | RCompleted | RFailed | RCancelled

datatype run_kind = KConversation | KTaskPlanning | KTaskExecution

datatype proposal_status = PReady | PApproved | PDiscarded

datatype interaction_status = IPending | IAnswered | IExpired | ICancelled

datatype project_mode = ModeDevelopment | ModeRunning

definition terminal_work_status :: "work_status \<Rightarrow> bool" where
  "terminal_work_status st \<longleftrightarrow> st = WSCompleted \<or> st = WSFailed \<or> st = WSStopped"

definition open_work_status :: "work_status \<Rightarrow> bool" where
  "open_work_status st \<longleftrightarrow> st \<in> {WSPending, WSRunning, WSPaused, WSStopping}"

definition terminal_run_status :: "run_status \<Rightarrow> bool" where
  "terminal_run_status st \<longleftrightarrow> st = RCompleted \<or> st = RFailed \<or> st = RCancelled"

definition active_run_status :: "run_status \<Rightarrow> bool" where
  "active_run_status st \<longleftrightarrow> st \<in> {RQueued, RRunning, RWaitingInput, RCancelling}"

lemma open_iff_not_terminal: "open_work_status st \<longleftrightarrow> \<not> terminal_work_status st"
  by (cases st) (auto simp: open_work_status_def terminal_work_status_def)

lemma active_iff_not_terminal: "active_run_status st \<longleftrightarrow> \<not> terminal_run_status st"
  by (cases st) (auto simp: active_run_status_def terminal_run_status_def)

section \<open>Rows\<close>

record project =
  pr_id :: string
  pr_owner_id :: string
  pr_name :: string
  pr_workspace_root :: string
  pr_is_default :: bool
  pr_mode :: project_mode
  pr_is_active :: bool
  pr_runtime_profile_id :: string
  pr_preferred_installation_id :: string
  pr_archived_at :: "time option"
  pr_revision :: int
  pr_created_at :: time
  pr_updated_at :: time

record project_bindings =
  pb_agent_ids :: "string list"
  pb_skill_names :: "string list"

record scene_reference =
  sr_project_scene_id :: string
  sr_ref_project_id :: string
  sr_catalog_scene_id :: string
  sr_scene_version :: string
  sr_default_variant_id :: string
  sr_added_at :: time

record chat_session =
  cs_id :: string
  cs_user_id :: string
  cs_project_id :: string
  cs_title :: string
  cs_created_at :: time
  cs_archived_at :: "time option"
  cs_revision :: int
  cs_updated_at :: time

record workflow =
  w_id :: string
  w_project_id :: string
  w_conversation_id :: string
  w_goal :: string
  w_approved_scope :: raw_json
  w_constraints :: raw_json
  w_completion_criteria :: raw_json
  w_map_scope :: raw_json
  w_status :: work_status
  w_reason :: string
  w_revision :: int
  w_confirmed_revision :: int
  w_source_interaction_id :: string
  w_created_at :: time
  w_started_at :: "time option"
  w_updated_at :: time
  w_ended_at :: "time option"

record task =
  t_id :: string
  t_workflow_id :: string
  t_position :: nat
  t_required_role :: string
  t_required_capabilities :: raw_json
  t_resource_requirements :: raw_json
  t_assigned_agent_id :: string
  t_assigned_robot_id :: string
  t_assignment_revision :: int
  t_goal :: string
  t_input :: raw_json
  t_completion_criteria :: raw_json
  t_status :: work_status
  t_waiting_reason :: string
  t_result_summary :: string
  t_evidence :: raw_json
  t_context_id :: string
  t_revision :: int
  t_created_at :: time
  t_updated_at :: time
  t_ended_at :: "time option"

record subtask =
  st_id :: string
  st_task_id :: string
  st_position :: nat
  st_kind :: string
  st_goal :: string
  st_spec :: raw_json
  st_completion_criteria :: raw_json
  st_evidence :: raw_json
  st_execution_ref :: string
  st_status :: work_status
  st_waiting_reason :: string
  st_result :: raw_json
  st_revision :: int
  st_created_at :: time
  st_updated_at :: time
  st_ended_at :: "time option"

record task_dep =
  td_workflow_id :: string
  td_task_id :: string
  td_depends_on :: string

record subtask_dep =
  sd_task_id :: string
  sd_subtask_id :: string
  sd_depends_on :: string

record workflow_view =
  v_workflow :: workflow
  v_tasks :: "task list"
  v_subtasks :: "subtask list"
  v_dependencies :: "task_dep list"
  v_subtask_dependencies :: "subtask_dep list"

record workflow_revision =
  wr_workflow_id :: string
  wr_revision :: int
  wr_snapshot :: workflow_view
  wr_created_at :: time

record subtask_draft =
  sdr_id :: string
  sdr_kind :: string
  sdr_goal :: string
  sdr_spec :: raw_json
  sdr_completion_criteria :: raw_json
  sdr_depends_on :: "string list"

record task_draft =
  tdr_id :: string
  tdr_required_role :: string
  tdr_required_capabilities :: raw_json
  tdr_resource_requirements :: raw_json
  tdr_goal :: string
  tdr_input :: raw_json
  tdr_completion_criteria :: raw_json
  tdr_subtasks :: "subtask_draft list"

text \<open>A draft dependency is the pair \<open>(task_id, depends_on_task_id)\<close>.\<close>

record workflow_draft =
  wdr_goal :: string
  wdr_constraints :: raw_json
  wdr_completion_criteria :: raw_json
  wdr_map_scope :: raw_json
  wdr_tasks :: "task_draft list"
  wdr_dependencies :: "(string \<times> string) list"

record plan_proposal =
  pp_id :: string
  pp_project_id :: string
  pp_conversation_id :: string
  pp_revision :: int
  pp_status :: proposal_status
  pp_goal :: string
  pp_summary :: string
  pp_approved_scope :: raw_json
  pp_structured_plan :: raw_json
  pp_document_markdown :: string
  pp_created_at :: time
  pp_updated_at :: time

record plan_submission =
  ps_run_id :: string
  ps_proposal_id :: string
  ps_proposal_revision :: int
  ps_created_at :: time

record run_session =
  r_id :: string
  r_project_id :: string
  r_chat_session_id :: string
  r_workflow_id :: string
  r_task_id :: string
  r_source_interaction_id :: string
  r_kind :: run_kind
  r_context_id :: string
  r_agent_id :: string
  r_robot_id :: string
  r_agent_name :: string
  r_provider :: string
  r_endpoint :: string
  r_model :: string
  r_trace_id :: string
  r_status :: run_status
  r_error :: string
  r_revision :: int
  r_started_at :: "time option"
  r_updated_at :: "time option"
  r_ended_at :: "time option"

record interaction =
  i_id :: string
  i_project_id :: string
  i_session_id :: string
  i_revision :: int
  i_workflow_id :: string
  i_task_id :: string
  i_ui_kind :: string
  i_source_revision :: int
  i_map_id :: string
  i_map_generation :: int
  i_target_agent_id :: string
  i_response_schema :: raw_json
  i_agent :: string
  i_type :: string
  i_status :: interaction_status
  i_payload :: raw_json
  i_reply :: raw_json
  i_run_id :: string
  i_checkpoint_id :: string
  i_created_at :: time
  i_answered_at :: "time option"
  i_expired_at :: "time option"
  i_expires_at :: "time option"
  i_cancelled_at :: "time option"
  i_handled_at :: "time option"
  i_handling_error :: string

record robot_artifact_mapping =
  am_pilot_instance_id :: string
  am_local_artifact_id :: string
  am_server_artifact_id :: string
  am_execution_id :: string
  am_action_id :: string
  am_observation_id :: string
  am_media_type :: string
  am_summary :: string
  am_size_bytes :: int
  am_status :: string
  am_updated_at :: time

record robot_execution =
  e_id :: string
  e_project_id :: string
  e_workflow_id :: string
  e_task_id :: string
  e_subtask_id :: string
  e_run_id :: string
  e_robot_id :: string
  e_pilot_instance_id :: string
  e_skill_name :: string
  e_skill_version :: string
  e_request_key :: string
  e_request_digest :: string
  e_status :: string
  e_stage :: string
  e_progress :: "json option"
  e_input :: any_map
  e_artifact_refs :: "string list"
  e_artifact_sync :: "robot_artifact_mapping list"
  e_result :: any_map
  e_error :: any_map
  e_revision :: int
  e_created_at :: time
  e_updated_at :: time

text \<open>A row of \<open>robot_executions\<close>: the indexed columns beside the JSON body.\<close>

record execution_row =
  xr_id :: string
  xr_project_id :: string
  xr_robot_id :: string
  xr_request_key :: string
  xr_status :: string
  xr_revision :: int
  xr_updated_at :: time
  xr_body :: robot_execution
  xr_subtask_id :: string

record execution_event =
  ev_execution_id :: string
  ev_sequence :: int
  ev_type :: string
  ev_payload :: any_map
  ev_created_at :: time

record robot_pilot_skill =
  pk_pilot_instance_id :: string
  pk_name :: string
  pk_version :: string
  pk_enabled :: bool
  pk_status :: string
  pk_error :: string
  pk_updated_at :: time

record robot_desired_skill =
  dk_robot_id :: string
  dk_name :: string
  dk_version :: string
  dk_enabled :: bool
  dk_updated_at :: time

record robot_skill_package =
  sp_name :: string
  sp_version :: string
  sp_description :: string
  sp_category :: string
  sp_package_path :: string
  sp_applicable_models :: "string list"
  sp_required_actions :: "any_map list"
  sp_stop_actions :: "any_map list"
  sp_published_at :: time

datatype runtime_state = RtStarting | RtReady | RtDegraded | RtStopping | RtStopped | RtFailed | RtInterrupted | RtOther string

record runtime_instance =
  ri_id :: string
  ri_pilot_instance_id :: string
  ri_robot_id :: string
  ri_scene_instance_id :: string
  ri_bundle_name :: string
  ri_bundle_version :: string
  ri_robot_model :: string
  ri_backend :: string
  ri_kind :: string
  ri_backend_profile :: string
  ri_status :: runtime_state
  ri_failure_reason :: string
  ri_port :: int
  ri_endpoint :: string
  ri_data_directory :: string
  ri_project_id :: string
  ri_revision :: int
  ri_created_at :: time
  ri_updated_at :: time

text \<open>
  A Pilot as it reports itself.  The lists are optional because a heartbeat distinguishes an
  absent list (nil) from an empty one.
\<close>

record robot_pilot =
  rp_instance_id :: string
  rp_robot_id :: string
  rp_display_name :: string
  rp_robot_model :: string
  rp_backend :: string
  rp_pilot_version :: string
  rp_status :: string
  rp_robot_status :: string
  rp_ability_framework_status :: string
  rp_skill_catalog_revision :: int
  rp_ability_catalog_revision :: int
  rp_current_execution_id :: string
  rp_abilities :: "any_map list option"
  rp_sensors :: "any_map list option"
  rp_configuration :: any_map
  rp_desired_skills :: "robot_desired_skill list option"
  rp_runtime :: "runtime_instance option"
  rp_revision :: int
  rp_last_seen_at :: time

record pilot_enrollment =
  pn_id :: string
  pn_code :: string
  pn_status :: string
  pn_expires_at :: time
  pn_created_by :: string
  pn_pilot_instance_id :: string
  pn_created_at :: time
  pn_claimed_at :: "time option"

record pilot_credential =
  pc_pilot_instance_id :: string
  pc_credential :: string
  pc_created_at :: time
  pc_revoked_at :: "time option"

record artifact =
  art_id :: string
  art_owner_id :: string
  art_media_type :: string
  art_uri :: string
  art_summary :: string
  art_metadata :: string
  art_size :: int
  art_created_at :: time

text \<open>
  The message object of the Eino library, by the fields the store looks at: the role, the text,
  the tool calls and the multimodal parts.
\<close>

record message =
  msg_role :: string
  msg_content :: string
  msg_tool_calls :: "json list"
  msg_parts :: "json list"

record chat_message =
  cm_id :: string
  cm_session_id :: string
  cm_agent_id :: string
  cm_run_id :: string
  cm_trace_id :: string
  cm_provider :: string
  cm_endpoint :: string
  cm_model :: string
  cm_message :: "message option"
  cm_artifact_refs :: "string list"
  cm_metadata :: any_map
  cm_created_at :: time

record context_message =
  xm_id :: string
  xm_context_id :: string
  xm_project_id :: string
  xm_session_id :: string
  xm_task_id :: string
  xm_agent_id :: string
  xm_run_id :: string
  xm_trace_id :: string
  xm_message :: "message option"
  xm_artifact_refs :: "string list"
  xm_metadata :: any_map
  xm_created_at :: "time option"

record context_summary =
  su_context_id :: string
  su_project_id :: string
  su_session_id :: string
  su_task_id :: string
  su_summary :: string
  su_covered_through :: string
  su_revision :: int
  su_updated_at :: time

record project_memory =
  mm_project_id :: string
  mm_content :: string
  mm_revision :: int
  mm_updated_at :: time

record execution_policy =
  ep_session_id :: string
  ep_mode :: string
  ep_host_enabled :: bool
  ep_updated_at :: time

record agent_model =
  sa_session_id :: string
  sa_agent_id :: string
  sa_endpoint_id :: string
  sa_reasoning_effort :: string
  sa_source :: string
  sa_created_at :: time
  sa_updated_at :: time

text \<open>A row of \<open>events\<close>; \<open>Parent\<close> and \<open>Payload\<close> are columns of JSON text.\<close>

record event_row =
  er_id :: string
  er_project_id :: string
  er_session_id :: string
  er_resource_type :: string
  er_resource_id :: string
  er_revision :: int
  er_sequence :: int
  er_channel :: string
  er_type :: string
  er_importance :: string
  er_agent_id :: string
  er_agent_role :: string
  er_parent :: raw_json
  er_payload :: raw_json
  er_ts :: time

section \<open>Semantic maps\<close>

text \<open>
  A \<open>float64\<close>: every finite double is a whole multiple of \<open>2 powr -1074\<close>, and \<open>Fin n\<close> is n such
  units, so that comparisons are exact.  The sign of zero is not kept.
\<close>

datatype float64 = Fin int | PosInf | NegInf | NaN

record position =
  po_x :: float64
  po_y :: float64
  po_z :: float64

record quaternion =
  qu_x :: float64
  qu_y :: float64
  qu_z :: float64
  qu_w :: float64

record pose =
  ps_position :: position
  ps_orientation :: quaternion

record bounds =
  bo_kind :: string
  bo_size :: "position option"
  bo_radius :: float64
  bo_height :: float64
  bo_points :: "position list"

record semantic_map =
  sm_id :: string
  sm_project_id :: string
  sm_slot :: string
  sm_generation :: int
  sm_revision :: int
  sm_frame_id :: string
  sm_created_at :: time
  sm_updated_at :: time

record map_generation =
  mg_map_id :: string
  mg_generation :: int
  mg_revision :: int
  mg_reason :: string
  mg_created_at :: time
  mg_closed_at :: "time option"

record map_entity =
  me_map_id :: string
  me_generation :: int
  me_id :: string
  me_type :: string
  me_name :: string
  me_status :: string
  me_frame_id :: string
  me_pose :: pose
  me_bounds :: bounds
  me_properties :: any_map
  me_source :: string
  me_source_timestamp :: "time option"
  me_evidence :: "string list"
  me_manual_fields :: "(string \<times> bool) list"
  me_revision :: int
  me_updated_at :: time

record map_relation =
  mr_map_id :: string
  mr_generation :: int
  mr_id :: string
  mr_subject_id :: string
  mr_predicate :: string
  mr_object_id :: string
  mr_source :: string
  mr_evidence :: "string list"
  mr_manual :: bool
  mr_revision :: int
  mr_updated_at :: time

text \<open>A row of \<open>map_source_mappings\<close>: the Entity that stands for an object of a source.\<close>

record map_source =
  mo_map_id :: string
  mo_generation :: int
  mo_source :: string
  mo_source_id :: string
  mo_entity_id :: string

section \<open>The database\<close>

text \<open>
  The tables that only the Studio side writes (Projects, Conversations, maps, events): a record of
  their own, one field of \<open>db\<close>.
\<close>

record desk =
  map_generations :: "map_generation list"
  map_relations :: "map_relation list"
  map_sources :: "map_source list"
  agent_bindings :: "(string \<times> string) list"
  skill_bindings :: "(string \<times> string) list"
  scene_references :: "scene_reference list"
  context_messages :: "context_message list"
  context_summaries :: "context_summary list"
  project_memories :: "project_memory list"
  execution_policies :: "execution_policy list"
  agent_models :: "agent_model list"
  run_checkpoints :: "(string \<times> string) list"
  event_rows :: "event_row list"
  event_sequences :: "(string \<times> int) list"

record db =
  projects :: "project list"
  chat_sessions :: "chat_session list"
  workflows :: "workflow list"
  tasks :: "task list"
  subtasks :: "subtask list"
  task_deps :: "task_dep list"
  subtask_deps :: "subtask_dep list"
  workflow_revisions :: "workflow_revision list"
  plan_proposals :: "plan_proposal list"
  plan_submissions :: "plan_submission list"
  runs :: "run_session list"
  interactions :: "interaction list"
  executions :: "execution_row list"
  execution_events :: "execution_event list"
  artifact_mappings :: "robot_artifact_mapping list"
  robot_pilots :: "robot_pilot list"
  runtime_instances :: "runtime_instance list"
  port_leases :: "(string \<times> int) list"
  pilot_skills :: "robot_pilot_skill list"
  desired_skills :: "robot_desired_skill list"
  skill_packages :: "robot_skill_package list"
  pilot_enrollments :: "pilot_enrollment list"
  pilot_credentials :: "pilot_credential list"
  artifacts :: "artifact list"
  chat_messages :: "chat_message list"
  semantic_maps :: "semantic_map list"
  map_entities :: "map_entity list"
  desk :: desk
  uuids_drawn :: nat

text \<open>
  \<open>tx := Begin(); defer Rollback(); ...; Commit()\<close>: a returned error undoes every write of the
  transaction; identifiers drawn inside it stay drawn.
\<close>

definition tx :: "(db, 'a) prog \<Rightarrow> (db, 'a) prog" where
  "tx m = (\<lambda>s. case m s of
     (Inl e, t) \<Rightarrow> (Inl e, s\<lparr>uuids_drawn := uuids_drawn t\<rparr>)
   | (Inr x, t) \<Rightarrow> (Inr x, t))"

lemma run_tx [run_simps]:
  "tx m s = (case m s of (Inl e, t) \<Rightarrow> (Inl e, s\<lparr>uuids_drawn := uuids_drawn t\<rparr>) | (Inr x, t) \<Rightarrow> (Inr x, t))"
  by (simp add: tx_def)

lemma tx_Inr_iff [simp]: "tx m s = (Inr y, u) \<longleftrightarrow> m s = (Inr y, u)"
  by (auto simp: tx_def split: prod.splits sum.splits)

lemma tx_error_rolls_back: "tx m s = (Inl e, u) \<Longrightarrow> \<exists>n. u = s\<lparr>uuids_drawn := n\<rparr>"
  by (auto simp: tx_def split: prod.splits sum.splits)

text \<open>
  \<open>uuid.NewString()\<close> with the prefix of the caller.  The n-th identifier drawn is the n-th
  numeral, so that identifiers drawn by one process never repeat.
\<close>

fun digits :: "nat \<Rightarrow> string" where
  "digits n = (if n < 10 then [char_of (48 + n)] else digits (n div 10) @ [char_of (48 + n mod 10)])"

declare digits.simps [simp del]

definition new_id :: "string \<Rightarrow> (db, string) prog" where
  "new_id prefix = (\<lambda>s. (Inr (prefix @ digits (uuids_drawn s)), s\<lparr>uuids_drawn := uuids_drawn s + 1\<rparr>))"

lemma run_new_id [run_simps]:
  "new_id prefix s = (Inr (prefix @ digits (uuids_drawn s)), s\<lparr>uuids_drawn := uuids_drawn s + 1\<rparr>)"
  by (simp add: new_id_def)

definition new_workflow_id :: "(db, string) prog" where
  "new_workflow_id = new_id ''wf-''"

definition new_task_id :: "(db, string) prog" where
  "new_task_id = new_id ''task-''"

definition new_subtask_id :: "(db, string) prog" where
  "new_subtask_id = new_id ''subtask-''"

definition new_plan_proposal_id :: "(db, string) prog" where
  "new_plan_proposal_id = new_id ''plan-''"

definition new_run_session_id :: "(db, string) prog" where
  "new_run_session_id = new_id ''run-''"

section \<open>Constraints\<close>

definition robot_bound :: "task \<Rightarrow> bool" where
  "robot_bound t \<longleftrightarrow> t_assigned_robot_id t \<noteq> [] \<and> open_work_status (t_status t)"

definition run_on_robot :: "run_session \<Rightarrow> bool" where
  "run_on_robot r \<longleftrightarrow> r_robot_id r \<noteq> [] \<and> active_run_status (r_status r)"

definition task_violation :: "task list \<Rightarrow> string option" where
  "task_violation ts =
    (if \<not> distinct (map t_id ts) then Some ''tasks.id''
     else if \<not> distinct (map t_context_id ts) then Some ''tasks.context_id''
     else if \<not> distinct (map (\<lambda>t. (t_workflow_id t, t_position t)) ts)
       then Some ''tasks.workflow_id, tasks.position''
     else if \<not> distinct (map t_assigned_robot_id (filter robot_bound ts))
       then Some ''tasks.assigned_robot_id''
     else None)"

definition subtask_violation :: "subtask list \<Rightarrow> string option" where
  "subtask_violation ss =
    (if \<not> distinct (map st_id ss) then Some ''subtasks.id''
     else if \<not> distinct (map (\<lambda>x. (st_task_id x, st_position x)) ss)
       then Some ''subtasks.task_id, subtasks.position''
     else if \<exists>x \<in> set ss. st_kind x \<noteq> ''robot_skill'' \<and> st_kind x \<noteq> ''agent_step'' then Some ''subtasks.kind''
     else None)"

definition task_dep_violation :: "task_dep list \<Rightarrow> string option" where
  "task_dep_violation ds =
    (if distinct (map (\<lambda>d. (td_task_id d, td_depends_on d)) ds) then None
     else Some ''task_dependencies.task_id, task_dependencies.depends_on_task_id'')"

definition subtask_dep_violation :: "subtask_dep list \<Rightarrow> string option" where
  "subtask_dep_violation ds =
    (if distinct (map (\<lambda>d. (sd_subtask_id d, sd_depends_on d)) ds) then None
     else Some ''subtask_dependencies.subtask_id, subtask_dependencies.depends_on_subtask_id'')"

definition workflow_violation :: "workflow list \<Rightarrow> string option" where
  "workflow_violation ws =
    (if \<not> distinct (map w_id ws) then Some ''workflows.id''
     else if \<not> distinct (map w_project_id (filter (\<lambda>w. open_work_status (w_status w)) ws))
       then Some ''workflows.project_id''
     else if \<not> distinct (filter (\<lambda>i. i \<noteq> []) (map w_source_interaction_id ws))
       then Some ''workflows.source_interaction_id''
     else None)"

definition revision_violation :: "workflow_revision list \<Rightarrow> string option" where
  "revision_violation rs =
    (if distinct (map (\<lambda>r. (wr_workflow_id r, wr_revision r)) rs) then None
     else Some ''workflow_revisions.workflow_id, workflow_revisions.revision'')"

definition proposal_violation :: "plan_proposal list \<Rightarrow> string option" where
  "proposal_violation ps =
    (if \<not> distinct (map pp_id ps) then Some ''plan_proposals.id''
     else if \<not> distinct (map pp_project_id (filter (\<lambda>p. pp_status p = PReady) ps))
       then Some ''plan_proposals.project_id''
     else None)"

definition submission_violation :: "plan_submission list \<Rightarrow> string option" where
  "submission_violation ps =
    (if distinct (map ps_run_id ps) then None else Some ''plan_proposal_submissions.run_id'')"

definition terminal_summary_run :: "run_session \<Rightarrow> bool" where
  "terminal_summary_run r \<longleftrightarrow> r_workflow_id r \<noteq> [] \<and> r_task_id r = [] \<and> r_kind r = KConversation"

definition run_violation :: "run_session list \<Rightarrow> string option" where
  "run_violation rs =
    (if \<not> distinct (map r_id rs) then Some ''run_sessions.id''
     else if \<not> distinct (map r_source_interaction_id
         (filter (\<lambda>r. r_source_interaction_id r \<noteq> [] \<and> active_run_status (r_status r)) rs))
       then Some ''run_sessions.source_interaction_id''
     else if \<not> distinct (map r_context_id
         (filter (\<lambda>r. r_task_id r \<noteq> [] \<and> active_run_status (r_status r)) rs))
       then Some ''run_sessions.context_id''
     else if \<not> distinct (map r_robot_id (filter run_on_robot rs)) then Some ''run_sessions.robot_id''
     else if \<not> distinct (map r_workflow_id (filter terminal_summary_run rs))
       then Some ''run_sessions.workflow_id''
     else None)"

definition execution_violation :: "execution_row list \<Rightarrow> string option" where
  "execution_violation xs =
    (if \<not> distinct (map xr_id xs) then Some ''robot_executions.id''
     else if \<not> distinct (map (\<lambda>x. (xr_project_id x, xr_request_key x)) xs)
       then Some ''robot_executions.project_id, robot_executions.request_key''
     else None)"

text \<open>A statement that changes a table: refused as a whole when the result breaks a constraint.\<close>

definition checked ::
  "('r list \<Rightarrow> string option) \<Rightarrow> (db \<Rightarrow> 'r list) \<Rightarrow> ('r list \<Rightarrow> db \<Rightarrow> db) \<Rightarrow> ('r list \<Rightarrow> 'r list) \<Rightarrow>
   (db, unit) prog" where
  "checked violation get put f = (\<lambda>s.
     case violation (f (get s)) of
       Some c \<Rightarrow> (Inl (ErrUnique c), s)
     | None \<Rightarrow> (Inr (), put (f (get s)) s))"

definition exec_tasks :: "(task list \<Rightarrow> task list) \<Rightarrow> (db, unit) prog" where
  "exec_tasks = checked task_violation tasks (\<lambda>r s. s\<lparr>tasks := r\<rparr>)"

definition exec_subtasks :: "(subtask list \<Rightarrow> subtask list) \<Rightarrow> (db, unit) prog" where
  "exec_subtasks = checked subtask_violation subtasks (\<lambda>r s. s\<lparr>subtasks := r\<rparr>)"

definition exec_task_deps :: "(task_dep list \<Rightarrow> task_dep list) \<Rightarrow> (db, unit) prog" where
  "exec_task_deps = checked task_dep_violation task_deps (\<lambda>r s. s\<lparr>task_deps := r\<rparr>)"

definition exec_subtask_deps :: "(subtask_dep list \<Rightarrow> subtask_dep list) \<Rightarrow> (db, unit) prog" where
  "exec_subtask_deps = checked subtask_dep_violation subtask_deps (\<lambda>r s. s\<lparr>subtask_deps := r\<rparr>)"

definition exec_workflows :: "(workflow list \<Rightarrow> workflow list) \<Rightarrow> (db, unit) prog" where
  "exec_workflows = checked workflow_violation workflows (\<lambda>r s. s\<lparr>workflows := r\<rparr>)"

definition exec_revisions :: "(workflow_revision list \<Rightarrow> workflow_revision list) \<Rightarrow> (db, unit) prog" where
  "exec_revisions = checked revision_violation workflow_revisions (\<lambda>r s. s\<lparr>workflow_revisions := r\<rparr>)"

definition exec_proposals :: "(plan_proposal list \<Rightarrow> plan_proposal list) \<Rightarrow> (db, unit) prog" where
  "exec_proposals = checked proposal_violation plan_proposals (\<lambda>r s. s\<lparr>plan_proposals := r\<rparr>)"

definition exec_submissions :: "(plan_submission list \<Rightarrow> plan_submission list) \<Rightarrow> (db, unit) prog" where
  "exec_submissions = checked submission_violation plan_submissions (\<lambda>r s. s\<lparr>plan_submissions := r\<rparr>)"

definition exec_runs :: "(run_session list \<Rightarrow> run_session list) \<Rightarrow> (db, unit) prog" where
  "exec_runs = checked run_violation runs (\<lambda>r s. s\<lparr>runs := r\<rparr>)"

definition exec_executions :: "(execution_row list \<Rightarrow> execution_row list) \<Rightarrow> (db, unit) prog" where
  "exec_executions = checked execution_violation executions (\<lambda>r s. s\<lparr>executions := r\<rparr>)"

text \<open>An \<open>INSERT\<close> appends one row.\<close>

definition append_row :: "'r \<Rightarrow> 'r list \<Rightarrow> 'r list" where
  "append_row r rows = rows @ [r]"

lemmas exec_defs =
  exec_tasks_def exec_subtasks_def exec_task_deps_def exec_subtask_deps_def exec_workflows_def
  exec_revisions_def exec_proposals_def exec_submissions_def exec_runs_def exec_executions_def

lemma checked_Inr:
  "checked v get put f s = (Inr u, t) \<longleftrightarrow> v (f (get s)) = None \<and> t = put (f (get s)) s"
  by (auto simp: checked_def split: option.splits)

lemma checked_Inl:
  "checked v get put f s = (Inl e, t) \<longleftrightarrow> (\<exists>c. v (f (get s)) = Some c \<and> e = ErrUnique c) \<and> t = s"
  by (auto simp: checked_def split: option.splits)

text \<open>A database all of whose constraints hold, as SQLite keeps it.\<close>

definition constraints_hold :: "db \<Rightarrow> bool" where
  "constraints_hold s \<longleftrightarrow>
     task_violation (tasks s) = None \<and> subtask_violation (subtasks s) = None \<and>
     task_dep_violation (task_deps s) = None \<and> subtask_dep_violation (subtask_deps s) = None \<and>
     workflow_violation (workflows s) = None \<and> revision_violation (workflow_revisions s) = None \<and>
     proposal_violation (plan_proposals s) = None \<and> submission_violation (plan_submissions s) = None \<and>
     run_violation (runs s) = None \<and> execution_violation (executions s) = None"

definition empty_desk :: desk where
  "empty_desk = \<lparr>map_generations = [], map_relations = [], map_sources = [], agent_bindings = [],
     skill_bindings = [], scene_references = [], context_messages = [], context_summaries = [],
     project_memories = [], execution_policies = [], agent_models = [], run_checkpoints = [],
     event_rows = [], event_sequences = []\<rparr>"

definition empty_db :: db where
  "empty_db = \<lparr>projects = [], chat_sessions = [], workflows = [], tasks = [], subtasks = [],
     task_deps = [], subtask_deps = [], workflow_revisions = [], plan_proposals = [],
     plan_submissions = [], runs = [], interactions = [], executions = [], execution_events = [],
     artifact_mappings = [], robot_pilots = [], runtime_instances = [], port_leases = [],
     pilot_skills = [], desired_skills = [], skill_packages = [], pilot_enrollments = [], pilot_credentials = [],
     artifacts = [], chat_messages = [],
     semantic_maps = [], map_entities = [], desk = empty_desk, uuids_drawn = 0\<rparr>"

lemma constraints_hold_empty: "constraints_hold empty_db"
  by (simp add: constraints_hold_def empty_db_def task_violation_def subtask_violation_def
      task_dep_violation_def subtask_dep_violation_def workflow_violation_def revision_violation_def
      proposal_violation_def submission_violation_def run_violation_def execution_violation_def)

text \<open>Relations on databases that forget the supply of identifiers compose through \<open>tx\<close>.\<close>

locale db_relation = frame_relation R for R :: "db \<Rightarrow> db \<Rightarrow> bool" +
  assumes uuid_step: "R s (s\<lparr>uuids_drawn := n\<rparr>)"
begin

lemma keeps_tx: "keeps R m \<Longrightarrow> keeps R (tx m)"
  by (rule keepsI)
    (auto simp: tx_def uuid_step split: prod.splits sum.splits dest: keeps_run)

lemma keeps_new_id: "keeps R (new_id p)"
  by (rule keepsI) (simp add: new_id_def uuid_step)

lemma keeps_new_ids:
  "keeps R new_workflow_id" "keeps R new_task_id" "keeps R new_subtask_id"
  "keeps R new_plan_proposal_id" "keeps R new_run_session_id"
  by (simp_all add: new_workflow_id_def new_task_id_def new_subtask_id_def
      new_plan_proposal_id_def new_run_session_id_def keeps_new_id)

lemma keeps_checked:
  "(\<And>s. v (f (get s)) = None \<Longrightarrow> R s (put (f (get s)) s)) \<Longrightarrow> keeps R (checked v get put f)"
  by (rule keepsI) (auto simp: checked_def frame_refl split: option.splits)

lemmas db_keeps_rules = keeps_rules keeps_tx keeps_new_id keeps_new_ids

end

text \<open>Two databases with the same tables.\<close>

definition same_tables :: "db \<Rightarrow> db \<Rightarrow> bool" where
  "same_tables s t \<longleftrightarrow> (\<exists>n. t = s\<lparr>uuids_drawn := n\<rparr>)"

lemma same_tables_refl [simp]: "same_tables s s"
  unfolding same_tables_def by (rule exI[of _ "uuids_drawn s"]) simp

lemma same_tables_uuids [simp]: "same_tables s (s\<lparr>uuids_drawn := n\<rparr>)"
  by (auto simp: same_tables_def)

lemma same_tables_trans: "same_tables s t \<Longrightarrow> same_tables t u \<Longrightarrow> same_tables s u"
  by (auto simp: same_tables_def)

lemma same_tables_proj:
  assumes "same_tables s t"
  shows "workflows t = workflows s" "tasks t = tasks s" "subtasks t = subtasks s"
    "task_deps t = task_deps s" "subtask_deps t = subtask_deps s" "runs t = runs s"
    "executions t = executions s" "projects t = projects s" "interactions t = interactions s"
    "workflow_revisions t = workflow_revisions s" "plan_proposals t = plan_proposals s"
    "plan_submissions t = plan_submissions s" "robot_pilots t = robot_pilots s"
    "chat_sessions t = chat_sessions s" "execution_events t = execution_events s"
  using assms by (auto simp: same_tables_def)

interpretation same: db_relation same_tables
  by unfold_locales (auto intro: same_tables_trans)

lemma tx_error_same: "tx m s = (Inl e, t) \<Longrightarrow> same_tables s t"
  by (auto dest: tx_error_rolls_back)

end
