(* ===== verification/StoreGraph.thy ===== *)
theory StoreGraph
  imports StoreData "HOL-Library.AList"
begin

text \<open>
  The two plan validators of \<open>internal/store/workflow.go\<close>: \<open>validateDraft\<close> for the Task graph
  of a Workflow draft and \<open>validateSubTaskDrafts\<close> for the SubTask graph of one Task.  Both run
  Kahn's algorithm over an indegree map; the first deletes a node from the map when it leaves
  the queue and tests that the map is empty in the end, the second counts the nodes it visits.
  Go ranges over its maps in an unspecified order, and so the order of the initial queue is
  unspecified; the lemmas below hold for every order of the node list.

  \<open>kahn_inv\<close> is the shared loop invariant; \<open>kahn_delete_iff\<close> and \<open>kahn_count_iff\<close> say that each
  loop accepts exactly the acyclic graphs.
\<close>

section \<open>Kahn's algorithm\<close>

definition degree_of :: "(string \<times> int) list \<Rightarrow> string \<Rightarrow> int" where
  "degree_of ind k = (case map_of ind k of Some d \<Rightarrow> d | None \<Rightarrow> 0)"

text \<open>\<open>for _, next := range adj[id] { indegree[next]--; if indegree[next] == 0 { queue = append(queue, next) } }\<close>\<close>

fun relax :: "string list \<Rightarrow> (string \<times> int) list \<Rightarrow> string list \<Rightarrow> (string \<times> int) list \<times> string list" where
  "relax [] ind q = (ind, q)"
| "relax (n # ns) ind q =
    (let d = degree_of ind n - 1
     in relax ns (AList.update n d ind) (if d = 0 then q @ [n] else q))"

text \<open>An edge is a pair \<open>(dependency, dependent)\<close>; \<open>adj[id]\<close> lists the dependents in the order of
  the source.\<close>

definition dependents :: "(string \<times> string) list \<Rightarrow> string \<Rightarrow> string list" where
  "dependents es x = map snd (filter (\<lambda>e. fst e = x) es)"

definition positive :: "(string \<times> int) list \<Rightarrow> nat" where
  "positive ind = length (filter (\<lambda>e. 0 < snd e) ind)"

lemma positive_update_zero:
  "degree_of ind n = 1 \<Longrightarrow> positive (AList.update n 0 ind) + 1 = positive ind"
  by (induction ind) (auto simp: positive_def degree_of_def split: option.splits if_splits)

lemma positive_update_less:
  "d \<le> degree_of ind n \<Longrightarrow> positive (AList.update n d ind) \<le> positive ind"
  by (induction ind) (auto simp: positive_def degree_of_def split: option.splits if_splits)

lemma positive_delete: "positive (AList.delete n ind) \<le> positive ind"
  by (induction ind) (auto simp: positive_def)

lemma relax_measure:
  "relax ns ind q = (ind', q') \<Longrightarrow> length q' + positive ind' \<le> length q + positive ind"
proof (induction ns arbitrary: ind q)
  case (Cons n ns)
  let ?d = "degree_of ind n - 1"
  have step: "relax ns (AList.update n ?d ind) (if ?d = 0 then q @ [n] else q) = (ind', q')"
    using Cons.prems by (simp add: Let_def)
  have "positive (AList.update n ?d ind) + (if ?d = 0 then 1 else 0) \<le> positive ind"
    using positive_update_zero[of ind n] positive_update_less[of ?d ind n] by auto
  then show ?case using Cons.IH[OF step] by (auto split: if_splits)
qed simp

function kahn_delete ::
  "(string \<times> string) list \<Rightarrow> (string \<times> int) list \<Rightarrow> string list \<Rightarrow> (string \<times> int) list" where
  "kahn_delete es ind [] = ind"
| "kahn_delete es ind (x # q) =
    (case relax (dependents es x) (AList.delete x ind) q of (ind', q') \<Rightarrow> kahn_delete es ind' q')"
  by pat_completeness auto
termination
proof (relation "measure (\<lambda>(es, ind, q). length q + positive ind)")
  fix es ind x q ind' q'
  assume "(ind', q') = relax (dependents es x) (AList.delete x ind) q"
  then have "relax (dependents es x) (AList.delete x ind) q = (ind', q')" by simp
  from relax_measure[OF this] positive_delete[of x ind]
  show "((es, ind', q'), es, ind, x # q) \<in> measure (\<lambda>(es, ind, q). length q + positive ind)"
    by simp
qed simp

function kahn_count ::
  "(string \<times> string) list \<Rightarrow> (string \<times> int) list \<Rightarrow> string list \<Rightarrow> nat \<Rightarrow> nat" where
  "kahn_count es ind [] visited = visited"
| "kahn_count es ind (x # q) visited =
    (case relax (dependents es x) ind q of (ind', q') \<Rightarrow> kahn_count es ind' q' (visited + 1))"
  by pat_completeness auto
termination
proof (relation "measure (\<lambda>(es, ind, q, v). length q + positive ind)")
  fix es ind x q v ind' q'
  assume "(ind', q') = relax (dependents es x) ind q"
  then have "relax (dependents es x) ind q = (ind', q')" by simp
  from relax_measure[OF this]
  show "((es, ind', q', v + 1), es, ind, x # q, v) \<in> measure (\<lambda>(es, ind, q, v). length q + positive ind)"
    by simp
qed simp

text \<open>\<open>indegree[id] = 0\<close> for every node, then one increment per edge.\<close>

definition indegrees :: "string list \<Rightarrow> (string \<times> string) list \<Rightarrow> (string \<times> int) list" where
  "indegrees ids es =
    fold (\<lambda>e ind. AList.update (snd e) (degree_of ind (snd e) + 1) ind) es (map (\<lambda>i. (i, 0)) ids)"

definition zero_degree :: "(string \<times> int) list \<Rightarrow> string list" where
  "zero_degree ind = map fst (filter (\<lambda>e. snd e = 0) ind)"

definition kahn_deletes_all :: "string list \<Rightarrow> (string \<times> string) list \<Rightarrow> bool" where
  "kahn_deletes_all ids es =
    (let ind = indegrees ids es in kahn_delete es ind (zero_degree ind) = [])"

definition kahn_visits_all :: "string list \<Rightarrow> (string \<times> string) list \<Rightarrow> bool" where
  "kahn_visits_all ids es =
    (let ind = indegrees ids es in kahn_count es ind (zero_degree ind) 0 = length ids)"

section \<open>The loop invariant\<close>

definition open_degree :: "(string \<times> string) list \<Rightarrow> string set \<Rightarrow> string \<Rightarrow> nat" where
  "open_degree es P k = count_where (\<lambda>e. snd e = k \<and> fst e \<notin> P) es"

definition kahn_inv ::
  "string set \<Rightarrow> (string \<times> string) list \<Rightarrow> string set \<Rightarrow> (string \<Rightarrow> int) \<Rightarrow> string list \<Rightarrow> bool" where
  "kahn_inv V es P deg q \<longleftrightarrow>
     P \<subseteq> V \<and>
     (\<forall>k \<in> V - P. deg k = int (open_degree es P k)) \<and>
     distinct q \<and> set q = {k \<in> V - P. deg k = 0} \<and>
     (\<forall>e \<in> set es. snd e \<in> P \<longrightarrow> fst e \<in> P) \<and>
     (\<forall>S. S \<subseteq> P \<longrightarrow> S \<noteq> {} \<longrightarrow> (\<exists>m \<in> S. \<forall>a \<in> S. (a, m) \<notin> set es))"

lemma degree_of_update: "degree_of (AList.update n d ind) k = (if k = n then d else degree_of ind k)"
  by (simp add: degree_of_def update_conv')

lemma degree_of_delete: "k \<noteq> n \<Longrightarrow> degree_of (AList.delete n ind) k = degree_of ind k"
  by (simp add: degree_of_def delete_conv')

lemma relax_degree:
  "relax ns ind q = (ind', q') \<Longrightarrow> degree_of ind' k = degree_of ind k - int (count_list ns k)"
proof (induction ns arbitrary: ind q)
  case (Cons n ns)
  from Cons.prems have "relax ns (AList.update n (degree_of ind n - 1) ind)
      (if degree_of ind n - 1 = 0 then q @ [n] else q) = (ind', q')"
    by (simp add: Let_def)
  from Cons.IH[OF this] show ?case by (simp add: degree_of_update)
qed simp

lemma relax_queue:
  assumes "relax ns ind q = (ind', q')"
    and "\<forall>k. int (count_list ns k) \<le> degree_of ind k \<or> k \<notin> set ns"
    and "distinct q" "set q \<inter> set ns = {}"
  shows "distinct q' \<and> set q' = set q \<union> {k \<in> set ns. degree_of ind k = int (count_list ns k)}"
  using assms
proof (induction ns arbitrary: ind q)
  case Nil
  then show ?case by simp
next
  case (Cons n ns)
  let ?d = "degree_of ind n - 1"
  let ?q = "if ?d = 0 then q @ [n] else q"
  have run: "relax ns (AList.update n ?d ind) ?q = (ind', q')"
    using Cons.prems(1) by (simp add: Let_def)
  have n_bound: "int (count_list ns n) \<le> ?d"
    using Cons.prems(2)[rule_format, of n] by auto
  have n_last: "n \<notin> set ns" if "?d = 0"
    using n_bound that count_list_0_iff[of ns n] by simp
  have bound: "\<forall>k. int (count_list ns k) \<le> degree_of (AList.update n ?d ind) k \<or> k \<notin> set ns"
  proof
    fix k
    show "int (count_list ns k) \<le> degree_of (AList.update n ?d ind) k \<or> k \<notin> set ns"
      using n_bound Cons.prems(2)[rule_format, of k] by (cases "k = n") (auto simp: degree_of_update)
  qed
  have "distinct ?q" "set ?q \<inter> set ns = {}"
    using Cons.prems(3,4) n_last by auto
  from Cons.IH[OF run bound this]
  have IH: "distinct q'"
    "set q' = set ?q \<union> {k \<in> set ns. degree_of (AList.update n ?d ind) k = int (count_list ns k)}"
    by auto
  have "set ?q \<union> {k \<in> set ns. degree_of (AList.update n ?d ind) k = int (count_list ns k)} =
      set q \<union> {k \<in> set (n # ns). degree_of ind k = int (count_list (n # ns) k)}"
    using n_last n_bound count_list_0_iff[of ns n] by (auto simp: degree_of_update split: if_splits)
  with IH show ?case by simp
qed

lemma count_dependents: "count_list (dependents es x) k = count_where (\<lambda>e. snd e = k \<and> fst e = x) es"
  by (induction es) (auto simp: dependents_def count_where_def)

lemma open_degree_insert:
  "x \<notin> P \<Longrightarrow> open_degree es P k = open_degree es (insert x P) k + count_list (dependents es x) k"
  unfolding count_dependents
  by (induction es) (auto simp: open_degree_def count_where_def)

lemma set_dependents: "set (dependents es x) = {b. (x, b) \<in> set es}"
  by (force simp: dependents_def)

lemma open_degree_0: "open_degree es P k = 0 \<longleftrightarrow> (\<forall>a. (a, k) \<in> set es \<longrightarrow> a \<in> P)"
  by (auto simp: open_degree_def count_where_0)

lemma kahn_inv_step:
  assumes inv: "kahn_inv V es P deg (x # q)"
    and agree: "\<And>k. k \<noteq> x \<Longrightarrow> degree_of ind k = deg k"
    and run: "relax (dependents es x) ind q = (ind', q')"
    and edges: "\<forall>e \<in> set es. fst e \<in> V \<and> snd e \<in> V"
  shows "kahn_inv V es (insert x P) (degree_of ind') q' \<and> x \<in> V - P"
proof -
  let ?ns = "dependents es x"
  have P: "P \<subseteq> V" and deg: "\<forall>k \<in> V - P. deg k = int (open_degree es P k)"
    and q: "distinct (x # q)" "set (x # q) = {k \<in> V - P. deg k = 0}"
    and closed: "\<forall>e \<in> set es. snd e \<in> P \<longrightarrow> fst e \<in> P"
    and minimal: "\<And>S. S \<subseteq> P \<Longrightarrow> S \<noteq> {} \<Longrightarrow> \<exists>m \<in> S. \<forall>a \<in> S. (a, m) \<notin> set es"
    using inv by (auto simp: kahn_inv_def)
  have x: "x \<in> V - P" "deg x = 0" using q by auto
  then have preds: "\<forall>a. (a, x) \<in> set es \<longrightarrow> a \<in> P"
    using deg by (simp flip: open_degree_0)
  have no_loop: "(x, x) \<notin> set es" using preds x by auto
  have ns: "set ?ns \<subseteq> V - insert x P"
    using edges closed x no_loop by (force simp: set_dependents)
  have split_deg: "open_degree es P k = open_degree es (insert x P) k + count_list ?ns k" for k
    using x by (intro open_degree_insert) simp
  have deg': "degree_of ind' k = int (open_degree es (insert x P) k)" if "k \<in> V - insert x P" for k
    using that relax_degree[OF run, of k] agree[of k] deg split_deg[of k] by auto
  have bound: "\<forall>k. int (count_list ?ns k) \<le> degree_of ind k \<or> k \<notin> set ?ns"
  proof
    fix k
    show "int (count_list ?ns k) \<le> degree_of ind k \<or> k \<notin> set ?ns"
    proof (cases "k \<in> set ?ns")
      case True
      then have "k \<in> V - P" "k \<noteq> x" using ns by auto
      then have "degree_of ind k = int (open_degree es P k)" using agree deg by simp
      then show ?thesis using split_deg[of k] by simp
    qed simp
  qed
  have disj: "set q \<inter> set ?ns = {}"
  proof -
    have "deg k > 0" if "k \<in> set ?ns" for k
      using that ns deg split_deg[of k] count_list_0_iff[of ?ns k] by fastforce
    then show ?thesis using q by force
  qed
  have q': "distinct q'" "set q' = set q \<union> {k \<in> set ?ns. degree_of ind k = int (count_list ?ns k)}"
    using relax_queue[OF run bound _ disj] q by auto
  have "set q' = {k \<in> V - insert x P. degree_of ind' k = 0}"
  proof (rule set_eqI)
    fix k
    show "k \<in> set q' \<longleftrightarrow> k \<in> {k \<in> V - insert x P. degree_of ind' k = 0}"
    proof (cases "k \<in> V - insert x P")
      case True
      then have "degree_of ind' k = deg k - int (count_list ?ns k)"
        using relax_degree[OF run, of k] agree[of k] by auto
      moreover have "k \<in> set q \<longleftrightarrow> deg k = 0" using True q by auto
      moreover have "k \<notin> set ?ns \<longleftrightarrow> count_list ?ns k = 0" by (simp add: count_list_0_iff)
      moreover have "degree_of ind k = deg k" using True agree by auto
      moreover have "0 \<le> degree_of ind' k" using deg' True by simp
      ultimately show ?thesis using True q'(2) by simp linarith
    next
      case False
      then show ?thesis using q q' ns by auto
    qed
  qed
  moreover have "\<exists>m \<in> S. \<forall>a \<in> S. (a, m) \<notin> set es" if S: "S \<subseteq> insert x P" "S \<noteq> {}" for S
  proof (cases "S \<subseteq> {x}")
    case True
    then show ?thesis using S no_loop by blast
  next
    case False
    then have "S - {x} \<subseteq> P" "S - {x} \<noteq> {}" using S by auto
    then obtain m where m: "m \<in> S - {x}" "\<forall>a \<in> S - {x}. (a, m) \<notin> set es"
      using minimal by meson
    then have "(x, m) \<notin> set es" using closed x S by force
    with m show ?thesis by blast
  qed
  ultimately show ?thesis
    using P x deg' q'(1) closed preds by (auto simp: kahn_inv_def)
qed

lemma minimal_imp_acyclic:
  assumes "set es \<subseteq> P \<times> P"
    and minimal: "\<And>S. S \<subseteq> P \<Longrightarrow> S \<noteq> {} \<Longrightarrow> \<exists>m \<in> S. \<forall>a \<in> S. (a, m) \<notin> set es"
  shows "acyclic (set es)"
proof (rule acyclicI, rule allI, rule notI)
  fix z
  assume cyc: "(z, z) \<in> (set es)\<^sup>+"
  let ?S = "{y. (z, y) \<in> (set es)\<^sup>+ \<and> (y, z) \<in> (set es)\<^sup>+}"
  have "?S \<subseteq> P"
  proof
    fix y
    assume "y \<in> ?S"
    then obtain w where "(w, y) \<in> set es" by (blast dest: tranclD2)
    then show "y \<in> P" using assms(1) by blast
  qed
  moreover have "?S \<noteq> {}" using cyc by blast
  ultimately obtain m where m: "m \<in> ?S" "\<forall>a \<in> ?S. (a, m) \<notin> set es"
    using minimal[of ?S] by blast
  from m(1) have "(z, m) \<in> (set es)\<^sup>+" by simp
  then show False
  proof (cases rule: tranclE)
    case base
    then show ?thesis using m(2) cyc by auto
  next
    case (step c)
    then have "(c, z) \<in> (set es)\<^sup>+" using m(1) by (auto intro: trancl_into_trancl2)
    then show ?thesis using step m(2) by auto
  qed
qed

lemma kahn_inv_final:
  assumes inv: "kahn_inv V es P deg []"
    and edges: "\<forall>e \<in> set es. fst e \<in> V \<and> snd e \<in> V"
  shows "V = P \<longleftrightarrow> acyclic (set es)"
proof
  assume "V = P"
  show "acyclic (set es)"
  proof (intro minimal_imp_acyclic)
    show "set es \<subseteq> P \<times> P" using edges \<open>V = P\<close> by force
    fix S
    assume "S \<subseteq> P" "S \<noteq> {}"
    then show "\<exists>m \<in> S. \<forall>a \<in> S. (a, m) \<notin> set es" using inv unfolding kahn_inv_def by meson
  qed
next
  assume "acyclic (set es)"
  then have wf: "wf (set es)" by (simp add: finite_acyclic_wf)
  show "V = P"
  proof (rule ccontr)
    assume "V \<noteq> P"
    then obtain k where "k \<in> V - P" using inv by (auto simp: kahn_inv_def)
    from wfE_min[OF wf this] obtain m where m: "m \<in> V - P" "\<And>a. (a, m) \<in> set es \<Longrightarrow> a \<notin> V - P"
      by blast
    then have "\<forall>a. (a, m) \<in> set es \<longrightarrow> a \<in> P" using edges by force
    then have "open_degree es P m = 0" by (simp add: open_degree_0)
    then show False using inv m(1) by (auto simp: kahn_inv_def)
  qed
qed

lemma degree_of_indegrees_fold:
  "degree_of (fold (\<lambda>e ind. AList.update (snd e) (degree_of ind (snd e) + 1) ind) es ind) k =
    degree_of ind k + int (count_where (\<lambda>e. snd e = k) es)"
  by (induction es arbitrary: ind) (auto simp: degree_of_update count_where_def)

lemma degree_of_indegrees: "degree_of (indegrees ids es) k = int (count_where (\<lambda>e. snd e = k) es)"
proof -
  have "degree_of (map (\<lambda>i. (i, 0)) ids) k = 0"
    by (induction ids) (auto simp: degree_of_def)
  then show ?thesis by (simp add: indegrees_def degree_of_indegrees_fold)
qed

lemma keys_indegrees:
  assumes "\<forall>e \<in> set es. snd e \<in> set ids"
  shows "map fst (indegrees ids es) = ids"
proof -
  have "map fst (fold (\<lambda>e ind. AList.update (snd e) (degree_of ind (snd e) + 1) ind) es ind) = map fst ind"
    if "\<forall>e \<in> set es. snd e \<in> fst ` set ind" for ind
    using that
  proof (induction es arbitrary: ind)
    case (Cons e es)
    let ?ind = "AList.update (snd e) (degree_of ind (snd e) + 1) ind"
    have "map fst ?ind = map fst ind" using Cons.prems by (simp add: update_keys)
    from this have "fst ` set ?ind = fst ` set ind" by (metis list.set_map)
    then have "\<forall>e \<in> set es. snd e \<in> fst ` set ?ind" using Cons.prems by auto
    with Cons.IH[of ?ind] \<open>map fst ?ind = map fst ind\<close> show ?case by simp
  qed simp
  from this[of "map (\<lambda>i. (i, 0)) ids"] show ?thesis
    using assms by (auto simp: indegrees_def comp_def image_image)
qed

lemma zero_degree_set:
  "distinct (map fst ind) \<Longrightarrow> set (zero_degree ind) = {k \<in> fst ` set ind. degree_of ind k = 0}"
proof (induction ind)
  case (Cons e ind)
  then show ?case
    by (cases e) (force simp: zero_degree_def degree_of_def split: if_splits)
qed (simp add: zero_degree_def)

lemma kahn_inv_start:
  assumes "distinct ids" and edges: "\<forall>e \<in> set es. fst e \<in> set ids \<and> snd e \<in> set ids"
  shows "kahn_inv (set ids) es {} (degree_of (indegrees ids es)) (zero_degree (indegrees ids es))"
proof -
  have keys: "map fst (indegrees ids es) = ids" using edges by (intro keys_indegrees) auto
  then have "distinct (map fst (indegrees ids es))" using assms by simp
  from zero_degree_set[OF this]
  have "set (zero_degree (indegrees ids es)) =
      {k \<in> set (map fst (indegrees ids es)). degree_of (indegrees ids es) k = 0}"
    by simp
  then have "set (zero_degree (indegrees ids es)) = {k \<in> set ids. degree_of (indegrees ids es) k = 0}"
    by (simp only: keys)
  moreover have "distinct (zero_degree (indegrees ids es))"
    using \<open>distinct (map fst _)\<close> by (auto simp: zero_degree_def distinct_map_filter)
  ultimately show ?thesis
    by (simp add: kahn_inv_def degree_of_indegrees open_degree_def)
qed

lemma relax_keys:
  "relax ns ind q = (ind', q') \<Longrightarrow> set ns \<subseteq> fst ` set ind \<Longrightarrow> map fst ind' = map fst ind"
proof (induction ns arbitrary: ind q)
  case (Cons n ns)
  let ?d = "degree_of ind n - 1"
  have run: "relax ns (AList.update n ?d ind) (if ?d = 0 then q @ [n] else q) = (ind', q')"
    using Cons.prems(1) by (simp add: Let_def)
  have keys: "map fst (AList.update n ?d ind) = map fst ind"
    using Cons.prems(2) by (auto simp: update_keys)
  then have "set ns \<subseteq> fst ` set (AList.update n ?d ind)"
    using Cons.prems(2) by (metis list.set_map insert_subset list.simps(15))
  from Cons.IH[OF run this] keys show ?case by simp
qed simp

lemma kahn_delete_correct:
  assumes "kahn_inv V es P (degree_of ind) q" "fst ` set ind = V - P"
    and edges: "\<forall>e \<in> set es. fst e \<in> V \<and> snd e \<in> V"
  shows "kahn_delete es ind q = [] \<longleftrightarrow> acyclic (set es)"
  using assms
proof (induction es ind q arbitrary: P rule: kahn_delete.induct)
  case (1 es ind)
  then show ?case using kahn_inv_final[OF 1(1) 1(3)] by (auto simp: kahn_inv_def)
next
  case (2 es ind x q)
  obtain ind' q' where run: "relax (dependents es x) (AList.delete x ind) q = (ind', q')"
    by fastforce
  have "kahn_inv V es (insert x P) (degree_of ind') q' \<and> x \<in> V - P"
    by (rule kahn_inv_step[OF 2(2) degree_of_delete run 2(4)])
  then have inv: "kahn_inv V es (insert x P) (degree_of ind') q'" and x: "x \<in> V - P" by auto
  have keys: "fst ` set (AList.delete x ind) = V - insert x P"
  proof -
    have "fst ` set (AList.delete x ind) = set (map fst (AList.delete x ind))" by simp
    also have "\<dots> = V - insert x P" using 2(3) by (simp only: delete_keys) auto
    finally show ?thesis .
  qed
  have "set (dependents es x) \<subseteq> V - insert x P"
    using inv 2(2) 2(4) x unfolding kahn_inv_def set_dependents
    by (smt (verit, ccfv_threshold) Diff_iff insert_iff mem_Collect_eq subsetI fst_conv snd_conv
        list.set_intros(1) open_degree_0 of_nat_eq_0_iff)
  then have "map fst ind' = map fst (AList.delete x ind)"
    using relax_keys[OF run] keys by simp
  then have "fst ` set ind' = V - insert x P"
    using keys by (metis list.set_map)
  from 2(1)[OF run[symmetric] inv this 2(4)] show ?case by (simp add: run)
qed

lemma kahn_count_correct:
  assumes "kahn_inv V es P (degree_of ind) q" "finite V" "n = card P"
    and edges: "\<forall>e \<in> set es. fst e \<in> V \<and> snd e \<in> V"
  shows "kahn_count es ind q n = card V \<longleftrightarrow> acyclic (set es)"
  using assms
proof (induction es ind q n arbitrary: P rule: kahn_count.induct)
  case (1 es ind n)
  then have "P \<subseteq> V" by (simp add: kahn_inv_def)
  then have "card P = card V \<longleftrightarrow> V = P" using 1(2) by (auto dest: card_subset_eq)
  then show ?case using kahn_inv_final[OF 1(1) 1(4)] 1(3) by simp
next
  case (2 es ind x q n)
  obtain ind' q' where run: "relax (dependents es x) ind q = (ind', q')"
    by fastforce
  have "kahn_inv V es (insert x P) (degree_of ind') q' \<and> x \<in> V - P"
    by (rule kahn_inv_step[OF 2(2) refl run 2(5)])
  then have inv: "kahn_inv V es (insert x P) (degree_of ind') q'" and x: "x \<in> V - P" by auto
  have "finite P" using 2(2,3) by (auto simp: kahn_inv_def intro: finite_subset)
  then have "n + 1 = card (insert x P)" using x 2(4) by simp
  from 2(1)[OF run[symmetric] inv 2(3) this 2(5)] show ?case by (simp add: run)
qed

theorem kahn_delete_iff:
  assumes "distinct ids" "\<forall>e \<in> set es. fst e \<in> set ids \<and> snd e \<in> set ids"
  shows "kahn_deletes_all ids es \<longleftrightarrow> acyclic (set es)"
proof -
  have "map fst (indegrees ids es) = ids" using assms(2) by (intro keys_indegrees) auto
  then have "fst ` set (indegrees ids es) = set ids - {}" by (metis Diff_empty list.set_map)
  from kahn_delete_correct[OF kahn_inv_start[OF assms] this assms(2)]
  show ?thesis by (simp add: kahn_deletes_all_def)
qed

theorem kahn_count_iff:
  assumes "distinct ids" "\<forall>e \<in> set es. fst e \<in> set ids \<and> snd e \<in> set ids"
  shows "kahn_visits_all ids es \<longleftrightarrow> acyclic (set es)"
  using kahn_count_correct[OF kahn_inv_start[OF assms] _ _ assms(2), of 0] distinct_card[OF assms(1)]
  by (simp add: kahn_visits_all_def)

end
