(* ===== verification/StorePlanCheck.thy ===== *)
theory StorePlanCheck
  imports StoreGraph
begin

text \<open>
  \<open>validateDraft\<close> and \<open>validateSubTaskDrafts\<close> of \<open>internal/store/workflow.go\<close>.  The Go code
  writes the identifiers it draws and the trimmed roles into the slices of its argument, which
  the caller goes on to use; the model returns the completed draft.

  \<open>well_formed_draft\<close> is the contract a plan has to meet before it may become a Workflow:
  \<open>validate_draft_sound\<close> says an accepted draft meets it, \<open>validate_draft_named\<close> that on a draft
  that names its nodes the validator decides it and changes nothing.
\<close>

section \<open>The code\<close>

definition valid_subtask_kind :: "string \<Rightarrow> bool" where
  "valid_subtask_kind kind \<longleftrightarrow> kind = ''robot_skill'' \<or> kind = ''agent_step''"

text \<open>\<open>fmt.Errorf("...: %w", ErrInvalidState)\<close>\<close>

definition invalid :: "string \<Rightarrow> error" where
  "invalid m = Wrapped m ErrInvalidState"

definition id_or_new :: "(db, string) prog \<Rightarrow> string \<Rightarrow> (db, string) prog" where
  "id_or_new draw i = (if i = [] then draw else ok i)"

fun name_subtasks ::
  "string list \<Rightarrow> subtask_draft list \<Rightarrow> (db, subtask_draft list \<times> string list) prog" where
  "name_subtasks seen [] = ok ([], seen)"
| "name_subtasks seen (sub # rest) =
    (if trim_space (sdr_goal sub) = [] then err (invalid ''SubTask goal is empty'')
     else if \<not> valid_subtask_kind (sdr_kind sub) then err (invalid ''SubTask kind is invalid'')
     else go (id_or_new new_subtask_id (sdr_id sub)) (\<lambda>i.
       if i \<in> set seen then err (invalid ''SubTask ID is duplicated'')
       else go (name_subtasks (i # seen) rest) (\<lambda>(subs, ids).
         ok (sub\<lparr>sdr_id := i\<rparr> # subs, ids))))"

definition check_subtask_dep :: "string list \<Rightarrow> string \<Rightarrow> string \<Rightarrow> (db, unit) prog" where
  "check_subtask_dep ids self d =
    (if d = self then err (invalid ''SubTask depends on itself'')
     else if d \<notin> set ids then err (invalid ''SubTask dependency does not exist'')
     else ok ())"

definition check_subtask_deps :: "string list \<Rightarrow> subtask_draft list \<Rightarrow> (db, unit) prog" where
  "check_subtask_deps ids subs =
    for_each (\<lambda>sub. for_each (check_subtask_dep ids (sdr_id sub)) (sdr_depends_on sub)) subs"

fun name_tasks ::
  "string list \<Rightarrow> task_draft list \<Rightarrow> (db, task_draft list \<times> string list) prog" where
  "name_tasks seen [] = ok ([], seen)"
| "name_tasks seen (task # rest) =
    (if trim_space (tdr_goal task) = [] then err (invalid ''Task goal is empty'')
     else let role = trim_space (tdr_required_role task) in
       if role = [] then err (invalid ''Task required_role is empty'')
       else go (id_or_new new_task_id (tdr_id task)) (\<lambda>i.
         if i \<in> set seen then err (invalid ''Task ID is duplicated'')
         else go (name_subtasks [] (tdr_subtasks task)) (\<lambda>(subs, sub_ids).
           go (check_subtask_deps sub_ids subs) (\<lambda>_.
             go (name_tasks (i # seen) rest) (\<lambda>(tasks, ids).
               ok (task\<lparr>tdr_required_role := role, tdr_id := i, tdr_subtasks := subs\<rparr> # tasks, ids))))))"

definition check_task_dep :: "string list \<Rightarrow> string \<times> string \<Rightarrow> (db, unit) prog" where
  "check_task_dep ids d =
    (if fst d = snd d then err (invalid ''Task depends on itself'')
     else if fst d \<notin> set ids then err (invalid ''dependent Task does not exist'')
     else if snd d \<notin> set ids then err (invalid ''prerequisite Task does not exist'')
     else ok ())"

text \<open>\<open>adj[dep.DependsOnTaskID] = append(..., dep.TaskID)\<close>\<close>

definition task_edges :: "(string \<times> string) list \<Rightarrow> (string \<times> string) list" where
  "task_edges ds = map (\<lambda>d. (snd d, fst d)) ds"

definition validate_draft :: "workflow_draft \<Rightarrow> (db, workflow_draft) prog" where
  "validate_draft d =
    (if trim_space (wdr_goal d) = [] then err (invalid ''goal is empty'')
     else go (name_tasks [] (wdr_tasks d)) (\<lambda>(tasks, ids).
       go (for_each (check_task_dep ids) (wdr_dependencies d)) (\<lambda>_.
         if kahn_deletes_all ids (task_edges (wdr_dependencies d)) then ok (d\<lparr>wdr_tasks := tasks\<rparr>)
         else err (invalid ''Task dependencies have a cycle''))))"

fun name_items ::
  "string list \<Rightarrow> subtask_draft list \<Rightarrow> (db, subtask_draft list \<times> string list) prog" where
  "name_items seen [] = ok ([], seen)"
| "name_items seen (item # rest) =
    (if trim_space (sdr_goal item) = [] \<or> \<not> valid_subtask_kind (sdr_kind item) then err ErrInvalidState
     else go (id_or_new new_subtask_id (sdr_id item)) (\<lambda>i.
       if i \<in> set seen then err ErrInvalidState
       else go (name_items (i # seen) rest) (\<lambda>(items, ids).
         ok (item\<lparr>sdr_id := i\<rparr> # items, ids))))"

definition check_item_dep :: "string list \<Rightarrow> string \<Rightarrow> string \<Rightarrow> (db, unit) prog" where
  "check_item_dep ids self d = (if d = self \<or> d \<notin> set ids then err ErrInvalidState else ok ())"

definition subtask_edges :: "subtask_draft list \<Rightarrow> (string \<times> string) list" where
  "subtask_edges items = concat (map (\<lambda>it. map (\<lambda>d. (d, sdr_id it)) (sdr_depends_on it)) items)"

definition validate_subtask_drafts :: "subtask_draft list \<Rightarrow> (db, subtask_draft list) prog" where
  "validate_subtask_drafts items =
    (if items = [] then err ErrInvalidState
     else go (name_items [] items) (\<lambda>(named, ids).
       go (for_each (\<lambda>it. for_each (check_item_dep ids (sdr_id it)) (sdr_depends_on it)) named) (\<lambda>_.
         if kahn_visits_all ids (subtask_edges named) then ok named else err ErrInvalidState)))"

text \<open>\<open>ValidateSubTaskDrafts\<close>: the same check on a copy, whose completed items are dropped.\<close>

definition validate_subtask_drafts_copy :: "subtask_draft list \<Rightarrow> (db, unit) prog" where
  "validate_subtask_drafts_copy items = go (validate_subtask_drafts items) (\<lambda>_. ok ())"

section \<open>The contract\<close>

definition subtasks_ok :: "subtask_draft list \<Rightarrow> bool" where
  "subtasks_ok subs \<longleftrightarrow>
     (\<forall>sub \<in> set subs. trim_space (sdr_goal sub) \<noteq> [] \<and> valid_subtask_kind (sdr_kind sub) \<and> sdr_id sub \<noteq> []) \<and>
     distinct (map sdr_id subs) \<and>
     (\<forall>sub \<in> set subs. \<forall>d \<in> set (sdr_depends_on sub). d \<noteq> sdr_id sub \<and> d \<in> sdr_id ` set subs)"

definition task_ok :: "task_draft \<Rightarrow> bool" where
  "task_ok t \<longleftrightarrow> trim_space (tdr_goal t) \<noteq> [] \<and> tdr_required_role t \<noteq> [] \<and>
     trim_space (tdr_required_role t) = tdr_required_role t \<and> tdr_id t \<noteq> [] \<and>
     subtasks_ok (tdr_subtasks t)"

definition well_formed_draft :: "workflow_draft \<Rightarrow> bool" where
  "well_formed_draft d \<longleftrightarrow>
     trim_space (wdr_goal d) \<noteq> [] \<and>
     (\<forall>t \<in> set (wdr_tasks d). task_ok t) \<and> distinct (map tdr_id (wdr_tasks d)) \<and>
     (\<forall>e \<in> set (wdr_dependencies d). fst e \<in> tdr_id ` set (wdr_tasks d) \<and> snd e \<in> tdr_id ` set (wdr_tasks d)) \<and>
     acyclic (set (wdr_dependencies d))"

text \<open>A SubTask plan of \<open>SetTaskSubTasks\<close>: the same, not empty, and acyclic.\<close>

definition well_formed_items :: "subtask_draft list \<Rightarrow> bool" where
  "well_formed_items items \<longleftrightarrow> items \<noteq> [] \<and> subtasks_ok items \<and>
     acyclic {(sdr_id it, d) | it d. it \<in> set items \<and> d \<in> set (sdr_depends_on it)}"

definition named_subtasks :: "subtask_draft list \<Rightarrow> bool" where
  "named_subtasks subs \<longleftrightarrow> (\<forall>sub \<in> set subs. sdr_id sub \<noteq> [])"

definition named_draft :: "workflow_draft \<Rightarrow> bool" where
  "named_draft d \<longleftrightarrow> (\<forall>t \<in> set (wdr_tasks d). tdr_id t \<noteq> [] \<and> named_subtasks (tdr_subtasks t))"

definition trim_role :: "task_draft \<Rightarrow> task_draft" where
  "trim_role t = t\<lparr>tdr_required_role := trim_space (tdr_required_role t)\<rparr>"

definition trim_roles :: "workflow_draft \<Rightarrow> workflow_draft" where
  "trim_roles d = d\<lparr>wdr_tasks := map trim_role (wdr_tasks d)\<rparr>"

section \<open>Loops that only check\<close>

lemma for_each_ok_iff:
  assumes pure: "\<And>x. keeps (=) (f x)"
  shows "for_each f xs s = (Inr u, t) \<longleftrightarrow> t = s \<and> (\<forall>x \<in> set xs. fst (f x s) = Inr ())"
proof (induction xs)
  case (Cons x xs)
  obtain r t' where fx: "f x s = (r, t')" by fastforce
  with pure[of x] have "t' = s" by (metis keeps_run)
  with fx Cons show ?case by (cases r) (auto simp: run_go)
qed auto

lemma check_pure:
  "keeps (=) (check_subtask_dep ids self d)"
  "keeps (=) (check_task_dep ids e)"
  "keeps (=) (check_item_dep ids self d)"
  by (auto simp: keeps_def check_subtask_dep_def check_task_dep_def check_item_dep_def)

lemma check_ok:
  "fst (check_subtask_dep ids self d s) = Inr () \<longleftrightarrow> d \<noteq> self \<and> d \<in> set ids"
  "fst (check_task_dep ids e s) = Inr () \<longleftrightarrow> fst e \<noteq> snd e \<and> fst e \<in> set ids \<and> snd e \<in> set ids"
  "fst (check_item_dep ids self d s) = Inr () \<longleftrightarrow> d \<noteq> self \<and> d \<in> set ids"
  by (simp_all add: check_subtask_dep_def check_task_dep_def check_item_dep_def)

lemma fst_for_each:
  assumes "\<And>x. keeps (=) (f x)"
  shows "fst (for_each f xs s) = Inr () \<longleftrightarrow> (\<forall>x \<in> set xs. fst (f x s) = Inr ())"
proof -
  obtain r t where "for_each f xs s = (r, t)" by fastforce
  then show ?thesis using for_each_ok_iff[of f xs s "()" t, OF assms] frame_eq.keeps_for_each[of f xs, OF assms]
    by (metis fst_conv keeps_run)
qed

lemma check_deps_ok:
  "for_each (\<lambda>sub. for_each (check_subtask_dep ids (sdr_id sub)) (sdr_depends_on sub)) subs s = (Inr u, t) \<longleftrightarrow>
     t = s \<and> (\<forall>sub \<in> set subs. \<forall>d \<in> set (sdr_depends_on sub). d \<noteq> sdr_id sub \<and> d \<in> set ids)"
  "for_each (\<lambda>sub. for_each (check_item_dep ids (sdr_id sub)) (sdr_depends_on sub)) subs s = (Inr u, t) \<longleftrightarrow>
     t = s \<and> (\<forall>sub \<in> set subs. \<forall>d \<in> set (sdr_depends_on sub). d \<noteq> sdr_id sub \<and> d \<in> set ids)"
  "for_each (check_task_dep ids) ds s = (Inr u, t) \<longleftrightarrow>
     t = s \<and> (\<forall>e \<in> set ds. fst e \<noteq> snd e \<and> fst e \<in> set ids \<and> snd e \<in> set ids)"
  by (simp_all add: for_each_ok_iff fst_for_each frame_eq.keeps_for_each check_pure check_ok)

section \<open>What an accepted draft satisfies\<close>

lemma id_or_new_nonempty:
  assumes "id_or_new (new_id (c # p)) i s = (Inr j, t)"
  shows "j \<noteq> []"
  using assms by (auto simp: id_or_new_def run_new_id split: if_splits)

lemma id_or_new_named [simp]: "i \<noteq> [] \<Longrightarrow> id_or_new draw i s = (Inr i, s)"
  by (simp add: id_or_new_def)

lemma name_subtasks_sound:
  assumes "name_subtasks seen subs s = (Inr (subs', ids'), t)"
  shows "ids' = rev (map sdr_id subs') @ seen \<and>
    (\<forall>sub \<in> set subs'. trim_space (sdr_goal sub) \<noteq> [] \<and> valid_subtask_kind (sdr_kind sub) \<and> sdr_id sub \<noteq> []) \<and>
    distinct (map sdr_id subs') \<and> sdr_id ` set subs' \<inter> set seen = {}"
  using assms
proof (induction subs arbitrary: seen s subs')
  case (Cons sub rest)
  obtain i s1 subs1 where
    goal: "trim_space (sdr_goal sub) \<noteq> []" "valid_subtask_kind (sdr_kind sub)"
    and i: "id_or_new new_subtask_id (sdr_id sub) s = (Inr i, s1)" "i \<notin> set seen"
    and rest: "name_subtasks (i # seen) rest s1 = (Inr (subs1, ids'), t)"
    and subs': "subs' = sub\<lparr>sdr_id := i\<rparr> # subs1"
    using Cons.prems by (auto simp: go_Inr_iff split: if_splits)
  have "i \<noteq> []" using i(1) id_or_new_nonempty by (simp add: new_subtask_id_def)
  with Cons.IH[OF rest] goal i(2) show ?case by (auto simp: subs')
qed auto

lemma name_items_sound:
  assumes "name_items seen subs s = (Inr (subs', ids'), t)"
  shows "ids' = rev (map sdr_id subs') @ seen \<and>
    (\<forall>sub \<in> set subs'. trim_space (sdr_goal sub) \<noteq> [] \<and> valid_subtask_kind (sdr_kind sub) \<and> sdr_id sub \<noteq> []) \<and>
    distinct (map sdr_id subs') \<and> sdr_id ` set subs' \<inter> set seen = {} \<and> length subs' = length subs"
  using assms
proof (induction subs arbitrary: seen s subs')
  case (Cons sub rest)
  obtain i s1 subs1 where
    goal: "trim_space (sdr_goal sub) \<noteq> []" "valid_subtask_kind (sdr_kind sub)"
    and i: "id_or_new new_subtask_id (sdr_id sub) s = (Inr i, s1)" "i \<notin> set seen"
    and rest: "name_items (i # seen) rest s1 = (Inr (subs1, ids'), t)"
    and subs': "subs' = sub\<lparr>sdr_id := i\<rparr> # subs1"
    using Cons.prems by (auto simp: go_Inr_iff split: if_splits)
  have "i \<noteq> []" using i(1) id_or_new_nonempty by (simp add: new_subtask_id_def)
  with Cons.IH[OF rest] goal i(2) show ?case by (auto simp: subs')
qed auto

lemma checked_subtasks_ok:
  assumes "name_subtasks [] subs s = (Inr (subs', ids), t)"
    and "check_subtask_deps ids subs' t = (Inr u, t')"
  shows "subtasks_ok subs' \<and> t' = t"
  using name_subtasks_sound[OF assms(1)] assms(2)
  by (auto simp: subtasks_ok_def check_subtask_deps_def check_deps_ok)

lemma trim_space_idem: "trim_space (trim_space t) = trim_space t"
proof -
  have dw: "dropWhile p (dropWhile p xs) = dropWhile p xs" for p :: "char \<Rightarrow> bool" and xs
    by (induction xs) auto
  have hd_ok: "dropWhile is_space u = u" if "dropWhile is_space v = v" "u = rev (dropWhile is_space (rev v))" for u v
  proof (cases v)
    case (Cons c v')
    then have c: "\<not> is_space c" using that(1) by (metis dropWhile_eq_Cons_conv)
    have "u = c # rev (dropWhile is_space (rev v'))"
      unfolding that(2) Cons using c by (simp add: dropWhile_append3 dropWhile_append)
    then show ?thesis using c by simp
  qed (simp add: that(2))
  have "dropWhile is_space (trim_space t) = trim_space t"
    by (rule hd_ok[of "dropWhile is_space t"]) (simp_all add: dw trim_space_def)
  then show ?thesis
    by (metis dw rev_rev_ident trim_space_def)
qed

lemma name_tasks_sound:
  assumes "name_tasks seen ts s = (Inr (ts', ids'), t)"
  shows "ids' = rev (map tdr_id ts') @ seen \<and> (\<forall>x \<in> set ts'. task_ok x) \<and>
    distinct (map tdr_id ts') \<and> tdr_id ` set ts' \<inter> set seen = {} \<and> length ts' = length ts"
  using assms
proof (induction ts arbitrary: seen s ts')
  case (Cons x rest)
  obtain i s1 subs sub_ids s2 s3 ts1 where
    goal: "trim_space (tdr_goal x) \<noteq> []" "trim_space (tdr_required_role x) \<noteq> []"
    and i: "id_or_new new_task_id (tdr_id x) s = (Inr i, s1)" "i \<notin> set seen"
    and subs: "name_subtasks [] (tdr_subtasks x) s1 = (Inr (subs, sub_ids), s2)"
      "check_subtask_deps sub_ids subs s2 = (Inr (), s3)"
    and rest: "name_tasks (i # seen) rest s3 = (Inr (ts1, ids'), t)"
    and ts': "ts' = x\<lparr>tdr_required_role := trim_space (tdr_required_role x), tdr_id := i, tdr_subtasks := subs\<rparr> # ts1"
    using Cons.prems by (auto simp: go_Inr_iff Let_def split: if_splits)
  have "i \<noteq> []" using i(1) id_or_new_nonempty by (simp add: new_task_id_def)
  with Cons.IH[OF rest] goal i(2) checked_subtasks_ok[OF subs] show ?case
    by (auto simp: ts' task_ok_def trim_space_idem)
qed auto

lemma set_task_edges: "set (task_edges ds) = (set ds)\<inverse>"
  by (force simp: task_edges_def)

theorem validate_draft_sound:
  assumes "validate_draft d s = (Inr d', t)"
  shows "well_formed_draft d' \<and> length (wdr_tasks d') = length (wdr_tasks d)"
proof -
  obtain ts ids s1 where
    goal: "trim_space (wdr_goal d) \<noteq> []"
    and ts: "name_tasks [] (wdr_tasks d) s = (Inr (ts, ids), s1)"
    and deps: "for_each (check_task_dep ids) (wdr_dependencies d) s1 = (Inr (), t)"
    and kahn: "kahn_deletes_all ids (task_edges (wdr_dependencies d))"
    and d': "d' = d\<lparr>wdr_tasks := ts\<rparr>"
    using assms by (auto simp: validate_draft_def go_Inr_iff split: if_splits)
  note ts = name_tasks_sound[OF ts] and deps = deps[unfolded check_deps_ok]
  have "acyclic (set (task_edges (wdr_dependencies d)))"
    using kahn by (subst (asm) kahn_delete_iff) (use ts deps in \<open>auto simp: task_edges_def\<close>)
  then show ?thesis
    using goal ts deps by (auto simp: well_formed_draft_def d' set_task_edges acyclic_converse)
qed

section \<open>Frame: only identifiers are drawn\<close>

lemma keeps_name_subtasks: "keeps same_tables (name_subtasks seen subs)"
  by (induction subs arbitrary: seen)
    (auto simp: id_or_new_def intro!: same.db_keeps_rules)

lemma keeps_name_items: "keeps same_tables (name_items seen subs)"
  by (induction subs arbitrary: seen)
    (auto simp: id_or_new_def intro!: same.db_keeps_rules)

lemma keeps_checks:
  "keeps same_tables (check_subtask_dep ids self d)"
  "keeps same_tables (check_task_dep ids e)"
  "keeps same_tables (check_item_dep ids self d)"
  by (auto simp: keeps_def check_subtask_dep_def check_task_dep_def check_item_dep_def)

lemma keeps_name_tasks: "keeps same_tables (name_tasks seen ts)"
  by (induction ts arbitrary: seen)
    (auto simp: id_or_new_def Let_def check_subtask_deps_def
      intro!: same.db_keeps_rules keeps_name_subtasks keeps_checks)

lemma keeps_validate_draft: "keeps same_tables (validate_draft d)"
  unfolding validate_draft_def
  by (intro same.db_keeps_rules keeps_name_tasks keeps_checks)

lemma keeps_validate_subtask_drafts: "keeps same_tables (validate_subtask_drafts items)"
  unfolding validate_subtask_drafts_def
  by (intro same.db_keeps_rules keeps_name_items keeps_checks)

section \<open>A draft that names its nodes\<close>

lemma name_subtasks_named:
  assumes "named_subtasks subs"
    and "\<forall>sub \<in> set subs. trim_space (sdr_goal sub) \<noteq> [] \<and> valid_subtask_kind (sdr_kind sub)"
    and "distinct (map sdr_id subs)" "sdr_id ` set subs \<inter> set seen = {}"
  shows "name_subtasks seen subs s = (Inr (subs, rev (map sdr_id subs) @ seen), s)"
    and "name_items seen subs s = (Inr (subs, rev (map sdr_id subs) @ seen), s)"
  using assms
  by (induction subs arbitrary: seen) (auto simp: named_subtasks_def run_go)

lemma name_subtasks_same:
  assumes "named_subtasks subs" "name_subtasks seen subs s = (Inr (subs', ids), t)"
  shows "subs' = subs \<and> t = s"
  using assms
proof (induction subs arbitrary: seen s subs')
  case (Cons sub rest)
  then show ?case by (fastforce simp: named_subtasks_def go_Inr_iff split: if_splits)
qed simp

lemma name_items_same:
  assumes "named_subtasks subs" "name_items seen subs s = (Inr (subs', ids), t)"
  shows "subs' = subs \<and> t = s"
  using assms
proof (induction subs arbitrary: seen s subs')
  case (Cons sub rest)
  then show ?case by (fastforce simp: named_subtasks_def go_Inr_iff split: if_splits)
qed simp

lemma name_tasks_same:
  assumes "\<forall>x \<in> set ts. tdr_id x \<noteq> [] \<and> named_subtasks (tdr_subtasks x)"
    and "name_tasks seen ts s = (Inr (ts', ids), t)"
  shows "ts' = map trim_role ts \<and> t = s"
  using assms
proof (induction ts arbitrary: seen s ts')
  case (Cons x rest)
  obtain subs sub_ids s2 s3 ts1 where
    subs: "name_subtasks [] (tdr_subtasks x) s = (Inr (subs, sub_ids), s2)"
      "check_subtask_deps sub_ids subs s2 = (Inr (), s3)"
    and rest: "name_tasks (tdr_id x # seen) rest s3 = (Inr (ts1, ids), t)"
    and ts': "ts' = x\<lparr>tdr_required_role := trim_space (tdr_required_role x), tdr_id := tdr_id x,
        tdr_subtasks := subs\<rparr> # ts1"
    using Cons.prems by (auto simp: go_Inr_iff Let_def split: if_splits)
  have "subs = tdr_subtasks x \<and> s2 = s"
    using name_subtasks_same[OF _ subs(1)] Cons.prems(1) by simp
  moreover have "s3 = s2" using subs(2) by (simp add: check_subtask_deps_def check_deps_ok)
  ultimately show ?case
    using Cons.IH[OF _ rest] Cons.prems(1) by (simp add: ts' trim_role_def)
qed simp

lemma name_tasks_complete:
  assumes "\<forall>x \<in> set ts. tdr_id x \<noteq> [] \<and> named_subtasks (tdr_subtasks x)"
    and "\<forall>x \<in> set ts. task_ok (trim_role x)" "distinct (map tdr_id ts)" "tdr_id ` set ts \<inter> set seen = {}"
  shows "name_tasks seen ts s = (Inr (map trim_role ts, rev (map tdr_id ts) @ seen), s)"
  using assms
proof (induction ts arbitrary: seen)
  case (Cons x rest)
  have ok: "trim_space (tdr_goal x) \<noteq> []" "trim_space (tdr_required_role x) \<noteq> []" "tdr_id x \<noteq> []"
    and subs: "subtasks_ok (tdr_subtasks x)"
    using Cons.prems(1,2) by (auto simp: task_ok_def trim_role_def)
  have "name_subtasks [] (tdr_subtasks x) s = (Inr (tdr_subtasks x, rev (map sdr_id (tdr_subtasks x)) @ []), s)"
    using subs Cons.prems(1) by (intro name_subtasks_named) (auto simp: subtasks_ok_def)
  moreover have "check_subtask_deps (rev (map sdr_id (tdr_subtasks x))) (tdr_subtasks x) s = (Inr (), s)"
    using subs by (auto simp: check_subtask_deps_def check_deps_ok subtasks_ok_def)
  ultimately show ?case
    using ok Cons by (simp add: run_go Let_def trim_role_def)
qed simp

theorem validate_draft_named:
  assumes named: "named_draft d"
  shows "validate_draft d s = (Inr d', t) \<longleftrightarrow> d' = trim_roles d \<and> t = s \<and> well_formed_draft d'"
proof
  assume run: "validate_draft d s = (Inr d', t)"
  then obtain ts ids s1 where
    ts: "name_tasks [] (wdr_tasks d) s = (Inr (ts, ids), s1)"
    and "for_each (check_task_dep ids) (wdr_dependencies d) s1 = (Inr (), t)"
    and d': "d' = d\<lparr>wdr_tasks := ts\<rparr>"
    by (auto simp: validate_draft_def go_Inr_iff split: if_splits)
  then have "t = s1" by (simp add: check_deps_ok)
  moreover have "ts = map trim_role (wdr_tasks d) \<and> s1 = s"
    using name_tasks_same[OF _ ts] named by (simp add: named_draft_def)
  ultimately show "d' = trim_roles d \<and> t = s \<and> well_formed_draft d'"
    using validate_draft_sound[OF run] by (simp add: d' trim_roles_def)
next
  assume "d' = trim_roles d \<and> t = s \<and> well_formed_draft d'"
  then have d': "d' = trim_roles d" and t: "t = s" and wf: "well_formed_draft (trim_roles d)" by auto
  let ?ids = "rev (map tdr_id (wdr_tasks d))"
  have ids: "map tdr_id (map trim_role ts) = map tdr_id ts" for ts by (simp add: trim_role_def)
  have ts: "name_tasks [] (wdr_tasks d) s = (Inr (map trim_role (wdr_tasks d), ?ids @ []), s)"
    using named wf by (intro name_tasks_complete)
      (auto simp: named_draft_def well_formed_draft_def trim_roles_def trim_role_def comp_def)
  have edges: "\<forall>e \<in> set (wdr_dependencies d). fst e \<in> set ?ids \<and> snd e \<in> set ?ids"
    and acyclic: "acyclic (set (wdr_dependencies d))" and "distinct ?ids"
    using wf by (force simp: well_formed_draft_def trim_roles_def trim_role_def comp_def)+
  then have "kahn_deletes_all ?ids (task_edges (wdr_dependencies d))"
    by (subst kahn_delete_iff) (auto simp: set_task_edges acyclic_converse)
  moreover have "\<forall>e \<in> set (wdr_dependencies d). fst e \<noteq> snd e"
    using acyclic by (force simp: acyclic_def)
  then have "for_each (check_task_dep ?ids) (wdr_dependencies d) s = (Inr (), s)"
    using edges by (simp add: check_deps_ok)
  moreover have "trim_space (wdr_goal d) \<noteq> []" using wf by (simp add: well_formed_draft_def trim_roles_def)
  ultimately show "validate_draft d s = (Inr d', t)"
    using ts by (simp add: validate_draft_def run_go d' t trim_roles_def)
qed

lemma set_subtask_edges:
  "set (subtask_edges items) = {(sdr_id it, d) | it d. it \<in> set items \<and> d \<in> set (sdr_depends_on it)}\<inverse>"
  by (auto simp: subtask_edges_def)

theorem validate_subtask_drafts_sound:
  assumes "validate_subtask_drafts items s = (Inr named, t)"
  shows "well_formed_items named \<and> length named = length items"
proof -
  obtain ids s1 where
    ne: "items \<noteq> []" and n: "name_items [] items s = (Inr (named, ids), s1)"
    and deps: "for_each (\<lambda>it. for_each (check_item_dep ids (sdr_id it)) (sdr_depends_on it)) named s1 = (Inr (), t)"
    and kahn: "kahn_visits_all ids (subtask_edges named)"
    using assms by (auto simp: validate_subtask_drafts_def go_Inr_iff split: if_splits)
  note n = name_items_sound[OF n] and deps = deps[unfolded check_deps_ok]
  have "acyclic (set (subtask_edges named))"
    using kahn by (subst (asm) kahn_count_iff) (use n deps in \<open>auto simp: subtask_edges_def\<close>)
  then show ?thesis
    using ne n deps by (auto simp: well_formed_items_def subtasks_ok_def set_subtask_edges acyclic_converse)
qed

theorem validate_subtask_drafts_named:
  assumes named: "named_subtasks items"
  shows "validate_subtask_drafts items s = (Inr items', t) \<longleftrightarrow> items' = items \<and> t = s \<and> well_formed_items items'"
proof
  assume run: "validate_subtask_drafts items s = (Inr items', t)"
  then obtain ids s1 where
    n: "name_items [] items s = (Inr (items', ids), s1)"
    and "for_each (\<lambda>it. for_each (check_item_dep ids (sdr_id it)) (sdr_depends_on it)) items' s1 = (Inr (), t)"
    by (auto simp: validate_subtask_drafts_def go_Inr_iff split: if_splits)
  then have "t = s1" by (simp add: check_deps_ok)
  with name_items_same[OF named n] validate_subtask_drafts_sound[OF run]
  show "items' = items \<and> t = s \<and> well_formed_items items'" by simp
next
  assume "items' = items \<and> t = s \<and> well_formed_items items'"
  then have items': "items' = items" "t = s" and wf: "well_formed_items items" by auto
  let ?ids = "rev (map sdr_id items)"
  have "name_items [] items s = (Inr (items, ?ids @ []), s)"
    using named wf by (intro name_subtasks_named) (auto simp: well_formed_items_def subtasks_ok_def)
  moreover have "for_each (\<lambda>it. for_each (check_item_dep ?ids (sdr_id it)) (sdr_depends_on it)) items s = (Inr (), s)"
    using wf by (auto simp: check_deps_ok well_formed_items_def subtasks_ok_def)
  moreover have "kahn_visits_all ?ids (subtask_edges items)"
  proof (subst kahn_count_iff)
    show "distinct ?ids" using wf by (simp add: well_formed_items_def subtasks_ok_def)
    show "\<forall>e \<in> set (subtask_edges items). fst e \<in> set ?ids \<and> snd e \<in> set ?ids"
      using wf by (auto simp: well_formed_items_def subtasks_ok_def subtask_edges_def)
    show "acyclic (set (subtask_edges items))"
      using wf by (simp add: set_subtask_edges acyclic_converse well_formed_items_def)
  qed
  ultimately show "validate_subtask_drafts items s = (Inr items', t)"
    using wf by (simp add: validate_subtask_drafts_def run_go items' well_formed_items_def)
qed

end
