(* ===== verification/StoreQuery.thy ===== *)
theory StoreQuery
  imports StorePlanCheck
begin

text \<open>
  The read side of the store (\<open>GetTask\<close>, \<open>ListSubTasks\<close>, \<open>getWorkflowViewQuery\<close>, ...) and the
  robot reservations of \<open>internal/store/robot_admission.go\<close> that the writing statements consult.

  \<open>select_row\<close> is \<open>QueryRow(...).Scan(...)\<close> with the error the caller turns \<open>sql.ErrNoRows\<close> into;
  \<open>updating\<close> is an \<open>UPDATE ... WHERE\<close> whose value is \<open>RowsAffected\<close>.  No query changes the
  database (\<open>reads_only\<close>).
\<close>

section \<open>Statements\<close>

definition select_row :: "(db \<Rightarrow> 'r option) \<Rightarrow> error \<Rightarrow> (db, 'r) prog" where
  "select_row q none = (\<lambda>s. (case q s of None \<Rightarrow> Inl none | Some r \<Rightarrow> Inr r, s))"

definition select_rows :: "(db \<Rightarrow> 'r) \<Rightarrow> (db, 'r) prog" where
  "select_rows f = (\<lambda>s. (Inr (f s), s))"

definition updating ::
  "(db \<Rightarrow> 'r list) \<Rightarrow> ('r list \<Rightarrow> db \<Rightarrow> db) \<Rightarrow> ('r \<Rightarrow> bool) \<Rightarrow> ('r \<Rightarrow> 'r) \<Rightarrow> (db, nat) prog" where
  "updating get put p f = (\<lambda>s. (Inr (count_where p (get s)), put (update_where p f (get s)) s))"

definition update_workflows :: "(workflow \<Rightarrow> bool) \<Rightarrow> (workflow \<Rightarrow> workflow) \<Rightarrow> (db, nat) prog" where
  "update_workflows = updating workflows (\<lambda>r s. s\<lparr>workflows := r\<rparr>)"

definition update_tasks :: "(task \<Rightarrow> bool) \<Rightarrow> (task \<Rightarrow> task) \<Rightarrow> (db, nat) prog" where
  "update_tasks = updating tasks (\<lambda>r s. s\<lparr>tasks := r\<rparr>)"

definition update_subtasks :: "(subtask \<Rightarrow> bool) \<Rightarrow> (subtask \<Rightarrow> subtask) \<Rightarrow> (db, nat) prog" where
  "update_subtasks = updating subtasks (\<lambda>r s. s\<lparr>subtasks := r\<rparr>)"

definition update_projects :: "(project \<Rightarrow> bool) \<Rightarrow> (project \<Rightarrow> project) \<Rightarrow> (db, nat) prog" where
  "update_projects = updating projects (\<lambda>r s. s\<lparr>projects := r\<rparr>)"

definition update_runs :: "(run_session \<Rightarrow> bool) \<Rightarrow> (run_session \<Rightarrow> run_session) \<Rightarrow> (db, nat) prog" where
  "update_runs = updating runs (\<lambda>r s. s\<lparr>runs := r\<rparr>)"

definition update_proposals :: "(plan_proposal \<Rightarrow> bool) \<Rightarrow> (plan_proposal \<Rightarrow> plan_proposal) \<Rightarrow> (db, nat) prog" where
  "update_proposals = updating plan_proposals (\<lambda>r s. s\<lparr>plan_proposals := r\<rparr>)"

definition update_interactions :: "(interaction \<Rightarrow> bool) \<Rightarrow> (interaction \<Rightarrow> interaction) \<Rightarrow> (db, nat) prog" where
  "update_interactions = updating interactions (\<lambda>r s. s\<lparr>interactions := r\<rparr>)"

lemmas update_defs =
  update_workflows_def update_tasks_def update_subtasks_def update_projects_def update_runs_def
  update_proposals_def update_interactions_def

lemma select_row_Inr [simp]: "select_row q none s = (Inr r, t) \<longleftrightarrow> q s = Some r \<and> t = s"
  by (auto simp: select_row_def split: option.splits)

lemma select_row_Inl [simp]: "select_row q none s = (Inl e, t) \<longleftrightarrow> q s = None \<and> e = none \<and> t = s"
  by (auto simp: select_row_def split: option.splits)

lemma select_rows_run [simp]: "select_rows f s = (Inr (f s), s)"
  by (simp add: select_rows_def)

lemma updating_run: "updating get put p f s = (Inr (count_where p (get s)), put (update_where p f (get s)) s)"
  by (simp add: updating_def)

lemma reads_only: "keeps (=) (select_row q none)" "keeps (=) (select_rows f)"
  by (auto simp: keeps_def select_row_def select_rows_def)

definition unit_of :: "(db, 'a) prog \<Rightarrow> (db, unit) prog" where
  "unit_of m = go m (\<lambda>_. ok ())"

text \<open>\<open>ORDER BY key DESC LIMIT 1\<close>\<close>

definition latest :: "('r \<Rightarrow> 'k::linorder) \<Rightarrow> 'r list \<Rightarrow> 'r option" where
  "latest key rows = (case sort_key key rows of [] \<Rightarrow> None | x # xs \<Rightarrow> Some (last (x # xs)))"

lemma sorted_key_last: "sorted (map key xs) \<Longrightarrow> x \<in> set xs \<Longrightarrow> key x \<le> key (last xs)"
  by (induction xs) (auto split: if_splits intro: order_trans)

lemma latest_SomeD:
  assumes "latest key rows = Some r"
  shows "r \<in> set rows \<and> (\<forall>x \<in> set rows. key x \<le> key r)"
proof -
  let ?xs = "sort_key key rows"
  have ne: "?xs \<noteq> []" and r: "r = last ?xs"
    using assms by (auto simp: latest_def split: list.splits)
  have "r \<in> set ?xs" unfolding r using ne by (rule last_in_set)
  moreover have "\<forall>x \<in> set ?xs. key x \<le> key r"
    using sorted_key_last[of key ?xs] by (simp add: r)
  ultimately show ?thesis by simp
qed

lemma latest_None [simp]: "latest key rows = None \<longleftrightarrow> rows = []"
  by (metis (no_types, lifting) latest_def list.case_eq_if option.distinct(1) sort_key_simps(1)
      set_empty set_sort)

section \<open>Workflows, Tasks, SubTasks\<close>

definition scan_workflow :: "string \<Rightarrow> (db, workflow) prog" where
  "scan_workflow i = select_row (\<lambda>s. find_by w_id i (workflows s)) ErrNoRows"

definition get_workflow :: "string \<Rightarrow> (db, workflow) prog" where
  "get_workflow i = select_row (\<lambda>s. find_by w_id i (workflows s)) ErrNotFound"

definition list_workflows :: "string \<Rightarrow> bool \<Rightarrow> (db, workflow list) prog" where
  "list_workflows project_id include_ended = select_rows (\<lambda>s.
     rev (sort_key (\<lambda>w. (w_updated_at w, w_id w))
       (filter (\<lambda>w. w_project_id w = project_id \<and> (include_ended \<or> open_work_status (w_status w)))
         (workflows s))))"

definition list_unfinished_workflows :: "(db, workflow list) prog" where
  "list_unfinished_workflows = select_rows (\<lambda>s.
     sort_key (\<lambda>w. (w_created_at w, w_id w))
       (filter (\<lambda>w. w_status w \<in> {WSRunning, WSPaused, WSStopping}) (workflows s)))"

definition scan_task :: "string \<Rightarrow> (db, task) prog" where
  "scan_task i = select_row (\<lambda>s. find_by t_id i (tasks s)) ErrNoRows"

definition get_task :: "string \<Rightarrow> (db, task) prog" where
  "get_task i = select_row (\<lambda>s. find_by t_id i (tasks s)) ErrNotFound"

definition tasks_of :: "string \<Rightarrow> db \<Rightarrow> task list" where
  "tasks_of wid s = sort_key (\<lambda>t. (t_position t, t_id t)) (filter (\<lambda>t. t_workflow_id t = wid) (tasks s))"

definition list_tasks :: "string \<Rightarrow> (db, task list) prog" where
  "list_tasks wid = select_rows (tasks_of wid)"

definition scan_subtask :: "string \<Rightarrow> (db, subtask) prog" where
  "scan_subtask i = select_row (\<lambda>s. find_by st_id i (subtasks s)) ErrNoRows"

definition get_subtask :: "string \<Rightarrow> (db, subtask) prog" where
  "get_subtask i = select_row (\<lambda>s. find_by st_id i (subtasks s)) ErrNotFound"

definition subtasks_of :: "string \<Rightarrow> db \<Rightarrow> subtask list" where
  "subtasks_of tid s = sort_key (\<lambda>x. (st_position x, st_id x)) (filter (\<lambda>x. st_task_id x = tid) (subtasks s))"

definition list_subtasks :: "string \<Rightarrow> (db, subtask list) prog" where
  "list_subtasks tid = select_rows (subtasks_of tid)"

definition get_workflow_view_query :: "string \<Rightarrow> (db, workflow_view) prog" where
  "get_workflow_view_query i =
    go (get_workflow i) (\<lambda>w.
    go (list_tasks i) (\<lambda>ts.
    go (collect (\<lambda>t. list_subtasks (t_id t)) ts) (\<lambda>subs.
    go (select_rows (\<lambda>s. sort_key (\<lambda>d. (td_task_id d, td_depends_on d))
        (filter (\<lambda>d. td_workflow_id d = i) (task_deps s)))) (\<lambda>deps.
    go (select_rows (\<lambda>s. sort_key (\<lambda>d. (sd_task_id d, sd_subtask_id d, sd_depends_on d))
        (filter (\<lambda>d. sd_task_id d \<in> t_id ` set (filter (\<lambda>t. t_workflow_id t = i) (tasks s)))
          (subtask_deps s)))) (\<lambda>sub_deps.
      ok \<lparr>v_workflow = w, v_tasks = ts, v_subtasks = concat subs, v_dependencies = deps,
          v_subtask_dependencies = sub_deps\<rparr>)))))"

definition get_workflow_view :: "string \<Rightarrow> (db, workflow_view) prog" where
  "get_workflow_view = get_workflow_view_query"

text \<open>A dependency blocks while its predecessor exists and has not completed.\<close>

definition task_blocked :: "db \<Rightarrow> string \<Rightarrow> bool" where
  "task_blocked s i \<longleftrightarrow> (\<exists>d \<in> set (task_deps s). td_task_id d = i \<and>
     (\<exists>p \<in> set (tasks s). t_id p = td_depends_on d \<and> t_status p \<noteq> WSCompleted))"

definition list_runnable_tasks :: "string \<Rightarrow> (db, task list) prog" where
  "list_runnable_tasks wid = select_rows (\<lambda>s.
     filter (\<lambda>t. t_status t = WSPending \<and> \<not> task_blocked s (t_id t)) (tasks_of wid s))"

definition subtask_blocked :: "db \<Rightarrow> string \<Rightarrow> bool" where
  "subtask_blocked s i \<longleftrightarrow> (\<exists>d \<in> set (subtask_deps s). sd_subtask_id d = i \<and>
     (\<exists>p \<in> set (subtasks s). st_id p = sd_depends_on d \<and> st_status p \<noteq> WSCompleted))"

definition list_runnable_subtasks :: "string \<Rightarrow> (db, subtask list) prog" where
  "list_runnable_subtasks tid = select_rows (\<lambda>s.
     filter (\<lambda>x. st_status x = WSPending \<and> \<not> subtask_blocked s (st_id x)) (subtasks_of tid s))"

section \<open>Projects, Conversations, maps\<close>

definition get_project :: "string \<Rightarrow> (db, project) prog" where
  "get_project i = select_row (\<lambda>s. find_by pr_id i (projects s)) ErrNotFound"

definition scan_project :: "string \<Rightarrow> (db, project) prog" where
  "scan_project i = select_row (\<lambda>s. find_by pr_id i (projects s)) ErrNoRows"

definition get_chat_session :: "string \<Rightarrow> (db, chat_session) prog" where
  "get_chat_session i = select_row (\<lambda>s. find_by cs_id i (chat_sessions s)) ErrNotFound"

definition project_writable_by_user :: "string \<Rightarrow> string \<Rightarrow> (db, unit) prog" where
  "project_writable_by_user user i = attempt (get_project i) (\<lambda>r. case r of
     Inl _ \<Rightarrow> err ErrNotFound
   | Inr p \<Rightarrow> if pr_owner_id p \<noteq> user then err ErrNotFound
       else if pr_archived_at p \<noteq> None then err ErrProjectArchived
       else if \<not> pr_is_active p then err ErrProjectInactive
       else ok ())"

definition valid_map_slot :: "string \<Rightarrow> bool" where
  "valid_map_slot slot \<longleftrightarrow> slot = ''simulation_map'' \<or> slot = ''real_map''"

definition get_semantic_map :: "string \<Rightarrow> string \<Rightarrow> (db, semantic_map) prog" where
  "get_semantic_map project_id slot =
    (if \<not> valid_map_slot slot then err ErrInvalidState
     else select_row (\<lambda>s. find (\<lambda>m. sm_project_id m = project_id \<and> sm_slot m = slot) (semantic_maps s))
       ErrNotFound)"

definition check_map_entity :: "string \<Rightarrow> int \<Rightarrow> string \<Rightarrow> (db, unit) prog" where
  "check_map_entity map_id generation i = reading (\<lambda>s.
     case find (\<lambda>e. me_map_id e = map_id \<and> me_generation e = generation \<and> me_id e = i) (map_entities s) of
       None \<Rightarrow> err ErrNotFound
     | Some e \<Rightarrow> if me_status e = ''removed'' then err ErrNotFound else ok ())"

definition validate_map_reference :: "string \<Rightarrow> string \<Rightarrow> int \<Rightarrow> string list \<Rightarrow> (db, unit) prog" where
  "validate_map_reference project_id slot generation entity_ids =
    (if \<not> valid_map_slot slot then err ErrInvalidState
     else go (get_semantic_map project_id slot) (\<lambda>m.
       if sm_generation m \<noteq> generation then err ErrStaleMapGeneration
       else for_each (check_map_entity (sm_id m) generation) entity_ids))"

section \<open>Robot reservations\<close>

text \<open>\<open>fmt.Errorf("%w: %s", ErrRobotReserved, owner)\<close>\<close>

definition reserved_by :: "string \<Rightarrow> error" where
  "reserved_by owner = Wrapped owner ErrRobotReserved"

definition robot_owner :: "db \<Rightarrow> string \<Rightarrow> string \<Rightarrow> string \<Rightarrow> string option" where
  "robot_owner s robot task_id run_id =
    (case map (\<lambda>t. ''Task '' @ t_id t)
        (filter (\<lambda>t. t_assigned_robot_id t = robot \<and> t_id t \<noteq> task_id \<and> open_work_status (t_status t)) (tasks s)) @
      map (\<lambda>r. ''Run '' @ r_id r)
        (filter (\<lambda>r. r_robot_id r = robot \<and> r_id r \<noteq> run_id \<and> active_run_status (r_status r)) (runs s))
     of [] \<Rightarrow> None | owner # _ \<Rightarrow> Some owner)"

definition robot_reservation :: "string \<Rightarrow> string \<Rightarrow> string \<Rightarrow> (db, unit) prog" where
  "robot_reservation robot task_id run_id = reading (\<lambda>s.
     case robot_owner s robot task_id run_id of None \<Rightarrow> ok () | Some owner \<Rightarrow> err (reserved_by owner))"

definition live_execution_statuses :: "string list" where
  "live_execution_statuses = [''queued'', ''starting'', ''running'', ''waiting_agent'', ''stopping'']"

definition robot_execution_reservation :: "string \<Rightarrow> string \<Rightarrow> (db, unit) prog" where
  "robot_execution_reservation robot task_id = reading (\<lambda>s.
     case find (\<lambda>x. xr_robot_id x = robot \<and> xr_status x \<in> set live_execution_statuses \<and>
         (task_id = [] \<or> e_task_id (xr_body x) \<noteq> task_id)) (executions s) of
       None \<Rightarrow> ok ()
     | Some x \<Rightarrow> err (reserved_by (''Execution '' @ xr_id x)))"

definition pilot_occupied :: "robot_pilot \<Rightarrow> bool" where
  "pilot_occupied p \<longleftrightarrow> rp_current_execution_id p \<noteq> [] \<or> rp_robot_status p = ''busy'' \<or>
     rp_robot_status p = ''stopping'' \<or> rp_robot_status p = ''interrupted''"

definition pilot_reserved :: "robot_pilot \<Rightarrow> error" where
  "pilot_reserved p = reserved_by (''Pilot '' @ rp_instance_id p @ '' / Execution '' @ rp_current_execution_id p)"

definition robot_physical_reservation :: "string \<Rightarrow> (db, unit) prog" where
  "robot_physical_reservation robot = reading (\<lambda>s.
     case latest rp_last_seen_at (filter (\<lambda>p. rp_robot_id p = robot) (robot_pilots s)) of
       None \<Rightarrow> ok ()
     | Some p \<Rightarrow> if pilot_occupied p then err (pilot_reserved p) else ok ())"

definition check_robot_admission :: "string \<Rightarrow> string \<Rightarrow> string \<Rightarrow> (db, unit) prog" where
  "check_robot_admission robot task_id run_id =
     go (robot_reservation robot task_id run_id) (\<lambda>_. robot_execution_reservation robot [])"

definition get_robot_conversation_run :: "string \<Rightarrow> (db, run_session) prog" where
  "get_robot_conversation_run robot = select_row
     (\<lambda>s. find (\<lambda>r. r_robot_id r = robot \<and> active_run_status (r_status r)) (runs s)) ErrNotFound"

definition get_robot_task :: "string \<Rightarrow> (db, task) prog" where
  "get_robot_task robot = select_row
     (\<lambda>s. find (\<lambda>t. t_assigned_robot_id t = robot \<and> open_work_status (t_status t)) (tasks s)) ErrNotFound"

definition is_robot_task_reserved :: "string \<Rightarrow> string \<Rightarrow> (db, bool) prog" where
  "is_robot_task_reserved robot0 exclude =
    (let robot = trim_space robot0 in
     if robot = [] then ok False
     else attempt (robot_reservation robot (trim_space exclude) []) (\<lambda>r. case r of
       Inr _ \<Rightarrow> ok False
     | Inl e \<Rightarrow> if errors_is e ErrRobotReserved then ok True else err e))"

lemmas query_defs =
  scan_workflow_def get_workflow_def list_workflows_def list_unfinished_workflows_def scan_task_def
  get_task_def list_tasks_def scan_subtask_def get_subtask_def list_subtasks_def
  list_runnable_tasks_def list_runnable_subtasks_def get_project_def scan_project_def
  get_chat_session_def get_robot_conversation_run_def get_robot_task_def

lemma read_only_reservations:
  "keeps (=) (robot_reservation robot t r)"
  "keeps (=) (robot_execution_reservation robot t)"
  "keeps (=) (robot_physical_reservation robot)"
  by (auto simp: keeps_def robot_reservation_def robot_execution_reservation_def
      robot_physical_reservation_def run_reading split: option.splits)

lemma robot_reservation_ok:
  "robot_reservation robot t r s = (Inr u, s') \<longleftrightarrow> s' = s \<and> robot_owner s robot t r = None"
  by (auto simp: robot_reservation_def run_reading split: option.splits)

lemma robot_owner_None:
  "robot_owner s robot tid rid = None \<longleftrightarrow>
    (\<forall>t \<in> set (tasks s). t_assigned_robot_id t = robot \<and> open_work_status (t_status t) \<longrightarrow> t_id t = tid) \<and>
    (\<forall>r \<in> set (runs s). r_robot_id r = robot \<and> active_run_status (r_status r) \<longrightarrow> r_id r = rid)"
proof -
  have "(case xs of [] \<Rightarrow> None | x # _ \<Rightarrow> Some x) = None \<longleftrightarrow> xs = []" for xs :: "string list"
    by (cases xs) auto
  then show ?thesis unfolding robot_owner_def by (auto simp: filter_empty_conv)
qed

lemma robot_reservation_error:
  "robot_reservation robot t r s = (Inl e, s') \<Longrightarrow> errors_is e ErrRobotReserved"
  by (auto simp: robot_reservation_def run_reading reserved_by_def split: option.splits)

end
