(* ===== verification/StoreWorkflow.thy ===== *)
theory StoreWorkflow
  imports StoreQuery
begin

text \<open>
  The statements of \<open>internal/store/workflow.go\<close> that move Workflows, Tasks and SubTasks through
  their states.  Every one of them is conditional on the revision the caller has read
  (optimistic locking), and the three transition tables say which status may follow which.
\<close>

section \<open>Transition tables\<close>

definition next_workflow_statuses :: "work_status \<Rightarrow> work_status list" where
  "next_workflow_statuses st = (case st of
     WSRunning \<Rightarrow> [WSPaused, WSStopping, WSCompleted, WSFailed]
   | WSPaused \<Rightarrow> [WSRunning, WSStopping]
   | WSStopping \<Rightarrow> [WSStopped, WSPaused]
   | _ \<Rightarrow> [])"

definition next_task_statuses :: "work_status \<Rightarrow> work_status list" where
  "next_task_statuses st = (case st of
     WSPending \<Rightarrow> [WSRunning, WSPaused, WSStopping, WSFailed, WSStopped]
   | WSRunning \<Rightarrow> [WSPaused, WSStopping, WSCompleted, WSFailed]
   | WSPaused \<Rightarrow> [WSRunning, WSStopping, WSFailed]
   | WSStopping \<Rightarrow> [WSStopped, WSPaused]
   | _ \<Rightarrow> [])"

definition allowed_workflow_transition :: "work_status \<Rightarrow> work_status \<Rightarrow> bool" where
  "allowed_workflow_transition a b \<longleftrightarrow> b \<in> set (next_workflow_statuses a)"

definition allowed_task_transition :: "work_status \<Rightarrow> work_status \<Rightarrow> bool" where
  "allowed_task_transition a b \<longleftrightarrow> b \<in> set (next_task_statuses a)"

definition ended_at :: "work_status \<Rightarrow> time \<Rightarrow> time option" where
  "ended_at to now = (if terminal_work_status to then Some now else None)"

section \<open>Workflows\<close>

definition save_workflow_revision :: "string \<Rightarrow> int \<Rightarrow> time \<Rightarrow> (db, unit) prog" where
  "save_workflow_revision i revision now =
    go (get_workflow_view_query i) (\<lambda>view.
      exec_revisions (append_row \<lparr>wr_workflow_id = i, wr_revision = revision, wr_snapshot = view,
        wr_created_at = now\<rparr>))"

definition leave_running_mode :: "string \<Rightarrow> time \<Rightarrow> (db, unit) prog" where
  "leave_running_mode project_id now =
    go (update_projects (\<lambda>p. pr_id p = project_id)
      (\<lambda>p. p\<lparr>pr_mode := ModeDevelopment, pr_revision := pr_revision p + 1, pr_updated_at := now\<rparr>))
    (\<lambda>_. ok ())"

definition move_workflow :: "work_status \<Rightarrow> string \<Rightarrow> int \<Rightarrow> time \<Rightarrow> workflow \<Rightarrow> workflow" where
  "move_workflow to reason confirmed now w =
     w\<lparr>w_status := to, w_reason := reason, w_revision := w_revision w + 1,
       w_confirmed_revision := confirmed, w_updated_at := now, w_ended_at := ended_at to now\<rparr>"

definition transition_workflow_tx :: "string \<Rightarrow> int \<Rightarrow> work_status \<Rightarrow> string \<Rightarrow> time \<Rightarrow> (db, unit) prog" where
  "transition_workflow_tx i expected to reason now =
    go (get_workflow i) (\<lambda>current.
    if w_revision current \<noteq> expected then err ErrRevisionConflict
    else if \<not> allowed_workflow_transition (w_status current) to then err ErrInvalidState
    else if to = WSRunning \<and> w_confirmed_revision current \<noteq> w_revision current then err ErrRevisionConflict
    else
      let confirmed = (if w_confirmed_revision current = w_revision current then expected + 1
                       else w_confirmed_revision current) in
      go (update_workflows (\<lambda>w. w_id w = i \<and> w_revision w = expected) (move_workflow to reason confirmed now)) (\<lambda>n.
      if n = 0 then err ErrRevisionConflict
      else go (if terminal_work_status to then leave_running_mode (w_project_id current) now else ok ()) (\<lambda>_.
        save_workflow_revision i (expected + 1) now)))"

definition transition_workflow_with_reason ::
  "string \<Rightarrow> int \<Rightarrow> work_status \<Rightarrow> string \<Rightarrow> time \<Rightarrow> (db, workflow) prog" where
  "transition_workflow_with_reason i expected to reason now =
    go (tx (transition_workflow_tx i expected to reason now)) (\<lambda>_. get_workflow i)"

definition transition_workflow :: "string \<Rightarrow> int \<Rightarrow> work_status \<Rightarrow> time \<Rightarrow> (db, workflow) prog" where
  "transition_workflow i expected to now = transition_workflow_with_reason i expected to [] now"

section \<open>Tasks\<close>

definition bump_task :: "time \<Rightarrow> task \<Rightarrow> task" where
  "bump_task now t = t\<lparr>t_revision := t_revision t + 1, t_updated_at := now\<rparr>"

definition move_task :: "work_status \<Rightarrow> string \<Rightarrow> string \<Rightarrow> raw_json \<Rightarrow> time \<Rightarrow> task \<Rightarrow> task" where
  "move_task to reason summary evidence now t =
     bump_task now t\<lparr>t_status := to, t_waiting_reason := reason, t_result_summary := summary,
       t_evidence := json_or evidence (JArr []), t_ended_at := ended_at to now\<rparr>"

definition transition_task ::
  "string \<Rightarrow> int \<Rightarrow> work_status \<Rightarrow> string \<Rightarrow> string \<Rightarrow> raw_json \<Rightarrow> time \<Rightarrow> (db, task) prog" where
  "transition_task i expected to reason summary evidence now =
    go (get_task i) (\<lambda>current.
    if t_revision current \<noteq> expected then err ErrRevisionConflict
    else if \<not> allowed_task_transition (t_status current) to then err ErrInvalidState
    else go (update_tasks (\<lambda>t. t_id t = i \<and> t_revision t = expected)
        (move_task to reason summary evidence now)) (\<lambda>n.
      if n = 0 then err ErrRevisionConflict else get_task i))"

definition set_pending_task_reason :: "string \<Rightarrow> int \<Rightarrow> string \<Rightarrow> time \<Rightarrow> (db, task) prog" where
  "set_pending_task_reason i expected reason now =
    go (update_tasks (\<lambda>t. t_id t = i \<and> t_revision t = expected \<and> t_status t = WSPending)
      (\<lambda>t. bump_task now t\<lparr>t_waiting_reason := trim_space reason\<rparr>)) (\<lambda>n.
    if n = 0 then err ErrRevisionConflict else get_task i)"

definition resume_paused_task_planning :: "string \<Rightarrow> int \<Rightarrow> time \<Rightarrow> (db, task) prog" where
  "resume_paused_task_planning i expected now =
    go (select_rows (\<lambda>s. count_where (\<lambda>x. st_task_id x = i) (subtasks s))) (\<lambda>count.
    if count \<noteq> 0 then err ErrInvalidState
    else go (update_tasks (\<lambda>t. t_id t = i \<and> t_revision t = expected \<and> t_status t = WSPaused \<and>
          t_waiting_reason t = ''waiting_input'')
        (\<lambda>t. bump_task now t\<lparr>t_status := WSPending, t_waiting_reason := ''planning_subtasks''\<rparr>)) (\<lambda>n.
      if n = 0 then err ErrRevisionConflict else get_task i))"

definition reserve_robot :: "string \<Rightarrow> string \<Rightarrow> (db, unit) prog" where
  "reserve_robot robot task_id =
    (if robot \<noteq> [] then
       go (robot_reservation robot task_id []) (\<lambda>_.
       go (robot_execution_reservation robot task_id) (\<lambda>_.
       robot_physical_reservation robot))
     else ok ())"

definition bind_task :: "string \<Rightarrow> string \<Rightarrow> time \<Rightarrow> task \<Rightarrow> task" where
  "bind_task agent robot now t =
     bump_task now t\<lparr>t_assigned_agent_id := agent, t_assigned_robot_id := robot,
       t_assignment_revision := t_assignment_revision t + 1, t_waiting_reason := []\<rparr>"

text \<open>The \<open>UPDATE\<close> of both assignments, with the error of the robot index translated.\<close>

definition bind_tasks :: "(task \<Rightarrow> bool) \<Rightarrow> string \<Rightarrow> string \<Rightarrow> time \<Rightarrow> (db, unit) prog" where
  "bind_tasks p agent robot now =
    go (select_rows (\<lambda>s. count_where p (tasks s))) (\<lambda>n.
    attempt (exec_tasks (update_where p (bind_task agent robot now))) (\<lambda>r. case r of
      Inl e \<Rightarrow> if robot \<noteq> [] \<and> e = ErrUnique ''tasks.assigned_robot_id'' then err ErrRobotReserved else err e
    | Inr _ \<Rightarrow> if n = 0 then err ErrRevisionConflict else ok ()))"

definition assign_task :: "string \<Rightarrow> int \<Rightarrow> string \<Rightarrow> string \<Rightarrow> time \<Rightarrow> (db, task) prog" where
  "assign_task i expected agent0 robot0 now =
    (let agent = trim_space agent0; robot = trim_space robot0 in
     if agent = [] then err ErrInvalidState
     else go (get_task i) (\<lambda>current.
       if t_revision current \<noteq> expected \<or> t_status current \<noteq> WSPending then err ErrRevisionConflict
       else if t_assigned_agent_id current \<noteq> [] then
         (if t_assigned_agent_id current = agent \<and> t_assigned_robot_id current = robot then ok current
          else err ErrInvalidState)
       else go (tx (go (reserve_robot robot i) (\<lambda>_.
           bind_tasks (\<lambda>t. t_id t = i \<and> t_revision t = expected \<and> t_status t = WSPending \<and>
             t_assigned_agent_id t = []) agent robot now)))
         (\<lambda>_. get_task i)))"

definition reassign_pending_task_tx :: "string \<Rightarrow> int \<Rightarrow> string \<Rightarrow> string \<Rightarrow> time \<Rightarrow> (db, unit) prog" where
  "reassign_pending_task_tx i expected agent robot now =
    go (select_row (\<lambda>s. find_by t_id i (tasks s)) ErrNotFound) (\<lambda>current.
    if t_status current \<noteq> WSPending \<or> t_revision current \<noteq> expected then err ErrRevisionConflict
    else go (select_rows (\<lambda>s. count_where (\<lambda>x. e_task_id (xr_body x) = i) (executions s))) (\<lambda>execs.
    if execs \<noteq> 0 then err ErrInvalidState
    else go (reserve_robot robot i) (\<lambda>_.
      bind_tasks (\<lambda>t. t_id t = i \<and> t_revision t = expected \<and> t_status t = WSPending) agent robot now)))"

definition reassign_pending_task :: "string \<Rightarrow> int \<Rightarrow> string \<Rightarrow> string \<Rightarrow> time \<Rightarrow> (db, task) prog" where
  "reassign_pending_task i expected agent0 robot0 now =
    (let agent = trim_space agent0; robot = trim_space robot0 in
     if agent = [] then err ErrInvalidState
     else go (tx (reassign_pending_task_tx i expected agent robot now)) (\<lambda>_. get_task i))"

section \<open>SubTasks\<close>

definition bump_subtask :: "time \<Rightarrow> subtask \<Rightarrow> subtask" where
  "bump_subtask now x = x\<lparr>st_revision := st_revision x + 1, st_updated_at := now\<rparr>"

definition move_subtask :: "work_status \<Rightarrow> string \<Rightarrow> raw_json \<Rightarrow> time \<Rightarrow> subtask \<Rightarrow> subtask" where
  "move_subtask to reason result now x =
     bump_subtask now x\<lparr>st_status := to, st_waiting_reason := reason,
       st_result := json_or result (JObj []), st_ended_at := ended_at to now\<rparr>"

definition transition_subtask ::
  "string \<Rightarrow> int \<Rightarrow> work_status \<Rightarrow> string \<Rightarrow> raw_json \<Rightarrow> time \<Rightarrow> (db, subtask) prog" where
  "transition_subtask i expected to reason result now =
    go (get_subtask i) (\<lambda>current.
    if st_revision current \<noteq> expected then err ErrRevisionConflict
    else if \<not> allowed_task_transition (st_status current) to then err ErrInvalidState
    else go (update_subtasks (\<lambda>x. st_id x = i \<and> st_revision x = expected) (move_subtask to reason result now)) (\<lambda>n.
      if n = 0 then err ErrRevisionConflict else get_subtask i))"

definition resume_paused_agent_step :: "string \<Rightarrow> int \<Rightarrow> time \<Rightarrow> (db, subtask) prog" where
  "resume_paused_agent_step i expected now =
    go (update_subtasks (\<lambda>x. st_id x = i \<and> st_revision x = expected \<and> st_status x = WSPaused \<and>
        st_execution_ref x = [] \<and> (st_kind x = ''agent_step'' \<or>
          (st_kind x = ''robot_skill'' \<and> st_waiting_reason x = ''server_restarted'')))
      (\<lambda>x. bump_subtask now x\<lparr>st_status := WSPending, st_waiting_reason := []\<rparr>)) (\<lambda>n.
    if n = 0 then err ErrInvalidState else get_subtask i)"

definition attach_subtask_execution :: "string \<Rightarrow> int \<Rightarrow> string \<Rightarrow> time \<Rightarrow> (db, subtask) prog" where
  "attach_subtask_execution i expected execution_id0 now =
    (let execution_id = trim_space execution_id0 in
     if execution_id = [] then err ErrInvalidState
     else go (update_subtasks (\<lambda>x. st_id x = i \<and> st_revision x = expected \<and> st_status x = WSRunning \<and>
           st_execution_ref x = [])
         (\<lambda>x. bump_subtask now x\<lparr>st_execution_ref := execution_id\<rparr>)) (\<lambda>n.
       if n = 0 then err ErrRevisionConflict else get_subtask i))"

definition update_paused_robot_wait_reason_tx ::
  "string \<Rightarrow> int \<Rightarrow> string \<Rightarrow> int \<Rightarrow> string \<Rightarrow> string \<Rightarrow> time \<Rightarrow> (db, unit) prog" where
  "update_paused_robot_wait_reason_tx task_id task_rev subtask_id subtask_rev from to now =
    go (select_row (\<lambda>s. find (\<lambda>t. t_id t = task_id \<and> t_revision t = task_rev) (tasks s))
      ErrRevisionConflict) (\<lambda>t.
    go (select_row (\<lambda>s. find (\<lambda>x. st_id x = subtask_id \<and> st_task_id x = task_id \<and>
        st_revision x = subtask_rev) (subtasks s)) ErrRevisionConflict) (\<lambda>x.
    if t_status t \<noteq> WSPaused \<or> st_status x \<noteq> WSPaused \<or> t_waiting_reason t \<noteq> from \<or>
       st_waiting_reason x \<noteq> from \<or> st_execution_ref x = [] then err ErrInvalidState
    else go (update_tasks (\<lambda>t. t_id t = task_id \<and> t_revision t = task_rev \<and> t_status t = WSPaused \<and>
          t_waiting_reason t = from) (\<lambda>t. bump_task now t\<lparr>t_waiting_reason := to\<rparr>)) (\<lambda>n.
      if n \<noteq> 1 then err ErrRevisionConflict
      else go (update_subtasks (\<lambda>x. st_id x = subtask_id \<and> st_revision x = subtask_rev \<and>
            st_status x = WSPaused \<and> st_waiting_reason x = from)
          (\<lambda>x. bump_subtask now x\<lparr>st_waiting_reason := to\<rparr>)) (\<lambda>m.
        if m \<noteq> 1 then err ErrRevisionConflict else ok ()))))"

definition update_paused_robot_wait_reason ::
  "string \<Rightarrow> int \<Rightarrow> string \<Rightarrow> int \<Rightarrow> string \<Rightarrow> string \<Rightarrow> time \<Rightarrow> (db, task \<times> subtask) prog" where
  "update_paused_robot_wait_reason task_id task_rev subtask_id subtask_rev from0 to0 now =
    (let from = trim_space from0; to = trim_space to0 in
     if task_id = [] \<or> subtask_id = [] \<or> from = [] \<or> to = [] then err ErrInvalidState
     else go (tx (update_paused_robot_wait_reason_tx task_id task_rev subtask_id subtask_rev from to now)) (\<lambda>_.
       go (get_task task_id) (\<lambda>t. go (get_subtask subtask_id) (\<lambda>x. ok (t, x)))))"

end
