(* ===== verification/StoreTransition.thy ===== *)
theory StoreTransition
  imports StoreWorkflow
begin

text \<open>
  The contract of optimistic transitions, stated once as the locale \<open>revisioned\<close> and provided
  three times: by \<open>TransitionTask\<close>, \<open>TransitionSubTask\<close> and \<open>TransitionWorkflowWithReason\<close>.
  A move names the revision the caller has read; it either advances that very revision by one
  along the transition table, or it leaves every table as it was.  Inside the locale: of any
  number of moves that name the same revision at most one succeeds, and a terminal row never
  moves again.

  The equations \<open>transition_task_eq\<close> and \<open>transition_subtask_eq\<close> give the outcome of the
  operation on every branch.
\<close>

section \<open>Every branch of the transitions\<close>

definition task_at :: "string \<Rightarrow> int \<Rightarrow> task \<Rightarrow> bool" where
  "task_at i expected t \<longleftrightarrow> t_id t = i \<and> t_revision t = expected"

definition subtask_at :: "string \<Rightarrow> int \<Rightarrow> subtask \<Rightarrow> bool" where
  "subtask_at i expected x \<longleftrightarrow> st_id x = i \<and> st_revision x = expected"

definition workflow_at :: "string \<Rightarrow> int \<Rightarrow> workflow \<Rightarrow> bool" where
  "workflow_at i expected w \<longleftrightarrow> w_id w = i \<and> w_revision w = expected"

lemma task_moves [simp]:
  "t_id (bump_task now t) = t_id t" "t_revision (bump_task now t) = t_revision t + 1"
  "t_workflow_id (bump_task now t) = t_workflow_id t" "t_status (bump_task now t) = t_status t"
  "t_assigned_robot_id (bump_task now t) = t_assigned_robot_id t"
  "t_id (move_task to reason summary evidence now t) = t_id t"
  "t_revision (move_task to reason summary evidence now t) = t_revision t + 1"
  "t_status (move_task to reason summary evidence now t) = to"
  "t_workflow_id (move_task to reason summary evidence now t) = t_workflow_id t"
  "t_assigned_robot_id (move_task to reason summary evidence now t) = t_assigned_robot_id t"
  "t_waiting_reason (move_task to reason summary evidence now t) = reason"
  by (simp_all add: bump_task_def move_task_def)

lemma subtask_moves [simp]:
  "st_id (bump_subtask now x) = st_id x" "st_revision (bump_subtask now x) = st_revision x + 1"
  "st_task_id (bump_subtask now x) = st_task_id x" "st_status (bump_subtask now x) = st_status x"
  "st_execution_ref (bump_subtask now x) = st_execution_ref x" "st_kind (bump_subtask now x) = st_kind x"
  "st_id (move_subtask to reason result now x) = st_id x"
  "st_revision (move_subtask to reason result now x) = st_revision x + 1"
  "st_status (move_subtask to reason result now x) = to"
  "st_task_id (move_subtask to reason result now x) = st_task_id x"
  "st_execution_ref (move_subtask to reason result now x) = st_execution_ref x"
  "st_kind (move_subtask to reason result now x) = st_kind x"
  "st_waiting_reason (move_subtask to reason result now x) = reason"
  by (simp_all add: bump_subtask_def move_subtask_def)

lemma workflow_moves [simp]:
  "w_id (move_workflow to reason confirmed now w) = w_id w"
  "w_revision (move_workflow to reason confirmed now w) = w_revision w + 1"
  "w_status (move_workflow to reason confirmed now w) = to"
  "w_project_id (move_workflow to reason confirmed now w) = w_project_id w"
  "w_source_interaction_id (move_workflow to reason confirmed now w) = w_source_interaction_id w"
  "w_confirmed_revision (move_workflow to reason confirmed now w) = confirmed"
  by (simp_all add: move_workflow_def)

lemma find_at:
  "find_by t_id i ts = Some t \<Longrightarrow> count_where (task_at i (t_revision t)) ts \<noteq> 0"
  "find_by st_id i xs = Some x \<Longrightarrow> count_where (subtask_at i (st_revision x)) xs \<noteq> 0"
  "find_by w_id i ws = Some w \<Longrightarrow> count_where (workflow_at i (w_revision w)) ws \<noteq> 0"
  by (auto simp: count_where_0 task_at_def subtask_at_def workflow_at_def dest!: find_by_SomeD)

lemma transition_task_eq:
  "transition_task i expected to reason summary evidence now s =
    (case find_by t_id i (tasks s) of
       None \<Rightarrow> (Inl ErrNotFound, s)
     | Some t0 \<Rightarrow>
         if t_revision t0 \<noteq> expected then (Inl ErrRevisionConflict, s)
         else if \<not> allowed_task_transition (t_status t0) to then (Inl ErrInvalidState, s)
         else (Inr (move_task to reason summary evidence now t0),
               s\<lparr>tasks := update_where (task_at i expected) (move_task to reason summary evidence now) (tasks s)\<rparr>))"
proof -
  have at: "(\<lambda>t. t_id t = i \<and> t_revision t = expected) = task_at i expected"
    by (auto simp: task_at_def)
  show ?thesis
  proof (cases "find_by t_id i (tasks s)")
    case None
    then show ?thesis by (simp add: transition_task_def get_task_def run_go select_row_def)
  next
    case (Some t0)
    moreover have "t_id t0 = i" using Some by (auto dest: find_by_SomeD)
    ultimately show ?thesis using find_at(1)[OF Some]
      by (auto simp: transition_task_def get_task_def run_go select_row_def update_tasks_def updating_run at
          find_by_update_where task_at_def[of i expected t0] split: option.splits)
  qed
qed

lemma transition_subtask_eq:
  "transition_subtask i expected to reason result now s =
    (case find_by st_id i (subtasks s) of
       None \<Rightarrow> (Inl ErrNotFound, s)
     | Some x0 \<Rightarrow>
         if st_revision x0 \<noteq> expected then (Inl ErrRevisionConflict, s)
         else if \<not> allowed_task_transition (st_status x0) to then (Inl ErrInvalidState, s)
         else (Inr (move_subtask to reason result now x0),
               s\<lparr>subtasks := update_where (subtask_at i expected) (move_subtask to reason result now) (subtasks s)\<rparr>))"
proof -
  have at: "(\<lambda>x. st_id x = i \<and> st_revision x = expected) = subtask_at i expected"
    by (auto simp: subtask_at_def)
  show ?thesis
  proof (cases "find_by st_id i (subtasks s)")
    case None
    then show ?thesis by (simp add: transition_subtask_def get_subtask_def run_go select_row_def)
  next
    case (Some x0)
    moreover have "st_id x0 = i" using Some by (auto dest: find_by_SomeD)
    ultimately show ?thesis using find_at(2)[OF Some]
      by (auto simp: transition_subtask_def get_subtask_def run_go select_row_def update_subtasks_def
          updating_run at find_by_update_where subtask_at_def[of i expected x0] split: option.splits)
  qed
qed

section \<open>The Workflow view\<close>

definition view_of :: "db \<Rightarrow> workflow \<Rightarrow> workflow_view" where
  "view_of s w = \<lparr>v_workflow = w, v_tasks = tasks_of (w_id w) s,
     v_subtasks = concat (map (\<lambda>t. subtasks_of (t_id t) s) (tasks_of (w_id w) s)),
     v_dependencies = sort_key (\<lambda>d. (td_task_id d, td_depends_on d))
       (filter (\<lambda>d. td_workflow_id d = w_id w) (task_deps s)),
     v_subtask_dependencies = sort_key (\<lambda>d. (sd_task_id d, sd_subtask_id d, sd_depends_on d))
       (filter (\<lambda>d. sd_task_id d \<in> t_id ` set (filter (\<lambda>t. t_workflow_id t = w_id w) (tasks s)))
         (subtask_deps s))\<rparr>"

lemma collect_select_rows: "collect (\<lambda>x. select_rows (g x)) xs s = (Inr (map (\<lambda>x. g x s) xs), s)"
  by (induction xs) (simp_all add: run_go)

lemma get_workflow_view_eq:
  "get_workflow_view_query i s =
    (case find_by w_id i (workflows s) of
       None \<Rightarrow> (Inl ErrNotFound, s)
     | Some w \<Rightarrow> (Inr (view_of s w), s))"
proof (cases "find_by w_id i (workflows s)")
  case (Some w)
  then have "w_id w = i" by (auto dest: find_by_SomeD)
  with Some show ?thesis
    by (simp add: get_workflow_view_query_def get_workflow_def list_tasks_def list_subtasks_def run_go
        select_row_def collect_select_rows view_of_def)
qed (simp add: get_workflow_view_query_def get_workflow_def run_go select_row_def)

lemma save_workflow_revision_Inr:
  "save_workflow_revision i revision now s = (Inr u, t) \<Longrightarrow>
   \<exists>w. find_by w_id i (workflows s) = Some w \<and>
     t = s\<lparr>workflow_revisions := workflow_revisions s @
       [\<lparr>wr_workflow_id = i, wr_revision = revision, wr_snapshot = view_of s w, wr_created_at = now\<rparr>]\<rparr>"
  by (auto simp: save_workflow_revision_def go_Inr_iff get_workflow_view_eq exec_revisions_def checked_Inr
      append_row_def split: option.splits)

lemma leave_running_mode_run:
  "leave_running_mode project_id now s = (Inr (),
     s\<lparr>projects := update_where (\<lambda>p. pr_id p = project_id)
       (\<lambda>p. p\<lparr>pr_mode := ModeDevelopment, pr_revision := pr_revision p + 1, pr_updated_at := now\<rparr>) (projects s)\<rparr>)"
  by (simp add: leave_running_mode_def run_go update_projects_def updating_run)

lemma transition_workflow_tx_Inr:
  assumes "transition_workflow_tx i expected to reason now s = (Inr u, t)"
  shows "\<exists>w0 confirmed. find_by w_id i (workflows s) = Some w0 \<and> w_revision w0 = expected \<and>
    allowed_workflow_transition (w_status w0) to \<and>
    (to = WSRunning \<longrightarrow> w_confirmed_revision w0 = w_revision w0) \<and>
    confirmed = (if w_confirmed_revision w0 = w_revision w0 then expected + 1 else w_confirmed_revision w0) \<and>
    workflows t = update_where (workflow_at i expected) (move_workflow to reason confirmed now) (workflows s) \<and>
    tasks t = tasks s \<and> subtasks t = subtasks s \<and> task_deps t = task_deps s \<and> subtask_deps t = subtask_deps s \<and>
    runs t = runs s \<and> executions t = executions s \<and>
    (\<exists>view. workflow_revisions t = workflow_revisions s @
       [\<lparr>wr_workflow_id = i, wr_revision = expected + 1, wr_snapshot = view, wr_created_at = now\<rparr>])"
proof -
  have at: "(\<lambda>w. w_id w = i \<and> w_revision w = expected) = workflow_at i expected"
    by (auto simp: workflow_at_def)
  obtain w0 where w0: "find_by w_id i (workflows s) = Some w0" "w_revision w0 = expected"
      "allowed_workflow_transition (w_status w0) to" "to = WSRunning \<longrightarrow> w_confirmed_revision w0 = w_revision w0"
    and rest: "go (update_workflows (workflow_at i expected) (move_workflow to reason
          (if w_confirmed_revision w0 = w_revision w0 then expected + 1 else w_confirmed_revision w0) now)) (\<lambda>n.
        if n = 0 then err ErrRevisionConflict
        else go (if terminal_work_status to then leave_running_mode (w_project_id w0) now else ok ()) (\<lambda>_.
          save_workflow_revision i (expected + 1) now)) s = (Inr u, t)"
    using assms unfolding transition_workflow_tx_def get_workflow_def at
    by (auto simp: go_Inr_iff[of "select_row _ _"] Let_def split: if_splits)
  let ?move = "move_workflow to reason
      (if w_confirmed_revision w0 = w_revision w0 then expected + 1 else w_confirmed_revision w0) now"
  let ?s1 = "s\<lparr>workflows := update_where (workflow_at i expected) ?move (workflows s)\<rparr>"
  obtain s2 where s2: "(if terminal_work_status to then leave_running_mode (w_project_id w0) now else ok ()) ?s1
      = (Inr (), s2)" and save: "save_workflow_revision i (expected + 1) now s2 = (Inr u, t)"
    using rest by (auto simp: go_Inr_iff update_workflows_def updating_run split: if_splits)
  have same: "workflows s2 = workflows ?s1" "tasks s2 = tasks s" "subtasks s2 = subtasks s"
    "task_deps s2 = task_deps s" "subtask_deps s2 = subtask_deps s" "runs s2 = runs s"
    "executions s2 = executions s" "workflow_revisions s2 = workflow_revisions s"
    using s2 by (auto simp: leave_running_mode_run split: if_splits)
  from save_workflow_revision_Inr[OF save] obtain view where
    "t = s2\<lparr>workflow_revisions := workflow_revisions s2 @
       [\<lparr>wr_workflow_id = i, wr_revision = expected + 1, wr_snapshot = view, wr_created_at = now\<rparr>]\<rparr>"
    by auto
  with w0 same show ?thesis by simp
qed

lemma transition_workflow_Inr:
  assumes "transition_workflow_with_reason i expected to reason now s = (Inr w, t)"
  shows "\<exists>w0 confirmed. find_by w_id i (workflows s) = Some w0 \<and> w_revision w0 = expected \<and>
    allowed_workflow_transition (w_status w0) to \<and>
    (to = WSRunning \<longrightarrow> w_confirmed_revision w0 = w_revision w0) \<and>
    confirmed = (if w_confirmed_revision w0 = w_revision w0 then expected + 1 else w_confirmed_revision w0) \<and>
    w = move_workflow to reason confirmed now w0 \<and>
    workflows t = update_where (workflow_at i expected) (move_workflow to reason confirmed now) (workflows s) \<and>
    tasks t = tasks s \<and> subtasks t = subtasks s \<and> runs t = runs s \<and> executions t = executions s"
proof -
  have run: "transition_workflow_tx i expected to reason now s = (Inr (), t)"
    and w: "find_by w_id i (workflows t) = Some w"
    using assms by (auto simp: transition_workflow_with_reason_def go_Inr_iff get_workflow_def)
  from transition_workflow_tx_Inr[OF run] obtain w0 confirmed where
    0: "find_by w_id i (workflows s) = Some w0" "w_revision w0 = expected"
      "allowed_workflow_transition (w_status w0) to" "to = WSRunning \<longrightarrow> w_confirmed_revision w0 = w_revision w0"
      "confirmed = (if w_confirmed_revision w0 = w_revision w0 then expected + 1 else w_confirmed_revision w0)"
      "workflows t = update_where (workflow_at i expected) (move_workflow to reason confirmed now) (workflows s)"
      "tasks t = tasks s \<and> subtasks t = subtasks s \<and> runs t = runs s \<and> executions t = executions s"
    by auto
  have "w_id w0 = i" using 0(1) by (auto dest: find_by_SomeD)
  then have "w = move_workflow to reason confirmed now w0"
    using w 0(1,2) unfolding 0(6) by (simp add: find_by_update_where workflow_at_def)
  with 0 show ?thesis by auto
qed

lemma transition_workflow_Inl:
  assumes "transition_workflow_with_reason i expected to reason now s = (Inl e, t)"
  shows "same_tables s t"
proof -
  from assms consider "tx (transition_workflow_tx i expected to reason now) s = (Inl e, t)"
    | "\<exists>u. transition_workflow_tx i expected to reason now s = (Inr (), u) \<and> get_workflow i u = (Inl e, t)"
    by (auto simp: transition_workflow_with_reason_def go_Inl_iff)
  then show ?thesis
  proof cases
    case 1
    then show ?thesis by (rule tx_error_same)
  next
    case 2
    then obtain u where run: "transition_workflow_tx i expected to reason now s = (Inr (), u)"
      and none: "find_by w_id i (workflows u) = None" by (auto simp: get_workflow_def)
    from transition_workflow_tx_Inr[OF run] none show ?thesis
      by (auto simp: find_by_update_where)
  qed
qed

section \<open>The contract\<close>

locale revisioned =
  fixes row :: "db \<Rightarrow> string \<Rightarrow> 'r option"
    and revision :: "'r \<Rightarrow> int"
    and status :: "'r \<Rightarrow> work_status"
    and allowed :: "work_status \<Rightarrow> work_status \<Rightarrow> bool"
    and move :: "string \<Rightarrow> int \<Rightarrow> work_status \<Rightarrow> 'm \<Rightarrow> (db, 'r) prog"
  assumes move_ok: "move i n to m s = (Inr r, t) \<Longrightarrow>
      \<exists>r0. row s i = Some r0 \<and> revision r0 = n \<and> allowed (status r0) to \<and>
        row t i = Some r \<and> revision r = n + 1 \<and> status r = to"
    and move_frame: "move i n to m s = (Inr r, t) \<Longrightarrow> j \<noteq> i \<Longrightarrow> row t j = row s j"
    and move_error: "move i n to m s = (Inl e, t) \<Longrightarrow> row t j = row s j"
    and terminal_stays: "terminal_work_status a \<Longrightarrow> \<not> allowed a b"
begin

lemma stale_move_fails: "row s i = Some r0 \<Longrightarrow> revision r0 \<noteq> n \<Longrightarrow> \<exists>e t. move i n to m s = (Inl e, t)"
  by (cases "move i n to m s"; cases "fst (move i n to m s)") (auto dest: move_ok)

lemma second_move_fails:
  assumes "move i n to m s = (Inr r, t)"
  shows "\<exists>e u. move i n to' m' t = (Inl e, u)"
  using move_ok[OF assms] stale_move_fails[of t i r n to' m'] by auto

lemma terminal_move_fails: "row s i = Some r0 \<Longrightarrow> terminal_work_status (status r0) \<Longrightarrow> \<exists>e t. move i n to m s = (Inl e, t)"
proof (cases "move i n to m s"; cases "fst (move i n to m s)")
  fix r t r'
  assume "row s i = Some r0" "terminal_work_status (status r0)" "move i n to m s = (r, t)"
    "fst (move i n to m s) = Inr r'"
  with move_ok[of i n to m s r' t] terminal_stays[of "status r0" to] show ?thesis by auto
qed auto

text \<open>A batch of moves on one row, all naming the revision \<open>n\<close>; the value counts the successes.\<close>

lemma late_moves_fail:
  "row s i = Some r0 \<Longrightarrow> revision r0 \<noteq> n \<Longrightarrow> successes (map (\<lambda>(to, m). move i n to m) ms) s = 0"
proof (induction ms arbitrary: s)
  case (Cons x ms)
  obtain to m where x: "x = (to, m)" by fastforce
  obtain e t where fail: "move i n to m s = (Inl e, t)" using stale_move_fails[OF Cons.prems] by blast
  have "row t i = Some r0" using move_error[OF fail, of i] Cons.prems(1) by simp
  from Cons.IH[OF this Cons.prems(2)] fail show ?case by (simp add: x)
qed simp

theorem one_winner: "successes (map (\<lambda>(to, m). move i n to m) ms) s \<le> 1"
proof (induction ms arbitrary: s)
  case (Cons x ms)
  obtain to m where x: "x = (to, m)" by fastforce
  show ?case
  proof (cases "move i n to m s")
    case (Pair r t)
    then show ?thesis
    proof (cases r)
      case (Inl e)
      then show ?thesis using Pair Cons.IH[of t] by (simp add: x)
    next
      case (Inr r')
      then obtain "row t i = Some r'" "revision r' = n + 1" using Pair move_ok by blast
      then have "successes (map (\<lambda>(to, m). move i n to m) ms) t = 0" by (intro late_moves_fail) auto
      then show ?thesis using Pair Inr by (simp add: x)
    qed
  qed
qed simp

end

lemma terminal_has_no_next:
  "terminal_work_status a \<Longrightarrow> \<not> allowed_task_transition a b"
  "terminal_work_status a \<Longrightarrow> \<not> allowed_workflow_transition a b"
  by (auto simp: terminal_work_status_def allowed_task_transition_def allowed_workflow_transition_def
      next_task_statuses_def next_workflow_statuses_def)

interpretation task_move: revisioned "\<lambda>s i. find_by t_id i (tasks s)" t_revision t_status
  allowed_task_transition
  "\<lambda>i n to (reason, summary, evidence, now). transition_task i n to reason summary evidence now"
proof unfold_locales
  fix i n to and m :: "string \<times> string \<times> raw_json \<times> time" and s r t
  assume ok: "(case m of (reason, summary, evidence, now) \<Rightarrow> transition_task i n to reason summary evidence now) s = (Inr r, t)"
  then obtain t0 where "find_by t_id i (tasks s) = Some t0" by (auto simp: transition_task_eq split: prod.splits option.splits)
  moreover from this have "t_id t0 = i" by (auto dest: find_by_SomeD)
  ultimately show "\<exists>r0. find_by t_id i (tasks s) = Some r0 \<and> t_revision r0 = n \<and>
      allowed_task_transition (t_status r0) to \<and> find_by t_id i (tasks t) = Some r \<and>
      t_revision r = n + 1 \<and> t_status r = to"
    using ok by (auto simp: transition_task_eq find_by_update_where task_at_def split: prod.splits if_splits)
next
  fix i n to and m :: "string \<times> string \<times> raw_json \<times> time" and s r t and j
  assume "(case m of (reason, summary, evidence, now) \<Rightarrow> transition_task i n to reason summary evidence now) s = (Inr r, t)"
    "j \<noteq> i"
  then show "find_by t_id j (tasks t) = find_by t_id j (tasks s)"
    by (auto simp: transition_task_eq find_by_update_where task_at_def map_option_case
        dest: find_by_SomeD split: prod.splits option.splits if_splits)
next
  fix i n to and m :: "string \<times> string \<times> raw_json \<times> time" and s e t and j
  assume "(case m of (reason, summary, evidence, now) \<Rightarrow> transition_task i n to reason summary evidence now) s = (Inl e, t)"
  then show "find_by t_id j (tasks t) = find_by t_id j (tasks s)"
    by (auto simp: transition_task_eq split: prod.splits option.splits if_splits)
qed (rule terminal_has_no_next)

interpretation subtask_move: revisioned "\<lambda>s i. find_by st_id i (subtasks s)" st_revision st_status
  allowed_task_transition "\<lambda>i n to (reason, result, now). transition_subtask i n to reason result now"
proof unfold_locales
  fix i n to and m :: "string \<times> raw_json \<times> time" and s r t
  assume ok: "(case m of (reason, result, now) \<Rightarrow> transition_subtask i n to reason result now) s = (Inr r, t)"
  then obtain x0 where "find_by st_id i (subtasks s) = Some x0" by (auto simp: transition_subtask_eq split: prod.splits option.splits)
  moreover from this have "st_id x0 = i" by (auto dest: find_by_SomeD)
  ultimately show "\<exists>r0. find_by st_id i (subtasks s) = Some r0 \<and> st_revision r0 = n \<and>
      allowed_task_transition (st_status r0) to \<and> find_by st_id i (subtasks t) = Some r \<and>
      st_revision r = n + 1 \<and> st_status r = to"
    using ok by (auto simp: transition_subtask_eq find_by_update_where subtask_at_def split: prod.splits if_splits)
next
  fix i n to and m :: "string \<times> raw_json \<times> time" and s r t and j
  assume "(case m of (reason, result, now) \<Rightarrow> transition_subtask i n to reason result now) s = (Inr r, t)"
    "j \<noteq> i"
  then show "find_by st_id j (subtasks t) = find_by st_id j (subtasks s)"
    by (auto simp: transition_subtask_eq find_by_update_where subtask_at_def map_option_case
        dest: find_by_SomeD split: prod.splits option.splits if_splits)
next
  fix i n to and m :: "string \<times> raw_json \<times> time" and s e t and j
  assume "(case m of (reason, result, now) \<Rightarrow> transition_subtask i n to reason result now) s = (Inl e, t)"
  then show "find_by st_id j (subtasks t) = find_by st_id j (subtasks s)"
    by (auto simp: transition_subtask_eq split: prod.splits option.splits if_splits)
qed (rule terminal_has_no_next)

interpretation workflow_move: revisioned "\<lambda>s i. find_by w_id i (workflows s)" w_revision w_status
  allowed_workflow_transition "\<lambda>i n to (reason, now). transition_workflow_with_reason i n to reason now"
proof unfold_locales
  fix i n to and m :: "string \<times> time" and s r t
  assume ok: "(case m of (reason, now) \<Rightarrow> transition_workflow_with_reason i n to reason now) s = (Inr r, t)"
  obtain reason now where m: "m = (reason, now)" by fastforce
  from ok[unfolded m prod.case] obtain w0 confirmed where
    w0: "find_by w_id i (workflows s) = Some w0" "w_revision w0 = n" "allowed_workflow_transition (w_status w0) to"
    and r: "r = move_workflow to reason confirmed now w0"
    and t: "workflows t = update_where (workflow_at i n) (move_workflow to reason confirmed now) (workflows s)"
    by (blast dest: transition_workflow_Inr)
  have "w_id w0 = i" using w0(1) by (auto dest: find_by_SomeD)
  then show "\<exists>r0. find_by w_id i (workflows s) = Some r0 \<and> w_revision r0 = n \<and>
      allowed_workflow_transition (w_status r0) to \<and> find_by w_id i (workflows t) = Some r \<and>
      w_revision r = n + 1 \<and> w_status r = to"
    using w0 by (simp add: t r find_by_update_where workflow_at_def)
next
  fix i n to and m :: "string \<times> time" and s r t and j
  assume ok: "(case m of (reason, now) \<Rightarrow> transition_workflow_with_reason i n to reason now) s = (Inr r, t)"
    and j: "j \<noteq> i"
  obtain reason now where m: "m = (reason, now)" by fastforce
  from ok[unfolded m prod.case] obtain confirmed where
    t: "workflows t = update_where (workflow_at i n) (move_workflow to reason confirmed now) (workflows s)"
    by (blast dest: transition_workflow_Inr)
  show "find_by w_id j (workflows t) = find_by w_id j (workflows s)"
    using j by (auto simp: t find_by_update_where workflow_at_def map_option_case
        dest: find_by_SomeD split: option.splits)
next
  fix i n to and m :: "string \<times> time" and s e t and j
  assume "(case m of (reason, now) \<Rightarrow> transition_workflow_with_reason i n to reason now) s = (Inl e, t)"
  then have "same_tables s t" by (auto split: prod.splits dest: transition_workflow_Inl)
  then show "find_by w_id j (workflows t) = find_by w_id j (workflows s)"
    by (simp add: same_tables_proj)
qed (rule terminal_has_no_next)

end
