(* ===== verification/StorePlan.thy ===== *)
theory StorePlan
  imports StoreTransition
begin

text \<open>
  Plans in the store: the JSON text of a Workflow draft, Plan Proposals
  (\<open>internal/store/plan_proposal.go\<close>) and the statements that turn a draft into rows
  (\<open>replacePlanTx\<close>, \<open>SetTaskSubTasks\<close>, \<open>ApplyFailedRobotRecovery\<close> of \<open>workflow.go\<close>).
\<close>

section \<open>The structured plan as JSON\<close>

text \<open>
  \<open>json.Marshal\<close> of a \<open>WorkflowDraft\<close>: empty fields tagged \<open>omitempty\<close> are left out, and a
  \<open>RawMessage\<close> that is not JSON makes it fail.
\<close>

definition raw_field :: "string \<Rightarrow> raw_json \<Rightarrow> (string \<times> json) list option" where
  "raw_field k r = (case r of NoRaw \<Rightarrow> Some [] | Raw j \<Rightarrow> Some [(k, j)] | BadRaw _ \<Rightarrow> None)"

definition string_field :: "string \<Rightarrow> string \<Rightarrow> (string \<times> json) list option" where
  "string_field k v = Some (if v = [] then [] else [(k, JStr v)])"

definition list_field :: "string \<Rightarrow> json list \<Rightarrow> (string \<times> json) list option" where
  "list_field k js = Some (if js = [] then [] else [(k, JArr js)])"

definition object_of :: "(string \<times> json) list option list \<Rightarrow> json option" where
  "object_of parts = map_option (\<lambda>fs. JObj (concat fs)) (those parts)"

definition subtask_draft_json :: "subtask_draft \<Rightarrow> json option" where
  "subtask_draft_json d = object_of
     [string_field ''id'' (sdr_id d), string_field ''kind'' (sdr_kind d),
      Some [(''goal'', JStr (sdr_goal d))], raw_field ''spec'' (sdr_spec d),
      raw_field ''completion_criteria'' (sdr_completion_criteria d),
      list_field ''depends_on'' (map JStr (sdr_depends_on d))]"

definition task_draft_json :: "task_draft \<Rightarrow> json option" where
  "task_draft_json d = object_of
     [string_field ''id'' (tdr_id d), string_field ''required_role'' (tdr_required_role d),
      raw_field ''required_capabilities'' (tdr_required_capabilities d),
      raw_field ''resource_requirements'' (tdr_resource_requirements d),
      Some [(''goal'', JStr (tdr_goal d))], raw_field ''input'' (tdr_input d),
      raw_field ''completion_criteria'' (tdr_completion_criteria d),
      Option.bind (those (map subtask_draft_json (tdr_subtasks d))) (list_field ''subtasks'')]"

definition dependency_json :: "string \<times> string \<Rightarrow> json" where
  "dependency_json d = JObj [(''task_id'', JStr (fst d)), (''depends_on_task_id'', JStr (snd d))]"

definition draft_json :: "workflow_draft \<Rightarrow> json option" where
  "draft_json d = object_of
     [Some [(''goal'', JStr (wdr_goal d))], raw_field ''constraints'' (wdr_constraints d),
      raw_field ''completion_criteria'' (wdr_completion_criteria d),
      raw_field ''map_scope'' (wdr_map_scope d),
      Option.bind (those (map task_draft_json (wdr_tasks d))) (list_field ''tasks''),
      list_field ''dependencies'' (map dependency_json (wdr_dependencies d))]"

text \<open>
  \<open>json.Unmarshal\<close> into the same structs: the last occurrence of a key counts, a missing or
  \<open>null\<close> field is the zero value, a value of another type is an error.
\<close>

definition field :: "any_map \<Rightarrow> string \<Rightarrow> json option" where
  "field fs k = map_of (rev fs) k"

definition string_of_field :: "any_map \<Rightarrow> string \<Rightarrow> string option" where
  "string_of_field fs k = (case field fs k of
     None \<Rightarrow> Some [] | Some JNull \<Rightarrow> Some [] | Some (JStr v) \<Rightarrow> Some v | _ \<Rightarrow> None)"

definition raw_of_field :: "any_map \<Rightarrow> string \<Rightarrow> raw_json" where
  "raw_of_field fs k = (case field fs k of None \<Rightarrow> NoRaw | Some j \<Rightarrow> Raw j)"

definition list_of_field :: "(json \<Rightarrow> 'x option) \<Rightarrow> any_map \<Rightarrow> string \<Rightarrow> 'x list option" where
  "list_of_field f fs k = (case field fs k of
     None \<Rightarrow> Some [] | Some JNull \<Rightarrow> Some [] | Some (JArr js) \<Rightarrow> those (map f js) | _ \<Rightarrow> None)"

definition json_string :: "json \<Rightarrow> string option" where
  "json_string j = (case j of JStr v \<Rightarrow> Some v | JNull \<Rightarrow> Some [] | _ \<Rightarrow> None)"

definition json_fields :: "json \<Rightarrow> any_map option" where
  "json_fields j = (case j of JObj fs \<Rightarrow> Some fs | JNull \<Rightarrow> Some [] | _ \<Rightarrow> None)"

definition subtask_draft_of_json :: "json \<Rightarrow> subtask_draft option" where
  "subtask_draft_of_json j =
     Option.bind (json_fields j) (\<lambda>fs.
     Option.bind (string_of_field fs ''id'') (\<lambda>i.
     Option.bind (string_of_field fs ''kind'') (\<lambda>kind.
     Option.bind (string_of_field fs ''goal'') (\<lambda>goal.
     Option.bind (list_of_field json_string fs ''depends_on'') (\<lambda>deps.
       Some \<lparr>sdr_id = i, sdr_kind = kind, sdr_goal = goal, sdr_spec = raw_of_field fs ''spec'',
         sdr_completion_criteria = raw_of_field fs ''completion_criteria'', sdr_depends_on = deps\<rparr>)))))"

definition task_draft_of_json :: "json \<Rightarrow> task_draft option" where
  "task_draft_of_json j =
     Option.bind (json_fields j) (\<lambda>fs.
     Option.bind (string_of_field fs ''id'') (\<lambda>i.
     Option.bind (string_of_field fs ''required_role'') (\<lambda>role.
     Option.bind (string_of_field fs ''goal'') (\<lambda>goal.
     Option.bind (list_of_field subtask_draft_of_json fs ''subtasks'') (\<lambda>subs.
       Some \<lparr>tdr_id = i, tdr_required_role = role,
         tdr_required_capabilities = raw_of_field fs ''required_capabilities'',
         tdr_resource_requirements = raw_of_field fs ''resource_requirements'', tdr_goal = goal,
         tdr_input = raw_of_field fs ''input'',
         tdr_completion_criteria = raw_of_field fs ''completion_criteria'', tdr_subtasks = subs\<rparr>)))))"

definition dependency_of_json :: "json \<Rightarrow> (string \<times> string) option" where
  "dependency_of_json j =
     Option.bind (json_fields j) (\<lambda>fs.
     Option.bind (string_of_field fs ''task_id'') (\<lambda>a.
     Option.bind (string_of_field fs ''depends_on_task_id'') (\<lambda>b. Some (a, b))))"

definition draft_of_json :: "json \<Rightarrow> workflow_draft option" where
  "draft_of_json j =
     Option.bind (json_fields j) (\<lambda>fs.
     Option.bind (string_of_field fs ''goal'') (\<lambda>goal.
     Option.bind (list_of_field task_draft_of_json fs ''tasks'') (\<lambda>ts.
     Option.bind (list_of_field dependency_of_json fs ''dependencies'') (\<lambda>deps.
       Some \<lparr>wdr_goal = goal, wdr_constraints = raw_of_field fs ''constraints'',
         wdr_completion_criteria = raw_of_field fs ''completion_criteria'',
         wdr_map_scope = raw_of_field fs ''map_scope'', wdr_tasks = ts, wdr_dependencies = deps\<rparr>))))"

lemma those_map_inverse:
  "those (map f xs) = Some ys \<Longrightarrow> (\<And>x y. x \<in> set xs \<Longrightarrow> f x = Some y \<Longrightarrow> g y = Some x) \<Longrightarrow>
   those (map g ys) = Some xs"
proof (induction xs arbitrary: ys)
  case (Cons x xs)
  then obtain y ys' where "ys = y # ys'" "f x = Some y" "those (map f xs) = Some ys'"
    by (auto split: option.splits)
  moreover from this have "g y = Some x" using Cons.prems(2) by simp
  moreover have "those (map g ys') = Some xs" using Cons calculation by simp
  ultimately show ?case by simp
qed simp

lemma those_map_Some: "(\<And>x. g (f x) = Some x) \<Longrightarrow> those (map g (map f xs)) = Some xs"
  by (induction xs) auto

text \<open>What a field looks up in the parts of an encoded object.\<close>

definition raw_value :: "raw_json \<Rightarrow> json option" where
  "raw_value r = (case r of Raw j \<Rightarrow> Some j | _ \<Rightarrow> None)"

definition list_value :: "json list \<Rightarrow> json option" where
  "list_value js = (if js = [] then None else Some (JArr js))"

definition string_value :: "string \<Rightarrow> json option" where
  "string_value v = (if v = [] then None else Some (JStr v))"

lemma field_Nil [simp]: "field [] k = None"
  by (simp add: field_def)

fun orelse :: "'a option \<Rightarrow> 'a option \<Rightarrow> 'a option" where
  "orelse None b = b"
| "orelse (Some x) b = Some x"

lemma orelse_None [simp]: "orelse a None = a"
  by (cases a) auto

lemma field_append [simp]: "field (p @ q) k = orelse (field q k) (field p k)"
  by (simp add: field_def map_add_def split: option.splits)

lemma field_Cons [simp]: "field ((k, j) # p) k' = orelse (field p k') (if k' = k then Some j else None)"
  using field_append[of "[(k, j)]" p k'] by (simp add: field_def)

lemma raw_field_Some:
  "raw_field k r = Some p \<Longrightarrow> field p k' = (if k' = k then raw_value r else None) \<and>
    (case raw_value r of None \<Rightarrow> NoRaw | Some j \<Rightarrow> Raw j) = r"
  by (auto simp: raw_field_def raw_value_def split: raw_json.splits)

lemma string_field_Some:
  "string_field k v = Some p \<longleftrightarrow> p = (case string_value v of None \<Rightarrow> [] | Some j \<Rightarrow> [(k, j)])"
  by (auto simp: string_field_def string_value_def)

lemma list_field_Some:
  "list_field k js = Some p \<longleftrightarrow> p = (case list_value js of None \<Rightarrow> [] | Some j \<Rightarrow> [(k, j)])"
  by (auto simp: list_field_def list_value_def)

lemma field_optional [simp]:
  "field (case v of None \<Rightarrow> [] | Some j \<Rightarrow> [(k, j)]) k' = (if k' = k then v else None)"
  by (simp split: option.splits)

lemma read_string [simp]:
  "(case string_value v of None \<Rightarrow> Some [] | Some JNull \<Rightarrow> Some [] | Some (JStr w) \<Rightarrow> Some w | _ \<Rightarrow> None) = Some v"
  by (simp add: string_value_def)

lemma read_list [simp]:
  "(case list_value js of None \<Rightarrow> Some [] | Some JNull \<Rightarrow> Some [] | Some (JArr ks) \<Rightarrow> those (map f ks) | _ \<Rightarrow> None) =
    those (map f js)"
  by (simp add: list_value_def)

lemmas read_defs = string_of_field_def raw_of_field_def list_of_field_def json_fields_def

lemma those_strings: "those (map json_string (map JStr xs)) = Some xs"
  by (rule those_map_Some) (simp add: json_string_def)

lemma subtask_draft_roundtrip:
  assumes "subtask_draft_json d = Some j"
  shows "subtask_draft_of_json j = Some d"
proof -
  obtain p1 p2 p4 p5 p6 where
    p: "string_field ''id'' (sdr_id d) = Some p1" "string_field ''kind'' (sdr_kind d) = Some p2"
    "list_field ''depends_on'' (map JStr (sdr_depends_on d)) = Some p6"
    and r: "raw_field ''spec'' (sdr_spec d) = Some p4"
    "raw_field ''completion_criteria'' (sdr_completion_criteria d) = Some p5"
    and j: "j = JObj (p1 @ p2 @ [(''goal'', JStr (sdr_goal d))] @ p4 @ p5 @ p6)"
    using assms by (auto simp: subtask_draft_json_def object_of_def split: option.splits)
  show ?thesis
    using p those_strings[of "sdr_depends_on d"] raw_field_Some[OF r(1)] raw_field_Some[OF r(2)]
    by (simp add: j subtask_draft_of_json_def read_defs string_field_Some list_field_Some)
qed

lemma task_draft_roundtrip:
  assumes "task_draft_json d = Some j"
  shows "task_draft_of_json j = Some d"
proof -
  obtain p1 p2 p3 p4 p6 p7 p8 subs where
    p: "string_field ''id'' (tdr_id d) = Some p1" "string_field ''required_role'' (tdr_required_role d) = Some p2"
    "list_field ''subtasks'' subs = Some p8"
    and subs: "those (map subtask_draft_json (tdr_subtasks d)) = Some subs"
    and r: "raw_field ''required_capabilities'' (tdr_required_capabilities d) = Some p3"
    "raw_field ''resource_requirements'' (tdr_resource_requirements d) = Some p4"
    "raw_field ''input'' (tdr_input d) = Some p6"
    "raw_field ''completion_criteria'' (tdr_completion_criteria d) = Some p7"
    and j: "j = JObj (p1 @ p2 @ p3 @ p4 @ [(''goal'', JStr (tdr_goal d))] @ p6 @ p7 @ p8)"
    using assms by (auto simp: task_draft_json_def object_of_def split: option.splits Option.bind_splits)
  have "those (map subtask_draft_of_json subs) = Some (tdr_subtasks d)"
    by (rule those_map_inverse[OF subs subtask_draft_roundtrip])
  then show ?thesis
    using p raw_field_Some[OF r(1)] raw_field_Some[OF r(2)] raw_field_Some[OF r(3)] raw_field_Some[OF r(4)]
    by (simp add: j task_draft_of_json_def read_defs string_field_Some list_field_Some)
qed

theorem draft_roundtrip:
  assumes "draft_json d = Some j"
  shows "draft_of_json j = Some d"
proof -
  obtain p2 p3 p4 p5 p6 ts where
    p: "list_field ''tasks'' ts = Some p5"
    "list_field ''dependencies'' (map dependency_json (wdr_dependencies d)) = Some p6"
    and ts: "those (map task_draft_json (wdr_tasks d)) = Some ts"
    and r: "raw_field ''constraints'' (wdr_constraints d) = Some p2"
    "raw_field ''completion_criteria'' (wdr_completion_criteria d) = Some p3"
    "raw_field ''map_scope'' (wdr_map_scope d) = Some p4"
    and j: "j = JObj ([(''goal'', JStr (wdr_goal d))] @ p2 @ p3 @ p4 @ p5 @ p6)"
    using assms by (auto simp: draft_json_def object_of_def split: option.splits Option.bind_splits)
  have "those (map task_draft_of_json ts) = Some (wdr_tasks d)"
    by (rule those_map_inverse[OF ts task_draft_roundtrip])
  moreover have "those (map dependency_of_json (map dependency_json (wdr_dependencies d))) = Some (wdr_dependencies d)"
    by (rule those_map_Some) (simp add: dependency_of_json_def dependency_json_def read_defs)
  ultimately show ?thesis
    using p raw_field_Some[OF r(1)] raw_field_Some[OF r(2)] raw_field_Some[OF r(3)]
    by (simp add: j draft_of_json_def read_defs list_field_Some)
qed

end
