(* ===== verification/StoreProposal.thy ===== *)
theory StoreProposal
  imports StorePlan
begin

text \<open>
  From drafts to rows: \<open>replacePlanTx\<close>, \<open>allocateSubTaskIDsTx\<close>, \<open>SetTaskSubTasks\<close> and
  \<open>ApplyFailedRobotRecovery\<close> of \<open>internal/store/workflow.go\<close>, and the life of a Plan Proposal
  (\<open>internal/store/plan_proposal.go\<close>): submitted and revised by the planning Agent, discarded,
  or approved into exactly one running Workflow.
\<close>

section \<open>Rows of a draft\<close>

text \<open>The Go map from draft identifiers to row identifiers; a missing key reads as the empty string.\<close>

definition mapped :: "(string \<times> string) list \<Rightarrow> string \<Rightarrow> string" where
  "mapped m k = (case map_of m k of Some v \<Rightarrow> v | None \<Rightarrow> [])"

definition draft_task_row :: "string \<Rightarrow> string \<Rightarrow> nat \<Rightarrow> task_draft \<Rightarrow> time \<Rightarrow> task" where
  "draft_task_row task_id workflow_id position d now =
     \<lparr>t_id = task_id, t_workflow_id = workflow_id, t_position = position,
      t_required_role = tdr_required_role d,
      t_required_capabilities = json_or (tdr_required_capabilities d) (JArr []),
      t_resource_requirements = json_or (tdr_resource_requirements d) (JObj []),
      t_assigned_agent_id = [], t_assigned_robot_id = [], t_assignment_revision = 0,
      t_goal = trim_space (tdr_goal d), t_input = json_or (tdr_input d) (JObj []),
      t_completion_criteria = json_or (tdr_completion_criteria d) (JArr []),
      t_status = WSPending, t_waiting_reason = [], t_result_summary = [], t_evidence = Raw (JArr []),
      t_context_id = ''task:'' @ task_id, t_revision = 1, t_created_at = now, t_updated_at = now,
      t_ended_at = None\<rparr>"

definition draft_subtask_row :: "string \<Rightarrow> string \<Rightarrow> nat \<Rightarrow> subtask_draft \<Rightarrow> time \<Rightarrow> subtask" where
  "draft_subtask_row subtask_id task_id position d now =
     \<lparr>st_id = subtask_id, st_task_id = task_id, st_position = position, st_kind = sdr_kind d,
      st_goal = trim_space (sdr_goal d), st_spec = json_or (sdr_spec d) (JObj []),
      st_completion_criteria = json_or (sdr_completion_criteria d) (JArr []),
      st_evidence = Raw (JArr []), st_execution_ref = [], st_status = WSPending, st_waiting_reason = [],
      st_result = Raw (JObj []), st_revision = 1, st_created_at = now, st_updated_at = now, st_ended_at = None\<rparr>"

text \<open>Keep the identifier of the draft unless a row already carries it.\<close>

definition task_id_conflicts :: "string \<Rightarrow> db \<Rightarrow> nat" where
  "task_id_conflicts i s = count_where (\<lambda>t. t_id t = i \<or> t_context_id t = ''task:'' @ i) (tasks s)"

definition allocate_task_id :: "task_draft \<Rightarrow> (db, string \<times> string) prog" where
  "allocate_task_id d =
     go (select_rows (task_id_conflicts (tdr_id d))) (\<lambda>n.
     go (if n \<noteq> 0 then new_task_id else ok (tdr_id d)) (\<lambda>i. ok (tdr_id d, i)))"

definition allocate_subtask_id :: "subtask_draft \<Rightarrow> (db, string \<times> string) prog" where
  "allocate_subtask_id d =
     go (select_rows (\<lambda>s. count_where (\<lambda>x. st_id x = sdr_id d) (subtasks s))) (\<lambda>n.
     go (if n \<noteq> 0 then new_subtask_id else ok (sdr_id d)) (\<lambda>i. ok (sdr_id d, i)))"

definition allocate_subtask_ids :: "subtask_draft list \<Rightarrow> (db, (string \<times> string) list) prog" where
  "allocate_subtask_ids items = collect allocate_subtask_id items"

text \<open>\<open>replacePlanTx\<close> wraps the error of an insertion, the SubTask plans return it as it is.\<close>

definition wrapping :: "(error \<Rightarrow> error) \<Rightarrow> (db, 'a) prog \<Rightarrow> (db, 'a) prog" where
  "wrapping w m = attempt m (\<lambda>r. case r of Inl e \<Rightarrow> err (w e) | Inr x \<Rightarrow> ok x)"

definition insert_subtask_dep :: "string \<Rightarrow> string \<Rightarrow> string \<Rightarrow> (db, unit) prog" where
  "insert_subtask_dep task_id subtask_id dep =
     exec_subtask_deps (append_row \<lparr>sd_task_id = task_id, sd_subtask_id = subtask_id, sd_depends_on = dep\<rparr>)"

definition insert_subtask ::
  "(string \<Rightarrow> error \<Rightarrow> error) \<Rightarrow> string \<Rightarrow> (string \<times> string) list \<Rightarrow> time \<Rightarrow> nat \<times> subtask_draft \<Rightarrow>
   (db, unit) prog" where
  "insert_subtask wrap task_id ids now pd = (case pd of (position, d) \<Rightarrow>
     go (wrapping (wrap ''create SubTask'')
       (exec_subtasks (append_row (draft_subtask_row (mapped ids (sdr_id d)) task_id position d now)))) (\<lambda>_.
     for_each (\<lambda>dep. wrapping (wrap ''create SubTask dependency'')
       (insert_subtask_dep task_id (mapped ids (sdr_id d)) (mapped ids dep))) (sdr_depends_on d)))"

definition plain :: "string \<Rightarrow> error \<Rightarrow> error" where
  "plain m e = e"

definition insert_task :: "string \<Rightarrow> (string \<times> string) list \<Rightarrow> time \<Rightarrow> nat \<times> task_draft \<Rightarrow> (db, unit) prog" where
  "insert_task workflow_id task_ids now pd = (case pd of (position, d) \<Rightarrow>
     let task_id = mapped task_ids (tdr_id d) in
     go (wrapping (Wrapped ''create Task'')
       (exec_tasks (append_row (draft_task_row task_id workflow_id position d now)))) (\<lambda>_.
     go (allocate_subtask_ids (tdr_subtasks d)) (\<lambda>ids.
     for_each (insert_subtask Wrapped task_id ids now) (enumerate 0 (tdr_subtasks d)))))"

definition insert_task_dep :: "string \<Rightarrow> (string \<times> string) list \<Rightarrow> string \<times> string \<Rightarrow> (db, unit) prog" where
  "insert_task_dep workflow_id task_ids d =
     exec_task_deps (append_row \<lparr>td_workflow_id = workflow_id, td_task_id = mapped task_ids (fst d),
       td_depends_on = mapped task_ids (snd d)\<rparr>)"

definition delete_plan :: "string \<Rightarrow> db \<Rightarrow> db" where
  "delete_plan workflow_id s =
     (let own = (\<lambda>i. \<exists>t \<in> set (tasks s). t_id t = i \<and> t_workflow_id t = workflow_id) in
      s\<lparr>task_deps := filter (\<lambda>d. td_workflow_id d \<noteq> workflow_id) (task_deps s),
        subtask_deps := filter (\<lambda>d. \<not> own (sd_task_id d)) (subtask_deps s),
        subtasks := filter (\<lambda>x. \<not> own (st_task_id x)) (subtasks s),
        tasks := filter (\<lambda>t. t_workflow_id t \<noteq> workflow_id) (tasks s)\<rparr>)"

definition replace_plan_tx :: "string \<Rightarrow> workflow_draft \<Rightarrow> time \<Rightarrow> (db, unit) prog" where
  "replace_plan_tx workflow_id d now =
     go (writing (delete_plan workflow_id)) (\<lambda>_.
     go (collect allocate_task_id (wdr_tasks d)) (\<lambda>task_ids.
     go (for_each (insert_task workflow_id task_ids now) (enumerate 0 (wdr_tasks d))) (\<lambda>_.
     for_each (insert_task_dep workflow_id task_ids) (wdr_dependencies d))))"

section \<open>SubTask plans\<close>

definition set_task_subtasks_tx :: "string \<Rightarrow> int \<Rightarrow> subtask_draft list \<Rightarrow> time \<Rightarrow> (db, unit) prog" where
  "set_task_subtasks_tx task_id expected items now =
     go (scan_task task_id) (\<lambda>t.
     if t_revision t \<noteq> expected \<or> t_status t \<noteq> WSPending then err ErrRevisionConflict
     else go (select_rows (\<lambda>s. count_where (\<lambda>x. st_task_id x = task_id) (subtasks s))) (\<lambda>count.
     if count \<noteq> 0 then err ErrInvalidState
     else go (allocate_subtask_ids items) (\<lambda>ids.
     go (for_each (insert_subtask plain task_id ids now) (enumerate 0 items)) (\<lambda>_.
     go (update_tasks (\<lambda>t. t_id t = task_id \<and> t_revision t = expected \<and> t_status t = WSPending)
       (bump_task now)) (\<lambda>n.
     if n = 0 then err ErrRevisionConflict else ok ())))))"

definition set_task_subtasks ::
  "string \<Rightarrow> int \<Rightarrow> subtask_draft list \<Rightarrow> time \<Rightarrow> (db, task \<times> subtask list) prog" where
  "set_task_subtasks task_id expected items now =
     go (validate_subtask_drafts items) (\<lambda>named.
     go (tx (set_task_subtasks_tx task_id expected named now)) (\<lambda>_.
     go (get_task task_id) (\<lambda>t. go (list_subtasks task_id) (\<lambda>subs. ok (t, subs)))))"

definition next_position :: "string \<Rightarrow> db \<Rightarrow> nat" where
  "next_position task_id s =
     foldr (\<lambda>x n. max (st_position x + 1) n) (filter (\<lambda>x. st_task_id x = task_id) (subtasks s)) 0"

definition fail_replaced :: "subtask \<Rightarrow> time \<Rightarrow> (db, nat) prog" where
  "fail_replaced failed now =
     update_subtasks (\<lambda>x. st_id x = st_id failed \<and> st_revision x = st_revision failed \<and> st_status x = WSPaused)
       (\<lambda>x. (bump_subtask now x)\<lparr>st_status := WSFailed, st_waiting_reason := ''replaced_after_failure'',
          st_ended_at := Some now\<rparr>)"

definition stop_remaining :: "string \<Rightarrow> time \<Rightarrow> (db, nat) prog" where
  "stop_remaining task_id now =
     update_subtasks (\<lambda>x. st_task_id x = task_id \<and> st_status x = WSPending)
       (\<lambda>x. (bump_subtask now x)\<lparr>st_status := WSStopped, st_waiting_reason := ''revised_after_failure'',
          st_ended_at := Some now\<rparr>)"

definition apply_failed_robot_recovery_tx ::
  "string \<Rightarrow> int \<Rightarrow> string \<Rightarrow> subtask_draft list \<Rightarrow> time \<Rightarrow> (db, unit) prog" where
  "apply_failed_robot_recovery_tx task_id expected failed_id replacements now =
     go (scan_task task_id) (\<lambda>t.
     if t_revision t \<noteq> expected \<or> t_status t \<noteq> WSPaused then err ErrRevisionConflict
     else go (scan_subtask failed_id) (\<lambda>failed.
     if st_task_id failed \<noteq> task_id \<or> st_status failed \<noteq> WSPaused \<or> st_kind failed \<noteq> ''robot_skill'' \<or>
        st_execution_ref failed = [] then err ErrInvalidState
     else go (select_row (\<lambda>s. find (\<lambda>x. xr_id x = st_execution_ref failed \<and> xr_subtask_id x = st_id failed)
         (executions s)) ErrNoRows) (\<lambda>x.
     if xr_status x \<noteq> ''failed'' then err ErrInvalidState
     else go (fail_replaced failed now) (\<lambda>_.
     go (stop_remaining task_id now) (\<lambda>_.
     go (select_rows (next_position task_id)) (\<lambda>position.
     go (allocate_subtask_ids replacements) (\<lambda>ids.
     go (for_each (insert_subtask plain task_id ids now) (enumerate position replacements)) (\<lambda>_.
     go (update_tasks (\<lambda>t. t_id t = task_id \<and> t_revision t = expected \<and> t_status t = WSPaused)
       (\<lambda>t. (bump_task now t)\<lparr>t_status := WSRunning, t_waiting_reason := []\<rparr>)) (\<lambda>n.
     if n = 0 then err ErrRevisionConflict else ok ())))))))))"

definition apply_failed_robot_recovery ::
  "string \<Rightarrow> int \<Rightarrow> string \<Rightarrow> subtask_draft list \<Rightarrow> time \<Rightarrow> (db, task \<times> subtask list) prog" where
  "apply_failed_robot_recovery task_id expected failed_id replacements now =
     go (validate_subtask_drafts replacements) (\<lambda>named.
     go (tx (apply_failed_robot_recovery_tx task_id expected failed_id named now)) (\<lambda>_.
     go (get_task task_id) (\<lambda>t. go (list_subtasks task_id) (\<lambda>subs. ok (t, subs)))))"

section \<open>Proposals\<close>

definition scan_plan_proposal :: "string \<Rightarrow> (db, plan_proposal) prog" where
  "scan_plan_proposal i = select_row (\<lambda>s. find_by pp_id i (plan_proposals s)) ErrNoRows"

definition get_plan_proposal :: "string \<Rightarrow> (db, plan_proposal) prog" where
  "get_plan_proposal i = select_row (\<lambda>s. find_by pp_id i (plan_proposals s)) ErrNotFound"

definition get_active_plan_proposal :: "string \<Rightarrow> (db, plan_proposal) prog" where
  "get_active_plan_proposal project_id = select_row (\<lambda>s. latest pp_updated_at
     (filter (\<lambda>p. pp_project_id p = project_id \<and> pp_status p = PReady) (plan_proposals s))) ErrNotFound"

definition check_conversation :: "string \<Rightarrow> string \<Rightarrow> (db, unit) prog" where
  "check_conversation conversation_id project_id =
     attempt (get_chat_session conversation_id) (\<lambda>r. case r of
       Inl _ \<Rightarrow> err ErrNotFound
     | Inr c \<Rightarrow> if cs_project_id c \<noteq> project_id \<or> cs_archived_at c \<noteq> None then err ErrNotFound else ok ())"

definition check_active_project :: "project \<Rightarrow> (db, unit) prog" where
  "check_active_project p =
     (if pr_archived_at p \<noteq> None then err ErrProjectArchived
      else if \<not> pr_is_active p then err ErrProjectInactive
      else ok ())"

definition open_workflows :: "string \<Rightarrow> db \<Rightarrow> nat" where
  "open_workflows project_id s =
     count_where (\<lambda>w. w_project_id w = project_id \<and> open_work_status (w_status w)) (workflows s)"

definition revise_proposal ::
  "plan_proposal \<Rightarrow> workflow_draft \<Rightarrow> string \<Rightarrow> raw_json \<Rightarrow> json \<Rightarrow> string \<Rightarrow> time \<Rightarrow> (db, string \<times> int) prog" where
  "revise_proposal active requested summary approved_scope encoded document now =
     go (update_proposals (\<lambda>p. pp_id p = pp_id active \<and> pp_revision p = pp_revision active \<and> pp_status p = PReady)
       (\<lambda>p. p\<lparr>pp_revision := pp_revision p + 1, pp_goal := trim_space (wdr_goal requested),
          pp_summary := trim_space summary, pp_approved_scope := json_or approved_scope (JObj []),
          pp_structured_plan := Raw encoded, pp_document_markdown := document, pp_updated_at := now\<rparr>)) (\<lambda>n.
     if n = 0 then err ErrRevisionConflict else ok (pp_id active, pp_revision active + 1))"

definition create_proposal ::
  "string \<Rightarrow> string \<Rightarrow> workflow_draft \<Rightarrow> string \<Rightarrow> raw_json \<Rightarrow> json \<Rightarrow> string \<Rightarrow> time \<Rightarrow> (db, string \<times> int) prog" where
  "create_proposal project_id conversation_id requested summary approved_scope encoded document now =
     go new_plan_proposal_id (\<lambda>i.
     attempt (exec_proposals (append_row
       \<lparr>pp_id = i, pp_project_id = project_id, pp_conversation_id = conversation_id, pp_revision = 1,
        pp_status = PReady, pp_goal = trim_space (wdr_goal requested), pp_summary = trim_space summary,
        pp_approved_scope = json_or approved_scope (JObj []), pp_structured_plan = Raw encoded,
        pp_document_markdown = document, pp_created_at = now, pp_updated_at = now\<rparr>)) (\<lambda>r. case r of
       Inl e \<Rightarrow> err ErrWorkflowExists
     | Inr _ \<Rightarrow> ok (i, 1)))"

text \<open>
  The body of the transaction of \<open>SubmitPlanProposalForRun\<close>: \<open>Inl\<close> the proposal this Run has
  already submitted, \<open>Inr\<close> the identifier of the proposal it creates or revises now.
\<close>

definition submit_new_plan ::
  "string \<Rightarrow> string \<Rightarrow> string \<Rightarrow> workflow_draft \<Rightarrow> string \<Rightarrow> raw_json \<Rightarrow> string \<Rightarrow> time \<Rightarrow>
   (db, plan_proposal + string) prog" where
  "submit_new_plan run_id project_id conversation_id requested summary approved_scope document now =
     go (select_rows (open_workflows project_id)) (\<lambda>count.
     if count \<noteq> 0 then err ErrWorkflowExists
     else case draft_json requested of
       None \<Rightarrow> err ErrJson
     | Some encoded \<Rightarrow>
       go (select_rows (\<lambda>s. find (\<lambda>p. pp_project_id p = project_id \<and> pp_status p = PReady) (plan_proposals s)))
       (\<lambda>active.
       go (case active of
           Some a \<Rightarrow> if pp_conversation_id a \<noteq> conversation_id then err ErrWorkflowExists
             else revise_proposal a requested summary approved_scope encoded document now
         | None \<Rightarrow> create_proposal project_id conversation_id requested summary approved_scope encoded document now)
       (\<lambda>(proposal_id, revision).
       go (if run_id \<noteq> [] then exec_submissions (append_row \<lparr>ps_run_id = run_id, ps_proposal_id = proposal_id,
             ps_proposal_revision = revision, ps_created_at = now\<rparr>) else ok ())
       (\<lambda>_. ok (Inr proposal_id)))))"

definition submit_plan_tx ::
  "string \<Rightarrow> string \<Rightarrow> string \<Rightarrow> workflow_draft \<Rightarrow> string \<Rightarrow> raw_json \<Rightarrow> string \<Rightarrow> time \<Rightarrow>
   (db, plan_proposal + string) prog" where
  "submit_plan_tx run_id project_id conversation_id requested summary approved_scope document now =
     go (select_rows (\<lambda>s. if run_id = [] then None else find_by ps_run_id run_id (plan_submissions s))) (\<lambda>bound.
     case bound of
       Some b \<Rightarrow> go (scan_plan_proposal (ps_proposal_id b)) (\<lambda>p.
         if pp_project_id p \<noteq> project_id \<or> pp_conversation_id p \<noteq> conversation_id then err ErrInvalidState
         else ok (Inl p))
     | None \<Rightarrow> submit_new_plan run_id project_id conversation_id requested summary approved_scope document now)"

definition submit_plan_proposal_for_run ::
  "string \<Rightarrow> string \<Rightarrow> string \<Rightarrow> workflow_draft \<Rightarrow> string \<Rightarrow> raw_json \<Rightarrow> string \<Rightarrow> time \<Rightarrow>
   (db, plan_proposal \<times> bool) prog" where
  "submit_plan_proposal_for_run run_id project_id conversation_id requested0 summary approved_scope document now =
     (if trim_space (wdr_goal requested0) = [] then err (invalid ''goal is empty'')
      else go (validate_draft requested0) (\<lambda>requested.
      if wdr_tasks requested = [] then err ErrInvalidState
      else go (check_conversation conversation_id project_id) (\<lambda>_.
      go (get_project project_id) (\<lambda>p.
      go (check_active_project p) (\<lambda>_.
      go (tx (submit_plan_tx run_id project_id conversation_id requested summary approved_scope document now)) (\<lambda>r.
      case r of
        Inl p \<Rightarrow> ok (p, True)
      | Inr i \<Rightarrow> go (get_plan_proposal i) (\<lambda>p. ok (p, False))))))))"

definition submit_plan_proposal ::
  "string \<Rightarrow> string \<Rightarrow> workflow_draft \<Rightarrow> string \<Rightarrow> raw_json \<Rightarrow> string \<Rightarrow> time \<Rightarrow> (db, plan_proposal) prog" where
  "submit_plan_proposal project_id conversation_id requested summary approved_scope document now =
     go (submit_plan_proposal_for_run [] project_id conversation_id requested summary approved_scope document now)
       (\<lambda>(p, _). ok p)"

definition discard_plan_proposal :: "string \<Rightarrow> int \<Rightarrow> time \<Rightarrow> (db, plan_proposal) prog" where
  "discard_plan_proposal i expected now =
     go (update_proposals (\<lambda>p. pp_id p = i \<and> pp_revision p = expected \<and> pp_status p = PReady)
       (\<lambda>p. p\<lparr>pp_status := PDiscarded, pp_revision := pp_revision p + 1, pp_updated_at := now\<rparr>)) (\<lambda>n.
     if n = 0 then err ErrRevisionConflict else get_plan_proposal i)"

definition approved_workflow :: "string \<Rightarrow> plan_proposal \<Rightarrow> workflow_draft \<Rightarrow> time \<Rightarrow> workflow" where
  "approved_workflow i p d now =
     \<lparr>w_id = i, w_project_id = pp_project_id p, w_conversation_id = pp_conversation_id p,
      w_goal = trim_space (wdr_goal d), w_approved_scope = json_or (pp_approved_scope p) (JObj []),
      w_constraints = json_or (wdr_constraints d) (JArr []),
      w_completion_criteria = json_or (wdr_completion_criteria d) (JArr []),
      w_map_scope = json_or (wdr_map_scope d) (JObj []), w_status = WSRunning, w_reason = [],
      w_revision = 1, w_confirmed_revision = 1, w_source_interaction_id = [], w_created_at = now,
      w_started_at = Some now, w_updated_at = now, w_ended_at = None\<rparr>"

definition insert_approved :: "workflow \<Rightarrow> (db, unit) prog" where
  "insert_approved w = attempt (exec_workflows (append_row w)) (\<lambda>r. case r of
     Inl _ \<Rightarrow> err ErrWorkflowExists
   | Inr _ \<Rightarrow> ok ())"

definition unmarshal_plan :: "raw_json \<Rightarrow> (db, workflow_draft) prog" where
  "unmarshal_plan r = (case r of
     Raw j \<Rightarrow> (case draft_of_json j of Some d \<Rightarrow> ok d | None \<Rightarrow> err (Wrapped ''Plan Proposal is damaged'' ErrJson))
   | _ \<Rightarrow> err (Wrapped ''Plan Proposal is damaged'' ErrJson))"

definition enter_running_mode :: "string \<Rightarrow> time \<Rightarrow> (db, nat) prog" where
  "enter_running_mode project_id now =
     update_projects (\<lambda>p. pr_id p = project_id \<and> pr_is_active p \<and> pr_archived_at p = None)
       (\<lambda>p. p\<lparr>pr_mode := ModeRunning, pr_revision := pr_revision p + 1, pr_updated_at := now\<rparr>)"

definition approve_plan_proposal_tx :: "string \<Rightarrow> int \<Rightarrow> time \<Rightarrow> (db, string) prog" where
  "approve_plan_proposal_tx i expected now =
     go (get_plan_proposal i) (\<lambda>proposal.
     if pp_revision proposal \<noteq> expected \<or> pp_status proposal \<noteq> PReady then err ErrRevisionConflict
     else go (unmarshal_plan (pp_structured_plan proposal)) (\<lambda>draft0.
     go (validate_draft draft0) (\<lambda>draft.
     if wdr_tasks draft = [] then err ErrInvalidState
     else go (scan_project (pp_project_id proposal)) (\<lambda>project.
     go (check_active_project project) (\<lambda>_.
     go (select_rows (open_workflows (pp_project_id proposal))) (\<lambda>count.
     if count \<noteq> 0 then err ErrWorkflowExists
     else go new_workflow_id (\<lambda>wid.
     go (insert_approved (approved_workflow wid proposal draft now)) (\<lambda>_.
     go (replace_plan_tx wid draft now) (\<lambda>_.
     go (enter_running_mode (pp_project_id proposal) now) (\<lambda>_.
     go (update_proposals (\<lambda>p. pp_id p = i \<and> pp_revision p = expected \<and> pp_status p = PReady)
       (\<lambda>p. p\<lparr>pp_status := PApproved, pp_revision := pp_revision p + 1, pp_updated_at := now\<rparr>)) (\<lambda>n.
     if n = 0 then err ErrRevisionConflict
     else go (save_workflow_revision wid 1 now) (\<lambda>_. ok wid))))))))))))"

definition approve_plan_proposal :: "string \<Rightarrow> int \<Rightarrow> time \<Rightarrow> (db, workflow_view) prog" where
  "approve_plan_proposal i expected now =
     go (tx (approve_plan_proposal_tx i expected now)) get_workflow_view"

end
