(* ===== verification/StoreRun.thy ===== *)
theory StoreRun
  imports StoreProposal
begin

text \<open>
  Agent Runs (\<open>run_sessions\<close>, \<open>internal/store/chat.go\<close>), Interactions as far as the Workflow
  service and its recovery use them (\<open>interaction.go\<close>), Conversation messages, and the
  transaction that continues a paused Task after its question was answered
  (\<open>internal/store/task_continuation.go\<close>).
\<close>

section \<open>Runs\<close>

definition started_key :: "run_session \<Rightarrow> time" where
  "started_key r = (case r_started_at r of None \<Rightarrow> 0 | Some t \<Rightarrow> t)"

definition get_run_session :: "string \<Rightarrow> (db, run_session) prog" where
  "get_run_session i = select_row (\<lambda>s. find_by r_id i (runs s)) ErrNotFound"

text \<open>\<open>ORDER BY CASE WHEN active THEN 0 ELSE 1 END, started_at DESC, id DESC LIMIT 1\<close>\<close>

definition preferred_run :: "run_session list \<Rightarrow> run_session option" where
  "preferred_run rs = latest (\<lambda>r. (if active_run_status (r_status r) then 1 else 0 :: nat, started_key r, r_id r)) rs"

definition get_run_session_by_source_interaction :: "string \<Rightarrow> (db, run_session) prog" where
  "get_run_session_by_source_interaction i =
     (if trim_space i = [] then err ErrNotFound
      else select_row (\<lambda>s. preferred_run (filter (\<lambda>r. r_source_interaction_id r = i) (runs s))) ErrNotFound)"

definition get_workflow_summary_run :: "string \<Rightarrow> (db, run_session) prog" where
  "get_workflow_summary_run wid =
     (if trim_space wid = [] then err ErrNotFound
      else select_row (\<lambda>s. latest (\<lambda>r. (started_key r, r_id r))
        (filter (\<lambda>r. r_workflow_id r = wid \<and> r_task_id r = [] \<and> r_kind r = KConversation) (runs s))) ErrNotFound)"

definition system_default_project_id :: string where
  "system_default_project_id = ''proj-default-system''"

definition run_project :: "run_session \<Rightarrow> (db, run_session) prog" where
  "run_project run = attempt (get_chat_session (r_chat_session_id run)) (\<lambda>r. case r of
     Inr c \<Rightarrow>
       let run' = (if r_project_id run = [] then run\<lparr>r_project_id := cs_project_id c\<rparr> else run) in
       if r_project_id run' \<noteq> cs_project_id c then err (invalid ''Run and Conversation differ in Project'')
       else ok run'
   | Inl e \<Rightarrow>
       if errors_is e ErrNotFound \<and> r_project_id run = [] then ok (run\<lparr>r_project_id := system_default_project_id\<rparr>)
       else err (Wrapped ''Conversation of the Run does not exist'' e))"

definition run_defaults :: "time \<Rightarrow> run_session \<Rightarrow> run_session" where
  "run_defaults now run =
     (let a = (if r_context_id run = [] then run\<lparr>r_context_id := ''leader:'' @ r_chat_session_id run\<rparr> else run);
          b = (if r_agent_id a = [] then a\<lparr>r_agent_id := r_agent_name a\<rparr> else a);
          c = (if r_agent_name b = [] then b\<lparr>r_agent_name := r_agent_id b\<rparr> else b);
          d = (if r_started_at c = None then c\<lparr>r_started_at := Some now\<rparr> else c)
      in (if r_updated_at d = None then d\<lparr>r_updated_at := r_started_at d\<rparr> else d))"

definition check_run_task :: "run_session \<Rightarrow> (db, unit) prog" where
  "check_run_task run =
     (if r_task_id run \<noteq> [] then
        attempt (get_task (r_task_id run)) (\<lambda>rt. case rt of
          Inl _ \<Rightarrow> err (invalid ''Task Run ownership'')
        | Inr t \<Rightarrow>
          if t_workflow_id t \<noteq> r_workflow_id run \<or> t_context_id t \<noteq> r_context_id run \<or>
             t_assigned_agent_id t \<noteq> r_agent_id run then err (invalid ''Task Run ownership'')
          else attempt (get_workflow (r_workflow_id run)) (\<lambda>rw. case rw of
            Inl _ \<Rightarrow> err (invalid ''Task Run Workflow ownership'')
          | Inr w \<Rightarrow>
            if w_project_id w \<noteq> r_project_id run \<or> w_conversation_id w \<noteq> r_chat_session_id run
              then err (invalid ''Task Run Workflow ownership'')
            else if r_kind run \<noteq> KTaskPlanning \<and> r_kind run \<noteq> KTaskExecution
              then err (invalid ''Task Run kind'')
            else ok ()))
      else if r_kind run = KTaskPlanning \<or> r_kind run = KTaskExecution
        then err (invalid ''Task Run needs task_id'')
      else ok ())"

text \<open>The columns of the \<open>INSERT\<close>: \<open>robot_id\<close> is not among them, \<open>revision\<close> starts at 1.\<close>

definition run_row :: "run_session \<Rightarrow> run_session" where
  "run_row run = run\<lparr>r_robot_id := [], r_revision := 1\<rparr>"

definition create_run_session :: "run_session \<Rightarrow> time \<Rightarrow> (db, unit) prog" where
  "create_run_session run0 now =
     go (run_project run0) (\<lambda>run1.
     let run = run_defaults now run1 in
     go (check_run_task run) (\<lambda>_.
     wrapping (Wrapped ''create run session'') (exec_runs (append_row (run_row run)))))"

definition from_statuses :: "run_status list \<Rightarrow> run_status list" where
  "from_statuses from = (if from = [] then [RQueued, RRunning, RWaitingInput, RCancelling] else from)"

definition after_run_update :: "string \<Rightarrow> nat \<Rightarrow> (db, run_session) prog" where
  "after_run_update i n =
     (if n = 0 then go (get_run_session i) (\<lambda>_. err ErrInvalidState) else get_run_session i)"

definition bump_run :: "time \<Rightarrow> run_session \<Rightarrow> run_session" where
  "bump_run now r = r\<lparr>r_revision := r_revision r + 1, r_updated_at := Some now\<rparr>"

definition update_runs_checked :: "(run_session \<Rightarrow> bool) \<Rightarrow> (run_session \<Rightarrow> run_session) \<Rightarrow> (db, nat) prog" where
  "update_runs_checked p f =
     go (select_rows (\<lambda>s. count_where p (runs s))) (\<lambda>n. go (exec_runs (update_where p f)) (\<lambda>_. ok n))"

definition transition_run_status :: "string \<Rightarrow> run_status list \<Rightarrow> run_status \<Rightarrow> time \<Rightarrow> (db, run_session) prog" where
  "transition_run_status i from to now =
     (if terminal_run_status to then err ErrInvalidState
      else go (update_runs_checked (\<lambda>r. r_id r = i \<and> r_status r \<in> set (from_statuses from))
        (\<lambda>r. (bump_run now r)\<lparr>r_status := to\<rparr>)) (after_run_update i))"

definition finish_run_session ::
  "string \<Rightarrow> run_status list \<Rightarrow> run_status \<Rightarrow> string \<Rightarrow> time \<Rightarrow> (db, run_session) prog" where
  "finish_run_session i from status error_msg now =
     (if \<not> terminal_run_status status then err ErrInvalidState
      else go (update_runs (\<lambda>r. r_id r = i \<and> r_status r \<in> set (from_statuses from))
        (\<lambda>r. (bump_run now r)\<lparr>r_status := status, r_error := error_msg, r_ended_at := Some now\<rparr>)) (after_run_update i))"

definition end_run_session :: "string \<Rightarrow> run_status \<Rightarrow> time \<Rightarrow> (db, unit) prog" where
  "end_run_session i status now = unit_of (finish_run_session i [] status [] now)"

definition update_run_session_status :: "string \<Rightarrow> run_status \<Rightarrow> time \<Rightarrow> (db, unit) prog" where
  "update_run_session_status i status now = unit_of (transition_run_status i [] status now)"

definition update_run_execution_metadata ::
  "string \<Rightarrow> string \<Rightarrow> string \<Rightarrow> string \<Rightarrow> string \<Rightarrow> time \<Rightarrow> (db, run_session) prog" where
  "update_run_execution_metadata i provider endpoint model trace_id now =
     (if trim_space trace_id = [] then err ErrInvalidState
      else go (update_runs (\<lambda>r. r_id r = i \<and> r_status r \<in> {RQueued, RRunning})
        (\<lambda>r. (bump_run now r)\<lparr>r_provider := provider, r_endpoint := endpoint, r_model := model,
           r_trace_id := trace_id\<rparr>)) (\<lambda>n.
      if n = 0 then err ErrInvalidState else get_run_session i))"

definition mark_interrupted_runs :: "time \<Rightarrow> (db, nat \<times> nat) prog" where
  "mark_interrupted_runs now = tx (
     go (update_runs (\<lambda>r. r_status r \<in> {RQueued, RRunning, RWaitingInput})
       (\<lambda>r. (bump_run now r)\<lparr>r_status := RFailed, r_error := ''server restarted'', r_ended_at := Some now\<rparr>)) (\<lambda>failed.
     go (update_runs (\<lambda>r. r_status r = RCancelling)
       (\<lambda>r. (bump_run now r)\<lparr>r_status := RCancelled, r_ended_at := Some now\<rparr>)) (\<lambda>cancelled.
     ok (failed, cancelled))))"

section \<open>Interactions and messages\<close>

definition handled_status :: "interaction_status \<Rightarrow> bool" where
  "handled_status st \<longleftrightarrow> st = IAnswered \<or> st = ICancelled"

definition mark_interaction_handled :: "string \<Rightarrow> time \<Rightarrow> string \<Rightarrow> (db, unit) prog" where
  "mark_interaction_handled i now message =
     go (update_interactions (\<lambda>x. i_id x = i \<and> handled_status (i_status x) \<and> i_handled_at x = None)
       (\<lambda>x. x\<lparr>i_handled_at := Some now, i_handling_error := message\<rparr>)) (\<lambda>n.
     if n = 0 then err ErrInvalidState else ok ())"

definition record_interaction_handling_error :: "string \<Rightarrow> string \<Rightarrow> (db, unit) prog" where
  "record_interaction_handling_error i message =
     go (update_interactions (\<lambda>x. i_id x = i \<and> handled_status (i_status x) \<and> i_handled_at x = None)
       (\<lambda>x. x\<lparr>i_handling_error := message\<rparr>)) (\<lambda>n.
     if n = 0 then err ErrInvalidState else ok ())"

text \<open>\<open>COALESCE(answered_at,cancelled_at)\<close>; \<open>NULL\<close> sorts before every time.\<close>

definition answered_key :: "interaction \<Rightarrow> nat" where
  "answered_key x = (case i_answered_at x of Some t \<Rightarrow> Suc t | None \<Rightarrow>
     (case i_cancelled_at x of Some t \<Rightarrow> Suc t | None \<Rightarrow> 0))"

definition list_unhandled_answered_interactions :: "(db, interaction list) prog" where
  "list_unhandled_answered_interactions = select_rows (\<lambda>s.
     sort_key (\<lambda>x. (answered_key x, i_id x))
       (filter (\<lambda>x. handled_status (i_status x) \<and> i_handled_at x = None) (interactions s)))"

definition get_unhandled_answered_interaction_for_task :: "string \<Rightarrow> (db, interaction) prog" where
  "get_unhandled_answered_interaction_for_task tid = select_row (\<lambda>s.
     latest (\<lambda>x. (case i_answered_at x of None \<Rightarrow> 0 | Some t \<Rightarrow> t, i_id x))
       (filter (\<lambda>x. i_task_id x = tid \<and> i_status x = IAnswered \<and> i_handled_at x = None) (interactions s))) ErrNotFound"

definition answer_interaction_at_revision :: "string \<Rightarrow> raw_json \<Rightarrow> int \<Rightarrow> time \<Rightarrow> (db, unit) prog" where
  "answer_interaction_at_revision i reply source_revision now =
     go (update_interactions (\<lambda>x. i_id x = i \<and> i_status x = IPending \<and> i_source_revision x = source_revision)
       (\<lambda>x. x\<lparr>i_status := IAnswered, i_reply := reply, i_answered_at := Some now, i_revision := i_revision x + 1\<rparr>)) (\<lambda>n.
     if n = 0 then err ErrNotPending else ok ())"

definition empty_assistant :: "message \<Rightarrow> bool" where
  "empty_assistant b \<longleftrightarrow> msg_role b = ''assistant'' \<and> msg_content b = [] \<and> msg_tool_calls b = [] \<and> msg_parts b = []"

definition append_chat_message :: "chat_message \<Rightarrow> (db, unit) prog" where
  "append_chat_message m = (case cm_message m of
     None \<Rightarrow> err (ErrText ''message must not be nil'')
   | Some b \<Rightarrow>
       if empty_assistant b then err (ErrText ''assistant message is empty'')
       else reading (\<lambda>s.
         if cm_id m \<in> cm_id ` set (chat_messages s) then err (ErrUnique ''chat_messages.id'')
         else writing (\<lambda>s. s\<lparr>chat_messages := chat_messages s @ [m]\<rparr>)))"

section \<open>Continuing a Task\<close>

text \<open>The checks before a continuation may be reserved.\<close>

definition check_continuation_interaction ::
  "run_session \<Rightarrow> string \<Rightarrow> int \<Rightarrow> bool \<Rightarrow> (db, unit) prog" where
  "check_continuation_interaction run task_id expected retry =
     go (select_row (\<lambda>s. find_by i_id (r_source_interaction_id run) (interactions s)) ErrNotFound) (\<lambda>x.
     if i_project_id x \<noteq> r_project_id run \<or> i_workflow_id x \<noteq> r_workflow_id run \<or> i_task_id x \<noteq> task_id \<or>
        \<not> handled_status (i_status x) then err ErrInvalidState
     else if \<not> retry \<and> (i_source_revision x \<le> 0 \<or> i_source_revision x > expected) then err ErrRevisionConflict
     else ok ())"

text \<open>\<open>Inl run\<close>: an active continuation of this Interaction already runs; \<open>Inr ()\<close>: reserve a new one.\<close>

definition existing_continuation ::
  "run_session \<Rightarrow> task \<Rightarrow> int \<Rightarrow> bool \<Rightarrow> (db, run_session + unit) prog" where
  "existing_continuation run t expected retry = reading (\<lambda>s.
     case preferred_run (filter (\<lambda>r. r_source_interaction_id r = r_source_interaction_id run) (runs s)) of
       None \<Rightarrow> ok (Inr ())
     | Some x \<Rightarrow>
         if r_status x \<in> {RQueued, RRunning, RWaitingInput} \<and> t_status t = WSRunning then ok (Inl x)
         else if \<not> retry then err ErrContinuationInterrupted
         else if \<not> terminal_run_status (r_status x) \<or> t_status t \<noteq> WSPaused \<or> t_revision t \<noteq> expected
           then err ErrRevisionConflict
         else ok (Inr ()))"

definition continuation_row :: "run_session \<Rightarrow> time \<Rightarrow> run_session" where
  "continuation_row run now =
     run\<lparr>r_robot_id := [], r_status := RQueued, r_error := [], r_revision := 1,
       r_started_at := (if r_started_at run = None then Some now else r_started_at run),
       r_updated_at := Some now, r_ended_at := None\<rparr>"

definition reserve_continuation ::
  "string \<Rightarrow> int \<Rightarrow> run_session \<Rightarrow> task \<Rightarrow> time \<Rightarrow> (db, run_session + string) prog" where
  "reserve_continuation task_id expected run t now =
     (if t_status t \<noteq> WSPaused \<or> t_revision t \<noteq> expected then err ErrRevisionConflict
      else go (if r_id run = [] then new_run_session_id else ok (r_id run)) (\<lambda>i.
      go (wrapping (Wrapped ''reserve continuation Run'')
        (exec_runs (append_row (continuation_row (run\<lparr>r_id := i\<rparr>) now)))) (\<lambda>_.
      go (update_tasks (\<lambda>x. t_id x = task_id \<and> t_status x = WSPaused \<and> t_revision x = expected)
        (\<lambda>x. (bump_task now x)\<lparr>t_status := WSRunning, t_waiting_reason := []\<rparr>)) (\<lambda>n.
      if n = 0 then err ErrRevisionConflict else ok (Inr i)))))"

definition start_task_continuation_tx ::
  "string \<Rightarrow> int \<Rightarrow> run_session \<Rightarrow> bool \<Rightarrow> time \<Rightarrow> (db, run_session + string) prog" where
  "start_task_continuation_tx task_id expected run retry now =
     go (get_task task_id) (\<lambda>t.
     go (scan_workflow (t_workflow_id t)) (\<lambda>w.
     if w_status w \<noteq> WSRunning then err ErrInvalidState
     else if r_workflow_id run \<noteq> t_workflow_id t \<or> r_context_id run \<noteq> t_context_id t \<or>
       r_agent_id run \<noteq> t_assigned_agent_id t \<or> r_project_id run \<noteq> w_project_id w \<or>
       r_chat_session_id run \<noteq> w_conversation_id w then err ErrInvalidState
     else go (check_continuation_interaction run task_id expected retry) (\<lambda>_.
     go (existing_continuation run t expected retry) (\<lambda>x. case x of
       Inl r \<Rightarrow> ok (Inl r)
     | Inr _ \<Rightarrow> reserve_continuation task_id expected run t now))))"

definition start_task_continuation ::
  "string \<Rightarrow> int \<Rightarrow> run_session \<Rightarrow> bool \<Rightarrow> time \<Rightarrow> (db, run_session \<times> task \<times> bool) prog" where
  "start_task_continuation task_id expected run retry now =
     (if r_source_interaction_id run = [] \<or> r_task_id run \<noteq> task_id \<or> r_status run \<noteq> RQueued \<or>
         r_kind run \<noteq> KTaskExecution then err ErrInvalidState
      else go (tx (start_task_continuation_tx task_id expected run retry now)) (\<lambda>x. case x of
        Inl r \<Rightarrow> go (get_task task_id) (\<lambda>t. ok (r, t, False))
      | Inr i \<Rightarrow> go (get_run_session i) (\<lambda>r. go (get_task task_id) (\<lambda>t. ok (r, t, True)))))"

end
