(* ===== verification/StoreRobot.thy ===== *)
theory StoreRobot
  imports StoreRun
begin

text \<open>
  Robot Executions and their event streams (\<open>internal/store/robot.go\<close>) and the transaction that
  admits an Execution before any command reaches a Pilot (\<open>internal/store/robot_admission.go\<close>).
  The JSON body of an Execution is the record itself; its indexed columns are kept beside it, as
  in the table.
\<close>

section \<open>Executions\<close>

definition execution_row_of :: "robot_execution \<Rightarrow> execution_row" where
  "execution_row_of e =
     \<lparr>xr_id = e_id e, xr_project_id = e_project_id e, xr_robot_id = e_robot_id e,
      xr_request_key = e_request_key e, xr_status = e_status e, xr_revision = e_revision e,
      xr_updated_at = e_updated_at e, xr_body = e, xr_subtask_id = e_subtask_id e\<rparr>"

text \<open>\<open>INSERT ... ON CONFLICT(id) DO UPDATE\<close>: the project, robot and request key columns of an
  existing row stay.\<close>

definition save_robot_execution :: "robot_execution \<Rightarrow> (db, unit) prog" where
  "save_robot_execution e = reading (\<lambda>s.
     case find_by xr_id (e_id e) (executions s) of
       None \<Rightarrow> exec_executions (append_row (execution_row_of e))
     | Some _ \<Rightarrow> exec_executions (update_where (\<lambda>x. xr_id x = e_id e)
         (\<lambda>x. x\<lparr>xr_status := e_status e, xr_revision := e_revision e, xr_updated_at := e_updated_at e,
            xr_body := e, xr_subtask_id := e_subtask_id e\<rparr>)))"

definition list_robot_artifact_mappings :: "string \<Rightarrow> (db, robot_artifact_mapping list) prog" where
  "list_robot_artifact_mappings execution_id =
     select_rows (\<lambda>s. filter (\<lambda>m. am_execution_id m = execution_id) (artifact_mappings s))"

fun merge_artifacts :: "robot_execution \<Rightarrow> robot_artifact_mapping list \<Rightarrow> robot_execution" where
  "merge_artifacts e [] = e"
| "merge_artifacts e (m # ms) =
    (if am_execution_id m \<noteq> e_id e \<or> am_pilot_instance_id m \<noteq> e_pilot_instance_id e then merge_artifacts e ms
     else
       let e1 = e\<lparr>e_artifact_sync := e_artifact_sync e @ [m]\<rparr>;
           ref = ''artifact://'' @ am_server_artifact_id m
       in merge_artifacts
         (if am_status m = ''synced'' \<and> am_server_artifact_id m \<noteq> [] \<and> ref \<notin> set (e_artifact_refs e1)
          then e1\<lparr>e_artifact_refs := e_artifact_refs e1 @ [ref]\<rparr> else e1) ms)"

definition with_robot_execution_artifacts :: "robot_execution \<Rightarrow> (db, robot_execution) prog" where
  "with_robot_execution_artifacts e =
     go (list_robot_artifact_mappings (e_id e)) (\<lambda>ms. ok (merge_artifacts (e\<lparr>e_artifact_sync := []\<rparr>) ms))"

definition get_robot_execution :: "string \<Rightarrow> (db, robot_execution) prog" where
  "get_robot_execution i =
     go (select_row (\<lambda>s. map_option xr_body (find_by xr_id i (executions s))) ErrNotFound)
       with_robot_execution_artifacts"

definition find_request :: "string \<Rightarrow> string \<Rightarrow> db \<Rightarrow> robot_execution option" where
  "find_request project_id key s = map_option xr_body
     (find (\<lambda>x. xr_project_id x = project_id \<and> xr_request_key x = key) (executions s))"

definition get_robot_execution_by_request :: "string \<Rightarrow> string \<Rightarrow> (db, robot_execution) prog" where
  "get_robot_execution_by_request project_id key =
     go (select_row (find_request project_id key) ErrNotFound) with_robot_execution_artifacts"

definition get_robot_execution_by_subtask :: "string \<Rightarrow> (db, robot_execution) prog" where
  "get_robot_execution_by_subtask subtask_id =
     go (select_row (\<lambda>s. map_option xr_body
         (latest xr_updated_at (filter (\<lambda>x. xr_subtask_id x = subtask_id) (executions s)))) ErrNotFound)
       with_robot_execution_artifacts"

definition list_robot_executions :: "string \<Rightarrow> string \<Rightarrow> int \<Rightarrow> (db, robot_execution list) prog" where
  "list_robot_executions project_id robot_id limit0 =
     (let limit = (if limit0 \<le> 0 \<or> limit0 > 200 then 100 else nat limit0) in
      go (select_rows (\<lambda>s. take limit (rev (sort_key xr_updated_at
          (filter (\<lambda>x. (project_id = [] \<or> xr_project_id x = project_id) \<and> (robot_id = [] \<or> xr_robot_id x = robot_id))
            (executions s))))))
        (\<lambda>rows. collect (\<lambda>x. with_robot_execution_artifacts (xr_body x)) rows))"

definition list_robot_executions_by_run :: "string \<Rightarrow> (db, robot_execution list) prog" where
  "list_robot_executions_by_run run_id =
     go (select_rows (\<lambda>s. rev (sort_key xr_updated_at (filter (\<lambda>x. e_run_id (xr_body x) = run_id) (executions s)))))
       (\<lambda>rows. collect (\<lambda>x. with_robot_execution_artifacts (xr_body x)) rows)"

section \<open>Events\<close>

definition append_robot_execution_event :: "execution_event \<Rightarrow> (db, unit) prog" where
  "append_robot_execution_event e = writing (\<lambda>s.
     if \<exists>x \<in> set (execution_events s). ev_execution_id x = ev_execution_id e \<and> ev_sequence x = ev_sequence e
     then s else s\<lparr>execution_events := execution_events s @ [e]\<rparr>)"

definition events_of :: "string \<Rightarrow> db \<Rightarrow> execution_event list" where
  "events_of execution_id s = sort_key ev_sequence (filter (\<lambda>e. ev_execution_id e = execution_id) (execution_events s))"

definition event_page :: "string \<Rightarrow> int \<Rightarrow> int \<Rightarrow> db \<Rightarrow> execution_event list" where
  "event_page execution_id after limit0 s =
     (let limit = (if limit0 \<le> 0 \<or> limit0 > 1000 then 500 else nat limit0) in
      take limit (filter (\<lambda>e. ev_sequence e > after) (events_of execution_id s)))"

definition list_robot_execution_events :: "string \<Rightarrow> int \<Rightarrow> int \<Rightarrow> (db, execution_event list) prog" where
  "list_robot_execution_events execution_id after limit = select_rows (event_page execution_id after limit)"

definition next_sequence :: "string \<Rightarrow> db \<Rightarrow> int" where
  "next_sequence execution_id s =
     (case map ev_sequence (filter (\<lambda>e. ev_execution_id e = execution_id) (execution_events s)) of
        [] \<Rightarrow> 1 | x # xs \<Rightarrow> fold max xs x + 1)"

definition next_robot_execution_event_sequence :: "string \<Rightarrow> (db, int) prog" where
  "next_robot_execution_event_sequence execution_id = select_rows (next_sequence execution_id)"

section \<open>Pilots\<close>

text \<open>An empty list is left out of the JSON body and read back as an absent one.\<close>

definition omit_empty :: "'a list option \<Rightarrow> 'a list option" where
  "omit_empty xs = (case xs of Some (x # xs) \<Rightarrow> Some (x # xs) | _ \<Rightarrow> None)"

definition stored_pilot :: "robot_pilot \<Rightarrow> robot_pilot" where
  "stored_pilot p = p\<lparr>rp_abilities := omit_empty (rp_abilities p), rp_sensors := omit_empty (rp_sensors p),
     rp_desired_skills := omit_empty (rp_desired_skills p)\<rparr>"

definition save_robot_pilot :: "robot_pilot \<Rightarrow> (db, unit) prog" where
  "save_robot_pilot p = writing (\<lambda>s.
     if \<exists>x \<in> set (robot_pilots s). rp_instance_id x = rp_instance_id p
     then s\<lparr>robot_pilots := update_where (\<lambda>x. rp_instance_id x = rp_instance_id p) (\<lambda>_. stored_pilot p) (robot_pilots s)\<rparr>
     else s\<lparr>robot_pilots := robot_pilots s @ [stored_pilot p]\<rparr>)"

definition get_robot_pilot :: "string \<Rightarrow> (db, robot_pilot) prog" where
  "get_robot_pilot i = select_row (\<lambda>s. find_by rp_instance_id i (robot_pilots s)) ErrNotFound"

definition get_active_robot_pilot :: "string \<Rightarrow> (db, robot_pilot) prog" where
  "get_active_robot_pilot robot = select_row
     (\<lambda>s. latest rp_last_seen_at (filter (\<lambda>p. rp_robot_id p = robot) (robot_pilots s))) ErrNotFound"

definition list_robot_pilots :: "(db, robot_pilot list) prog" where
  "list_robot_pilots = select_rows (\<lambda>s. sort_key (\<lambda>p. (rp_robot_id p, rp_instance_id p)) (robot_pilots s))"

section \<open>Admission\<close>

definition spec_field :: "raw_json \<Rightarrow> string \<Rightarrow> string option" where
  "spec_field raw k = (case raw of
     Raw j \<Rightarrow> Option.bind (json_fields j) (\<lambda>fs. string_of_field fs k)
   | _ \<Rightarrow> None)"

definition scope_list :: "raw_json \<Rightarrow> string \<Rightarrow> string list option" where
  "scope_list raw k = (case raw of
     NoRaw \<Rightarrow> Some []
   | Raw j \<Rightarrow> Option.bind (json_fields j) (\<lambda>fs. list_of_field json_string fs k)
   | BadRaw _ \<Rightarrow> None)"

definition allowed_value :: "string list \<Rightarrow> string \<Rightarrow> bool" where
  "allowed_value values v \<longleftrightarrow> values = [] \<or> trim_space v \<in> trim_space ` set values"

definition skill_matches :: "raw_json \<Rightarrow> robot_execution \<Rightarrow> bool" where
  "skill_matches spec item = (case (spec_field spec ''skill_name'', spec_field spec ''skill_version'') of
     (Some name, Some version) \<Rightarrow>
       trim_space name = trim_space (e_skill_name item) \<and>
       (trim_space version = [] \<or> trim_space version = trim_space (e_skill_version item))
   | _ \<Rightarrow> False)"

definition within_scope :: "raw_json \<Rightarrow> robot_execution \<Rightarrow> bool" where
  "within_scope scope item = (case (scope_list scope ''robot_ids'', scope_list scope ''allowed_skills'') of
     (Some robots, Some skills) \<Rightarrow>
       allowed_value robots (e_robot_id item) \<and> allowed_value skills (e_skill_name item)
   | _ \<Rightarrow> False)"

definition or_invalid :: "(db, 'a) prog \<Rightarrow> (db, 'a) prog" where
  "or_invalid m = wrapping (\<lambda>_. ErrInvalidState) m"

definition validate_robot_task_admission :: "robot_execution \<Rightarrow> (db, unit) prog" where
  "validate_robot_task_admission item =
     go (or_invalid (scan_workflow (e_workflow_id item))) (\<lambda>w.
     if w_project_id w \<noteq> e_project_id item \<or> w_status w \<noteq> WSRunning \<or> w_confirmed_revision w \<noteq> w_revision w
       then err ErrInvalidState
     else go (or_invalid (scan_task (e_task_id item))) (\<lambda>t.
     if t_workflow_id t \<noteq> w_id w \<or> t_assigned_robot_id t \<noteq> e_robot_id item \<or> t_required_role t \<noteq> ''robot'' \<or>
        t_status t \<noteq> WSRunning then err ErrInvalidState
     else go (or_invalid (scan_subtask (e_subtask_id item))) (\<lambda>x.
     if st_task_id x \<noteq> t_id t \<or> st_status x \<noteq> WSRunning \<or> st_kind x \<noteq> ''robot_skill'' then err ErrInvalidState
     else if \<not> skill_matches (st_spec x) item then err ErrInvalidState
     else if \<not> within_scope (w_approved_scope w) item then err ErrInvalidState
     else ok ())))"

definition direct_item :: "robot_execution \<Rightarrow> bool" where
  "direct_item item \<longleftrightarrow> e_task_id item = [] \<and> e_run_id item \<noteq> []"

definition check_direct_run :: "robot_execution \<Rightarrow> string \<Rightarrow> (db, string) prog" where
  "check_direct_run item agent =
     go (or_invalid (select_row (\<lambda>s. find_by r_id (e_run_id item) (runs s)) ErrNoRows)) (\<lambda>run.
     if e_workflow_id item \<noteq> [] \<or> e_subtask_id item \<noteq> [] \<or> r_project_id run \<noteq> e_project_id item \<or>
        r_kind run \<noteq> KConversation \<or> r_task_id run \<noteq> [] \<or> r_workflow_id run \<noteq> [] \<or> r_status run \<noteq> RRunning \<or>
        r_agent_id run \<noteq> agent \<or> agent \<noteq> ''robot:'' @ e_robot_id item \<or>
        (r_robot_id run \<noteq> [] \<and> r_robot_id run \<noteq> e_robot_id item) then err ErrInvalidState
     else ok (r_id run))"

definition check_pilot_free :: "string \<Rightarrow> (db, unit) prog" where
  "check_pilot_free i =
     go (get_robot_pilot i) (\<lambda>p. if pilot_occupied p then err (pilot_reserved p) else ok ())"

definition runtime_project :: "string \<Rightarrow> db \<Rightarrow> string" where
  "runtime_project robot s =
     (case latest ri_updated_at (filter (\<lambda>r. ri_robot_id r = robot) (runtime_instances s)) of
        None \<Rightarrow> [] | Some r \<Rightarrow> ri_project_id r)"

definition admit_new :: "robot_execution \<Rightarrow> string \<Rightarrow> (db, unit) prog" where
  "admit_new item agent =
     go (if direct_item item then check_direct_run item agent else ok []) (\<lambda>excluded.
     go (if e_task_id item \<noteq> [] then validate_robot_task_admission item else ok ()) (\<lambda>_.
     go (robot_reservation (e_robot_id item) (e_task_id item) excluded) (\<lambda>_.
     go (robot_execution_reservation (e_robot_id item) []) (\<lambda>_.
     go (check_pilot_free (e_pilot_instance_id item)) (\<lambda>_.
     go (select_rows (runtime_project (e_robot_id item))) (\<lambda>project.
     if project \<noteq> [] \<and> project \<noteq> e_project_id item then err ErrInvalidState
     else go (if direct_item item
         then exec_runs (update_where (\<lambda>r. r_id r = e_run_id item \<and> r_robot_id r = [])
           (\<lambda>r. (bump_run (e_created_at item) r)\<lparr>r_robot_id := e_robot_id item\<rparr>))
         else ok ()) (\<lambda>_.
     exec_executions (append_row (execution_row_of item)))))))))"

definition admit_robot_execution_tx :: "robot_execution \<Rightarrow> string \<Rightarrow> (db, robot_execution \<times> bool) prog" where
  "admit_robot_execution_tx item agent =
     go (select_rows (find_request (e_project_id item) (e_request_key item))) (\<lambda>x. case x of
       Some e \<Rightarrow> ok (e, False)
     | None \<Rightarrow> go (admit_new item agent) (\<lambda>_. ok (item, True)))"

definition admit_robot_execution :: "robot_execution \<Rightarrow> string \<Rightarrow> (db, robot_execution \<times> bool) prog" where
  "admit_robot_execution item agent = tx (admit_robot_execution_tx item agent)"

end
