(* ===== verification/StoreApproval.thy ===== *)
theory StoreApproval
  imports StoreProposal
begin

text \<open>
  What the approval of a Plan Proposal does to the database: exactly one running Workflow, its
  Tasks in the order of the plan, its dependencies the image of the plan's graph under the map
  of draft identifiers to row identifiers, hence acyclic; or no change at all.
\<close>

section \<open>Frames\<close>

definition only_plan :: "db \<Rightarrow> db \<Rightarrow> bool" where
  "only_plan s t \<longleftrightarrow> workflows t = workflows s \<and> runs t = runs s \<and> executions t = executions s \<and>
     projects t = projects s \<and> plan_proposals t = plan_proposals s \<and>
     workflow_revisions t = workflow_revisions s \<and> plan_submissions t = plan_submissions s \<and>
     interactions t = interactions s"

definition only_subtasks :: "db \<Rightarrow> db \<Rightarrow> bool" where
  "only_subtasks s t \<longleftrightarrow> tasks t = tasks s \<and> task_deps t = task_deps s \<and> only_plan s t"

interpretation plan: db_relation only_plan
  by unfold_locales (auto simp: only_plan_def)

interpretation subs: db_relation only_subtasks
  by unfold_locales (auto simp: only_subtasks_def only_plan_def)

lemma keeps_subtask_writes:
  "keeps only_subtasks (exec_subtasks f)" "keeps only_subtasks (exec_subtask_deps g)"
  by (auto simp: exec_subtasks_def exec_subtask_deps_def only_subtasks_def only_plan_def
      intro!: subs.keeps_checked)

lemma keeps_select_row: "frame_relation R \<Longrightarrow> keeps R (select_row q none)"
  by (simp add: keeps_def select_row_def frame_relation.frame_refl split: option.splits)

lemma keeps_select_rows: "frame_relation R \<Longrightarrow> keeps R (select_rows q)"
  by (simp add: keeps_def frame_relation.frame_refl)

lemma frame_relations: "frame_relation only_subtasks" "frame_relation same_tables" "frame_relation (=)"
  by (rule subs.frame_relation_axioms same.frame_relation_axioms frame_eq.frame_relation_axioms)+

lemma keeps_allocate:
  "keeps same_tables (allocate_task_id d)" "keeps same_tables (allocate_subtask_id x)"
  "keeps same_tables (allocate_subtask_ids xs)" "keeps only_subtasks (allocate_subtask_ids xs)"
proof -
  show "keeps same_tables (allocate_task_id d)"
    unfolding allocate_task_id_def
    by (intro same.db_keeps_rules keeps_select_rows frame_relations)
  have "keeps same_tables (allocate_subtask_id x)" "keeps only_subtasks (allocate_subtask_id x)" for x
    unfolding allocate_subtask_id_def
    by (intro same.db_keeps_rules subs.db_keeps_rules keeps_select_rows frame_relations)+
  then show "keeps same_tables (allocate_subtask_id x)" "keeps same_tables (allocate_subtask_ids xs)"
    "keeps only_subtasks (allocate_subtask_ids xs)"
    by (auto simp: allocate_subtask_ids_def intro!: same.keeps_collect subs.keeps_collect)
qed

lemma keeps_wrapping: "db_relation R \<Longrightarrow> keeps R m \<Longrightarrow> keeps R (wrapping w m)"
  unfolding wrapping_def
  by (intro frame_relation.keeps_attempt frame_relation.keeps_case_sum frame_relation.keeps_err
      frame_relation.keeps_ok db_relation.axioms(1)) auto

lemma keeps_insert_subtask: "keeps only_subtasks (insert_subtask wrap task_id ids now pd)"
  unfolding insert_subtask_def insert_subtask_dep_def
  by (cases pd)
    (auto intro!: subs.db_keeps_rules keeps_subtask_writes keeps_wrapping subs.db_relation_axioms)

lemma wrapping_Inr [simp]: "wrapping w m s = (Inr x, t) \<longleftrightarrow> m s = (Inr x, t)"
  by (auto simp: wrapping_def run_attempt split: sum.splits prod.splits)
    (metis fst_conv snd_conv prod.collapse Inl_Inr_False sum.inject(2))+

section \<open>The rows of a plan\<close>

lemma insert_task_Inr:
  assumes "insert_task wid ids now (p, d) s = (Inr u, t)"
  shows "tasks t = tasks s @ [draft_task_row (mapped ids (tdr_id d)) wid p d now] \<and>
    task_violation (tasks t) = None \<and>
    task_deps t = task_deps s \<and> only_plan s t"
proof -
  let ?row = "draft_task_row (mapped ids (tdr_id d)) wid p d now"
  obtain sub_ids s2 where
    ok: "task_violation (tasks s @ [?row]) = None"
    and alloc: "allocate_subtask_ids (tdr_subtasks d) (s\<lparr>tasks := tasks s @ [?row]\<rparr>) = (Inr sub_ids, s2)"
    and subs: "for_each (insert_subtask Wrapped (mapped ids (tdr_id d)) sub_ids now)
      (enumerate 0 (tdr_subtasks d)) s2 = (Inr u, t)"
    using assms by (auto simp: insert_task_def Let_def go_Inr_iff exec_tasks_def checked_Inr append_row_def)
  have "only_subtasks (s\<lparr>tasks := tasks s @ [?row]\<rparr>) s2"
    using keeps_allocate(4) alloc by (rule keeps_run)
  moreover have "only_subtasks s2 t"
    by (rule keeps_run[OF subs.keeps_for_each[OF keeps_insert_subtask] subs])
  ultimately have frame: "only_subtasks (s\<lparr>tasks := tasks s @ [?row]\<rparr>) t" by (rule subs.frame_trans)
  with ok show ?thesis by (simp add: only_subtasks_def only_plan_def)
qed

lemma insert_tasks_Inr:
  assumes "for_each (insert_task wid ids now) (enumerate k ds) s = (Inr u, t)"
  shows "tasks t = tasks s @ map (\<lambda>(p, d). draft_task_row (mapped ids (tdr_id d)) wid p d now) (enumerate k ds) \<and>
    (ds \<noteq> [] \<longrightarrow> task_violation (tasks t) = None) \<and> task_deps t = task_deps s \<and> only_plan s t"
  using assms
proof (induction ds arbitrary: k s)
  case Nil
  then show ?case by (simp add: plan.frame_refl)
next
  case (Cons d ds)
  then obtain s1 where
    one: "insert_task wid ids now (k, d) s = (Inr (), s1)"
    and rest: "for_each (insert_task wid ids now) (enumerate (Suc k) ds) s1 = (Inr u, t)"
    by (auto simp: go_Inr_iff)
  note 1 = insert_task_Inr[OF one] and 2 = Cons.IH[OF rest]
  with 1 plan.frame_trans[of s s1 t] show ?case by (cases ds) auto
qed

lemma allocate_task_ids_keys:
  "collect allocate_task_id ds s = (Inr ids, t) \<Longrightarrow> map fst ids = map tdr_id ds"
  by (induction ds arbitrary: s ids) (auto simp: go_Inr_iff allocate_task_id_def)

lemma insert_task_dep_Inr:
  "insert_task_dep wid ids d s = (Inr u, t) \<Longrightarrow>
   t = s\<lparr>task_deps := task_deps s @ [\<lparr>td_workflow_id = wid, td_task_id = mapped ids (fst d),
       td_depends_on = mapped ids (snd d)\<rparr>]\<rparr>"
  by (auto simp: insert_task_dep_def exec_task_deps_def checked_Inr append_row_def)

lemma insert_deps_Inr:
  "for_each (insert_task_dep wid ids) ds s = (Inr u, t) \<Longrightarrow>
   t = s\<lparr>task_deps := task_deps s @ map (\<lambda>d. \<lparr>td_workflow_id = wid, td_task_id = mapped ids (fst d),
       td_depends_on = mapped ids (snd d)\<rparr>) ds\<rparr>"
proof (induction ds arbitrary: s)
  case (Cons d ds)
  then obtain s1 where "insert_task_dep wid ids d s = (Inr (), s1)"
    "for_each (insert_task_dep wid ids) ds s1 = (Inr u, t)"
    by (auto simp: go_Inr_iff)
  with Cons.IH insert_task_dep_Inr show ?case by fastforce
qed simp

lemma replace_plan_Inr:
  assumes run: "replace_plan_tx wid d now s = (Inr u, t)"
  shows "\<exists>ids. map fst ids = map tdr_id (wdr_tasks d) \<and>
    tasks t = filter (\<lambda>t. t_workflow_id t \<noteq> wid) (tasks s) @
      map (\<lambda>(p, x). draft_task_row (mapped ids (tdr_id x)) wid p x now) (enumerate 0 (wdr_tasks d)) \<and>
    (wdr_tasks d \<noteq> [] \<longrightarrow> task_violation (tasks t) = None) \<and>
    task_deps t = filter (\<lambda>x. td_workflow_id x \<noteq> wid) (task_deps s) @
      map (\<lambda>x. \<lparr>td_workflow_id = wid, td_task_id = mapped ids (fst x), td_depends_on = mapped ids (snd x)\<rparr>)
        (wdr_dependencies d) \<and> only_plan s t"
proof -
  obtain ids s1 s2 where
    alloc: "collect allocate_task_id (wdr_tasks d) (delete_plan wid s) = (Inr ids, s1)"
    and ins: "for_each (insert_task wid ids now) (enumerate 0 (wdr_tasks d)) s1 = (Inr (), s2)"
    and deps: "for_each (insert_task_dep wid ids) (wdr_dependencies d) s2 = (Inr (), t)"
    using run by (auto simp: replace_plan_tx_def go_Inr_iff run_writing)
  have same: "same_tables (delete_plan wid s) s1"
    by (rule keeps_run[OF same.keeps_collect[OF keeps_allocate(1)] alloc])
  have plan: "only_plan (delete_plan wid s) s1" "only_plan s (delete_plan wid s)"
    using same by (auto simp: only_plan_def same_tables_proj delete_plan_def Let_def)
  have tables: "tasks s1 = filter (\<lambda>t. t_workflow_id t \<noteq> wid) (tasks s)"
    "task_deps s1 = filter (\<lambda>x. td_workflow_id x \<noteq> wid) (task_deps s)"
    using same by (simp_all add: same_tables_proj delete_plan_def Let_def)
  show ?thesis
    using allocate_task_ids_keys[OF alloc] insert_tasks_Inr[OF ins] insert_deps_Inr[OF deps] plan tables
    by (intro exI[of _ ids]) (auto simp: only_plan_def)
qed

section \<open>Graphs under an injective renaming\<close>

lemma trancl_rename:
  assumes "inj_on f V" "E \<subseteq> V \<times> V" "(x, y) \<in> (map_prod f f ` E)\<^sup>+"
  shows "\<exists>a b. x = f a \<and> y = f b \<and> a \<in> V \<and> b \<in> V \<and> (a, b) \<in> E\<^sup>+"
  using assms(3)
proof (induction rule: trancl_induct)
  case (base y)
  then show ?case using assms(2) by fastforce
next
  case (step y z)
  then obtain a b b' c where "x = f a" "y = f b" "a \<in> V" "b \<in> V" "(a, b) \<in> E\<^sup>+"
    "y = f b'" "z = f c" "(b', c) \<in> E" by auto
  moreover from this have "b = b'" "c \<in> V" using assms(1,2) by (auto dest: inj_onD)
  ultimately show ?case by (blast intro: trancl_into_trancl)
qed

lemma acyclic_rename:
  assumes "inj_on f V" "E \<subseteq> V \<times> V" "acyclic E"
  shows "acyclic (map_prod f f ` E)"
proof (rule acyclicI, rule allI, rule notI)
  fix x
  assume "(x, x) \<in> (map_prod f f ` E)\<^sup>+"
  from trancl_rename[OF assms(1,2) this] obtain a b where
    "x = f a" "x = f b" "a \<in> V" "b \<in> V" "(a, b) \<in> E\<^sup>+" by blast
  moreover from this have "a = b" using assms(1) by (auto dest: inj_onD)
  ultimately show False using assms(3) by (auto simp: acyclic_def)
qed

lemma row_ids:
  "map t_id (map (\<lambda>(p, x). draft_task_row (f (tdr_id x)) wid p x now) (enumerate k ds)) = map (f \<circ> tdr_id) ds"
  by (induction ds arbitrary: k) (simp_all add: draft_task_row_def)

lemma mapped_image: "map fst ids = map g ds \<Longrightarrow> x \<in> set ds \<Longrightarrow> \<exists>v. map_of ids (g x) = Some v"
  by (metis (no_types, lifting) image_eqI list.set_map map_of_eq_None_iff not_None_eq)

lemma mapped_inj:
  assumes rows: "map t_id ts = map (mapped ids \<circ> tdr_id) ds" and "distinct (map t_id ts)"
  shows "inj_on (mapped ids) (tdr_id ` set ds)"
proof -
  have "distinct (map (mapped ids) (map tdr_id ds))" using assms by (simp add: comp_def)
  then have "inj_on (mapped ids) (set (map tdr_id ds))" by (simp only: distinct_map)
  then show ?thesis by simp
qed

section \<open>Approval\<close>

lemma sorted_rows:
  "sorted (map (\<lambda>t. (t_position t, t_id t))
     (map (\<lambda>(p, x). draft_task_row (f x) wid p x now) (enumerate k ds)))"
proof (induction ds arbitrary: k)
  case (Cons d ds)
  have "k < fst e" if "e \<in> set (enumerate (Suc k) ds)" for e
    using that by (simp add: in_set_enumerate_eq)
  with Cons show ?case by (fastforce simp: draft_task_row_def)
qed simp

lemma tasks_of_new_rows:
  assumes "tasks t = filter (\<lambda>x. t_workflow_id x \<noteq> wid) ts @
      map (\<lambda>(p, x). draft_task_row (f x) wid p x now) (enumerate k ds)"
  shows "tasks_of wid t = map (\<lambda>(p, x). draft_task_row (f x) wid p x now) (enumerate k ds)"
proof -
  have "filter (\<lambda>x. t_workflow_id x = wid) (map (\<lambda>(p, x). draft_task_row (f x) wid p x now) (enumerate k ds)) =
      map (\<lambda>(p, x). draft_task_row (f x) wid p x now) (enumerate k ds)"
    by (induction ds arbitrary: k) (simp_all add: draft_task_row_def)
  then have "filter (\<lambda>x. t_workflow_id x = wid) (tasks t) =
      map (\<lambda>(p, x). draft_task_row (f x) wid p x now) (enumerate k ds)"
    by (simp add: assms)
  then show ?thesis
    unfolding tasks_of_def by (simp only: sort_key_id_if_sorted[OF sorted_rows])
qed

lemma approve_tx_Inr:
  assumes "approve_plan_proposal_tx i n now s = (Inr wid, t)"
  shows "\<exists>p j d0 d s1 s4.
    find_by pp_id i (plan_proposals s) = Some p \<and> pp_revision p = n \<and> pp_status p = PReady \<and>
    pp_structured_plan p = Raw j \<and> draft_of_json j = Some d0 \<and>
    validate_draft d0 s = (Inr d, s1) \<and> wdr_tasks d \<noteq> [] \<and>
    open_workflows (pp_project_id p) s = 0 \<and>
    workflows t = workflows s @ [approved_workflow wid p d now] \<and> workflow_violation (workflows t) = None \<and>
    replace_plan_tx wid d now (s1\<lparr>uuids_drawn := uuids_drawn s1 + 1,
       workflows := workflows s @ [approved_workflow wid p d now]\<rparr>) = (Inr (), s4) \<and>
    tasks t = tasks s4 \<and> task_deps t = task_deps s4 \<and> subtasks t = subtasks s4 \<and>
    plan_proposals t = update_where (\<lambda>p. pp_id p = i \<and> pp_revision p = n \<and> pp_status p = PReady)
       (\<lambda>p. p\<lparr>pp_status := PApproved, pp_revision := pp_revision p + 1, pp_updated_at := now\<rparr>) (plan_proposals s)"
proof -
  obtain p d0 s0 d s1 project where
    p: "find_by pp_id i (plan_proposals s) = Some p" "pp_revision p = n" "pp_status p = PReady"
    and plan: "unmarshal_plan (pp_structured_plan p) s = (Inr d0, s0)"
    and d: "validate_draft d0 s0 = (Inr d, s1)" "wdr_tasks d \<noteq> []"
    and none: "open_workflows (pp_project_id p) s1 = 0"
    and rest: "go new_workflow_id (\<lambda>wid.
     go (insert_approved (approved_workflow wid p d now)) (\<lambda>_.
     go (replace_plan_tx wid d now) (\<lambda>_.
     go (enter_running_mode (pp_project_id p) now) (\<lambda>_.
     go (update_proposals (\<lambda>p. pp_id p = i \<and> pp_revision p = n \<and> pp_status p = PReady)
       (\<lambda>p. p\<lparr>pp_status := PApproved, pp_revision := pp_revision p + 1, pp_updated_at := now\<rparr>)) (\<lambda>n.
     if n = 0 then err ErrRevisionConflict
     else go (save_workflow_revision wid 1 now) (\<lambda>_. ok wid)))))) s1 = (Inr wid, t)"
    using assms unfolding approve_plan_proposal_tx_def get_plan_proposal_def scan_project_def check_active_project_def
    by (auto simp: go_Inr_iff[of "select_row _ _"] go_Inr_iff[of "select_rows _"] go_Inr_iff[of "validate_draft _"]
        go_Inr_iff[of "unmarshal_plan _"] run_go[of "ok ()"] run_go[of "err _"] split: if_splits)
  obtain j where j: "pp_structured_plan p = Raw j" "draft_of_json j = Some d0" "s0 = s"
    using plan by (auto simp: unmarshal_plan_def split: raw_json.splits option.splits)
  have same: "same_tables s s1" using keeps_run[OF keeps_validate_draft d(1)] j(3) by simp
  let ?w = "approved_workflow wid p d now"
  let ?s2 = "s1\<lparr>uuids_drawn := uuids_drawn s1 + 1, workflows := workflows s @ [?w]\<rparr>"
  obtain s4 where
    ins: "workflow_violation (workflows s @ [?w]) = None"
    and repl: "replace_plan_tx wid d now ?s2 = (Inr (), s4)"
    and save: "save_workflow_revision wid 1 now
      (s4\<lparr>projects := update_where (\<lambda>q. pr_id q = pp_project_id p \<and> pr_is_active q \<and> pr_archived_at q = None)
         (\<lambda>q. q\<lparr>pr_mode := ModeRunning, pr_revision := pr_revision q + 1, pr_updated_at := now\<rparr>) (projects s4),
         plan_proposals := update_where (\<lambda>p. pp_id p = i \<and> pp_revision p = n \<and> pp_status p = PReady)
       (\<lambda>p. p\<lparr>pp_status := PApproved, pp_revision := pp_revision p + 1, pp_updated_at := now\<rparr>) (plan_proposals s4)\<rparr>)
       = (Inr (), t)"
    using rest
    by (auto simp: go_Inr_iff new_workflow_id_def run_new_id insert_approved_def run_attempt exec_workflows_def
        checked_def append_row_def enter_running_mode_def update_projects_def updating_run update_proposals_def
        same_tables_proj(1)[OF same] split: option.splits if_splits)
  obtain view where t: "t = s4\<lparr>projects := projects t, plan_proposals := plan_proposals t,
      workflow_revisions := workflow_revisions s4 @ [view]\<rparr>"
    and pps: "plan_proposals t = update_where (\<lambda>p. pp_id p = i \<and> pp_revision p = n \<and> pp_status p = PReady)
       (\<lambda>p. p\<lparr>pp_status := PApproved, pp_revision := pp_revision p + 1, pp_updated_at := now\<rparr>) (plan_proposals s4)"
    using save_workflow_revision_Inr[OF save] by fastforce
  have repl': "only_plan ?s2 s4" using replace_plan_Inr[OF repl] by blast
  have "workflows t = workflows s4" "tasks t = tasks s4" "task_deps t = task_deps s4" "subtasks t = subtasks s4"
    by (subst t, simp)+
  moreover have "open_workflows (pp_project_id p) s = 0" using none same by (simp add: open_workflows_def same_tables_proj)
  ultimately show ?thesis
    using p d j ins repl pps repl' same
    by (intro exI[of _ p] exI[of _ j] exI[of _ d0] exI[of _ d] exI[of _ s1] exI[of _ s4])
      (simp add: only_plan_def same_tables_proj)
qed

text \<open>The rows of an approved plan, with the map of draft identifiers to row identifiers.\<close>

definition plan_rows :: "(string \<Rightarrow> string) \<Rightarrow> string \<Rightarrow> workflow_draft \<Rightarrow> time \<Rightarrow> task list" where
  "plan_rows f wid d now =
     map (\<lambda>(k, x). draft_task_row (f (tdr_id x)) wid k x now) (enumerate 0 (wdr_tasks d))"

definition dep_edges :: "task_dep list \<Rightarrow> (string \<times> string) set" where
  "dep_edges ds = (\<lambda>e. (td_task_id e, td_depends_on e)) ` set ds"

lemma approved_graph:
  assumes repl: "replace_plan_tx wid d now s = (Inr u, t)"
    and wf: "well_formed_draft d" and ne: "wdr_tasks d \<noteq> []"
  shows "\<exists>f. inj_on f (tdr_id ` set (wdr_tasks d)) \<and> tasks_of wid t = plan_rows f wid d now \<and>
    dep_edges (filter (\<lambda>x. td_workflow_id x = wid) (task_deps t)) = map_prod f f ` set (wdr_dependencies d) \<and>
    acyclic (map_prod f f ` set (wdr_dependencies d))"
proof -
  obtain ids where
    ts: "tasks t = filter (\<lambda>t. t_workflow_id t \<noteq> wid) (tasks s) @
      map (\<lambda>(p, x). draft_task_row (mapped ids (tdr_id x)) wid p x now) (enumerate 0 (wdr_tasks d))"
    and ok: "task_violation (tasks t) = None"
    and deps: "task_deps t = filter (\<lambda>x. td_workflow_id x \<noteq> wid) (task_deps s) @
      map (\<lambda>x. \<lparr>td_workflow_id = wid, td_task_id = mapped ids (fst x), td_depends_on = mapped ids (snd x)\<rparr>)
        (wdr_dependencies d)"
    using replace_plan_Inr[OF repl] ne by blast
  let ?f = "mapped ids" and ?V = "tdr_id ` set (wdr_tasks d)"
  have "distinct (map t_id (tasks t))" using ok by (simp add: task_violation_def split: if_splits)
  then have "distinct (map t_id (map (\<lambda>(p, x). draft_task_row (?f (tdr_id x)) wid p x now) (enumerate 0 (wdr_tasks d))))"
    unfolding ts by simp
  from mapped_inj[OF row_ids this] have inj: "inj_on ?f ?V" .
  have "set (wdr_dependencies d) \<subseteq> ?V \<times> ?V" "acyclic (set (wdr_dependencies d))"
    using wf by (force simp: well_formed_draft_def)+
  from acyclic_rename[OF inj this] have acyc: "acyclic (map_prod ?f ?f ` set (wdr_dependencies d))" .
  have "dep_edges (filter (\<lambda>x. td_workflow_id x = wid) (task_deps t)) = map_prod ?f ?f ` set (wdr_dependencies d)"
    by (force simp: deps dep_edges_def map_prod_def)
  moreover have "tasks_of wid t = plan_rows ?f wid d now"
    using tasks_of_new_rows[OF ts] by (simp add: plan_rows_def)
  ultimately show ?thesis using inj acyc by blast
qed

theorem approve_Inr:
  assumes "approve_plan_proposal i n now s = (Inr v, t)"
  shows "\<exists>p j d0 d s1 f.
    find_by pp_id i (plan_proposals s) = Some p \<and> pp_revision p = n \<and> pp_status p = PReady \<and>
    pp_structured_plan p = Raw j \<and> draft_of_json j = Some d0 \<and> validate_draft d0 s = (Inr d, s1) \<and>
    wdr_tasks d \<noteq> [] \<and> open_workflows (pp_project_id p) s = 0 \<and>
    v_workflow v = approved_workflow (w_id (v_workflow v)) p d now \<and>
    workflows t = workflows s @ [v_workflow v] \<and> workflow_violation (workflows t) = None \<and>
    v_tasks v = plan_rows f (w_id (v_workflow v)) d now \<and>
    inj_on f (tdr_id ` set (wdr_tasks d)) \<and>
    dep_edges (v_dependencies v) = map_prod f f ` set (wdr_dependencies d) \<and>
    acyclic (dep_edges (v_dependencies v)) \<and>
    find_by pp_id i (plan_proposals t) =
      Some (p\<lparr>pp_status := PApproved, pp_revision := n + 1, pp_updated_at := now\<rparr>)"
proof -
  obtain wid where run: "approve_plan_proposal_tx i n now s = (Inr wid, t)"
    and view: "get_workflow_view wid t = (Inr v, t)"
    using assms by (auto simp: approve_plan_proposal_def go_Inr_iff get_workflow_view_def get_workflow_view_eq
        split: option.splits)
  from approve_tx_Inr[OF run] obtain p j d0 d s1 s4 where
    p: "find_by pp_id i (plan_proposals s) = Some p" "pp_revision p = n" "pp_status p = PReady"
    and j: "pp_structured_plan p = Raw j" "draft_of_json j = Some d0" "validate_draft d0 s = (Inr d, s1)"
    and ne: "wdr_tasks d \<noteq> []" and none: "open_workflows (pp_project_id p) s = 0"
    and ws: "workflows t = workflows s @ [approved_workflow wid p d now]" "workflow_violation (workflows t) = None"
    and repl: "replace_plan_tx wid d now (s1\<lparr>uuids_drawn := uuids_drawn s1 + 1,
       workflows := workflows s @ [approved_workflow wid p d now]\<rparr>) = (Inr (), s4)"
    and same: "tasks t = tasks s4" "task_deps t = task_deps s4"
    and pps: "plan_proposals t = update_where (\<lambda>p. pp_id p = i \<and> pp_revision p = n \<and> pp_status p = PReady)
       (\<lambda>p. p\<lparr>pp_status := PApproved, pp_revision := pp_revision p + 1, pp_updated_at := now\<rparr>) (plan_proposals s)"
    by blast
  have wf: "well_formed_draft d" using validate_draft_sound[OF j(3)] by simp
  from approved_graph[OF repl wf ne] obtain f where f:
    "inj_on f (tdr_id ` set (wdr_tasks d))" "tasks_of wid t = plan_rows f wid d now"
    "dep_edges (filter (\<lambda>x. td_workflow_id x = wid) (task_deps t)) = map_prod f f ` set (wdr_dependencies d)"
    "acyclic (map_prod f f ` set (wdr_dependencies d))"
    by (auto simp: tasks_of_def same)
  have "distinct (map w_id (workflows s @ [approved_workflow wid p d now]))"
    using ws by (simp add: workflow_violation_def split: if_splits)
  then have "find_by w_id wid (workflows t) = Some (approved_workflow wid p d now)"
    by (subst find_by_iff) (simp_all add: ws approved_workflow_def)
  then have v: "v = view_of t (approved_workflow wid p d now)"
    using view by (simp add: get_workflow_view_def get_workflow_view_eq)
  then have "v_workflow v = approved_workflow wid p d now" "w_id (v_workflow v) = wid"
    by (simp_all add: view_of_def approved_workflow_def)
  moreover have "v_tasks v = plan_rows f wid d now" "dep_edges (v_dependencies v) = map_prod f f ` set (wdr_dependencies d)"
    using f by (simp_all add: v view_of_def approved_workflow_def dep_edges_def)
  moreover have "find_by pp_id i (plan_proposals t) =
      Some (p\<lparr>pp_status := PApproved, pp_revision := n + 1, pp_updated_at := now\<rparr>)"
    using p find_by_SomeD[OF p(1)] by (simp add: pps find_by_update_where)
  ultimately show ?thesis
    using p j ne none ws f by (intro exI[of _ p] exI[of _ j] exI[of _ d0] exI[of _ d] exI[of _ s1] exI[of _ f]) simp
qed

theorem approve_Inl:
  assumes "approve_plan_proposal i n now s = (Inl e, t)"
  shows "same_tables s t"
proof -
  from assms consider "tx (approve_plan_proposal_tx i n now) s = (Inl e, t)"
    | "\<exists>wid u. approve_plan_proposal_tx i n now s = (Inr wid, u) \<and> get_workflow_view wid u = (Inl e, t)"
    by (auto simp: approve_plan_proposal_def go_Inl_iff)
  then show ?thesis
  proof cases
    case 1
    then show ?thesis by (rule tx_error_same)
  next
    case 2
    then obtain wid u where run: "approve_plan_proposal_tx i n now s = (Inr wid, u)"
      and "find_by w_id wid (workflows u) = None"
      by (auto simp: get_workflow_view_def get_workflow_view_eq split: option.splits)
    with approve_tx_Inr[OF run] show ?thesis
      by (auto simp: find_by_append approved_workflow_def split: option.splits)
  qed
qed

end
