(* ===== verification/StoreOnce.thy ===== *)
theory StoreOnce
  imports StoreRobot StoreApproval
begin

text \<open>
  Operations that a client may repeat: submitting a Plan Proposal from one Run
  (\<open>SubmitPlanProposalForRun\<close>), continuing a Task from one Interaction
  (\<open>StartTaskContinuation\<close>) and admitting a Robot Execution under one request key
  (\<open>AdmitRobotExecution\<close>).  The first call does the work, every later call finds it done.  The
  last section shows that the runnable Tasks of an acyclic plan never run dry.
\<close>

section \<open>Admission\<close>

definition live_execution :: "execution_row \<Rightarrow> bool" where
  "live_execution x \<longleftrightarrow> xr_status x \<in> set live_execution_statuses"

lemma robot_execution_reservation_Inr:
  "robot_execution_reservation robot [] s = (Inr u, t) \<longleftrightarrow>
     t = s \<and> (\<forall>x \<in> set (executions s). xr_robot_id x = robot \<longrightarrow> \<not> live_execution x)"
  by (auto simp: robot_execution_reservation_def run_reading live_execution_def find_None_iff split: option.splits
      dest: find_SomeD)

lemma find_request_None:
  "find_request p k s = None \<longleftrightarrow> (\<forall>x \<in> set (executions s). \<not> (xr_project_id x = p \<and> xr_request_key x = k))"
  by (auto simp: find_request_def find_None_iff)

lemma check_direct_run_pure: "keeps (=) (check_direct_run item agent)"
  unfolding check_direct_run_def or_invalid_def wrapping_def
  by (intro frame_eq.keeps_rules reads_only)

lemma validate_admission_pure: "keeps (=) (validate_robot_task_admission item)"
  unfolding validate_robot_task_admission_def or_invalid_def wrapping_def query_defs
  by (intro frame_eq.keeps_rules reads_only)

lemma check_pilot_free_Inr:
  "check_pilot_free i s = (Inr u, t) \<longleftrightarrow>
    t = s \<and> (\<exists>p. find_by rp_instance_id i (robot_pilots s) = Some p \<and> \<not> pilot_occupied p)"
  by (auto simp: check_pilot_free_def get_robot_pilot_def go_Inr_iff)

definition claim_run :: "robot_execution \<Rightarrow> run_session list \<Rightarrow> run_session list" where
  "claim_run item rs = (if direct_item item
     then update_where (\<lambda>r. r_id r = e_run_id item \<and> r_robot_id r = [])
       (\<lambda>r. (bump_run (e_created_at item) r)\<lparr>r_robot_id := e_robot_id item\<rparr>) rs
     else rs)"

lemma admit_new_Inr:
  assumes "admit_new item agent s = (Inr u, t)"
  shows "(\<forall>x \<in> set (executions s). xr_robot_id x = e_robot_id item \<longrightarrow> \<not> live_execution x) \<and>
    (\<exists>p. find_by rp_instance_id (e_pilot_instance_id item) (robot_pilots s) = Some p \<and> \<not> pilot_occupied p) \<and>
    (\<exists>excluded. robot_owner s (e_robot_id item) (e_task_id item) excluded = None) \<and>
    (e_task_id item \<noteq> [] \<longrightarrow> fst (validate_robot_task_admission item s) = Inr ()) \<and>
    t = s\<lparr>runs := claim_run item (runs s), executions := executions s @ [execution_row_of item]\<rparr> \<and>
    execution_violation (executions t) = None"
proof -
  have "\<exists>excluded. keeps (=) (if direct_item item then check_direct_run item agent else ok [])"
    using check_direct_run_pure by (simp add: frame_eq.keeps_ok)
  then show ?thesis
    using assms validate_admission_pure[of item] check_direct_run_pure[of item agent]
    by (auto simp: admit_new_def go_Inr_iff check_pilot_free_Inr robot_execution_reservation_Inr robot_reservation_ok
        exec_runs_def exec_executions_def checked_Inr append_row_def claim_run_def
        split: if_splits dest!: keeps_run)
qed

text \<open>An admission that starts a new Execution: nothing else is live on the robot.\<close>

theorem admit_Inr_new:
  assumes "admit_robot_execution item agent s = (Inr (e, True), t)"
  shows "e = item \<and> (\<forall>x \<in> set (executions s). xr_robot_id x = e_robot_id item \<longrightarrow> \<not> live_execution x) \<and>
    (\<exists>p. find_by rp_instance_id (e_pilot_instance_id item) (robot_pilots s) = Some p \<and> \<not> pilot_occupied p) \<and>
    (\<exists>excluded. robot_owner s (e_robot_id item) (e_task_id item) excluded = None) \<and>
    (e_task_id item \<noteq> [] \<longrightarrow> fst (validate_robot_task_admission item s) = Inr ()) \<and>
    find_request (e_project_id item) (e_request_key item) s = None \<and>
    t = s\<lparr>runs := claim_run item (runs s), executions := executions s @ [execution_row_of item]\<rparr>"
  using assms
  by (auto simp: admit_robot_execution_def admit_robot_execution_tx_def go_Inr_iff split: option.splits
      dest!: admit_new_Inr)

text \<open>The checks of an admission, row by row.\<close>

lemma validate_admission_Inr:
  "validate_robot_task_admission item s = (Inr u, t) \<longleftrightarrow> t = s \<and>
    (\<exists>w x y. find_by w_id (e_workflow_id item) (workflows s) = Some w \<and> w_project_id w = e_project_id item \<and>
      w_status w = WSRunning \<and> w_confirmed_revision w = w_revision w \<and>
      find_by t_id (e_task_id item) (tasks s) = Some x \<and> t_workflow_id x = w_id w \<and>
      t_assigned_robot_id x = e_robot_id item \<and> t_required_role x = ''robot'' \<and> t_status x = WSRunning \<and>
      find_by st_id (e_subtask_id item) (subtasks s) = Some y \<and> st_task_id y = t_id x \<and>
      st_status y = WSRunning \<and> st_kind y = ''robot_skill'' \<and> skill_matches (st_spec y) item \<and>
      within_scope (w_approved_scope w) item)"
  by (auto simp: validate_robot_task_admission_def or_invalid_def query_defs go_Inr_iff split: if_splits)

lemma check_direct_run_Inr:
  "check_direct_run item agent s = (Inr i, t) \<longleftrightarrow> t = s \<and>
    (\<exists>r. find_by r_id (e_run_id item) (runs s) = Some r \<and> i = r_id r \<and> e_workflow_id item = [] \<and>
      e_subtask_id item = [] \<and> r_project_id r = e_project_id item \<and> r_kind r = KConversation \<and>
      r_task_id r = [] \<and> r_workflow_id r = [] \<and> r_status r = RRunning \<and> r_agent_id r = agent \<and>
      agent = ''robot:'' @ e_robot_id item \<and> (r_robot_id r = [] \<or> r_robot_id r = e_robot_id item))"
  by (auto simp: check_direct_run_def or_invalid_def go_Inr_iff split: if_splits)

lemma admit_new_checks:
  assumes "admit_new item agent s = (Inr u, t)"
  shows "(\<forall>x \<in> set (tasks s). t_assigned_robot_id x = e_robot_id item \<and> open_work_status (t_status x) \<longrightarrow>
        t_id x = e_task_id item) \<and>
    (\<forall>r \<in> set (runs s). r_robot_id r = e_robot_id item \<and> active_run_status (r_status r) \<longrightarrow>
        r_id r = (if direct_item item then e_run_id item else [])) \<and>
    (e_task_id item \<noteq> [] \<longrightarrow> validate_robot_task_admission item s = (Inr (), s)) \<and>
    (direct_item item \<longrightarrow> check_direct_run item agent s = (Inr (e_run_id item), s)) \<and>
    runtime_project (e_robot_id item) s \<in> {[], e_project_id item}"
proof -
  obtain excluded where run: "(if direct_item item then check_direct_run item agent else ok []) s = (Inr excluded, s)"
    and owner: "robot_owner s (e_robot_id item) (e_task_id item) excluded = None"
    and task: "e_task_id item \<noteq> [] \<longrightarrow> validate_robot_task_admission item s = (Inr (), s)"
    and project: "runtime_project (e_robot_id item) s \<in> {[], e_project_id item}"
    using assms validate_admission_pure[of item] check_direct_run_pure[of item agent]
    by (auto simp: admit_new_def go_Inr_iff check_pilot_free_Inr robot_execution_reservation_Inr robot_reservation_ok
        split: if_splits dest!: keeps_run)
  from run have excluded: "excluded = (if direct_item item then e_run_id item else [])"
    by (auto simp: check_direct_run_Inr split: if_splits dest: find_by_SomeD)
  with run owner task project show ?thesis by (auto simp: robot_owner_None)
qed

lemma admit_Inr_checks:
  assumes "admit_robot_execution item agent s = (Inr (e, True), t)"
  obtains u t' where "admit_new item agent s = (Inr u, t')"
  using assms
  by (auto simp: admit_robot_execution_def admit_robot_execution_tx_def go_Inr_iff split: option.splits)

lemma admit_Inr_old:
  assumes "admit_robot_execution item agent s = (Inr (e, False), t)"
  shows "find_request (e_project_id item) (e_request_key item) s = Some e \<and> t = s"
  using assms
  by (auto simp: admit_robot_execution_def admit_robot_execution_tx_def go_Inr_iff split: option.splits)

theorem admit_again:
  assumes "admit_robot_execution item agent s = (Inr (e, b), t)"
    and "e_project_id item' = e_project_id item" "e_request_key item' = e_request_key item"
  shows "admit_robot_execution item' agent' t = (Inr (e, False), t)"
proof -
  have "find_request (e_project_id item) (e_request_key item) t = Some e"
  proof (cases b)
    case True
    then have new: "e = item" "find_request (e_project_id item) (e_request_key item) s = None"
      "t = s\<lparr>runs := claim_run item (runs s), executions := executions s @ [execution_row_of item]\<rparr>"
      using admit_Inr_new assms(1) by auto
    then show ?thesis
      by (auto simp: find_request_def find_append execution_row_of_def split: option.splits)
  next
    case False
    then show ?thesis using admit_Inr_old[of item agent s e t] assms(1) by simp
  qed
  then show ?thesis
    using assms(2,3) by (simp add: admit_robot_execution_def admit_robot_execution_tx_def run_simps)
qed

definition live_on :: "string \<Rightarrow> db \<Rightarrow> nat" where
  "live_on robot s = count_where (\<lambda>x. xr_robot_id x = robot \<and> live_execution x) (executions s)"

lemma admit_one_live:
  assumes "admit_robot_execution item agent s = (Inr (e, b), t)" and "\<forall>robot. live_on robot s \<le> 1"
  shows "live_on robot t \<le> 1"
proof (cases b)
  case True
  then have new: "\<forall>x \<in> set (executions s). xr_robot_id x = e_robot_id item \<longrightarrow> \<not> live_execution x"
    "t = s\<lparr>runs := claim_run item (runs s), executions := executions s @ [execution_row_of item]\<rparr>"
    using admit_Inr_new assms(1) by auto
  have "live_on (e_robot_id item) s = 0"
    using new(1) by (auto simp: live_on_def count_where_0)
  then show ?thesis
    using new(2) assms(2) by (cases "robot = e_robot_id item")
      (auto simp: live_on_def count_where_def execution_row_of_def)
next
  case False
  then have "t = s" using admit_Inr_old assms(1) by auto
  then show ?thesis using assms(2) by simp
qed

section \<open>Continuing a Task\<close>

lemma count_where_update: "find_by key k rows = Some r \<Longrightarrow> (\<And>x. p x \<longleftrightarrow> key x = k \<and> q x) \<Longrightarrow> q r \<Longrightarrow> count_where p rows \<noteq> 0"
  by (auto simp: count_where_0 dest: find_by_SomeD)

lemma preferred_active:
  assumes "r \<in> set rs" "active_run_status (r_status r)"
    and "\<And>x. x \<in> set rs \<Longrightarrow> active_run_status (r_status x) \<Longrightarrow> x = r"
  shows "preferred_run rs = Some r"
proof -
  obtain y where y: "preferred_run rs = Some y"
    using assms(1) by (cases "preferred_run rs") (auto simp: preferred_run_def)
  have mem: "y \<in> set rs" and le: "\<forall>x \<in> set rs.
      ((if active_run_status (r_status x) then 1 else 0 :: nat), started_key x, r_id x)
        \<le> ((if active_run_status (r_status y) then 1 else 0), started_key y, r_id y)"
    using latest_SomeD[OF y[unfolded preferred_run_def]] by auto
  have "active_run_status (r_status y)"
    using le[rule_format, OF assms(1)] assms(2) by (auto simp: less_eq_prod_def split: if_splits)
  with assms(3) mem y show ?thesis by blast
qed

lemma distinct_filter_unique:
  "distinct (map f (filter p xs)) \<Longrightarrow> x \<in> set xs \<Longrightarrow> y \<in> set xs \<Longrightarrow> p x \<Longrightarrow> p y \<Longrightarrow> f x = f y \<Longrightarrow> x = y"
  by (auto simp: distinct_map inj_on_def)

text \<open>What a reserving call leaves behind.\<close>

definition reserved_db :: "string \<Rightarrow> int \<Rightarrow> run_session \<Rightarrow> string \<Rightarrow> time \<Rightarrow> db \<Rightarrow> db" where
  "reserved_db tid n run i now s = s\<lparr>runs := runs s @ [continuation_row (run\<lparr>r_id := i\<rparr>) now],
      tasks := update_where (\<lambda>x. t_id x = tid \<and> t_status x = WSPaused \<and> t_revision x = n)
        (\<lambda>x. (bump_task now x)\<lparr>t_status := WSRunning, t_waiting_reason := []\<rparr>) (tasks s)\<rparr>"

lemma reserve_Inr:
  assumes "reserve_continuation tid n run tk now s = (Inr x, t)"
  shows "\<exists>i s1. x = Inr i \<and> t_status tk = WSPaused \<and> t_revision tk = n \<and> same_tables s s1 \<and>
    t = reserved_db tid n run i now s1 \<and> run_violation (runs t) = None"
proof -
  have guard: "t_status tk = WSPaused" "t_revision tk = n"
    using assms by (auto simp: reserve_continuation_def split: if_splits)
  then obtain i s1 where i: "(if r_id run = [] then new_run_session_id else ok (r_id run)) s = (Inr i, s1)"
    and rest: "run_violation (runs s1 @ [continuation_row (run\<lparr>r_id := i\<rparr>) now]) = None"
      "x = Inr i" "t = reserved_db tid n run i now s1"
    using assms
    by (auto simp: reserve_continuation_def go_Inr_iff exec_runs_def checked_Inr append_row_def update_tasks_def
        updating_run reserved_db_def split: if_splits)
  have "same_tables s s1"
    using i by (auto simp: new_run_session_id_def new_id_def split: if_splits)
  with guard rest show ?thesis by (auto simp: reserved_db_def)
qed

lemma continuation_pure:
  "keeps (=) (check_continuation_interaction run tid n retry)"
  "keeps (=) (existing_continuation run tk n retry)"
  unfolding check_continuation_interaction_def existing_continuation_def
  by (intro frame_eq.keeps_rules reads_only)+

definition continuation_checks :: "string \<Rightarrow> int \<Rightarrow> run_session \<Rightarrow> bool \<Rightarrow> task \<Rightarrow> workflow \<Rightarrow> db \<Rightarrow> bool" where
  "continuation_checks tid n run retry tk w s \<longleftrightarrow>
    find_by t_id tid (tasks s) = Some tk \<and> find_by w_id (t_workflow_id tk) (workflows s) = Some w \<and>
    w_status w = WSRunning \<and> r_workflow_id run = t_workflow_id tk \<and> r_context_id run = t_context_id tk \<and>
    r_agent_id run = t_assigned_agent_id tk \<and> r_project_id run = w_project_id w \<and>
    r_chat_session_id run = w_conversation_id w \<and>
    fst (check_continuation_interaction run tid n retry s) = Inr ()"

lemma continuation_tx_Inr:
  assumes "start_task_continuation_tx tid n run retry now s = (Inr x, t)"
  shows "\<exists>tk w y. continuation_checks tid n run retry tk w s \<and>
    existing_continuation run tk n retry s = (Inr y, s) \<and>
    (case y of Inl r \<Rightarrow> x = Inl r \<and> t = s | Inr _ \<Rightarrow> reserve_continuation tid n run tk now s = (Inr x, t))"
proof -
  obtain tk w u s1 where c: "continuation_checks tid n run retry tk w s"
    and chk: "check_continuation_interaction run tid n retry s = (Inr u, s1)"
    and rest: "go (existing_continuation run tk n retry) (\<lambda>x. case x of
       Inl r \<Rightarrow> ok (Inl r) | Inr _ \<Rightarrow> reserve_continuation tid n run tk now) s1 = (Inr x, t)"
    using assms
    by (auto simp: start_task_continuation_tx_def go_Inr_iff query_defs continuation_checks_def split: if_splits)
  have [simp]: "s1 = s" using keeps_run[OF continuation_pure(1) chk] by simp
  obtain y s2 where y: "existing_continuation run tk n retry s = (Inr y, s2)"
    and fin: "(case y of Inl r \<Rightarrow> ok (Inl r) | Inr _ \<Rightarrow> reserve_continuation tid n run tk now) s2 = (Inr x, t)"
    using rest by (auto simp: go_Inr_iff)
  have "s2 = s" using keeps_run[OF continuation_pure(2) y] by simp
  with y fin c show ?thesis by (cases y) auto
qed

text \<open>The first call: either it found an active continuation, or it reserved a new Run.\<close>

lemma continuation_started:
  assumes run: "start_task_continuation tid n run retry now s = (Inr (r, tk, started), t)"
  shows "(\<exists>tk0 w. continuation_checks tid n run retry tk0 w s \<and>
      (if started then \<exists>i s1. r = continuation_row (run\<lparr>r_id := i\<rparr>) now \<and> t_status tk0 = WSPaused \<and> t_revision tk0 = n \<and>
         same_tables s s1 \<and> t = reserved_db tid n run i now s1 \<and> run_violation (runs t) = None
       else t = s \<and> existing_continuation run tk0 n retry s = (Inr (Inl r), s))) \<and>
    find_by t_id tid (tasks t) = Some tk \<and>
    \<not> (r_source_interaction_id run = [] \<or> r_task_id run \<noteq> tid \<or> r_status run \<noteq> RQueued \<or> r_kind run \<noteq> KTaskExecution)"
proof -
  have guard: "\<not> (r_source_interaction_id run = [] \<or> r_task_id run \<noteq> tid \<or> r_status run \<noteq> RQueued \<or> r_kind run \<noteq> KTaskExecution)"
    using run by (auto simp: start_task_continuation_def split: if_splits)
  then obtain x s1 where tx: "start_task_continuation_tx tid n run retry now s = (Inr x, s1)"
    and k: "(case x of
        Inl r \<Rightarrow> go (get_task tid) (\<lambda>t. ok (r, t, False))
      | Inr i \<Rightarrow> go (get_run_session i) (\<lambda>r. go (get_task tid) (\<lambda>t. ok (r, t, True)))) s1 = (Inr (r, tk, started), t)"
    using run by (auto simp: start_task_continuation_def go_Inr_iff)
  have rest: "case x of Inl r' \<Rightarrow> r' = r \<and> \<not> started | Inr i \<Rightarrow> find_by r_id i (runs s1) = Some r \<and> started"
    "t = s1" "find_by t_id tid (tasks s1) = Some tk"
    using k by (cases x; auto simp: go_Inr_iff get_run_session_def get_task_def)+
  obtain tk0 w y where c: "continuation_checks tid n run retry tk0 w s"
    and y: "existing_continuation run tk0 n retry s = (Inr y, s)"
    and y': "case y of Inl r \<Rightarrow> x = Inl r \<and> s1 = s | Inr _ \<Rightarrow> reserve_continuation tid n run tk0 now s = (Inr x, s1)"
    using continuation_tx_Inr[OF tx] by blast
  show ?thesis
  proof (cases y)
    case (Inl r')
    then show ?thesis using rest c y y' guard by (auto intro!: exI[of _ tk0] exI[of _ w])
  next
    case (Inr u)
    with y' obtain i s2 where res: "x = Inr i" "t_status tk0 = WSPaused" "t_revision tk0 = n" "same_tables s s2"
      "s1 = reserved_db tid n run i now s2" "run_violation (runs s1) = None"
      using reserve_Inr[of tid n run tk0 now s x s1] by auto
    let ?r = "continuation_row (run\<lparr>r_id := i\<rparr>) now"
    have "?r \<in> set (runs s1)" "r_id ?r = i" using res(5) by (auto simp: reserved_db_def continuation_row_def)
    moreover have "distinct (map r_id (runs s1))" using res(6) by (auto simp: run_violation_def split: if_splits)
    ultimately have "find_by r_id i (runs s1) = Some ?r" using find_by_distinct by metis
    with rest res c guard show ?thesis by (auto intro!: exI[of _ tk0] exI[of _ w])
  qed
qed

lemma existing_Inr:
  "existing_continuation run tk n retry s = (Inr y, t) \<longleftrightarrow> t = s \<and>
    (case preferred_run (filter (\<lambda>r. r_source_interaction_id r = r_source_interaction_id run) (runs s)) of
       None \<Rightarrow> y = Inr ()
     | Some x \<Rightarrow>
        if r_status x \<in> {RQueued, RRunning, RWaitingInput} \<and> t_status tk = WSRunning then y = Inl x
        else retry \<and> terminal_run_status (r_status x) \<and> t_status tk = WSPaused \<and> t_revision tk = n \<and> y = Inr ())"
  by (auto simp: existing_continuation_def run_reading split: option.splits)

lemma reserved_task:
  assumes "find_by t_id tid (tasks s) = Some tk" "t_status tk = WSPaused" "t_revision tk = n"
  shows "find_by t_id tid (tasks (reserved_db tid n run i now s)) =
    Some ((bump_task now tk)\<lparr>t_status := WSRunning, t_waiting_reason := []\<rparr>)"
  using assms find_by_SomeD[OF assms(1)]
  by (simp add: reserved_db_def find_by_update_where bump_task_def)

lemma continuation_row_simps [simp]:
  "r_status (continuation_row run now) = RQueued" "r_id (continuation_row run now) = r_id run"
  "r_source_interaction_id (continuation_row run now) = r_source_interaction_id run"
  by (simp_all add: continuation_row_def)

lemma reserved_preferred:
  assumes "run_violation (runs (reserved_db tid n run i now s)) = None" "r_source_interaction_id run \<noteq> []"
  shows "preferred_run (filter (\<lambda>r. r_source_interaction_id r = r_source_interaction_id run)
      (runs (reserved_db tid n run i now s))) = Some (continuation_row (run\<lparr>r_id := i\<rparr>) now)"
proof (rule preferred_active)
  let ?rs = "runs (reserved_db tid n run i now s)" and ?r = "continuation_row (run\<lparr>r_id := i\<rparr>) now"
  have mem: "?r \<in> set ?rs" by (simp add: reserved_db_def)
  then show "?r \<in> set (filter (\<lambda>r. r_source_interaction_id r = r_source_interaction_id run) ?rs)" by simp
  show act: "active_run_status (r_status ?r)" by (simp add: active_run_status_def)
  have d: "distinct (map r_source_interaction_id
      (filter (\<lambda>r. r_source_interaction_id r \<noteq> [] \<and> active_run_status (r_status r)) ?rs))"
    using assms(1) by (auto simp: run_violation_def split: if_splits)
  fix x
  assume "x \<in> set (filter (\<lambda>r. r_source_interaction_id r = r_source_interaction_id run) ?rs)"
    and "active_run_status (r_status x)"
  then show "x = ?r" using distinct_filter_unique[OF d, of x ?r] mem act assms(2) by simp
qed

theorem continuation_again:
  assumes run: "start_task_continuation tid n run retry now s = (Inr (r, tk, started), t)"
  shows "start_task_continuation tid n run retry now' t = (Inr (r, tk, False), t)"
proof -
  note first = continuation_started[OF run]
  obtain tk0 w where c: "continuation_checks tid n run retry tk0 w s" using first by blast
  have found: "find_by t_id tid (tasks t) = Some tk" using first by blast
  have guard: "r_source_interaction_id run \<noteq> []" "r_task_id run = tid" "r_status run = RQueued" "r_kind run = KTaskExecution"
    using first by blast+
  have again: "continuation_checks tid n run retry tk w t \<and> existing_continuation run tk n retry t = (Inr (Inl r), t)"
  proof (cases started)
    case True
    then obtain i s1 tk1 where res: "r = continuation_row (run\<lparr>r_id := i\<rparr>) now" "same_tables s s1"
      "t = reserved_db tid n run i now s1" "run_violation (runs t) = None"
      and tk1: "find_by t_id tid (tasks s) = Some tk1" "t_status tk1 = WSPaused" "t_revision tk1 = n"
      using first by (auto simp: continuation_checks_def)
    note same = same_tables_proj[OF res(2)]
    have tk: "tk = (bump_task now tk1)\<lparr>t_status := WSRunning, t_waiting_reason := []\<rparr>"
      using reserved_task[of tid s1 tk1 n] found tk1 res(3) same by simp
    have "fst (check_continuation_interaction run tid n retry t) = fst (check_continuation_interaction run tid n retry s)"
      using same(9) by (simp add: check_continuation_interaction_def run_simps select_row_def res(3) reserved_db_def split: option.splits)
    then have "continuation_checks tid n run retry tk w t"
      using c found tk1 same(1) by (auto simp: continuation_checks_def tk res(3) reserved_db_def bump_task_def)
    moreover have "existing_continuation run tk n retry t = (Inr (Inl r), t)"
      using reserved_preferred[of tid n run i now s1] res guard(1) by (simp add: existing_Inr tk)
    ultimately show ?thesis ..
  next
    case False
    then show ?thesis using first c found by (auto simp: continuation_checks_def)
  qed
  have chk: "check_continuation_interaction run tid n retry t = (Inr (), t)"
    using again keeps_run[OF continuation_pure(1), of run tid n retry t] by (auto simp: continuation_checks_def)
      (metis prod.collapse)
  have "start_task_continuation_tx tid n run retry now' t = (Inr (Inl r), t)"
    using again chk by (auto simp: start_task_continuation_tx_def run_simps query_defs continuation_checks_def select_row_def)
  then show ?thesis
    using found guard by (simp add: start_task_continuation_def run_simps tx_def get_task_def select_row_def)
qed

section \<open>Submitting a plan\<close>

text \<open>What the transaction leaves: the proposal \<open>i\<close>, of this Project and Conversation.\<close>

definition bound_proposal :: "string \<Rightarrow> string \<Rightarrow> string \<Rightarrow> db \<Rightarrow> bool" where
  "bound_proposal i p c t \<longleftrightarrow> distinct (map pp_id (plan_proposals t)) \<and>
     (\<exists>q \<in> set (plan_proposals t). pp_id q = i \<and> pp_project_id q = p \<and> pp_conversation_id q = c)"

lemma bound_proposal_found:
  "bound_proposal i p c t \<Longrightarrow> find_by pp_id i (plan_proposals t) = Some q \<Longrightarrow>
   pp_project_id q = p \<and> pp_conversation_id q = c"
  by (auto simp: bound_proposal_def find_by_iff) (metis find_by_distinct find_by_iff option.inject)+

lemma attempt_or_err:
  "attempt m (\<lambda>r. case r of Inl e \<Rightarrow> err (f e) | Inr x \<Rightarrow> k x) s = (Inr y, t) \<longleftrightarrow> go m k s = (Inr y, t)"
  by (auto simp: attempt_def go_def split: prod.splits sum.splits)

definition same_but_proposals :: "db \<Rightarrow> db \<Rightarrow> bool" where
  "same_but_proposals s t \<longleftrightarrow> chat_sessions t = chat_sessions s \<and> projects t = projects s \<and>
     plan_submissions t = plan_submissions s"

lemma revise_Inr:
  assumes run: "revise_proposal a d summary scope j doc now s = (Inr (i, n), t)"
    and a: "a \<in> set (plan_proposals s)" "pp_status a = PReady" "distinct (map pp_id (plan_proposals s))"
  shows "bound_proposal i (pp_project_id a) (pp_conversation_id a) t \<and> same_but_proposals s t"
proof -
  let ?f = "\<lambda>p. p\<lparr>pp_revision := pp_revision p + 1, pp_goal := trim_space (wdr_goal d),
          pp_summary := trim_space summary, pp_approved_scope := json_or scope (JObj []),
          pp_structured_plan := Raw j, pp_document_markdown := doc, pp_updated_at := now\<rparr>"
  have "i = pp_id a" "plan_proposals t = update_where (\<lambda>p. pp_id p = pp_id a \<and> pp_revision p = pp_revision a \<and>
      pp_status p = PReady) ?f (plan_proposals s)" "same_but_proposals s t"
    using run by (auto simp: revise_proposal_def go_Inr_iff update_proposals_def updating_run same_but_proposals_def
        split: if_splits)
  moreover from this have "?f a \<in> set (plan_proposals t)" using a by (auto simp: update_where_def)
  ultimately show ?thesis
    using a(3) by (auto simp: bound_proposal_def map_key_update_where intro!: bexI[of _ "?f a"])
qed

lemma create_Inr:
  assumes "create_proposal p c d summary scope j doc now s = (Inr (i, n), t)"
  shows "bound_proposal i p c t \<and> same_but_proposals s t"
  using assms
  by (auto simp: create_proposal_def go_Inr_iff attempt_or_err same_but_proposals_def exec_proposals_def checked_Inr
      append_row_def bound_proposal_def proposal_violation_def new_plan_proposal_id_def new_id_def split: if_splits)

lemma submit_new_Inr:
  assumes "submit_new_plan run p c d summary scope doc now s = (Inr x, t)"
    and "distinct (map pp_id (plan_proposals s))" "run \<noteq> []"
  shows "\<exists>i n. x = Inr i \<and> chat_sessions t = chat_sessions s \<and> projects t = projects s \<and>
    plan_submissions t = plan_submissions s @
      [\<lparr>ps_run_id = run, ps_proposal_id = i, ps_proposal_revision = n, ps_created_at = now\<rparr>] \<and>
    bound_proposal i p c t"
proof -
  obtain j i n s1 where
    made: "(case find (\<lambda>q. pp_project_id q = p \<and> pp_status q = PReady) (plan_proposals s) of
         Some a \<Rightarrow> if pp_conversation_id a \<noteq> c then err ErrWorkflowExists
           else revise_proposal a d summary scope j doc now
       | None \<Rightarrow> create_proposal p c d summary scope j doc now) s = (Inr (i, n), s1)"
    and bind: "exec_submissions (append_row \<lparr>ps_run_id = run, ps_proposal_id = i,
         ps_proposal_revision = n, ps_created_at = now\<rparr>) s1 = (Inr (), t)" "x = Inr i"
    using assms(1,3) by (auto simp: submit_new_plan_def go_Inr_iff split: if_splits option.split_asm)
  have "bound_proposal i p c s1 \<and> same_but_proposals s s1"
  proof (cases "find (\<lambda>q. pp_project_id q = p \<and> pp_status q = PReady) (plan_proposals s)")
    case None
    then show ?thesis using made create_Inr by auto
  next
    case (Some a)
    with find_SomeD[OF Some] made assms(2) show ?thesis
      by (auto split: if_splits dest!: revise_Inr)
  qed
  then show ?thesis
    using bind by (auto simp: exec_submissions_def checked_Inr append_row_def bound_proposal_def same_but_proposals_def)
qed

definition bound_submission :: "string \<Rightarrow> string \<Rightarrow> string \<Rightarrow> plan_proposal \<Rightarrow> db \<Rightarrow> bool" where
  "bound_submission run p c q t \<longleftrightarrow> (\<exists>b. find_by ps_run_id run (plan_submissions t) = Some b \<and>
     find_by pp_id (ps_proposal_id b) (plan_proposals t) = Some q) \<and> pp_project_id q = p \<and> pp_conversation_id q = c"

lemma checks_pure: "keeps (=) (check_conversation c p)" "keeps (=) (get_project p)" "keeps (=) (check_active_project x)"
  unfolding check_conversation_def query_defs check_active_project_def
  by (intro frame_eq.keeps_rules reads_only)+

lemma bound_submission_tx:
  "bound_submission run p c q t \<Longrightarrow> run \<noteq> [] \<Longrightarrow>
   submit_plan_tx run p c d summary scope doc now t = (Inr (Inl q), t)"
  by (auto simp: bound_submission_def submit_plan_tx_def run_simps scan_plan_proposal_def select_row_def)

lemma bound_submission_same: "same_tables s t \<Longrightarrow> bound_submission run p c q t = bound_submission run p c q s"
  by (simp add: bound_submission_def same_tables_proj)

definition submission_checks :: "string \<Rightarrow> string \<Rightarrow> db \<Rightarrow> bool" where
  "submission_checks p c s \<longleftrightarrow> check_conversation c p s = (Inr (), s) \<and>
     (\<exists>x. find_by pr_id p (projects s) = Some x \<and> check_active_project x s = (Inr (), s))"

lemma submission_checks_frame:
  "chat_sessions t = chat_sessions s \<Longrightarrow> projects t = projects s \<Longrightarrow> submission_checks p c t = submission_checks p c s"
  by (auto simp: submission_checks_def check_conversation_def get_chat_session_def select_row_def run_simps
      check_active_project_def split: option.splits)

lemma submit_Inr:
  assumes run: "submit_plan_proposal_for_run run p c d summary scope doc now s = (Inr (q, b), t)"
    and keys: "distinct (map pp_id (plan_proposals s))" and named: "run \<noteq> []"
  shows "bound_submission run p c q t \<and> submission_checks p c t"
proof -
  obtain d' s1 sa y sb x s2 where v: "validate_draft d s = (Inr d', s1)"
    and c: "check_conversation c p s1 = (Inr (), sa)" and y: "find_by pr_id p (projects sa) = Some y"
    and a: "check_active_project y sa = (Inr (), sb)"
    and tx: "submit_plan_tx run p c d' summary scope doc now sb = (Inr x, s2)"
    and k: "(case x of Inl p \<Rightarrow> ok (p, True) | Inr i \<Rightarrow> go (get_plan_proposal i) (\<lambda>p. ok (p, False))) s2 = (Inr (q, b), t)"
    using run by (auto simp: submit_plan_proposal_for_run_def go_Inr_iff get_project_def split: if_splits)
  have [simp]: "sa = s1" "sb = s1" using keeps_run[OF checks_pure(1) c] keeps_run[OF checks_pure(3) a] by simp_all
  have chk: "submission_checks p c s1" using c y a by (auto simp: submission_checks_def)
  note tx = tx[simplified]
  have same: "same_tables s s1" using keeps_run[OF keeps_validate_draft v] .
  show ?thesis
  proof (cases "find_by ps_run_id run (plan_submissions s1)")
    case None
    then have "submit_new_plan run p c d' summary scope doc now s1 = (Inr x, s2)"
      using tx named by (simp add: submit_plan_tx_def run_simps)
    from submit_new_Inr[OF this] keys named same_tables_proj[OF same]
    obtain i n where new: "x = Inr i" "chat_sessions s2 = chat_sessions s1" "projects s2 = projects s1"
      "plan_submissions s2 = plan_submissions s1 @
        [\<lparr>ps_run_id = run, ps_proposal_id = i, ps_proposal_revision = n, ps_created_at = now\<rparr>]"
      "bound_proposal i p c s2" by auto
    have "find_by pp_id i (plan_proposals s2) = Some q" "t = s2"
      using k new(1) by (auto simp: go_Inr_iff get_plan_proposal_def)
    then show ?thesis
      using new None chk bound_proposal_found[OF new(5)] submission_checks_frame[OF new(2,3)]
      by (simp add: bound_submission_def find_by_append)
  next
    case (Some e)
    then have "x = Inl q" "s2 = s1" "t = s1" "bound_submission run p c q s1"
      using tx k named
      by (auto simp: submit_plan_tx_def go_Inr_iff scan_plan_proposal_def bound_submission_def split: if_splits sum.splits)
    then show ?thesis using chk by simp
  qed
qed

theorem submit_again:
  assumes run: "submit_plan_proposal_for_run run p c d summary scope doc now s = (Inr (q, b), t)"
    and keys: "distinct (map pp_id (plan_proposals s))" and named: "run \<noteq> []"
    and draft: "validate_draft d2 t = (Inr d3, t')" "wdr_tasks d3 \<noteq> []"
  shows "\<exists>u. submit_plan_proposal_for_run run p c d2 summary2 scope2 doc2 now2 t = (Inr (q, True), u) \<and> same_tables t u"
proof -
  have bound: "bound_submission run p c q t" and chk: "submission_checks p c t"
    using submit_Inr[OF run keys named] by auto
  have same: "same_tables t t'" using keeps_run[OF keeps_validate_draft draft(1)] .
  note proj = same_tables_proj[OF same]
  have chk': "submission_checks p c t'" and bound': "bound_submission run p c q t'"
    using chk bound bound_submission_same[OF same] submission_checks_frame[OF proj(14,8)] by auto
  obtain y where y: "check_conversation c p t' = (Inr (), t')" "find_by pr_id p (projects t') = Some y"
    "check_active_project y t' = (Inr (), t')"
    using chk' by (auto simp: submission_checks_def)
  have goal: "trim_space (wdr_goal d2) \<noteq> []"
    using draft(1) by (auto simp: validate_draft_def split: if_splits)
  have "submit_plan_proposal_for_run run p c d2 summary2 scope2 doc2 now2 t = (Inr (q, True), t')"
    using goal draft y bound_submission_tx[OF bound' named]
    by (simp add: submit_plan_proposal_for_run_def run_simps get_project_def select_row_def)
  with same show ?thesis by blast
qed

section \<open>Progress of a plan\<close>

text \<open>The dependencies of a Workflow are acyclic and stay inside the Workflow.\<close>

definition sound_plan :: "string \<Rightarrow> db \<Rightarrow> bool" where
  "sound_plan wid s \<longleftrightarrow>
     acyclic (dep_edges (filter (\<lambda>d. td_workflow_id d = wid) (task_deps s))) \<and>
     (\<forall>t \<in> set (tasks_of wid s). \<forall>d \<in> set (task_deps s). td_task_id d = t_id t \<longrightarrow>
        td_workflow_id d = wid \<and> (\<forall>p \<in> set (tasks s). t_id p = td_depends_on d \<longrightarrow> t_workflow_id p = wid))"

lemma set_tasks_of: "set (tasks_of wid s) = {t \<in> set (tasks s). t_workflow_id t = wid}"
  by (simp add: tasks_of_def)

theorem runnable_exists:
  assumes sound: "sound_plan wid s" and t: "t \<in> set (tasks_of wid s)" "t_status t = WSPending"
    and all: "\<forall>x \<in> set (tasks_of wid s). t_status x = WSPending \<or> t_status x = WSCompleted"
  shows "\<exists>x xs. list_runnable_tasks wid s = (Inr (x # xs), s)"
proof -
  let ?E = "dep_edges (filter (\<lambda>d. td_workflow_id d = wid) (task_deps s))"
  let ?Q = "t_id ` {x \<in> set (tasks_of wid s). t_status x = WSPending}"
  have "wf (?E\<inverse>)"
    using sound by (intro finite_acyclic_wf_converse) (auto simp: sound_plan_def dep_edges_def)
  then obtain i where i: "i \<in> ?Q" and least: "\<And>j. (j, i) \<in> ?E\<inverse> \<Longrightarrow> j \<notin> ?Q"
    by (rule wfE_min[where Q = ?Q and x = "t_id t"]) (use t in auto)
  obtain x where x: "x \<in> set (tasks_of wid s)" "t_status x = WSPending" "i = t_id x" using i by auto
  have "\<not> task_blocked s (t_id x)"
  proof
    assume "task_blocked s (t_id x)"
    then obtain d p where d: "d \<in> set (task_deps s)" "td_task_id d = t_id x"
      and p: "p \<in> set (tasks s)" "t_id p = td_depends_on d" "t_status p \<noteq> WSCompleted"
      by (auto simp: task_blocked_def)
    then have "td_workflow_id d = wid" "t_workflow_id p = wid" using sound x(1) by (auto simp: sound_plan_def)
    then have "(t_id p, i) \<in> ?E\<inverse>"
      using d p x(3) by (auto simp: dep_edges_def intro!: image_eqI[of _ _ d])
    moreover have "p \<in> set (tasks_of wid s)"
      using p \<open>t_workflow_id p = wid\<close> by (simp add: set_tasks_of)
    ultimately show False using least[of "t_id p"] all p(3) by auto
  qed
  with x have "x \<in> set (filter (\<lambda>t. t_status t = WSPending \<and> \<not> task_blocked s (t_id t)) (tasks_of wid s))" by simp
  then show ?thesis
    by (cases "filter (\<lambda>t. t_status t = WSPending \<and> \<not> task_blocked s (t_id t)) (tasks_of wid s)")
      (auto simp: list_runnable_tasks_def select_rows_def)
qed

end
