(* ===== verification/StoreSteps.thy ===== *)
theory StoreSteps
  imports StoreOnce
begin

text \<open>
  The state machines as step relations: what one statement may do to a Workflow, a Task or a
  SubTask row.  \<open>advances\<close> says that every row of an existing Workflow has moved along its
  steps; \<open>lawful\<close> says so and that the constraints of the schema still hold.  Both are preorders,
  so they hold for every sequence of statements as soon as they hold for each.
\<close>

section \<open>Steps\<close>

inductive workflow_step :: "workflow \<Rightarrow> workflow \<Rightarrow> bool" where
  workflow_move: "allowed_workflow_transition (w_status w) to \<Longrightarrow> workflow_step w (move_workflow to reason confirmed now w)"

inductive task_step :: "task \<Rightarrow> task \<Rightarrow> bool" where
  task_move: "allowed_task_transition (t_status t) to \<Longrightarrow> task_step t (move_task to reason summary evidence now t)"
| task_note: "t_status t = WSPending \<Longrightarrow> task_step t (bump_task now t\<lparr>t_waiting_reason := reason\<rparr>)"
| task_bind: "t_status t = WSPending \<Longrightarrow> task_step t (bind_task agent robot now t)"
| task_planned: "t_status t = WSPending \<Longrightarrow> task_step t (bump_task now t)"
| task_replan: "t_status t = WSPaused \<Longrightarrow>
    task_step t (bump_task now t\<lparr>t_status := WSPending, t_waiting_reason := ''planning_subtasks''\<rparr>)"
| task_rewait: "t_status t = WSPaused \<Longrightarrow> task_step t (bump_task now t\<lparr>t_waiting_reason := reason\<rparr>)"
| task_rerun: "t_status t = WSPaused \<Longrightarrow>
    task_step t ((bump_task now t)\<lparr>t_status := WSRunning, t_waiting_reason := []\<rparr>)"

inductive subtask_step :: "subtask \<Rightarrow> subtask \<Rightarrow> bool" where
  subtask_move: "allowed_task_transition (st_status x) to \<Longrightarrow> subtask_step x (move_subtask to reason result now x)"
| subtask_resume: "st_status x = WSPaused \<Longrightarrow> st_execution_ref x = [] \<Longrightarrow>
    subtask_step x (bump_subtask now x\<lparr>st_status := WSPending, st_waiting_reason := []\<rparr>)"
| subtask_attach: "st_status x = WSRunning \<Longrightarrow> st_execution_ref x = [] \<Longrightarrow>
    subtask_step x (bump_subtask now x\<lparr>st_execution_ref := i\<rparr>)"
| subtask_rewait: "st_status x = WSPaused \<Longrightarrow> subtask_step x (bump_subtask now x\<lparr>st_waiting_reason := reason\<rparr>)"
| subtask_replaced: "st_status x = WSPaused \<Longrightarrow>
    subtask_step x ((bump_subtask now x)\<lparr>st_status := WSFailed, st_waiting_reason := reason, st_ended_at := Some now\<rparr>)"
| subtask_revised: "st_status x = WSPending \<Longrightarrow>
    subtask_step x ((bump_subtask now x)\<lparr>st_status := WSStopped, st_waiting_reason := reason, st_ended_at := Some now\<rparr>)"

inductive_cases workflow_stepE: "workflow_step w w'"
inductive_cases task_stepE: "task_step t t'"
inductive_cases subtask_stepE: "subtask_step x x'"

text \<open>What no step changes, and where no step starts.\<close>

lemma bind_task_simps [simp]:
  "t_id (bind_task a r now t) = t_id t" "t_workflow_id (bind_task a r now t) = t_workflow_id t"
  "t_position (bind_task a r now t) = t_position t" "t_context_id (bind_task a r now t) = t_context_id t"
  "t_status (bind_task a r now t) = t_status t" "t_revision (bind_task a r now t) = t_revision t + 1"
  "t_assigned_robot_id (bind_task a r now t) = r"
  by (simp_all add: bind_task_def bump_task_def)

lemma allowed_source:
  "allowed_task_transition a b \<Longrightarrow> \<not> terminal_work_status a" "allowed_workflow_transition a b \<Longrightarrow> \<not> terminal_work_status a"
  using terminal_has_no_next by blast+

lemma pending_is_initial: "\<not> allowed_task_transition a WSPending"
  by (cases a) (auto simp: allowed_task_transition_def next_task_statuses_def)

lemma step_keeps_task:
  "task_step t t' \<Longrightarrow> t_id t' = t_id t \<and> t_workflow_id t' = t_workflow_id t \<and> t_position t' = t_position t \<and>
    t_context_id t' = t_context_id t \<and> t_revision t' = t_revision t + 1 \<and> \<not> terminal_work_status (t_status t)"
  by (induction rule: task_step.induct)
    (auto simp: move_task_def bump_task_def terminal_work_status_def dest: allowed_source[unfolded terminal_work_status_def])

lemma step_keeps_subtask:
  "subtask_step x x' \<Longrightarrow> st_id x' = st_id x \<and> st_task_id x' = st_task_id x \<and> st_position x' = st_position x \<and>
    st_kind x' = st_kind x \<and> st_revision x' = st_revision x + 1 \<and> \<not> terminal_work_status (st_status x) \<and>
    (st_execution_ref x \<noteq> [] \<longrightarrow> st_execution_ref x' = st_execution_ref x \<and>
      (st_status x' = WSPending \<longrightarrow> st_status x = WSPending))"
  by (induction rule: subtask_step.induct)
    (auto simp: move_subtask_def bump_subtask_def terminal_work_status_def pending_is_initial
      dest: allowed_source[unfolded terminal_work_status_def])

lemma step_keeps_workflow:
  "workflow_step w w' \<Longrightarrow> w_id w' = w_id w \<and> w_project_id w' = w_project_id w \<and>
    w_source_interaction_id w' = w_source_interaction_id w \<and> w_revision w' = w_revision w + 1 \<and>
    \<not> terminal_work_status (w_status w)"
  by (induction rule: workflow_step.induct) (auto simp: move_workflow_def dest: allowed_source)

section \<open>Histories\<close>

definition task_path :: "task \<Rightarrow> task \<Rightarrow> bool" where
  "task_path = task_step\<^sup>*\<^sup>*"

definition subtask_path :: "subtask \<Rightarrow> subtask \<Rightarrow> bool" where
  "subtask_path = subtask_step\<^sup>*\<^sup>*"

definition workflow_path :: "workflow \<Rightarrow> workflow \<Rightarrow> bool" where
  "workflow_path = workflow_step\<^sup>*\<^sup>*"

lemmas path_defs = task_path_def subtask_path_def workflow_path_def

lemma path_refl [simp]: "task_path t t" "subtask_path x x" "workflow_path w w"
  by (simp_all add: path_defs)

lemma path_step: "task_step t t' \<Longrightarrow> task_path t t'" "subtask_step x x' \<Longrightarrow> subtask_path x x'"
  "workflow_step w w' \<Longrightarrow> workflow_path w w'"
  by (simp_all add: path_defs)

lemma path_trans:
  "task_path t t' \<Longrightarrow> task_path t' t'' \<Longrightarrow> task_path t t''"
  "subtask_path x x' \<Longrightarrow> subtask_path x' x'' \<Longrightarrow> subtask_path x x''"
  "workflow_path w w' \<Longrightarrow> workflow_path w' w'' \<Longrightarrow> workflow_path w w''"
  by (simp_all add: path_defs)

lemma task_path_keeps:
  assumes "task_path t t'"
  shows "t_id t' = t_id t \<and> t_workflow_id t' = t_workflow_id t \<and> t_revision t \<le> t_revision t' \<and>
    (terminal_work_status (t_status t) \<longrightarrow> t' = t)"
  using assms unfolding task_path_def
  by (induction rule: rtranclp_induct) (auto dest!: step_keeps_task)

lemma subtask_path_keeps:
  assumes "subtask_path x x'"
  shows "st_id x' = st_id x \<and> st_task_id x' = st_task_id x \<and> st_kind x' = st_kind x \<and> st_revision x \<le> st_revision x' \<and>
    (terminal_work_status (st_status x) \<longrightarrow> x' = x) \<and>
    (st_execution_ref x \<noteq> [] \<longrightarrow> st_execution_ref x' = st_execution_ref x \<and>
       (st_status x' = WSPending \<longrightarrow> st_status x = WSPending))"
  using assms unfolding subtask_path_def
  by (induction rule: rtranclp_induct) (auto dest!: step_keeps_subtask)

lemma workflow_path_keeps:
  assumes "workflow_path w w'"
  shows "w_id w' = w_id w \<and> w_project_id w' = w_project_id w \<and> w_revision w \<le> w_revision w' \<and>
    (terminal_work_status (w_status w) \<longrightarrow> w' = w)"
  using assms unfolding workflow_path_def
  by (induction rule: rtranclp_induct) (auto dest!: step_keeps_workflow)

section \<open>Databases\<close>

definition live_task :: "string \<Rightarrow> task \<Rightarrow> db \<Rightarrow> bool" where
  "live_task i t s \<longleftrightarrow> find_by t_id i (tasks s) = Some t \<and> find_by w_id (t_workflow_id t) (workflows s) \<noteq> None"

definition live_subtask :: "string \<Rightarrow> subtask \<Rightarrow> db \<Rightarrow> bool" where
  "live_subtask i x s \<longleftrightarrow> find_by st_id i (subtasks s) = Some x \<and> (\<exists>t. live_task (st_task_id x) t s)"

definition advances :: "db \<Rightarrow> db \<Rightarrow> bool" where
  "advances s t \<longleftrightarrow>
     (\<forall>i w. find_by w_id i (workflows s) = Some w \<longrightarrow> (\<exists>w'. find_by w_id i (workflows t) = Some w' \<and> workflow_path w w')) \<and>
     (\<forall>i x. live_task i x s \<longrightarrow> (\<exists>x'. live_task i x' t \<and> task_path x x')) \<and>
     (\<forall>i x. live_subtask i x s \<longrightarrow> (\<exists>x'. live_subtask i x' t \<and> subtask_path x x'))"

definition lawful :: "db \<Rightarrow> db \<Rightarrow> bool" where
  "lawful s t \<longleftrightarrow> (constraints_hold s \<longrightarrow> constraints_hold t \<and> advances s t)"

lemma advances_refl: "advances s s"
  by (auto simp: advances_def intro: exI path_refl)

lemma advances_trans: "advances s t \<Longrightarrow> advances t u \<Longrightarrow> advances s u"
  unfolding advances_def by (meson path_trans)

lemma constraints_same_tables: "same_tables s t \<Longrightarrow> constraints_hold t = constraints_hold s"
  by (auto simp: same_tables_def constraints_hold_def)

lemma advances_same_rows:
  "workflows t = workflows s \<Longrightarrow> tasks t = tasks s \<Longrightarrow> subtasks t = subtasks s \<Longrightarrow> advances s t"
  by (auto simp: advances_def live_task_def live_subtask_def intro: path_refl)

interpretation law: db_relation lawful
  by unfold_locales
    (auto simp: lawful_def advances_refl constraints_hold_def intro: advances_trans advances_same_rows)

end
