(* ===== verification/StoreLaws.thy ===== *)
theory StoreLaws
  imports StoreSteps
begin

text \<open>
  The interface between the store and the Workflow service: \<open>store_client\<close> is a preorder on
  databases that every writing operation the service calls keeps.  Two preorders satisfy it:
  \<open>lawful\<close> (the constraints of the schema hold and every row has moved along its state machine)
  and \<open>logs_grow\<close> (revision snapshots, messages, submissions and Execution events are only
  ever appended).
\<close>

section \<open>The interface\<close>

locale store_client = db_relation R for R :: "db \<Rightarrow> db \<Rightarrow> bool" +
  assumes keeps_workflow_ops:
      "keeps R (transition_workflow_with_reason i n to reason now)"
      "keeps R (submit_plan_proposal_for_run run p c d summary scope doc now)"
      "keeps R (approve_plan_proposal i n now)"
      "keeps R (discard_plan_proposal i n now)"
    and keeps_task_ops:
      "keeps R (transition_task i n to reason text evidence now)"
      "keeps R (set_pending_task_reason i n reason now)"
      "keeps R (resume_paused_task_planning i n now)"
      "keeps R (assign_task i n agent robot now)"
      "keeps R (reassign_pending_task i n agent robot now)"
      "keeps R (set_task_subtasks i n items now)"
      "keeps R (apply_failed_robot_recovery i n j items now)"
      "keeps R (update_paused_robot_wait_reason i n j m from to' now)"
    and keeps_subtask_ops:
      "keeps R (transition_subtask i n to reason result now)"
      "keeps R (resume_paused_agent_step i n now)"
      "keeps R (attach_subtask_execution i n x now)"
    and keeps_run_ops:
      "keeps R (create_run_session r now)"
      "keeps R (transition_run_status i rs st now)"
      "keeps R (finish_run_session i rs st note now)"
      "keeps R (start_task_continuation i n r retry now)"
    and keeps_log_ops:
      "keeps R (append_chat_message msg)"
      "keeps R (append_robot_execution_event ev)"

section \<open>Changing one table\<close>

lemma distinct_update_filtered:
  assumes "distinct (map f (filter P xs))" "\<And>x. x \<in> set xs \<Longrightarrow> P (g x) \<Longrightarrow> P x \<and> f (g x) = f x"
  shows "distinct (map f (filter P (map g xs)))"
  using assms
proof (induction xs)
  case (Cons a xs)
  then have rest: "distinct (map f (filter P (map g xs)))"
    by (cases "P a") auto
  have "f ` set (filter P (map g xs)) \<subseteq> f ` set (filter P xs)"
    using Cons.prems(2) by force
  with Cons.prems rest show ?case by (cases "P (g a)") auto
qed simp

lemma distinct_update_where:
  assumes "distinct (map f (filter P xs))" "\<And>x. x \<in> set xs \<Longrightarrow> p x \<Longrightarrow> P (g x) \<Longrightarrow> P x \<and> f (g x) = f x"
  shows "distinct (map f (filter P (update_where p g xs)))"
  unfolding update_where_def using assms by (intro distinct_update_filtered) auto

lemma find_by_update:
  assumes "find_by key i rows = Some r" "\<And>x. x \<in> set rows \<Longrightarrow> p x \<Longrightarrow> key (f x) = key x"
  shows "find_by key i (update_where p f rows) = Some (if p r then f r else r)"
  using assms by (induction rows) (auto split: if_splits)

lemma find_by_update_None:
  assumes "\<And>x. x \<in> set rows \<Longrightarrow> p x \<Longrightarrow> key (f x) = key x"
  shows "find_by key i (update_where p f rows) = None \<longleftrightarrow> find_by key i rows = None"
  using assms by (induction rows) auto

lemma violation_None:
  "task_violation ts = None \<longleftrightarrow> distinct (map t_id ts) \<and> distinct (map t_context_id ts) \<and>
     distinct (map (\<lambda>t. (t_workflow_id t, t_position t)) ts) \<and> distinct (map t_assigned_robot_id (filter robot_bound ts))"
  "subtask_violation xs = None \<longleftrightarrow> distinct (map st_id xs) \<and> distinct (map (\<lambda>x. (st_task_id x, st_position x)) xs) \<and>
     (\<forall>x \<in> set xs. st_kind x = ''robot_skill'' \<or> st_kind x = ''agent_step'')"
  "workflow_violation ws = None \<longleftrightarrow> distinct (map w_id ws) \<and>
     distinct (map w_project_id (filter (\<lambda>w. open_work_status (w_status w)) ws)) \<and>
     distinct (filter (\<lambda>i. i \<noteq> []) (map w_source_interaction_id ws))"
  "proposal_violation ps = None \<longleftrightarrow> distinct (map pp_id ps) \<and>
     distinct (map pp_project_id (filter (\<lambda>p. pp_status p = PReady) ps))"
  by (auto simp: task_violation_def subtask_violation_def workflow_violation_def proposal_violation_def)

section \<open>Rows that move\<close>

text \<open>Every row of the first table is found in the second, further along its path.\<close>

definition moves :: "('r \<Rightarrow> string) \<Rightarrow> ('r \<Rightarrow> 'r \<Rightarrow> bool) \<Rightarrow> 'r list \<Rightarrow> 'r list \<Rightarrow> bool" where
  "moves key path xs ys \<longleftrightarrow> (\<forall>i x. find_by key i xs = Some x \<longrightarrow> (\<exists>y. find_by key i ys = Some y \<and> path x y))"

lemma moves_append: "(\<And>x. path x x) \<Longrightarrow> moves key path xs (xs @ ys)"
  by (auto simp: moves_def find_by_append)

lemma moves_same: "(\<And>x. path x x) \<Longrightarrow> moves key path xs xs"
  by (auto simp: moves_def)

lemma moves_update:
  assumes "\<And>x. x \<in> set xs \<Longrightarrow> p x \<Longrightarrow> key (f x) = key x \<and> path x (f x)" "\<And>x. path x x"
  shows "moves key path xs (update_where p f xs)"
  unfolding moves_def
proof (intro allI impI)
  fix i x
  assume found: "find_by key i xs = Some x"
  then have x: "x \<in> set xs" by (auto dest: find_by_SomeD)
  have "find_by key i (update_where p f xs) = Some (if p x then f x else x)"
    by (rule find_by_update[OF found]) (simp add: assms(1))
  with x assms show "\<exists>y. find_by key i (update_where p f xs) = Some y \<and> path x y" by auto
qed

lemma advances_rows:
  assumes "moves w_id workflow_path (workflows s) (workflows t)" "moves t_id task_path (tasks s) (tasks t)"
    "moves st_id subtask_path (subtasks s) (subtasks t)"
  shows "advances s t"
proof -
  have task: "live_task i x s \<Longrightarrow> \<exists>x'. live_task i x' t \<and> task_path x x'" for i x
    using assms(1,2) task_path_keeps[of x] unfolding live_task_def moves_def by (metis option.exhaust option.distinct(1))
  have subtask: "live_subtask i x s \<Longrightarrow> \<exists>x'. live_subtask i x' t \<and> subtask_path x x'" for i x
  proof -
    assume live: "live_subtask i x s"
    then obtain x' u where "find_by st_id i (subtasks t) = Some x'" "subtask_path x x'" "live_task (st_task_id x) u s"
      using assms(3) unfolding live_subtask_def moves_def by blast
    moreover from this have "st_task_id x' = st_task_id x" using subtask_path_keeps by blast
    ultimately show "\<exists>x'. live_subtask i x' t \<and> subtask_path x x'"
      using task unfolding live_subtask_def by metis
  qed
  show ?thesis using assms(1) task subtask unfolding advances_def moves_def by blast
qed

lemma step_moves:
  "task_step t t' \<Longrightarrow> t_id t' = t_id t \<and> task_path t t'" "subtask_step x x' \<Longrightarrow> st_id x' = st_id x \<and> subtask_path x x'"
  "workflow_step w w' \<Longrightarrow> w_id w' = w_id w \<and> workflow_path w w'"
  using step_keeps_task step_keeps_subtask step_keeps_workflow path_step by blast+

lemma advances_tasks:
  assumes "\<And>x. x \<in> set (tasks s) \<Longrightarrow> p x \<Longrightarrow> task_step x (f x)" "workflows t = workflows s" "subtasks t = subtasks s"
    "tasks t = update_where p f (tasks s)"
  shows "advances s t"
  by (rule advances_rows) (simp_all add: assms moves_same moves_update step_moves)

lemma advances_subtasks:
  assumes "\<And>x. x \<in> set (subtasks s) \<Longrightarrow> p x \<Longrightarrow> subtask_step x (f x)" "workflows t = workflows s" "tasks t = tasks s"
    "subtasks t = update_where p f (subtasks s)"
  shows "advances s t"
  by (rule advances_rows) (simp_all add: assms moves_same moves_update step_moves)

lemma advances_workflows:
  assumes "\<And>x. x \<in> set (workflows s) \<Longrightarrow> p x \<Longrightarrow> workflow_step x (f x)" "tasks t = tasks s" "subtasks t = subtasks s"
    "workflows t = update_where p f (workflows s)"
  shows "advances s t"
  by (rule advances_rows) (simp_all add: assms moves_same moves_update step_moves)

section \<open>Updates that keep the constraints\<close>

lemma run_violation_None:
  "run_violation rs = None \<longleftrightarrow> distinct (map r_id rs) \<and>
     distinct (map r_source_interaction_id (filter (\<lambda>r. r_source_interaction_id r \<noteq> [] \<and> active_run_status (r_status r)) rs)) \<and>
     distinct (map r_context_id (filter (\<lambda>r. r_task_id r \<noteq> [] \<and> active_run_status (r_status r)) rs)) \<and>
     distinct (map r_robot_id (filter run_on_robot rs)) \<and> distinct (map r_workflow_id (filter terminal_summary_run rs))"
  by (auto simp: run_violation_def)

lemma map_update_where:
  "(\<And>x. x \<in> set rows \<Longrightarrow> p x \<Longrightarrow> f (g x) = f x) \<Longrightarrow> map f (update_where p g rows) = map f rows"
  by (auto simp: update_where_def)

text \<open>A step of a Task that leaves its robot alone.\<close>

definition quiet_task_step :: "task \<Rightarrow> task \<Rightarrow> bool" where
  "quiet_task_step t t' \<longleftrightarrow> task_step t t' \<and> t_assigned_robot_id t' = t_assigned_robot_id t"

lemma open_not_terminal: "open_work_status st \<longleftrightarrow> \<not> terminal_work_status st"
  by (cases st) (auto simp: terminal_work_status_def open_work_status_def)

lemma step_was_open:
  "task_step t t' \<Longrightarrow> open_work_status (t_status t)" "workflow_step w w' \<Longrightarrow> open_work_status (w_status w)"
  by (simp_all add: open_not_terminal step_keeps_task step_keeps_workflow)

lemma task_violation_update:
  assumes "task_violation ts = None" "\<And>x. x \<in> set ts \<Longrightarrow> p x \<Longrightarrow> quiet_task_step x (f x)"
  shows "task_violation (update_where p f ts) = None"
proof -
  have keep: "t_id (f x) = t_id x \<and> t_workflow_id (f x) = t_workflow_id x \<and> t_position (f x) = t_position x \<and>
      t_context_id (f x) = t_context_id x" if "x \<in> set ts" "p x" for x
    using assms(2)[OF that] step_keeps_task unfolding quiet_task_step_def by blast
  have bound: "robot_bound x \<and> t_assigned_robot_id (f x) = t_assigned_robot_id x"
    if "x \<in> set ts" "p x" "robot_bound (f x)" for x
    using assms(2)[OF that(1,2)] that(3) step_was_open(1) unfolding quiet_task_step_def robot_bound_def by metis
  show ?thesis
    using assms(1) keep bound unfolding violation_None by (simp add: map_update_where distinct_update_where)
qed

lemma subtask_violation_update:
  assumes "subtask_violation xs = None" "\<And>x. x \<in> set xs \<Longrightarrow> p x \<Longrightarrow> subtask_step x (f x)"
  shows "subtask_violation (update_where p f xs) = None"
proof -
  have keep: "st_id (f x) = st_id x \<and> st_task_id (f x) = st_task_id x \<and> st_position (f x) = st_position x \<and>
      st_kind (f x) = st_kind x" if "x \<in> set xs" "p x" for x
    using assms(2)[OF that] step_keeps_subtask by blast
  show ?thesis
    using assms(1) keep unfolding violation_None by (auto simp: map_update_where set_update_where)
qed

lemma workflow_violation_update:
  assumes "workflow_violation ws = None" "\<And>x. x \<in> set ws \<Longrightarrow> p x \<Longrightarrow> workflow_step x (f x)"
  shows "workflow_violation (update_where p f ws) = None"
proof -
  have keep: "w_id (f x) = w_id x \<and> w_project_id (f x) = w_project_id x \<and>
      w_source_interaction_id (f x) = w_source_interaction_id x \<and> open_work_status (w_status x)"
    if "x \<in> set ws" "p x" for x
    using assms(2)[OF that] step_keeps_workflow step_was_open(2) by blast
  show ?thesis
    using assms(1) keep unfolding violation_None by (simp add: map_update_where distinct_update_where)
qed

section \<open>Statements that are lawful\<close>

lemma lawfulI:
  "(constraints_hold s \<Longrightarrow> constraints_hold t) \<Longrightarrow> (constraints_hold s \<Longrightarrow> advances s t) \<Longrightarrow> lawful s t"
  by (simp add: lawful_def)

lemma lawful_update_tasks:
  assumes "\<And>x. p x \<Longrightarrow> quiet_task_step x (f x)"
  shows "keeps lawful (update_tasks p f)"
proof (rule keepsI, rule lawfulI)
  fix s assume "constraints_hold s"
  then show "constraints_hold (snd (update_tasks p f s))"
    using assms by (auto simp: update_tasks_def updating_run constraints_hold_def intro!: task_violation_update)
  show "advances s (snd (update_tasks p f s))"
    using assms by (auto simp: update_tasks_def updating_run quiet_task_step_def intro!: advances_tasks[of s p f])
qed

lemma lawful_update_subtasks:
  assumes "\<And>x. p x \<Longrightarrow> subtask_step x (f x)"
  shows "keeps lawful (update_subtasks p f)"
proof (rule keepsI, rule lawfulI)
  fix s assume "constraints_hold s"
  then show "constraints_hold (snd (update_subtasks p f s))"
    using assms by (auto simp: update_subtasks_def updating_run constraints_hold_def intro!: subtask_violation_update)
  show "advances s (snd (update_subtasks p f s))"
    using assms by (auto simp: update_subtasks_def updating_run intro!: advances_subtasks[of s p f])
qed

text \<open>Statements on the other tables only have to keep the constraints.\<close>

lemma lawful_aside:
  assumes "\<And>s. workflows (snd (m s)) = workflows s \<and> tasks (snd (m s)) = tasks s \<and> subtasks (snd (m s)) = subtasks s"
    and "\<And>s. constraints_hold s \<Longrightarrow> constraints_hold (snd (m s))"
  shows "keeps lawful m"
  using assms by (intro keepsI lawfulI) (auto intro!: advances_same_rows)

lemma lawful_checked_aside:
  "keeps lawful (exec_task_deps f)" "keeps lawful (exec_subtask_deps g)" "keeps lawful (exec_revisions h)"
  "keeps lawful (exec_proposals k)" "keeps lawful (exec_submissions l)" "keeps lawful (exec_runs r)"
  by (rule lawful_aside; simp add: exec_defs checked_def constraints_hold_def split: option.splits)+

lemma lawful_insert_subtask_row: "keeps lawful (exec_subtasks (append_row r))"
  by (intro keepsI lawfulI advances_rows)
    (auto simp: exec_subtasks_def checked_def append_row_def constraints_hold_def
      intro!: moves_same moves_append split: option.splits)

lemma lawful_bind_tasks:
  assumes "\<And>t. p t \<Longrightarrow> t_status t = WSPending"
  shows "keeps lawful (exec_tasks (update_where p (bind_task agent robot now)))"
proof (rule keepsI, rule lawfulI)
  fix s assume "constraints_hold s"
  then show "constraints_hold (snd (exec_tasks (update_where p (bind_task agent robot now)) s))"
    by (simp add: exec_tasks_def checked_def constraints_hold_def split: option.splits)
  have "advances s (s\<lparr>tasks := update_where p (bind_task agent robot now) (tasks s)\<rparr>)"
    by (rule advances_tasks) (auto intro!: task_bind assms)
  then show "advances s (snd (exec_tasks (update_where p (bind_task agent robot now)) s))"
    by (simp add: exec_tasks_def checked_def advances_refl split: option.splits)
qed

lemma lawful_update_proposals:
  assumes "\<And>p. pp_id (f p) = pp_id p \<and> pp_project_id (f p) = pp_project_id p"
    and "\<And>p. P p \<Longrightarrow> pp_status p = PReady"
  shows "keeps lawful (update_proposals P f)"
  by (rule lawful_aside)
    (auto simp: update_proposals_def updating_run constraints_hold_def violation_None map_update_where assms
      intro!: distinct_update_where)

lemma lawful_finish_runs:
  assumes "terminal_run_status status"
  shows "keeps lawful (update_runs p (\<lambda>r. (bump_run now r)\<lparr>r_status := status, r_error := e, r_ended_at := t\<rparr>))"
proof (rule lawful_aside)
  fix s
  let ?f = "\<lambda>r. (bump_run now r)\<lparr>r_status := status, r_error := e, r_ended_at := t\<rparr>"
  have ended: "\<not> active_run_status status" using assms by (cases status) (auto simp: terminal_run_status_def active_run_status_def)
  have keep: "r_id (?f r) = r_id r" "r_workflow_id (?f r) = r_workflow_id r"
    "terminal_summary_run (?f r) = terminal_summary_run r" "\<not> run_on_robot (?f r)" "r_status (?f r) = status" for r
    by (simp_all add: bump_run_def terminal_summary_run_def run_on_robot_def ended)
  assume con: "constraints_hold s"
  then have old: "run_violation (runs s) = None" by (simp add: constraints_hold_def)
  have "distinct (map r_id (update_where p ?f (runs s)))"
    using old by (simp add: run_violation_None map_update_where keep)
  moreover have "distinct (map r_source_interaction_id (filter (\<lambda>r. r_source_interaction_id r \<noteq> [] \<and>
      active_run_status (r_status r)) (update_where p ?f (runs s))))"
    "distinct (map r_context_id (filter (\<lambda>r. r_task_id r \<noteq> [] \<and> active_run_status (r_status r)) (update_where p ?f (runs s))))"
    "distinct (map r_robot_id (filter run_on_robot (update_where p ?f (runs s))))"
    "distinct (map r_workflow_id (filter terminal_summary_run (update_where p ?f (runs s))))"
    using old by (auto simp: run_violation_None keep ended intro!: distinct_update_where)
  ultimately have "run_violation (update_where p ?f (runs s)) = None" by (simp add: run_violation_None)
  then show "constraints_hold (snd (update_runs p ?f s))"
    using con by (simp add: update_runs_def updating_run constraints_hold_def)
qed (simp add: update_runs_def updating_run)

lemma lawful_queries:
  "keeps lawful (select_row q e)" "keeps lawful (select_rows k)"
  by (rule keeps_select_row keeps_select_rows law.frame_relation_axioms)+

lemma lawful_wrapping: "keeps lawful m \<Longrightarrow> keeps lawful (wrapping w m)"
  by (rule keeps_wrapping) (rule law.db_relation_axioms)

lemma lawful_same: "keeps same_tables m \<Longrightarrow> keeps lawful m"
proof (rule keepsI)
  fix s
  assume "keeps same_tables m"
  then have "same_tables s (snd (m s))" by (rule keepsD)
  then show "lawful s (snd (m s))"
    by (auto simp: lawful_def constraints_same_tables same_tables_proj intro!: advances_same_rows)
qed

lemmas lawful_rules =
  law.db_keeps_rules lawful_queries lawful_wrapping lawful_checked_aside lawful_insert_subtask_row

section \<open>The operations\<close>

lemma one_row: "distinct (map key rows) \<Longrightarrow> find_by key i rows = Some r \<Longrightarrow> x \<in> set rows \<Longrightarrow> key x = i \<Longrightarrow> x = r"
  by (simp add: find_by_iff inj_on_def distinct_map)

lemma lawful_transition_task: "keeps lawful (transition_task i n to reason summary evidence now)"
proof (rule keepsI, cases rule: disjE)
  fix s
  let ?m = "move_task to reason summary evidence now" and ?r = "transition_task i n to reason summary evidence now s"
  show "snd ?r = s \<or> (\<exists>t0. find_by t_id i (tasks s) = Some t0 \<and> allowed_task_transition (t_status t0) to \<and>
      snd ?r = s\<lparr>tasks := update_where (task_at i n) ?m (tasks s)\<rparr>)"
    by (auto simp: transition_task_eq split: option.splits)
  show "lawful s (snd ?r)" if "snd ?r = s" using that by (simp add: law.frame_refl)
  show "lawful s (snd ?r)" if moved: "\<exists>t0. find_by t_id i (tasks s) = Some t0 \<and> allowed_task_transition (t_status t0) to \<and>
      snd ?r = s\<lparr>tasks := update_where (task_at i n) ?m (tasks s)\<rparr>"
  proof (rule lawfulI)
    assume con: "constraints_hold s"
    then have "distinct (map t_id (tasks s))" by (simp add: constraints_hold_def violation_None)
    with moved have step: "quiet_task_step x (?m x)" if "x \<in> set (tasks s)" "task_at i n x" for x
      using that one_row[of t_id "tasks s" i _ x] by (auto simp: quiet_task_step_def task_at_def intro!: task_move)
    from moved con step show "constraints_hold (snd ?r)"
      by (auto simp: constraints_hold_def intro!: task_violation_update)
    from moved step show "advances s (snd ?r)"
      by (auto simp: quiet_task_step_def intro!: advances_tasks[of s "task_at i n" ?m])
  qed
qed

lemma lawful_transition_subtask: "keeps lawful (transition_subtask i n to reason result now)"
proof (rule keepsI, cases rule: disjE)
  fix s
  let ?m = "move_subtask to reason result now" and ?r = "transition_subtask i n to reason result now s"
  show "snd ?r = s \<or> (\<exists>x0. find_by st_id i (subtasks s) = Some x0 \<and> allowed_task_transition (st_status x0) to \<and>
      snd ?r = s\<lparr>subtasks := update_where (subtask_at i n) ?m (subtasks s)\<rparr>)"
    by (auto simp: transition_subtask_eq split: option.splits)
  show "lawful s (snd ?r)" if "snd ?r = s" using that by (simp add: law.frame_refl)
  show "lawful s (snd ?r)" if moved: "\<exists>x0. find_by st_id i (subtasks s) = Some x0 \<and> allowed_task_transition (st_status x0) to \<and>
      snd ?r = s\<lparr>subtasks := update_where (subtask_at i n) ?m (subtasks s)\<rparr>"
  proof (rule lawfulI)
    assume con: "constraints_hold s"
    then have "distinct (map st_id (subtasks s))" by (simp add: constraints_hold_def violation_None)
    with moved have step: "subtask_step x (?m x)" if "x \<in> set (subtasks s)" "subtask_at i n x" for x
      using that one_row[of st_id "subtasks s" i _ x] by (auto simp: subtask_at_def intro!: subtask_move)
    from moved con step show "constraints_hold (snd ?r)"
      by (auto simp: constraints_hold_def intro!: subtask_violation_update)
    from moved step show "advances s (snd ?r)"
      by (auto intro!: advances_subtasks[of s "subtask_at i n" ?m])
  qed
qed

text \<open>The tables a Workflow transition does not touch, and its appended snapshot.\<close>

definition plans_kept :: "db \<Rightarrow> db \<Rightarrow> bool" where
  "plans_kept s t \<longleftrightarrow> plan_proposals t = plan_proposals s \<and> plan_submissions t = plan_submissions s \<and>
     (revision_violation (workflow_revisions s) = None \<longrightarrow> revision_violation (workflow_revisions t) = None)"

interpretation plans: db_relation plans_kept
  by unfold_locales (auto simp: plans_kept_def)

lemma plans_kept_transition: "keeps plans_kept (transition_workflow_tx i n to reason now)"
  unfolding transition_workflow_tx_def get_workflow_def leave_running_mode_def save_workflow_revision_def
    get_workflow_view_query_def list_tasks_def list_subtasks_def exec_revisions_def
  by (intro plans.db_keeps_rules keeps_select_row keeps_select_rows plans.frame_relation_axioms plans.keeps_checked)
    (auto simp: keeps_def plans_kept_def update_workflows_def update_projects_def updating_run)

lemma lawful_transition_workflow: "keeps lawful (transition_workflow_with_reason i n to reason now)"
proof (rule keepsI)
  fix s
  obtain r t where run: "transition_workflow_with_reason i n to reason now s = (r, t)" by fastforce
  show "lawful s (snd (transition_workflow_with_reason i n to reason now s))"
  proof (cases r)
    case (Inl e)
    then show ?thesis
      using run transition_workflow_Inl[of i n to reason now s e t]
      by (auto simp: lawful_def constraints_same_tables same_tables_proj intro!: advances_same_rows)
  next
    case (Inr w)
    then have tx: "transition_workflow_tx i n to reason now s = (Inr (), t)"
      using run by (auto simp: transition_workflow_with_reason_def go_Inr_iff get_workflow_def)
    from transition_workflow_tx_Inr[OF tx] obtain w0 confirmed where
      w0: "find_by w_id i (workflows s) = Some w0" "allowed_workflow_transition (w_status w0) to"
      and t: "workflows t = update_where (workflow_at i n) (move_workflow to reason confirmed now) (workflows s)"
        "tasks t = tasks s" "subtasks t = subtasks s" "task_deps t = task_deps s" "subtask_deps t = subtask_deps s"
        "runs t = runs s" "executions t = executions s"
      by auto
    have "lawful s t"
    proof (rule lawfulI)
      assume con: "constraints_hold s"
      then have "distinct (map w_id (workflows s))" by (simp add: constraints_hold_def violation_None)
      with w0 have step: "workflow_step x (move_workflow to reason confirmed now x)"
        if "x \<in> set (workflows s)" "workflow_at i n x" for x
        using that one_row[of w_id "workflows s" i _ x] by (auto simp: workflow_at_def intro!: workflow_move)
      have "plans_kept s t" using plans_kept_transition tx by (rule keeps_run)
      then show "constraints_hold t"
        using con t step by (auto simp: constraints_hold_def plans_kept_def intro!: workflow_violation_update)
      show "advances s t"
        by (rule advances_workflows[OF _ t(2,3,1)]) (rule step)
    qed
    then show ?thesis by (simp add: run)
  qed
qed

lemma quiet_steps:
  "t_status t = WSPending \<Longrightarrow> quiet_task_step t (bump_task now t\<lparr>t_waiting_reason := reason\<rparr>)"
  "t_status t = WSPending \<Longrightarrow> quiet_task_step t (bump_task now t)"
  "t_status t = WSPaused \<Longrightarrow>
    quiet_task_step t (bump_task now t\<lparr>t_status := WSPending, t_waiting_reason := ''planning_subtasks''\<rparr>)"
  "t_status t = WSPaused \<Longrightarrow> quiet_task_step t (bump_task now t\<lparr>t_waiting_reason := reason\<rparr>)"
  "t_status t = WSPaused \<Longrightarrow> quiet_task_step t ((bump_task now t)\<lparr>t_status := WSRunning, t_waiting_reason := []\<rparr>)"
  by (simp_all add: quiet_task_step_def bump_task_def task_step.intros[unfolded bump_task_def])

lemma lawful_task_ops:
  "keeps lawful (set_pending_task_reason i n reason now)" "keeps lawful (resume_paused_task_planning i n now)"
  unfolding set_pending_task_reason_def resume_paused_task_planning_def get_task_def
  by (intro lawful_rules lawful_update_tasks quiet_steps; simp)+

lemma lawful_reserve_robot: "keeps lawful (reserve_robot robot i)"
  unfolding reserve_robot_def robot_reservation_def robot_execution_reservation_def robot_physical_reservation_def
  by (intro lawful_rules)

lemma lawful_bind: "(\<And>t. p t \<Longrightarrow> t_status t = WSPending) \<Longrightarrow> keeps lawful (bind_tasks p agent robot now)"
  unfolding bind_tasks_def by (intro lawful_rules lawful_bind_tasks) auto

lemma lawful_assignments:
  "keeps lawful (assign_task i n agent robot now)" "keeps lawful (reassign_pending_task i n agent robot now)"
  unfolding assign_task_def reassign_pending_task_def reassign_pending_task_tx_def get_task_def
  by (intro lawful_rules lawful_reserve_robot lawful_bind; simp)+

lemma lawful_update_wait_reason: "keeps lawful (update_paused_robot_wait_reason i n j m from to now)"
  unfolding update_paused_robot_wait_reason_def update_paused_robot_wait_reason_tx_def get_task_def get_subtask_def
  by (intro lawful_rules lawful_update_tasks lawful_update_subtasks quiet_steps subtask_rewait; simp)

lemma lawful_subtask_ops:
  "keeps lawful (resume_paused_agent_step i n now)" "keeps lawful (attach_subtask_execution i n x now)"
  unfolding resume_paused_agent_step_def attach_subtask_execution_def get_subtask_def
  by (intro lawful_rules lawful_update_subtasks subtask_resume subtask_attach; simp)+

lemma lawful_insert_subtask: "keeps lawful (insert_subtask wrap task_id ids now pd)"
  unfolding insert_subtask_def insert_subtask_dep_def by (cases pd) (auto intro!: lawful_rules)

lemma lawful_plans:
  "keeps lawful (set_task_subtasks i n items now)" "keeps lawful (apply_failed_robot_recovery i n j items now)"
  unfolding set_task_subtasks_def set_task_subtasks_tx_def apply_failed_robot_recovery_def
    apply_failed_robot_recovery_tx_def fail_replaced_def stop_remaining_def get_task_def list_subtasks_def
    scan_task_def scan_subtask_def
  by (intro lawful_rules lawful_insert_subtask lawful_same[OF keeps_validate_subtask_drafts]
      lawful_same[OF keeps_allocate(3)] lawful_update_tasks lawful_update_subtasks quiet_steps
      subtask_replaced subtask_revised; simp)+

lemma lawful_runs:
  "keeps lawful (create_run_session r now)" "keeps lawful (transition_run_status i rs st now)"
  "keeps lawful (finish_run_session i rs st note now)"
  unfolding create_run_session_def run_project_def check_run_task_def transition_run_status_def
    update_runs_checked_def after_run_update_def finish_run_session_def get_run_session_def get_task_def
    get_workflow_def get_chat_session_def
  by (intro lawful_rules lawful_finish_runs; simp)+

lemma lawful_continuation: "keeps lawful (start_task_continuation i n r retry now)"
  unfolding start_task_continuation_def start_task_continuation_tx_def check_continuation_interaction_def
    existing_continuation_def reserve_continuation_def get_task_def scan_workflow_def get_run_session_def
  by (intro lawful_rules lawful_update_tasks quiet_steps; simp)

lemma lawful_logs: "keeps lawful (append_chat_message msg)" "keeps lawful (append_robot_execution_event ev)"
  by (rule lawful_aside; simp add: append_chat_message_def append_robot_execution_event_def run_writing
      run_reading constraints_hold_def split: option.splits)+

lemma lawful_proposals:
  "keeps lawful (submit_plan_proposal_for_run run p c d summary scope doc now)"
  "keeps lawful (discard_plan_proposal i n now)"
  unfolding submit_plan_proposal_for_run_def submit_plan_tx_def submit_new_plan_def revise_proposal_def
    create_proposal_def discard_plan_proposal_def check_conversation_def get_project_def check_active_project_def
    get_plan_proposal_def scan_plan_proposal_def get_chat_session_def
  by (intro lawful_rules lawful_update_proposals lawful_same[OF keeps_validate_draft]; simp)+

section \<open>Approval\<close>

text \<open>Every statement of the approval keeps the constraints; only what it deletes needs a look.\<close>

definition guarded :: "db \<Rightarrow> db \<Rightarrow> bool" where
  "guarded s t \<longleftrightarrow> (constraints_hold s \<longrightarrow> constraints_hold t)"

interpretation guard: db_relation guarded
  by unfold_locales (auto simp: guarded_def constraints_hold_def)

lemma distinct_filtered:
  "distinct (map f xs) \<Longrightarrow> distinct (map f (filter P xs))"
  "distinct (map f (filter Q xs)) \<Longrightarrow> distinct (map f (filter (\<lambda>x. P x \<and> Q x) xs))"
  by (induction xs) (auto split: if_splits)

lemma guarded_writes:
  "keeps guarded (exec_tasks f)" "keeps guarded (exec_subtasks g)" "keeps guarded (exec_task_deps h)"
  "keeps guarded (exec_subtask_deps k)" "keeps guarded (exec_workflows l)" "keeps guarded (exec_revisions r)"
  by (rule keepsI; simp add: guarded_def exec_defs checked_def constraints_hold_def split: option.splits)+

lemma guarded_delete_plan: "keeps guarded (writing (delete_plan wid))"
proof (rule guard.keeps_writing)
  fix s
  show "guarded s (delete_plan wid s)"
    by (auto simp: guarded_def constraints_hold_def delete_plan_def Let_def violation_None task_dep_violation_def
        subtask_dep_violation_def distinct_filtered split: if_splits)
qed

lemma guarded_lawful: "keeps lawful m \<Longrightarrow> keeps guarded m"
  by (auto simp: keeps_def guarded_def lawful_def)

lemmas guarded_rules =
  guard.db_keeps_rules guarded_writes guarded_delete_plan keeps_wrapping[OF guard.db_relation_axioms]
  guarded_lawful[OF lawful_queries(1)] guarded_lawful[OF lawful_queries(2)]

lemma guarded_replace_plan: "keeps guarded (replace_plan_tx wid d now)"
proof -
  have "keeps guarded (insert_task wid ids now pd)" for ids pd
    unfolding insert_task_def
    by (cases pd) (auto intro!: guarded_rules guarded_lawful[OF lawful_insert_subtask]
        guarded_lawful[OF lawful_same[OF keeps_allocate(3)]])
  then show ?thesis
    unfolding replace_plan_tx_def insert_task_dep_def
    by (intro guarded_rules guarded_lawful[OF lawful_same[OF keeps_allocate(1)]])
qed

lemma guarded_update_projects: "keeps guarded (update_projects p f)"
  by (rule keepsI) (simp add: guarded_def update_projects_def updating_run constraints_hold_def)

lemma guarded_save_revision: "keeps guarded (save_workflow_revision i n now)"
  unfolding save_workflow_revision_def get_workflow_view_query_def list_tasks_def list_subtasks_def get_workflow_def
  by (intro guarded_rules)

lemma guarded_unmarshal: "keeps guarded (unmarshal_plan r)"
  unfolding unmarshal_plan_def by (cases r) (auto intro!: guarded_rules)

lemma guarded_approve: "keeps guarded (approve_plan_proposal_tx i n now)"
  unfolding approve_plan_proposal_tx_def insert_approved_def enter_running_mode_def get_plan_proposal_def
    scan_project_def check_active_project_def
  by (intro guarded_rules guarded_replace_plan guarded_update_projects guarded_save_revision guarded_unmarshal
      guarded_lawful[OF lawful_same[OF keeps_validate_draft]] guarded_lawful[OF lawful_update_proposals]; simp)

text \<open>Inserting a plan only appends SubTasks.\<close>

definition subtasks_grow :: "db \<Rightarrow> db \<Rightarrow> bool" where
  "subtasks_grow s t \<longleftrightarrow> (\<exists>zs. subtasks t = subtasks s @ zs)"

interpretation grow: db_relation subtasks_grow
  by unfold_locales (auto simp: subtasks_grow_def)

lemma grow_writes:
  "keeps subtasks_grow (exec_tasks f)" "keeps subtasks_grow (exec_subtasks (append_row r))"
  "keeps subtasks_grow (exec_task_deps h)" "keeps subtasks_grow (exec_subtask_deps k)"
  "keeps subtasks_grow (select_row q e)" "keeps subtasks_grow (select_rows l)"
  by (rule keepsI; simp add: subtasks_grow_def exec_defs checked_def append_row_def select_row_def split: option.splits)+

lemma grow_same: "keeps same_tables m \<Longrightarrow> keeps subtasks_grow m"
  unfolding keeps_def subtasks_grow_def by (metis append_Nil2 same_tables_proj(3))

lemmas grow_rules = grow.db_keeps_rules grow_writes keeps_wrapping[OF grow.db_relation_axioms]

lemma grow_insert_task: "keeps subtasks_grow (insert_task wid ids now pd)"
proof -
  have "keeps subtasks_grow (insert_subtask wrap task_id ids now x)" for wrap task_id ids x
    unfolding insert_subtask_def insert_subtask_dep_def by (cases x) (auto intro!: grow_rules)
  then show ?thesis
    unfolding insert_task_def by (cases pd) (auto intro!: grow_rules grow_same[OF keeps_allocate(3)])
qed

lemma replace_plan_subtasks:
  assumes "replace_plan_tx wid d now s = (Inr u, t)"
  shows "\<exists>zs. subtasks t = subtasks (delete_plan wid s) @ zs"
proof -
  have "keeps subtasks_grow (go (collect allocate_task_id (wdr_tasks d)) (\<lambda>task_ids.
     go (for_each (insert_task wid task_ids now) (enumerate 0 (wdr_tasks d))) (\<lambda>_.
     for_each (insert_task_dep wid task_ids) (wdr_dependencies d))))"
    unfolding insert_task_dep_def by (intro grow_rules grow_insert_task grow_same[OF keeps_allocate(1)])
  moreover have "(go (collect allocate_task_id (wdr_tasks d)) (\<lambda>task_ids.
     go (for_each (insert_task wid task_ids now) (enumerate 0 (wdr_tasks d))) (\<lambda>_.
     for_each (insert_task_dep wid task_ids) (wdr_dependencies d)))) (delete_plan wid s) = (Inr u, t)"
    using assms by (simp add: replace_plan_tx_def go_Inr_iff[of "writing _"] run_writing)
  ultimately have "subtasks_grow (delete_plan wid s) t" by (rule keeps_run)
  then show ?thesis by (simp add: subtasks_grow_def)
qed

lemma approve_advances:
  assumes con: "constraints_hold s" and run: "approve_plan_proposal_tx i n now s = (Inr wid, t)"
  shows "advances s t"
proof -
  from approve_tx_Inr[OF run] obtain p d s1 s4 where
    val: "\<exists>d0. validate_draft d0 s = (Inr d, s1)"
    and ws: "workflows t = workflows s @ [approved_workflow wid p d now]" "workflow_violation (workflows t) = None"
    and repl: "replace_plan_tx wid d now (s1\<lparr>uuids_drawn := uuids_drawn s1 + 1,
       workflows := workflows s @ [approved_workflow wid p d now]\<rparr>) = (Inr (), s4)"
    and t: "tasks t = tasks s4" "subtasks t = subtasks s4"
    by blast
  have same: "same_tables s s1" using val keeps_run[OF keeps_validate_draft] by blast
  from replace_plan_Inr[OF repl] obtain new where
    ts: "tasks t = filter (\<lambda>t. t_workflow_id t \<noteq> wid) (tasks s) @ new"
    by (auto simp: t same_tables_proj[OF same])
  define own where "own i = (\<exists>t \<in> set (tasks s). t_id t = i \<and> t_workflow_id t = wid)" for i
  from replace_plan_subtasks[OF repl] obtain zs where
    xs: "subtasks t = filter (\<lambda>x. \<not> own (st_task_id x)) (subtasks s) @ zs"
    by (auto simp: t delete_plan_def Let_def own_def same_tables_proj[OF same])
  have "wid \<notin> w_id ` set (workflows s)"
    using ws(2) by (simp add: ws(1) violation_None approved_workflow_def)
  then have fresh: "find_by w_id wid (workflows s) = None" by (simp add: find_by_None)
  have found: "find_by w_id i (workflows t) \<noteq> None" if "find_by w_id i (workflows s) \<noteq> None" for i
    using that by (auto simp: ws(1) find_by_append split: option.splits)
  have task: "live_task i x t" if "live_task i x s" for i x
  proof -
    from that have x: "find_by t_id i (tasks s) = Some x" "find_by w_id (t_workflow_id x) (workflows s) \<noteq> None"
      by (auto simp: live_task_def)
    with fresh have "t_workflow_id x \<noteq> wid" by auto
    with x(1) have "find_by t_id i (tasks t) = Some x"
      unfolding ts find_by_append by (subst find_by_filter) auto
    with x(2) found show ?thesis by (simp add: live_task_def)
  qed
  have subtask: "live_subtask i x t" if live: "live_subtask i x s" for i x
  proof -
    from live obtain u where x: "find_by st_id i (subtasks s) = Some x" and u: "live_task (st_task_id x) u s"
      by (auto simp: live_subtask_def)
    have "\<not> own (st_task_id x)"
      using u con fresh one_row[of t_id "tasks s" "st_task_id x" u]
      by (auto simp: own_def live_task_def constraints_hold_def violation_None)
    with x have "find_by st_id i (subtasks t) = Some x"
      unfolding xs find_by_append by (subst find_by_filter) auto
    with task[OF u] show ?thesis by (auto simp: live_subtask_def)
  qed
  have "find_by w_id i (workflows t) = Some w" if "find_by w_id i (workflows s) = Some w" for i w
    using that by (simp add: ws(1) find_by_append)
  with task subtask show ?thesis
    unfolding advances_def by (meson path_refl)
qed

lemma lawful_approve: "keeps lawful (approve_plan_proposal i n now)"
proof -
  have "keeps lawful (tx (approve_plan_proposal_tx i n now))"
  proof (rule keepsI)
    fix s
    obtain r t where run: "approve_plan_proposal_tx i n now s = (r, t)" by fastforce
    show "lawful s (snd (tx (approve_plan_proposal_tx i n now) s))"
    proof (cases r)
      case (Inl e)
      then show ?thesis using run by (simp add: run_tx law.uuid_step)
    next
      case (Inr wid)
      have "guarded s t" using guarded_approve run by (rule keeps_run)
      then show ?thesis
        using approve_advances[of s i n now wid t] run Inr by (simp add: run_tx lawful_def guarded_def)
    qed
  qed
  moreover have "keeps lawful (get_workflow_view wid)" for wid
    unfolding get_workflow_view_def get_workflow_view_query_def get_workflow_def list_tasks_def list_subtasks_def
    by (intro lawful_rules)
  ultimately show ?thesis
    unfolding approve_plan_proposal_def by (intro law.keeps_go)
qed

interpretation lawful_store: store_client lawful
  by unfold_locales
    (rule lawful_transition_workflow lawful_proposals lawful_approve lawful_transition_task lawful_task_ops
      lawful_assignments lawful_plans lawful_update_wait_reason lawful_transition_subtask lawful_subtask_ops
      lawful_runs lawful_continuation lawful_logs)+

end
