(* ===== verification/StoreLogs.thy ===== *)
theory StoreLogs
  imports StoreLaws "HOL-Library.Sublist"
begin

text \<open>
  More providers of \<open>store_client\<close>.  \<open>table_relation\<close> states what a relation must allow of the
  single tables that the Workflow service writes; every such relation is a \<open>store_client\<close>.  Two are
  used: the logs only grow (no operation ever changes or removes a Workflow revision snapshot, a
  Conversation message, a plan submission or an Execution event, none removes an Execution or gives
  it another Project, robot or request key), and the Executions stay exactly as they are.
\<close>

section \<open>Relations on single tables\<close>

locale table_relation = db_relation R for R :: "db \<Rightarrow> db \<Rightarrow> bool" +
  assumes keeps_updates:
      "keeps R (update_workflows p1 f1)" "keeps R (update_tasks p2 f2)" "keeps R (update_subtasks p3 f3)"
      "keeps R (update_projects p4 f4)" "keeps R (update_runs p5 f5)" "keeps R (update_proposals p6 f6)"
    and keeps_checked:
      "keeps R (exec_tasks g1)" "keeps R (exec_subtasks g2)" "keeps R (exec_task_deps g3)"
      "keeps R (exec_subtask_deps g4)" "keeps R (exec_workflows g5)" "keeps R (exec_proposals g6)"
      "keeps R (exec_runs g7)" "keeps R (exec_revisions (append_row r))" "keeps R (exec_submissions (append_row x))"
    and keeps_delete_plan: "keeps R (writing (delete_plan i))"
    and keeps_appends: "keeps R (append_chat_message msg)" "keeps R (append_robot_execution_event ev)"
begin

lemma table_same: "keeps same_tables m \<Longrightarrow> keeps R m"
proof (rule keepsI)
  fix s
  assume "keeps same_tables m"
  then obtain n where "snd (m s) = s\<lparr>uuids_drawn := n\<rparr>" by (auto simp: keeps_def same_tables_def)
  then show "R s (snd (m s))" by (simp add: uuid_step)
qed

lemma table_queries: "keeps R (select_row q e)" "keeps R (select_rows k)"
  by (rule keeps_select_row keeps_select_rows frame_relation_axioms)+

lemma table_wrapping: "keeps R m \<Longrightarrow> keeps R (wrapping w m)"
  by (rule keeps_wrapping) (rule db_relation_axioms)

lemmas table_rules = db_keeps_rules table_queries table_wrapping keeps_updates keeps_checked keeps_delete_plan

lemma table_subtask_plan:
  "keeps R (insert_subtask wrap task_id ids now pd)" "keeps R (allocate_subtask_ids xs)"
  unfolding insert_subtask_def insert_subtask_dep_def
  by (cases pd) (auto intro!: table_rules table_same[OF keeps_allocate(3)])

lemma table_replace_plan: "keeps R (replace_plan_tx wid d now)"
proof -
  have "keeps R (insert_task wid ids now pd)" for ids pd
    unfolding insert_task_def by (cases pd) (auto intro!: table_rules table_subtask_plan)
  then show ?thesis
    unfolding replace_plan_tx_def insert_task_dep_def by (intro table_rules table_same[OF keeps_allocate(1)])
qed

lemma table_view: "keeps R (get_workflow_view i)" "keeps R (save_workflow_revision i n now)"
  unfolding get_workflow_view_def save_workflow_revision_def get_workflow_view_query_def get_workflow_def
    list_tasks_def list_subtasks_def
  by (intro table_rules)+

lemma table_unmarshal: "keeps R (unmarshal_plan r)"
  unfolding unmarshal_plan_def by (cases r) (auto intro!: table_rules)

lemma table_workflow_ops:
  "keeps R (transition_workflow_with_reason i n to reason now)"
  "keeps R (approve_plan_proposal i n now)"
  "keeps R (submit_plan_proposal_for_run run p c d summary scope doc now)"
  "keeps R (discard_plan_proposal i n now)"
  unfolding transition_workflow_with_reason_def transition_workflow_tx_def get_workflow_def leave_running_mode_def
    approve_plan_proposal_def approve_plan_proposal_tx_def insert_approved_def enter_running_mode_def
    get_plan_proposal_def scan_project_def check_active_project_def
    submit_plan_proposal_for_run_def submit_plan_tx_def submit_new_plan_def revise_proposal_def create_proposal_def
    discard_plan_proposal_def check_conversation_def get_project_def scan_plan_proposal_def get_chat_session_def
  by (intro table_rules table_view table_replace_plan table_unmarshal table_same[OF keeps_validate_draft])+

lemma table_task_ops:
  "keeps R (transition_task i n to reason text evidence now)"
  "keeps R (set_pending_task_reason i n reason now)"
  "keeps R (resume_paused_task_planning i n now)"
  "keeps R (assign_task i n agent robot now)"
  "keeps R (reassign_pending_task i n agent robot now)"
  "keeps R (set_task_subtasks i n items now)"
  "keeps R (apply_failed_robot_recovery i n j items now)"
  "keeps R (update_paused_robot_wait_reason i n j m from to' now)"
  unfolding transition_task_def set_pending_task_reason_def resume_paused_task_planning_def assign_task_def
    reassign_pending_task_def reassign_pending_task_tx_def bind_tasks_def reserve_robot_def robot_reservation_def
    robot_execution_reservation_def robot_physical_reservation_def set_task_subtasks_def set_task_subtasks_tx_def
    apply_failed_robot_recovery_def apply_failed_robot_recovery_tx_def fail_replaced_def stop_remaining_def
    update_paused_robot_wait_reason_def update_paused_robot_wait_reason_tx_def
    get_task_def get_subtask_def list_subtasks_def scan_task_def scan_subtask_def
  by (intro table_rules table_subtask_plan table_same[OF keeps_validate_subtask_drafts])+

lemma table_subtask_ops:
  "keeps R (transition_subtask i n to reason result now)"
  "keeps R (resume_paused_agent_step i n now)"
  "keeps R (attach_subtask_execution i n x now)"
  unfolding transition_subtask_def resume_paused_agent_step_def attach_subtask_execution_def get_subtask_def
  by (intro table_rules)+

lemma table_run_ops:
  "keeps R (create_run_session r now)"
  "keeps R (transition_run_status i rs st now)"
  "keeps R (finish_run_session i rs st text now)"
  "keeps R (start_task_continuation i n r retry now)"
  unfolding create_run_session_def run_project_def check_run_task_def transition_run_status_def
    update_runs_checked_def after_run_update_def finish_run_session_def get_run_session_def get_task_def
    get_workflow_def get_chat_session_def start_task_continuation_def start_task_continuation_tx_def
    check_continuation_interaction_def existing_continuation_def reserve_continuation_def scan_workflow_def
  by (intro table_rules)+

end

text \<open>Every relation on the tables gives the contract of the store.\<close>

sublocale table_relation \<subseteq> store_client R
  by unfold_locales (rule table_workflow_ops table_task_ops table_subtask_ops table_run_ops keeps_appends)+

section \<open>The logs grow\<close>

definition same_request :: "execution_row \<Rightarrow> execution_row \<Rightarrow> bool" where
  "same_request x y \<longleftrightarrow> xr_project_id y = xr_project_id x \<and> xr_robot_id y = xr_robot_id x \<and>
     xr_request_key y = xr_request_key x"

definition executions_kept :: "db \<Rightarrow> db \<Rightarrow> bool" where
  "executions_kept s t \<longleftrightarrow> (\<forall>i x. find_by xr_id i (executions s) = Some x \<longrightarrow>
     (\<exists>y. find_by xr_id i (executions t) = Some y \<and> same_request x y))"

lemma executions_kept_eq: "executions t = executions s \<Longrightarrow> executions_kept s t"
  by (auto simp: executions_kept_def same_request_def)

lemma executions_kept_trans: "executions_kept s t \<Longrightarrow> executions_kept t u \<Longrightarrow> executions_kept s u"
  unfolding executions_kept_def same_request_def by metis

definition logs_grow :: "db \<Rightarrow> db \<Rightarrow> bool" where
  "logs_grow s t \<longleftrightarrow> prefix (workflow_revisions s) (workflow_revisions t) \<and> prefix (chat_messages s) (chat_messages t) \<and>
     prefix (plan_submissions s) (plan_submissions t) \<and> prefix (execution_events s) (execution_events t) \<and>
     executions_kept s t"

interpretation logs: db_relation logs_grow
  by unfold_locales
    (auto simp: logs_grow_def executions_kept_eq intro: prefix_order.order_trans executions_kept_trans)

lemma logs_updates:
  "keeps logs_grow (update_workflows p1 f1)" "keeps logs_grow (update_tasks p2 f2)" "keeps logs_grow (update_subtasks p3 f3)"
  "keeps logs_grow (update_projects p4 f4)" "keeps logs_grow (update_runs p5 f5)" "keeps logs_grow (update_proposals p6 f6)"
  by (rule keepsI; simp add: updating_run logs_grow_def executions_kept_eq update_workflows_def update_tasks_def update_subtasks_def
      update_projects_def update_runs_def update_proposals_def)+

lemma logs_checked:
  "keeps logs_grow (exec_tasks f1)" "keeps logs_grow (exec_subtasks f2)" "keeps logs_grow (exec_task_deps f3)"
  "keeps logs_grow (exec_subtask_deps f4)" "keeps logs_grow (exec_workflows f5)" "keeps logs_grow (exec_proposals f6)"
  "keeps logs_grow (exec_runs f7)" "keeps logs_grow (exec_revisions (append_row r))" "keeps logs_grow (exec_submissions (append_row x))"
  by (rule keepsI; simp add: logs_grow_def executions_kept_eq exec_defs checked_def append_row_def split: option.splits)+

lemma logs_appends:
  "keeps logs_grow (writing (delete_plan i))" "keeps logs_grow (append_chat_message msg)"
  "keeps logs_grow (append_robot_execution_event ev)"
  by (rule keepsI; simp add: append_chat_message_def append_robot_execution_event_def run_writing run_reading
      logs_grow_def executions_kept_eq delete_plan_def Let_def split: option.splits)+

interpretation growing_store: table_relation logs_grow
  by unfold_locales (rule logs_updates logs_checked logs_appends)+

section \<open>The Executions stay\<close>

definition same_executions :: "db \<Rightarrow> db \<Rightarrow> bool" where
  "same_executions s t \<longleftrightarrow> executions t = executions s"

interpretation same_exec: db_relation same_executions
  by unfold_locales (simp_all add: same_executions_def)

lemma still_updates:
  "keeps same_executions (update_workflows p1 f1)" "keeps same_executions (update_tasks p2 f2)"
  "keeps same_executions (update_subtasks p3 f3)" "keeps same_executions (update_projects p4 f4)"
  "keeps same_executions (update_runs p5 f5)" "keeps same_executions (update_proposals p6 f6)"
  by (rule keepsI; simp add: updating_run same_executions_def update_workflows_def update_tasks_def update_subtasks_def
      update_projects_def update_runs_def update_proposals_def)+

lemma still_checked:
  "keeps same_executions (exec_tasks f1)" "keeps same_executions (exec_subtasks f2)" "keeps same_executions (exec_task_deps f3)"
  "keeps same_executions (exec_subtask_deps f4)" "keeps same_executions (exec_workflows f5)"
  "keeps same_executions (exec_proposals f6)" "keeps same_executions (exec_runs f7)"
  "keeps same_executions (exec_revisions (append_row r))" "keeps same_executions (exec_submissions (append_row x))"
  by (rule keepsI; simp add: same_executions_def exec_defs checked_def split: option.splits)+

lemma still_appends:
  "keeps same_executions (writing (delete_plan i))" "keeps same_executions (append_chat_message msg)"
  "keeps same_executions (append_robot_execution_event ev)"
  by (rule keepsI; simp add: append_chat_message_def append_robot_execution_event_def run_writing run_reading
      same_executions_def delete_plan_def Let_def split: option.splits)+

interpretation still_store: table_relation same_executions
  by unfold_locales (rule still_updates still_checked still_appends)+

end
