(* ===== verification/StoreFleet.thy ===== *)
theory StoreFleet
  imports StoreLogs
begin

text \<open>
  The rest of the fleet's tables: Skill packages, the Skills a Pilot reports (actual) and the
  Skills a user wants on a robot (desired), artifact uploads (\<open>internal/store/robot.go\<close>), join
  codes and credentials of Pilots (\<open>pilot_enrollment.go\<close>), Runtime instances and the leases of
  their ports (\<open>robot_runtime.go\<close>), and the owner of a robot (\<open>robot_admission.go\<close>).
\<close>

section \<open>Upserts\<close>

text \<open>\<open>INSERT ... ON CONFLICT(key) DO UPDATE SET\<close> every other column.\<close>

definition upsert :: "('r \<Rightarrow> 'k) \<Rightarrow> 'r \<Rightarrow> 'r list \<Rightarrow> 'r list" where
  "upsert key r rows =
     (if key r \<in> key ` set rows then update_where (\<lambda>x. key x = key r) (\<lambda>_. r) rows else rows @ [r])"

lemma find_by_replace:
  "find_by key k (update_where (\<lambda>x. key x = key r) (\<lambda>_. r) rows) =
     (if k \<noteq> key r then find_by key k rows else if key r \<in> key ` set rows then Some r else None)"
  by (induction rows) auto

lemma find_by_upsert: "find_by key k (upsert key r rows) = (if k = key r then Some r else find_by key k rows)"
proof (cases "key r \<in> key ` set rows")
  case True
  then show ?thesis by (simp add: upsert_def find_by_replace)
next
  case False
  then have "find_by key (key r) rows = None" by (simp add: find_by_None)
  with False show ?thesis by (cases "find_by key k rows") (auto simp: upsert_def find_by_append)
qed

lemma map_key_upsert:
  "map key (upsert key r rows) = (if key r \<in> key ` set rows then map key rows else map key rows @ [key r])"
  by (auto simp: upsert_def update_where_def)

lemma distinct_upsert: "distinct (map key rows) \<Longrightarrow> distinct (map key (upsert key r rows))"
  by (auto simp: map_key_upsert)

lemma set_upsert: "set (upsert key r rows) \<subseteq> insert r (set rows)"
  by (auto simp: upsert_def update_where_def)

section \<open>Skills and artifacts\<close>

definition save_robot_skill_package :: "robot_skill_package \<Rightarrow> (db, unit) prog" where
  "save_robot_skill_package p =
     writing (\<lambda>s. s\<lparr>skill_packages := upsert (\<lambda>x. (sp_name x, sp_version x)) p (skill_packages s)\<rparr>)"

definition get_robot_skill_package :: "string \<Rightarrow> string \<Rightarrow> (db, robot_skill_package) prog" where
  "get_robot_skill_package name version =
     select_row (\<lambda>s. find_by (\<lambda>x. (sp_name x, sp_version x)) (name, version) (skill_packages s)) ErrNotFound"

definition list_robot_skill_packages :: "(db, robot_skill_package list) prog" where
  "list_robot_skill_packages = select_rows (\<lambda>s. sort_key (\<lambda>x. (sp_name x, sp_version x)) (skill_packages s))"

definition delete_robot_skill_package :: "string \<Rightarrow> string \<Rightarrow> (db, unit) prog" where
  "delete_robot_skill_package name version = reading (\<lambda>s.
     let gone = (\<lambda>x. (sp_name x, sp_version x) = (name, version)) in
     go (writing (\<lambda>s. s\<lparr>skill_packages := filter (\<lambda>x. \<not> gone x) (skill_packages s)\<rparr>)) (\<lambda>_.
     if count_where gone (skill_packages s) = 0 then err ErrNotFound else ok ()))"

definition skill_key :: "robot_pilot_skill \<Rightarrow> string \<times> string \<times> string" where
  "skill_key x = (pk_pilot_instance_id x, pk_name x, pk_version x)"

definition save_robot_pilot_skill :: "robot_pilot_skill \<Rightarrow> (db, unit) prog" where
  "save_robot_pilot_skill x = writing (\<lambda>s. s\<lparr>pilot_skills := upsert skill_key x (pilot_skills s)\<rparr>)"

definition pilot_skill_violation :: "robot_pilot_skill list \<Rightarrow> string option" where
  "pilot_skill_violation xs = (if distinct (map skill_key xs) then None
     else Some ''robot_pilot_skills.pilot_instance_id, robot_pilot_skills.name, robot_pilot_skills.version'')"

definition exec_pilot_skills :: "(robot_pilot_skill list \<Rightarrow> robot_pilot_skill list) \<Rightarrow> (db, unit) prog" where
  "exec_pilot_skills = checked pilot_skill_violation pilot_skills (\<lambda>r s. s\<lparr>pilot_skills := r\<rparr>)"

definition replace_robot_pilot_skills :: "string \<Rightarrow> robot_pilot_skill list \<Rightarrow> (db, unit) prog" where
  "replace_robot_pilot_skills pilot items = tx (
     go (writing (\<lambda>s. s\<lparr>pilot_skills := filter (\<lambda>x. pk_pilot_instance_id x \<noteq> pilot) (pilot_skills s)\<rparr>)) (\<lambda>_.
     for_each (\<lambda>x. exec_pilot_skills (append_row (x\<lparr>pk_pilot_instance_id := pilot\<rparr>))) items))"

definition get_robot_pilot_skill :: "string \<Rightarrow> string \<Rightarrow> string \<Rightarrow> (db, robot_pilot_skill) prog" where
  "get_robot_pilot_skill pilot name version =
     select_row (\<lambda>s. find_by skill_key (pilot, name, version) (pilot_skills s)) ErrNotFound"

definition skills_of :: "string \<Rightarrow> db \<Rightarrow> robot_pilot_skill list" where
  "skills_of pilot s =
     sort_key (\<lambda>x. (pk_name x, pk_version x)) (filter (\<lambda>x. pk_pilot_instance_id x = pilot) (pilot_skills s))"

definition list_robot_pilot_skills :: "string \<Rightarrow> (db, robot_pilot_skill list) prog" where
  "list_robot_pilot_skills pilot = select_rows (skills_of pilot)"

definition save_robot_desired_skill :: "robot_desired_skill \<Rightarrow> (db, unit) prog" where
  "save_robot_desired_skill x =
     writing (\<lambda>s. s\<lparr>desired_skills := upsert (\<lambda>x. (dk_robot_id x, dk_name x)) x (desired_skills s)\<rparr>)"

definition delete_robot_desired_skill :: "string \<Rightarrow> string \<Rightarrow> (db, unit) prog" where
  "delete_robot_desired_skill robot name =
     writing (\<lambda>s. s\<lparr>desired_skills := filter (\<lambda>x. (dk_robot_id x, dk_name x) \<noteq> (robot, name)) (desired_skills s)\<rparr>)"

definition desired_of :: "string \<Rightarrow> db \<Rightarrow> robot_desired_skill list" where
  "desired_of robot s = sort_key dk_name (filter (\<lambda>x. dk_robot_id x = robot) (desired_skills s))"

definition list_robot_desired_skills :: "string \<Rightarrow> (db, robot_desired_skill list) prog" where
  "list_robot_desired_skills robot = select_rows (desired_of robot)"

definition mapping_key :: "robot_artifact_mapping \<Rightarrow> string \<times> string" where
  "mapping_key m = (am_pilot_instance_id m, am_local_artifact_id m)"

definition save_robot_artifact_mapping :: "robot_artifact_mapping \<Rightarrow> (db, unit) prog" where
  "save_robot_artifact_mapping m = writing (\<lambda>s. s\<lparr>artifact_mappings := upsert mapping_key m (artifact_mappings s)\<rparr>)"

definition get_robot_artifact_mapping :: "string \<Rightarrow> string \<Rightarrow> (db, robot_artifact_mapping) prog" where
  "get_robot_artifact_mapping pilot local_id =
     select_row (\<lambda>s. find_by mapping_key (pilot, local_id) (artifact_mappings s)) ErrNotFound"

definition get_artifact_meta :: "string \<Rightarrow> (db, artifact) prog" where
  "get_artifact_meta i = select_row (\<lambda>s. find_by art_id i (artifacts s)) ErrNotFound"

definition get_robot_conversation_run :: "string \<Rightarrow> (db, run_session) prog" where
  "get_robot_conversation_run robot =
     select_row (\<lambda>s. find (\<lambda>r. r_robot_id r = robot \<and> active_run_status (r_status r)) (runs s)) ErrNotFound"

definition get_robot_task :: "string \<Rightarrow> (db, task) prog" where
  "get_robot_task robot =
     select_row (\<lambda>s. find (\<lambda>t. t_assigned_robot_id t = robot \<and> open_work_status (t_status t)) (tasks s)) ErrNotFound"

section \<open>Joining\<close>

definition enrollment_violation :: "pilot_enrollment list \<Rightarrow> string option" where
  "enrollment_violation xs =
    (if \<not> distinct (map pn_id xs) then Some ''pilot_enrollments.id''
     else if \<not> distinct (map pn_code xs) then Some ''pilot_enrollments.code'' else None)"

definition credential_violation :: "pilot_credential list \<Rightarrow> string option" where
  "credential_violation xs =
    (if \<not> distinct (map pc_pilot_instance_id xs) then Some ''pilot_credentials.pilot_instance_id''
     else if \<not> distinct (map pc_credential xs) then Some ''pilot_credentials.credential'' else None)"

definition save_pilot_enrollment :: "pilot_enrollment \<Rightarrow> (db, unit) prog" where
  "save_pilot_enrollment x = checked enrollment_violation pilot_enrollments
     (\<lambda>r s. s\<lparr>pilot_enrollments := r\<rparr>) (append_row x)"

definition get_pilot_enrollment :: "string \<Rightarrow> (db, pilot_enrollment) prog" where
  "get_pilot_enrollment i = select_row (\<lambda>s. find_by pn_id i (pilot_enrollments s)) ErrNotFound"

definition update_enrollments :: "(pilot_enrollment \<Rightarrow> bool) \<Rightarrow> (pilot_enrollment \<Rightarrow> pilot_enrollment) \<Rightarrow> (db, nat) prog" where
  "update_enrollments = updating pilot_enrollments (\<lambda>r s. s\<lparr>pilot_enrollments := r\<rparr>)"

definition claim_pilot_enrollment :: "string \<Rightarrow> string \<Rightarrow> string \<Rightarrow> time \<Rightarrow> (db, pilot_enrollment) prog" where
  "claim_pilot_enrollment code pilot credential now = tx (
     go (select_row (\<lambda>s. find_by pn_code code (pilot_enrollments s)) ErrNotFound) (\<lambda>item.
     if pn_status item \<noteq> ''pending'' \<or> \<not> now < pn_expires_at item then err ErrRevisionConflict
     else go (update_enrollments (\<lambda>x. pn_id x = pn_id item \<and> pn_status x = ''pending'')
         (\<lambda>x. x\<lparr>pn_status := ''claimed'', pn_pilot_instance_id := pilot, pn_claimed_at := Some now\<rparr>)) (\<lambda>n.
     if n \<noteq> 1 then err ErrRevisionConflict
     else go (checked credential_violation pilot_credentials (\<lambda>r s. s\<lparr>pilot_credentials := r\<rparr>)
         (upsert pc_pilot_instance_id \<lparr>pc_pilot_instance_id = pilot, pc_credential = credential,
            pc_created_at = now, pc_revoked_at = None\<rparr>)) (\<lambda>_.
     ok (item\<lparr>pn_status := ''claimed'', pn_pilot_instance_id := pilot, pn_claimed_at := Some now\<rparr>)))))"

definition revoke_enrollment :: "string \<Rightarrow> (db, unit) prog" where
  "revoke_enrollment i =
     go (update_enrollments (\<lambda>x. pn_id x = i \<and> pn_status x = ''pending'') (\<lambda>x. x\<lparr>pn_status := ''revoked''\<rparr>)) (\<lambda>n.
     if n = 0 then err ErrNotFound else ok ())"

definition get_pilot_credential :: "string \<Rightarrow> (db, pilot_credential) prog" where
  "get_pilot_credential credential = select_row (\<lambda>s. find_by pc_credential credential (pilot_credentials s)) ErrNotFound"

section \<open>Runtime instances\<close>

definition active_runtime :: "runtime_state \<Rightarrow> bool" where
  "active_runtime st \<longleftrightarrow> st \<in> {RtStarting, RtReady, RtDegraded, RtStopping, RtInterrupted}"

definition save_runtime_instance :: "runtime_instance \<Rightarrow> (db, unit) prog" where
  "save_runtime_instance r = writing (\<lambda>s. s\<lparr>runtime_instances := upsert ri_id r (runtime_instances s)\<rparr>)"

definition get_runtime_instance :: "string \<Rightarrow> (db, runtime_instance) prog" where
  "get_runtime_instance i = select_row (\<lambda>s. find_by ri_id i (runtime_instances s)) ErrInstanceNotFound"

definition get_active_runtime_by_robot :: "string \<Rightarrow> (db, runtime_instance) prog" where
  "get_active_runtime_by_robot robot = select_row (\<lambda>s. latest ri_updated_at
     (filter (\<lambda>r. ri_robot_id r = robot \<and> active_runtime (ri_status r)) (runtime_instances s))) ErrInstanceNotFound"

definition latest_runtime :: "string \<Rightarrow> db \<Rightarrow> runtime_instance option" where
  "latest_runtime robot s = latest ri_updated_at (filter (\<lambda>r. ri_robot_id r = robot) (runtime_instances s))"

definition get_latest_runtime_by_robot :: "string \<Rightarrow> (db, runtime_instance) prog" where
  "get_latest_runtime_by_robot robot = select_row (latest_runtime robot) ErrInstanceNotFound"

text \<open>\<open>ORDER BY updated_at DESC, instance_id\<close>\<close>

definition list_runtime_instances :: "(db, runtime_instance list) prog" where
  "list_runtime_instances = select_rows (\<lambda>s.
     sort_key (\<lambda>r. - int (ri_updated_at r)) (sort_key ri_id (runtime_instances s)))"

definition acquire_port :: "string \<Rightarrow> int \<Rightarrow> int \<Rightarrow> (db, int) prog" where
  "acquire_port i lo hi =
     (if i = [] \<or> lo \<le> 0 \<or> hi < lo then err ErrPortUnavailable
      else tx (reading (\<lambda>s. case find_by fst i (port_leases s) of
        Some lease \<Rightarrow> ok (snd lease)
      | None \<Rightarrow> (case find (\<lambda>port. port \<notin> snd ` set (port_leases s)) [lo..hi] of
          None \<Rightarrow> err ErrPortUnavailable
        | Some port \<Rightarrow> go (writing (\<lambda>s. s\<lparr>port_leases := port_leases s @ [(i, port)]\<rparr>)) (\<lambda>_. ok port)))))"

definition release_port :: "string \<Rightarrow> (db, unit) prog" where
  "release_port i = writing (\<lambda>s. s\<lparr>port_leases := filter (\<lambda>l. fst l \<noteq> i) (port_leases s)\<rparr>)"

section \<open>A code admits one Pilot\<close>

lemma claim_Inr:
  assumes "claim_pilot_enrollment code pilot credential now s = (Inr x, t)"
  shows "\<exists>item. find_by pn_code code (pilot_enrollments s) = Some item \<and> pn_status item = ''pending'' \<and>
      now < pn_expires_at item \<and> x = item\<lparr>pn_status := ''claimed'', pn_pilot_instance_id := pilot, pn_claimed_at := Some now\<rparr> \<and>
      find_by pn_code code (pilot_enrollments t) = Some x \<and>
      find_by pc_pilot_instance_id pilot (pilot_credentials t) =
        Some \<lparr>pc_pilot_instance_id = pilot, pc_credential = credential, pc_created_at = now, pc_revoked_at = None\<rparr>"
proof -
  let ?f = "\<lambda>x. x\<lparr>pn_status := ''claimed'', pn_pilot_instance_id := pilot, pn_claimed_at := Some now\<rparr>"
  obtain item where item: "find_by pn_code code (pilot_enrollments s) = Some item" "pn_status item = ''pending''"
      "now < pn_expires_at item" "x = ?f item"
    and t: "pilot_enrollments t = update_where (\<lambda>x. pn_id x = pn_id item \<and> pn_status x = ''pending'') ?f (pilot_enrollments s)"
      "pilot_credentials t = upsert pc_pilot_instance_id \<lparr>pc_pilot_instance_id = pilot, pc_credential = credential,
         pc_created_at = now, pc_revoked_at = None\<rparr> (pilot_credentials s)"
    using assms by (auto simp: claim_pilot_enrollment_def go_Inr_iff update_enrollments_def updating_run checked_Inr
        split: if_splits)
  have "find_by pn_code code (pilot_enrollments t) = Some (?f item)"
    unfolding t(1) by (subst find_by_update_where) (simp_all add: item)
  with item t(2) show ?thesis by (auto simp: find_by_upsert)
qed

lemma claim_Inl: "claim_pilot_enrollment code pilot credential now s = (Inl e, t) \<Longrightarrow> same_tables s t"
  unfolding claim_pilot_enrollment_def by (rule tx_error_same)

text \<open>A code that is claimed, revoked or unknown cannot be claimed.\<close>

lemma claim_refused:
  assumes "\<forall>item. find_by pn_code code (pilot_enrollments s) = Some item \<longrightarrow> pn_status item \<noteq> ''pending''"
  shows "\<exists>e t. claim_pilot_enrollment code pilot credential now s = (Inl e, t)"
proof (cases "claim_pilot_enrollment code pilot credential now s")
  case (Pair r t)
  with assms show ?thesis by (cases r) (auto dest: claim_Inr)
qed

lemma claims_of_a_used_code:
  assumes "\<forall>item. find_by pn_code code (pilot_enrollments s) = Some item \<longrightarrow> pn_status item \<noteq> ''pending''"
  shows "successes (map (\<lambda>(pilot, credential, now). claim_pilot_enrollment code pilot credential now) claims) s = 0"
  using assms
proof (induction claims arbitrary: s)
  case (Cons c claims)
  obtain pilot credential now where c: "c = (pilot, credential, now)" by (cases c)
  obtain e t where run: "claim_pilot_enrollment code pilot credential now s = (Inl e, t)"
    using claim_refused[OF Cons.prems] by blast
  then have "pilot_enrollments t = pilot_enrollments s" by (auto dest!: claim_Inl simp: same_tables_def)
  with Cons run c show ?case by simp
qed simp

lemma one_claim_per_code:
  "successes (map (\<lambda>(pilot, credential, now). claim_pilot_enrollment code pilot credential now) claims) s \<le> 1"
proof (induction claims arbitrary: s)
  case (Cons c claims)
  obtain pilot credential now where c: "c = (pilot, credential, now)" by (cases c)
  show ?case
  proof (cases "claim_pilot_enrollment code pilot credential now s")
    case (Pair r t)
    show ?thesis
    proof (cases r)
      case (Inl e)
      with Pair c Cons show ?thesis by simp
    next
      case (Inr x)
      with Pair obtain item where "find_by pn_code code (pilot_enrollments t) = Some x" "pn_status x = ''claimed''"
        by (auto dest: claim_Inr)
      then have "\<forall>item. find_by pn_code code (pilot_enrollments t) = Some item \<longrightarrow> pn_status item \<noteq> ''pending''" by simp
      from claims_of_a_used_code[OF this] Pair Inr c show ?thesis by simp
    qed
  qed
qed simp

section \<open>Port leases\<close>

definition leases_ok :: "db \<Rightarrow> bool" where
  "leases_ok s \<longleftrightarrow> distinct (map fst (port_leases s)) \<and> distinct (map snd (port_leases s))"

lemma acquire_Inr:
  assumes "acquire_port i lo hi s = (Inr port, t)"
  shows "find_by fst i (port_leases t) = Some (i, port)"
    "find_by fst i (port_leases s) = None \<Longrightarrow> port \<in> {lo..hi} \<and> port \<notin> snd ` set (port_leases s)"
    "find_by fst i (port_leases s) = Some lease \<Longrightarrow> port = snd lease \<and> t = s"
    "leases_ok s \<Longrightarrow> leases_ok t"
  using assms
  by (auto simp: acquire_port_def leases_ok_def run_reading go_Inr_iff run_writing find_by_append find_by_None
      split: if_splits option.splits dest!: find_SomeD find_by_SomeD)

lemma acquire_Inl:
  assumes "acquire_port i lo hi s = (Inl e, t)"
  shows "e = ErrPortUnavailable" "same_tables s t"
    "i \<noteq> [] \<Longrightarrow> 0 < lo \<Longrightarrow> {lo..hi} \<subseteq> snd ` set (port_leases s)"
proof -
  show "e = ErrPortUnavailable" "i \<noteq> [] \<Longrightarrow> 0 < lo \<Longrightarrow> {lo..hi} \<subseteq> snd ` set (port_leases s)"
    using assms
    by (auto simp: acquire_port_def tx_def run_reading go_Inl_iff run_writing find_None_iff
        split: if_splits option.splits prod.splits sum.splits)
  show "same_tables s t"
    using assms unfolding acquire_port_def by (auto split: if_splits dest: tx_error_same)
qed

lemma release_leases: "leases_ok s \<Longrightarrow> release_port i s = (Inr u, t) \<Longrightarrow> leases_ok t \<and> find_by fst i (port_leases t) = None"
  by (auto simp: release_port_def leases_ok_def run_writing find_by_None intro: distinct_map_filter)

end
