(* ===== verification/RobotState.thy ===== *)
theory RobotState
  imports StoreFleet
begin

text \<open>
  The memory of the Robot service (\<open>internal/robot/service.go\<close>, type \<open>Service\<close>): the sessions of
  the connected Pilots with the commands queued for each, the commands that wait for an
  acknowledgement, the transfers, the admission locks, and what was published; beside it the locks
  of the Runtime orchestrator (\<open>internal/robotruntime/orchestrator.go\<close>).  A Go map is an
  association list, a channel the list of its elements.
\<close>

section \<open>Commands and sessions\<close>

text \<open>
  The payload of a command is a map; the payload of \<open>execution.start\<close> holds the Execution itself
  beside the downloads of its artifacts.
\<close>

datatype command_payload =
    PMap any_map
  | PStart robot_execution "any_map list"

record pilot_command =
  cd_type :: string
  cd_id :: string
  cd_payload :: command_payload

record command_ack =
  ak_ok :: bool
  ak_error :: string
  ak_result :: any_map

text \<open>\<open>pd_waits\<close>: a goroutine waits for the acknowledgement (\<open>Result \<noteq> nil\<close>).\<close>

record pending_command =
  pd_pilot_instance_id :: string
  pd_command :: pilot_command
  pd_waits :: bool

text \<open>\<open>ss_serial\<close> is the identity of the Go pointer.\<close>

record pilot_session =
  ss_pilot :: robot_pilot
  ss_send :: "pilot_command list"
  ss_closed :: bool
  ss_serial :: nat

record transfer =
  tf_token :: string
  tf_mode :: string
  tf_pilot_instance_id :: string
  tf_execution_id :: string
  tf_local_artifact_id :: string
  tf_artifact_id :: string
  tf_package_path :: string
  tf_media_type :: string
  tf_summary :: string
  tf_expires_at :: time

section \<open>What is published\<close>

text \<open>A device event without its payload, and an event of a Project.\<close>

record device_event =
  de_sequence :: int
  de_resource_type :: string
  de_resource_id :: string
  de_resource_revision :: int
  de_type :: string
  de_occurred_at :: time

record robot_event =
  re_project_id :: string
  re_resource_type :: string
  re_resource_id :: string
  re_type :: string
  re_revision :: int

datatype robot_job = JobAvailable string | JobReconcileSkills string

record subscriber =
  sb_id :: nat
  sb_queue :: "device_event list"

section \<open>The memory\<close>

record hub =
  hb_sessions :: "(string \<times> pilot_session) list"
  hb_commands :: "(string \<times> pending_command) list"
  hb_acks :: "(string \<times> command_ack) list"
  hb_transfers :: "(string \<times> transfer) list"
  hb_admissions :: "string list"
  hb_runtime_locks :: "string list"
  hb_subscribers :: "subscriber list"
  hb_sequence :: int
  hb_device_events :: "device_event list"
  hb_events :: "robot_event list"
  hb_jobs :: "robot_job list"
  hb_serials :: nat

definition empty_hub :: hub where
  "empty_hub = \<lparr>hb_sessions = [], hb_commands = [], hb_acks = [], hb_transfers = [], hb_admissions = [], hb_runtime_locks = [],
     hb_subscribers = [], hb_sequence = 0, hb_device_events = [], hb_events = [], hb_jobs = [], hb_serials = 0\<rparr>"

text \<open>\<open>m[k] = v\<close> and \<open>delete(m, k)\<close>\<close>

definition put_key :: "'k \<Rightarrow> 'v \<Rightarrow> ('k \<times> 'v) list \<Rightarrow> ('k \<times> 'v) list" where
  "put_key k v m = upsert fst (k, v) m"

definition delete_key :: "'k \<Rightarrow> ('k \<times> 'v) list \<Rightarrow> ('k \<times> 'v) list" where
  "delete_key k m = filter (\<lambda>e. fst e \<noteq> k) m"

lemma map_of_find_by: "map_of m k = map_option snd (find_by fst k m)"
  by (induction m) auto

lemma map_of_put_key [simp]: "map_of (put_key k v m) x = (if x = k then Some v else map_of m x)"
  by (simp add: put_key_def map_of_find_by find_by_upsert)

lemma map_of_delete_key [simp]: "map_of (delete_key k m) x = (if x = k then None else map_of m x)"
  by (induction m) (auto simp: delete_key_def)

lemma map_of_filter_values:
  "distinct (map fst m) \<Longrightarrow> map_of (filter (\<lambda>(k, v). P k v) m) x =
     (case map_of m x of Some v \<Rightarrow> if P x v then Some v else None | None \<Rightarrow> None)"
  by (induction m) (auto simp: map_of_eq_None_iff rev_image_eqI split: option.splits)

lemma distinct_put_key: "distinct (map fst m) \<Longrightarrow> distinct (map fst (put_key k v m))"
  by (simp add: put_key_def distinct_upsert)

lemma distinct_delete_key: "distinct (map fst m) \<Longrightarrow> distinct (map fst (delete_key k m))"
  by (simp add: delete_key_def distinct_map_filter)

section \<open>Statuses\<close>

text \<open>\<open>activeRobotStatus\<close>\<close>

definition active_robot_status :: "string \<Rightarrow> bool" where
  "active_robot_status st \<longleftrightarrow> st \<in> {''queued'', ''starting'', ''running'', ''waiting_agent'', ''stopping''}"

definition is_skill_command :: "string \<Rightarrow> bool" where
  "is_skill_command typ \<longleftrightarrow> typ \<in> {''skill.install'', ''skill.enable'', ''skill.disable'', ''skill.uninstall''}"

definition execution_lifecycle_event :: "string \<Rightarrow> bool" where
  "execution_lifecycle_event typ \<longleftrightarrow>
     has_prefix typ ''execution.'' \<or> typ = ''skill.started'' \<or> typ = ''skill.stop.finalized''"

definition robot_available :: "robot_pilot \<Rightarrow> bool" where
  "robot_available p \<longleftrightarrow> rp_status p = ''online'' \<and> rp_robot_status p = ''idle'' \<and>
     rp_current_execution_id p = [] \<and> rp_ability_framework_status p = ''ready''"

text \<open>\<open>stringValue(m[k])\<close>\<close>

definition string_value :: "any_map \<Rightarrow> string \<Rightarrow> string" where
  "string_value m k = (case get_string m k of Some t \<Rightarrow> t | None \<Rightarrow> [])"

definition execution_id_from_payload :: "command_payload \<Rightarrow> string" where
  "execution_id_from_payload p = (case p of
     PStart e _ \<Rightarrow> e_id e
   | PMap m \<Rightarrow> (case get_object m ''execution'' of
       None \<Rightarrow> []
     | Some x \<Rightarrow> if string_value x ''id'' \<noteq> [] then string_value x ''id'' else string_value x ''execution_id''))"

definition command_map :: "command_payload \<Rightarrow> any_map" where
  "command_map p = (case p of PMap m \<Rightarrow> m | PStart _ _ \<Rightarrow> [])"

definition pilot_status_changed :: "robot_pilot \<Rightarrow> robot_pilot \<Rightarrow> bool" where
  "pilot_status_changed old new \<longleftrightarrow>
     old\<lparr>rp_last_seen_at := 0, rp_revision := 0\<rparr> \<noteq> new\<lparr>rp_last_seen_at := 0, rp_revision := 0\<rparr>"

text \<open>Names from a Skill package as path segments: \<open>safeSegment\<close>.\<close>

definition safe_segment :: "string \<Rightarrow> string" where
  "safe_segment t = map (\<lambda>c. if c = CHR ''/'' \<or> c = CHR 0x5C then CHR ''_'' else c) (trim_space t)"

lemma safe_segment_no_separator: "CHR ''/'' \<notin> set (safe_segment t) \<and> CHR 0x5C \<notin> set (safe_segment t)"
  by (auto simp: safe_segment_def)

text \<open>\<open>actionList\<close>: the objects of a list whose \<open>type\<close> is not the empty string (an absent one is
  \<open>nil\<close> and passes).\<close>

definition action_list :: "json option \<Rightarrow> any_map list" where
  "action_list v = (case v of
     Some (JArr xs) \<Rightarrow> List.map_filter (\<lambda>x. case x of
       JObj a \<Rightarrow> if map_of a ''type'' \<noteq> Some (JStr []) then Some a else None
     | _ \<Rightarrow> None) xs
   | _ \<Rightarrow> [])"

end
