(* ===== verification/SvcBase.thy ===== *)
theory SvcBase
  imports RobotState
begin

text \<open>
  The state of the Workflow service (\<open>internal/workflow/service.go\<close>, \<open>type Service\<close>), its ports
  (\<open>types.go\<close>) and its helpers for events (\<open>events.go\<close>) and for the in-memory gates of
  \<open>scheduler.go\<close> (\<open>reserveTask\<close>, \<open>claimTaskResources\<close>, ...).

  \<open>sys\<close> is the whole server as far as the service sees it: the database, the clock, the maps
  guarded by \<open>Service.mu\<close>, the cancelled contexts, the events published on the bus and the
  goroutines that were started and have not run yet (\<open>jobs\<close>).  \<open>hub\<close> is the memory of the Robot
  service, which runs in the same process.  A handler runs atomically; a \<open>go\<close>
  statement appends a job.  A context is the list of the cancellation tokens above it:
  \<open>WithCancel\<close> adds a fresh token, \<open>WithoutCancel\<close> drops them all, \<open>ctx.Err() \<noteq> nil\<close> holds when
  one of them has been cancelled.

  The ports are the fields of \<open>env\<close>: the Agent runtime, the Robot service and the Conversation
  resumer are code outside this subsystem, and so parameters.  A port is a program on \<open>sys\<close>,
  since what it does (and what other handlers do while it runs) may change everything.
\<close>

section \<open>State\<close>

type_synonym ctx = "nat list"

datatype job =
    JobPrepare ctx string workflow task "interaction option"
  | JobExecute ctx string workflow task "interaction option" run_session
  | JobDecision ctx task subtask robot_execution any_map "interaction option"
  | JobRecovery ctx task subtask robot_execution "interaction option"

record published_event =
  pe_type :: string
  pe_project_id :: string
  pe_conversation_id :: string
  pe_resource_type :: string
  pe_resource_id :: string
  pe_revision :: int

text \<open>What a caller that waits for an approval is told (\<open>interaction.waitResult\<close>).\<close>

datatype wait_result = WaitReply bool | WaitCancelled

record sys =
  dbase :: db
  clock :: time
  active_tasks :: "string \<Rightarrow> nat option option"
  active_resources :: "string \<Rightarrow> string option"
  active_runs :: "string \<Rightarrow> string option"
  shutting_down :: bool
  tokens_drawn :: nat
  cancelled_tokens :: "nat list"
  published :: "published_event list"
  jobs :: "job list"
  waiters :: "string \<Rightarrow> wait_result option option"
  hub :: hub

section \<open>Ports\<close>

record task_assignment =
  ta_agent_id :: string
  ta_robot_id :: string

record task_plan_request =
  tp_user_id :: string
  tp_project :: project
  tp_conversation :: chat_session
  tp_workflow :: workflow
  tp_task :: task_draft
  tp_answer :: "interaction option"

record task_plan_result =
  tr_summary :: string
  tr_subtasks :: "subtask_draft list"

record task_execution =
  te_user_id :: string
  te_project :: project
  te_conversation :: chat_session
  te_workflow :: workflow
  te_task :: task
  te_subtasks :: "subtask list"
  te_answer :: "interaction option"
  te_run :: run_session

record task_result =
  res_summary :: string
  res_evidence :: raw_json

text \<open>\<open>TaskRecoveryRequest\<close> and \<open>RobotAgentDecisionRequest\<close>, which differ in the event.\<close>

record agent_request =
  ar_user_id :: string
  ar_project :: project
  ar_conversation :: chat_session
  ar_workflow :: workflow
  ar_task :: task
  ar_subtask :: subtask
  ar_execution :: robot_execution
  ar_event :: any_map
  ar_answer :: "interaction option"

record task_recovery_decision =
  rd_decision :: string
  rd_replacements :: "subtask_draft list"
  rd_summary :: string

record planner =
  pl_resolve :: "(ctx \<Rightarrow> project \<Rightarrow> workflow \<Rightarrow> task \<Rightarrow> (sys, task_assignment) prog) option"
  pl_plan_with_result :: "(ctx \<Rightarrow> task_plan_request \<Rightarrow> (sys, task_plan_result) prog) option"
  pl_plan :: "ctx \<Rightarrow> task_plan_request \<Rightarrow> (sys, subtask_draft list) prog"

record executor =
  ex_execute :: "ctx \<Rightarrow> task_execution \<Rightarrow> (sys, task_result) prog"
  ex_decide :: "(ctx \<Rightarrow> agent_request \<Rightarrow> (sys, any_map) prog) option"
  ex_recover :: "(ctx \<Rightarrow> agent_request \<Rightarrow> (sys, task_recovery_decision) prog) option"

record robot_stopper =
  rs_stop :: "string \<Rightarrow> string \<Rightarrow> string \<Rightarrow> (sys, robot_execution) prog"
  rs_confirm :: "robot_execution \<Rightarrow> string \<Rightarrow> string \<Rightarrow> (sys, robot_execution) prog"

record resumer =
  cr_resume_interaction :: "interaction \<Rightarrow> (sys, unit) prog"
  cr_resume_terminal :: "workflow_view \<Rightarrow> (sys, unit) prog"

record env =
  env_planner :: "planner option"
  env_executor :: "executor option"
  env_robot_reply :: "(string \<Rightarrow> any_map \<Rightarrow> (sys, unit) prog) option"
  env_robot_stop :: "robot_stopper option"
  env_resumer :: "resumer option"
  env_bus :: bool

section \<open>Lifting\<close>

definition store :: "(db, 'a) prog \<Rightarrow> (sys, 'a) prog" where
  "store m = (\<lambda>s. case m (dbase s) of (r, d) \<Rightarrow> (r, s\<lparr>dbase := d\<rparr>))"

text \<open>\<open>time.Now().UTC()\<close>\<close>

definition at_now :: "(time \<Rightarrow> (sys, 'a) prog) \<Rightarrow> (sys, 'a) prog" where
  "at_now k = (\<lambda>s. k (clock s) s)"

lemma run_store [run_simps]: "store m s = (fst (m (dbase s)), s\<lparr>dbase := snd (m (dbase s))\<rparr>)"
  by (simp add: store_def split: prod.splits)

lemma store_Inr [simp]: "store m s = (Inr x, t) \<longleftrightarrow> (\<exists>d. m (dbase s) = (Inr x, d) \<and> t = s\<lparr>dbase := d\<rparr>)"
  by (auto simp: store_def split: prod.splits)

lemma store_Inl [simp]: "store m s = (Inl e, t) \<longleftrightarrow> (\<exists>d. m (dbase s) = (Inl e, d) \<and> t = s\<lparr>dbase := d\<rparr>)"
  by (auto simp: store_def split: prod.splits)

lemma run_at_now [run_simps]: "at_now k s = k (clock s) s"
  by (simp add: at_now_def)

definition do_transition_workflow :: "string \<Rightarrow> int \<Rightarrow> work_status \<Rightarrow> string \<Rightarrow> (sys, workflow) prog" where
  "do_transition_workflow i n to reason = at_now (\<lambda>now. store (transition_workflow_with_reason i n to reason now))"

definition do_transition_task ::
  "string \<Rightarrow> int \<Rightarrow> work_status \<Rightarrow> string \<Rightarrow> string \<Rightarrow> raw_json \<Rightarrow> (sys, task) prog" where
  "do_transition_task i n to reason summary evidence =
     at_now (\<lambda>now. store (transition_task i n to reason summary evidence now))"

definition do_transition_subtask :: "string \<Rightarrow> int \<Rightarrow> work_status \<Rightarrow> string \<Rightarrow> raw_json \<Rightarrow> (sys, subtask) prog" where
  "do_transition_subtask i n to reason result = at_now (\<lambda>now. store (transition_subtask i n to reason result now))"

definition do_set_pending_task_reason :: "string \<Rightarrow> int \<Rightarrow> string \<Rightarrow> (sys, task) prog" where
  "do_set_pending_task_reason i n reason = at_now (\<lambda>now. store (set_pending_task_reason i n reason now))"

definition do_update_wait_reason ::
  "string \<Rightarrow> int \<Rightarrow> string \<Rightarrow> int \<Rightarrow> string \<Rightarrow> string \<Rightarrow> (sys, task \<times> subtask) prog" where
  "do_update_wait_reason i n j m from to =
     at_now (\<lambda>now. store (update_paused_robot_wait_reason i n j m from to now))"

definition do_transition_run :: "string \<Rightarrow> run_status list \<Rightarrow> run_status \<Rightarrow> (sys, run_session) prog" where
  "do_transition_run i from to = at_now (\<lambda>now. store (transition_run_status i from to now))"

definition do_finish_run :: "string \<Rightarrow> run_status list \<Rightarrow> run_status \<Rightarrow> string \<Rightarrow> (sys, run_session) prog" where
  "do_finish_run i from st message = at_now (\<lambda>now. store (finish_run_session i from st message now))"

lemmas do_defs =
  do_transition_workflow_def do_transition_task_def do_transition_subtask_def do_set_pending_task_reason_def
  do_update_wait_reason_def do_transition_run_def do_finish_run_def

text \<open>\<open>_, _ = m\<close>\<close>

definition quietly :: "(sys, 'a) prog \<Rightarrow> (sys, unit) prog" where
  "quietly m = ignoring m (ok ())"

text \<open>\<open>mustSubTasks\<close>\<close>

definition must_subtasks :: "string \<Rightarrow> sys \<Rightarrow> subtask list" where
  "must_subtasks task_id s = subtasks_of task_id (dbase s)"

section \<open>Events\<close>

definition publish :: "env \<Rightarrow> published_event \<Rightarrow> (sys, unit) prog" where
  "publish E ev = writing (\<lambda>s. if env_bus E then s\<lparr>published := published s @ [ev]\<rparr> else s)"

definition publish_view :: "env \<Rightarrow> workflow_view \<Rightarrow> string \<Rightarrow> (sys, unit) prog" where
  "publish_view E view typ = (let w = v_workflow view in
     publish E \<lparr>pe_type = typ, pe_project_id = w_project_id w, pe_conversation_id = w_conversation_id w,
       pe_resource_type = ''workflow'', pe_resource_id = w_id w, pe_revision = w_revision w\<rparr>)"

definition publish_plan_proposal :: "env \<Rightarrow> plan_proposal \<Rightarrow> string \<Rightarrow> (sys, unit) prog" where
  "publish_plan_proposal E p typ =
     publish E \<lparr>pe_type = typ, pe_project_id = pp_project_id p, pe_conversation_id = pp_conversation_id p,
       pe_resource_type = ''plan_proposal'', pe_resource_id = pp_id p, pe_revision = pp_revision p\<rparr>"

definition publish_plan_proposal_after_approval :: "env \<Rightarrow> string \<Rightarrow> (sys, unit) prog" where
  "publish_plan_proposal_after_approval E i = attempt (store (get_plan_proposal i)) (\<lambda>r. case r of
     Inr p \<Rightarrow> publish_plan_proposal E p ''plan_proposal.approved''
   | Inl _ \<Rightarrow> ok ())"

definition publish_current :: "env \<Rightarrow> string \<Rightarrow> string \<Rightarrow> (sys, unit) prog" where
  "publish_current E wid typ = attempt (store (get_workflow_view wid)) (\<lambda>r. case r of
     Inr view \<Rightarrow> publish_view E view typ
   | Inl _ \<Rightarrow> ok ())"

definition publish_conversation_message :: "env \<Rightarrow> workflow \<Rightarrow> chat_message \<Rightarrow> (sys, unit) prog" where
  "publish_conversation_message E w m =
     publish E \<lparr>pe_type = ''message.done'', pe_project_id = w_project_id w,
       pe_conversation_id = w_conversation_id w, pe_resource_type = ''chat_message'',
       pe_resource_id = cm_id m, pe_revision = w_revision w\<rparr>"

definition status_text :: "work_status \<Rightarrow> string" where
  "status_text st = (case st of
     WSPending \<Rightarrow> ''pending'' | WSRunning \<Rightarrow> ''running'' | WSPaused \<Rightarrow> ''paused'' | WSStopping \<Rightarrow> ''stopping''
   | WSCompleted \<Rightarrow> ''completed'' | WSFailed \<Rightarrow> ''failed'' | WSStopped \<Rightarrow> ''stopped'')"

text \<open>The texts of \<open>milestoneStatusText\<close>, in English.\<close>

definition milestone_status_text :: "work_status \<Rightarrow> string \<Rightarrow> string" where
  "milestone_status_text st reason = (case st of
     WSPending \<Rightarrow> ''assigned, waiting to run''
   | WSRunning \<Rightarrow> ''started''
   | WSPaused \<Rightarrow> (if reason \<noteq> [] then ''paused: '' @ reason else ''paused'')
   | WSCompleted \<Rightarrow> ''completed''
   | WSFailed \<Rightarrow> (if reason \<noteq> [] then ''failed: '' @ reason else ''failed'')
   | WSStopped \<Rightarrow> ''stopped safely''
   | _ \<Rightarrow> ''status updated to '' @ status_text st)"

definition evidence_entry :: "raw_json \<Rightarrow> any_map" where
  "evidence_entry raw = (case raw of Raw j \<Rightarrow> [(''evidence'', j)] | _ \<Rightarrow> [])"

text \<open>\<open>json.Marshal\<close> of the metadata fails on an evidence text that does not parse.\<close>

definition readable_evidence :: "task option \<Rightarrow> bool" where
  "readable_evidence t = (case t of Some x \<Rightarrow> (case t_evidence x of BadRaw _ \<Rightarrow> False | _ \<Rightarrow> True) | None \<Rightarrow> True)"

definition task_agent :: "task \<Rightarrow> string" where
  "task_agent t = (if t_assigned_agent_id t = [] then t_required_role t else t_assigned_agent_id t)"

definition milestone_metadata :: "workflow \<Rightarrow> task option \<Rightarrow> string \<Rightarrow> string \<Rightarrow> work_status \<Rightarrow> any_map" where
  "milestone_metadata w t subtask_id kind st =
     [(''message_kind'', JStr kind), (''message_type'', JStr ''activity''),
      (''workflow_id'', JStr (w_id w)), (''status'', JStr (status_text st))] @
     (case t of None \<Rightarrow> [] | Some t \<Rightarrow>
       [(''task_id'', JStr (t_id t)), (''assigned_agent_id'', JStr (t_assigned_agent_id t)),
        (''assigned_robot_id'', JStr (t_assigned_robot_id t)), (''agent_role'', JStr (t_required_role t)),
        (''reason'', JStr (t_waiting_reason t)), (''result_summary'', JStr (t_result_summary t))] @
       evidence_entry (t_evidence t)) @
     (if trim_space subtask_id \<noteq> [] then [(''subtask_id'', JStr subtask_id)] else [])"

definition milestone_content :: "workflow \<Rightarrow> task option \<Rightarrow> work_status \<Rightarrow> string" where
  "milestone_content w t st = (case t of
     None \<Rightarrow> ''Workflow '' @ w_id w @ '' status updated to '' @ status_text st
   | Some t \<Rightarrow> ''Task '' @ t_goal t @ '' '' @ milestone_status_text st (t_waiting_reason t))"

definition post_message :: "env \<Rightarrow> workflow \<Rightarrow> string \<Rightarrow> string \<Rightarrow> any_map \<Rightarrow> (sys, unit) prog" where
  "post_message E w agent content metadata = at_now (\<lambda>now.
     go (store (new_id ''msg-'')) (\<lambda>i.
     let m = \<lparr>cm_id = i, cm_session_id = w_conversation_id w, cm_agent_id = agent, cm_run_id = [],
              cm_trace_id = [], cm_provider = [], cm_endpoint = [], cm_model = [],
              cm_message = Some \<lparr>msg_role = ''assistant'', msg_content = content, msg_tool_calls = [], msg_parts = []\<rparr>,
              cm_artifact_refs = [], cm_metadata = metadata, cm_created_at = now\<rparr> in
     attempt (store (append_chat_message m)) (\<lambda>r. case r of
       Inr _ \<Rightarrow> publish_conversation_message E w m
     | Inl _ \<Rightarrow> ok ())))"

definition post_milestone :: "env \<Rightarrow> workflow \<Rightarrow> task option \<Rightarrow> string \<Rightarrow> string \<Rightarrow> string \<Rightarrow> work_status \<Rightarrow> (sys, unit) prog" where
  "post_milestone E w t agent subtask_id kind st =
     (if readable_evidence t then post_message E w agent (milestone_content w t st) (milestone_metadata w t subtask_id kind st)
      else ok ())"

definition append_milestone :: "env \<Rightarrow> string \<Rightarrow> string \<Rightarrow> string \<Rightarrow> string \<Rightarrow> work_status \<Rightarrow> (sys, unit) prog" where
  "append_milestone E wid task_id subtask_id kind st = attempt (store (get_workflow wid)) (\<lambda>rw. case rw of
     Inl _ \<Rightarrow> ok ()
   | Inr w \<Rightarrow>
       if trim_space task_id \<noteq> [] then
         attempt (store (get_task task_id)) (\<lambda>rt. case rt of
           Inl _ \<Rightarrow> ok ()
         | Inr t \<Rightarrow> post_milestone E w (Some t) (task_agent t) subtask_id kind st)
       else post_milestone E w None ''leader'' subtask_id kind st)"

definition latest_task_planning_message :: "string \<Rightarrow> db \<Rightarrow> chat_message option" where
  "latest_task_planning_message task_id s =
     (case latest started_key (filter (\<lambda>r. r_task_id r = task_id \<and> r_kind r = KTaskPlanning \<and>
         r_status r = RCompleted) (runs s)) of
        None \<Rightarrow> None
      | Some run \<Rightarrow> latest cm_created_at (filter (\<lambda>m. cm_run_id m = r_id run) (chat_messages s)))"

definition plan_step_json :: "subtask_draft \<Rightarrow> json" where
  "plan_step_json d = JObj [(''id'', JStr (sdr_id d)), (''goal'', JStr (sdr_goal d)), (''kind'', JStr (sdr_kind d))]"

definition plan_message_metadata :: "workflow \<Rightarrow> task \<Rightarrow> subtask_draft list \<Rightarrow> any_map" where
  "plan_message_metadata w t items =
     [(''message_kind'', JStr ''task_plan_ready''), (''message_type'', JStr ''agent_message''),
      (''workflow_id'', JStr (w_id w)), (''task_id'', JStr (t_id t)),
      (''status'', JStr (status_text (t_status t))), (''agent_role'', JStr (t_required_role t)),
      (''assigned_agent_id'', JStr (t_assigned_agent_id t)),
      (''assigned_robot_id'', JStr (t_assigned_robot_id t)),
      (''subtask_count'', JInt (int (length items))), (''subtasks'', JArr (map plan_step_json items))]"

definition already_said :: "task \<Rightarrow> string \<Rightarrow> sys \<Rightarrow> bool" where
  "already_said t summary s = (case latest_task_planning_message (t_id t) (dbase s) of
     Some m \<Rightarrow> (case cm_message m of Some b \<Rightarrow> msg_content b = summary | None \<Rightarrow> False)
   | None \<Rightarrow> False)"

definition append_task_plan_message :: "env \<Rightarrow> string \<Rightarrow> string \<Rightarrow> string \<Rightarrow> subtask_draft list \<Rightarrow> (sys, unit) prog" where
  "append_task_plan_message E wid task_id summary items =
     attempt (store (get_workflow wid)) (\<lambda>rw. case rw of Inl _ \<Rightarrow> ok () | Inr w \<Rightarrow>
     attempt (store (get_task task_id)) (\<lambda>rt. case rt of Inl _ \<Rightarrow> ok () | Inr t \<Rightarrow>
     if trim_space summary = [] then ok ()
     else reading (\<lambda>s. if already_said t (trim_space summary) s then ok ()
       else post_message E w (task_agent t) (trim_space summary) (plan_message_metadata w t items))))"

section \<open>Gates\<close>

definition ctx_cancelled :: "ctx \<Rightarrow> sys \<Rightarrow> bool" where
  "ctx_cancelled c s \<longleftrightarrow> (\<exists>x \<in> set c. x \<in> set (cancelled_tokens s))"

definition cancel_token :: "nat \<Rightarrow> sys \<Rightarrow> sys" where
  "cancel_token x s = s\<lparr>cancelled_tokens := x # cancelled_tokens s\<rparr>"

text \<open>\<open>context.WithCancel(parent)\<close>: the value is the new token; the context is \<open>token # parent\<close>.\<close>

definition with_cancel :: "(sys, nat) prog" where
  "with_cancel = (\<lambda>s. (Inr (tokens_drawn s), s\<lparr>tokens_drawn := tokens_drawn s + 1\<rparr>))"

definition without_cancel :: "ctx \<Rightarrow> ctx" where
  "without_cancel c = []"

definition spawn :: "job \<Rightarrow> (sys, unit) prog" where
  "spawn j = writing (\<lambda>s. s\<lparr>jobs := jobs s @ [j]\<rparr>)"

definition reserve_task :: "task \<Rightarrow> (sys, bool) prog" where
  "reserve_task t = (\<lambda>s. if active_tasks s (t_id t) \<noteq> None then (Inr False, s)
     else (Inr True, s\<lparr>active_tasks := (active_tasks s)(t_id t \<mapsto> None)\<rparr>))"

definition bind_reserved_task_cancel :: "string \<Rightarrow> nat \<Rightarrow> (sys, bool) prog" where
  "bind_reserved_task_cancel task_id token = (\<lambda>s. if active_tasks s task_id = None
     then (Inr False, cancel_token token s)
     else (Inr True, s\<lparr>active_tasks := (active_tasks s)(task_id \<mapsto> Some token)\<rparr>))"

definition cancel_bound :: "string \<Rightarrow> sys \<Rightarrow> sys" where
  "cancel_bound task_id s = (case active_tasks s task_id of
     Some (Some token) \<Rightarrow> cancel_token token s
   | _ \<Rightarrow> s)"

definition cancel_run :: "string \<Rightarrow> (sys, unit) prog" where
  "cancel_run run_id =
     (if run_id \<noteq> [] then quietly (do_transition_run run_id [RQueued, RRunning, RWaitingInput] RCancelling) else ok ())"

definition cancel_task_attempt :: "string \<Rightarrow> (sys, unit) prog" where
  "cancel_task_attempt task_id = reading (\<lambda>s.
     go (cancel_run (case active_runs s task_id of Some run_id \<Rightarrow> run_id | None \<Rightarrow> []))
       (\<lambda>_. writing (\<lambda>u. case active_tasks s task_id of
          Some (Some token) \<Rightarrow> cancel_token token u
        | _ \<Rightarrow> u)))"

text \<open>\<open>json.Unmarshal\<close> of \<open>{"workspace_write": bool}\<close>.\<close>

definition workspace_write :: "raw_json \<Rightarrow> bool" where
  "workspace_write raw = (case raw of
     Raw j \<Rightarrow> (case json_fields j of
         Some fs \<Rightarrow> (case field fs ''workspace_write'' of Some (JBool b) \<Rightarrow> b | _ \<Rightarrow> False)
       | None \<Rightarrow> False)
   | _ \<Rightarrow> False)"

definition task_resource_keys :: "workflow \<Rightarrow> task \<Rightarrow> string list" where
  "task_resource_keys w t =
     (if workspace_write (t_resource_requirements t) then [''workspace:'' @ w_project_id w] else [])"

definition resource_taken :: "sys \<Rightarrow> task \<Rightarrow> string \<Rightarrow> bool" where
  "resource_taken s t key = (case active_resources s key of Some owner \<Rightarrow> owner \<noteq> [] \<and> owner \<noteq> t_id t | None \<Rightarrow> False)"

definition claim_task_resources :: "workflow \<Rightarrow> task \<Rightarrow> (sys, bool) prog" where
  "claim_task_resources w t = (\<lambda>s. let keys = task_resource_keys w t in
     if list_ex (resource_taken s t) keys then (Inr False, s)
     else (Inr True, s\<lparr>active_resources := foldl (\<lambda>m key. m(key \<mapsto> t_id t)) (active_resources s) keys\<rparr>))"

definition release_task :: "string \<Rightarrow> (sys, unit) prog" where
  "release_task task_id = writing (\<lambda>s.
     let s1 = cancel_bound task_id s in
     s1\<lparr>active_tasks := (active_tasks s1)(task_id := None), active_runs := (active_runs s1)(task_id := None)\<rparr>)"

definition release_task_resources :: "string \<Rightarrow> (sys, unit) prog" where
  "release_task_resources task_id = writing (\<lambda>s.
     s\<lparr>active_resources := (\<lambda>key. if active_resources s key = Some task_id then None else active_resources s key)\<rparr>)"

text \<open>After a launch: \<open>s.activeTasks[id] = cancel; s.activeRuns[id] = run.ID\<close>.\<close>

definition set_active :: "string \<Rightarrow> nat \<Rightarrow> string \<Rightarrow> (sys, unit) prog" where
  "set_active task_id token run_id = writing (\<lambda>s.
     s\<lparr>active_tasks := (active_tasks s)(task_id \<mapsto> Some token), active_runs := (active_runs s)(task_id \<mapsto> run_id)\<rparr>)"

end
