(* ===== verification/SvcSafety.thy ===== *)
theory SvcSafety
  imports SvcBase "HOL-Library.AList"
begin

text \<open>
  What the service reads out of an Execution and its event stream
  (\<open>internal/workflow/robot_execution.go\<close>, \<open>scheduler.go\<close>): whether a physical action may have
  started, whether the Ability has proved that the robot is safely held, and the last request
  for an Agent decision.  The two safety readings page through the whole stream, 1000 events at
  a time; \<open>robotExecutionStartedPhysicalAction\<close> and \<open>latestRobotAgentRequest\<close> read one page.

  The lemmas show that paging is invisible (\<open>safely_held_eq\<close>, \<open>may_have_physical_eq\<close>) and what
  \<open>may_have_physical\<close> decides (\<open>may_have_physical_iff\<close>).
\<close>

section \<open>One event\<close>

definition payload_flag :: "execution_event \<Rightarrow> string \<Rightarrow> bool" where
  "payload_flag e k = (get_bool (ev_payload e) k = Some True)"

text \<open>\<open>id, _ := item.Payload["action_id"].(string)\<close>\<close>

definition action_id :: "execution_event \<Rightarrow> string" where
  "action_id e = (case get_string (ev_payload e) ''action_id'' of Some i \<Rightarrow> i | None \<Rightarrow> [])"

definition action_event :: "execution_event \<Rightarrow> bool" where
  "action_event e = has_prefix (ev_type e) ''action.''"

text \<open>The body of the loop of \<open>robotExecutionSafelyHeld\<close>.\<close>

definition held_step :: "execution_event \<Rightarrow> bool \<Rightarrow> bool" where
  "held_step e held =
    (if ev_type e = ''action.started'' then (if payload_flag e ''physical_started'' then False else held)
     else if ev_type e = ''action.terminal'' then
       (case get_object (ev_payload e) ''result'' of
          None \<Rightarrow> held
        | Some r \<Rightarrow> (case get_bool r ''safe'' of Some safe \<Rightarrow> safe | None \<Rightarrow> held))
     else held)"

text \<open>
  The body of the loop of \<open>robotExecutionMayHavePhysicalAction\<close>: \<open>None\<close> once the answer is
  \<open>true\<close>, else the map from action identifiers to "known to be read only".
\<close>

definition may_step :: "execution_event \<Rightarrow> (string \<times> bool) list \<Rightarrow> (string \<times> bool) list option" where
  "may_step e read_only =
    (if \<not> action_event e then Some read_only
     else if action_id e = [] then None
     else let seen = (if map_of read_only (action_id e) = None then AList.update (action_id e) False read_only else read_only) in
       if ev_type e = ''action.started'' then
         (case (get_bool (ev_payload e) ''physical'', get_bool (ev_payload e) ''physical_started'') of
            (Some False, Some False) \<Rightarrow> Some (AList.update (action_id e) True seen)
          | _ \<Rightarrow> None)
       else Some seen)"

fun may_steps :: "execution_event list \<Rightarrow> (string \<times> bool) list \<Rightarrow> (string \<times> bool) list option" where
  "may_steps [] read_only = Some read_only"
| "may_steps (e # es) read_only = (case may_step e read_only of None \<Rightarrow> None | Some m \<Rightarrow> may_steps es m)"

section \<open>Paging\<close>

definition last_sequence :: "execution_event list \<Rightarrow> int \<Rightarrow> int" where
  "last_sequence page after = (if page = [] then after else ev_sequence (last page))"

definition remaining :: "string \<Rightarrow> int \<Rightarrow> db \<Rightarrow> execution_event list" where
  "remaining i after s = filter (\<lambda>e. ev_sequence e > after) (events_of i s)"

lemma event_page_1000: "event_page i after 1000 s = take 1000 (remaining i after s)"
  by (simp add: event_page_def remaining_def)

lemma remaining_last:
  assumes "page = take n (remaining i after s)" "page \<noteq> []"
  shows "length (remaining i (last_sequence page after) s) < length (remaining i after s)"
proof -
  let ?e = "last page"
  have "?e \<in> set page" using assms(2) by simp
  then have e: "?e \<in> set (remaining i after s)" using assms(1) by (meson in_set_takeD)
  then have "ev_sequence ?e > after" by (simp add: remaining_def)
  then have "remaining i (ev_sequence ?e) s = filter (\<lambda>e. ev_sequence e > ev_sequence ?e) (remaining i after s)"
    by (auto simp: remaining_def intro!: filter_cong)
  moreover have "length (filter (\<lambda>e. ev_sequence e > ev_sequence ?e) (remaining i after s)) < length (remaining i after s)"
    using e by (intro length_filter_less) auto
  ultimately show ?thesis using assms(2) by (simp add: last_sequence_def)
qed

function safely_held_from :: "string \<Rightarrow> db \<Rightarrow> int \<Rightarrow> bool \<Rightarrow> bool" where
  "safely_held_from i s after held =
    (let page = event_page i after 1000 s;
         held' = fold held_step page held
     in if length page < 1000 then held' else safely_held_from i s (last_sequence page after) held')"
  by pat_completeness auto

termination
proof (relation "measure (\<lambda>(i, s, after, held). length (remaining i after s))", simp, goal_cases)
  case (1 i s after held page held')
  then have "page \<noteq> []" by auto
  with remaining_last[of page 1000] 1 show ?case by (simp add: event_page_1000)
qed

declare safely_held_from.simps [simp del]

definition robot_execution_safely_held :: "string \<Rightarrow> db \<Rightarrow> bool" where
  "robot_execution_safely_held i s = safely_held_from i s 0 False"

function may_have_physical_from :: "string \<Rightarrow> db \<Rightarrow> int \<Rightarrow> (string \<times> bool) list \<Rightarrow> bool" where
  "may_have_physical_from i s after read_only =
    (let page = event_page i after 1000 s in
     case may_steps page read_only of
       None \<Rightarrow> True
     | Some m \<Rightarrow>
         if length page < 1000 then list_ex (\<lambda>x. \<not> snd x) m
         else may_have_physical_from i s (last_sequence page after) m)"
  by pat_completeness auto

termination
proof (relation "measure (\<lambda>(i, s, after, m). length (remaining i after s))", simp, goal_cases)
  case (1 i s after read_only page m)
  then have "page \<noteq> []" by auto
  with remaining_last[of page 1000] 1 show ?case by (simp add: event_page_1000)
qed

declare may_have_physical_from.simps [simp del]

definition robot_execution_may_have_physical_action :: "string \<Rightarrow> db \<Rightarrow> bool" where
  "robot_execution_may_have_physical_action i s = may_have_physical_from i s 0 []"

definition robot_execution_started_physical_action :: "string \<Rightarrow> db \<Rightarrow> bool" where
  "robot_execution_started_physical_action i s =
     list_ex (\<lambda>e. ev_type e = ''action.started'' \<and> payload_flag e ''physical_started'') (event_page i 0 1000 s)"

definition latest_robot_agent_request :: "string \<Rightarrow> db \<Rightarrow> any_map option" where
  "latest_robot_agent_request i s =
     map_option ev_payload (find (\<lambda>e. ev_type e = ''agent.requested'') (rev (event_page i 0 1000 s)))"

definition safely_stopped_robot_execution :: "robot_execution \<Rightarrow> bool" where
  "safely_stopped_robot_execution x = (get_bool (e_result x) ''safe'' = Some True)"

definition missing_robot_execution :: "string \<Rightarrow> robot_execution" where
  "missing_robot_execution i =
     \<lparr>e_id = i, e_project_id = [], e_workflow_id = [], e_task_id = [], e_subtask_id = [], e_run_id = [],
      e_robot_id = [], e_pilot_instance_id = [], e_skill_name = [], e_skill_version = [], e_request_key = [],
      e_request_digest = [], e_status = ''interrupted'', e_stage = [], e_progress = None, e_input = [], e_artifact_refs = [],
      e_artifact_sync = [], e_result = [],
      e_error = [(''code'', JStr ''EXECUTION_RECORD_MISSING''),
        (''message'', JStr ''the Robot Execution of the SubTask does not exist'')],
      e_revision = 0, e_created_at = 0, e_updated_at = 0\<rparr>"

definition robot_execution_result :: "robot_execution \<Rightarrow> string \<Rightarrow> any_map \<Rightarrow> raw_json" where
  "robot_execution_result x event_type payload = Raw (JObj
     [(''artifact_refs'', JArr (map JStr (e_artifact_refs x))), (''error'', JObj (e_error x)),
      (''result'', JObj (e_result x)), (''robot_execution_id'', JStr (e_id x)),
      (''skill_name'', JStr (e_skill_name x)), (''skill_version'', JStr (e_skill_version x)),
      (''status'', JStr (e_status x)), (''terminal_event'', JStr event_type),
      (''terminal_payload'', JObj payload)])"

section \<open>Paging is invisible\<close>

text \<open>The sequence numbers of a stream start at 1 and never repeat (the primary key of the table).\<close>

definition stream_ok :: "string \<Rightarrow> db \<Rightarrow> bool" where
  "stream_ok i s \<longleftrightarrow> distinct (map ev_sequence (events_of i s)) \<and> (\<forall>e \<in> set (events_of i s). ev_sequence e > 0)"

lemma sorted_events: "sorted (map ev_sequence (events_of i s))"
  by (simp add: events_of_def)

lemma filter_after_take:
  fixes f :: "'a \<Rightarrow> int"
  assumes sorted: "sorted (map f ys)" and distinct: "distinct (map f ys)" and ne: "take n ys \<noteq> []"
  shows "filter (\<lambda>y. f y > f (last (take n ys))) ys = drop n ys"
proof -
  have "sorted (map f (take n ys @ drop n ys))" using sorted by simp
  then have s1: "sorted (map f (take n ys))" and s2: "\<forall>x \<in> set (take n ys). \<forall>y \<in> set (drop n ys). f x \<le> f y"
    by (auto simp: sorted_append simp del: append_take_drop_id)
  have "distinct (map f (take n ys @ drop n ys))" using distinct by simp
  then have s3: "\<forall>x \<in> set (take n ys). \<forall>y \<in> set (drop n ys). f x \<noteq> f y"
    by (auto simp del: append_take_drop_id)
  have last: "last (take n ys) \<in> set (take n ys)" using ne by (rule last_in_set)
  have "filter (\<lambda>y. f y > f (last (take n ys))) (take n ys) = []"
    using sorted_key_last[OF s1] by (auto simp: filter_empty_conv not_less)
  moreover have "filter (\<lambda>y. f y > f (last (take n ys))) (drop n ys) = drop n ys"
  proof (rule filter_True, rule ballI)
    fix y assume "y \<in> set (drop n ys)"
    with s2 s3 last have "f (last (take n ys)) \<le> f y" "f (last (take n ys)) \<noteq> f y" by blast+
    then show "f y > f (last (take n ys))" by simp
  qed
  moreover have "filter (\<lambda>y. f y > f (last (take n ys))) ys =
      filter (\<lambda>y. f y > f (last (take n ys))) (take n ys) @ filter (\<lambda>y. f y > f (last (take n ys))) (drop n ys)"
    using filter_append[of "\<lambda>y. f y > f (last (take n ys))" "take n ys" "drop n ys"]
    by (simp only: append_take_drop_id)
  ultimately show ?thesis by (simp only: append_Nil)
qed

lemma remaining_next:
  assumes "stream_ok i s" and "take 1000 (remaining i after s) \<noteq> []"
  shows "remaining i (last_sequence (take 1000 (remaining i after s)) after) s = drop 1000 (remaining i after s)"
proof -
  let ?ys = "remaining i after s" and ?l = "last (take 1000 (remaining i after s))"
  have "?l \<in> set ?ys" using assms(2) by (meson in_set_takeD last_in_set)
  then have "ev_sequence ?l > after" by (simp add: remaining_def)
  then have "remaining i (ev_sequence ?l) s = filter (\<lambda>e. ev_sequence e > ev_sequence ?l) ?ys"
    by (auto simp: remaining_def intro!: filter_cong)
  also have "\<dots> = drop 1000 ?ys"
  proof (rule filter_after_take[OF _ _ assms(2)])
    show "sorted (map ev_sequence ?ys)" by (simp add: remaining_def sorted_filter sorted_events)
    show "distinct (map ev_sequence ?ys)" using assms(1) by (simp add: remaining_def stream_ok_def distinct_map_filter)
  qed
  finally show ?thesis using assms(2) by (simp add: last_sequence_def)
qed

lemma remaining_0: "stream_ok i s \<Longrightarrow> remaining i 0 s = events_of i s"
  by (simp add: remaining_def stream_ok_def filter_id_conv)

lemma safely_held_from_eq:
  "stream_ok i s \<Longrightarrow> safely_held_from i s after held = fold held_step (remaining i after s) held"
proof (induction i s after held rule: safely_held_from.induct)
  case (1 i s after held)
  let ?page = "take 1000 (remaining i after s)"
  show ?case
  proof (cases "length ?page < 1000")
    case True
    then have "?page = remaining i after s" by simp
    with True show ?thesis by (simp add: safely_held_from.simps[of i s after] event_page_1000)
  next
    case False
    then have ne: "?page \<noteq> []" by auto
    have "safely_held_from i s after held =
        safely_held_from i s (last_sequence ?page after) (fold held_step ?page held)"
      using False by (simp add: safely_held_from.simps[of i s after] event_page_1000 Let_def)
    also have "\<dots> = fold held_step (drop 1000 (remaining i after s)) (fold held_step ?page held)"
      using 1 False by (simp add: event_page_1000 remaining_next[OF 1(2) ne])
    also have "\<dots> = fold held_step (remaining i after s) held"
      by (metis append_take_drop_id comp_apply fold_append)
    finally show ?thesis .
  qed
qed

theorem safely_held_eq:
  "stream_ok i s \<Longrightarrow> robot_execution_safely_held i s = fold held_step (events_of i s) False"
  by (simp add: robot_execution_safely_held_def safely_held_from_eq remaining_0)

lemma may_steps_append:
  "may_steps (es @ fs) m = (case may_steps es m of None \<Rightarrow> None | Some m' \<Rightarrow> may_steps fs m')"
  by (induction es arbitrary: m) (auto split: option.splits)

lemma may_have_physical_from_eq:
  "stream_ok i s \<Longrightarrow> may_have_physical_from i s after m =
     (case may_steps (remaining i after s) m of None \<Rightarrow> True | Some m' \<Rightarrow> list_ex (\<lambda>x. \<not> snd x) m')"
proof (induction i s after m rule: may_have_physical_from.induct)
  case (1 i s after m)
  let ?page = "take 1000 (remaining i after s)"
  show ?case
  proof (cases "length ?page < 1000")
    case True
    then have "?page = remaining i after s" by simp
    with True show ?thesis
      by (simp add: may_have_physical_from.simps[of i s after] event_page_1000 split: option.splits)
  next
    case False
    then have ne: "?page \<noteq> []" by auto
    have all: "may_steps (remaining i after s) m =
        (case may_steps ?page m of None \<Rightarrow> None | Some m' \<Rightarrow> may_steps (drop 1000 (remaining i after s)) m')"
      using may_steps_append[of ?page "drop 1000 (remaining i after s)"] by simp
    show ?thesis
    proof (cases "may_steps ?page m")
      case None
      then show ?thesis
        by (simp add: may_have_physical_from.simps[of i s after] event_page_1000 all)
    next
      case (Some m')
      then have "may_have_physical_from i s after m = may_have_physical_from i s (last_sequence ?page after) m'"
        using False by (simp add: may_have_physical_from.simps[of i s after] event_page_1000)
      then show ?thesis
        using 1 False Some by (simp add: event_page_1000 remaining_next[OF 1(2) ne] all)
    qed
  qed
qed

section \<open>What the action log proves\<close>

text \<open>An event after which the action counts as physical: no action identifier, or a start that
  is not explicitly marked as neither physical nor physically started.\<close>

definition suspicious :: "execution_event \<Rightarrow> bool" where
  "suspicious e \<longleftrightarrow> action_event e \<and> (action_id e = [] \<or> ev_type e = ''action.started'' \<and>
     \<not> (get_bool (ev_payload e) ''physical'' = Some False \<and> get_bool (ev_payload e) ''physical_started'' = Some False))"

definition starts :: "execution_event \<Rightarrow> bool" where
  "starts e \<longleftrightarrow> ev_type e = ''action.started''"

lemma starts_action: "starts e \<Longrightarrow> action_event e"
  by (simp add: starts_def action_event_def has_prefix_def)

lemma may_step_None: "may_step e m = None \<longleftrightarrow> suspicious e"
  by (auto simp: may_step_def suspicious_def Let_def split: option.splits bool.splits if_splits)

lemma may_step_Some:
  "may_step e m = Some m' \<Longrightarrow> map_of m' k = (if action_event e \<and> action_id e = k
     then Some (starts e \<or> map_of m k = Some True) else map_of m k)"
  by (auto simp: may_step_def starts_def action_event_def has_prefix_def Let_def update_conv'
      split: option.splits bool.splits if_splits)

lemma may_step_distinct: "may_step e m = Some m' \<Longrightarrow> distinct (map fst m) \<Longrightarrow> distinct (map fst m')"
  by (auto simp: may_step_def Let_def distinct_update split: option.splits bool.splits if_splits)

lemma may_steps_None: "may_steps es m = None \<longleftrightarrow> (\<exists>e \<in> set es. suspicious e)"
proof (induction es arbitrary: m)
  case (Cons e es)
  then show ?case using may_step_None[of e m] by (cases "may_step e m") auto
qed simp

lemma may_steps_Some:
  "may_steps es m = Some m' \<Longrightarrow> map_of m' k =
     (if \<exists>e \<in> set es. action_event e \<and> action_id e = k
      then Some ((\<exists>e \<in> set es. starts e \<and> action_id e = k) \<or> map_of m k = Some True) else map_of m k)"
proof (induction es arbitrary: m)
  case (Cons e es)
  then obtain m1 where 1: "may_step e m = Some m1" "may_steps es m1 = Some m'" by (auto split: option.splits)
  show ?case using Cons.IH[OF 1(2)] may_step_Some[OF 1(1), of k] by (auto dest: starts_action)
qed simp

lemma may_steps_distinct: "may_steps es m = Some m' \<Longrightarrow> distinct (map fst m) \<Longrightarrow> distinct (map fst m')"
  by (induction es arbitrary: m) (auto split: option.splits dest: may_step_distinct)

theorem may_have_physical_iff:
  assumes "stream_ok i s"
  shows "robot_execution_may_have_physical_action i s \<longleftrightarrow>
    (\<exists>e \<in> set (events_of i s). suspicious e) \<or>
    (\<exists>e \<in> set (events_of i s). action_event e \<and>
       \<not> (\<exists>f \<in> set (events_of i s). starts f \<and> action_id f = action_id e))"
proof (cases "may_steps (events_of i s) []")
  case None
  then have "\<exists>e \<in> set (events_of i s). suspicious e" by (simp add: may_steps_None)
  with None show ?thesis
    using assms by (simp add: robot_execution_may_have_physical_action_def may_have_physical_from_eq remaining_0)
next
  case (Some m)
  have "distinct (map fst m)" using may_steps_distinct[OF Some] by simp
  then have "list_ex (\<lambda>x. \<not> snd x) m \<longleftrightarrow> (\<exists>k. map_of m k = Some False)"
    by (simp add: list_ex_iff map_of_eq_Some_iff) (metis prod.collapse snd_conv)
  also have "\<dots> \<longleftrightarrow> (\<exists>e \<in> set (events_of i s). action_event e \<and>
       \<not> (\<exists>f \<in> set (events_of i s). starts f \<and> action_id f = action_id e))"
    by (auto simp: may_steps_Some[OF Some])
  finally show ?thesis
    using assms Some may_steps_None[of "events_of i s" "[]"]
    by (simp add: robot_execution_may_have_physical_action_def may_have_physical_from_eq remaining_0)
qed

end
