(* ===== verification/SvcStop.thy ===== *)
theory SvcStop
  imports SvcSafety
begin

text \<open>
  Stopping (\<open>scheduler.go\<close>: \<open>stopPendingWork\<close>, \<open>stopWorkflowTasks\<close>, \<open>moveTaskTowardStop\<close>,
  \<open>stopTaskSubTasks\<close>, \<open>moveSubTaskTowardStop\<close>, \<open>settleTerminalExecutionForStop\<close>,
  \<open>pauseStoppingRobotSubTaskUnknown\<close>, \<open>convergeStoppedWorkflow\<close>; \<open>robot_execution.go\<close>:
  \<open>pauseRobotSubTask\<close>).  A Task is moved to \<open>stopping\<close> first; a SubTask that owns a Robot
  Execution only becomes \<open>stopped\<close> on evidence, else it is paused as \<open>execution_state_unknown\<close>.
\<close>

section \<open>Pausing\<close>

text \<open>\<open>if w, err := GetWorkflow(id); err == nil { k(w) }\<close>\<close>

definition with_workflow :: "string \<Rightarrow> (workflow \<Rightarrow> (sys, unit) prog) \<Rightarrow> (sys, unit) prog" where
  "with_workflow wid k = attempt (store (get_workflow wid)) (\<lambda>r. case r of Inl _ \<Rightarrow> ok () | Inr w \<Rightarrow> k w)"

definition pause_robot_subtask :: "env \<Rightarrow> task \<Rightarrow> subtask \<Rightarrow> string \<Rightarrow> raw_json \<Rightarrow> (sys, unit) prog" where
  "pause_robot_subtask E t x reason result =
     go (if st_status x = WSRunning \<or> st_status x = WSStopping
         then do_transition_subtask (st_id x) (st_revision x) WSPaused reason result else ok x) (\<lambda>x'.
     go (if t_status t = WSRunning \<or> t_status t = WSStopping
         then do_transition_task (t_id t) (t_revision t) WSPaused reason [] result else ok t) (\<lambda>_.
     go (with_workflow (t_workflow_id t) (\<lambda>w. if w_status w = WSStopping
         then quietly (do_transition_workflow (w_id w) (w_revision w) WSPaused reason) else ok ())) (\<lambda>_.
     go (publish_current E (t_workflow_id t) ''task.paused'') (\<lambda>_.
     append_milestone E (t_workflow_id t) (t_id t) (st_id x') ''task_paused'' WSPaused))))"

definition pause_stopping_robot_subtask_unknown :: "env \<Rightarrow> string \<Rightarrow> subtask \<Rightarrow> robot_execution \<Rightarrow> (sys, unit) prog" where
  "pause_stopping_robot_subtask_unknown E task_id x execution =
     go (store (get_task task_id)) (\<lambda>t.
     go (store (get_subtask (st_id x))) (\<lambda>current.
     pause_robot_subtask E t current ''execution_state_unknown''
       (robot_execution_result execution ''execution.state_unknown'' (e_error execution))))"

section \<open>Moving towards stop\<close>

definition stop_pending_work :: "workflow_view \<Rightarrow> (sys, unit) prog" where
  "stop_pending_work view =
     go (for_each (\<lambda>x. if st_status x = WSPending
         then go (do_transition_subtask (st_id x) (st_revision x) WSStopped ''workflow_stopped'' NoRaw) (\<lambda>_. ok ())
         else ok ()) (v_subtasks view)) (\<lambda>_.
     for_each (\<lambda>t. if t_status t = WSPending
         then go (do_transition_task (t_id t) (t_revision t) WSStopped ''workflow_stopped'' [] NoRaw) (\<lambda>_. ok ())
         else ok ()) (v_tasks view))"

text \<open>The target status of one attempt; \<open>None\<close>: nothing to do.\<close>

definition stop_target :: "work_status \<Rightarrow> work_status option" where
  "stop_target st = (case st of WSPending \<Rightarrow> Some WSStopped | WSRunning \<Rightarrow> Some WSStopping
     | WSPaused \<Rightarrow> Some WSStopping | _ \<Rightarrow> None)"

fun move_task_attempts :: "nat \<Rightarrow> task \<Rightarrow> (sys, task) prog" where
  "move_task_attempts 0 t = err ErrRevisionConflict"
| "move_task_attempts (Suc n) t = (case stop_target (t_status t) of
     None \<Rightarrow> ok t
   | Some to \<Rightarrow> attempt (do_transition_task (t_id t) (t_revision t) to ''user_stopped'' [] NoRaw) (\<lambda>r. case r of
       Inr u \<Rightarrow> ok u
     | Inl e \<Rightarrow> if \<not> errors_is e ErrRevisionConflict then err e
         else go (store (get_task (t_id t))) (move_task_attempts n)))"

definition move_task_toward_stop :: "task \<Rightarrow> (sys, task) prog" where
  "move_task_toward_stop = move_task_attempts 3"

fun move_subtask_attempts :: "nat \<Rightarrow> subtask \<Rightarrow> (sys, subtask) prog" where
  "move_subtask_attempts 0 x = err ErrRevisionConflict"
| "move_subtask_attempts (Suc n) x = (case stop_target (st_status x) of
     None \<Rightarrow> ok x
   | Some to \<Rightarrow> attempt (do_transition_subtask (st_id x) (st_revision x) to ''task_stopped'' NoRaw) (\<lambda>r. case r of
       Inr u \<Rightarrow> ok u
     | Inl e \<Rightarrow> if \<not> errors_is e ErrRevisionConflict then err e
         else go (store (get_subtask (st_id x))) (move_subtask_attempts n)))"

definition move_subtask_toward_stop :: "subtask \<Rightarrow> (sys, subtask) prog" where
  "move_subtask_toward_stop = move_subtask_attempts 3"

section \<open>Settling Executions\<close>

definition stop_subtask_with :: "subtask \<Rightarrow> string \<Rightarrow> raw_json \<Rightarrow> (sys, bool) prog" where
  "stop_subtask_with x reason result =
     go (do_transition_subtask (st_id x) (st_revision x) WSStopped reason result) (\<lambda>_. ok True)"

text \<open>The value says whether the SubTask is settled.\<close>

definition settle_terminal_execution_for_stop :: "env \<Rightarrow> string \<Rightarrow> subtask \<Rightarrow> robot_execution \<Rightarrow> (sys, bool) prog" where
  "settle_terminal_execution_for_stop E task_id x execution =
     (if e_status execution = ''completed'' then
        stop_subtask_with x ''robot_execution_completed_during_stop''
          (robot_execution_result execution ''execution.terminal'' (e_result execution))
      else if e_status execution = ''failed'' then reading (\<lambda>s.
        if safely_stopped_robot_execution execution \<or> robot_execution_safely_held (e_id execution) (dbase s) then
          stop_subtask_with x ''robot_execution_failed_but_held''
            (robot_execution_result execution ''execution.terminal'' (e_error execution))
        else if \<not> robot_execution_may_have_physical_action (e_id execution) (dbase s) then
          stop_subtask_with x ''robot_execution_failed_before_action''
            (robot_execution_result execution ''execution.terminal'' (e_error execution))
        else go (pause_stopping_robot_subtask_unknown E task_id x execution) (\<lambda>_. ok True))
      else if e_status execution = ''stopped'' \<or> e_status execution = ''cancelled'' then
        (if safely_stopped_robot_execution execution then
           stop_subtask_with x ''robot_execution_stopped''
             (robot_execution_result execution ''execution.stop_confirmed'' (e_result execution))
         else go (pause_stopping_robot_subtask_unknown E task_id x execution) (\<lambda>_. ok True))
      else ok False)"

text \<open>After a failed stop command: re-read the Execution.  \<open>Some b\<close>: go on or return; the error stays otherwise.\<close>

definition after_failed_stop :: "env \<Rightarrow> string \<Rightarrow> subtask \<Rightarrow> error \<Rightarrow> (sys, bool) prog" where
  "after_failed_stop E task_id x e = attempt (store (get_robot_execution (st_execution_ref x))) (\<lambda>r. case r of
     Inr execution \<Rightarrow>
       go (settle_terminal_execution_for_stop E task_id x execution) (\<lambda>handled.
       if handled then ok True
       else if e_status execution = ''interrupted'' then
         go (pause_stopping_robot_subtask_unknown E task_id x execution) (\<lambda>_. ok False)
       else err e)
   | Inl ge \<Rightarrow>
       if errors_is ge ErrNotFound then
         go (pause_stopping_robot_subtask_unknown E task_id x (missing_robot_execution (st_execution_ref x))) (\<lambda>_. ok False)
       else err ge)"

definition stop_robot_subtask :: "env \<Rightarrow> string \<Rightarrow> string \<Rightarrow> subtask \<Rightarrow> (sys, bool) prog" where
  "stop_robot_subtask E project_id task_id x = (case env_robot_stop E of
     None \<Rightarrow> err ErrExecutorUnavailable
   | Some stopper \<Rightarrow> attempt (rs_stop stopper project_id (st_execution_ref x) ''workflow_stopped'') (\<lambda>r. case r of
       Inr _ \<Rightarrow> ok True
     | Inl e \<Rightarrow> after_failed_stop E task_id x e))"

text \<open>One turn of the loop of \<open>stopTaskSubTasks\<close>: \<open>True\<close> is \<open>continue\<close>, \<open>False\<close> is \<open>return nil\<close>.\<close>

definition stop_task_subtask :: "env \<Rightarrow> string \<Rightarrow> string \<Rightarrow> subtask \<Rightarrow> (sys, bool) prog" where
  "stop_task_subtask E project_id task_id x0 =
     go (move_subtask_toward_stop x0) (\<lambda>x.
     if st_status x \<noteq> WSStopping then ok True
     else if st_execution_ref x = [] then
       attempt (do_transition_subtask (st_id x) (st_revision x) WSStopped ''task_stopped'' NoRaw) (\<lambda>r. case r of
         Inr _ \<Rightarrow> ok True
       | Inl e \<Rightarrow> if errors_is e ErrRevisionConflict then ok True else err e)
     else attempt (store (get_robot_execution (st_execution_ref x))) (\<lambda>r. case r of
       Inr execution \<Rightarrow>
         go (settle_terminal_execution_for_stop E task_id x execution) (\<lambda>handled.
         if handled then ok True else stop_robot_subtask E project_id task_id x)
     | Inl e \<Rightarrow>
         if errors_is e ErrNotFound then
           go (pause_stopping_robot_subtask_unknown E task_id x (missing_robot_execution (st_execution_ref x))) (\<lambda>_. ok False)
         else err e))"

fun until_return :: "('x \<Rightarrow> (sys, bool) prog) \<Rightarrow> 'x list \<Rightarrow> (sys, unit) prog" where
  "until_return f [] = ok ()"
| "until_return f (x # xs) = go (f x) (\<lambda>continue. if continue then until_return f xs else ok ())"

definition stop_task_subtasks :: "env \<Rightarrow> string \<Rightarrow> string \<Rightarrow> (sys, unit) prog" where
  "stop_task_subtasks E project_id task_id = reading (\<lambda>s.
     until_return (stop_task_subtask E project_id task_id) (must_subtasks task_id s))"

section \<open>Workflows\<close>

definition task_subtasks_safely_terminal :: "subtask list \<Rightarrow> bool" where
  "task_subtasks_safely_terminal items \<longleftrightarrow> list_all (\<lambda>x. terminal_work_status (st_status x)) items"

definition finish_stopped_task :: "task \<Rightarrow> (sys, unit) prog" where
  "finish_stopped_task t = reading (\<lambda>s.
     if t_status t = WSStopping \<and> task_subtasks_safely_terminal (must_subtasks (t_id t) s) then
       attempt (do_transition_task (t_id t) (t_revision t) WSStopped ''user_stopped'' [] NoRaw) (\<lambda>r. case r of
         Inr _ \<Rightarrow> ok ()
       | Inl e \<Rightarrow> if errors_is e ErrRevisionConflict then ok () else err e)
     else ok ())"

definition stop_workflow_task :: "env \<Rightarrow> string \<Rightarrow> task \<Rightarrow> (sys, unit) prog" where
  "stop_workflow_task E project_id t0 =
     go (if open_work_status (t_status t0) then cancel_task_attempt (t_id t0) else ok ()) (\<lambda>_.
     go (move_task_toward_stop t0) (\<lambda>t.
     go (stop_task_subtasks E project_id (t_id t)) (\<lambda>_.
     go (store (get_task (t_id t))) finish_stopped_task)))"

definition stop_workflow_tasks :: "env \<Rightarrow> string \<Rightarrow> string \<Rightarrow> (sys, unit) prog" where
  "stop_workflow_tasks E project_id workflow_id =
     go (store (get_workflow_view workflow_id)) (\<lambda>view.
     for_each (stop_workflow_task E project_id) (v_tasks view))"

definition blocks_convergence :: "task \<Rightarrow> bool" where
  "blocks_convergence t \<longleftrightarrow> t_status t = WSRunning \<or> t_status t = WSStopping \<or> t_status t = WSPaused"

text \<open>The value says whether every Task passed the loop.\<close>

fun converge_tasks :: "task list \<Rightarrow> (sys, bool) prog" where
  "converge_tasks [] = ok True"
| "converge_tasks (t # ts) =
    (if blocks_convergence t then ok False
     else go (release_task_resources (t_id t)) (\<lambda>_. converge_tasks ts))"

definition converge_stopped_workflow :: "env \<Rightarrow> string \<Rightarrow> (sys, unit) prog" where
  "converge_stopped_workflow E workflow_id =
     go (store (get_workflow_view workflow_id)) (\<lambda>view.
     if w_status (v_workflow view) \<noteq> WSStopping then ok ()
     else go (converge_tasks (v_tasks view)) (\<lambda>all.
     if \<not> all then ok ()
     else go (do_transition_workflow workflow_id (w_revision (v_workflow view)) WSStopped (w_reason (v_workflow view)))
       (\<lambda>_. publish_current E workflow_id ''workflow.stopped'')))"

end
