(* ===== verification/SvcSchedule.thy ===== *)
theory SvcSchedule
  imports SvcStop
begin

text \<open>
  Scheduling (\<open>internal/workflow/scheduler.go\<close>): the map binding of a Workflow, \<open>schedule\<close>,
  \<open>finishOrSchedule\<close>, \<open>failTask\<close>, the launches of Agent Runs (\<open>launchReservedTask\<close>,
  \<open>launchRunningTask\<close>, \<open>launchRobotAgentDecision\<close>) and \<open>continueOrFinishTask\<close>, the one place
  where a Task goes on after an Agent Run or a Robot Execution has ended.
\<close>

section \<open>Map scopes\<close>

record map_selection =
  ms_kind :: string
  ms_entity_id :: string
  ms_frame_id :: string
  ms_position :: "json list"

record map_binding =
  mb_map_id :: string
  mb_generation :: int
  mb_selections :: "map_selection list"

text \<open>\<open>DisallowUnknownFields\<close>; a JSON number is never NaN or infinite.\<close>

definition known_fields :: "string list \<Rightarrow> any_map \<Rightarrow> bool" where
  "known_fields ks fs \<longleftrightarrow> list_all (\<lambda>kv. fst kv \<in> set ks) fs"

definition json_number :: "json \<Rightarrow> json option" where
  "json_number j = (case j of JInt n \<Rightarrow> Some j | JNum t \<Rightarrow> Some j | _ \<Rightarrow> None)"

definition int64_of_field :: "any_map \<Rightarrow> string \<Rightarrow> int option" where
  "int64_of_field fs k = (case field fs k of
     None \<Rightarrow> Some 0
   | Some JNull \<Rightarrow> Some 0
   | Some (JInt n) \<Rightarrow> if - (2 ^ 63) \<le> n \<and> n < 2 ^ 63 then Some n else None
   | _ \<Rightarrow> None)"

definition selection_of_json :: "json \<Rightarrow> map_selection option" where
  "selection_of_json j =
     Option.bind (json_fields j) (\<lambda>fs.
     if \<not> known_fields [''kind'', ''entity_id'', ''frame_id'', ''position''] fs then None
     else Option.bind (string_of_field fs ''kind'') (\<lambda>kind.
     Option.bind (string_of_field fs ''entity_id'') (\<lambda>entity.
     Option.bind (string_of_field fs ''frame_id'') (\<lambda>frame.
     Option.bind (list_of_field json_number fs ''position'') (\<lambda>position.
       Some \<lparr>ms_kind = kind, ms_entity_id = entity, ms_frame_id = frame, ms_position = position\<rparr>)))))"

definition map_binding_of_json :: "json \<Rightarrow> map_binding option" where
  "map_binding_of_json j =
     Option.bind (json_fields j) (\<lambda>fs.
     if \<not> known_fields [''map_id'', ''generation'', ''selections''] fs then None
     else Option.bind (string_of_field fs ''map_id'') (\<lambda>map_id.
     Option.bind (int64_of_field fs ''generation'') (\<lambda>generation.
     Option.bind (list_of_field selection_of_json fs ''selections'') (\<lambda>selections.
       Some \<lparr>mb_map_id = map_id, mb_generation = generation, mb_selections = selections\<rparr>))))"

text \<open>The entity identifiers of the selections; \<open>None\<close> when one is malformed.\<close>

fun selection_ids :: "map_selection list \<Rightarrow> string list option" where
  "selection_ids [] = Some []"
| "selection_ids (m # ms) =
    (if ms_kind m = ''entity'' \<or> ms_kind m = ''region'' then
       (if trim_space (ms_entity_id m) = [] then None
        else map_option (\<lambda>ids. ms_entity_id m # ids) (selection_ids ms))
     else if ms_kind m = ''point'' then
       (if trim_space (ms_frame_id m) = [] \<or> length (ms_position m) \<noteq> 3 then None else selection_ids ms)
     else None)"

definition unbound_scope :: "raw_json \<Rightarrow> bool" where
  "unbound_scope raw \<longleftrightarrow> raw = NoRaw \<or> raw = Raw (JObj []) \<or> raw = Raw JNull"

definition decode_map_binding :: "raw_json \<Rightarrow> map_binding option" where
  "decode_map_binding raw = (case raw of Raw j \<Rightarrow> map_binding_of_json j | _ \<Rightarrow> None)"

definition validate_map_scope :: "string \<Rightarrow> raw_json \<Rightarrow> (sys, unit) prog" where
  "validate_map_scope project_id raw =
     (if unbound_scope raw then ok ()
      else case decode_map_binding raw of
        None \<Rightarrow> err ErrInvalidState
      | Some b \<Rightarrow>
          if \<not> valid_map_slot (mb_map_id b) \<or> mb_generation b \<le> 0 \<or> mb_selections b = [] then err ErrInvalidState
          else case selection_ids (mb_selections b) of
            None \<Rightarrow> err ErrInvalidState
          | Some ids \<Rightarrow> store (validate_map_reference project_id (mb_map_id b) (mb_generation b) ids))"

definition validate_workflow_map_binding :: "workflow \<Rightarrow> (sys, unit) prog" where
  "validate_workflow_map_binding w =
     (if unbound_scope (w_map_scope w) then ok () else validate_map_scope (w_project_id w) (w_map_scope w))"

section \<open>schedule\<close>

definition map_changed :: "env \<Rightarrow> string \<Rightarrow> task \<Rightarrow> (sys, unit) prog" where
  "map_changed E wid t =
     go (quietly (do_set_pending_task_reason (t_id t) (t_revision t) ''map_generation_changed'')) (\<lambda>_.
     go (with_workflow wid (\<lambda>w. if w_status w = WSRunning
         then quietly (do_transition_workflow wid (w_revision w) WSPaused ''map_generation_changed'') else ok ())) (\<lambda>_.
     publish_current E wid ''workflow.map_reference_stale''))"

definition launch_prepare :: "ctx \<Rightarrow> string \<Rightarrow> workflow \<Rightarrow> task \<Rightarrow> (sys, unit) prog" where
  "launch_prepare c user w t =
     go (reserve_task t) (\<lambda>reserved.
     if reserved then spawn (JobPrepare (without_cancel c) user w t None) else ok ())"

fun schedule_tasks :: "env \<Rightarrow> ctx \<Rightarrow> string \<Rightarrow> workflow \<Rightarrow> task list \<Rightarrow> (sys, unit) prog" where
  "schedule_tasks E c user w [] = ok ()"
| "schedule_tasks E c user w (t # ts) = attempt (validate_workflow_map_binding w) (\<lambda>r. case r of
     Inl _ \<Rightarrow> map_changed E (w_id w) t
   | Inr _ \<Rightarrow> go (launch_prepare c user w t) (\<lambda>_. schedule_tasks E c user w ts))"

definition schedulable_project :: "project \<Rightarrow> bool" where
  "schedulable_project p \<longleftrightarrow> pr_is_active p \<and> pr_archived_at p = None \<and> pr_mode p = ModeRunning"

definition schedule :: "env \<Rightarrow> ctx \<Rightarrow> string \<Rightarrow> string \<Rightarrow> (sys, unit) prog" where
  "schedule E c user wid =
     (if env_executor E = None then ok ()
      else attempt (store (get_workflow_view wid)) (\<lambda>rv. case rv of Inl _ \<Rightarrow> ok () | Inr view \<Rightarrow>
        let w = v_workflow view in
        if w_status w \<noteq> WSRunning \<or> w_confirmed_revision w \<noteq> w_revision w then ok ()
        else attempt (store (get_project (w_project_id w))) (\<lambda>rp. case rp of Inl _ \<Rightarrow> ok () | Inr p \<Rightarrow>
        if \<not> schedulable_project p then ok ()
        else attempt (store (list_runnable_tasks wid)) (\<lambda>rt. case rt of Inl _ \<Rightarrow> ok () | Inr runnable \<Rightarrow>
          schedule_tasks E c user w runnable))))"

definition waits_for_robot :: "task \<Rightarrow> bool" where
  "waits_for_robot t \<longleftrightarrow> t_status t = WSPending \<and> t_required_role t = ''robot'' \<and> t_waiting_reason t = ''waiting_resource''"

definition reschedule_waiting :: "env \<Rightarrow> ctx \<Rightarrow> workflow \<Rightarrow> (sys, unit) prog" where
  "reschedule_waiting E c w =
     (if w_status w \<noteq> WSRunning then ok ()
      else attempt (store (get_workflow_view (w_id w))) (\<lambda>rv. case rv of Inl _ \<Rightarrow> ok () | Inr view \<Rightarrow>
        if \<not> list_ex waits_for_robot (v_tasks view) then ok ()
        else attempt (store (get_project (w_project_id w))) (\<lambda>rp. case rp of Inl _ \<Rightarrow> ok () | Inr p \<Rightarrow>
          schedule E (without_cancel c) (pr_owner_id p) (w_id w))))"

definition on_robot_availability_changed :: "env \<Rightarrow> ctx \<Rightarrow> string \<Rightarrow> (sys, unit) prog" where
  "on_robot_availability_changed E c robot =
     (if trim_space robot = [] then ok ()
      else reading (\<lambda>s. if shutting_down s then ok ()
        else attempt (store list_unfinished_workflows) (\<lambda>r. case r of Inl _ \<Rightarrow> ok () | Inr ws \<Rightarrow>
          for_each (reschedule_waiting E c) ws)))"

section \<open>Ends\<close>

definition resume_workflow_terminal :: "env \<Rightarrow> string \<Rightarrow> (sys, unit) prog" where
  "resume_workflow_terminal E wid = (case env_resumer E of
     None \<Rightarrow> ok ()
   | Some port \<Rightarrow> attempt (store (get_workflow_view wid)) (\<lambda>r. case r of
       Inl _ \<Rightarrow> ok ()
     | Inr view \<Rightarrow> quietly (cr_resume_terminal port view)))"

definition workflow_ended :: "env \<Rightarrow> string \<Rightarrow> string \<Rightarrow> string \<Rightarrow> work_status \<Rightarrow> workflow \<Rightarrow> (sys, unit) prog" where
  "workflow_ended E wid typ kind st terminal =
     go (publish_current E wid typ) (\<lambda>_.
     go (append_milestone E wid [] [] kind st) (\<lambda>_.
     resume_workflow_terminal E (w_id terminal)))"

text \<open>\<open>if terminal, err := m; err == nil { ... }\<close>\<close>

definition on_success :: "(sys, 'a) prog \<Rightarrow> ('a \<Rightarrow> (sys, unit) prog) \<Rightarrow> (sys, unit) prog" where
  "on_success m k = attempt m (\<lambda>r. case r of Inl _ \<Rightarrow> ok () | Inr x \<Rightarrow> k x)"

definition fail_workflow :: "env \<Rightarrow> workflow_view \<Rightarrow> string \<Rightarrow> (sys, unit) prog" where
  "fail_workflow E view wid =
     go (quietly (stop_pending_work view)) (\<lambda>_.
     with_workflow wid (\<lambda>current. if w_status current = WSRunning then
         on_success (do_transition_workflow wid (w_revision current) WSFailed ''task_failed'')
           (workflow_ended E wid ''workflow.failed'' ''workflow_failed'' WSFailed)
       else ok ()))"

definition all_tasks_completed :: "task list \<Rightarrow> bool" where
  "all_tasks_completed ts \<longleftrightarrow> ts \<noteq> [] \<and> list_all (\<lambda>t. t_status t = WSCompleted) ts"

definition finish_or_schedule :: "env \<Rightarrow> ctx \<Rightarrow> string \<Rightarrow> string \<Rightarrow> (sys, unit) prog" where
  "finish_or_schedule E c user wid =
     attempt (store (get_workflow_view wid)) (\<lambda>r. case r of Inl _ \<Rightarrow> ok () | Inr view \<Rightarrow>
     let w = v_workflow view in
     if w_status w = WSStopping then quietly (converge_stopped_workflow E wid)
     else if w_status w \<noteq> WSRunning then ok ()
     else if list_ex (\<lambda>t. t_status t = WSFailed) (v_tasks view) then fail_workflow E view wid
     else if all_tasks_completed (v_tasks view) then
       on_success (do_transition_workflow wid (w_revision w) WSCompleted [])
         (workflow_ended E wid ''workflow.completed'' ''workflow_completed'' WSCompleted)
     else schedule E c user wid)"

definition fail_subtask :: "error \<Rightarrow> subtask \<Rightarrow> (sys, unit) prog" where
  "fail_subtask cause x =
     (if st_status x = WSRunning then
        quietly (do_transition_subtask (st_id x) (st_revision x) WSFailed (error_text cause) NoRaw)
      else if st_status x = WSPending then
        quietly (do_transition_subtask (st_id x) (st_revision x) WSStopped ''task_failed'' NoRaw)
      else ok ())"

definition fail_task :: "env \<Rightarrow> string \<Rightarrow> error \<Rightarrow> (sys, unit) prog" where
  "fail_task E task_id cause = attempt (store (get_task task_id)) (\<lambda>r. case r of Inl _ \<Rightarrow> ok () | Inr current \<Rightarrow>
     reading (\<lambda>s.
     go (for_each (fail_subtask cause) (must_subtasks task_id s)) (\<lambda>_.
     go (if t_status current = WSPending \<or> t_status current = WSRunning then
           quietly (do_transition_task (t_id current) (t_revision current) WSFailed (error_text cause) [] NoRaw)
         else ok ()) (\<lambda>_.
     go (publish_current E (t_workflow_id current) ''task.failed'') (\<lambda>_.
     go (append_milestone E (t_workflow_id current) (t_id current) [] ''task_failed'' WSFailed) (\<lambda>_.
     release_task_resources (t_id current)))))))"

section \<open>Launching Runs\<close>

definition task_run :: "workflow \<Rightarrow> task \<Rightarrow> string \<Rightarrow> string \<Rightarrow> time \<Rightarrow> run_session" where
  "task_run w t source i now =
     \<lparr>r_id = i, r_project_id = w_project_id w, r_chat_session_id = w_conversation_id w,
      r_workflow_id = w_id w, r_task_id = t_id t, r_source_interaction_id = source, r_kind = KTaskExecution,
      r_context_id = t_context_id t, r_agent_id = t_assigned_agent_id t, r_robot_id = [],
      r_agent_name = t_assigned_agent_id t, r_provider = [], r_endpoint = [], r_model = [], r_trace_id = [],
      r_status = RQueued, r_error = [], r_revision = 0, r_started_at = Some now, r_updated_at = Some now,
      r_ended_at = None\<rparr>"

definition create_run :: "run_session \<Rightarrow> (sys, unit) prog" where
  "create_run run = at_now (\<lambda>now. store (create_run_session run now))"

text \<open>From a running Run on: \<open>context.WithCancel(context.WithoutCancel(parent))\<close> and \<open>go s.executeTask\<close>.\<close>

definition start_execution :: "ctx \<Rightarrow> string \<Rightarrow> workflow \<Rightarrow> task \<Rightarrow> interaction option \<Rightarrow> run_session \<Rightarrow> (sys, unit) prog" where
  "start_execution c user w t answer run =
     go with_cancel (\<lambda>token.
     go (set_active (t_id t) token (r_id run)) (\<lambda>_.
     spawn (JobExecute (token # without_cancel c) user w t answer run)))"

definition launch_running_task :: "ctx \<Rightarrow> string \<Rightarrow> workflow \<Rightarrow> task \<Rightarrow> (sys, unit) prog" where
  "launch_running_task c user w t =
     go (store new_run_session_id) (\<lambda>i.
     at_now (\<lambda>now.
     go (create_run (task_run w t [] i now)) (\<lambda>_.
     go (do_transition_run i [RQueued] RRunning) (\<lambda>run.
     start_execution c user w t None run))))"

text \<open>The new Run and the Task it runs.\<close>

definition open_run :: "workflow \<Rightarrow> task \<Rightarrow> interaction option \<Rightarrow> bool \<Rightarrow> (sys, run_session \<times> task) prog" where
  "open_run w t answer retry =
     go (store new_run_session_id) (\<lambda>i.
     at_now (\<lambda>now. case answer of
       Some a \<Rightarrow>
         go (store (start_task_continuation (t_id t) (t_revision t) (task_run w t (i_id a) i now) retry now))
           (\<lambda>(run, running, created). if \<not> created then err ErrTaskBusy else ok (run, running))
     | None \<Rightarrow>
         go (create_run (task_run w t [] i now)) (\<lambda>_.
         attempt (do_transition_task (t_id t) (t_revision t) WSRunning [] [] NoRaw) (\<lambda>r. case r of
           Inr running \<Rightarrow> ok (task_run w t [] i now, running)
         | Inl e \<Rightarrow> go (quietly (do_finish_run i [RQueued] RFailed ''the Task did not start'')) (\<lambda>_. err e)))))"

definition launch_reserved_task ::
  "ctx \<Rightarrow> string \<Rightarrow> workflow \<Rightarrow> task \<Rightarrow> interaction option \<Rightarrow> bool \<Rightarrow> (sys, unit) prog" where
  "launch_reserved_task c user w t answer retry =
     go (open_run w t answer retry) (\<lambda>(run0, running).
     attempt (do_transition_run (r_id run0) [RQueued] RRunning) (\<lambda>r. case r of
       Inr run \<Rightarrow> go with_cancel (\<lambda>token.
         go (set_active (t_id t) token (r_id run)) (\<lambda>_.
         spawn (JobExecute (token # without_cancel c) user w running answer run)))
     | Inl e \<Rightarrow> go (quietly (do_transition_task (t_id running) (t_revision running) WSPaused ''run_start_failed'' [] NoRaw))
         (\<lambda>_. err e)))"

section \<open>Agent decisions\<close>

definition decision_executor :: "env \<Rightarrow> (ctx \<Rightarrow> agent_request \<Rightarrow> (sys, any_map) prog) option" where
  "decision_executor E = Option.bind (env_executor E) ex_decide"

definition launch_reserved_decision ::
  "ctx \<Rightarrow> task \<Rightarrow> subtask \<Rightarrow> robot_execution \<Rightarrow> any_map \<Rightarrow> interaction option \<Rightarrow> (sys, unit) prog" where
  "launch_reserved_decision c t x execution event answer =
     go with_cancel (\<lambda>token.
     go (bind_reserved_task_cancel (t_id t) token) (\<lambda>bound.
     if bound then spawn (JobDecision (token # c) t x execution event answer) else ok ()))"

definition launch_robot_agent_decision ::
  "env \<Rightarrow> ctx \<Rightarrow> task \<Rightarrow> subtask \<Rightarrow> robot_execution \<Rightarrow> any_map \<Rightarrow> (sys, unit) prog" where
  "launch_robot_agent_decision E c t x execution event =
     (if decision_executor E = None \<or> env_robot_reply E = None then
        quietly (pause_robot_subtask E t x ''robot_agent_runtime_unavailable''
          (robot_execution_result execution ''agent.requested'' event))
      else go (reserve_task t) (\<lambda>reserved.
        if reserved then launch_reserved_decision c t x execution event None else ok ()))"

section \<open>Going on with a Task\<close>

definition subtask_satisfied :: "subtask \<Rightarrow> bool" where
  "subtask_satisfied x \<longleftrightarrow> st_status x = WSCompleted \<or>
     (st_status x = WSFailed \<and> st_waiting_reason x = ''replaced_after_failure'') \<or>
     (st_status x = WSStopped \<and> st_waiting_reason x = ''revised_after_failure'')"

definition has_active_subtask :: "subtask list \<Rightarrow> bool" where
  "has_active_subtask items \<longleftrightarrow> list_ex (\<lambda>x. open_work_status (st_status x)) items"

definition moving_subtask :: "subtask \<Rightarrow> bool" where
  "moving_subtask x \<longleftrightarrow> st_status x = WSRunning \<or> st_status x = WSStopping"

definition complete_task :: "env \<Rightarrow> ctx \<Rightarrow> string \<Rightarrow> string \<Rightarrow> task \<Rightarrow> (sys, unit) prog" where
  "complete_task E c user wid t =
     go (do_transition_task (t_id t) (t_revision t) WSCompleted [] ''every SubTask has completed'' NoRaw) (\<lambda>completed.
     go (publish_current E (t_workflow_id completed) ''task.completed'') (\<lambda>_.
     go (append_milestone E (t_workflow_id completed) (t_id completed) [] ''task_completed'' WSCompleted) (\<lambda>_.
     go (release_task_resources (t_id completed)) (\<lambda>_.
     finish_or_schedule E c user wid))))"

text \<open>A SubTask is still moving: start the decision its Execution waits for, if any.\<close>

definition reconnect_decision :: "env \<Rightarrow> ctx \<Rightarrow> task \<Rightarrow> subtask \<Rightarrow> (sys, unit) prog" where
  "reconnect_decision E c t x =
     (if st_status x = WSRunning \<and> st_kind x = ''robot_skill'' \<and> st_execution_ref x \<noteq> [] then
        go (store (get_robot_execution (st_execution_ref x))) (\<lambda>execution.
        if e_status execution \<noteq> ''waiting_agent'' then ok ()
        else reading (\<lambda>s. case latest_robot_agent_request (e_id execution) (dbase s) of
          None \<Rightarrow> ok ()
        | Some requested \<Rightarrow> launch_robot_agent_decision E (without_cancel c) t x execution requested))
      else ok ())"

definition next_run :: "env \<Rightarrow> ctx \<Rightarrow> string \<Rightarrow> workflow \<Rightarrow> task \<Rightarrow> (sys, unit) prog" where
  "next_run E c user w t =
     go (store (list_runnable_subtasks (t_id t))) (\<lambda>runnable.
     if runnable = [] then ok ()
     else go (reserve_task t) (\<lambda>reserved.
     if \<not> reserved then ok ()
     else go (claim_task_resources w t) (\<lambda>claimed.
     if \<not> claimed then release_task (t_id t)
     else attempt (launch_running_task c user w t) (\<lambda>r. case r of
       Inr _ \<Rightarrow> ok ()
     | Inl e \<Rightarrow> go (release_task (t_id t)) (\<lambda>_. err e)))))"

definition continue_or_finish_task :: "env \<Rightarrow> ctx \<Rightarrow> string \<Rightarrow> (sys, unit) prog" where
  "continue_or_finish_task E c task_id =
     go (store (get_task task_id)) (\<lambda>t.
     go (store (get_workflow (t_workflow_id t))) (\<lambda>w.
     go (store (get_project (w_project_id w))) (\<lambda>p.
     if t_status t \<noteq> WSRunning then finish_or_schedule E c (pr_owner_id p) (w_id w)
     else go (store (list_subtasks (t_id t))) (\<lambda>items.
     if items \<noteq> [] \<and> list_all subtask_satisfied items then complete_task E c (pr_owner_id p) (w_id w) t
     else case find moving_subtask items of
       Some x \<Rightarrow> reconnect_decision E c t x
     | None \<Rightarrow> next_run E c (pr_owner_id p) w t))))"

end
