(* ===== verification/SvcJobs.thy ===== *)
theory SvcJobs
  imports SvcSchedule
begin

text \<open>
  The goroutines of the service: preparing a Task (\<open>prepareAndLaunchTask\<close>,
  \<open>prepareRunnableTask\<close>), running one SubTask of it (\<open>executeTask\<close>), asking the Agent for a
  decision a Robot Skill waits for (\<open>launchReservedRobotAgentDecisionWithAnswer\<close>) and recovering
  from a failed Execution (\<open>launchReservedTaskRecovery\<close>).  Each is started by a \<open>go\<close> statement,
  so its errors are never returned: the programs here end with \<open>ok ()\<close>.

  A port that is missing where the code calls it without a check is a nil dereference in Go; the
  model returns \<open>panic\<close> there.
\<close>

definition panic :: error where
  "panic = ErrText ''nil pointer dereference''"

section \<open>Preparing a Task\<close>

definition assignment_resolver :: "env \<Rightarrow> (ctx \<Rightarrow> project \<Rightarrow> workflow \<Rightarrow> task \<Rightarrow> (sys, task_assignment) prog) option" where
  "assignment_resolver E = Option.bind (env_planner E) pl_resolve"

definition bind_assignment :: "env \<Rightarrow> workflow \<Rightarrow> task \<Rightarrow> task_assignment \<Rightarrow> (sys, task) prog" where
  "bind_assignment E w t a =
     (if t_assigned_agent_id t = [] then
        go (at_now (\<lambda>now. store (assign_task (t_id t) (t_revision t) (ta_agent_id a) (ta_robot_id a) now))) (\<lambda>assigned.
        go (append_milestone E (w_id w) (t_id t) [] ''task_assigned'' WSPending) (\<lambda>_. ok assigned))
      else if t_assigned_agent_id t = ta_agent_id a \<and> t_assigned_robot_id t = ta_robot_id a then ok t
      else
        go (at_now (\<lambda>now. store (reassign_pending_task (t_id t) (t_revision t) (ta_agent_id a) (ta_robot_id a) now))) (\<lambda>assigned.
        go (append_milestone E (w_id w) (t_id t) [] ''task_reassigned'' WSPending) (\<lambda>_. ok assigned)))"

definition late_binding :: "env \<Rightarrow> ctx \<Rightarrow> workflow \<Rightarrow> task \<Rightarrow> (sys, task) prog" where
  "late_binding E c w t =
     (if t_assigned_agent_id t = [] \<or> t_required_role t = ''robot'' then
        go (store (get_project (w_project_id w))) (\<lambda>p.
        case assignment_resolver E of
          None \<Rightarrow> err ErrTaskWaitingResource
        | Some resolve \<Rightarrow> go (resolve c p w t) (bind_assignment E w t))
      else ok t)"

definition task_draft_of :: "task \<Rightarrow> task_draft" where
  "task_draft_of t = \<lparr>tdr_id = t_id t, tdr_required_role = t_required_role t,
     tdr_required_capabilities = t_required_capabilities t,
     tdr_resource_requirements = t_resource_requirements t, tdr_goal = t_goal t, tdr_input = t_input t,
     tdr_completion_criteria = t_completion_criteria t, tdr_subtasks = []\<rparr>"

definition ask_planner :: "env \<Rightarrow> ctx \<Rightarrow> task_plan_request \<Rightarrow> (sys, task_plan_result) prog" where
  "ask_planner E c req = (case env_planner E of
     None \<Rightarrow> err panic
   | Some pl \<Rightarrow> (case pl_plan_with_result pl of
       Some plan \<Rightarrow> plan c req
     | None \<Rightarrow> go (pl_plan pl c req) (\<lambda>subs. ok \<lparr>tr_summary = [], tr_subtasks = subs\<rparr>)))"

definition plan_subtasks :: "env \<Rightarrow> ctx \<Rightarrow> string \<Rightarrow> workflow \<Rightarrow> task \<Rightarrow> interaction option \<Rightarrow> (sys, task) prog" where
  "plan_subtasks E c user w t0 answer =
     go (store (get_project (w_project_id w))) (\<lambda>p.
     go (store (get_chat_session (w_conversation_id w))) (\<lambda>conversation.
     go (do_set_pending_task_reason (t_id t0) (t_revision t0) ''planning_subtasks'') (\<lambda>t.
     go (publish_current E (w_id w) ''task.planning_subtasks'') (\<lambda>_.
     go (ask_planner E c \<lparr>tp_user_id = user, tp_project = p, tp_conversation = conversation, tp_workflow = w,
           tp_task = task_draft_of t, tp_answer = answer\<rparr>) (\<lambda>plan.
     go (at_now (\<lambda>now. store (set_task_subtasks (t_id t) (t_revision t) (tr_subtasks plan) now))) (\<lambda>(updated, _).
     go (publish_current E (w_id w) ''task.subtasks_planned'') (\<lambda>_.
     go (append_task_plan_message E (w_id w) (t_id t) (tr_summary plan) (tr_subtasks plan)) (\<lambda>_.
     ok updated))))))))"

definition prepare_runnable_task :: "env \<Rightarrow> ctx \<Rightarrow> string \<Rightarrow> workflow \<Rightarrow> task \<Rightarrow> interaction option \<Rightarrow> (sys, task) prog" where
  "prepare_runnable_task E c user w t0 answer =
     go (late_binding E c w t0) (\<lambda>t.
     go (store (list_subtasks (t_id t))) (\<lambda>subs.
     if subs \<noteq> [] then ok t else plan_subtasks E c user w t answer))"

text \<open>A pending Task that has to wait for a resource.\<close>

definition wait_for_resource :: "env \<Rightarrow> workflow \<Rightarrow> string \<Rightarrow> (sys, unit) prog" where
  "wait_for_resource E w task_id =
     go (attempt (store (get_task task_id)) (\<lambda>r. case r of
         Inr current \<Rightarrow> if t_status current = WSPending
           then quietly (do_set_pending_task_reason (t_id current) (t_revision current) ''waiting_resource'') else ok ()
       | Inl _ \<Rightarrow> ok ())) (\<lambda>_.
     go (release_task task_id) (\<lambda>_.
     publish_current E (w_id w) ''task.waiting''))"

definition prepare_failed :: "env \<Rightarrow> ctx \<Rightarrow> string \<Rightarrow> workflow \<Rightarrow> task \<Rightarrow> error \<Rightarrow> (sys, unit) prog" where
  "prepare_failed E c user w t e =
     (if errors_is e ErrCanceled \<or> errors_is e ErrTaskWaitingInput then
        go (release_task (t_id t)) (\<lambda>_.
        if errors_is e ErrTaskWaitingInput then publish_current E (w_id w) ''task.waiting_input'' else ok ())
      else if errors_is e ErrTaskWaitingResource \<or> errors_is e ErrTaskBusy \<or> errors_is e ErrRobotReserved then
        wait_for_resource E w (t_id t)
      else
        go (release_task (t_id t)) (\<lambda>_.
        go (fail_task E (t_id t) e) (\<lambda>_.
        finish_or_schedule E (without_cancel c) user (w_id w))))"

definition launch_prepared :: "env \<Rightarrow> ctx \<Rightarrow> string \<Rightarrow> workflow \<Rightarrow> task \<Rightarrow> (sys, unit) prog" where
  "launch_prepared E c user w prepared =
     go (claim_task_resources w prepared) (\<lambda>claimed.
     if \<not> claimed then wait_for_resource E w (t_id prepared)
     else attempt (store (get_workflow (w_id w))) (\<lambda>r. case r of
       Inl _ \<Rightarrow> release_task (t_id prepared)
     | Inr current \<Rightarrow>
         if w_status current \<noteq> WSRunning \<or> w_confirmed_revision current \<noteq> w_revision current
           then release_task (t_id prepared)
         else attempt (launch_reserved_task c user current prepared None False) (\<lambda>l. case l of
           Inl _ \<Rightarrow> release_task (t_id prepared)
         | Inr _ \<Rightarrow>
             go (append_milestone E (w_id w) (t_id prepared) [] ''task_started'' WSRunning) (\<lambda>_.
             publish_current E (w_id w) ''task.started''))))"

definition prepare_and_launch_task :: "env \<Rightarrow> ctx \<Rightarrow> string \<Rightarrow> workflow \<Rightarrow> task \<Rightarrow> interaction option \<Rightarrow> (sys, unit) prog" where
  "prepare_and_launch_task E c user w t answer =
     go with_cancel (\<lambda>token.
     go (bind_reserved_task_cancel (t_id t) token) (\<lambda>bound.
     if \<not> bound then ok ()
     else attempt (prepare_runnable_task E (token # c) user w t answer) (\<lambda>r.
       go (writing (cancel_token token)) (\<lambda>_. case r of
         Inl e \<Rightarrow> prepare_failed E c user w t e
       | Inr prepared \<Rightarrow> launch_prepared E c user w prepared))))"

section \<open>Running a SubTask\<close>

definition call_executor :: "env \<Rightarrow> ctx \<Rightarrow> task_execution \<Rightarrow> (sys, task_result) prog" where
  "call_executor E c req = (case env_executor E of None \<Rightarrow> err panic | Some ex \<Rightarrow> ex_execute ex c req)"

text \<open>The body \<open>json.Marshal\<close> makes of a result: nothing when the evidence does not parse.\<close>

definition result_body :: "task_result \<Rightarrow> raw_json" where
  "result_body r = (case res_evidence r of
     Raw j \<Rightarrow> Raw (JObj [(''evidence'', j), (''summary'', JStr (res_summary r))])
   | NoRaw \<Rightarrow> Raw (JObj [(''evidence'', JNull), (''summary'', JStr (res_summary r))])
   | BadRaw _ \<Rightarrow> NoRaw)"

definition attach_after_run :: "subtask \<Rightarrow> robot_execution \<Rightarrow> (sys, unit) prog" where
  "attach_after_run x execution =
     attempt (at_now (\<lambda>now. store (attach_subtask_execution (st_id x) (st_revision x) (e_id execution) now))) (\<lambda>r. case r of
       Inr _ \<Rightarrow> ok ()
     | Inl ae \<Rightarrow> attempt (store (get_subtask (st_id x))) (\<lambda>l. case l of
         Inl le \<Rightarrow> err (Wrapped ''re-read Robot SubTask'' le)
       | Inr newest \<Rightarrow>
           if \<not> errors_is ae ErrRevisionConflict \<or> st_execution_ref newest \<noteq> e_id execution
             then err (Wrapped ''attach Robot Execution'' ae)
           else ok ()))"

definition execution_of :: "subtask \<Rightarrow> (sys, robot_execution) prog" where
  "execution_of x = attempt (store (get_robot_execution_by_subtask (st_id x))) (\<lambda>r. case r of
     Inr execution \<Rightarrow> ok execution
   | Inl e \<Rightarrow> err (Wrapped ''the Robot Agent did not call robot.run'' e))"

definition no_result :: task_result where
  "no_result = \<lparr>res_summary = [], res_evidence = NoRaw\<rparr>"

text \<open>The inner function of \<open>executeTask\<close>: the result, and whether a Robot Execution was started.\<close>

definition run_one_subtask ::
  "env \<Rightarrow> ctx \<Rightarrow> string \<Rightarrow> project \<Rightarrow> chat_session \<Rightarrow> workflow \<Rightarrow> task \<Rightarrow> interaction option \<Rightarrow> run_session \<Rightarrow>
   (sys, task_result \<times> bool) prog" where
  "run_one_subtask E c user p conversation w t answer run =
     go (store (list_runnable_subtasks (t_id t))) (\<lambda>runnable. case runnable of
       [] \<Rightarrow> ok (no_result, False)
     | x # _ \<Rightarrow>
       go (do_transition_subtask (st_id x) (st_revision x) WSRunning [] NoRaw) (\<lambda>current.
       go (publish_current E (w_id w) ''subtask.started'') (\<lambda>_.
       go (call_executor E c \<lparr>te_user_id = user, te_project = p, te_conversation = conversation, te_workflow = w,
             te_task = t, te_subtasks = [current], te_answer = answer, te_run = run\<rparr>) (\<lambda>result.
       if st_kind current = ''robot_skill'' then
         go (execution_of current) (\<lambda>execution.
         go (attach_after_run current execution) (\<lambda>_. ok (result, True)))
       else
         go (store (get_subtask (st_id current))) (\<lambda>newest.
         go (do_transition_subtask (st_id newest) (st_revision newest) WSCompleted [] (result_body result)) (\<lambda>_.
         go (publish_current E (w_id w) ''subtask.completed'') (\<lambda>_. ok (result, False))))))))"

definition stop_after_run :: "env \<Rightarrow> workflow \<Rightarrow> task \<Rightarrow> (sys, run_status \<times> string) prog" where
  "stop_after_run E w t =
     go (quietly (stop_task_subtasks E (w_project_id w) (t_id t))) (\<lambda>_.
     go (attempt (store (get_task (t_id t))) (\<lambda>r. case r of
         Inl _ \<Rightarrow> ok ()
       | Inr current \<Rightarrow> reading (\<lambda>s.
           if t_status current = WSStopping \<and> task_subtasks_safely_terminal (must_subtasks (t_id t) s) then
             quietly (do_transition_task (t_id current) (t_revision current) WSStopped ''user_stopped'' [] NoRaw)
           else ok ()))) (\<lambda>_.
     ok (RCancelled, ''the Task was stopped'')))"

definition complete_after_run :: "env \<Rightarrow> workflow \<Rightarrow> task \<Rightarrow> task_result \<Rightarrow> (sys, unit) prog" where
  "complete_after_run E w t result = attempt (store (get_task (t_id t))) (\<lambda>r. case r of
     Inl _ \<Rightarrow> ok ()
   | Inr current \<Rightarrow>
       if t_status current = WSRunning then
         go (quietly (do_transition_task (t_id t) (t_revision current) WSCompleted [] (res_summary result) (res_evidence result))) (\<lambda>_.
         go (publish_current E (w_id w) ''task.completed'') (\<lambda>_.
         go (append_milestone E (w_id w) (t_id t) [] ''task_completed'' WSCompleted) (\<lambda>_.
         release_task_resources (t_id t))))
       else ok ())"

definition not_ended :: "run_status \<times> string" where
  "not_ended = (RFailed, ''the Task Runtime did not end'')"

definition waits_for_input :: "error + 'a \<Rightarrow> bool" where
  "waits_for_input r = (case r of Inl e \<Rightarrow> errors_is e ErrTaskWaitingInput | Inr _ \<Rightarrow> False)"

definition was_cancelled :: "error + 'a \<Rightarrow> bool" where
  "was_cancelled r = (case r of Inl e \<Rightarrow> errors_is e ErrCanceled | Inr _ \<Rightarrow> False)"

text \<open>What \<open>executeTask\<close> does with the outcome, and the status the Run ends with.\<close>

definition settle_run :: "env \<Rightarrow> workflow \<Rightarrow> task \<Rightarrow> error + task_result \<times> bool \<Rightarrow> (sys, run_status \<times> string) prog" where
  "settle_run E w t outcome = attempt (store (get_task (t_id t))) (\<lambda>r. case r of
     Inl _ \<Rightarrow> ok not_ended
   | Inr current \<Rightarrow>
       if t_status current = WSStopping \<or> was_cancelled outcome then stop_after_run E w t
       else if t_status current = WSPaused \<and> waits_for_input outcome then
         go (publish_current E (w_id w) ''task.waiting_input'') (\<lambda>_.
         go (append_milestone E (w_id w) (t_id current) [] ''task_waiting_input'' WSPaused) (\<lambda>_.
         ok (RCompleted, [])))
       else (case outcome of
         Inl e \<Rightarrow> go (fail_task E (t_id t) e) (\<lambda>_. ok (RFailed, error_text e))
       | Inr (result, started) \<Rightarrow> reading (\<lambda>s.
           if started \<or> has_active_subtask (must_subtasks (t_id t) s) then ok (RCompleted, [])
           else go (complete_after_run E w t result) (\<lambda>_. ok (RCompleted, [])))))"

definition execute_body ::
  "env \<Rightarrow> ctx \<Rightarrow> string \<Rightarrow> workflow \<Rightarrow> task \<Rightarrow> interaction option \<Rightarrow> run_session \<Rightarrow> (sys, run_status \<times> string) prog" where
  "execute_body E c user w t answer run =
     attempt (store (get_project (w_project_id w))) (\<lambda>rp. case rp of
       Inl e \<Rightarrow> go (fail_task E (t_id t) e) (\<lambda>_. ok not_ended)
     | Inr p \<Rightarrow> attempt (store (get_chat_session (w_conversation_id w))) (\<lambda>rc. case rc of
         Inl e \<Rightarrow> go (fail_task E (t_id t) e) (\<lambda>_. ok not_ended)
       | Inr conversation \<Rightarrow> attempt (run_one_subtask E c user p conversation w t answer run) (settle_run E w t)))"

definition execute_task ::
  "env \<Rightarrow> ctx \<Rightarrow> string \<Rightarrow> workflow \<Rightarrow> task \<Rightarrow> interaction option \<Rightarrow> run_session \<Rightarrow> (sys, unit) prog" where
  "execute_task E c user w t answer run =
     go (execute_body E c user w t answer run) (\<lambda>(status, message).
     go (quietly (do_finish_run (r_id run) [] status message)) (\<lambda>_.
     go (release_task (t_id t)) (\<lambda>_.
     quietly (continue_or_finish_task E [] (t_id t)))))"

end
