(* ===== verification/SvcRobot.thy ===== *)
theory SvcRobot
  imports SvcJobs
begin

text \<open>
  \<open>internal/workflow/robot_execution.go\<close>: the decision and the recovery an Agent makes for a
  Robot Execution, and \<open>OnRobotExecutionChanged\<close>, which turns the lifecycle of an Execution into
  the state of its SubTask, Task and Workflow.
\<close>

section \<open>Decisions\<close>

text \<open>
  \<open>int64(number)\<close> of a decoded number: an integer literal as it is, any other literal \<open>m.fEe\<close>
  truncated towards zero.
\<close>

definition is_digit :: "char \<Rightarrow> bool" where
  "is_digit ch \<longleftrightarrow> of_char ch \<in> {48 .. 57 :: nat}"

definition digits_value :: "string \<Rightarrow> nat" where
  "digits_value ds = foldl (\<lambda>n ch. 10 * n + (of_char ch - 48)) 0 ds"

definition exponent_of :: "string \<Rightarrow> int" where
  "exponent_of t = (case t of
     [] \<Rightarrow> 0
   | _ # rest \<Rightarrow> (case rest of
       [] \<Rightarrow> 0
     | ch # ds \<Rightarrow> if ch = CHR ''-'' then - int (digits_value ds)
         else if ch = CHR ''+'' then int (digits_value ds) else int (digits_value rest)))"

definition truncate_literal :: "string \<Rightarrow> int" where
  "truncate_literal t0 =
     (let negative = has_prefix t0 ''-''; t = (if negative then drop 1 t0 else t0);
          whole = takeWhile is_digit t; t1 = dropWhile is_digit t;
          fraction = (if has_prefix t1 ''.'' then takeWhile is_digit (drop 1 t1) else []);
          t2 = (if has_prefix t1 ''.'' then dropWhile is_digit (drop 1 t1) else t1);
          n = digits_value (whole @ fraction); scale = exponent_of t2 - int (length fraction);
          v = (if scale \<ge> 0 then int n * 10 ^ nat scale else int n div 10 ^ nat (- scale))
      in if negative then - v else v)"

definition decision_revision :: "json option \<Rightarrow> int" where
  "decision_revision j = (case j of Some (JInt n) \<Rightarrow> n | Some (JNum t) \<Rightarrow> truncate_literal t | _ \<Rightarrow> 0)"

definition string_value_of :: "json option \<Rightarrow> string" where
  "string_value_of j = (case j of Some (JStr t) \<Rightarrow> t | _ \<Rightarrow> [])"

definition max_robot_agent_decision_attempts :: nat where
  "max_robot_agent_decision_attempts = 3"

definition record_robot_decision_attempt :: "string \<Rightarrow> nat \<Rightarrow> error option \<Rightarrow> (sys, unit) prog" where
  "record_robot_decision_attempt execution_id attempt_no cause =
     go (store (next_robot_execution_event_sequence execution_id)) (\<lambda>sequence. at_now (\<lambda>now.
     store (append_robot_execution_event
       \<lparr>ev_execution_id = execution_id, ev_sequence = sequence, ev_type = ''agent.decision_attempted'',
        ev_payload = (''decision_attempts'', JInt (int attempt_no)) #
          (case cause of None \<Rightarrow> [] | Some e \<Rightarrow> [(''decision_error'', JStr (error_text e))]),
        ev_created_at = now\<rparr>)))"

definition pause_robot_decision_failure ::
  "env \<Rightarrow> string \<Rightarrow> string \<Rightarrow> robot_execution \<Rightarrow> any_map \<Rightarrow> error \<Rightarrow> nat \<Rightarrow> (sys, unit) prog" where
  "pause_robot_decision_failure E task_id subtask_id execution event cause attempts =
     attempt (store (get_task task_id)) (\<lambda>rt. case rt of Inl _ \<Rightarrow> ok () | Inr t \<Rightarrow>
     attempt (store (get_subtask subtask_id)) (\<lambda>rx. case rx of Inl _ \<Rightarrow> ok () | Inr x \<Rightarrow>
     let payload = AList.update ''decision_attempts'' (JInt (int attempts))
           (AList.update ''decision_error'' (JStr (error_text cause)) event) in
     go (quietly (pause_robot_subtask E t x ''robot_agent_decision_failed''
         (robot_execution_result execution ''agent.decision_failed'' payload))) (\<lambda>_.
     with_workflow (t_workflow_id t) (\<lambda>w. if w_status w = WSRunning then
         go (quietly (do_transition_workflow (w_id w) (w_revision w) WSPaused ''robot_agent_decision_failed''))
           (\<lambda>_. publish_current E (t_workflow_id t) ''workflow.paused'')
       else ok ()))))"

text \<open>\<open>robotDecisionStillCurrent\<close>\<close>

definition robot_decision_still_current :: "string \<Rightarrow> string \<Rightarrow> string \<Rightarrow> db \<Rightarrow> bool" where
  "robot_decision_still_current task_id subtask_id execution_id d =
     (case (find_by t_id task_id (tasks d), find_by st_id subtask_id (subtasks d)) of
        (Some t, Some x) \<Rightarrow>
          (case (fst (get_robot_execution execution_id d), find_by w_id (t_workflow_id t) (workflows d)) of
             (Inr execution, Some w) \<Rightarrow>
               w_status w = WSRunning \<and> t_status t = WSRunning \<and> st_status x = WSRunning \<and>
               st_execution_ref x = execution_id \<and> e_status execution = ''waiting_agent''
           | _ \<Rightarrow> False)
      | _ \<Rightarrow> False)"

datatype decision_step = Decided any_map | Abandoned | RetryDecision error | FailedDecision error

text \<open>One turn of the loop; whether another attempt is left is decided by the caller.\<close>

definition decide_once ::
  "(ctx \<Rightarrow> agent_request \<Rightarrow> (sys, any_map) prog) \<Rightarrow> ctx \<Rightarrow> agent_request \<Rightarrow> nat \<Rightarrow> (sys, decision_step) prog" where
  "decide_once resolve c req n = attempt (resolve c req) (\<lambda>r. case r of
     Inr d \<Rightarrow> go (record_robot_decision_attempt (e_id (ar_execution req)) n None) (\<lambda>_. ok (Decided d))
   | Inl e \<Rightarrow> go (record_robot_decision_attempt (e_id (ar_execution req)) n (Some e)) (\<lambda>_. reading (\<lambda>s.
       ok (if errors_is e ErrCanceled \<or> errors_is e ErrTaskWaitingInput then Abandoned
           else if errors_is e ErrRobotAgentDecisionInvalid \<and> \<not> ctx_cancelled c s then RetryDecision e
           else FailedDecision e))))"

text \<open>The loop with \<open>left\<close> attempts left after attempt \<open>n\<close>; \<open>None\<close>: the goroutine returns.\<close>

fun decide_attempts ::
  "env \<Rightarrow> (ctx \<Rightarrow> agent_request \<Rightarrow> (sys, any_map) prog) \<Rightarrow> ctx \<Rightarrow> agent_request \<Rightarrow> nat \<Rightarrow> nat \<Rightarrow>
   (sys, (any_map \<times> nat) option) prog" where
  "decide_attempts E resolve c req 0 n = go (decide_once resolve c req n) (\<lambda>d. case d of
     Decided m \<Rightarrow> ok (Some (m, n))
   | Abandoned \<Rightarrow> ok None
   | RetryDecision e \<Rightarrow> go (pause_robot_decision_failure E (t_id (ar_task req)) (st_id (ar_subtask req))
       (ar_execution req) (ar_event req) e n) (\<lambda>_. ok None)
   | FailedDecision e \<Rightarrow> go (pause_robot_decision_failure E (t_id (ar_task req)) (st_id (ar_subtask req))
       (ar_execution req) (ar_event req) e n) (\<lambda>_. ok None))"
| "decide_attempts E resolve c req (Suc left) n = go (decide_once resolve c req n) (\<lambda>d. case d of
     Decided m \<Rightarrow> ok (Some (m, n))
   | Abandoned \<Rightarrow> ok None
   | RetryDecision e \<Rightarrow> decide_attempts E resolve c req left (n + 1)
   | FailedDecision e \<Rightarrow> go (pause_robot_decision_failure E (t_id (ar_task req)) (st_id (ar_subtask req))
       (ar_execution req) (ar_event req) e n) (\<lambda>_. ok None))"

definition agent_reply :: "robot_execution \<Rightarrow> any_map \<Rightarrow> any_map \<Rightarrow> nat \<Rightarrow> any_map" where
  "agent_reply execution event decision attempts =
     [(''execution_id'', JStr (e_id execution)), (''skill_name'', JStr (e_skill_name execution)),
      (''stage'', JStr (string_value_of (map_of event ''stage''))),
      (''decision_key'', JStr (string_value_of (map_of event ''decision_key''))),
      (''decision_revision'', JInt (decision_revision (map_of event ''decision_revision''))),
      (''payload'', JObj decision), (''decision_attempts'', JInt (int attempts))]"

definition send_decision :: "env \<Rightarrow> ctx \<Rightarrow> task \<Rightarrow> subtask \<Rightarrow> robot_execution \<Rightarrow> any_map \<Rightarrow> any_map \<Rightarrow> nat \<Rightarrow> (sys, unit) prog" where
  "send_decision E c t x execution event decision attempts = reading (\<lambda>s.
     if ctx_cancelled c s \<or> \<not> robot_decision_still_current (t_id t) (st_id x) (e_id execution) (dbase s) then ok ()
     else attempt (case env_robot_reply E of
         None \<Rightarrow> err panic
       | Some reply \<Rightarrow> reply (e_id execution) (agent_reply execution event decision attempts)) (\<lambda>r. case r of
       Inr _ \<Rightarrow> ok ()
     | Inl e \<Rightarrow> pause_robot_decision_failure E (t_id t) (st_id x) execution event e attempts))"

definition with_owner ::
  "(error \<Rightarrow> (sys, unit) prog) \<Rightarrow> string \<Rightarrow> (workflow \<Rightarrow> project \<Rightarrow> chat_session \<Rightarrow> (sys, unit) prog) \<Rightarrow> (sys, unit) prog" where
  "with_owner failed wid k =
     attempt (store (get_workflow wid)) (\<lambda>rw. case rw of Inl e \<Rightarrow> failed e | Inr w \<Rightarrow>
     attempt (store (get_project (w_project_id w))) (\<lambda>rp. case rp of Inl e \<Rightarrow> failed e | Inr p \<Rightarrow>
     attempt (store (get_chat_session (w_conversation_id w))) (\<lambda>rc. case rc of Inl e \<Rightarrow> failed e | Inr conversation \<Rightarrow>
       k w p conversation)))"

definition run_decision ::
  "env \<Rightarrow> ctx \<Rightarrow> task \<Rightarrow> subtask \<Rightarrow> robot_execution \<Rightarrow> any_map \<Rightarrow> interaction option \<Rightarrow> (sys, unit) prog" where
  "run_decision E c t x execution event answer =
     go (with_owner (\<lambda>e. pause_robot_decision_failure E (t_id t) (st_id x) execution event e 0) (t_workflow_id t)
       (\<lambda>w p conversation. case decision_executor E of
          None \<Rightarrow> ok ()
        | Some resolve \<Rightarrow>
          go (decide_attempts E resolve c \<lparr>ar_user_id = pr_owner_id p, ar_project = p, ar_conversation = conversation,
               ar_workflow = w, ar_task = t, ar_subtask = x, ar_execution = execution, ar_event = event,
               ar_answer = answer\<rparr> (max_robot_agent_decision_attempts - 1) 1) (\<lambda>d. case d of
            None \<Rightarrow> ok ()
          | Some (decision, attempts) \<Rightarrow> send_decision E c t x execution event decision attempts))) (\<lambda>_.
     release_task (t_id t))"

section \<open>Recovery\<close>

definition recovery_executor :: "env \<Rightarrow> (ctx \<Rightarrow> agent_request \<Rightarrow> (sys, task_recovery_decision) prog) option" where
  "recovery_executor E = Option.bind (env_executor E) ex_recover"

definition fail_paused_subtask :: "string \<Rightarrow> (sys, unit) prog" where
  "fail_paused_subtask subtask_id = attempt (store (get_subtask subtask_id)) (\<lambda>r. case r of
     Inr x \<Rightarrow> if st_status x = WSPaused
       then quietly (do_transition_subtask (st_id x) (st_revision x) WSFailed ''recovery_exhausted'' (st_result x)) else ok ()
   | Inl _ \<Rightarrow> ok ())"

definition stop_pending_subtask :: "subtask \<Rightarrow> (sys, unit) prog" where
  "stop_pending_subtask x = (if st_status x = WSPending
     then quietly (do_transition_subtask (st_id x) (st_revision x) WSStopped ''task_failed'' NoRaw) else ok ())"

definition finish_failed_task :: "env \<Rightarrow> string \<Rightarrow> task \<Rightarrow> (sys, unit) prog" where
  "finish_failed_task E failed_subtask_id failed =
     go (publish_current E (t_workflow_id failed) ''task.failed'') (\<lambda>_.
     go (append_milestone E (t_workflow_id failed) (t_id failed) failed_subtask_id ''task_failed'' WSFailed) (\<lambda>_.
     go (release_task_resources (t_id failed)) (\<lambda>_.
     with_workflow (t_workflow_id failed) (\<lambda>w. attempt (store (get_project (w_project_id w))) (\<lambda>rp. case rp of
       Inl _ \<Rightarrow> ok ()
     | Inr p \<Rightarrow> finish_or_schedule E [] (pr_owner_id p) (t_workflow_id failed))))))"

definition fail_paused_task :: "env \<Rightarrow> string \<Rightarrow> string \<Rightarrow> string \<Rightarrow> (sys, unit) prog" where
  "fail_paused_task E task_id failed_subtask_id summary = attempt (store (get_task task_id)) (\<lambda>r. case r of
     Inl _ \<Rightarrow> ok ()
   | Inr t \<Rightarrow>
     if t_status t \<noteq> WSPaused then ok ()
     else go (fail_paused_subtask failed_subtask_id) (\<lambda>_. reading (\<lambda>s.
       go (for_each stop_pending_subtask (must_subtasks (t_id t) s)) (\<lambda>_.
       attempt (store (get_task (t_id t))) (\<lambda>l. case l of
         Inl _ \<Rightarrow> ok ()
       | Inr newest \<Rightarrow>
         if t_status newest \<noteq> WSPaused then ok ()
         else on_success (do_transition_task (t_id newest) (t_revision newest) WSFailed ''robot_recovery_failed''
             (if trim_space summary = [] then ''the recovery budget of the Robot Skill is exhausted'' else summary) NoRaw)
           (finish_failed_task E failed_subtask_id))))))"

text \<open>\<open>failedRecoveryStillCurrent\<close>\<close>

definition failed_recovery_still_current :: "task \<Rightarrow> subtask \<Rightarrow> robot_execution \<Rightarrow> db \<Rightarrow> bool" where
  "failed_recovery_still_current t x execution d =
     (case (find_by t_id (t_id t) (tasks d), find_by st_id (st_id x) (subtasks d)) of
        (Some t', Some x') \<Rightarrow>
          (case (fst (get_robot_execution (e_id execution) d), find_by w_id (t_workflow_id t) (workflows d)) of
             (Inr execution', Some w) \<Rightarrow>
               w_status w = WSRunning \<and> t_status t' = WSPaused \<and> t_waiting_reason t' = ''recovery_running'' \<and>
               t_revision t' = t_revision t \<and> st_status x' = WSPaused \<and>
               st_waiting_reason x' = ''recovery_running'' \<and> st_execution_ref x' = e_id execution \<and>
               e_status execution' = ''failed''
           | _ \<Rightarrow> False)
      | _ \<Rightarrow> False)"

definition recovery_exhausted :: "env \<Rightarrow> task \<Rightarrow> subtask \<Rightarrow> (sys, unit) prog" where
  "recovery_exhausted E t x =
     go (attempt (store (get_task (t_id t))) (\<lambda>rt. case rt of Inl _ \<Rightarrow> ok () | Inr t' \<Rightarrow>
         attempt (store (get_subtask (st_id x))) (\<lambda>rx. case rx of Inl _ \<Rightarrow> ok () | Inr x' \<Rightarrow>
         if t_status t' = WSPaused \<and> t_waiting_reason t' = ''recovery_running'' \<and>
            st_status x' = WSPaused \<and> st_waiting_reason x' = ''recovery_running'' then
           quietly (do_update_wait_reason (t_id t') (t_revision t') (st_id x') (st_revision x')
             ''recovery_running'' ''recovery_exhausted'')
         else ok ()))) (\<lambda>_.
     append_milestone E (t_workflow_id t) (t_id t) (st_id x) ''task_recovery_failed'' WSPaused)"

text \<open>What the goroutine does with a decision; the value is \<open>continueAfterRecovery\<close>.\<close>

definition apply_recovery :: "env \<Rightarrow> task \<Rightarrow> subtask \<Rightarrow> task_recovery_decision \<Rightarrow> (sys, bool) prog" where
  "apply_recovery E t x decision =
     (if rd_decision decision = ''revise_pending'' then
        attempt (at_now (\<lambda>now. store (apply_failed_robot_recovery (t_id t) (t_revision t) (st_id x) (rd_replacements decision) now)))
          (\<lambda>r. case r of
             Inl _ \<Rightarrow> ok False
           | Inr (updated, _) \<Rightarrow>
               go (publish_current E (t_workflow_id t) ''task.recovery_revised'') (\<lambda>_.
               go (append_milestone E (t_workflow_id t) (t_id t) (st_id x) ''task_recovery_revised'' (t_status updated))
                 (\<lambda>_. ok True)))
      else if rd_decision decision = ''fail_task'' then
        go (fail_paused_task E (t_id t) (st_id x) (rd_summary decision)) (\<lambda>_. ok False)
      else go (append_milestone E (t_workflow_id t) (t_id t) (st_id x) ''task_recovery_waiting'' WSPaused) (\<lambda>_. ok False))"

definition recover ::
  "env \<Rightarrow> ctx \<Rightarrow> task \<Rightarrow> subtask \<Rightarrow> robot_execution \<Rightarrow> interaction option \<Rightarrow> (sys, bool) prog" where
  "recover E c t x execution answer =
     attempt (store (get_workflow (t_workflow_id t))) (\<lambda>rw. case rw of Inl _ \<Rightarrow> ok False | Inr w \<Rightarrow>
     if e_status execution \<noteq> ''failed'' then ok False
     else attempt (store (get_project (w_project_id w))) (\<lambda>rp. case rp of Inl _ \<Rightarrow> ok False | Inr p \<Rightarrow>
     attempt (store (get_chat_session (w_conversation_id w))) (\<lambda>rc. case rc of Inl _ \<Rightarrow> ok False | Inr conversation \<Rightarrow>
     case recovery_executor E of None \<Rightarrow> ok False | Some decide \<Rightarrow>
     attempt (decide c \<lparr>ar_user_id = pr_owner_id p, ar_project = p, ar_conversation = conversation,
         ar_workflow = w, ar_task = t, ar_subtask = x, ar_execution = execution, ar_event = [],
         ar_answer = answer\<rparr>) (\<lambda>r. case r of
       Inl e \<Rightarrow>
         if errors_is e ErrCanceled \<or> errors_is e ErrTaskWaitingInput then ok False
         else go (recovery_exhausted E t x) (\<lambda>_. ok False)
     | Inr decision \<Rightarrow> reading (\<lambda>s.
         if ctx_cancelled c s \<or> \<not> failed_recovery_still_current t x execution (dbase s) then ok False
         else apply_recovery E t x decision)))))"

definition run_recovery ::
  "env \<Rightarrow> ctx \<Rightarrow> task \<Rightarrow> subtask \<Rightarrow> robot_execution \<Rightarrow> interaction option \<Rightarrow> (sys, unit) prog" where
  "run_recovery E c t x execution answer =
     go (recover E c t x execution answer) (\<lambda>continue.
     go (release_task (t_id t)) (\<lambda>_.
     if continue then quietly (continue_or_finish_task E [] (t_id t)) else ok ()))"

definition launch_reserved_task_recovery ::
  "ctx \<Rightarrow> task \<Rightarrow> subtask \<Rightarrow> robot_execution \<Rightarrow> interaction option \<Rightarrow> (sys, unit) prog" where
  "launch_reserved_task_recovery c t x execution answer =
     go with_cancel (\<lambda>token.
     go (bind_reserved_task_cancel (t_id t) token) (\<lambda>bound.
     if bound then spawn (JobRecovery (token # c) t x execution answer) else release_task (t_id t)))"

text \<open>
  The part of \<open>launchTaskRecovery\<close> after its checks, for the rows it has read.  In the code
  \<open>task, subTask, err = UpdatePausedRobotWaitReason(...)\<close> overwrites \<open>task\<close> with the zero value
  when the update fails, so that the \<open>releaseTask(task)\<close> after it releases the Task named by the
  empty string.
\<close>

definition claim_recovery :: "ctx \<Rightarrow> task \<Rightarrow> subtask \<Rightarrow> robot_execution \<Rightarrow> (sys, unit) prog" where
  "claim_recovery c t x execution =
     go (reserve_task t) (\<lambda>reserved.
     if \<not> reserved then ok ()
     else attempt (do_update_wait_reason (t_id t) (t_revision t) (st_id x) (st_revision x)
         ''robot_execution_failed'' ''recovery_running'') (\<lambda>r. case r of
       Inl _ \<Rightarrow> release_task []
     | Inr (t', x') \<Rightarrow> launch_reserved_task_recovery c t' x' execution None))"

definition launch_task_recovery :: "env \<Rightarrow> ctx \<Rightarrow> string \<Rightarrow> string \<Rightarrow> string \<Rightarrow> (sys, unit) prog" where
  "launch_task_recovery E c task_id subtask_id execution_id =
     (if recovery_executor E = None then ok ()
      else
     attempt (store (get_task task_id)) (\<lambda>rt. case rt of Inl _ \<Rightarrow> ok () | Inr t \<Rightarrow>
     attempt (store (get_subtask subtask_id)) (\<lambda>rx. case rx of Inl _ \<Rightarrow> ok () | Inr x \<Rightarrow>
     attempt (store (get_robot_execution execution_id)) (\<lambda>re. case re of Inl _ \<Rightarrow> ok () | Inr execution \<Rightarrow>
     if t_status t \<noteq> WSPaused \<or> t_waiting_reason t \<noteq> ''robot_execution_failed'' \<or>
        st_status x \<noteq> WSPaused \<or> st_waiting_reason x \<noteq> ''robot_execution_failed'' \<or>
        st_execution_ref x \<noteq> e_id execution \<or> e_status execution \<noteq> ''failed'' then ok ()
     else claim_recovery c t x execution))))"

end
