(* ===== verification/SvcObserve.thy ===== *)
theory SvcObserve
  imports SvcRobot
begin

text \<open>
  \<open>OnRobotExecutionChanged\<close> and the two ways a Robot stop ends
  (\<open>internal/workflow/robot_execution.go\<close>), and the answers to questions a robot Task waits for
  (\<open>resumeRobotDecisionFromInteraction\<close>, \<open>resumeTaskRecoveryFromInteraction\<close>).
\<close>

section \<open>Ends of an Execution\<close>

definition finish_stopping_robot_subtask :: "env \<Rightarrow> task \<Rightarrow> subtask \<Rightarrow> robot_execution \<Rightarrow> string \<Rightarrow> (sys, unit) prog" where
  "finish_stopping_robot_subtask E t x execution reason =
     (let result = robot_execution_result execution ''execution.stop_confirmed'' (e_result execution) in
      go (do_transition_subtask (st_id x) (st_revision x) WSStopped reason result) (\<lambda>_.
      go (store (get_task (t_id t))) (\<lambda>newest. reading (\<lambda>s.
      go (if t_status newest = WSStopping \<and> task_subtasks_safely_terminal (must_subtasks (t_id newest) s)
          then do_transition_task (t_id newest) (t_revision newest) WSStopped reason [] result else ok newest) (\<lambda>_.
      go (publish_current E (t_workflow_id t) ''subtask.stopped'') (\<lambda>_.
      quietly (converge_stopped_workflow E (t_workflow_id t))))))))"

text \<open>\<open>execution.Result["confirmation_source"] == "operator"\<close>\<close>

definition stop_reason :: "robot_execution \<Rightarrow> string" where
  "stop_reason execution =
     (if map_of (e_result execution) ''confirmation_source'' = Some (JStr ''operator'') then ''operator_confirmed_stop''
      else if e_status execution = ''failed'' then ''robot_execution_failed_but_held''
      else ''robot_execution_stopped'')"

definition active_or_paused :: "work_status \<Rightarrow> bool" where
  "active_or_paused st \<longleftrightarrow> st = WSRunning \<or> st = WSPaused"

definition finish_confirmed_robot_stop :: "env \<Rightarrow> task \<Rightarrow> subtask \<Rightarrow> robot_execution \<Rightarrow> (sys, unit) prog" where
  "finish_confirmed_robot_stop E t x execution =
     (let reason = stop_reason execution in
      go (store (get_workflow (t_workflow_id t))) (\<lambda>w0.
      go (if active_or_paused (w_status w0)
          then do_transition_workflow (w_id w0) (w_revision w0) WSStopping reason else ok w0) (\<lambda>w.
      go (store (get_task (t_id t))) (\<lambda>t0.
      go (if active_or_paused (t_status t0)
          then do_transition_task (t_id t0) (t_revision t0) WSStopping reason [] NoRaw else ok t0) (\<lambda>t'.
      go (store (get_subtask (st_id x))) (\<lambda>x0.
      go (if active_or_paused (st_status x0)
          then do_transition_subtask (st_id x0) (st_revision x0) WSStopping reason NoRaw else ok x0) (\<lambda>x'.
      go (finish_stopping_robot_subtask E t' x' execution reason) (\<lambda>_.
      go (stop_workflow_tasks E (w_project_id w) (w_id w)) (\<lambda>_.
      converge_stopped_workflow E (w_id w))))))))))"

definition complete_robot_subtask :: "subtask \<Rightarrow> robot_execution \<Rightarrow> (sys, unit) prog" where
  "complete_robot_subtask x0 execution =
     (if st_status x0 = WSCompleted then ok ()
      else go (if st_status x0 = WSPaused
          then do_transition_subtask (st_id x0) (st_revision x0) WSRunning [] NoRaw else ok x0) (\<lambda>x.
      if st_status x \<noteq> WSRunning then ok ()
      else go (do_transition_subtask (st_id x) (st_revision x) WSCompleted []
          (robot_execution_result execution ''execution.terminal'' (e_result execution))) (\<lambda>_. ok ())))"

section \<open>OnRobotExecutionChanged\<close>

text \<open>Only lifecycle events may settle a SubTask.\<close>

definition lifecycle_event :: "string \<Rightarrow> bool" where
  "lifecycle_event typ \<longleftrightarrow> has_prefix typ ''execution.'' \<or> has_prefix typ ''robot.execution.'' \<or>
     typ \<in> {''skill.started'', ''skill.stop.finalized'', ''agent.requested'', ''agent.resolved''}"

text \<open>Attach the Execution to a running SubTask that has none yet.\<close>

definition attach_reported :: "subtask \<Rightarrow> robot_execution \<Rightarrow> (sys, subtask) prog" where
  "attach_reported x execution =
     (if st_execution_ref x = [] \<and> st_status x = WSRunning then
        attempt (at_now (\<lambda>now. store (attach_subtask_execution (st_id x) (st_revision x) (e_id execution) now))) (\<lambda>r. case r of
          Inr attached \<Rightarrow> ok attached
        | Inl e \<Rightarrow> if \<not> errors_is e ErrRevisionConflict then err e else store (get_subtask (st_id x)))
      else ok x)"

definition state_unknown :: "env \<Rightarrow> task \<Rightarrow> subtask \<Rightarrow> robot_execution \<Rightarrow> string \<Rightarrow> any_map \<Rightarrow> (sys, unit) prog" where
  "state_unknown E t x execution typ payload =
     pause_robot_subtask E t x ''execution_state_unknown'' (robot_execution_result execution typ payload)"

definition on_completed :: "env \<Rightarrow> ctx \<Rightarrow> task \<Rightarrow> subtask \<Rightarrow> robot_execution \<Rightarrow> (sys, unit) prog" where
  "on_completed E c t x execution =
     (if st_status x = WSStopping then
        finish_stopping_robot_subtask E t x execution ''robot_execution_completed_during_stop''
      else go (complete_robot_subtask x execution) (\<lambda>_.
        go (publish_current E (e_workflow_id execution) ''subtask.completed'') (\<lambda>_.
        continue_or_finish_task E (without_cancel c) (t_id t))))"

definition on_failed_while_stopping ::
  "env \<Rightarrow> task \<Rightarrow> subtask \<Rightarrow> robot_execution \<Rightarrow> string \<Rightarrow> any_map \<Rightarrow> (sys, unit) prog" where
  "on_failed_while_stopping E t x execution typ payload = reading (\<lambda>s.
     if safely_stopped_robot_execution execution \<or> robot_execution_safely_held (e_id execution) (dbase s) then
       finish_stopping_robot_subtask E t x execution ''robot_execution_failed_but_held''
     else if \<not> robot_execution_may_have_physical_action (e_id execution) (dbase s) then
       finish_stopping_robot_subtask E t x execution ''robot_execution_failed_before_action''
     else state_unknown E t x execution typ payload)"

definition on_failed :: "env \<Rightarrow> ctx \<Rightarrow> task \<Rightarrow> subtask \<Rightarrow> robot_execution \<Rightarrow> string \<Rightarrow> any_map \<Rightarrow> (sys, unit) prog" where
  "on_failed E c t x execution typ payload =
     (if st_status x = WSStopping then on_failed_while_stopping E t x execution typ payload
      else reading (\<lambda>s.
        if robot_execution_started_physical_action (e_id execution) (dbase s) then
          (if safely_stopped_robot_execution execution \<or> robot_execution_safely_held (e_id execution) (dbase s)
           then finish_confirmed_robot_stop E t x execution
           else state_unknown E t x execution typ payload)
        else go (pause_robot_subtask E t x ''robot_execution_failed'' (robot_execution_result execution typ payload)) (\<lambda>_.
          launch_task_recovery E (without_cancel c) (t_id t) (st_id x) (e_id execution))))"

definition on_stopped :: "env \<Rightarrow> task \<Rightarrow> subtask \<Rightarrow> robot_execution \<Rightarrow> string \<Rightarrow> any_map \<Rightarrow> (sys, unit) prog" where
  "on_stopped E t x execution typ payload =
     (if st_status x = WSStopping then
        (if safely_stopped_robot_execution execution
         then finish_stopping_robot_subtask E t x execution ''robot_execution_stopped''
         else state_unknown E t x execution typ payload)
      else if safely_stopped_robot_execution execution then finish_confirmed_robot_stop E t x execution
      else pause_robot_subtask E t x ''robot_execution_stopped'' (robot_execution_result execution typ payload))"

definition on_status :: "env \<Rightarrow> ctx \<Rightarrow> task \<Rightarrow> subtask \<Rightarrow> robot_execution \<Rightarrow> string \<Rightarrow> any_map \<Rightarrow> (sys, unit) prog" where
  "on_status E c t x execution typ payload =
     (if e_status execution = ''completed'' then on_completed E c t x execution
      else if e_status execution = ''waiting_agent'' then
        (if typ = ''agent.requested''
         then launch_robot_agent_decision E (without_cancel c) t x execution payload else ok ())
      else if e_status execution = ''failed'' then on_failed E c t x execution typ payload
      else if e_status execution = ''interrupted'' then state_unknown E t x execution typ payload
      else if e_status execution = ''stopped'' \<or> e_status execution = ''cancelled'' then
        on_stopped E t x execution typ payload
      else ok ())"

definition on_robot_execution_changed :: "env \<Rightarrow> ctx \<Rightarrow> robot_execution \<Rightarrow> string \<Rightarrow> any_map \<Rightarrow> (sys, unit) prog" where
  "on_robot_execution_changed E c execution typ payload =
     (if e_workflow_id execution = [] \<or> e_task_id execution = [] \<or> e_subtask_id execution = [] then ok ()
      else if \<not> lifecycle_event typ then ok ()
      else go (store (get_task (e_task_id execution))) (\<lambda>t.
      go (store (get_subtask (e_subtask_id execution))) (\<lambda>x0.
      if t_workflow_id t \<noteq> e_workflow_id execution \<or> st_task_id x0 \<noteq> t_id t
        then err (Wrapped ''Robot Execution of another Task'' ErrInvalidState)
      else go (attach_reported x0 execution) (\<lambda>x.
      if st_execution_ref x \<noteq> [] \<and> st_execution_ref x \<noteq> e_id execution
        then err (Wrapped ''SubTask with another Robot Execution'' ErrInvalidState)
      else on_status E c t x execution typ payload))))"

section \<open>Answers for a robot Task\<close>

text \<open>The paused robot SubTasks that wait for the answer.\<close>

definition waiting_robot_subtasks :: "subtask list \<Rightarrow> string \<Rightarrow> subtask list" where
  "waiting_robot_subtasks items reason = filter (\<lambda>x. st_status x = WSPaused \<and> st_waiting_reason x = reason \<and>
     st_kind x = ''robot_skill'' \<and> st_execution_ref x \<noteq> []) items"

text \<open>\<open>json.Unmarshal(answer.Reply)\<close>\<close>

definition interaction_reply :: "interaction \<Rightarrow> json option" where
  "interaction_reply answer =
     (if i_status answer = ICancelled then Some (JObj [(''interaction_outcome'', JStr ''cancelled'')])
      else case i_reply answer of Raw j \<Rightarrow> Some j | _ \<Rightarrow> None)"

definition with_answer :: "any_map \<Rightarrow> json \<Rightarrow> any_map" where
  "with_answer requested reply =
     AList.update ''context'' (JObj (AList.update ''interaction_answer'' reply
       (case get_object requested ''context'' of Some m \<Rightarrow> m | None \<Rightarrow> []))) requested"

definition repause_subtask :: "subtask \<Rightarrow> string \<Rightarrow> (sys, unit) prog" where
  "repause_subtask x reason = quietly (do_transition_subtask (st_id x) (st_revision x) WSPaused reason (st_result x))"

definition repause_task :: "task \<Rightarrow> string \<Rightarrow> (sys, unit) prog" where
  "repause_task t reason =
     quietly (do_transition_task (t_id t) (t_revision t) WSPaused reason (t_result_summary t) (t_evidence t))"

definition resume_robot_decision_from_interaction ::
  "env \<Rightarrow> ctx \<Rightarrow> interaction \<Rightarrow> task \<Rightarrow> (sys, unit) prog" where
  "resume_robot_decision_from_interaction E c answer t =
     (if decision_executor E = None \<or> env_robot_reply E = None then err ErrExecutorUnavailable
      else reading (\<lambda>s. case waiting_robot_subtasks (must_subtasks (t_id t) s) ''waiting_input'' of
        [candidate] \<Rightarrow>
          attempt (store (get_robot_execution (st_execution_ref candidate))) (\<lambda>r. case r of
            Inl _ \<Rightarrow> err ErrInvalidState
          | Inr execution \<Rightarrow>
            if e_status execution \<noteq> ''waiting_agent'' then err ErrInvalidState
            else case latest_robot_agent_request (e_id execution) (dbase s) of
              None \<Rightarrow> err ErrInvalidState
            | Some requested \<Rightarrow> (case interaction_reply answer of
                None \<Rightarrow> err ErrJson
              | Some reply \<Rightarrow>
                go (do_transition_subtask (st_id candidate) (st_revision candidate) WSRunning [] (st_result candidate)) (\<lambda>x.
                attempt (do_transition_task (t_id t) (t_revision t) WSRunning [] (t_result_summary t) (t_evidence t)) (\<lambda>rt. case rt of
                  Inl e \<Rightarrow> go (repause_subtask x ''waiting_input'') (\<lambda>_. err e)
                | Inr running \<Rightarrow> go (reserve_task running) (\<lambda>reserved.
                    if \<not> reserved then
                      go (repause_subtask x ''waiting_input'') (\<lambda>_.
                      go (repause_task running ''waiting_input'') (\<lambda>_. err ErrTaskBusy))
                    else launch_reserved_decision c running x execution (with_answer requested reply) (Some answer))))))
      | _ \<Rightarrow> err ErrInvalidState))"

text \<open>The waiting SubTasks whose Execution has failed, with that Execution.\<close>

fun failed_candidates :: "subtask list \<Rightarrow> (sys, (subtask \<times> robot_execution) list) prog" where
  "failed_candidates [] = ok []"
| "failed_candidates (x # xs) = attempt (store (get_robot_execution (st_execution_ref x))) (\<lambda>r.
     go (failed_candidates xs) (\<lambda>rest. ok (case r of
       Inr e \<Rightarrow> if e_status e = ''failed'' then (x, e) # rest else rest
     | Inl _ \<Rightarrow> rest)))"

definition resume_task_recovery_from_interaction :: "env \<Rightarrow> ctx \<Rightarrow> interaction \<Rightarrow> task \<Rightarrow> (sys, unit) prog" where
  "resume_task_recovery_from_interaction E c answer t =
     (if recovery_executor E = None then err ErrExecutorUnavailable
      else reading (\<lambda>s.
      go (failed_candidates (waiting_robot_subtasks (must_subtasks (t_id t) s) ''waiting_input'')) (\<lambda>candidates.
      case candidates of
        [(x, execution)] \<Rightarrow> go (reserve_task t) (\<lambda>reserved.
          if \<not> reserved then err ErrTaskBusy
          else attempt (do_update_wait_reason (t_id t) (t_revision t) (st_id x) (st_revision x)
              ''waiting_input'' ''recovery_running'') (\<lambda>r. case r of
            Inl e \<Rightarrow> go (release_task (t_id t)) (\<lambda>_. err e)
          | Inr (t', x') \<Rightarrow> launch_reserved_task_recovery c t' x' execution (Some answer)))
      | _ \<Rightarrow> err ErrInvalidState)))"

end
