(* ===== verification/SvcApi.thy ===== *)
theory SvcApi
  imports SvcObserve
begin

text \<open>
  The entry points of the service (\<open>internal/workflow/service.go\<close>, \<open>proposal.go\<close> and the
  Interaction and recovery handlers of \<open>scheduler.go\<close>): submitting, approving and discarding a
  proposal; pausing, resuming, stopping and confirming the stop of a Workflow; retrying a Robot
  decision; pausing a Task for a question and routing its answer; and the recovery after a
  restart of the server.
\<close>

section \<open>Access\<close>

definition require_workflow :: "string \<Rightarrow> string \<Rightarrow> string \<Rightarrow> (sys, workflow_view \<times> project \<times> chat_session) prog" where
  "require_workflow user project_id workflow_id =
     go (store (project_writable_by_user user project_id)) (\<lambda>_.
     attempt (store (get_workflow_view workflow_id)) (\<lambda>rv. case rv of Inl _ \<Rightarrow> err ErrNotFound | Inr view \<Rightarrow>
     if w_project_id (v_workflow view) \<noteq> project_id then err ErrNotFound
     else go (store (get_project project_id)) (\<lambda>p.
     attempt (store (get_chat_session (w_conversation_id (v_workflow view)))) (\<lambda>rc. case rc of
       Inl _ \<Rightarrow> err ErrNotFound
     | Inr conversation \<Rightarrow>
         if cs_user_id conversation \<noteq> user \<or> cs_project_id conversation \<noteq> project_id then err ErrNotFound
         else ok (view, p, conversation)))))"

definition require_writable_conversation :: "string \<Rightarrow> string \<Rightarrow> string \<Rightarrow> (sys, project \<times> chat_session) prog" where
  "require_writable_conversation user project_id conversation_id =
     go (store (project_writable_by_user user project_id)) (\<lambda>_.
     attempt (store (get_chat_session conversation_id)) (\<lambda>rc. case rc of Inl _ \<Rightarrow> err ErrNotFound | Inr conversation \<Rightarrow>
     if cs_project_id conversation \<noteq> project_id \<or> cs_user_id conversation \<noteq> user \<or> cs_archived_at conversation \<noteq> None
       then err ErrNotFound
     else go (store (get_project project_id)) (\<lambda>p. ok (p, conversation))))"

definition require_plan_proposal :: "string \<Rightarrow> string \<Rightarrow> string \<Rightarrow> (sys, plan_proposal) prog" where
  "require_plan_proposal user project_id proposal_id =
     attempt (store (get_project project_id)) (\<lambda>rp. case rp of Inl _ \<Rightarrow> err ErrNotFound | Inr project \<Rightarrow>
     if pr_owner_id project \<noteq> user then err ErrNotFound
     else attempt (store (get_plan_proposal proposal_id)) (\<lambda>rq. case rq of Inl _ \<Rightarrow> err ErrNotFound | Inr proposal \<Rightarrow>
     if pp_project_id proposal \<noteq> project_id then err ErrNotFound
     else attempt (store (get_chat_session (pp_conversation_id proposal))) (\<lambda>rc. case rc of
       Inl _ \<Rightarrow> err ErrNotFound
     | Inr conversation \<Rightarrow>
         if cs_project_id conversation \<noteq> project_id \<or> cs_user_id conversation \<noteq> user then err ErrNotFound
         else ok proposal)))"

text \<open>\<open>result, err := GetWorkflowView(id); if err == nil { publishView(result, typ) }; return result, err\<close>\<close>

definition publish_result :: "env \<Rightarrow> string \<Rightarrow> string \<Rightarrow> (sys, workflow_view) prog" where
  "publish_result E workflow_id typ =
     go (store (get_workflow_view workflow_id)) (\<lambda>result. go (publish_view E result typ) (\<lambda>_. ok result))"

section \<open>Proposals\<close>

definition prepare_task_id :: "task_draft \<Rightarrow> (sys, task_draft) prog" where
  "prepare_task_id d =
     go (if trim_space (tdr_id d) = [] then store new_task_id else ok (tdr_id d)) (\<lambda>i.
     ok (d\<lparr>tdr_id := i, tdr_subtasks := []\<rparr>))"

definition prepare_task_ids :: "workflow_draft \<Rightarrow> (sys, workflow_draft) prog" where
  "prepare_task_ids draft =
     (if wdr_tasks draft = [] then err (Wrapped ''the Leader made no Task'' ErrInvalidState)
      else go (collect prepare_task_id (wdr_tasks draft)) (\<lambda>ts. ok (draft\<lparr>wdr_tasks := ts\<rparr>)))"

text \<open>The rendered document (\<open>renderPlanDocument\<close>) is text for the reader: an argument.\<close>

definition svc_submit_plan_proposal_for_run ::
  "env \<Rightarrow> (workflow_draft \<Rightarrow> string \<Rightarrow> raw_json \<Rightarrow> string) \<Rightarrow> string \<Rightarrow> string \<Rightarrow> string \<Rightarrow> string \<Rightarrow> workflow_draft \<Rightarrow> string \<Rightarrow>
   raw_json \<Rightarrow> (sys, plan_proposal) prog" where
  "svc_submit_plan_proposal_for_run E render run_id user project_id conversation_id requested0 summary approved_scope =
     go (require_writable_conversation user project_id conversation_id) (\<lambda>_.
     if wdr_tasks requested0 = [] then err (Wrapped ''a Plan Proposal needs a Task'' ErrInvalidState)
     else go (prepare_task_ids requested0) (\<lambda>requested.
     go (validate_map_scope project_id (wdr_map_scope requested)) (\<lambda>_.
     attempt (at_now (\<lambda>now. store (submit_plan_proposal_for_run run_id project_id conversation_id requested summary
         approved_scope (render requested summary approved_scope) now))) (\<lambda>r. case r of
       Inl e \<Rightarrow> err (Wrapped ''save Plan Proposal'' e)
     | Inr (ready, reused) \<Rightarrow>
         go (if reused then ok () else publish_plan_proposal E ready ''plan_proposal.ready'') (\<lambda>_. ok ready)))))"

definition approval_metadata :: "workflow_view \<Rightarrow> plan_proposal \<Rightarrow> int \<Rightarrow> any_map" where
  "approval_metadata view p expected =
     [(''message_kind'', JStr ''workflow_started''), (''workflow_id'', JStr (w_id (v_workflow view))),
      (''proposal_id'', JStr (pp_id p)), (''proposal_revision'', JInt expected),
      (''status'', JStr (status_text (w_status (v_workflow view)))), (''message_type'', JStr ''activity''),
      (''agent_role'', JStr ''leader'')]"

definition decode_plan :: "plan_proposal \<Rightarrow> (sys, workflow_draft) prog" where
  "decode_plan p = (case pp_structured_plan p of
     Raw j \<Rightarrow> (case draft_of_json j of Some d \<Rightarrow> ok d | None \<Rightarrow> err ErrJson)
   | _ \<Rightarrow> err ErrJson)"

definition svc_approve_plan_proposal ::
  "env \<Rightarrow> ctx \<Rightarrow> string \<Rightarrow> string \<Rightarrow> string \<Rightarrow> int \<Rightarrow> (sys, workflow_view) prog" where
  "svc_approve_plan_proposal E c user project_id proposal_id expected =
     (if env_executor E = None then err ErrExecutorUnavailable
      else go (require_plan_proposal user project_id proposal_id) (\<lambda>proposal.
      if pp_revision proposal \<noteq> expected then err ErrRevisionConflict
      else go (decode_plan proposal) (\<lambda>draft.
      go (validate_map_scope project_id (wdr_map_scope draft)) (\<lambda>_.
      go (at_now (\<lambda>now. store (approve_plan_proposal proposal_id expected now))) (\<lambda>view.
      go (publish_plan_proposal_after_approval E proposal_id) (\<lambda>_.
      go (publish_view E view ''workflow.approved'') (\<lambda>_.
      go (post_message E (v_workflow view) ''leader'' (''Workflow '' @ w_id (v_workflow view) @ '' has started'')
          (approval_metadata view proposal expected)) (\<lambda>_.
      go (schedule E c user (w_id (v_workflow view))) (\<lambda>_. ok view)))))))))"

definition svc_discard_plan_proposal :: "env \<Rightarrow> string \<Rightarrow> string \<Rightarrow> string \<Rightarrow> int \<Rightarrow> (sys, plan_proposal) prog" where
  "svc_discard_plan_proposal E user project_id proposal_id expected =
     go (require_plan_proposal user project_id proposal_id) (\<lambda>proposal.
     if pp_revision proposal \<noteq> expected then err ErrRevisionConflict
     else go (at_now (\<lambda>now. store (discard_plan_proposal proposal_id expected now))) (\<lambda>discarded.
     go (publish_plan_proposal E discarded ''plan_proposal.discarded'') (\<lambda>_. ok discarded)))"

section \<open>Pause and resume\<close>

definition pause_workflow :: "env \<Rightarrow> string \<Rightarrow> string \<Rightarrow> string \<Rightarrow> int \<Rightarrow> (sys, workflow_view) prog" where
  "pause_workflow E user project_id workflow_id expected =
     go (require_workflow user project_id workflow_id) (\<lambda>_.
     go (do_transition_workflow workflow_id expected WSPaused ''user_paused'') (\<lambda>_.
     publish_result E workflow_id ''workflow.paused''))"

definition validate_explicit_workflow_resume :: "workflow_view \<Rightarrow> bool" where
  "validate_explicit_workflow_resume view =
     (if w_reason (v_workflow view) = ''user_paused'' then
        list_all (\<lambda>t. t_status t \<noteq> WSPaused) (v_tasks view)
      else if w_reason (v_workflow view) = ''server_restarted'' then
        list_all (\<lambda>t. t_status t = WSPaused \<longrightarrow> t_waiting_reason t = ''server_restarted'') (v_tasks view) \<and>
        list_all (\<lambda>x. st_status x = WSPaused \<longrightarrow>
            st_waiting_reason x = ''server_restarted'' \<and> st_execution_ref x = []) (v_subtasks view)
      else False)"

definition dependencies_completed :: "string \<Rightarrow> workflow_view \<Rightarrow> bool" where
  "dependencies_completed task_id view \<longleftrightarrow> list_all (\<lambda>d. td_task_id d = task_id \<longrightarrow>
     list_ex (\<lambda>t. t_id t = td_depends_on d \<and> t_status t = WSCompleted) (v_tasks view)) (v_dependencies view)"

definition resume_paused_step :: "task \<Rightarrow> subtask \<Rightarrow> (sys, unit) prog" where
  "resume_paused_step t x =
     (if st_task_id x \<noteq> t_id t \<or> st_status x \<noteq> WSPaused then ok ()
      else if st_waiting_reason x \<noteq> ''server_restarted'' \<or> st_execution_ref x \<noteq> [] then err ErrInvalidState
      else go (at_now (\<lambda>now. store (resume_paused_agent_step (st_id x) (st_revision x) now))) (\<lambda>_. ok ()))"

definition resume_paused_task :: "ctx \<Rightarrow> string \<Rightarrow> workflow_view \<Rightarrow> task \<Rightarrow> (sys, unit) prog" where
  "resume_paused_task c user view t =
     (if t_status t \<noteq> WSPaused \<or> \<not> dependencies_completed (t_id t) view then ok ()
      else if t_waiting_reason t \<noteq> ''server_restarted'' then err ErrInvalidState
      else go (reserve_task t) (\<lambda>reserved.
      if \<not> reserved then ok ()
      else attempt (go (for_each (resume_paused_step t) (v_subtasks view)) (\<lambda>_.
          launch_reserved_task c user (v_workflow view) t None True)) (\<lambda>r. case r of
        Inl e \<Rightarrow> go (release_task (t_id t)) (\<lambda>_. err e)
      | Inr _ \<Rightarrow> ok ())))"

definition resume_paused_tasks :: "ctx \<Rightarrow> string \<Rightarrow> string \<Rightarrow> (sys, unit) prog" where
  "resume_paused_tasks c user workflow_id =
     go (store (get_workflow_view workflow_id)) (\<lambda>view.
     for_each (resume_paused_task c user view) (v_tasks view))"

definition resume_failed :: "string \<Rightarrow> (sys, unit) prog" where
  "resume_failed workflow_id = with_workflow workflow_id (\<lambda>w. if w_status w = WSRunning
     then quietly (do_transition_workflow workflow_id (w_revision w) WSPaused ''resume_failed'') else ok ())"

definition resume_workflow :: "env \<Rightarrow> ctx \<Rightarrow> string \<Rightarrow> string \<Rightarrow> string \<Rightarrow> int \<Rightarrow> (sys, workflow_view) prog" where
  "resume_workflow E c user project_id workflow_id expected =
     (if env_executor E = None then err ErrExecutorUnavailable
      else go (require_workflow user project_id workflow_id) (\<lambda>(view, _).
      if w_revision (v_workflow view) \<noteq> expected then err ErrRevisionConflict
      else if \<not> validate_explicit_workflow_resume view then err ErrInvalidState
      else go (validate_workflow_map_binding (v_workflow view)) (\<lambda>_.
      go (do_transition_workflow workflow_id expected WSRunning []) (\<lambda>_.
      attempt (resume_paused_tasks c user workflow_id) (\<lambda>r. case r of
        Inl e \<Rightarrow> go (resume_failed workflow_id) (\<lambda>_. err e)
      | Inr _ \<Rightarrow> go (schedule E c user workflow_id) (\<lambda>_. publish_result E workflow_id ''workflow.resumed''))))))"

section \<open>Retrying a decision\<close>

definition retry_target :: "workflow_view \<Rightarrow> (sys, task \<times> subtask \<times> robot_execution \<times> any_map) prog" where
  "retry_target view =
     (if w_status (v_workflow view) \<noteq> WSPaused \<or> w_reason (v_workflow view) \<noteq> ''robot_agent_decision_failed''
        then err ErrInvalidState
      else case filter (\<lambda>t. t_status t = WSPaused \<and> t_waiting_reason t = ''robot_agent_decision_failed'') (v_tasks view) of
        [t] \<Rightarrow> (case waiting_robot_subtasks (filter (\<lambda>x. st_task_id x = t_id t) (v_subtasks view)) ''robot_agent_decision_failed'' of
          [x] \<Rightarrow> go (store (get_robot_execution (st_execution_ref x))) (\<lambda>execution.
            if e_status execution \<noteq> ''waiting_agent'' \<or> e_id execution = [] \<or> e_task_id execution \<noteq> t_id t \<or>
               e_subtask_id execution \<noteq> st_id x \<or> st_execution_ref x \<noteq> e_id execution then err ErrInvalidState
            else reading (\<lambda>s. case latest_robot_agent_request (e_id execution) (dbase s) of
              None \<Rightarrow> err ErrInvalidState
            | Some requested \<Rightarrow> ok (t, x, execution, requested)))
        | _ \<Rightarrow> err ErrInvalidState)
      | _ \<Rightarrow> err ErrInvalidState)"

definition repause_workflow :: "workflow \<Rightarrow> (sys, unit) prog" where
  "repause_workflow w =
     quietly (do_transition_workflow (w_id w) (w_revision w) WSPaused ''robot_agent_decision_failed'')"

definition retry_robot_agent_decision :: "env \<Rightarrow> ctx \<Rightarrow> string \<Rightarrow> string \<Rightarrow> string \<Rightarrow> int \<Rightarrow> (sys, workflow_view) prog" where
  "retry_robot_agent_decision E c user project_id workflow_id expected =
     (if decision_executor E = None \<or> env_robot_reply E = None then err ErrExecutorUnavailable
      else go (require_workflow user project_id workflow_id) (\<lambda>(view, _).
      if w_revision (v_workflow view) \<noteq> expected then err ErrRevisionConflict
      else go (retry_target view) (\<lambda>(t, x, execution, event).
      go (do_transition_workflow workflow_id expected WSRunning []) (\<lambda>w.
      attempt (do_transition_task (t_id t) (t_revision t) WSRunning [] (t_result_summary t) (t_evidence t)) (\<lambda>rt. case rt of
        Inl e \<Rightarrow> go (repause_workflow w) (\<lambda>_. err e)
      | Inr t' \<Rightarrow>
        attempt (do_transition_subtask (st_id x) (st_revision x) WSRunning [] (st_result x)) (\<lambda>rx. case rx of
          Inl e \<Rightarrow> go (repause_task t' ''robot_agent_decision_failed'') (\<lambda>_. go (repause_workflow w) (\<lambda>_. err e))
        | Inr x' \<Rightarrow> go (reserve_task t') (\<lambda>reserved.
          if \<not> reserved then
            go (repause_subtask x' ''robot_agent_decision_failed'') (\<lambda>_.
            go (repause_task t' ''robot_agent_decision_failed'') (\<lambda>_.
            go (repause_workflow w) (\<lambda>_. err ErrTaskBusy)))
          else go (launch_reserved_decision c t' x' execution event None) (\<lambda>_.
            publish_result E workflow_id ''workflow.robot_decision_retried''))))))))"

section \<open>Stop\<close>

definition stop_requested :: "workflow_view \<Rightarrow> string \<Rightarrow> int \<Rightarrow> (sys, unit) prog" where
  "stop_requested view workflow_id expected =
     (if w_status (v_workflow view) = WSStopping then ok ()
      else if w_revision (v_workflow view) \<noteq> expected then err ErrRevisionConflict
      else go (do_transition_workflow workflow_id expected WSStopping ''user_stopped'') (\<lambda>_. ok ()))"

definition stop_result :: "env \<Rightarrow> workflow_view \<Rightarrow> (sys, workflow_view) prog" where
  "stop_result E result =
     (if w_status (v_workflow result) = WSPaused \<and> w_reason (v_workflow result) = ''execution_state_unknown'' then
        go (publish_view E result ''workflow.stop_requires_confirmation'') (\<lambda>_. err ErrOperatorConfirmationRequired)
      else go (if w_status (v_workflow result) \<noteq> WSStopped then publish_view E result ''workflow.stopping'' else ok ())
        (\<lambda>_. ok result))"

definition stop_workflow :: "env \<Rightarrow> string \<Rightarrow> string \<Rightarrow> string \<Rightarrow> int \<Rightarrow> (sys, workflow_view) prog" where
  "stop_workflow E user project_id workflow_id expected =
     go (require_workflow user project_id workflow_id) (\<lambda>(view, _).
     if w_status (v_workflow view) = WSStopped then ok view
     else if w_status (v_workflow view) \<notin> {WSRunning, WSPaused, WSStopping} then err ErrInvalidState
     else go (stop_requested view workflow_id expected) (\<lambda>_.
     go (stop_workflow_tasks E project_id workflow_id) (\<lambda>_.
     go (quietly (converge_stopped_workflow E workflow_id)) (\<lambda>_.
     go (store (get_workflow_view workflow_id)) (stop_result E)))))"

definition confirmation_targets :: "workflow_view \<Rightarrow> (task \<times> subtask) list" where
  "confirmation_targets view = List.map_filter
     (\<lambda>x. map_option (\<lambda>t. (t, x)) (find (\<lambda>t. t_id t = st_task_id x) (v_tasks view)))
     (filter (\<lambda>x. st_kind x = ''robot_skill'' \<and> st_execution_ref x \<noteq> [] \<and> \<not> terminal_work_status (st_status x))
       (v_subtasks view))"

definition expected_execution :: "string \<Rightarrow> string \<Rightarrow> task \<Rightarrow> subtask \<Rightarrow> robot_execution" where
  "expected_execution project_id workflow_id t x =
     (missing_robot_execution (st_execution_ref x))
       \<lparr>e_project_id := project_id, e_workflow_id := workflow_id, e_task_id := t_id t, e_subtask_id := st_id x,
        e_robot_id := t_assigned_robot_id t, e_skill_name := ''unknown'', e_skill_version := ''unknown'', e_error := []\<rparr>"

definition confirm_target :: "robot_stopper \<Rightarrow> string \<Rightarrow> string \<Rightarrow> string \<Rightarrow> string \<Rightarrow> task \<times> subtask \<Rightarrow> (sys, unit) prog" where
  "confirm_target stopper user project_id workflow_id reason target = (case target of (t, x) \<Rightarrow>
     go (rs_confirm stopper (expected_execution project_id workflow_id t x) user reason) (\<lambda>_. ok ()))"

text \<open>After every confirmation: stop once more, now to the end.\<close>

definition finish_confirmation :: "env \<Rightarrow> string \<Rightarrow> string \<Rightarrow> (sys, unit) prog" where
  "finish_confirmation E project_id workflow_id =
     go (store (get_workflow workflow_id)) (\<lambda>w0.
     go (if w_status w0 = WSPaused
         then do_transition_workflow workflow_id (w_revision w0) WSStopping ''operator_confirmed_stop'' else ok w0) (\<lambda>w.
     if w_status w = WSStopping then
       go (stop_workflow_tasks E project_id workflow_id) (\<lambda>_. converge_stopped_workflow E workflow_id)
     else ok ()))"

definition confirm_workflow_stop ::
  "env \<Rightarrow> string \<Rightarrow> string \<Rightarrow> string \<Rightarrow> int \<Rightarrow> bool \<Rightarrow> string \<Rightarrow> (sys, workflow_view) prog" where
  "confirm_workflow_stop E user project_id workflow_id expected confirmed reason0 =
     (let reason = trim_space reason0 in
      if \<not> confirmed \<or> reason = [] then err ErrInvalidState
      else go (require_workflow user project_id workflow_id) (\<lambda>(view, _).
      let w = v_workflow view in
      if w_status w = WSStopped \<and> w_reason w = ''operator_confirmed_stop'' then ok view
      else if w_revision w \<noteq> expected then err ErrRevisionConflict
      else if w_status w \<noteq> WSStopping \<and> \<not> (w_status w = WSPaused \<and> w_reason w = ''execution_state_unknown'')
        then err ErrInvalidState
      else case env_robot_stop E of
        None \<Rightarrow> err ErrExecutorUnavailable
      | Some stopper \<Rightarrow>
        go (if w_status w = WSPaused
            then go (do_transition_workflow workflow_id (w_revision w) WSStopping ''operator_confirmed_stop'') (\<lambda>_. ok ())
            else ok ()) (\<lambda>_.
        go (for_each (confirm_target stopper user project_id workflow_id reason) (confirmation_targets view)) (\<lambda>_.
        go (finish_confirmation E project_id workflow_id) (\<lambda>_.
        publish_result E workflow_id ''workflow.stop_confirmed_by_operator'')))))"

end
