(* ===== verification/SvcRecover.thy ===== *)
theory SvcRecover
  imports SvcApi
begin

text \<open>
  Questions of a Task and the restart of the server (\<open>internal/workflow/scheduler.go\<close>:
  \<open>PauseTaskForInteraction\<close>, \<open>ResumeTaskAfterInteractionFailure\<close>, \<open>resumeTaskFromInteraction\<close>,
  \<open>resumeTaskPlanningFromInteraction\<close>, \<open>RecoverInterruptedWorkflows\<close>; \<open>service.go\<close>:
  \<open>RouteInteractionAnswer\<close>, \<open>Shutdown\<close>), and the server as a whole: the requests it serves and
  the goroutines it runs.
\<close>

section \<open>Questions\<close>

definition pause_running_subtask :: "subtask \<Rightarrow> (sys, unit) prog" where
  "pause_running_subtask x = (if st_status x = WSRunning
     then quietly (do_transition_subtask (st_id x) (st_revision x) WSPaused ''waiting_input'' NoRaw) else ok ())"

text \<open>A question asked during a recovery: the one SubTask that is being recovered.\<close>

definition pause_recovery :: "env \<Rightarrow> string \<Rightarrow> task \<Rightarrow> (sys, task) prog" where
  "pause_recovery E workflow_id t = reading (\<lambda>s.
     case waiting_robot_subtasks (must_subtasks (t_id t) s) ''recovery_running'' of
       [x] \<Rightarrow> go (do_update_wait_reason (t_id t) (t_revision t) (st_id x) (st_revision x) ''recovery_running'' ''waiting_input'')
         (\<lambda>(paused, _). go (publish_current E workflow_id ''task.waiting_input'') (\<lambda>_. ok paused))
     | _ \<Rightarrow> err ErrInvalidState)"

definition pause_task_for_interaction :: "env \<Rightarrow> string \<Rightarrow> string \<Rightarrow> string \<Rightarrow> string \<Rightarrow> int \<Rightarrow> (sys, task) prog" where
  "pause_task_for_interaction E user project_id workflow_id task_id expected =
     go (require_workflow user project_id workflow_id) (\<lambda>(view, _).
     if w_status (v_workflow view) \<noteq> WSRunning then err ErrInvalidState
     else attempt (store (get_task task_id)) (\<lambda>r. case r of Inl _ \<Rightarrow> err ErrRevisionConflict | Inr t \<Rightarrow>
     if t_workflow_id t \<noteq> workflow_id \<or> t_revision t \<noteq> expected then err ErrRevisionConflict
     else if t_status t = WSPaused \<and> t_waiting_reason t = ''recovery_running'' then pause_recovery E workflow_id t
     else if t_status t \<noteq> WSRunning \<and> \<not> (t_status t = WSPending \<and> t_waiting_reason t = ''planning_subtasks'')
       then err ErrRevisionConflict
     else go (do_transition_task (t_id t) (t_revision t) WSPaused ''waiting_input'' [] NoRaw) (\<lambda>paused. reading (\<lambda>s.
       go (for_each pause_running_subtask (must_subtasks task_id s)) (\<lambda>_.
       go (publish_current E workflow_id ''task.waiting_input'') (\<lambda>_. ok paused))))))"

definition rerun_waiting_subtask :: "subtask \<Rightarrow> (sys, unit) prog" where
  "rerun_waiting_subtask x = (if st_status x = WSPaused \<and> st_waiting_reason x = ''waiting_input''
     then quietly (do_transition_subtask (st_id x) (st_revision x) WSRunning [] NoRaw) else ok ())"

text \<open>The first waiting SubTask whose Execution has failed.\<close>

fun failed_waiting :: "subtask list \<Rightarrow> (sys, subtask option) prog" where
  "failed_waiting [] = ok None"
| "failed_waiting (x # xs) =
    (if st_status x \<noteq> WSPaused \<or> st_waiting_reason x \<noteq> ''waiting_input'' \<or> st_execution_ref x = [] then failed_waiting xs
     else attempt (store (get_robot_execution (st_execution_ref x))) (\<lambda>r. case r of
       Inr e \<Rightarrow> if e_status e = ''failed'' then ok (Some x) else failed_waiting xs
     | Inl _ \<Rightarrow> failed_waiting xs))"

definition resume_task_after_interaction_failure ::
  "env \<Rightarrow> string \<Rightarrow> string \<Rightarrow> string \<Rightarrow> string \<Rightarrow> int \<Rightarrow> (sys, unit) prog" where
  "resume_task_after_interaction_failure E user project_id workflow_id task_id expected =
     go (require_workflow user project_id workflow_id) (\<lambda>_.
     attempt (store (get_task task_id)) (\<lambda>r. case r of Inl _ \<Rightarrow> err ErrRevisionConflict | Inr t \<Rightarrow>
     if t_revision t \<noteq> expected \<or> t_status t \<noteq> WSPaused \<or> t_waiting_reason t \<noteq> ''waiting_input'' then err ErrRevisionConflict
     else reading (\<lambda>s. let items = must_subtasks task_id s in
       go (failed_waiting items) (\<lambda>failed. case failed of
         Some x \<Rightarrow>
           go (do_update_wait_reason (t_id t) (t_revision t) (st_id x) (st_revision x) ''waiting_input'' ''recovery_running'')
             (\<lambda>_. publish_current E workflow_id ''task.recovery_running'')
       | None \<Rightarrow>
           go (if items = [] then at_now (\<lambda>now. store (resume_paused_task_planning (t_id t) (t_revision t) now))
               else do_transition_task (t_id t) (t_revision t) WSRunning [] [] NoRaw) (\<lambda>_.
           go (for_each rerun_waiting_subtask items) (\<lambda>_.
           publish_current E workflow_id ''task.interaction_failed''))))))"

section \<open>Answers\<close>

text \<open>
  \<open>resumeTaskPlanningFromInteraction\<close> starts the planning goroutine and waits until it has made
  a Run for the answer, has ended, or the request is cancelled.  Here the goroutine runs to its
  end before the answer to the request is decided.
\<close>

definition resume_task_planning_from_interaction ::
  "env \<Rightarrow> ctx \<Rightarrow> string \<Rightarrow> interaction \<Rightarrow> workflow \<Rightarrow> task \<Rightarrow> (sys, unit) prog" where
  "resume_task_planning_from_interaction E c user answer w t =
     go (at_now (\<lambda>now. store (resume_paused_task_planning (t_id t) (t_revision t) now))) (\<lambda>pending.
     go (reserve_task pending) (\<lambda>reserved.
     if \<not> reserved then err ErrTaskBusy
     else go (prepare_and_launch_task E (without_cancel c) user w pending (Some answer)) (\<lambda>_.
     attempt (store (get_run_session_by_source_interaction (i_id answer))) (\<lambda>r. case r of
       Inr _ \<Rightarrow> ok ()
     | Inl _ \<Rightarrow> go (store (get_task (t_id t))) (\<lambda>_. err (Wrapped ''the planning continuation did not start'' ErrInvalidState))))))"

text \<open>Where a question of a \<open>task_execution\<close> Run goes back to.\<close>

datatype answer_route = ToDecision | ToRecovery | ToContinuation

fun route_waiting :: "task \<Rightarrow> subtask list \<Rightarrow> (sys, answer_route) prog" where
  "route_waiting t [] = ok ToContinuation"
| "route_waiting t (x # xs) =
    (if st_task_id x \<noteq> t_id t \<or> st_status x \<noteq> WSPaused \<or> st_waiting_reason x \<noteq> ''waiting_input'' \<or>
        st_execution_ref x = [] then route_waiting t xs
     else go (store (get_robot_execution (st_execution_ref x))) (\<lambda>e.
       if e_status e = ''waiting_agent'' then ok ToDecision
       else if e_status e = ''failed'' then ok ToRecovery
       else route_waiting t xs))"

definition resume_waiting_step :: "task \<Rightarrow> subtask \<Rightarrow> (sys, unit) prog" where
  "resume_waiting_step t x =
     (if st_task_id x \<noteq> t_id t \<or> st_status x \<noteq> WSPaused then ok ()
      else if st_waiting_reason x \<noteq> ''waiting_input'' then err ErrInvalidState
      else go (at_now (\<lambda>now. store (resume_paused_agent_step (st_id x) (st_revision x) now))) (\<lambda>_. ok ()))"

definition continue_from_answer :: "ctx \<Rightarrow> string \<Rightarrow> interaction \<Rightarrow> workflow_view \<Rightarrow> task \<Rightarrow> (sys, unit) prog" where
  "continue_from_answer c user answer view t =
     go (for_each (resume_waiting_step t) (v_subtasks view)) (\<lambda>_.
     go (reserve_task t) (\<lambda>reserved.
     if \<not> reserved then err ErrTaskBusy
     else attempt (launch_reserved_task c user (v_workflow view) t (Some answer) False) (\<lambda>r. case r of
       Inr _ \<Rightarrow> ok ()
     | Inl e \<Rightarrow> go (release_task (t_id t)) (\<lambda>_.
         attempt (store (get_run_session_by_source_interaction (i_id answer))) (\<lambda>x. case x of
           Inr _ \<Rightarrow> ok ()
         | Inl _ \<Rightarrow> err e)))))"

definition resume_from_run ::
  "env \<Rightarrow> ctx \<Rightarrow> string \<Rightarrow> interaction \<Rightarrow> workflow_view \<Rightarrow> task \<Rightarrow> run_session \<Rightarrow> (sys, unit) prog" where
  "resume_from_run E c user answer view t run =
     (if r_task_id run \<noteq> t_id t \<or> r_workflow_id run \<noteq> w_id (v_workflow view) then err ErrInvalidState
      else if r_kind run = KTaskPlanning then
        resume_task_planning_from_interaction E c user answer (v_workflow view) t
      else if r_kind run \<noteq> KTaskExecution then err ErrInvalidState
      else go (route_waiting t (v_subtasks view)) (\<lambda>route. case route of
        ToDecision \<Rightarrow> resume_robot_decision_from_interaction E c answer t
      | ToRecovery \<Rightarrow> resume_task_recovery_from_interaction E c answer t
      | ToContinuation \<Rightarrow> continue_from_answer c user answer view t))"

text \<open>An answer that already has a Run: it is accepted again only while that Run drives the Task.\<close>

definition already_continued :: "interaction \<Rightarrow> run_session \<Rightarrow> (sys, unit) prog" where
  "already_continued answer existing = attempt (store (get_task (i_task_id answer))) (\<lambda>r. case r of
     Inr t \<Rightarrow> if t_status t = WSRunning \<and> r_status existing \<in> {RQueued, RRunning, RWaitingInput} then ok ()
       else err ErrContinuationInterrupted
   | Inl _ \<Rightarrow> err ErrContinuationInterrupted)"

definition resume_unanswered ::
  "env \<Rightarrow> ctx \<Rightarrow> string \<Rightarrow> interaction \<Rightarrow> (sys, unit) prog" where
  "resume_unanswered E c user answer =
     attempt (store (get_workflow_view (i_workflow_id answer))) (\<lambda>rv. case rv of Inl _ \<Rightarrow> err ErrInvalidState | Inr view \<Rightarrow>
     if w_status (v_workflow view) \<noteq> WSRunning then err ErrInvalidState
     else attempt (store (get_task (i_task_id answer))) (\<lambda>rt. case rt of Inl _ \<Rightarrow> err ErrNotFound | Inr t \<Rightarrow>
     if t_workflow_id t \<noteq> w_id (v_workflow view) then err ErrNotFound
     else if i_source_revision answer \<le> 0 \<or> i_source_revision answer > t_revision t then err ErrRevisionConflict
     else if t_status t \<noteq> WSPaused \<or> t_waiting_reason t \<noteq> ''waiting_input'' then err ErrInvalidState
     else if i_run_id answer \<noteq> [] then
       go (store (get_run_session (i_run_id answer))) (resume_from_run E c user answer view t)
     else continue_from_answer c user answer view t))"

definition resume_task_from_interaction ::
  "env \<Rightarrow> ctx \<Rightarrow> string \<Rightarrow> interaction \<Rightarrow> (sys, unit) prog" where
  "resume_task_from_interaction E c user answer =
     attempt (store (get_run_session_by_source_interaction (i_id answer))) (\<lambda>r. case r of
       Inr existing \<Rightarrow> already_continued answer existing
     | Inl e \<Rightarrow> if \<not> errors_is e ErrNotFound then err e else resume_unanswered E c user answer)"

definition route_interaction_answer :: "env \<Rightarrow> ctx \<Rightarrow> interaction \<Rightarrow> (sys, unit) prog" where
  "route_interaction_answer E c value =
     (if i_workflow_id value = [] then (case env_resumer E of
         None \<Rightarrow> err ErrExecutorUnavailable
       | Some port \<Rightarrow> cr_resume_interaction port value)
      else go (store (get_project (i_project_id value))) (\<lambda>p.
        if i_task_id value \<noteq> [] then resume_task_from_interaction E c (pr_owner_id p) value
        else err ErrInvalidState))"

section \<open>Restart\<close>

text \<open>The Execution a running robot SubTask may have been given just before the crash.\<close>

definition attach_lost_execution :: "time \<Rightarrow> subtask \<Rightarrow> (sys, subtask) prog" where
  "attach_lost_execution now x =
     (if st_execution_ref x \<noteq> [] then ok x
      else attempt (store (get_robot_execution_by_subtask (st_id x))) (\<lambda>r. case r of
        Inl _ \<Rightarrow> ok x
      | Inr execution \<Rightarrow>
          attempt (store (attach_subtask_execution (st_id x) (st_revision x) (e_id execution) now)) (\<lambda>a. case a of
            Inr attached \<Rightarrow> ok attached
          | Inl _ \<Rightarrow> ok x)))"

definition interrupted_reason :: "subtask \<Rightarrow> string" where
  "interrupted_reason x =
     (if st_kind x = ''robot_skill'' \<and> st_execution_ref x \<noteq> [] then ''execution_state_unknown'' else ''server_restarted'')"

text \<open>Pause a SubTask that was running; the value is the SubTask as it was paused.\<close>

definition interrupt_subtask :: "time \<Rightarrow> subtask \<Rightarrow> (sys, subtask option) prog" where
  "interrupt_subtask now x0 =
     (if st_status x0 \<noteq> WSRunning then ok None
      else go (if st_kind x0 = ''robot_skill'' then attach_lost_execution now x0 else ok x0) (\<lambda>x.
      go (quietly (store (transition_subtask (st_id x) (st_revision x) WSPaused (interrupted_reason x) NoRaw now)))
        (\<lambda>_. ok (Some x))))"

definition unknown_tasks :: "subtask option list \<Rightarrow> string list" where
  "unknown_tasks paused = List.map_filter (\<lambda>o'. case o' of
     Some x \<Rightarrow> if interrupted_reason x = ''execution_state_unknown'' then Some (st_task_id x) else None
   | None \<Rightarrow> None) paused"

definition interrupt_task :: "time \<Rightarrow> string list \<Rightarrow> task \<Rightarrow> (sys, unit) prog" where
  "interrupt_task now unknown t =
     (if t_status t = WSRunning then
        quietly (store (transition_task (t_id t) (t_revision t) WSPaused
          (if t_id t \<in> set unknown then ''execution_state_unknown'' else ''server_restarted'') [] NoRaw now))
      else ok ())"

definition pause_reason_after :: "task list \<Rightarrow> string" where
  "pause_reason_after ts =
     (if list_ex (\<lambda>t. t_status t = WSPaused \<and> t_waiting_reason t = ''execution_state_unknown'') ts
      then ''execution_state_unknown'' else ''server_restarted'')"

definition wrap_recover :: "string \<Rightarrow> (sys, unit) prog \<Rightarrow> (sys, unit) prog" where
  "wrap_recover wid m = attempt m (\<lambda>r. case r of
     Inl e \<Rightarrow> err (Wrapped (''recover Workflow '' @ wid) e) | Inr _ \<Rightarrow> ok ())"

definition settle_interrupted :: "env \<Rightarrow> time \<Rightarrow> workflow \<Rightarrow> workflow_view \<Rightarrow> bool \<Rightarrow> (sys, unit) prog" where
  "settle_interrupted E now w view interrupted =
     go (store (get_workflow_view (w_id w))) (\<lambda>current.
     if w_status w \<noteq> WSRunning then ok ()
     else if interrupted \<or> list_ex (\<lambda>t. t_status t = WSPaused \<and> t_waiting_reason t \<noteq> ''waiting_input'') (v_tasks current) \<or>
        v_tasks view = [] then
       wrap_recover (w_id w) (go (store (get_workflow (w_id w))) (\<lambda>cw.
         go (store (transition_workflow_with_reason (w_id w) (w_revision cw) WSPaused (pause_reason_after (v_tasks current)) now))
           (\<lambda>_. ok ())))
     else go (store (get_project (w_project_id w))) (\<lambda>p. schedule E [] (pr_owner_id p) (w_id w)))"

definition recover_interrupted :: "env \<Rightarrow> time \<Rightarrow> workflow \<Rightarrow> workflow_view \<Rightarrow> (sys, unit) prog" where
  "recover_interrupted E now w view =
     go (collect (interrupt_subtask now) (v_subtasks view)) (\<lambda>paused.
     go (for_each (interrupt_task now (unknown_tasks paused)) (v_tasks view)) (\<lambda>_.
     settle_interrupted E now w view
       (list_ex (\<lambda>o'. o' \<noteq> None) paused \<or> list_ex (\<lambda>t. t_status t = WSRunning) (v_tasks view))))"

definition recover_workflow :: "env \<Rightarrow> time \<Rightarrow> workflow \<Rightarrow> (sys, unit) prog" where
  "recover_workflow E now w =
     go (store (get_workflow_view (w_id w))) (\<lambda>view.
     go (if w_status w = WSRunning \<or> w_status w = WSPaused then recover_interrupted E now w view
         else if w_status w = WSStopping then
           wrap_recover (w_id w) (go (stop_workflow_tasks E (w_project_id w) (w_id w)) (\<lambda>_.
             converge_stopped_workflow E (w_id w)))
         else ok ()) (\<lambda>_.
     publish_current E (w_id w) ''workflow.recovered''))"

definition recover_interrupted_workflows :: "env \<Rightarrow> time \<Rightarrow> (sys, unit) prog" where
  "recover_interrupted_workflows E now =
     go (store list_unfinished_workflows) (\<lambda>ws. for_each (recover_workflow E now) ws)"

definition shutdown :: "(sys, unit) prog" where
  "shutdown = writing (\<lambda>s. s\<lparr>shutting_down := True\<rparr>)"

section \<open>The server\<close>

text \<open>A goroutine that was started.\<close>

definition run_job :: "env \<Rightarrow> job \<Rightarrow> (sys, unit) prog" where
  "run_job E j = (case j of
     JobPrepare c user w t answer \<Rightarrow> prepare_and_launch_task E c user w t answer
   | JobExecute c user w t answer run \<Rightarrow> execute_task E c user w t answer run
   | JobDecision c t x execution event answer \<Rightarrow> run_decision E c t x execution event answer
   | JobRecovery c t x execution answer \<Rightarrow> run_recovery E c t x execution answer)"

text \<open>The calls the rest of the server makes.\<close>

datatype request =
    Submit string string string string workflow_draft string raw_json
  | Approve ctx string string string int
  | Discard string string string int
  | Pause string string string int
  | Resume ctx string string string int
  | Retry ctx string string string int
  | Stop string string string int
  | ConfirmStop string string string int bool string
  | Answer ctx interaction
  | AskQuestion string string string string int
  | QuestionFailed string string string string int
  | RobotChanged ctx robot_execution string any_map
  | RobotAvailable ctx string
  | Restarted time
  | Shutdown

definition void :: "(sys, 'a) prog \<Rightarrow> (sys, unit) prog" where
  "void m = go m (\<lambda>_. ok ())"

definition serve ::
  "env \<Rightarrow> (workflow_draft \<Rightarrow> string \<Rightarrow> raw_json \<Rightarrow> string) \<Rightarrow> request \<Rightarrow> (sys, unit) prog" where
  "serve E render r = (case r of
     Submit run user p conversation d summary scope \<Rightarrow>
       void (svc_submit_plan_proposal_for_run E render run user p conversation d summary scope)
   | Approve c user p i n \<Rightarrow> void (svc_approve_plan_proposal E c user p i n)
   | Discard user p i n \<Rightarrow> void (svc_discard_plan_proposal E user p i n)
   | Pause user p w n \<Rightarrow> void (pause_workflow E user p w n)
   | Resume c user p w n \<Rightarrow> void (resume_workflow E c user p w n)
   | Retry c user p w n \<Rightarrow> void (retry_robot_agent_decision E c user p w n)
   | Stop user p w n \<Rightarrow> void (stop_workflow E user p w n)
   | ConfirmStop user p w n b reason \<Rightarrow> void (confirm_workflow_stop E user p w n b reason)
   | Answer c i \<Rightarrow> route_interaction_answer E c i
   | AskQuestion user p w t n \<Rightarrow> void (pause_task_for_interaction E user p w t n)
   | QuestionFailed user p w t n \<Rightarrow> resume_task_after_interaction_failure E user p w t n
   | RobotChanged c x typ payload \<Rightarrow> on_robot_execution_changed E c x typ payload
   | RobotAvailable c robot \<Rightarrow> on_robot_availability_changed E c robot
   | Restarted now \<Rightarrow> recover_interrupted_workflows E now
   | Shutdown \<Rightarrow> shutdown)"

end
