(* ===== verification/SvcKeeps.thy ===== *)
theory SvcKeeps
  imports SvcRecover StoreLogs
begin

text \<open>
  What the service does to the database, proved once for every relation the store guarantees: in
  the context of \<open>store_client\<close> every handler and every goroutine keeps the relation, as long as
  the ports (the Agents and the Robot service, which use the same store) keep it.
\<close>

named_theorems svc_keeps

section \<open>Relations on the whole server\<close>

definition on_db :: "(db \<Rightarrow> db \<Rightarrow> bool) \<Rightarrow> sys \<Rightarrow> sys \<Rightarrow> bool" where
  "on_db R s t \<longleftrightarrow> R (dbase s) (dbase t)"

text \<open>Every port, called in any way, keeps the relation.\<close>

definition planner_keeps :: "(sys \<Rightarrow> sys \<Rightarrow> bool) \<Rightarrow> planner \<Rightarrow> bool" where
  "planner_keeps Q pl \<longleftrightarrow> (\<forall>f c p w t. pl_resolve pl = Some f \<longrightarrow> keeps Q (f c p w t)) \<and>
     (\<forall>f c r. pl_plan_with_result pl = Some f \<longrightarrow> keeps Q (f c r)) \<and> (\<forall>c r. keeps Q (pl_plan pl c r))"

definition executor_keeps :: "(sys \<Rightarrow> sys \<Rightarrow> bool) \<Rightarrow> executor \<Rightarrow> bool" where
  "executor_keeps Q ex \<longleftrightarrow> (\<forall>c r. keeps Q (ex_execute ex c r)) \<and>
     (\<forall>f c r. ex_decide ex = Some f \<longrightarrow> keeps Q (f c r)) \<and> (\<forall>f c r. ex_recover ex = Some f \<longrightarrow> keeps Q (f c r))"

definition stopper_keeps :: "(sys \<Rightarrow> sys \<Rightarrow> bool) \<Rightarrow> robot_stopper \<Rightarrow> bool" where
  "stopper_keeps Q st \<longleftrightarrow> (\<forall>p x r. keeps Q (rs_stop st p x r)) \<and> (\<forall>x user r. keeps Q (rs_confirm st x user r))"

definition resumer_keeps :: "(sys \<Rightarrow> sys \<Rightarrow> bool) \<Rightarrow> resumer \<Rightarrow> bool" where
  "resumer_keeps Q cr \<longleftrightarrow> (\<forall>i. keeps Q (cr_resume_interaction cr i)) \<and> (\<forall>v. keeps Q (cr_resume_terminal cr v))"

definition ports_keep :: "(sys \<Rightarrow> sys \<Rightarrow> bool) \<Rightarrow> env \<Rightarrow> bool" where
  "ports_keep Q E \<longleftrightarrow> (\<forall>pl. env_planner E = Some pl \<longrightarrow> planner_keeps Q pl) \<and>
     (\<forall>ex. env_executor E = Some ex \<longrightarrow> executor_keeps Q ex) \<and>
     (\<forall>f x m. env_robot_reply E = Some f \<longrightarrow> keeps Q (f x m)) \<and>
     (\<forall>st. env_robot_stop E = Some st \<longrightarrow> stopper_keeps Q st) \<and>
     (\<forall>cr. env_resumer E = Some cr \<longrightarrow> resumer_keeps Q cr)"

lemma ports_keepD:
  assumes "ports_keep Q E"
  shows "env_planner E = Some pl \<Longrightarrow> pl_plan_with_result pl = Some plan \<Longrightarrow> keeps Q (plan c r)"
    "env_planner E = Some pl \<Longrightarrow> keeps Q (pl_plan pl c r)"
    "assignment_resolver E = Some resolve \<Longrightarrow> keeps Q (resolve c p w t)"
    "env_executor E = Some ex \<Longrightarrow> keeps Q (ex_execute ex c e)"
    "decision_executor E = Some decide \<Longrightarrow> keeps Q (decide c a)"
    "recovery_executor E = Some recov \<Longrightarrow> keeps Q (recov c a)"
    "env_robot_reply E = Some reply \<Longrightarrow> keeps Q (reply x m)"
    "env_robot_stop E = Some st \<Longrightarrow> keeps Q (rs_stop st y z reason)"
    "env_robot_stop E = Some st \<Longrightarrow> keeps Q (rs_confirm st v user reason)"
    "env_resumer E = Some cr \<Longrightarrow> keeps Q (cr_resume_interaction cr i)"
    "env_resumer E = Some cr \<Longrightarrow> keeps Q (cr_resume_terminal cr view)"
  using assms
  by (auto simp: ports_keep_def planner_keeps_def executor_keeps_def stopper_keeps_def resumer_keeps_def
      assignment_resolver_def decision_executor_def recovery_executor_def bind_eq_Some_conv)

text \<open>
  \<open>Q\<close> is a relation on the whole server that an operation of the store keeps when it keeps \<open>R\<close>, and
  that does not look at the memory of the service.
\<close>

locale service_client = store_client R + whole: frame_relation Q
  for R :: "db \<Rightarrow> db \<Rightarrow> bool" and Q :: "sys \<Rightarrow> sys \<Rightarrow> bool" +
  assumes moves_db: "R (dbase s) d \<Longrightarrow> Q s (s\<lparr>dbase := d\<rparr>)"
    and moves_memory: "dbase t = dbase s \<Longrightarrow> hub t = hub s \<Longrightarrow> Q s t"

lemma service_on_db:
  assumes "store_client R"
  shows "service_client R (on_db R)"
proof -
  have frame: "frame_relation R" using assms by (simp add: store_client_def db_relation_def)
  note R = frame_relation.frame_refl[OF frame] frame_relation.frame_trans[OF frame]
  show ?thesis
    by (intro service_client.intro service_client_axioms.intro frame_relation.intro assms) (auto simp: on_db_def intro: R)
qed

context service_client
begin

lemma keeps_store: "keeps R m \<Longrightarrow> keeps Q (store m)"
  by (auto simp: keeps_def run_store intro: moves_db)

lemma keeps_memory_prog: "(\<And>s. dbase (snd (m s)) = dbase s \<and> hub (snd (m s)) = hub s) \<Longrightarrow> keeps Q m"
  by (rule keepsI) (simp add: moves_memory)

lemma keeps_memory: "(\<And>s. dbase (f s) = dbase s \<and> hub (f s) = hub s) \<Longrightarrow> keeps Q (writing f)"
  by (rule keeps_memory_prog) (simp add: run_writing)

lemma keeps_at_now: "(\<And>now. keeps Q (k now)) \<Longrightarrow> keeps Q (at_now k)"
  by (simp add: keeps_def run_at_now)

lemma keeps_quietly: "keeps Q m \<Longrightarrow> keeps Q (quietly m)"
  unfolding quietly_def by (intro whole.keeps_rules)

lemma keeps_queries: "keeps R (select_row q e)" "keeps R (select_rows k)"
  by (rule keeps_select_row keeps_select_rows frame_relation_axioms)+

lemmas base_rules = whole.keeps_rules keeps_quietly keeps_at_now keeps_store

lemma keeps_gets:
  "keeps R (get_workflow i)" "keeps R (get_task i)" "keeps R (get_subtask i)" "keeps R (get_project i)"
  "keeps R (get_chat_session i)" "keeps R (list_tasks i)" "keeps R (list_subtasks i)" "keeps R (get_workflow_view i)"
  "keeps R (list_runnable_tasks i)" "keeps R (list_runnable_subtasks i)" "keeps R list_unfinished_workflows"
  "keeps R (get_run_session i)" "keeps R (get_run_session_by_source_interaction i)" "keeps R (get_plan_proposal i)"
  "keeps R (get_robot_execution i)" "keeps R (get_robot_execution_by_subtask i)"
  "keeps R (next_robot_execution_event_sequence i)" "keeps R (project_writable_by_user user i)"
  "keeps R (validate_map_reference i j g ids)"
  unfolding get_workflow_def get_task_def get_subtask_def get_project_def get_chat_session_def list_tasks_def
    list_subtasks_def get_workflow_view_def get_workflow_view_query_def list_runnable_tasks_def
    list_runnable_subtasks_def list_unfinished_workflows_def get_run_session_def
    get_run_session_by_source_interaction_def get_plan_proposal_def get_robot_execution_def
    get_robot_execution_by_subtask_def next_robot_execution_event_sequence_def project_writable_by_user_def
    validate_map_reference_def with_robot_execution_artifacts_def list_robot_artifact_mappings_def get_semantic_map_def check_map_entity_def
  by (intro db_keeps_rules keeps_queries)+

lemma keeps_do [svc_keeps]:
  "keeps Q (do_transition_workflow i n to reason)" "keeps Q (do_transition_task i n to reason summary evidence)"
  "keeps Q (do_transition_subtask i n to reason result)" "keeps Q (do_set_pending_task_reason i n reason)"
  "keeps Q (do_update_wait_reason i n j m from to')" "keeps Q (do_transition_run i rs st)"
  "keeps Q (do_finish_run i rs st note)"
  unfolding do_defs by (intro base_rules keeps_workflow_ops keeps_task_ops keeps_subtask_ops keeps_run_ops)+

lemma keeps_gates [svc_keeps]:
  "keeps Q (publish E ev)" "keeps Q with_cancel" "keeps Q (spawn j)"
  "keeps Q (reserve_task t)" "keeps Q (bind_reserved_task_cancel i token)"
  "keeps Q (claim_task_resources w t)" "keeps Q (release_task i)"
  "keeps Q (release_task_resources i)" "keeps Q (set_active i token run)"
  "keeps Q (writing (cancel_token token))"
  by (rule keeps_memory_prog; simp add: publish_def with_cancel_def spawn_def reserve_task_def
      bind_reserved_task_cancel_def claim_task_resources_def release_task_def release_task_resources_def set_active_def
      cancel_token_def cancel_bound_def run_writing Let_def split: option.splits)+

lemma keeps_cancel_attempt [svc_keeps]: "keeps Q (cancel_task_attempt i)"
  unfolding cancel_task_attempt_def cancel_run_def
  by (intro base_rules svc_keeps keeps_memory) (simp add: cancel_token_def split: option.splits)

lemmas store_rules = base_rules keeps_gets db_keeps_rules keeps_workflow_ops keeps_task_ops keeps_subtask_ops
  keeps_run_ops keeps_log_ops

lemma keeps_events [svc_keeps]:
  "keeps Q (publish_view E view typ)" "keeps Q (publish_plan_proposal E p typ)"
  "keeps Q (publish_plan_proposal_after_approval E i)" "keeps Q (publish_current E i typ)"
  "keeps Q (publish_conversation_message E w msg)" "keeps Q (post_message E w agent content metadata)"
  "keeps Q (append_milestone E i j k kind st)" "keeps Q (append_task_plan_message E i j summary items)"
  unfolding publish_view_def publish_plan_proposal_def publish_plan_proposal_after_approval_def publish_current_def
    publish_conversation_message_def post_message_def append_milestone_def post_milestone_def append_task_plan_message_def
  by (intro store_rules svc_keeps)+

lemma keeps_subtask_queries [svc_keeps]:
  "keeps Q (with_workflow i k)" if "\<And>w. keeps Q (k w)"
  using that unfolding with_workflow_def by (intro store_rules)

lemma keeps_on_success [svc_keeps]:
  "keeps Q m \<Longrightarrow> (\<And>x. keeps Q (k x)) \<Longrightarrow> keeps Q (on_success m k)"
  unfolding on_success_def by (intro store_rules)

subsection \<open>Stopping\<close>

lemma keeps_pause_robot [svc_keeps]:
  "keeps Q (pause_robot_subtask E t x reason result)"
  "keeps Q (pause_stopping_robot_subtask_unknown E i x e)"
  unfolding pause_stopping_robot_subtask_unknown_def pause_robot_subtask_def by (intro store_rules svc_keeps)+

lemma keeps_moves [svc_keeps]:
  "keeps Q (stop_pending_work view)" "keeps Q (move_task_toward_stop t)"
  "keeps Q (move_subtask_toward_stop x)"
proof -
  have "keeps Q (move_task_attempts n t)" for n t
    by (induction n arbitrary: t) (auto intro!: store_rules svc_keeps)
  then show "keeps Q (move_task_toward_stop t)" by (simp add: move_task_toward_stop_def)
  have "keeps Q (move_subtask_attempts n x)" for n x
    by (induction n arbitrary: x) (auto intro!: store_rules svc_keeps)
  then show "keeps Q (move_subtask_toward_stop x)" by (simp add: move_subtask_toward_stop_def)
  show "keeps Q (stop_pending_work view)"
    unfolding stop_pending_work_def by (intro store_rules svc_keeps)
qed

lemma keeps_settle [svc_keeps]: "keeps Q (settle_terminal_execution_for_stop E i x e)"
  unfolding settle_terminal_execution_for_stop_def stop_subtask_with_def by (intro store_rules svc_keeps)

lemma keeps_until_return: "(\<And>x. keeps Q (f x)) \<Longrightarrow> keeps Q (until_return f xs)"
  by (induction xs) (auto intro!: store_rules)

lemma keeps_stop_subtasks [svc_keeps]:
  assumes "ports_keep Q E"
  shows "keeps Q (stop_task_subtasks E p i)"
  unfolding stop_task_subtasks_def stop_task_subtask_def stop_robot_subtask_def after_failed_stop_def
  by (intro store_rules svc_keeps keeps_until_return ports_keepD(8)[OF assms]; assumption)

lemma keeps_stop_tasks [svc_keeps]:
  assumes "ports_keep Q E"
  shows "keeps Q (stop_workflow_tasks E p i)"
  unfolding stop_workflow_tasks_def stop_workflow_task_def finish_stopped_task_def
  by (intro store_rules svc_keeps assms)

lemma keeps_converge [svc_keeps]: "keeps Q (converge_stopped_workflow E i)"
proof -
  have "keeps Q (converge_tasks ts)" for ts
  proof (induction ts)
    case (Cons t ts)
    show ?case unfolding converge_tasks.simps by (intro store_rules svc_keeps Cons.IH)
  qed (unfold converge_tasks.simps, rule whole.keeps_ok)
  then show ?thesis unfolding converge_stopped_workflow_def by (intro store_rules svc_keeps)
qed

subsection \<open>Scheduling\<close>

lemma keeps_map_scope [svc_keeps]:
  "keeps Q (validate_map_scope p raw)" "keeps Q (validate_workflow_map_binding w)"
  unfolding validate_workflow_map_binding_def validate_map_scope_def by (intro store_rules)+

lemma keeps_schedule [svc_keeps]: "keeps Q (schedule E c user i)"
proof -
  have "keeps Q (schedule_tasks E c user w ts)" for w ts
  proof (induction ts)
    case (Cons t ts)
    show ?case
      unfolding schedule_tasks.simps map_changed_def launch_prepare_def by (intro store_rules svc_keeps Cons.IH)
  qed (unfold schedule_tasks.simps, rule whole.keeps_ok)
  then show ?thesis unfolding schedule_def Let_def by (intro store_rules)
qed

lemma keeps_availability [svc_keeps]: "keeps Q (on_robot_availability_changed E c robot)"
  unfolding on_robot_availability_changed_def reschedule_waiting_def by (intro store_rules svc_keeps)

lemma keeps_finish_or_schedule [svc_keeps]:
  assumes "ports_keep Q E"
  shows "keeps Q (finish_or_schedule E c user i)"
  unfolding finish_or_schedule_def fail_workflow_def workflow_ended_def resume_workflow_terminal_def Let_def
  by (intro store_rules svc_keeps ports_keepD(11)[OF assms]; assumption)

lemma keeps_fail_task [svc_keeps]: "keeps Q (fail_task E i e)"
  unfolding fail_task_def fail_subtask_def by (intro store_rules svc_keeps)

lemma keeps_launches [svc_keeps]:
  "keeps Q (launch_running_task c user w t)" "keeps Q (launch_reserved_task c user w t answer retry)"
  "keeps Q (launch_reserved_decision c t x e event answer)"
  "keeps Q (launch_robot_agent_decision E c t x e event)"
  unfolding launch_running_task_def launch_reserved_task_def open_run_def create_run_def start_execution_def
    launch_robot_agent_decision_def launch_reserved_decision_def
  by (intro store_rules svc_keeps)+

lemma keeps_continue [svc_keeps]:
  assumes "ports_keep Q E"
  shows "keeps Q (continue_or_finish_task E c i)"
  unfolding continue_or_finish_task_def complete_task_def reconnect_decision_def next_run_def
  by (intro store_rules svc_keeps assms)

subsection \<open>Goroutines\<close>

lemma keeps_prepare [svc_keeps]:
  assumes ports: "ports_keep Q E"
  shows "keeps Q (prepare_and_launch_task E c user w t answer)"
proof -
  have wait: "keeps Q (wait_for_resource E w i)" for i
    unfolding wait_for_resource_def by (intro store_rules svc_keeps)
  have ask: "keeps Q (ask_planner E c req)" for c req
    unfolding ask_planner_def by (intro store_rules ports_keepD(1,2)[OF ports]; assumption)
  have bind: "keeps Q (late_binding E c w t)" for c
    unfolding late_binding_def bind_assignment_def
    by (intro store_rules svc_keeps ports_keepD(3)[OF ports]; assumption)
  have prep: "keeps Q (prepare_runnable_task E c user w t answer)" for c
    unfolding prepare_runnable_task_def plan_subtasks_def by (intro store_rules svc_keeps bind ask)
  show ?thesis
    unfolding prepare_and_launch_task_def prepare_failed_def launch_prepared_def
    by (intro store_rules svc_keeps prep wait ports)
qed

lemma keeps_execute [svc_keeps]:
  assumes ports: "ports_keep Q E"
  shows "keeps Q (execute_task E c user w t answer run)"
proof -
  have call: "keeps Q (call_executor E c req)" for req
    unfolding call_executor_def by (intro store_rules ports_keepD(4)[OF ports]; assumption)
  have one: "keeps Q (run_one_subtask E c user p conversation w t answer run)" for p conversation
    unfolding run_one_subtask_def execution_of_def attach_after_run_def
    by (intro store_rules svc_keeps call)
  have settle: "keeps Q (settle_run E w t outcome)" for outcome
    unfolding settle_run_def stop_after_run_def complete_after_run_def by (intro store_rules svc_keeps ports)
  show ?thesis
    unfolding execute_task_def execute_body_def by (intro store_rules svc_keeps one settle ports)
qed

lemma keeps_decision_failure [svc_keeps]:
  "keeps Q (pause_robot_decision_failure E i j e event cause n)"
  "keeps Q (record_robot_decision_attempt k m oe)"
  unfolding pause_robot_decision_failure_def record_robot_decision_attempt_def Let_def
  by (intro store_rules svc_keeps)+

lemma keeps_with_owner:
  "(\<And>e. keeps Q (failed e)) \<Longrightarrow> (\<And>w p conversation. keeps Q (k w p conversation)) \<Longrightarrow>
   keeps Q (with_owner failed i k)"
  unfolding with_owner_def by (intro store_rules)

lemma keeps_case_decision:
  "(\<And>m. keeps Q (a m)) \<Longrightarrow> keeps Q b \<Longrightarrow> (\<And>e. keeps Q (f e)) \<Longrightarrow> (\<And>e. keeps Q (g e)) \<Longrightarrow>
   keeps Q (case d of Decided m \<Rightarrow> a m | Abandoned \<Rightarrow> b | RetryDecision e \<Rightarrow> f e | FailedDecision e \<Rightarrow> g e)"
  by (cases d) auto

lemma keeps_decide_attempts:
  assumes "\<And>c a. keeps Q (resolve c a)"
  shows "keeps Q (decide_attempts E resolve c req left n)"
proof -
  have once: "keeps Q (decide_once resolve c req n)" for n
    unfolding decide_once_def by (intro store_rules svc_keeps assms)
  show ?thesis
  proof (induction left arbitrary: n)
    case 0
    show ?case unfolding decide_attempts.simps by (intro store_rules svc_keeps once keeps_case_decision)
  next
    case (Suc left)
    show ?case unfolding decide_attempts.simps by (intro store_rules svc_keeps once keeps_case_decision Suc.IH)
  qed
qed

lemma keeps_run_decision [svc_keeps]:
  assumes ports: "ports_keep Q E"
  shows "keeps Q (run_decision E c t x e event answer)"
  unfolding run_decision_def send_decision_def
  by (intro store_rules svc_keeps keeps_with_owner keeps_decide_attempts ports_keepD(5,7)[OF ports]; assumption)

lemma keeps_run_recovery [svc_keeps]:
  assumes ports: "ports_keep Q E"
  shows "keeps Q (run_recovery E c t x e answer)"
proof -
  have fail: "keeps Q (fail_paused_task E i j summary)" for i j summary
    unfolding fail_paused_task_def fail_paused_subtask_def stop_pending_subtask_def finish_failed_task_def
    by (intro store_rules svc_keeps ports)
  have revise: "keeps Q (apply_recovery E t x decision)" for decision
    unfolding apply_recovery_def by (intro store_rules svc_keeps fail)
  have recov: "keeps Q (recover E c t x e answer)"
    unfolding recover_def recovery_exhausted_def
    by (intro store_rules svc_keeps revise ports_keepD(6)[OF ports]; assumption)
  show ?thesis unfolding run_recovery_def by (intro store_rules svc_keeps recov ports)
qed

lemma keeps_launch_recovery [svc_keeps]:
  "keeps Q (launch_reserved_task_recovery c t x e answer)" "keeps Q (launch_task_recovery E c i j k)"
  unfolding launch_task_recovery_def claim_recovery_def launch_reserved_task_recovery_def
  by (intro store_rules svc_keeps)+

subsection \<open>Robot Executions\<close>

lemma keeps_robot_stops [svc_keeps]:
  assumes "ports_keep Q E"
  shows "keeps Q (finish_stopping_robot_subtask E t x e reason)"
    "keeps Q (finish_confirmed_robot_stop E t x e)"
  unfolding finish_confirmed_robot_stop_def finish_stopping_robot_subtask_def Let_def
  by (intro store_rules svc_keeps assms)+

lemma keeps_robot_changed [svc_keeps]:
  assumes "ports_keep Q E"
  shows "keeps Q (on_robot_execution_changed E c e typ payload)"
proof -
  have attach: "keeps Q (attach_reported x e)" for x
    unfolding attach_reported_def by (intro store_rules svc_keeps)
  have status: "keeps Q (on_status E c t x e typ payload)" for t x
    unfolding on_status_def on_completed_def on_failed_def on_failed_while_stopping_def on_stopped_def
      state_unknown_def complete_robot_subtask_def
    by (intro store_rules svc_keeps assms)
  show ?thesis
    unfolding on_robot_execution_changed_def by (intro store_rules svc_keeps attach status)
qed

lemma keeps_robot_answers [svc_keeps]:
  "keeps Q (resume_robot_decision_from_interaction E c answer t)"
  "keeps Q (resume_task_recovery_from_interaction E c answer t)"
proof -
  have "keeps Q (failed_candidates xs)" for xs
  proof (induction xs)
    case (Cons x xs)
    show ?case unfolding failed_candidates.simps by (intro store_rules Cons.IH)
  qed (unfold failed_candidates.simps, rule whole.keeps_ok)
  then show "keeps Q (resume_task_recovery_from_interaction E c answer t)"
    unfolding resume_task_recovery_from_interaction_def by (intro store_rules svc_keeps)
  show "keeps Q (resume_robot_decision_from_interaction E c answer t)"
    unfolding resume_robot_decision_from_interaction_def repause_subtask_def repause_task_def
    by (intro store_rules svc_keeps)
qed

subsection \<open>Requests\<close>

lemma keeps_access [svc_keeps]:
  "keeps Q (require_workflow user p i)" "keeps Q (require_writable_conversation user p i)"
  "keeps Q (require_plan_proposal user p i)" "keeps Q (publish_result E i typ)"
  unfolding require_workflow_def require_writable_conversation_def require_plan_proposal_def publish_result_def
  by (intro store_rules svc_keeps)+

lemma keeps_proposals [svc_keeps]:
  "keeps Q (svc_submit_plan_proposal_for_run E render run user p conversation d summary scope)"
  "keeps Q (svc_approve_plan_proposal E c user p i n)"
  "keeps Q (svc_discard_plan_proposal E user p i n)"
proof -
  have "keeps Q (decode_plan q)" for q
    unfolding decode_plan_def by (cases "pp_structured_plan q") (auto intro!: store_rules)
  then show "keeps Q (svc_approve_plan_proposal E c user p i n)"
    unfolding svc_approve_plan_proposal_def by (intro store_rules svc_keeps)
  show "keeps Q (svc_submit_plan_proposal_for_run E render run user p conversation d summary scope)"
    "keeps Q (svc_discard_plan_proposal E user p i n)"
    unfolding svc_submit_plan_proposal_for_run_def svc_discard_plan_proposal_def prepare_task_ids_def prepare_task_id_def
    by (intro store_rules svc_keeps)+
qed

lemma keeps_controls [svc_keeps]:
  assumes ports: "ports_keep Q E"
  shows "keeps Q (pause_workflow E user p i n)" "keeps Q (resume_workflow E c user p i n)"
    "keeps Q (retry_robot_agent_decision E c user p i n)" "keeps Q (stop_workflow E user p i n)"
proof -
  have "keeps Q (retry_target view)" for view
    unfolding retry_target_def by (intro store_rules svc_keeps)
  then show "keeps Q (retry_robot_agent_decision E c user p i n)"
    unfolding retry_robot_agent_decision_def repause_workflow_def repause_task_def repause_subtask_def
    by (intro store_rules svc_keeps)
  show "keeps Q (pause_workflow E user p i n)" "keeps Q (resume_workflow E c user p i n)"
    "keeps Q (stop_workflow E user p i n)"
    unfolding pause_workflow_def resume_workflow_def resume_paused_tasks_def resume_paused_task_def
      resume_paused_step_def resume_failed_def stop_workflow_def stop_requested_def stop_result_def
    by (intro store_rules svc_keeps ports)+
qed

lemma keeps_confirm_stop [svc_keeps]:
  assumes ports: "ports_keep Q E"
  shows "keeps Q (confirm_workflow_stop E user p i n b reason)"
  unfolding confirm_workflow_stop_def confirm_target_def finish_confirmation_def Let_def
  by (intro store_rules svc_keeps ports ports_keepD(9)[OF ports]; assumption)

lemma keeps_questions [svc_keeps]:
  "keeps Q (pause_task_for_interaction E user p i j n)"
  "keeps Q (resume_task_after_interaction_failure E user p i j n)"
proof -
  have "keeps Q (failed_waiting xs)" for xs
  proof (induction xs)
    case (Cons x xs)
    show ?case unfolding failed_waiting.simps by (intro store_rules Cons.IH)
  qed (unfold failed_waiting.simps, rule whole.keeps_ok)
  then show "keeps Q (resume_task_after_interaction_failure E user p i j n)"
    unfolding resume_task_after_interaction_failure_def rerun_waiting_subtask_def Let_def
    by (intro store_rules svc_keeps)
  show "keeps Q (pause_task_for_interaction E user p i j n)"
    unfolding pause_task_for_interaction_def pause_recovery_def pause_running_subtask_def
    by (intro store_rules svc_keeps)
qed

lemma keeps_case_route:
  "keeps Q a \<Longrightarrow> keeps Q b \<Longrightarrow> keeps Q d \<Longrightarrow>
   keeps Q (case r of ToDecision \<Rightarrow> a | ToRecovery \<Rightarrow> b | ToContinuation \<Rightarrow> d)"
  by (cases r) auto

lemma keeps_answers [svc_keeps]:
  assumes ports: "ports_keep Q E"
  shows "keeps Q (route_interaction_answer E c value)"
proof -
  have route: "keeps Q (route_waiting t xs)" for t xs
  proof (induction xs)
    case (Cons x xs)
    show ?case unfolding route_waiting.simps by (intro store_rules Cons.IH)
  qed (unfold route_waiting.simps, rule whole.keeps_ok)
  have continue: "keeps Q (continue_from_answer c user value view t)" for c user view t
    unfolding continue_from_answer_def resume_waiting_step_def by (intro store_rules svc_keeps)
  have planning: "keeps Q (resume_task_planning_from_interaction E c user value w t)" for c user w t
    unfolding resume_task_planning_from_interaction_def by (intro store_rules svc_keeps ports)
  have resume: "keeps Q (resume_task_from_interaction E c user value)" for user
    unfolding resume_task_from_interaction_def already_continued_def resume_unanswered_def resume_from_run_def
    by (intro store_rules svc_keeps route continue planning keeps_case_route)
  show ?thesis
    unfolding route_interaction_answer_def by (intro store_rules resume ports_keepD(10)[OF ports]; assumption)
qed

lemma keeps_restart [svc_keeps]:
  assumes ports: "ports_keep Q E"
  shows "keeps Q (recover_interrupted_workflows E now)"
proof -
  have one: "keeps Q (interrupt_subtask now x)" "keeps Q (interrupt_task now unknown t)" for x t unknown
    unfolding interrupt_subtask_def attach_lost_execution_def interrupt_task_def by (intro store_rules)+
  show ?thesis
    unfolding recover_interrupted_workflows_def recover_workflow_def recover_interrupted_def settle_interrupted_def
      wrap_recover_def
    by (intro store_rules svc_keeps one ports)
qed

theorem keeps_job:
  assumes "ports_keep Q E"
  shows "keeps Q (run_job E j)"
  unfolding run_job_def by (cases j; simp only: job.case; intro svc_keeps assms)

theorem keeps_serve:
  assumes "ports_keep Q E"
  shows "keeps Q (serve E render r)"
proof -
  have shut: "keeps Q shutdown"
    unfolding shutdown_def by (rule keeps_memory) simp
  show ?thesis
    unfolding serve_def void_def by (cases r; simp only: request.case; intro store_rules svc_keeps shut assms)
qed

end

end
