(* ===== verification/SvcServer.thy ===== *)
theory SvcServer
  imports SvcKeeps
begin

text \<open>
  The whole server as a step relation: a request is served, a started goroutine runs, or time
  passes, in any order.  Both contracts of the store hold along every run: the rows only move
  along their state machines under the constraints of the schema, and the logs only grow.
\<close>

type_synonym renderer = "workflow_draft \<Rightarrow> string \<Rightarrow> raw_json \<Rightarrow> string"


definition start_job :: "env \<Rightarrow> job \<Rightarrow> sys \<Rightarrow> sys" where
  "start_job E j s = snd (run_job E j (s\<lparr>jobs := remove1 j (jobs s)\<rparr>))"

inductive server_step :: "env \<Rightarrow> renderer \<Rightarrow> sys \<Rightarrow> sys \<Rightarrow> bool" for E render where
  step_request: "server_step E render s (snd (serve E render r s))"
| step_job: "j \<in> set (jobs s) \<Longrightarrow> server_step E render s (start_job E j s)"
| step_time: "clock s \<le> now \<Longrightarrow> server_step E render s (s\<lparr>clock := now\<rparr>)"

inductive_cases server_stepE: "server_step E render s t"

definition server_run :: "env \<Rightarrow> renderer \<Rightarrow> sys \<Rightarrow> sys \<Rightarrow> bool" where
  "server_run E render = (server_step E render)\<^sup>*\<^sup>*"

text \<open>An executable run: requests and the positions of goroutines in the queue.\<close>

datatype event = Request request | Goroutine nat | Tick time

fun play :: "env \<Rightarrow> renderer \<Rightarrow> event list \<Rightarrow> sys \<Rightarrow> sys" where
  "play E render [] s = s"
| "play E render (e # es) s = play E render es (case e of
     Request r \<Rightarrow> snd (serve E render r s)
   | Goroutine n \<Rightarrow> if n < length (jobs s) then start_job E (jobs s ! n) s else s
   | Tick n \<Rightarrow> s\<lparr>clock := clock s + n\<rparr>)"

lemma server_run_refl: "server_run E render s s"
  by (simp add: server_run_def)

lemma server_run_step: "server_step E render s t \<Longrightarrow> server_run E render t u \<Longrightarrow> server_run E render s u"
  unfolding server_run_def by (rule converse_rtranclp_into_rtranclp)

lemma play_runs: "server_run E render s (play E render es s)"
proof (induction es arbitrary: s)
  case (Cons e es)
  show ?case
  proof (cases e)
    case (Request r)
    then show ?thesis using server_run_step[OF step_request Cons.IH] by simp
  next
    case (Goroutine n)
    then show ?thesis
      using Cons.IH server_run_step[OF step_job Cons.IH] by (cases "n < length (jobs s)") simp_all
  next
    case (Tick n)
    then show ?thesis using server_run_step[OF step_time Cons.IH] by simp
  qed
qed (simp add: server_run_refl)

context service_client
begin

lemma step_keeps:
  assumes "ports_keep Q E" "server_step E render s t"
  shows "Q s t"
  using assms(2)
proof cases
  case (step_request r)
  then show ?thesis using keepsD[OF keeps_serve[OF assms(1)]] by simp
next
  case (step_job j)
  have "Q s (s\<lparr>jobs := remove1 j (jobs s)\<rparr>)" by (rule moves_memory) simp_all
  moreover have "Q (s\<lparr>jobs := remove1 j (jobs s)\<rparr>) t"
    unfolding step_job(1) start_job_def by (rule keepsD[OF keeps_job[OF assms(1)]])
  ultimately show ?thesis by (rule whole.frame_trans)
next
  case (step_time now)
  then show ?thesis by (simp add: moves_memory)
qed

theorem run_keeps:
  assumes "ports_keep Q E" "server_run E render s t"
  shows "Q s t"
  using assms(2) unfolding server_run_def
  by (induction rule: rtranclp_induct) (auto intro: whole.frame_refl whole.frame_trans step_keeps[OF assms(1)])

end

interpretation lawful_service: service_client lawful "on_db lawful"
  by (rule service_on_db[OF lawful_store.store_client_axioms])

interpretation growing_service: service_client logs_grow "on_db logs_grow"
  by (rule service_on_db[OF growing_store.store_client_axioms])

lemma lawful_run:
  "ports_keep (on_db lawful) E \<Longrightarrow> server_run E render s t \<Longrightarrow> lawful (dbase s) (dbase t)"
  using lawful_service.run_keeps by (simp add: on_db_def)

lemma growing_run:
  "ports_keep (on_db logs_grow) E \<Longrightarrow> server_run E render s t \<Longrightarrow> logs_grow (dbase s) (dbase t)"
  using growing_service.run_keeps by (simp add: on_db_def)

text \<open>What the law of the store says about single rows of a run.\<close>

lemma lawful_rows:
  assumes "lawful s t" "constraints_hold s"
  shows "find_by w_id i (workflows s) = Some w \<Longrightarrow> \<exists>w'. find_by w_id i (workflows t) = Some w' \<and> workflow_path w w'"
    "live_task i x s \<Longrightarrow> \<exists>x'. live_task i x' t \<and> task_path x x'"
    "live_subtask i y s \<Longrightarrow> \<exists>y'. live_subtask i y' t \<and> subtask_path y y'"
  using assms unfolding lawful_def advances_def by blast+

end
