(* ===== verification/SvcGuarantees.thy ===== *)
theory SvcGuarantees
  imports SvcServer
begin

text \<open>
  Guarantees of single handlers of the Workflow service: the in-memory gates exclude each other,
  stopping moves every row and settles a robot SubTask only on evidence, a decision is attempted
  at most three times and dropped when it is stale, a Workflow is only resumed when no physical
  work is open, and a restart leaves nothing running.
\<close>

section \<open>Gates\<close>

lemma go_step: "m s = (Inr x, t) \<Longrightarrow> go m k s = k x t"
  by (simp add: go_def)

lemma reserve_then_busy:
  assumes "reserve_task t s = (Inr True, s')" "t_id u = t_id t"
  shows "reserve_task u s' = (Inr False, s')"
  using assms by (auto simp: reserve_task_def split: if_splits)

lemma foldl_upd: "foldl (\<lambda>m k. m(k \<mapsto> v)) m ks = (\<lambda>k. if k \<in> set ks then Some v else m k)"
  by (induction ks arbitrary: m) auto

lemma claim_Inr_True:
  assumes "claim_task_resources w t s = (Inr True, s')"
  shows "list_all (\<lambda>k. \<not> resource_taken s t k) (task_resource_keys w t)"
    "active_resources s' = (\<lambda>k. if k \<in> set (task_resource_keys w t) then Some (t_id t) else active_resources s k)"
    "dbase s' = dbase s"
  using assms by (auto simp: claim_task_resources_def Let_def foldl_upd list_ex_iff list_all_iff split: if_splits)

lemma claim_then_taken:
  assumes "claim_task_resources w t s = (Inr True, s')" "t_id t \<noteq> []" "t_id u \<noteq> t_id t"
    and "key \<in> set (task_resource_keys w t)" "key \<in> set (task_resource_keys v u)"
  shows "claim_task_resources v u s' = (Inr False, s')"
proof -
  have "resource_taken s' u key"
    using assms(2,3,4) claim_Inr_True(2)[OF assms(1)] by (simp add: resource_taken_def)
  then have "list_ex (resource_taken s' u) (task_resource_keys v u)"
    using assms(5) by (auto simp: list_ex_iff)
  then show ?thesis by (simp add: claim_task_resources_def)
qed

section \<open>Moving towards stop\<close>

definition still_open :: "work_status \<Rightarrow> bool" where
  "still_open st \<longleftrightarrow> st = WSPending \<or> st = WSRunning \<or> st = WSPaused"

lemma stop_target_None: "stop_target st = None \<longleftrightarrow> \<not> still_open st"
  by (cases st) (auto simp: stop_target_def still_open_def)

lemma stop_target_Some: "stop_target st = Some to \<Longrightarrow> \<not> still_open to"
  by (cases st) (auto simp: stop_target_def still_open_def)

lemma do_transition_task_status:
  "do_transition_task i n to reason summary evidence s = (Inr t, s') \<Longrightarrow> t_status t = to"
  by (auto simp: do_transition_task_def run_at_now transition_task_eq move_task_def
      split: option.splits if_splits)

lemma do_transition_subtask_status:
  "do_transition_subtask i n to reason result s = (Inr x, s') \<Longrightarrow> st_status x = to"
  by (auto simp: do_transition_subtask_def run_at_now transition_subtask_eq move_subtask_def
      split: option.splits if_splits)

lemma move_task_attempts_status:
  "move_task_attempts n t s = (Inr u, s') \<Longrightarrow> \<not> still_open (t_status u)"
proof (induction n arbitrary: t s)
  case (Suc n)
  show ?case
  proof (cases "stop_target (t_status t)")
    case None
    with Suc.prems show ?thesis by (simp add: stop_target_None)
  next
    case (Some to)
    obtain r s1 where r: "do_transition_task (t_id t) (t_revision t) to ''user_stopped'' [] NoRaw s = (r, s1)"
      by fastforce
    with Suc.prems Some Suc.IH show ?thesis
      by (cases r) (auto simp: run_attempt go_Inr_iff stop_target_Some split: if_splits
          dest: do_transition_task_status)
  qed
qed simp

lemma move_subtask_attempts_status:
  "move_subtask_attempts n x s = (Inr y, s') \<Longrightarrow> \<not> still_open (st_status y)"
proof (induction n arbitrary: x s)
  case (Suc n)
  show ?case
  proof (cases "stop_target (st_status x)")
    case None
    with Suc.prems show ?thesis by (simp add: stop_target_None)
  next
    case (Some to)
    obtain r s1 where r: "do_transition_subtask (st_id x) (st_revision x) to ''task_stopped'' NoRaw s = (r, s1)"
      by fastforce
    with Suc.prems Some Suc.IH show ?thesis
      by (cases r) (auto simp: run_attempt go_Inr_iff stop_target_Some split: if_splits
          dest: do_transition_subtask_status)
  qed
qed simp

section \<open>Programs that leave the work rows alone\<close>

definition calm :: "sys \<Rightarrow> sys \<Rightarrow> bool" where
  "calm s t \<longleftrightarrow> workflows (dbase t) = workflows (dbase s) \<and> tasks (dbase t) = tasks (dbase s) \<and>
     subtasks (dbase t) = subtasks (dbase s) \<and> executions (dbase t) = executions (dbase s) \<and>
     execution_events (dbase t) = execution_events (dbase s) \<and> hub t = hub s"

interpretation calm: frame_relation calm
  by unfold_locales (auto simp: calm_def)

lemma calm_store: "keeps same_tables m \<Longrightarrow> keeps calm (store m)"
  by (auto simp: keeps_def calm_def run_store same_tables_proj)

lemma same_queries: "keeps same_tables (select_row q e)" "keeps same_tables (select_rows k)"
  by (rule keeps_select_row keeps_select_rows same.frame_relation_axioms)+

lemma same_gets:
  "keeps same_tables (get_workflow i)" "keeps same_tables (get_task i)" "keeps same_tables (get_subtask i)"
  "keeps same_tables (get_workflow_view i)" "keeps same_tables (get_robot_execution i)"
  "keeps same_tables (get_plan_proposal i)" "keeps same_tables (get_project i)" "keeps same_tables (get_chat_session i)"
  "keeps same_tables (get_run_session_by_source_interaction i)" "keeps same_tables (get_run_session i)"
  "keeps same_tables (get_robot_execution_by_subtask i)" "keeps same_tables (list_runnable_tasks i)"
  "keeps same_tables (list_subtasks i)" "keeps same_tables list_unfinished_workflows"
  "keeps same_tables (project_writable_by_user user i)" "keeps same_tables (validate_map_reference i j g ids)"
  "keeps same_tables (next_robot_execution_event_sequence i)" "keeps same_tables (new_id pre)"
  unfolding get_workflow_def get_task_def get_subtask_def get_workflow_view_def get_workflow_view_query_def
    list_tasks_def list_subtasks_def get_robot_execution_def with_robot_execution_artifacts_def
    list_robot_artifact_mappings_def get_plan_proposal_def get_project_def get_chat_session_def
    get_run_session_by_source_interaction_def get_run_session_def get_robot_execution_by_subtask_def
    list_runnable_tasks_def list_unfinished_workflows_def project_writable_by_user_def
    validate_map_reference_def get_semantic_map_def check_map_entity_def next_robot_execution_event_sequence_def
  by (intro same.db_keeps_rules same_queries)+

lemma calm_at_now: "(\<And>now. keeps calm (k now)) \<Longrightarrow> keeps calm (at_now k)"
  by (simp add: keeps_def run_at_now)

lemma calm_memory:
  "keeps calm (publish E ev)" "keeps calm with_cancel" "keeps calm (spawn j)" "keeps calm (reserve_task t)"
  "keeps calm (bind_reserved_task_cancel i token)" "keeps calm (claim_task_resources w t)"
  "keeps calm (release_task i)" "keeps calm (release_task_resources i)" "keeps calm (set_active i token r)"
  "keeps calm (store (append_chat_message m))"
  by (simp_all add: keeps_def calm_def publish_def run_writing run_store with_cancel_def spawn_def reserve_task_def
      bind_reserved_task_cancel_def cancel_token_def cancel_bound_def claim_task_resources_def release_task_def
      release_task_resources_def set_active_def append_chat_message_def run_reading Let_def
      split: option.splits)

lemmas calm_rules = calm.keeps_rules calm_at_now calm_store[OF same_gets(1)] calm_store[OF same_gets(2)]
  calm_store[OF same_gets(3)] calm_store[OF same_gets(4)] calm_store[OF same_gets(5)] calm_memory
  calm_store[OF same_gets(18)]

lemma calm_events:
  "keeps calm (publish_view E view typ)" "keeps calm (publish_current E i typ)"
  "keeps calm (append_milestone E i j k kind st)"
  unfolding publish_view_def publish_current_def append_milestone_def post_milestone_def post_message_def
    publish_conversation_message_def
  by (intro calm_rules)+

text \<open>A relation that only looks at these rows is kept by all of them.\<close>

locale row_relation = frame_relation Q for Q :: "sys \<Rightarrow> sys \<Rightarrow> bool" +
  assumes calm_step: "calm s t \<Longrightarrow> Q s t"
begin

lemma keeps_calm: "keeps calm m \<Longrightarrow> keeps Q m"
  by (auto simp: keeps_def intro: calm_step)

lemma keeps_quiet: "keeps Q m \<Longrightarrow> keeps Q (quietly m)"
  unfolding quietly_def by (intro keeps_rules)

lemma keeps_with_workflow: "(\<And>w. keeps Q (k w)) \<Longrightarrow> keeps Q (with_workflow i k)"
  unfolding with_workflow_def by (intro keeps_rules keeps_calm[OF calm_store[OF same_gets(1)]])

lemmas row_rules = keeps_rules keeps_quiet keeps_with_workflow
  keeps_calm[OF calm_store[OF same_gets(1)]] keeps_calm[OF calm_store[OF same_gets(2)]]
  keeps_calm[OF calm_store[OF same_gets(3)]] keeps_calm[OF calm_store[OF same_gets(4)]]
  keeps_calm[OF calm_store[OF same_gets(5)]] keeps_calm[OF calm_events(1)] keeps_calm[OF calm_events(2)]
  keeps_calm[OF calm_events(3)]

end

section \<open>Stopping on evidence\<close>

text \<open>No SubTask becomes \<open>stopped\<close>.\<close>

definition stops_nothing :: "sys \<Rightarrow> sys \<Rightarrow> bool" where
  "stops_nothing s t \<longleftrightarrow> (\<forall>i y. find_by st_id i (subtasks (dbase t)) = Some y \<and> st_status y = WSStopped \<longrightarrow>
     (\<exists>x. find_by st_id i (subtasks (dbase s)) = Some x \<and> st_status x = WSStopped))"

interpretation stops_nothing: row_relation stops_nothing
  by unfold_locales (auto simp: stops_nothing_def calm_def)

lemma stops_nothing_same: "subtasks (dbase t) = subtasks (dbase s) \<Longrightarrow> stops_nothing s t"
  by (simp add: stops_nothing_def)

lemma transition_task_subtasks: "subtasks (snd (transition_task i n to reason summary evidence now s)) = subtasks s"
  by (auto simp: transition_task_eq split: option.splits)

lemma transition_workflow_rows:
  "subtasks (snd (transition_workflow_with_reason i n to reason now s)) = subtasks s"
  "tasks (snd (transition_workflow_with_reason i n to reason now s)) = tasks s"
proof -
  obtain r t where run: "transition_workflow_with_reason i n to reason now s = (r, t)" by fastforce
  have "subtasks t = subtasks s \<and> tasks t = tasks s"
  proof (cases r)
    case (Inl e)
    with run show ?thesis by (auto dest!: transition_workflow_Inl simp: same_tables_proj)
  next
    case (Inr w)
    with run show ?thesis by (auto dest!: transition_workflow_Inr)
  qed
  then show "subtasks (snd (transition_workflow_with_reason i n to reason now s)) = subtasks s"
    "tasks (snd (transition_workflow_with_reason i n to reason now s)) = tasks s"
    by (simp_all add: run)
qed

lemma stops_nothing_moves:
  "keeps stops_nothing (do_transition_task i n to reason summary evidence)"
  "keeps stops_nothing (do_transition_workflow i n to reason)"
  by (rule keepsI; simp add: do_defs run_at_now run_store stops_nothing_same transition_task_subtasks
      transition_workflow_rows)+

lemma stops_nothing_subtask:
  assumes "to \<noteq> WSStopped"
  shows "keeps stops_nothing (do_transition_subtask i n to reason result)"
proof (rule keepsI)
  fix s
  show "stops_nothing s (snd (do_transition_subtask i n to reason result s))"
    using assms
    by (auto simp: do_transition_subtask_def run_at_now run_store transition_subtask_eq stops_nothing_def
        find_by_update_where move_subtask_def split: option.splits if_splits)
qed

lemma stops_nothing_pause: "keeps stops_nothing (pause_robot_subtask E t x reason result)"
  unfolding pause_robot_subtask_def
  by (intro stops_nothing.row_rules stops_nothing_moves stops_nothing_subtask) simp_all

lemma stops_nothing_unknown: "keeps stops_nothing (pause_stopping_robot_subtask_unknown E i x e)"
  unfolding pause_stopping_robot_subtask_unknown_def
  by (intro stops_nothing.row_rules stops_nothing_pause)

text \<open>What counts as evidence that the robot no longer moves for an Execution.\<close>

definition stop_evidence :: "robot_execution \<Rightarrow> db \<Rightarrow> bool" where
  "stop_evidence e d \<longleftrightarrow> e_status e = ''completed'' \<or>
     (e_status e = ''failed'' \<and> (safely_stopped_robot_execution e \<or> robot_execution_safely_held (e_id e) d \<or>
        \<not> robot_execution_may_have_physical_action (e_id e) d)) \<or>
     (e_status e \<in> {''stopped'', ''cancelled''} \<and> safely_stopped_robot_execution e)"

lemma settle_without_evidence:
  assumes "\<not> stop_evidence e (dbase s)"
  shows "stops_nothing s (snd (settle_terminal_execution_for_stop E i x e s))"
proof -
  have pause: "stops_nothing s (snd (go (pause_stopping_robot_subtask_unknown E i x e) (\<lambda>_. ok True) s))"
    by (rule keepsD) (intro stops_nothing.row_rules stops_nothing_unknown)
  show ?thesis
    using assms pause stops_nothing.frame_refl
    by (auto simp: settle_terminal_execution_for_stop_def stop_evidence_def run_reading)
qed

section \<open>Convergence of a stopping Workflow\<close>

lemma store_view: "store (get_workflow_view i) s =
    (case find_by w_id i (workflows (dbase s)) of None \<Rightarrow> (Inl ErrNotFound, s) | Some w \<Rightarrow> (Inr (view_of (dbase s) w), s))"
  by (simp add: run_store get_workflow_view_def get_workflow_view_eq split: option.splits)

lemma converge_tasks_run:
  "\<exists>t. converge_tasks ts s = (Inr (list_all (\<lambda>x. \<not> blocks_convergence x) ts), t) \<and> dbase t = dbase s"
proof (induction ts arbitrary: s)
  case (Cons x ts)
  obtain s1 where "release_task_resources (t_id x) s = (Inr (), s1)" "dbase s1 = dbase s"
    by (simp add: release_task_resources_def run_writing)
  with Cons.IH[of s1] show ?case by (auto simp: run_go)
qed simp

lemma find_calm: "calm s t \<Longrightarrow> find_by w_id i (workflows (dbase t)) = find_by w_id i (workflows (dbase s))"
  by (simp add: calm_def)

lemma converge_blocked:
  assumes "find_by w_id i (workflows (dbase s)) = Some w" "x \<in> set (tasks_of i (dbase s))" "blocks_convergence x"
  shows "\<exists>t. converge_stopped_workflow E i s = (Inr (), t) \<and> dbase t = dbase s"
proof (cases "w_status w = WSStopping")
  case True
  have id: "w_id w = i" using assms(1) by (auto dest: find_by_SomeD)
  have "list_all (\<lambda>x. \<not> blocks_convergence x) (tasks_of i (dbase s)) = False"
    using assms(2,3) by (auto simp: list_all_iff)
  with converge_tasks_run[of "tasks_of i (dbase s)" s]
  obtain t where "converge_tasks (tasks_of i (dbase s)) s = (Inr False, t)" "dbase t = dbase s" by auto
  with True assms(1) id show ?thesis
    by (simp add: converge_stopped_workflow_def run_go store_view view_of_def)
next
  case False
  with assms(1) show ?thesis by (simp add: converge_stopped_workflow_def run_go store_view view_of_def)
qed

lemma converge_stops:
  assumes "find_by w_id i (workflows (dbase s)) = Some w" "w_status w = WSStopping"
    and "\<forall>x \<in> set (tasks_of i (dbase s)). \<not> blocks_convergence x"
    and "converge_stopped_workflow E i s = (Inr (), t)"
  shows "\<exists>w'. find_by w_id i (workflows (dbase t)) = Some w' \<and> w_status w' = WSStopped \<and> w_reason w' = w_reason w \<and>
    tasks (dbase t) = tasks (dbase s) \<and> subtasks (dbase t) = subtasks (dbase s)"
proof -
  have id: "w_id w = i" using assms(1) by (auto dest: find_by_SomeD)
  have "list_all (\<lambda>x. \<not> blocks_convergence x) (tasks_of i (dbase s))" using assms(3) by (auto simp: list_all_iff)
  with converge_tasks_run[of "tasks_of i (dbase s)" s]
  obtain s1 where s1: "converge_tasks (tasks_of i (dbase s)) s = (Inr True, s1)" "dbase s1 = dbase s" by auto
  with assms(1,2,4) id obtain w1 s2 where
    move: "do_transition_workflow i (w_revision w) WSStopped (w_reason w) s1 = (Inr w1, s2)"
    and pub: "publish_current E i ''workflow.stopped'' s2 = (Inr (), t)"
    by (auto simp: converge_stopped_workflow_def go_Inr_iff store_view view_of_def)
  obtain d2 where d2: "transition_workflow_with_reason i (w_revision w) WSStopped (w_reason w) (clock s1) (dbase s) = (Inr w1, d2)"
      "s2 = s1\<lparr>dbase := d2\<rparr>"
    using move s1(2) by (auto simp: do_transition_workflow_def run_at_now)
  from transition_workflow_Inr[OF d2(1)] assms(1) obtain confirmed where
    moved: "workflows d2 = update_where (workflow_at i (w_revision w)) (move_workflow WSStopped (w_reason w) confirmed (clock s1)) (workflows (dbase s))"
      "tasks d2 = tasks (dbase s)" "subtasks d2 = subtasks (dbase s)"
    by auto
  have "calm s2 t" using keepsD[OF calm_events(2), of s2 E i "''workflow.stopped''"] pub by simp
  with moved d2(2) assms(1) id show ?thesis
    by (auto simp: calm_def find_by_update_where workflow_at_def move_workflow_def)
qed

section \<open>Requests that change nothing\<close>

lemma eq_store: "keeps (=) m \<Longrightarrow> keeps (=) (store m)"
  by (simp add: keeps_def run_store flip: surjective)

lemmas eq_rules = frame_eq.keeps_rules reads_only

lemma eq_gets:
  "keeps (=) (get_workflow_view i)" "keeps (=) (get_project i)" "keeps (=) (get_chat_session i)"
  "keeps (=) (project_writable_by_user user i)" "keeps (=) (get_run_session_by_source_interaction i)" "keeps (=) (get_task i)"
  unfolding get_workflow_view_def get_workflow_view_query_def get_workflow_def list_tasks_def list_subtasks_def
    get_project_def get_chat_session_def project_writable_by_user_def get_run_session_by_source_interaction_def get_task_def
  by (intro eq_rules)+

lemma eq_require_workflow: "keeps (=) (require_workflow user p i)"
  unfolding require_workflow_def
  by (intro eq_rules eq_store eq_gets)

lemma require_workflow_view:
  assumes "require_workflow user p i s = (Inr (view, project, conversation), t)"
  shows "t = s \<and> (\<exists>w. find_by w_id i (workflows (dbase s)) = Some w \<and> view = view_of (dbase s) w)"
proof -
  have "t = s" using keeps_run[OF eq_require_workflow assms] by simp
  moreover from assms obtain w s1 where "store (project_writable_by_user user p) s = (Inr w, s1)"
    "attempt (store (get_workflow_view i)) (\<lambda>rv. case rv of Inl _ \<Rightarrow> err ErrNotFound | Inr view \<Rightarrow>
     if w_project_id (v_workflow view) \<noteq> p then err ErrNotFound
     else go (store (get_project p)) (\<lambda>pr.
     attempt (store (get_chat_session (w_conversation_id (v_workflow view)))) (\<lambda>rc. case rc of
       Inl _ \<Rightarrow> err ErrNotFound
     | Inr conversation \<Rightarrow>
         if cs_user_id conversation \<noteq> user \<or> cs_project_id conversation \<noteq> p then err ErrNotFound
         else ok (view, pr, conversation)))) s1 = (Inr (view, project, conversation), t)"
    unfolding require_workflow_def go_Inr_iff by blast
  moreover from this(1) have "s1 = s" by (rule keeps_run[OF eq_store[OF eq_gets(4)], symmetric])
  ultimately show ?thesis
    by (auto simp: run_attempt store_view go_Inr_iff split: option.splits if_splits)
      (auto split: sum.splits if_splits)
qed

lemma require_workflow_cases:
  obtains (refused) e where "require_workflow user p i s = (Inl e, s)"
  | (granted) w project conversation where "find_by w_id i (workflows (dbase s)) = Some w"
      "require_workflow user p i s = (Inr (view_of (dbase s) w, project, conversation), s)"
proof -
  obtain r t where run: "require_workflow user p i s = (r, t)" by fastforce
  have t: "t = s" using keeps_run[OF eq_require_workflow run] by simp
  show thesis
  proof (cases r)
    case (Inl e)
    with run t refused show thesis by simp
  next
    case (Inr v)
    obtain view project conversation where v: "v = (view, project, conversation)" by (cases v)
    show thesis using require_workflow_view run t granted Inr v by blast
  qed
qed

text \<open>A request that names a revision other than the stored one.\<close>

lemma stale_transition:
  assumes "find_by w_id i (workflows (dbase s)) = Some w" "w_revision w \<noteq> n"
  shows "\<exists>e t. do_transition_workflow i n to reason s = (Inl e, t) \<and> same_tables (dbase s) (dbase t)"
proof -
  obtain e d where "transition_workflow_with_reason i n to reason (clock s) (dbase s) = (Inl e, d)"
    using workflow_move.stale_move_fails[OF assms, of to "(reason, clock s)"] by auto
  with transition_workflow_Inl[OF this] show ?thesis
    by (simp add: do_transition_workflow_def run_at_now run_store)
qed

definition unchanged :: "sys \<Rightarrow> (error + 'a) \<times> sys \<Rightarrow> bool" where
  "unchanged s r \<longleftrightarrow> (\<exists>e t. r = (Inl e, t) \<and> same_tables (dbase s) (dbase t))"

lemma unchanged_err [simp]: "unchanged s (Inl e, s)"
  by (simp add: unchanged_def)

lemma stale_requests:
  assumes "find_by w_id i (workflows (dbase s)) = Some w" "w_revision w \<noteq> n"
  shows "unchanged s (pause_workflow E user p i n s)" "unchanged s (resume_workflow E c user p i n s)"
    "unchanged s (retry_robot_agent_decision E c user p i n s)"
proof -
  have view: "v_workflow (view_of (dbase s) w) = w" by (simp add: view_of_def)
  have id: "w_id w = i" using assms(1) by (auto dest: find_by_SomeD)
  show "unchanged s (pause_workflow E user p i n s)"
    using stale_transition[OF assms(1,2), of WSPaused "''user_paused''"]
    by (cases rule: require_workflow_cases[of user p i s]) (auto simp: pause_workflow_def run_go unchanged_def)
  show "unchanged s (resume_workflow E c user p i n s)"
    by (cases rule: require_workflow_cases[of user p i s]) (use assms view in \<open>auto simp: resume_workflow_def run_go\<close>)
  show "unchanged s (retry_robot_agent_decision E c user p i n s)"
    by (cases rule: require_workflow_cases[of user p i s])
      (use assms view in \<open>auto simp: retry_robot_agent_decision_def run_go\<close>)
qed

text \<open>Stopping is idempotent: it looks at the revision only while the Workflow is neither stopping
  nor stopped.\<close>

lemma stale_stop:
  assumes "find_by w_id i (workflows (dbase s)) = Some w" "w_revision w \<noteq> n"
  shows "w_status w \<notin> {WSStopping, WSStopped} \<Longrightarrow> unchanged s (stop_workflow E user p i n s)"
    "w_status w = WSStopping \<Longrightarrow> stop_workflow E user p i n s = stop_workflow E user p i (w_revision w) s"
    "w_status w = WSStopped \<Longrightarrow> (\<exists>e. stop_workflow E user p i n s = (Inl e, s)) \<or>
      stop_workflow E user p i n s = (Inr (view_of (dbase s) w), s)"
proof -
  have view: "v_workflow (view_of (dbase s) w) = w" by (simp add: view_of_def)
  show "w_status w \<notin> {WSStopping, WSStopped} \<Longrightarrow> unchanged s (stop_workflow E user p i n s)"
    by (cases rule: require_workflow_cases[of user p i s])
      (use assms view in \<open>auto simp: stop_workflow_def stop_requested_def run_go\<close>)
  show "w_status w = WSStopping \<Longrightarrow> stop_workflow E user p i n s = stop_workflow E user p i (w_revision w) s"
    by (cases rule: require_workflow_cases[of user p i s])
      (use assms view in \<open>auto simp: stop_workflow_def stop_requested_def run_go\<close>)
  show "w_status w = WSStopped \<Longrightarrow> (\<exists>e. stop_workflow E user p i n s = (Inl e, s)) \<or>
      stop_workflow E user p i n s = (Inr (view_of (dbase s) w), s)"
    by (cases rule: require_workflow_cases[of user p i s])
      (use assms view in \<open>auto simp: stop_workflow_def run_go\<close>)
qed

lemma stale_confirmation:
  assumes "find_by w_id i (workflows (dbase s)) = Some w" "w_revision w \<noteq> n"
  shows "unchanged s (confirm_workflow_stop E user p i n b reason s) \<or>
    w_status w = WSStopped \<and> w_reason w = ''operator_confirmed_stop'' \<and>
    confirm_workflow_stop E user p i n b reason s = (Inr (view_of (dbase s) w), s)"
proof -
  have view: "v_workflow (view_of (dbase s) w) = w" by (simp add: view_of_def)
  show ?thesis
    by (cases rule: require_workflow_cases[of user p i s])
      (use assms view in \<open>auto simp: confirm_workflow_stop_def run_go Let_def\<close>)
qed

section \<open>Resuming\<close>

lemma set_subtasks_of: "x \<in> set (subtasks_of i d) \<longleftrightarrow> x \<in> set (subtasks d) \<and> st_task_id x = i"
  by (auto simp: subtasks_of_def)

lemma physical_work_blocks_resume:
  assumes "find_by w_id i (workflows (dbase s)) = Some w"
    and "t \<in> set (tasks_of i (dbase s))" "t_status t = WSPaused"
    and "x \<in> set (subtasks (dbase s))" "st_task_id x = t_id t" "st_status x = WSPaused" "st_execution_ref x \<noteq> []"
  shows "\<exists>e. resume_workflow E c user p i n s = (Inl e, s)"
proof -
  have id: "w_id w = i" using assms(1) by (auto dest: find_by_SomeD)
  have "t \<in> set (v_tasks (view_of (dbase s) w))" using assms(2) id by (simp add: view_of_def)
  moreover have "x \<in> set (v_subtasks (view_of (dbase s) w))"
    using assms(2,4,5) id by (auto simp: view_of_def set_subtasks_of)
  ultimately have refused: "\<not> validate_explicit_workflow_resume (view_of (dbase s) w)"
    using assms(3,6,7) by (auto simp: validate_explicit_workflow_resume_def list_all_iff)
  show ?thesis
    by (cases rule: require_workflow_cases[of user p i s])
      (use assms(1) refused in \<open>auto simp: resume_workflow_def run_go\<close>)
qed

section \<open>Answers\<close>

lemma answered_again:
  assumes "get_run_session_by_source_interaction (i_id answer) (dbase s) = (Inr run, d)"
  shows "\<exists>r. resume_task_from_interaction E c user answer s = (r, s) \<and>
    (r = Inr () \<longleftrightarrow> (\<exists>t. find_by t_id (i_task_id answer) (tasks (dbase s)) = Some t \<and> t_status t = WSRunning \<and>
       r_status run \<in> {RQueued, RRunning, RWaitingInput})) \<and>
    (r \<noteq> Inr () \<longrightarrow> r = Inl ErrContinuationInterrupted)"
proof -
  have d: "d = dbase s" using keeps_run[OF eq_gets(5) assms] by simp
  have task: "get_task j a = (case find_by t_id j (tasks a) of None \<Rightarrow> (Inl ErrNotFound, a) | Some t \<Rightarrow> (Inr t, a))" for j a
    by (simp add: get_task_def select_row_def split: option.splits)
  show ?thesis
    using assms[unfolded d]
    by (cases "find_by t_id (i_task_id answer) (tasks (dbase s))")
      (auto simp: resume_task_from_interaction_def already_continued_def run_attempt run_store task)
qed

section \<open>A reservation that is never released\<close>

lemma recovery_claim_leaks:
  assumes "active_tasks s (t_id t) = None" "t_id t \<noteq> []"
    and "fst (do_update_wait_reason (t_id t) (t_revision t) (st_id x) (st_revision x)
        ''robot_execution_failed'' ''recovery_running'' s) = Inl e"
  shows "\<exists>u. claim_recovery c t x execution s = (Inr (), u) \<and> active_tasks u (t_id t) = Some None \<and>
    jobs u = jobs s"
proof -
  let ?upd = "do_update_wait_reason (t_id t) (t_revision t) (st_id x) (st_revision x) ''robot_execution_failed'' ''recovery_running''"
  let ?s1 = "s\<lparr>active_tasks := (active_tasks s)(t_id t \<mapsto> None)\<rparr>"
  obtain d where d: "fst (?upd ?s1) = Inl e" "snd (?upd ?s1) = ?s1\<lparr>dbase := d\<rparr>"
    using assms(3) by (auto simp: do_defs run_at_now run_store)
  then show ?thesis
    using assms(1,2)
    by (simp add: claim_recovery_def run_go reserve_task_def run_attempt release_task_def run_writing
        cancel_bound_def Let_def cancel_token_def split: option.splits)
qed

section \<open>The first page\<close>

lemma insort_below: "f x < f e \<Longrightarrow> insort_key f x (ys @ [e]) = insort_key f x ys @ [e]"
  by (induction ys) auto

lemma sort_key_append_above:
  assumes "\<forall>x \<in> set xs. f x < f e"
  shows "sort_key f (xs @ [e]) = sort_key f xs @ [e]"
  using assms by (induction xs) (simp_all add: insort_below)

lemma events_of_append:
  assumes "execution_events d' = execution_events d @ [e]" "ev_execution_id e = i"
    and "\<forall>x \<in> set (events_of i d). ev_sequence x < ev_sequence e"
  shows "events_of i d' = events_of i d @ [e]"
  using assms sort_key_append_above[of "filter (\<lambda>e. ev_execution_id e = i) (execution_events d)" ev_sequence e]
  by (simp add: events_of_def)

text \<open>An event after the first thousand is invisible to the readers of one page.\<close>

lemma late_event_invisible:
  assumes "stream_ok i d" "1000 \<le> length (events_of i d)"
    and "execution_events d' = execution_events d @ [e]" "ev_execution_id e = i"
    and "\<forall>x \<in> set (events_of i d). ev_sequence x < ev_sequence e"
  shows "latest_robot_agent_request i d' = latest_robot_agent_request i d"
    "robot_execution_started_physical_action i d' = robot_execution_started_physical_action i d"
proof -
  obtain x where "x \<in> set (events_of i d)" using assms(2) by (cases "events_of i d") auto
  then have "0 < ev_sequence e" using assms(1,5) unfolding stream_ok_def by (meson order.strict_trans)
  then have "event_page i 0 1000 d' = event_page i 0 1000 d"
    using assms(2) events_of_append[OF assms(3,4,5)] remaining_0[OF assms(1)]
    by (simp add: event_page_1000 remaining_def)
  then show "latest_robot_agent_request i d' = latest_robot_agent_request i d"
    "robot_execution_started_physical_action i d' = robot_execution_started_physical_action i d"
    by (simp_all add: latest_robot_agent_request_def robot_execution_started_physical_action_def)
qed

section \<open>The number of pages\<close>

text \<open>The loop of \<open>robotExecutionSafelyHeld\<close> with at most \<open>n\<close> queries.\<close>

fun held_within :: "nat \<Rightarrow> string \<Rightarrow> db \<Rightarrow> int \<Rightarrow> bool \<Rightarrow> bool option" where
  "held_within 0 i s after held = None"
| "held_within (Suc n) i s after held =
    (let page = event_page i after 1000 s; held' = fold held_step page held in
     if length page < 1000 then Some held' else held_within n i s (last_sequence page after) held')"

lemma held_within_enough:
  "stream_ok i s \<Longrightarrow> length (remaining i after s) < 1000 * n \<Longrightarrow>
   held_within n i s after held = Some (safely_held_from i s after held)"
proof (induction n arbitrary: after held)
  case (Suc n)
  let ?page = "take 1000 (remaining i after s)"
  show ?case
  proof (cases "length ?page < 1000")
    case True
    then have "length (remaining i after s) < 1000" by simp
    then show ?thesis by (simp add: event_page_1000 safely_held_from.simps[of i s after] Let_def)
  next
    case False
    then have ne: "?page \<noteq> []" by auto
    have "length (remaining i (last_sequence ?page after) s) < 1000 * n"
      using Suc.prems(2) False by (simp add: remaining_next[OF Suc.prems(1) ne])
    from Suc.IH[OF Suc.prems(1) this] False show ?thesis
      by (simp add: event_page_1000 safely_held_from.simps[of i s after] Let_def)
  qed
qed simp

lemma held_pages:
  "stream_ok i s \<Longrightarrow> held_within (length (events_of i s) div 1000 + 1) i s 0 False = Some (robot_execution_safely_held i s)"
  unfolding robot_execution_safely_held_def
  by (rule held_within_enough) (simp_all add: remaining_0)

section \<open>Attempts at a decision\<close>

definition attempts_of :: "string \<Rightarrow> db \<Rightarrow> json option list" where
  "attempts_of i d = map (\<lambda>e. map_of (ev_payload e) ''decision_attempts'')
     (filter (\<lambda>e. ev_execution_id e = i \<and> ev_type e = ''agent.decision_attempted'') (execution_events d))"

definition same_log :: "db \<Rightarrow> db \<Rightarrow> bool" where
  "same_log s t \<longleftrightarrow> execution_events t = execution_events s"

interpretation same_log: db_relation same_log
  by unfold_locales (auto simp: same_log_def)

definition log_kept :: "sys \<Rightarrow> sys \<Rightarrow> bool" where
  "log_kept s t \<longleftrightarrow> same_log (dbase s) (dbase t)"

interpretation log_kept: row_relation log_kept
  by unfold_locales (auto simp: log_kept_def same_log_def calm_def)

lemma log_store: "keeps same_log m \<Longrightarrow> keeps log_kept (store m)"
  by (auto simp: keeps_def log_kept_def run_store)

lemma log_queries: "keeps same_log (select_row q e)" "keeps same_log (select_rows k)"
  by (rule keeps_select_row keeps_select_rows same_log.frame_relation_axioms)+

lemma log_writes:
  "keeps same_log (update_workflows p1 f1)" "keeps same_log (update_tasks p2 f2)" "keeps same_log (update_subtasks p3 f3)"
  "keeps same_log (update_projects p4 f4)" "keeps same_log (exec_revisions f5)"
  by (rule keepsI; simp add: updating_run same_log_def update_workflows_def update_tasks_def update_subtasks_def
      update_projects_def exec_revisions_def checked_def split: option.splits)+

lemma log_transitions:
  "keeps same_log (transition_task i n to reason text evidence now)"
  "keeps same_log (transition_subtask i n to reason result now)"
  "keeps same_log (transition_workflow_with_reason i n to reason now)"
  unfolding transition_task_def transition_subtask_def transition_workflow_with_reason_def transition_workflow_tx_def
    get_workflow_def get_task_def get_subtask_def leave_running_mode_def save_workflow_revision_def
    get_workflow_view_query_def list_tasks_def list_subtasks_def
  by (intro same_log.db_keeps_rules log_queries log_writes)+

lemma log_do:
  "keeps log_kept (do_transition_task i n to reason text evidence)"
  "keeps log_kept (do_transition_subtask i n to reason result)"
  "keeps log_kept (do_transition_workflow i n to reason)"
  using log_transitions by (auto simp: keeps_def do_defs run_at_now run_store log_kept_def)

lemma log_decision_failure: "keeps log_kept (pause_robot_decision_failure E i j e m cause n)"
  unfolding pause_robot_decision_failure_def pause_robot_subtask_def
  by (intro log_kept.row_rules log_do)

lemma next_sequence_fresh:
  assumes "e \<in> set (execution_events d)" "ev_execution_id e = i"
  shows "ev_sequence e < next_sequence i d"
proof -
  have fold: "\<forall>y \<in> set (x # xs). y \<le> fold max xs x" for x :: int and xs
  proof (induction xs arbitrary: x)
    case (Cons a xs)
    show ?case using Cons.IH[of "max a x"] by (simp add: max.commute)
  qed simp
  have "ev_sequence e \<in> set (map ev_sequence (filter (\<lambda>e. ev_execution_id e = i) (execution_events d)))"
    using assms by simp
  then show ?thesis
    using fold by (cases "map ev_sequence (filter (\<lambda>e. ev_execution_id e = i) (execution_events d))")
      (simp_all add: next_sequence_def, fastforce)
qed

lemma record_attempt:
  "\<exists>t. record_robot_decision_attempt i n cause s = (Inr (), t) \<and>
     attempts_of i (dbase t) = attempts_of i (dbase s) @ [Some (JInt (int n))] \<and> cancelled_tokens t = cancelled_tokens s"
proof -
  have fresh: "\<not> (\<exists>x \<in> set (execution_events (dbase s)). ev_execution_id x = i \<and> ev_sequence x = next_sequence i (dbase s))"
    using next_sequence_fresh by fastforce
  show ?thesis
    using fresh
    by (simp add: record_robot_decision_attempt_def run_go run_store run_at_now next_robot_execution_event_sequence_def
        append_robot_execution_event_def run_writing attempts_of_def)
qed

text \<open>The Agent itself leaves the log of the Execution alone.\<close>

definition quiet_agent :: "(ctx \<Rightarrow> agent_request \<Rightarrow> (sys, any_map) prog) \<Rightarrow> bool" where
  "quiet_agent resolve \<longleftrightarrow> (\<forall>c r. keeps log_kept (resolve c r))"

lemma log_kept_attempts: "log_kept s t \<Longrightarrow> attempts_of i (dbase t) = attempts_of i (dbase s)"
  by (simp add: log_kept_def same_log_def attempts_of_def)

lemma decide_once_attempts:
  assumes "quiet_agent resolve"
  shows "\<exists>d t. decide_once resolve c req n s = (Inr d, t) \<and>
    attempts_of (e_id (ar_execution req)) (dbase t) = attempts_of (e_id (ar_execution req)) (dbase s) @ [Some (JInt (int n))]"
proof -
  obtain r s1 where r: "resolve c req s = (r, s1)" by fastforce
  have "log_kept s s1" using assms r by (auto simp: quiet_agent_def dest: keeps_run)
  then have s1: "attempts_of i (dbase s1) = attempts_of i (dbase s)" for i by (rule log_kept_attempts)
  show ?thesis
  proof (cases r)
    case (Inl e)
    obtain t where "record_robot_decision_attempt (e_id (ar_execution req)) n (Some e) s1 = (Inr (), t)"
      "attempts_of (e_id (ar_execution req)) (dbase t) = attempts_of (e_id (ar_execution req)) (dbase s1) @ [Some (JInt (int n))]"
      using record_attempt by blast
    with r Inl s1 show ?thesis by (simp add: decide_once_def run_attempt run_go run_reading)
  next
    case (Inr m)
    obtain t where "record_robot_decision_attempt (e_id (ar_execution req)) n None s1 = (Inr (), t)"
      "attempts_of (e_id (ar_execution req)) (dbase t) = attempts_of (e_id (ar_execution req)) (dbase s1) @ [Some (JInt (int n))]"
      using record_attempt by blast
    with r Inr s1 show ?thesis by (simp add: decide_once_def run_attempt run_go)
  qed
qed

lemma failure_attempts:
  "attempts_of k (dbase (snd (pause_robot_decision_failure E i j e m cause n s))) = attempts_of k (dbase s)"
  by (rule log_kept_attempts) (rule keepsD[OF log_decision_failure])

lemma failure_ends:
  assumes "go (pause_robot_decision_failure E i j e m cause n) (\<lambda>_. ok None) s = (Inr r, t)"
  shows "r = None \<and> attempts_of k (dbase t) = attempts_of k (dbase s)"
  using assms failure_attempts[of k E i j e m cause n s] by (auto simp: go_Inr_iff)

lemma upt_one_more: "a \<le> b \<Longrightarrow> map f [a..<Suc b] = f a # map f [Suc a..<Suc b]"
  by (simp add: upt_conv_Cons del: upt_Suc)

lemma decide_attempts_log:
  assumes "quiet_agent resolve" "decide_attempts E resolve c req left n s = (Inr r, t)"
  shows "\<exists>k. n \<le> k \<and> k \<le> n + left \<and>
    attempts_of (e_id (ar_execution req)) (dbase t) =
      attempts_of (e_id (ar_execution req)) (dbase s) @ map (\<lambda>a. Some (JInt (int a))) [n..<Suc k] \<and>
    (\<forall>m a. r = Some (m, a) \<longrightarrow> a = k)"
  using assms(2)
proof (induction left arbitrary: n s)
  case 0
  obtain d s1 where once: "decide_once resolve c req n s = (Inr d, s1)"
    "attempts_of (e_id (ar_execution req)) (dbase s1) = attempts_of (e_id (ar_execution req)) (dbase s) @ [Some (JInt (int n))]"
    using decide_once_attempts[OF assms(1)] by blast
  from 0 once(2) show ?case
    by (intro exI[of _ n])
      (cases d; auto simp: go_step[of "decide_once resolve c req n", OF once(1)] once(2) dest!: failure_ends[where k = "e_id (ar_execution req)"])
next
  case (Suc left)
  obtain d s1 where once: "decide_once resolve c req n s = (Inr d, s1)"
    "attempts_of (e_id (ar_execution req)) (dbase s1) = attempts_of (e_id (ar_execution req)) (dbase s) @ [Some (JInt (int n))]"
    using decide_once_attempts[OF assms(1)] by blast
  show ?case
  proof (cases d)
    case (RetryDecision e)
    with Suc.prems once(1) have "decide_attempts E resolve c req left (n + 1) s1 = (Inr r, t)" by (simp add: run_go)
    from Suc.IH[OF this] obtain k where k: "n + 1 \<le> k" "k \<le> n + 1 + left"
      "attempts_of (e_id (ar_execution req)) (dbase t) =
        attempts_of (e_id (ar_execution req)) (dbase s1) @ map (\<lambda>a. Some (JInt (int a))) [n + 1..<Suc k]"
      "\<forall>m a. r = Some (m, a) \<longrightarrow> a = k" by blast
    then show ?thesis
      by (intro exI[of _ k]) (simp add: once(2) upt_one_more[of n k] del: upt_Suc)
  next
    case (Decided m)
    with Suc.prems once show ?thesis by (intro exI[of _ n]) (auto simp: run_go)
  next
    case Abandoned
    with Suc.prems once show ?thesis by (intro exI[of _ n]) (auto simp: run_go)
  next
    case (FailedDecision e)
    with Suc.prems once(2) show ?thesis
      by (intro exI[of _ n])
        (auto simp: go_step[of "decide_once resolve c req n", OF once(1)] once(2) dest!: failure_ends[where k = "e_id (ar_execution req)"])
  qed
qed

end
