(* ===== verification/SvcRestart.thy ===== *)
theory SvcRestart
  imports SvcGuarantees
begin

text \<open>
  What \<open>RecoverInterruptedWorkflows\<close> guarantees after a restart of the server: every Task and
  SubTask of an unfinished Workflow that was \<open>running\<close> is paused, since the goroutine that ran it
  is gone, and nothing new is running when the loop has ended.
\<close>

section \<open>One SubTask\<close>

text \<open>Every row but one stays.\<close>

definition touches_subtask :: "string \<Rightarrow> db \<Rightarrow> db \<Rightarrow> bool" where
  "touches_subtask i d d' \<longleftrightarrow> tasks d' = tasks d \<and>
     (\<forall>j. j \<noteq> i \<longrightarrow> find_by st_id j (subtasks d') = find_by st_id j (subtasks d))"

lemma touches_refl [simp]: "touches_subtask i d d"
  by (simp add: touches_subtask_def)

lemma touches_trans: "touches_subtask i d e \<Longrightarrow> touches_subtask i e f \<Longrightarrow> touches_subtask i d f"
  by (simp add: touches_subtask_def)

lemma attach_run:
  assumes "find_by st_id i (subtasks d) = Some x" "st_status x = WSRunning"
    and "attach_subtask_execution i (st_revision x) k now d = (r, d')"
  shows "touches_subtask i d d' \<and> (case r of Inl e \<Rightarrow> subtasks d' = subtasks d
    | Inr y \<Rightarrow> find_by st_id i (subtasks d') = Some y \<and> st_status y = WSRunning \<and> st_id y = i)"
proof -
  have id: "st_id x = i" using assms(1) by (auto dest: find_by_SomeD)
  let ?p = "\<lambda>y. st_id y = i \<and> st_revision y = st_revision x \<and> st_status y = WSRunning \<and> st_execution_ref y = []"
  let ?f = "\<lambda>y. bump_subtask now y\<lparr>st_execution_ref := trim_space k\<rparr>"
  have found: "find_by st_id j (update_where ?p ?f (subtasks d)) =
      map_option (\<lambda>y. if ?p y then ?f y else y) (find_by st_id j (subtasks d))" for j
    by (rule find_by_update_where) (simp add: bump_subtask_def)
  consider (blank) "trim_space k = []" | (none) "trim_space k \<noteq> []" "count_where ?p (subtasks d) = 0"
    | (one) "trim_space k \<noteq> []" "count_where ?p (subtasks d) \<noteq> 0" by blast
  then show ?thesis
  proof cases
    case blank
    with assms(3) show ?thesis by (auto simp: attach_subtask_execution_def)
  next
    case none
    then have "update_where ?p ?f (subtasks d) = subtasks d"
      by (auto simp: count_where_0 intro: update_where_none)
    with none assms(3) show ?thesis
      by (auto simp: attach_subtask_execution_def run_go update_subtasks_def updating_run)
  next
    case one
    with assms(3) have run: "get_subtask i (d\<lparr>subtasks := update_where ?p ?f (subtasks d)\<rparr>) = (r, d')"
      by (simp add: attach_subtask_execution_def Let_def run_go update_subtasks_def updating_run)
    have "find_by st_id i (update_where ?p ?f (subtasks d)) = Some (if ?p x then ?f x else x)"
      by (simp only: found assms(1) option.map)
    moreover have "find_by st_id j (update_where ?p ?f (subtasks d)) = find_by st_id j (subtasks d)" if "j \<noteq> i" for j
      unfolding found using that by (auto simp: map_option_case dest: find_by_SomeD split: option.splits)
    moreover have "st_status (if ?p x then ?f x else x) = WSRunning" "st_id (if ?p x then ?f x else x) = i"
      using assms(2) id by (simp_all add: bump_subtask_def)
    ultimately show ?thesis using run
      by (simp add: get_subtask_def select_row_def touches_subtask_def del: if_split_asm if_split) auto
  qed
qed

lemma attach_lost_run:
  assumes "find_by st_id (st_id x) (subtasks (dbase s)) = Some x" "st_status x = WSRunning"
  shows "\<exists>y t. attach_lost_execution now x s = (Inr y, t) \<and> find_by st_id (st_id x) (subtasks (dbase t)) = Some y \<and>
    st_id y = st_id x \<and> st_status y = WSRunning \<and> touches_subtask (st_id x) (dbase s) (dbase t)"
proof (cases "st_execution_ref x \<noteq> []")
  case True
  with assms show ?thesis by (simp add: attach_lost_execution_def)
next
  case False
  obtain r d where found: "get_robot_execution_by_subtask (st_id x) (dbase s) = (r, d)" by fastforce
  have "same_tables (dbase s) d" using keeps_run[OF same_gets(11) found] .
  then have rows: "subtasks d = subtasks (dbase s)" "tasks d = tasks (dbase s)" by (simp_all add: same_tables_proj)
  have d: "touches_subtask (st_id x) (dbase s) d" by (simp add: touches_subtask_def rows)
  show ?thesis
  proof (cases r)
    case (Inl e)
    with False assms found d rows show ?thesis
      by (simp add: attach_lost_execution_def run_attempt run_store)
  next
    case (Inr execution)
    obtain a d' where a: "attach_subtask_execution (st_id x) (st_revision x) (e_id execution) now d = (a, d')" by fastforce
    have "touches_subtask (st_id x) d d' \<and> (case a of Inl e \<Rightarrow> subtasks d' = subtasks d
        | Inr y \<Rightarrow> find_by st_id (st_id x) (subtasks d') = Some y \<and> st_status y = WSRunning \<and> st_id y = st_id x)"
      using assms by (intro attach_run[OF _ _ a]) (simp_all add: rows)
    with False assms found Inr a d rows show ?thesis
      by (cases a) (auto simp: attach_lost_execution_def run_attempt run_store intro: touches_trans)
  qed
qed

lemma interrupt_subtask_run:
  assumes "find_by st_id (st_id x) (subtasks (dbase s)) = Some x"
  shows "\<exists>o' y t. interrupt_subtask now x s = (Inr o', t) \<and>
    find_by st_id (st_id x) (subtasks (dbase t)) = Some y \<and> st_status y \<noteq> WSRunning \<and>
    touches_subtask (st_id x) (dbase s) (dbase t)"
proof (cases "st_status x = WSRunning")
  case False
  with assms show ?thesis by (simp add: interrupt_subtask_def)
next
  case True
  have "\<exists>y t. (if st_kind x = ''robot_skill'' then attach_lost_execution now x else ok x) s = (Inr y, t) \<and>
    find_by st_id (st_id x) (subtasks (dbase t)) = Some y \<and> st_id y = st_id x \<and> st_status y = WSRunning \<and>
    touches_subtask (st_id x) (dbase s) (dbase t)"
    by (cases "st_kind x = ''robot_skill''") (use attach_lost_run[OF assms True] assms True in simp_all)
  then obtain y t where y: "(if st_kind x = ''robot_skill'' then attach_lost_execution now x else ok x) s = (Inr y, t)"
    "find_by st_id (st_id x) (subtasks (dbase t)) = Some y" "st_id y = st_id x" "st_status y = WSRunning"
    "touches_subtask (st_id x) (dbase s) (dbase t)"
    by blast
  have allowed: "allowed_task_transition WSRunning WSPaused" by (simp add: allowed_task_transition_def next_task_statuses_def)
  have move: "transition_subtask (st_id y) (st_revision y) WSPaused reason NoRaw now (dbase t) =
      (Inr (move_subtask WSPaused reason NoRaw now y), (dbase t)\<lparr>subtasks :=
        update_where (subtask_at (st_id y) (st_revision y)) (move_subtask WSPaused reason NoRaw now) (subtasks (dbase t))\<rparr>)" for reason
    using y(2,3,4) allowed by (simp add: transition_subtask_eq)
  let ?m = "move_subtask WSPaused (interrupted_reason y) NoRaw now"
  let ?t = "t\<lparr>dbase := (dbase t)\<lparr>subtasks := update_where (subtask_at (st_id y) (st_revision y)) ?m (subtasks (dbase t))\<rparr>\<rparr>"
  have rows: "find_by st_id j (subtasks (dbase ?t)) =
      map_option (\<lambda>z. if subtask_at (st_id y) (st_revision y) z then ?m z else z) (find_by st_id j (subtasks (dbase t)))" for j
    by (simp add: find_by_update_where move_subtask_def)
  have "quietly (store (transition_subtask (st_id y) (st_revision y) WSPaused (interrupted_reason y) NoRaw now)) t = (Inr (), ?t)"
    by (simp add: quietly_def run_ignoring run_store move)
  then have run: "interrupt_subtask now x s = (Inr (Some y), ?t)"
    unfolding interrupt_subtask_def using True y(1) by (simp add: go_step)
  have here: "find_by st_id (st_id x) (subtasks (dbase ?t)) = Some (?m y)"
    unfolding rows using y(2,3) by (simp add: subtask_at_def)
  have others: "j \<noteq> st_id x \<Longrightarrow> find_by st_id j (subtasks (dbase ?t)) = find_by st_id j (subtasks (dbase t))" for j
    unfolding rows using y(3) by (auto simp: map_option_case subtask_at_def dest: find_by_SomeD split: option.splits)
  have "touches_subtask (st_id x) (dbase s) (dbase ?t)"
    using y(5) others by (auto simp: touches_subtask_def)
  with run here show ?thesis by (intro exI conjI) (assumption | simp add: move_subtask_def)+
qed

lemma interrupt_subtasks_run:
  assumes "distinct (map st_id xs)" "\<forall>x \<in> set xs. find_by st_id (st_id x) (subtasks (dbase s)) = Some x"
  shows "\<exists>os t. collect (interrupt_subtask now) xs s = (Inr os, t) \<and> tasks (dbase t) = tasks (dbase s) \<and>
    (\<forall>x \<in> set xs. \<exists>y. find_by st_id (st_id x) (subtasks (dbase t)) = Some y \<and> st_status y \<noteq> WSRunning) \<and>
    (\<forall>j. j \<notin> st_id ` set xs \<longrightarrow> find_by st_id j (subtasks (dbase t)) = find_by st_id j (subtasks (dbase s)))"
  using assms
proof (induction xs arbitrary: s)
  case (Cons x xs)
  obtain o' y t where x: "interrupt_subtask now x s = (Inr o', t)"
    "find_by st_id (st_id x) (subtasks (dbase t)) = Some y" "st_status y \<noteq> WSRunning"
    "touches_subtask (st_id x) (dbase s) (dbase t)"
    using interrupt_subtask_run Cons.prems(2) by (metis list.set_intros(1))
  have "\<forall>z \<in> set xs. find_by st_id (st_id z) (subtasks (dbase t)) = Some z"
  proof
    fix z assume z: "z \<in> set xs"
    then have "st_id z \<noteq> st_id x" using Cons.prems(1) by (metis distinct.simps(2) image_eqI list.simps(9) set_map)
    with z x(4) Cons.prems(2) show "find_by st_id (st_id z) (subtasks (dbase t)) = Some z"
      by (simp add: touches_subtask_def)
  qed
  with Cons.IH[of t] Cons.prems(1) obtain os u where rest: "collect (interrupt_subtask now) xs t = (Inr os, u)"
    "tasks (dbase u) = tasks (dbase t)"
    "\<forall>z \<in> set xs. \<exists>y. find_by st_id (st_id z) (subtasks (dbase u)) = Some y \<and> st_status y \<noteq> WSRunning"
    "\<forall>j. j \<notin> st_id ` set xs \<longrightarrow> find_by st_id j (subtasks (dbase u)) = find_by st_id j (subtasks (dbase t))"
    by auto
  show ?case
  proof (intro exI conjI)
    show "collect (interrupt_subtask now) (x # xs) s = (Inr (o' # os), u)" using x(1) rest(1) by (simp add: run_go)
  qed (use x rest Cons.prems(1) in \<open>auto simp: touches_subtask_def\<close>)
qed simp

section \<open>Nothing starts\<close>

text \<open>
  The rows keep their identities, no row becomes \<open>running\<close>, and the admission locks of the Robot
  service are held by whom they were.
\<close>

definition starts_nothing :: "sys \<Rightarrow> sys \<Rightarrow> bool" where
  "starts_nothing s t \<longleftrightarrow>
     map w_id (workflows (dbase t)) = map w_id (workflows (dbase s)) \<and>
     map (\<lambda>x. (t_id x, t_workflow_id x)) (tasks (dbase t)) = map (\<lambda>x. (t_id x, t_workflow_id x)) (tasks (dbase s)) \<and>
     map (\<lambda>x. (st_id x, st_task_id x)) (subtasks (dbase t)) = map (\<lambda>x. (st_id x, st_task_id x)) (subtasks (dbase s)) \<and>
     {t_id x | x. x \<in> set (tasks (dbase t)) \<and> t_status x = WSRunning} \<subseteq>
       {t_id x | x. x \<in> set (tasks (dbase s)) \<and> t_status x = WSRunning} \<and>
     {st_id x | x. x \<in> set (subtasks (dbase t)) \<and> st_status x = WSRunning} \<subseteq>
       {st_id x | x. x \<in> set (subtasks (dbase s)) \<and> st_status x = WSRunning} \<and>
     hb_admissions (hub t) = hb_admissions (hub s)"

interpretation starts_nothing: row_relation starts_nothing
proof unfold_locales
  show "starts_nothing s t \<Longrightarrow> starts_nothing t u \<Longrightarrow> starts_nothing s u" for s t u
    unfolding starts_nothing_def by (intro conjI; (elim conjE)?; (rule trans | rule subset_trans); assumption)
qed (simp_all add: starts_nothing_def calm_def)

lemma starts_nothing_tasks:
  assumes "workflows d' = workflows (dbase s)" "subtasks d' = subtasks (dbase s)"
    and "tasks d' = update_where p f (tasks (dbase s))"
    and "\<And>x. t_id (f x) = t_id x \<and> t_workflow_id (f x) = t_workflow_id x"
    and "\<And>x. p x \<Longrightarrow> t_status (f x) = WSRunning \<Longrightarrow> t_status x = WSRunning"
  shows "starts_nothing s (s\<lparr>dbase := d'\<rparr>)"
proof -
  have "map (\<lambda>x. (t_id x, t_workflow_id x)) (tasks d') = map (\<lambda>x. (t_id x, t_workflow_id x)) (tasks (dbase s))"
    using map_key_update_where[of "\<lambda>x. (t_id x, t_workflow_id x)" f p "tasks (dbase s)"] assms(3,4) by simp
  moreover have "{t_id x | x. x \<in> set (tasks d') \<and> t_status x = WSRunning} \<subseteq>
      {t_id x | x. x \<in> set (tasks (dbase s)) \<and> t_status x = WSRunning}"
    using assms(4,5) by (auto simp: assms(3) set_update_where split: if_splits)
  ultimately show ?thesis using assms(1,2) by (simp add: starts_nothing_def)
qed

lemma starts_nothing_subtasks:
  assumes "workflows d' = workflows (dbase s)" "tasks d' = tasks (dbase s)"
    and "subtasks d' = update_where p f (subtasks (dbase s))"
    and "\<And>x. st_id (f x) = st_id x \<and> st_task_id (f x) = st_task_id x"
    and "\<And>x. p x \<Longrightarrow> st_status (f x) = WSRunning \<Longrightarrow> st_status x = WSRunning"
  shows "starts_nothing s (s\<lparr>dbase := d'\<rparr>)"
proof -
  have "map (\<lambda>x. (st_id x, st_task_id x)) (subtasks d') = map (\<lambda>x. (st_id x, st_task_id x)) (subtasks (dbase s))"
    using map_key_update_where[of "\<lambda>x. (st_id x, st_task_id x)" f p "subtasks (dbase s)"] assms(3,4) by simp
  moreover have "{st_id x | x. x \<in> set (subtasks d') \<and> st_status x = WSRunning} \<subseteq>
      {st_id x | x. x \<in> set (subtasks (dbase s)) \<and> st_status x = WSRunning}"
    using assms(4,5) by (auto simp: assms(3) set_update_where split: if_splits)
  ultimately show ?thesis using assms(1,2) by (simp add: starts_nothing_def)
qed

lemma starts_nothing_ops:
  "to \<noteq> WSRunning \<Longrightarrow> keeps starts_nothing (store (transition_task i n to reason text evidence now))"
  "to \<noteq> WSRunning \<Longrightarrow> keeps starts_nothing (store (transition_subtask i n to reason result now))"
  "keeps starts_nothing (store (set_pending_task_reason i n reason now))"
  "keeps starts_nothing (store (attach_subtask_execution i n k now))"
proof -
  show "keeps starts_nothing (store (transition_task i n to reason text evidence now))" if "to \<noteq> WSRunning"
  proof (rule keepsI)
    fix s
    show "starts_nothing s (snd (store (transition_task i n to reason text evidence now) s))"
      using that starts_nothing.frame_refl
      by (auto simp: run_store transition_task_eq split: option.splits intro!: starts_nothing_tasks)
  qed
  show "keeps starts_nothing (store (transition_subtask i n to reason result now))" if "to \<noteq> WSRunning"
  proof (rule keepsI)
    fix s
    show "starts_nothing s (snd (store (transition_subtask i n to reason result now) s))"
      using that starts_nothing.frame_refl
      by (auto simp: run_store transition_subtask_eq split: option.splits intro!: starts_nothing_subtasks)
  qed
  show "keeps starts_nothing (store (set_pending_task_reason i n reason now))"
  proof (rule keepsI)
    fix s
    show "starts_nothing s (snd (store (set_pending_task_reason i n reason now) s))"
      by (auto simp: run_store set_pending_task_reason_def run_go update_tasks_def updating_run get_task_def select_row_def
          split: option.splits intro!: starts_nothing_tasks)
  qed
  show "keeps starts_nothing (store (attach_subtask_execution i n k now))"
  proof (rule keepsI)
    fix s
    show "starts_nothing s (snd (store (attach_subtask_execution i n k now) s))"
      using starts_nothing.frame_refl
      by (auto simp: run_store attach_subtask_execution_def Let_def run_go update_subtasks_def updating_run get_subtask_def
          select_row_def split: option.splits intro!: starts_nothing_subtasks)
  qed
qed

lemma starts_nothing_workflow:
  "keeps starts_nothing (store (transition_workflow_with_reason i n to reason now))"
proof (rule keepsI)
  fix s :: sys
  obtain r d where run: "transition_workflow_with_reason i n to reason now (dbase s) = (r, d)" by fastforce
  have "map w_id (workflows d) = map w_id (workflows (dbase s))"
  proof (cases r)
    case (Inl e)
    with run show ?thesis by (auto dest!: transition_workflow_Inl simp: same_tables_proj)
  next
    case (Inr w)
    from transition_workflow_Inr[OF run[unfolded Inr]] obtain p f where
      "workflows d = update_where p f (workflows (dbase s))" "\<And>w. w_id (f w) = w_id w"
      by (metis workflow_moves(1))
    then show ?thesis by (simp add: map_key_update_where)
  qed
  moreover have "tasks d = tasks (dbase s)" "subtasks d = subtasks (dbase s)"
    using transition_workflow_rows[of i n to reason now "dbase s"] run by simp_all
  ultimately show "starts_nothing s (snd (store (transition_workflow_with_reason i n to reason now) s))"
    by (simp add: run_store run starts_nothing_def)
qed

lemma starts_at_now: "(\<And>now. keeps starts_nothing (k now)) \<Longrightarrow> keeps starts_nothing (at_now k)"
  by (simp add: keeps_def run_at_now)

lemma starts_do:
  "to \<noteq> WSRunning \<Longrightarrow> keeps starts_nothing (do_transition_task i n to reason text evidence)"
  "to \<noteq> WSRunning \<Longrightarrow> keeps starts_nothing (do_transition_subtask i n to reason result)"
  "keeps starts_nothing (do_set_pending_task_reason i n reason)"
  "keeps starts_nothing (do_transition_workflow i n to reason)"
  unfolding do_defs by (intro starts_at_now starts_nothing_ops starts_nothing_workflow; assumption)+

lemma starts_run: "keeps starts_nothing (do_transition_run i rs st)"
proof (rule starts_nothing.keeps_calm, rule keepsI)
  fix s :: sys
  have "workflows d = workflows (dbase s) \<and> tasks d = tasks (dbase s) \<and> subtasks d = subtasks (dbase s) \<and>
    executions d = executions (dbase s) \<and> execution_events d = execution_events (dbase s)"
    if "transition_run_status i rs st now (dbase s) = (r, d)" for r d now
    using that
    by (auto simp: transition_run_status_def update_runs_checked_def run_go exec_runs_def checked_def
        after_run_update_def get_run_session_def select_row_def split: if_splits option.splits)
  then show "calm s (snd (do_transition_run i rs st s))"
    by (cases "transition_run_status i rs st (clock s) (dbase s)")
      (simp add: do_transition_run_def run_at_now run_store calm_def)
qed

lemma starts_calm_gets: "keeps same_tables m \<Longrightarrow> keeps starts_nothing (store m)"
  by (rule starts_nothing.keeps_calm[OF calm_store])

lemmas starts_rules = starts_nothing.row_rules starts_do starts_run starts_at_now
  starts_calm_gets[OF same_gets(7)] starts_calm_gets[OF same_gets(8)] starts_calm_gets[OF same_gets(11)]
  starts_calm_gets[OF same_gets(12)] starts_calm_gets[OF same_gets(14)] starts_calm_gets[OF same_gets(16)]
  starts_nothing.keeps_calm[OF calm_memory(1)] starts_nothing.keeps_calm[OF calm_memory(2)]
  starts_nothing.keeps_calm[OF calm_memory(3)] starts_nothing.keeps_calm[OF calm_memory(4)]
  starts_nothing.keeps_calm[OF calm_memory(8)]

lemma starts_schedule: "keeps starts_nothing (schedule E c user i)"
proof -
  have "keeps starts_nothing (schedule_tasks E c user w ts)" for w ts
  proof (induction ts)
    case (Cons t ts)
    show ?case
      unfolding schedule_tasks.simps map_changed_def launch_prepare_def validate_workflow_map_binding_def
        validate_map_scope_def
      by (intro starts_rules Cons.IH)
  qed (unfold schedule_tasks.simps, rule starts_nothing.keeps_ok)
  then show ?thesis unfolding schedule_def Let_def by (intro starts_rules)
qed

lemma starts_pause: "keeps starts_nothing (pause_stopping_robot_subtask_unknown E i x e)"
  unfolding pause_stopping_robot_subtask_unknown_def pause_robot_subtask_def
  by (intro starts_rules) simp_all

text \<open>
  The same for a Robot service with ports of its own: as long as no admission lock is held when the
  program starts, as after a restart, nothing waits for a lock.
\<close>

definition no_start :: "sys \<Rightarrow> sys \<Rightarrow> bool" where
  "no_start s t \<longleftrightarrow> (hb_admissions (hub s) = [] \<longrightarrow> starts_nothing s t)"

interpretation no_start: row_relation no_start
proof unfold_locales
  show "no_start s t \<Longrightarrow> no_start t u \<Longrightarrow> no_start s u" for s t u
    unfolding no_start_def using starts_nothing.frame_trans[of s t u] by (auto simp: starts_nothing_def)
qed (simp_all add: no_start_def starts_nothing.calm_step starts_nothing.frame_refl)

lemma no_start_keeps: "keeps starts_nothing m \<Longrightarrow> keeps no_start m"
  by (simp add: keeps_def no_start_def)

definition stop_starts_nothing :: "env \<Rightarrow> bool" where
  "stop_starts_nothing E \<longleftrightarrow>
     (\<forall>st p i reason. env_robot_stop E = Some st \<longrightarrow> keeps no_start (rs_stop st p i reason))"

lemma stop_starts_nothingD:
  "stop_starts_nothing E \<Longrightarrow> env_robot_stop E = Some st \<Longrightarrow> keeps no_start (rs_stop st p i reason)"
  by (simp add: stop_starts_nothing_def)

lemma no_start_do:
  "to \<noteq> WSRunning \<Longrightarrow> keeps no_start (do_transition_task i n to reason text evidence)"
  "to \<noteq> WSRunning \<Longrightarrow> keeps no_start (do_transition_subtask i n to reason result)"
  "keeps no_start (do_transition_workflow i n to reason)"
  by (intro no_start_keeps starts_do; assumption)+

lemma starts_settle: "keeps starts_nothing (settle_terminal_execution_for_stop E j x e)"
  unfolding settle_terminal_execution_for_stop_def stop_subtask_with_def
  by (intro starts_rules starts_pause) simp_all

lemma starts_move_attempts:
  "keeps starts_nothing (move_task_attempts n t)" "keeps starts_nothing (move_subtask_attempts n x)"
proof -
  have stopped: "stop_target a = Some to \<Longrightarrow> to \<noteq> WSRunning" for a to
    using stop_target_Some[of a to] by (auto simp: still_open_def)
  show "keeps starts_nothing (move_task_attempts n t)" "keeps starts_nothing (move_subtask_attempts n x)"
    by (induction n arbitrary: t x) (auto intro!: starts_rules stopped)
qed

lemma starts_cancel: "keeps starts_nothing (cancel_task_attempt j)"
  unfolding cancel_task_attempt_def cancel_run_def
  by (intro starts_rules starts_nothing.keeps_calm calm.keeps_writing)
    (simp add: cancel_token_def calm_def split: option.splits)

lemma starts_converge_tasks: "keeps starts_nothing (converge_tasks ts)"
proof (induction ts)
  case (Cons t ts)
  show ?case unfolding converge_tasks.simps by (intro starts_rules Cons.IH)
qed (unfold converge_tasks.simps, rule starts_nothing.keeps_ok)

lemma starts_converge: "keeps starts_nothing (converge_stopped_workflow E i)"
  unfolding converge_stopped_workflow_def by (intro starts_rules starts_converge_tasks)

lemma no_start_stop_tasks:
  assumes "stop_starts_nothing E"
  shows "keeps no_start (stop_workflow_tasks E p i)"
proof -
  note rules = no_start.row_rules no_start_do no_start_keeps[OF starts_settle] no_start_keeps[OF starts_pause]
    no_start_keeps[OF starts_move_attempts(1)] no_start_keeps[OF starts_move_attempts(2)]
    no_start_keeps[OF starts_cancel] stop_starts_nothingD[OF assms]
  have subtask: "keeps no_start (stop_task_subtask E p j x)" for j x
    unfolding stop_task_subtask_def stop_robot_subtask_def after_failed_stop_def move_subtask_toward_stop_def
    by (intro rules; simp)
  have all: "keeps no_start (until_return (stop_task_subtask E p j) xs)" for j xs
  proof (induction xs)
    case (Cons x xs)
    show ?case unfolding until_return.simps by (intro rules subtask Cons.IH)
  qed (unfold until_return.simps, rule no_start.keeps_ok)
  show ?thesis
    unfolding stop_workflow_tasks_def stop_workflow_task_def stop_task_subtasks_def finish_stopped_task_def
      move_task_toward_stop_def
    by (intro rules all) simp_all
qed

lemma starts_recovery:
  "keeps starts_nothing (settle_interrupted E now w view b)"
  "keeps starts_nothing (interrupt_subtask now x)" "keeps starts_nothing (interrupt_task now unknown t)"
proof -
  show "keeps starts_nothing (interrupt_subtask now x)"
    unfolding interrupt_subtask_def attach_lost_execution_def
    by (intro starts_rules starts_nothing_ops) simp_all
  show "keeps starts_nothing (interrupt_task now unknown t)"
    unfolding interrupt_task_def by (intro starts_rules starts_nothing_ops) simp_all
  show "keeps starts_nothing (settle_interrupted E now w view b)"
    unfolding settle_interrupted_def wrap_recover_def by (intro starts_rules starts_nothing_workflow starts_schedule)
qed

lemma starts_recover_interrupted: "keeps starts_nothing (recover_interrupted E now w view)"
  unfolding recover_interrupted_def by (intro starts_rules starts_recovery)

lemma no_start_recovery:
  assumes "stop_starts_nothing E"
  shows "keeps no_start (recover_workflow E now w)"
  unfolding recover_workflow_def wrap_recover_def
  by (intro no_start.row_rules no_start_keeps[OF starts_recover_interrupted] no_start_keeps[OF starts_converge]
      no_start_stop_tasks[OF assms])

section \<open>The interrupted rows\<close>

lemma interrupt_task_run:
  assumes "find_by t_id (t_id x) (tasks (dbase s)) = Some x"
  shows "\<exists>y t. interrupt_task now unknown x s = (Inr (), t) \<and> find_by t_id (t_id x) (tasks (dbase t)) = Some y \<and>
    t_status y \<noteq> WSRunning \<and> subtasks (dbase t) = subtasks (dbase s) \<and>
    (\<forall>j. j \<noteq> t_id x \<longrightarrow> find_by t_id j (tasks (dbase t)) = find_by t_id j (tasks (dbase s)))"
proof (cases "t_status x = WSRunning")
  case False
  with assms show ?thesis by (simp add: interrupt_task_def)
next
  case True
  let ?m = "\<lambda>reason. move_task WSPaused reason [] NoRaw now"
  have allowed: "allowed_task_transition WSRunning WSPaused" by (simp add: allowed_task_transition_def next_task_statuses_def)
  have others: "find_by t_id j (update_where (task_at (t_id x) (t_revision x)) (?m reason) (tasks (dbase s))) =
      find_by t_id j (tasks (dbase s))" if "j \<noteq> t_id x" for j reason
    using that by (auto simp: find_by_update_where task_at_def map_option_case dest: find_by_SomeD split: option.splits)
  show ?thesis
    using True assms allowed others
    by (simp add: interrupt_task_def quietly_def run_ignoring run_store transition_task_eq find_by_update_where task_at_def)
qed

lemma interrupt_tasks_run:
  assumes "distinct (map t_id xs)" "\<forall>x \<in> set xs. find_by t_id (t_id x) (tasks (dbase s)) = Some x"
  shows "\<exists>t. for_each (interrupt_task now unknown) xs s = (Inr (), t) \<and> subtasks (dbase t) = subtasks (dbase s) \<and>
    (\<forall>x \<in> set xs. \<exists>y. find_by t_id (t_id x) (tasks (dbase t)) = Some y \<and> t_status y \<noteq> WSRunning) \<and>
    (\<forall>j. j \<notin> t_id ` set xs \<longrightarrow> find_by t_id j (tasks (dbase t)) = find_by t_id j (tasks (dbase s)))"
  using assms
proof (induction xs arbitrary: s)
  case (Cons x xs)
  obtain y t where x: "interrupt_task now unknown x s = (Inr (), t)"
    "find_by t_id (t_id x) (tasks (dbase t)) = Some y" "t_status y \<noteq> WSRunning" "subtasks (dbase t) = subtasks (dbase s)"
    "\<forall>j. j \<noteq> t_id x \<longrightarrow> find_by t_id j (tasks (dbase t)) = find_by t_id j (tasks (dbase s))"
    using interrupt_task_run Cons.prems(2) by (metis list.set_intros(1))
  have "\<forall>z \<in> set xs. find_by t_id (t_id z) (tasks (dbase t)) = Some z"
  proof
    fix z assume z: "z \<in> set xs"
    then have "t_id z \<noteq> t_id x" using Cons.prems(1) by (metis distinct.simps(2) image_eqI list.simps(9) set_map)
    with z x(5) Cons.prems(2) show "find_by t_id (t_id z) (tasks (dbase t)) = Some z" by simp
  qed
  with Cons.IH[of t] Cons.prems(1) obtain v where rest: "for_each (interrupt_task now unknown) xs t = (Inr (), v)"
    "subtasks (dbase v) = subtasks (dbase t)"
    "\<forall>z \<in> set xs. \<exists>y. find_by t_id (t_id z) (tasks (dbase v)) = Some y \<and> t_status y \<noteq> WSRunning"
    "\<forall>j. j \<notin> t_id ` set xs \<longrightarrow> find_by t_id j (tasks (dbase v)) = find_by t_id j (tasks (dbase t))"
    by auto
  show ?case
  proof (intro exI conjI)
    show "for_each (interrupt_task now unknown) (x # xs) s = (Inr (), v)" using x(1) rest(1) by (simp add: run_go)
  qed (use x rest Cons.prems(1) in auto)
qed simp

text \<open>No Task of the Workflow and no SubTask of such a Task is running.\<close>

definition at_rest :: "string \<Rightarrow> db \<Rightarrow> bool" where
  "at_rest wid d \<longleftrightarrow> (\<forall>x \<in> set (tasks d). t_workflow_id x = wid \<longrightarrow> t_status x \<noteq> WSRunning \<and>
     (\<forall>y \<in> set (subtasks d). st_task_id y = t_id x \<longrightarrow> st_status y \<noteq> WSRunning))"

definition keyed :: "db \<Rightarrow> bool" where
  "keyed d \<longleftrightarrow> distinct (map w_id (workflows d)) \<and> distinct (map t_id (tasks d)) \<and> distinct (map st_id (subtasks d))"

lemma keyed_constraints: "constraints_hold d \<Longrightarrow> keyed d"
  by (auto simp: constraints_hold_def keyed_def violation_None)

lemma map_pair_fst: "map (\<lambda>x. (f x, g x)) xs = map (\<lambda>x. (f x, g x)) ys \<Longrightarrow> map f xs = map f ys"
  by (drule arg_cong[where f = "map fst"]) (simp add: comp_def)

lemma map_eq_member: "map h xs = map h ys \<Longrightarrow> x \<in> set xs \<Longrightarrow> \<exists>y \<in> set ys. h y = h x"
  by (metis (no_types, lifting) image_iff list.set_map)

lemma starts_nothing_keyed: "starts_nothing s t \<Longrightarrow> keyed (dbase s) \<Longrightarrow> keyed (dbase t)"
  unfolding starts_nothing_def keyed_def
  using map_pair_fst[of t_id t_workflow_id "tasks (dbase t)" "tasks (dbase s)"]
    map_pair_fst[of st_id st_task_id "subtasks (dbase t)" "subtasks (dbase s)"]
  by simp

lemma at_rest_later:
  assumes "starts_nothing s t" "keyed (dbase s)" "at_rest wid (dbase s)"
  shows "at_rest wid (dbase t)"
  unfolding at_rest_def
proof (intro ballI impI conjI)
  have keyed: "keyed (dbase t)" using assms by (simp add: starts_nothing_keyed)
  fix x assume x: "x \<in> set (tasks (dbase t))" "t_workflow_id x = wid"
  have "map (\<lambda>x. (t_id x, t_workflow_id x)) (tasks (dbase t)) = map (\<lambda>x. (t_id x, t_workflow_id x)) (tasks (dbase s))"
    using assms(1) by (simp add: starts_nothing_def)
  from map_eq_member[OF this x(1)] x(2)
  obtain x0 where x0: "x0 \<in> set (tasks (dbase s))" "t_id x0 = t_id x" "t_workflow_id x0 = wid" by blast
  show "t_status x \<noteq> WSRunning"
  proof
    assume "t_status x = WSRunning"
    with x(1) assms(1) have "t_id x \<in> {t_id x | x. x \<in> set (tasks (dbase s)) \<and> t_status x = WSRunning}"
      unfolding starts_nothing_def by blast
    then obtain z where "z \<in> set (tasks (dbase s))" "t_id z = t_id x" "t_status z = WSRunning" by auto
    moreover from this x0 assms(2) have "z = x0" by (metis keyed_def distinct_map inj_onD)
    ultimately show False using x0 assms(3) by (auto simp: at_rest_def)
  qed
  fix y assume y: "y \<in> set (subtasks (dbase t))" "st_task_id y = t_id x"
  have "map (\<lambda>x. (st_id x, st_task_id x)) (subtasks (dbase t)) = map (\<lambda>x. (st_id x, st_task_id x)) (subtasks (dbase s))"
    using assms(1) by (simp add: starts_nothing_def)
  from map_eq_member[OF this y(1)] y(2)
  obtain y0 where y0: "y0 \<in> set (subtasks (dbase s))" "st_id y0 = st_id y" "st_task_id y0 = t_id x" by (metis Pair_inject)
  show "st_status y \<noteq> WSRunning"
  proof
    assume "st_status y = WSRunning"
    with y(1) assms(1) have "st_id y \<in> {st_id x | x. x \<in> set (subtasks (dbase s)) \<and> st_status x = WSRunning}"
      unfolding starts_nothing_def by blast
    then obtain z where "z \<in> set (subtasks (dbase s))" "st_id z = st_id y" "st_status z = WSRunning" by auto
    moreover from this y0 assms(2) have "z = y0" by (metis keyed_def distinct_map inj_onD)
    ultimately show False using x0 y0 assms(3) by (auto simp: at_rest_def)
  qed
qed

lemma distinct_view_subtasks:
  assumes "distinct (map st_id (subtasks d))" "distinct (map t_id ts)"
  shows "distinct (map st_id (concat (map (\<lambda>t. subtasks_of (t_id t) d) ts)))"
  using assms(2)
proof (induction ts)
  case (Cons t ts)
  have "distinct (map st_id (subtasks_of (t_id t) d))"
    using assms(1) by (simp add: subtasks_of_def distinct_map inj_on_def)
  moreover have "st_id x \<noteq> st_id y" if "x \<in> set (subtasks_of (t_id t) d)" "z \<in> set ts" "y \<in> set (subtasks_of (t_id z) d)" for x y z
  proof
    assume "st_id x = st_id y"
    with that assms(1) have "x = y" by (auto simp: set_subtasks_of distinct_map inj_on_def)
    with that have "t_id t = t_id z" by (simp add: set_subtasks_of)
    with that(2) Cons.prems show False by (metis distinct.simps(2) image_eqI list.simps(9) set_map)
  qed
  ultimately show ?case using Cons by fastforce
qed simp

lemma view_rows:
  assumes "keyed d" "view = view_of d w"
  shows "distinct (map st_id (v_subtasks view))" "distinct (map t_id (v_tasks view))"
    "x \<in> set (v_tasks view) \<longleftrightarrow> x \<in> set (tasks d) \<and> t_workflow_id x = w_id w"
    "y \<in> set (v_subtasks view) \<longleftrightarrow> y \<in> set (subtasks d) \<and> (\<exists>x \<in> set (tasks d). t_workflow_id x = w_id w \<and> st_task_id y = t_id x)"
proof -
  show ts: "distinct (map t_id (v_tasks view))"
    using assms by (simp add: keyed_def view_of_def tasks_of_def distinct_map inj_on_def)
  show "distinct (map st_id (v_subtasks view))"
    using assms ts by (simp add: view_of_def keyed_def distinct_view_subtasks)
qed (auto simp: assms(2) view_of_def set_tasks_of set_subtasks_of)

lemma interrupted_at_rest:
  assumes keyed: "keyed (dbase s)" and view: "view = view_of (dbase s) w0"
    and run: "recover_interrupted E now w view s = (r, t)"
  shows "at_rest (w_id w0) (dbase t)"
proof -
  note rows = view_rows[OF keyed view]
  have find: "x \<in> set (tasks (dbase s)) \<Longrightarrow> find_by t_id (t_id x) (tasks (dbase s)) = Some x"
    "y \<in> set (subtasks (dbase s)) \<Longrightarrow> find_by st_id (st_id y) (subtasks (dbase s)) = Some y" for x y
    using keyed by (simp_all add: keyed_def find_by_distinct)
  obtain paused s1 where s1: "collect (interrupt_subtask now) (v_subtasks view) s = (Inr paused, s1)"
    "tasks (dbase s1) = tasks (dbase s)"
    "\<forall>y \<in> set (v_subtasks view). \<exists>z. find_by st_id (st_id y) (subtasks (dbase s1)) = Some z \<and> st_status z \<noteq> WSRunning"
    using interrupt_subtasks_run[OF rows(1), of s now] rows(4) find(2) by auto
  obtain s2 where s2: "for_each (interrupt_task now (unknown_tasks paused)) (v_tasks view) s1 = (Inr (), s2)"
    "subtasks (dbase s2) = subtasks (dbase s1)"
    "\<forall>x \<in> set (v_tasks view). \<exists>z. find_by t_id (t_id x) (tasks (dbase s2)) = Some z \<and> t_status z \<noteq> WSRunning"
    using interrupt_tasks_run[OF rows(2), of s1 now "unknown_tasks paused"] rows(3) find(1) s1(2) by auto
  have settle: "settle_interrupted E now w view (list_ex (\<lambda>o'. o' \<noteq> None) paused \<or>
      list_ex (\<lambda>t. t_status t = WSRunning) (v_tasks view)) s2 = (r, t)"
    using run s1(1) s2(1) by (simp add: recover_interrupted_def go_step)
  have "starts_nothing s s1"
    by (rule keeps_run[OF starts_nothing.keeps_collect[OF starts_recovery(2)] s1(1)])
  moreover have "starts_nothing s1 s2"
    by (rule keeps_run[OF starts_nothing.keeps_for_each[OF starts_recovery(3)] s2(1)])
  ultimately have 2: "starts_nothing s s2" by (rule starts_nothing.frame_trans)
  have keyed2: "keyed (dbase s2)" using 2 keyed by (rule starts_nothing_keyed)
  have "at_rest (w_id w0) (dbase s2)"
    unfolding at_rest_def
  proof (intro ballI impI conjI)
    fix x assume x: "x \<in> set (tasks (dbase s2))" "t_workflow_id x = w_id w0"
    have "map (\<lambda>x. (t_id x, t_workflow_id x)) (tasks (dbase s2)) = map (\<lambda>x. (t_id x, t_workflow_id x)) (tasks (dbase s))"
      using 2 by (simp add: starts_nothing_def)
    from map_eq_member[OF this x(1)] x(2)
    obtain x0 where x0: "x0 \<in> set (tasks (dbase s))" "t_id x0 = t_id x" "t_workflow_id x0 = w_id w0" by (metis Pair_inject)
    then have "x0 \<in> set (v_tasks view)" by (simp add: rows(3))
    with s2(3) x0(2) obtain z where "find_by t_id (t_id x) (tasks (dbase s2)) = Some z" "t_status z \<noteq> WSRunning" by metis
    with keyed2 x(1) show "t_status x \<noteq> WSRunning" by (metis find_by_distinct keyed_def option.inject)
    fix y assume y: "y \<in> set (subtasks (dbase s2))" "st_task_id y = t_id x"
    have "map (\<lambda>x. (st_id x, st_task_id x)) (subtasks (dbase s2)) = map (\<lambda>x. (st_id x, st_task_id x)) (subtasks (dbase s))"
      using 2 by (simp add: starts_nothing_def)
    from map_eq_member[OF this y(1)] y(2)
    obtain y0 where y0: "y0 \<in> set (subtasks (dbase s))" "st_id y0 = st_id y" "st_task_id y0 = t_id x" by (metis Pair_inject)
    with x0 have "y0 \<in> set (v_subtasks view)" by (metis rows(4))
    with s1(3) s2(2) y0(2) obtain z where "find_by st_id (st_id y) (subtasks (dbase s2)) = Some z" "st_status z \<noteq> WSRunning"
      by metis
    with keyed2 y(1) show "st_status y \<noteq> WSRunning" by (metis find_by_distinct keyed_def option.inject)
  qed
  moreover have "starts_nothing s2 t"
    by (rule keeps_run[OF starts_recovery(1) settle])
  ultimately show ?thesis using at_rest_later keyed2 by blast
qed

lemma recover_workflow_at_rest:
  assumes "keyed (dbase s)" "recover_workflow E now w s = (Inr (), t)" "w_status w = WSRunning \<or> w_status w = WSPaused"
  shows "at_rest (w_id w) (dbase t)"
proof -
  from assms(2,3) obtain w0 s1 where w0: "find_by w_id (w_id w) (workflows (dbase s)) = Some w0"
    and run: "recover_interrupted E now w (view_of (dbase s) w0) s = (Inr (), s1)"
    and pub: "publish_current E (w_id w) ''workflow.recovered'' s1 = (Inr (), t)"
    by (auto simp: recover_workflow_def go_Inr_iff store_view split: option.splits)
  have "at_rest (w_id w0) (dbase s1)" by (rule interrupted_at_rest[OF assms(1) refl run])
  moreover have "w_id w0 = w_id w" using w0 by (auto dest: find_by_SomeD)
  moreover have "calm s1 t" using keeps_run[OF calm_events(2) pub] .
  ultimately show ?thesis by (simp add: at_rest_def calm_def)
qed

lemma recover_all_at_rest:
  assumes "stop_starts_nothing E"
    and "keyed (dbase s)" "hb_admissions (hub s) = []" "for_each (recover_workflow E now) ws s = (Inr (), t)"
  shows "\<forall>w \<in> set ws. w_status w = WSRunning \<or> w_status w = WSPaused \<longrightarrow> at_rest (w_id w) (dbase t)"
  using assms(2-4)
proof (induction ws arbitrary: s)
  case (Cons w ws)
  from Cons.prems(3) obtain s1 where s1: "recover_workflow E now w s = (Inr (), s1)"
    "for_each (recover_workflow E now) ws s1 = (Inr (), t)"
    by (auto simp: go_Inr_iff)
  have 1: "starts_nothing s s1"
    using keeps_run[OF no_start_recovery[OF assms(1)] s1(1)] Cons.prems(2) by (simp add: no_start_def)
  then have keyed: "keyed (dbase s1)" using Cons.prems(1) by (rule starts_nothing_keyed)
  have free: "hb_admissions (hub s1) = []" using 1 Cons.prems(2) by (simp add: starts_nothing_def)
  have "starts_nothing s1 t"
    using keeps_run[OF no_start.keeps_for_each[OF no_start_recovery[OF assms(1)]] s1(2)] free by (simp add: no_start_def)
  then have "at_rest (w_id w) (dbase t)" if "w_status w = WSRunning \<or> w_status w = WSPaused"
    using at_rest_later keyed recover_workflow_at_rest[OF Cons.prems(1) s1(1) that] by blast
  with Cons.IH[OF keyed free s1(2)] show ?case by simp
qed simp

theorem restart_leaves_nothing_running:
  assumes "stop_starts_nothing E"
    and "recover_interrupted_workflows E now s = (Inr (), t)" "keyed (dbase s)" "hb_admissions (hub s) = []"
    and "w \<in> set (workflows (dbase s))" "w_status w = WSRunning \<or> w_status w = WSPaused"
  shows "at_rest (w_id w) (dbase t)"
proof -
  let ?ws = "sort_key (\<lambda>w. (w_created_at w, w_id w))
    (filter (\<lambda>w. w_status w \<in> {WSRunning, WSPaused, WSStopping}) (workflows (dbase s)))"
  have "for_each (recover_workflow E now) ?ws s = (Inr (), t)"
    using assms(2) by (simp add: recover_interrupted_workflows_def run_go run_store list_unfinished_workflows_def)
  moreover have "w \<in> set ?ws" using assms(5,6) by auto
  ultimately show ?thesis using recover_all_at_rest[OF assms(1,3,4)] assms(6) by blast
qed

end
