(* ===== verification/RobotBase.thy ===== *)
theory RobotBase
  imports SvcBase
begin

text \<open>
  The Robot service (\<open>internal/robot/service.go\<close>, \<open>devices.go\<close>): its ports, the command queues of
  the Pilots, what it publishes, the view of a device, and the pointer that says which Execution
  occupies a robot.

  The programs run on the whole server \<open>sys\<close>, since the service shares the database, the clock and
  the process with the Workflow service.  A goroutine that blocks hands control to the rest of the
  server: \<open>ro_wait\<close> is what runs until one case of the \<open>select\<close> in \<open>sendCommandAndWait\<close> is ready,
  \<open>ro_await\<close> what runs until a robot's admission lock is free.  \<open>ro_send_wins\<close> is the choice of a
  \<open>select\<close> whose two cases are both ready.  SHA-256, \<open>time.Parse\<close> and the conversion of a
  non-integer number are library functions and so parameters.
\<close>

section \<open>Ports\<close>

datatype wait_end = WaitAck | WaitDone error | WaitClosed

record robot_env =
  ro_observer :: "(robot_execution \<Rightarrow> string \<Rightarrow> any_map \<Rightarrow> (sys, unit) prog) option"
  ro_availability :: "(string \<Rightarrow> (sys, unit) prog) option"
  ro_wait :: "string \<Rightarrow> (sys, wait_end) prog"
  ro_await :: "string \<Rightarrow> (sys, unit) prog"
  ro_send_wins :: "string \<Rightarrow> bool"
  ro_digest :: "json \<Rightarrow> string"
  ro_parse_time :: "string \<Rightarrow> time option"
  ro_float :: "string \<Rightarrow> int"

definition on_hub :: "(hub \<Rightarrow> hub) \<Rightarrow> (sys, unit) prog" where
  "on_hub f = writing (\<lambda>s. s\<lparr>hub := f (hub s)\<rparr>)"

lemma run_on_hub [run_simps]: "on_hub f s = (Inr (), s\<lparr>hub := f (hub s)\<rparr>)"
  by (simp add: on_hub_def run_writing)

definition fresh :: "string \<Rightarrow> (sys, string) prog" where
  "fresh p = store (new_id p)"

definition observe :: "robot_env \<Rightarrow> robot_execution \<Rightarrow> string \<Rightarrow> any_map \<Rightarrow> (sys, unit) prog" where
  "observe R e typ payload = (case ro_observer R of Some f \<Rightarrow> f e typ payload | None \<Rightarrow> ok ())"

text \<open>\<open>numberValue(m[k])\<close> converted to \<open>int64\<close>\<close>

definition number_value :: "robot_env \<Rightarrow> any_map \<Rightarrow> string \<Rightarrow> int" where
  "number_value R m k = (case map_of m k of Some (JInt n) \<Rightarrow> n | Some (JNum t) \<Rightarrow> ro_float R t | _ \<Rightarrow> 0)"

section \<open>Commands\<close>

definition session_of :: "string \<Rightarrow> sys \<Rightarrow> pilot_session option" where
  "session_of pilot s = map_of (hb_sessions (hub s)) pilot"

definition is_online :: "string \<Rightarrow> sys \<Rightarrow> bool" where
  "is_online pilot s \<longleftrightarrow> session_of pilot s \<noteq> None"

text \<open>The channel of a session holds 128 commands.\<close>

definition queue_full :: "pilot_session \<Rightarrow> bool" where
  "queue_full ss \<longleftrightarrow> length (ss_send ss) \<ge> 128"

definition push_command :: "string \<Rightarrow> pilot_session \<Rightarrow> pilot_command \<Rightarrow> bool \<Rightarrow> hub \<Rightarrow> hub" where
  "push_command pilot ss c waits h = h\<lparr>
     hb_sessions := put_key pilot (ss\<lparr>ss_send := ss_send ss @ [c]\<rparr>) (hb_sessions h),
     hb_commands := put_key (cd_id c)
       \<lparr>pd_pilot_instance_id = pilot, pd_command = c, pd_waits = waits\<rparr> (hb_commands h)\<rparr>"

text \<open>The \<open>select\<close> over \<open>session.send\<close>, \<open>session.closed\<close> and \<open>default\<close>.\<close>

definition enqueue :: "robot_env \<Rightarrow> string \<Rightarrow> pilot_command \<Rightarrow> bool \<Rightarrow> (sys, unit) prog" where
  "enqueue R pilot c waits = reading (\<lambda>s. case session_of pilot s of
     None \<Rightarrow> err ErrPilotOffline
   | Some ss \<Rightarrow>
       if ss_closed ss \<and> (queue_full ss \<or> \<not> ro_send_wins R (cd_id c)) then err ErrPilotOffline
       else if queue_full ss then err (ErrText ''pilot command queue is full'')
       else on_hub (push_command pilot ss c waits))"

definition send_command :: "robot_env \<Rightarrow> string \<Rightarrow> string \<Rightarrow> command_payload \<Rightarrow> (sys, string) prog" where
  "send_command R pilot typ payload =
     go (fresh ''cmd-'') (\<lambda>i.
     go (enqueue R pilot \<lparr>cd_type = typ, cd_id = i, cd_payload = payload\<rparr> False) (\<lambda>_. ok i))"

definition forget_command :: "string \<Rightarrow> hub \<Rightarrow> hub" where
  "forget_command i h = h\<lparr>hb_commands := delete_key i (hb_commands h)\<rparr>"

definition take_ack :: "string \<Rightarrow> hub \<Rightarrow> hub" where
  "take_ack i h = h\<lparr>hb_acks := delete_key i (hb_acks h)\<rparr>"

text \<open>
  \<open>WaitAck\<close> without an acknowledgement does not happen (the case is not ready); the model ends the
  wait there as the end of the context does.
\<close>

definition await_ack :: "robot_env \<Rightarrow> string \<Rightarrow> (sys, any_map) prog" where
  "await_ack R i = go (ro_wait R i) (\<lambda>end. reading (\<lambda>s.
     case (end, map_of (hb_acks (hub s)) i) of
       (WaitAck, Some a) \<Rightarrow> go (on_hub (take_ack i)) (\<lambda>_.
         if ak_ok a then ok (ak_result a) else err (ErrText (ak_error a)))
     | (WaitClosed, _) \<Rightarrow> go (on_hub (forget_command i)) (\<lambda>_. err ErrPilotOffline)
     | (WaitDone e, _) \<Rightarrow> go (on_hub (forget_command i)) (\<lambda>_. err e)
     | (WaitAck, None) \<Rightarrow> go (on_hub (forget_command i)) (\<lambda>_. err ErrCanceled)))"

definition send_command_and_wait :: "robot_env \<Rightarrow> string \<Rightarrow> string \<Rightarrow> any_map \<Rightarrow> (sys, any_map) prog" where
  "send_command_and_wait R pilot typ payload =
     go (fresh ''cmd-'') (\<lambda>i.
     go (enqueue R pilot \<lparr>cd_type = typ, cd_id = i, cd_payload = PMap payload\<rparr> True) (\<lambda>_.
     await_ack R i))"

definition pending_skill :: "string \<Rightarrow> pending_command \<Rightarrow> bool" where
  "pending_skill pilot c \<longleftrightarrow> pd_pilot_instance_id c = pilot \<and> is_skill_command (cd_type (pd_command c))"

definition drop_pending_skill_commands :: "string \<Rightarrow> hub \<Rightarrow> hub" where
  "drop_pending_skill_commands pilot h =
     h\<lparr>hb_commands := filter (\<lambda>(i, c). \<not> pending_skill pilot c) (hb_commands h)\<rparr>"

definition same_skill :: "string \<Rightarrow> string \<Rightarrow> command_payload \<Rightarrow> bool" where
  "same_skill name version p \<longleftrightarrow>
     string_value (command_map p) ''name'' = name \<and> string_value (command_map p) ''version'' = version"

definition send_skill_command_once ::
  "robot_env \<Rightarrow> string \<Rightarrow> string \<Rightarrow> any_map \<Rightarrow> (sys, string \<times> bool) prog" where
  "send_skill_command_once R pilot typ payload =
     go (fresh ''cmd-'') (\<lambda>i. reading (\<lambda>s.
     if \<not> is_online pilot s then err ErrPilotOffline
     else case find (\<lambda>(j, c). pending_skill pilot c \<and>
         same_skill (string_value payload ''name'') (string_value payload ''version'') (cd_payload (pd_command c)))
         (hb_commands (hub s)) of
       Some (j, c) \<Rightarrow> ok (cd_id (pd_command c), False)
     | None \<Rightarrow> go (enqueue R pilot \<lparr>cd_type = typ, cd_id = i, cd_payload = PMap payload\<rparr> False) (\<lambda>_. ok (i, True))))"

text \<open>The writer goroutine of the gateway takes the oldest command from the channel.\<close>

definition pop_command :: "string \<Rightarrow> hub \<Rightarrow> hub" where
  "pop_command pilot h = (case map_of (hb_sessions h) pilot of
     Some ss \<Rightarrow> h\<lparr>hb_sessions := put_key pilot (ss\<lparr>ss_send := tl (ss_send ss)\<rparr>) (hb_sessions h)\<rparr>
   | None \<Rightarrow> h)"

definition next_command :: "string \<Rightarrow> (sys, pilot_command option) prog" where
  "next_command pilot = reading (\<lambda>s. case session_of pilot s of
     Some ss \<Rightarrow> (case ss_send ss of
       [] \<Rightarrow> ok None
     | c # cs \<Rightarrow> go (on_hub (pop_command pilot)) (\<lambda>_. ok (Some c)))
   | None \<Rightarrow> ok None)"

section \<open>Device events\<close>

definition deliver :: "device_event \<Rightarrow> subscriber \<Rightarrow> subscriber" where
  "deliver e b = (if length (sb_queue b) \<ge> 128 then b else b\<lparr>sb_queue := sb_queue b @ [e]\<rparr>)"

definition add_device_event :: "time \<Rightarrow> string \<Rightarrow> string \<Rightarrow> string \<Rightarrow> int \<Rightarrow> hub \<Rightarrow> hub" where
  "add_device_event now resource_type resource_id typ revision h =
     (let e = \<lparr>de_sequence = hb_sequence h + 1, de_resource_type = resource_type, de_resource_id = resource_id,
               de_resource_revision = revision, de_type = typ, de_occurred_at = now\<rparr>
      in h\<lparr>hb_sequence := hb_sequence h + 1, hb_device_events := hb_device_events h @ [e],
           hb_subscribers := map (deliver e) (hb_subscribers h)\<rparr>)"

definition publish_device :: "string \<Rightarrow> string \<Rightarrow> string \<Rightarrow> int \<Rightarrow> (sys, unit) prog" where
  "publish_device resource_type resource_id typ revision =
     at_now (\<lambda>now. on_hub (add_device_event now resource_type resource_id typ revision))"

definition add_robot_event :: "robot_event \<Rightarrow> hub \<Rightarrow> hub" where
  "add_robot_event e h = h\<lparr>hb_events := hb_events h @ [e]\<rparr>"

definition publish_robot_event :: "string \<Rightarrow> string \<Rightarrow> string \<Rightarrow> string \<Rightarrow> int \<Rightarrow> (sys, unit) prog" where
  "publish_robot_event project resource_type resource_id typ revision = on_hub (add_robot_event
     \<lparr>re_project_id = project, re_resource_type = resource_type, re_resource_id = resource_id,
      re_type = typ, re_revision = revision\<rparr>)"

definition publish_execution :: "robot_execution \<Rightarrow> string \<Rightarrow> (sys, unit) prog" where
  "publish_execution e typ =
     go (publish_robot_event (e_project_id e) ''robot_execution'' (e_id e) typ (e_revision e)) (\<lambda>_.
     publish_device ''robot_execution'' (e_id e) typ (e_revision e))"

definition publish_pilot_view :: "robot_pilot \<Rightarrow> string \<Rightarrow> (sys, unit) prog" where
  "publish_pilot_view p typ = publish_device ''robot'' (rp_robot_id p) typ (rp_revision p)"

definition add_subscriber :: "hub \<Rightarrow> hub" where
  "add_subscriber h = h\<lparr>hb_serials := hb_serials h + 1,
     hb_subscribers := hb_subscribers h @ [\<lparr>sb_id = hb_serials h, sb_queue = []\<rparr>]\<rparr>"

definition remove_subscriber :: "nat \<Rightarrow> hub \<Rightarrow> hub" where
  "remove_subscriber i h = h\<lparr>hb_subscribers := filter (\<lambda>b. sb_id b \<noteq> i) (hb_subscribers h)\<rparr>"

definition subscribe_devices :: "int \<Rightarrow> (sys, nat) prog" where
  "subscribe_devices after = reading (\<lambda>s.
     if after < 0 \<or> after > hb_sequence (hub s) then err (ErrText ''bad device cursor'')
     else if after \<noteq> 0 \<and> after < hb_sequence (hub s) then err (ErrText ''gap in the device events'')
     else go (on_hub add_subscriber) (\<lambda>_. ok (hb_serials (hub s))))"

definition unsubscribe_devices :: "nat \<Rightarrow> (sys, unit) prog" where
  "unsubscribe_devices i = on_hub (remove_subscriber i)"

section \<open>The occupied robot\<close>

definition update_session :: "robot_pilot \<Rightarrow> hub \<Rightarrow> hub" where
  "update_session p h = (case map_of (hb_sessions h) (rp_instance_id p) of
     Some ss \<Rightarrow> h\<lparr>hb_sessions := put_key (rp_instance_id p) (ss\<lparr>ss_pilot := p\<rparr>) (hb_sessions h)\<rparr>
   | None \<Rightarrow> h)"

definition start_robot_job :: "robot_job \<Rightarrow> hub \<Rightarrow> hub" where
  "start_robot_job j h = h\<lparr>hb_jobs := hb_jobs h @ [j]\<rparr>"

definition notify_robot_available :: "robot_env \<Rightarrow> robot_pilot \<Rightarrow> (sys, unit) prog" where
  "notify_robot_available R p =
     (if \<not> robot_available p \<or> ro_availability R = None then ok ()
      else on_hub (start_robot_job (JobAvailable (rp_robot_id p))))"

definition set_pilot_execution :: "robot_env \<Rightarrow> robot_pilot \<Rightarrow> string \<Rightarrow> (sys, unit) prog" where
  "set_pilot_execution R pilot i = at_now (\<lambda>now.
     let p = pilot\<lparr>rp_current_execution_id := i, rp_robot_status := (if i = [] then ''idle'' else ''busy''),
               rp_last_seen_at := now, rp_revision := rp_revision pilot + 1\<rparr> in
     ignoring (store (save_robot_pilot p)) (
     go (on_hub (update_session p)) (\<lambda>_.
     go (publish_pilot_view p (if i = [] then ''robot.idle'' else ''robot.busy'')) (\<lambda>_.
     if i = [] then notify_robot_available R p else ok ()))))"

definition set_pilot_interrupted :: "robot_pilot \<Rightarrow> string \<Rightarrow> (sys, unit) prog" where
  "set_pilot_interrupted pilot i = at_now (\<lambda>now.
     let p = pilot\<lparr>rp_current_execution_id := i, rp_robot_status := ''interrupted'',
               rp_last_seen_at := now, rp_revision := rp_revision pilot + 1\<rparr> in
     ignoring (store (save_robot_pilot p)) (
     go (on_hub (update_session p)) (\<lambda>_.
     publish_pilot_view p ''robot.interrupted'')))"

section \<open>Transfers\<close>

text \<open>Thirty minutes in nanoseconds.\<close>

definition transfer_lifetime :: time where
  "transfer_lifetime = 1800000000000"

definition drop_transfer :: "string \<Rightarrow> hub \<Rightarrow> hub" where
  "drop_transfer token h = h\<lparr>hb_transfers := delete_key token (hb_transfers h)\<rparr>"

definition put_transfer :: "transfer \<Rightarrow> hub \<Rightarrow> hub" where
  "put_transfer tr h = h\<lparr>hb_transfers := put_key (tf_token tr) tr (hb_transfers h)\<rparr>"

definition add_transfer :: "transfer \<Rightarrow> (sys, string) prog" where
  "add_transfer tr =
     go (if tf_token tr = [] then fresh [] else ok (tf_token tr)) (\<lambda>token.
     go (on_hub (put_transfer (tr\<lparr>tf_token := token\<rparr>))) (\<lambda>_. ok token))"

definition take_transfer :: "string \<Rightarrow> string \<Rightarrow> (sys, transfer) prog" where
  "take_transfer token mode = at_now (\<lambda>now. reading (\<lambda>s.
     case map_of (hb_transfers (hub s)) token of
       None \<Rightarrow> err ErrTransferUnavailable
     | Some tr \<Rightarrow>
         if tf_mode tr \<noteq> mode \<or> tf_expires_at tr < now then
           go (on_hub (drop_transfer token)) (\<lambda>_. err ErrTransferUnavailable)
         else if mode = ''artifact_upload'' then
           go (on_hub (drop_transfer token)) (\<lambda>_. ok tr)
         else ok tr))"

text \<open>\<open>strings.TrimPrefix\<close>\<close>

definition trim_prefix :: "string \<Rightarrow> string \<Rightarrow> string" where
  "trim_prefix t p = (if has_prefix t p then drop (length p) t else t)"

definition empty_transfer :: transfer where
  "empty_transfer = \<lparr>tf_token = [], tf_mode = [], tf_pilot_instance_id = [], tf_execution_id = [],
     tf_local_artifact_id = [], tf_artifact_id = [], tf_package_path = [], tf_media_type = [], tf_summary = [],
     tf_expires_at = 0\<rparr>"

definition authorize_download :: "robot_execution \<Rightarrow> string \<Rightarrow> (sys, any_map) prog" where
  "authorize_download e ref = (let i = trim_prefix ref ''artifact://'' in
     if i = ref then err (ErrText (''illegal ArtifactRef '' @ ref))
     else go (store (get_artifact_meta i)) (\<lambda>_. at_now (\<lambda>now.
       go (add_transfer (empty_transfer\<lparr>tf_mode := ''artifact_download'', tf_pilot_instance_id := e_pilot_instance_id e,
           tf_execution_id := e_id e, tf_artifact_id := i, tf_expires_at := now + transfer_lifetime\<rparr>)) (\<lambda>token.
       ok [(''ref'', JStr ref), (''url'', JStr (''/pilot/v1/transfers/'' @ token))]))))"

definition authorize_artifact_downloads :: "robot_execution \<Rightarrow> (sys, any_map list) prog" where
  "authorize_artifact_downloads e = collect (authorize_download e) (e_artifact_refs e)"

end
