(* ===== verification/RobotRun.thy ===== *)
theory RobotRun
  imports RobotBase
begin

text \<open>
  Running and stopping a Skill on a robot (\<open>internal/robot/service.go\<close>: \<open>Run\<close>, \<open>Stop\<close>,
  \<open>StopAndWait\<close>, \<open>ConfirmManagedSimulationHold\<close>, \<open>ConfirmOperatorStop\<close>, \<open>ReplyAgentRequest\<close>,
  \<open>ValidateTaskSkillScope\<close>; \<open>direct_run.go\<close>).  An Execution is persisted before its command is
  sent; \<open>execution.start\<close> is only sent while the robot's admission lock is held.
\<close>

section \<open>Requests\<close>

record run_request =
  rq_project_id :: string
  rq_workflow_id :: string
  rq_task_id :: string
  rq_subtask_id :: string
  rq_run_id :: string
  rq_agent_id :: string
  rq_robot_id :: string
  rq_skill_name :: string
  rq_skill_version :: string
  rq_request_key :: string
  rq_input :: any_map
  rq_artifact_refs :: "string list"

definition robot_request_digest :: "robot_env \<Rightarrow> run_request \<Rightarrow> string" where
  "robot_request_digest R q = ro_digest R (JArr
     [JStr (rq_project_id q), JStr (rq_workflow_id q), JStr (rq_task_id q), JStr (rq_subtask_id q),
      JStr (if rq_task_id q = [] then rq_run_id q else []), JStr (rq_robot_id q), JStr (rq_skill_name q),
      JStr (rq_skill_version q), JObj (rq_input q)])"

text \<open>\<open>json.Marshal\<close> writes the keys of a map in order.\<close>

fun sorted_json :: "json \<Rightarrow> json" where
  "sorted_json (JArr xs) = JArr (map sorted_json xs)"
| "sorted_json (JObj fs) = JObj (sort_key fst (map (\<lambda>(k, v). (k, sorted_json v)) fs))"
| "sorted_json j = j"

definition same_run_request :: "robot_env \<Rightarrow> robot_execution \<Rightarrow> run_request \<Rightarrow> bool" where
  "same_run_request R e q =
    (if e_request_digest e \<noteq> [] then e_request_digest e = robot_request_digest R q
     else e_robot_id e = rq_robot_id q \<and> e_skill_name e = rq_skill_name q \<and> e_skill_version e = rq_skill_version q \<and>
       sorted_json (JObj (e_input e)) = sorted_json (JObj (rq_input q)))"

section \<open>Scopes\<close>

definition validate_robot_project :: "string \<Rightarrow> string \<Rightarrow> (sys, unit) prog" where
  "validate_robot_project project robot = attempt (store (get_latest_runtime_by_robot robot)) (\<lambda>r. case r of
     Inl e \<Rightarrow> if errors_is e ErrInstanceNotFound then ok () else err e
   | Inr x \<Rightarrow> if ri_project_id x \<noteq> [] \<and> ri_project_id x \<noteq> project then err ErrDirectRunScope else ok ())"

definition validate_direct_run_scope :: "string \<Rightarrow> string \<Rightarrow> string \<Rightarrow> string \<Rightarrow> (sys, unit) prog" where
  "validate_direct_run_scope project run_id agent robot =
    (if project = [] \<or> run_id = [] \<or> robot = [] \<or> agent \<noteq> ''robot:'' @ robot then err ErrDirectRunScope
     else attempt (store (get_run_session run_id)) (\<lambda>r. case r of
       Inl _ \<Rightarrow> err ErrDirectRunScope
     | Inr run \<Rightarrow>
         if r_project_id run \<noteq> project \<or> r_agent_id run \<noteq> agent \<or> r_kind run \<noteq> KConversation \<or> r_task_id run \<noteq> [] \<or>
            r_workflow_id run \<noteq> [] \<or> r_status run \<noteq> RRunning \<or> (r_robot_id run \<noteq> [] \<and> r_robot_id run \<noteq> robot)
         then err ErrDirectRunScope
         else validate_robot_project project robot))"

definition cancel_direct_run :: "string \<Rightarrow> (sys, unit) prog" where
  "cancel_direct_run run_id = go (store (get_run_session run_id)) (\<lambda>run.
     if r_kind run \<noteq> KConversation \<or> r_task_id run \<noteq> [] \<or> r_workflow_id run \<noteq> [] \<or>
        \<not> has_prefix (r_agent_id run) ''robot:'' then ok ()
     else if r_status run \<in> {RRunning, RWaitingInput, RQueued} then
       attempt (do_transition_run (r_id run) [RRunning, RWaitingInput, RQueued] RCancelling) (\<lambda>r. case r of
         Inr _ \<Rightarrow> ok ()
       | Inl e \<Rightarrow> if errors_is e ErrInvalidState then ok () else err e)
     else ok ())"

text \<open>\<open>s.st.GetX(...)\<close> whose error becomes \<open>ErrSkillOutsideTask\<close>\<close>

definition or_outside :: "(sys, 'a) prog \<Rightarrow> (sys, 'a) prog" where
  "or_outside m = attempt m (\<lambda>r. case r of Inr x \<Rightarrow> ok x | Inl _ \<Rightarrow> err ErrSkillOutsideTask)"

definition spec_allows :: "raw_json \<Rightarrow> run_request \<Rightarrow> bool" where
  "spec_allows spec q = (case (spec_field spec ''skill_name'', spec_field spec ''skill_version'') of
     (Some name, Some version) \<Rightarrow>
       trim_space name = trim_space (rq_skill_name q) \<and>
       (trim_space version = [] \<or> trim_space version = trim_space (rq_skill_version q))
   | _ \<Rightarrow> False)"

definition scope_allows :: "raw_json \<Rightarrow> run_request \<Rightarrow> bool" where
  "scope_allows scope q = (case (scope_list scope ''robot_ids'', scope_list scope ''allowed_skills'') of
     (Some robots, Some skills) \<Rightarrow> allowed_value robots (rq_robot_id q) \<and> allowed_value skills (rq_skill_name q)
   | _ \<Rightarrow> False)"

definition validate_task_skill_scope :: "run_request \<Rightarrow> (sys, unit) prog" where
  "validate_task_skill_scope q =
    (if rq_project_id q = [] \<or> rq_workflow_id q = [] \<or> rq_task_id q = [] \<or> rq_subtask_id q = [] \<or> rq_robot_id q = []
     then err ErrSkillOutsideTask
     else go (or_outside (store (get_workflow (rq_workflow_id q)))) (\<lambda>w.
     if w_project_id w \<noteq> rq_project_id q \<or> w_status w \<noteq> WSRunning \<or> w_confirmed_revision w \<noteq> w_revision w
     then err ErrSkillOutsideTask
     else if \<not> scope_allows (w_approved_scope w) q then err ErrSkillOutsideTask
     else go (or_outside (store (get_task (rq_task_id q)))) (\<lambda>t.
     if t_workflow_id t \<noteq> w_id w \<or> t_status t \<noteq> WSRunning \<or> t_assigned_robot_id t \<noteq> rq_robot_id q \<or>
        t_required_role t \<noteq> ''robot'' then err ErrSkillOutsideTask
     else go (or_outside (store (get_subtask (rq_subtask_id q)))) (\<lambda>x.
     if st_task_id x \<noteq> t_id t \<or> st_status x \<noteq> WSRunning \<or> st_kind x \<noteq> ''robot_skill'' then err ErrSkillOutsideTask
     else if \<not> spec_allows (st_spec x) q then err ErrSkillOutsideTask
     else ok ()))))"

section \<open>Admission locks\<close>

definition take_admission :: "string \<Rightarrow> hub \<Rightarrow> hub" where
  "take_admission robot h = h\<lparr>hb_admissions := robot # hb_admissions h\<rparr>"

definition free_admission :: "string \<Rightarrow> hub \<Rightarrow> hub" where
  "free_admission robot h = h\<lparr>hb_admissions := removeAll robot (hb_admissions h)\<rparr>"

definition lock_admission :: "string \<Rightarrow> (sys, unit) prog" where
  "lock_admission robot = on_hub (take_admission robot)"

definition unlock_admission :: "string \<Rightarrow> (sys, unit) prog" where
  "unlock_admission robot = on_hub (free_admission robot)"

definition admission_locked :: "string \<Rightarrow> sys \<Rightarrow> bool" where
  "admission_locked robot s \<longleftrightarrow> robot \<in> set (hb_admissions (hub s))"

text \<open>\<open>defer admission.Unlock()\<close>\<close>

definition holding_admission :: "string \<Rightarrow> (sys, 'a) prog \<Rightarrow> (sys, 'a) prog" where
  "holding_admission robot m =
     go (lock_admission robot) (\<lambda>_. attempt m (\<lambda>r. go (unlock_admission robot) (\<lambda>_. case r of
       Inr x \<Rightarrow> ok x
     | Inl e \<Rightarrow> err e)))"

section \<open>Run\<close>

text \<open>\<open>execution.Error = map[string]any{"code": ..., "message": ...}\<close>\<close>

definition error_map :: "string \<Rightarrow> string \<Rightarrow> any_map" where
  "error_map code message = [(''code'', JStr code), (''message'', JStr message)]"

definition get_robot :: "string \<Rightarrow> (sys, robot_pilot \<times> robot_pilot_skill list) prog" where
  "get_robot robot =
     go (store (get_active_robot_pilot robot)) (\<lambda>p.
     go (store (list_robot_pilot_skills (rp_instance_id p))) (\<lambda>skills. ok (p, skills)))"

definition usable_skill :: "robot_pilot \<Rightarrow> string \<Rightarrow> string \<Rightarrow> (sys, unit) prog" where
  "usable_skill p name version =
     attempt (store (get_robot_pilot_skill (rp_instance_id p) name version)) (\<lambda>r. case r of
       Inr x \<Rightarrow> if \<not> pk_enabled x \<or> pk_status x \<noteq> ''installed'' then err ErrSkillUnavailable else ok ()
     | Inl _ \<Rightarrow> err ErrSkillUnavailable)"

definition direct_request :: "run_request \<Rightarrow> bool" where
  "direct_request q \<longleftrightarrow> rq_task_id q = [] \<and> rq_run_id q \<noteq> []"

definition new_execution :: "robot_env \<Rightarrow> run_request \<Rightarrow> any_map \<Rightarrow> robot_pilot \<Rightarrow> time \<Rightarrow> string \<Rightarrow> robot_execution" where
  "new_execution R q input p now i =
     \<lparr>e_id = i, e_project_id = rq_project_id q, e_workflow_id = rq_workflow_id q, e_task_id = rq_task_id q,
      e_subtask_id = rq_subtask_id q, e_run_id = rq_run_id q, e_robot_id = rq_robot_id q,
      e_pilot_instance_id = rp_instance_id p, e_skill_name = rq_skill_name q, e_skill_version = rq_skill_version q,
      e_request_key = rq_request_key q, e_request_digest = robot_request_digest R q, e_status = ''queued'',
      e_stage = [], e_progress = None, e_input = input, e_artifact_refs = rq_artifact_refs q, e_artifact_sync = [],
      e_result = [], e_error = [], e_revision = 1, e_created_at = now, e_updated_at = now\<rparr>"

text \<open>The Skill's own check of the input; the Pilot may return a normalised input.\<close>

definition validated_input :: "robot_env \<Rightarrow> run_request \<Rightarrow> robot_pilot \<Rightarrow> (sys, any_map) prog" where
  "validated_input R q p =
     attempt (send_command_and_wait R (rp_instance_id p) ''skill.validate_input''
       [(''name'', JStr (rq_skill_name q)), (''version'', JStr (rq_skill_version q)), (''input'', JObj (rq_input q))])
     (\<lambda>r. case r of
       Inl e \<Rightarrow> err (Wrapped ''validate the input of the Robot Skill'' e)
     | Inr v \<Rightarrow> if get_bool v ''valid'' \<noteq> Some True then err (Detailed ErrSkillInputInvalid (string_value v ''error''))
         else ok (case get_object v ''input'' of Some m \<Rightarrow> m | None \<Rightarrow> rq_input q))"

definition admission_error :: "run_request \<Rightarrow> error \<Rightarrow> error" where
  "admission_error q e =
    (if errors_is e ErrRobotReserved then Detailed ErrRobotBusy (error_text e)
     else if errors_is e ErrInvalidState \<and> direct_request q then ErrDirectRunScope
     else if errors_is e ErrInvalidState \<and> rq_task_id q \<noteq> [] then ErrSkillOutsideTask
     else e)"

definition dispatch_check :: "ctx \<Rightarrow> run_request \<Rightarrow> (sys, unit) prog" where
  "dispatch_check c q = reading (\<lambda>s.
     if ctx_cancelled c s then err ErrCanceled
     else if direct_request q
       then validate_direct_run_scope (rq_project_id q) (rq_run_id q) (rq_agent_id q) (rq_robot_id q)
     else ok ())"

definition dispatch :: "robot_env \<Rightarrow> robot_pilot \<Rightarrow> robot_execution \<Rightarrow> any_map list \<Rightarrow> (sys, robot_execution) prog" where
  "dispatch R p e downloads =
     go (set_pilot_execution R p (e_id e)) (\<lambda>_.
     go (publish_execution e ''robot.execution.queued'') (\<lambda>_.
     attempt (send_command R (rp_instance_id p) ''execution.start'' (PStart e downloads)) (\<lambda>r. case r of
       Inr _ \<Rightarrow> ok e
     | Inl x \<Rightarrow> at_now (\<lambda>now.
         let f = e\<lparr>e_status := ''interrupted'', e_revision := e_revision e + 1, e_updated_at := now,
                   e_error := error_map ''PILOT_COMMAND_FAILED'' (error_text x)\<rparr> in
         ignoring (store (save_robot_execution f)) (
         go (set_pilot_interrupted p (e_id f)) (\<lambda>_.
         go (publish_execution f ''robot.execution.interrupted'') (\<lambda>_. err x)))))))"

definition start_admitted :: "robot_env \<Rightarrow> ctx \<Rightarrow> run_request \<Rightarrow> robot_pilot \<Rightarrow> robot_execution \<Rightarrow> (sys, robot_execution) prog" where
  "start_admitted R c q p e =
     attempt (authorize_artifact_downloads e) (\<lambda>r. case r of
       Inl x \<Rightarrow> ignoring (store (save_robot_execution (e\<lparr>e_status := ''failed'', e_revision := e_revision e + 1,
           e_error := error_map ''ARTIFACT_DOWNLOAD_FAILED'' (error_text x)\<rparr>))) (err x)
     | Inr downloads \<Rightarrow> attempt (dispatch_check c q) (\<lambda>r. case r of
         Inl x \<Rightarrow> (let f = e\<lparr>e_status := ''stopped'', e_revision := e_revision e + 1,
                       e_error := error_map ''CANCELLED_BEFORE_DISPATCH'' (error_text x)\<rparr> in
           ignoring (store (save_robot_execution f)) (
           go (publish_execution f ''robot.execution.stopped'') (\<lambda>_. err x)))
       | Inr _ \<Rightarrow> dispatch R p e downloads))"

definition admit_and_start ::
  "robot_env \<Rightarrow> ctx \<Rightarrow> run_request \<Rightarrow> robot_pilot \<Rightarrow> any_map \<Rightarrow> (sys, robot_execution) prog" where
  "admit_and_start R c q p input = at_now (\<lambda>now.
     go (fresh ''rex-'') (\<lambda>i.
     attempt (store (admit_robot_execution (new_execution R q input p now i) (rq_agent_id q))) (\<lambda>r. case r of
       Inl x \<Rightarrow> err (admission_error q x)
     | Inr (e, created) \<Rightarrow>
         if \<not> created then (if same_run_request R e q then ok e else err ErrRequestConflict)
         else start_admitted R c q p e)))"

text \<open>The part of \<open>Run\<close> that holds the robot's admission lock.\<close>

definition run_locked :: "robot_env \<Rightarrow> ctx \<Rightarrow> run_request \<Rightarrow> (sys, robot_execution) prog" where
  "run_locked R c q =
     go (if rq_task_id q \<noteq> [] \<or> rq_workflow_id q \<noteq> [] \<or> rq_subtask_id q \<noteq> [] then validate_task_skill_scope q else ok ()) (\<lambda>_.
     attempt (store (check_robot_admission (rq_robot_id q) (rq_task_id q) (rq_run_id q))) (\<lambda>r. case r of
       Inl e \<Rightarrow> err (if errors_is e ErrRobotReserved then Detailed ErrRobotBusy (error_text e) else e)
     | Inr _ \<Rightarrow>
     attempt (store (get_active_robot_pilot (rq_robot_id q))) (\<lambda>r. case r of
       Inl e \<Rightarrow> err (Wrapped (''read the Pilot of Robot '' @ rq_robot_id q) e)
     | Inr p \<Rightarrow>
     if pilot_occupied p then err ErrRobotBusy
     else reading (\<lambda>s. if \<not> is_online (rp_instance_id p) s then err ErrPilotOffline
     else go (usable_skill p (rq_skill_name q) (rq_skill_version q)) (\<lambda>_.
     go (validated_input R q p) (\<lambda>input. reading (\<lambda>s.
     if ctx_cancelled c s then err ErrCanceled
     else admit_and_start R c q p input)))))))"

definition robot_run :: "robot_env \<Rightarrow> ctx \<Rightarrow> run_request \<Rightarrow> (sys, robot_execution) prog" where
  "robot_run R c q =
    (if rq_project_id q = [] \<or> rq_robot_id q = [] \<or> rq_skill_name q = [] \<or> rq_skill_version q = [] \<or> rq_request_key q = []
     then err (ErrText ''project_id, robot_id, skill_name, skill_version and request_key are required'')
     else reading (\<lambda>s. if ctx_cancelled c s then err ErrCanceled
     else go (validate_robot_project (rq_project_id q) (rq_robot_id q)) (\<lambda>_.
     go (if direct_request q then
           (if rq_workflow_id q \<noteq> [] \<or> rq_subtask_id q \<noteq> [] then err ErrDirectRunScope
            else validate_direct_run_scope (rq_project_id q) (rq_run_id q) (rq_agent_id q) (rq_robot_id q))
         else ok ()) (\<lambda>_.
     attempt (store (get_robot_execution_by_request (rq_project_id q) (rq_request_key q))) (\<lambda>r. case r of
       Inr e \<Rightarrow> if same_run_request R e q then ok e else err ErrRequestConflict
     | Inl e \<Rightarrow> if \<not> errors_is e ErrNotFound then err e
         else reading (\<lambda>s. if admission_locked (rq_robot_id q) s then err ErrRobotBusy
         else holding_admission (rq_robot_id q) (run_locked R c q)))))))"

section \<open>Stop\<close>

text \<open>\<open>admission.Lock()\<close> blocks while another goroutine holds the lock.\<close>

definition blocking_admission :: "robot_env \<Rightarrow> string \<Rightarrow> (sys, 'a) prog \<Rightarrow> (sys, 'a) prog" where
  "blocking_admission R robot m = reading (\<lambda>s.
     go (if admission_locked robot s then ro_await R robot else ok ()) (\<lambda>_. holding_admission robot m))"

definition may_stop :: "robot_execution \<Rightarrow> (sys, unit) prog" where
  "may_stop e =
    (if active_robot_status (e_status e) then ok ()
     else if e_status e \<noteq> ''interrupted'' then err ErrExecutionNotActive
     else attempt (store (get_active_robot_pilot (e_robot_id e))) (\<lambda>r. case r of
       Inl x \<Rightarrow> err (if errors_is x ErrNotFound then ErrExecutionNotActive else x)
     | Inr p \<Rightarrow>
         if rp_current_execution_id p \<noteq> e_id e then err ErrExecutionNotActive
         else reading (\<lambda>s. if \<not> is_online (rp_instance_id p) s then err ErrPilotOffline else ok ())))"

definition send_stop :: "robot_env \<Rightarrow> robot_execution \<Rightarrow> string \<Rightarrow> (sys, robot_execution) prog" where
  "send_stop R e reason =
     attempt (send_command R (e_pilot_instance_id e) ''execution.stop''
       (PMap [(''execution_id'', JStr (e_id e)), (''reason'', JStr reason)])) (\<lambda>r. case r of
       Inr _ \<Rightarrow> go (publish_execution e ''robot.execution.stopping'') (\<lambda>_. ok e)
     | Inl x \<Rightarrow> (let f = e\<lparr>e_status := ''interrupted'', e_revision := e_revision e + 1,
                   e_error := error_map ''PILOT_OFFLINE'' (error_text x)\<rparr> in
         ignoring (store (save_robot_execution f)) (
         go (publish_execution f ''robot.execution.stopping'') (\<lambda>_.
         ignoring (observe R f ''robot.execution.interrupted'' [(''reason'', JStr reason)]) (err x)))))"

definition stop_locked :: "robot_env \<Rightarrow> string \<Rightarrow> string \<Rightarrow> (sys, robot_execution) prog" where
  "stop_locked R execution_id reason =
     go (store (get_robot_execution execution_id)) (\<lambda>e.
     go (may_stop e) (\<lambda>_.
     go (if e_task_id e = [] \<and> e_run_id e \<noteq> [] then cancel_direct_run (e_run_id e) else ok ()) (\<lambda>_. at_now (\<lambda>now.
     let f = e\<lparr>e_status := ''stopping'', e_revision := e_revision e + 1, e_updated_at := now\<rparr> in
     go (store (save_robot_execution f)) (\<lambda>_. send_stop R f reason)))))"

definition robot_stop :: "robot_env \<Rightarrow> string \<Rightarrow> string \<Rightarrow> string \<Rightarrow> (sys, robot_execution) prog" where
  "robot_stop R project execution_id reason =
     go (store (get_robot_execution execution_id)) (\<lambda>e.
     if project \<noteq> [] \<and> e_project_id e \<noteq> project then err ErrNotFound
     else blocking_admission R (e_robot_id e) (stop_locked R execution_id reason))"

text \<open>
  \<open>StopAndWait\<close> polls every 50 ms.  \<open>ticks\<close> is what the rest of the server does between the polls;
  the value is \<open>None\<close> while it still polls.
\<close>

definition stop_verdict :: "robot_execution \<Rightarrow> error option" where
  "stop_verdict e =
    (if e_status e = ''interrupted'' then Some (ErrText ''physical state of the Execution is unknown'')
     else if e_status e = ''stopped'' \<and> get_bool (e_result e) ''safe'' \<noteq> Some True
       then Some (ErrText ''no evidence of a safe stop'')
     else None)"

fun poll_stopped :: "ctx \<Rightarrow> string \<Rightarrow> (sys \<Rightarrow> sys) list \<Rightarrow> sys \<Rightarrow> ((error + robot_execution) \<times> sys) option" where
  "poll_stopped c i ticks s = (case store (get_robot_execution i) s of
     (Inl e, t) \<Rightarrow> Some (Inl e, t)
   | (Inr x, t) \<Rightarrow>
       if \<not> active_robot_status (e_status x) then
         Some (case stop_verdict x of None \<Rightarrow> Inr x | Some e \<Rightarrow> Inl e, t)
       else (case ticks of
         [] \<Rightarrow> None
       | tick # rest \<Rightarrow> if ctx_cancelled c (tick t) then Some (Inl ErrCanceled, tick t) else poll_stopped c i rest (tick t)))"

declare poll_stopped.simps [simp del]

definition stop_and_wait ::
  "robot_env \<Rightarrow> ctx \<Rightarrow> string \<Rightarrow> string \<Rightarrow> string \<Rightarrow> (sys \<Rightarrow> sys) list \<Rightarrow> sys \<Rightarrow> ((error + robot_execution) \<times> sys) option" where
  "stop_and_wait R c project i reason ticks s = (case robot_stop R project i reason s of
     (Inl e, t) \<Rightarrow>
       (case fst (get_robot_execution i (dbase t)) of
          Inr x \<Rightarrow> if errors_is e ErrExecutionNotActive \<and> e_status x \<noteq> ''interrupted'' then Some (Inr x, t) else Some (Inl e, t)
        | Inl _ \<Rightarrow> Some (Inl e, t))
   | (Inr x, t) \<Rightarrow> poll_stopped c i ticks t)"

section \<open>Confirmed stops\<close>

definition release_if_current :: "robot_env \<Rightarrow> string \<Rightarrow> string \<Rightarrow> (sys, unit) prog" where
  "release_if_current R robot execution_id =
     attempt (store (get_active_robot_pilot robot)) (\<lambda>r. case r of
       Inr p \<Rightarrow> if rp_current_execution_id p = execution_id then set_pilot_execution R p [] else ok ()
     | Inl _ \<Rightarrow> ok ())"

definition with_pre_stop_error :: "robot_execution \<Rightarrow> any_map \<Rightarrow> any_map" where
  "with_pre_stop_error e payload =
     payload @ (if e_error e \<noteq> [] then [(''pre_stop_error'', JObj (e_error e))] else [])"

definition confirm_managed_simulation_hold ::
  "robot_env \<Rightarrow> string \<Rightarrow> string \<Rightarrow> string \<Rightarrow> string \<Rightarrow> (sys, unit) prog" where
  "confirm_managed_simulation_hold R project robot execution_id reason =
    (if trim_space execution_id = [] then ok ()
     else go (store (get_robot_execution execution_id)) (\<lambda>e.
     if e_project_id e \<noteq> project \<or> e_robot_id e \<noteq> robot then err ErrNotFound
     else if \<not> active_robot_status (e_status e) \<and> e_status e \<noteq> ''interrupted'' then ok ()
     else at_now (\<lambda>now.
       let payload = with_pre_stop_error e [(''safe'', JBool True), (''hold_confirmed'', JBool True),
             (''managed_simulation'', JBool True), (''reason'', JStr reason)];
           f = e\<lparr>e_status := ''stopped'', e_result := payload, e_error := [], e_revision := e_revision e + 1,
                 e_updated_at := now\<rparr> in
       go (store (save_robot_execution f)) (\<lambda>_.
       go (publish_execution f ''robot.execution.stopped'') (\<lambda>_.
       go (release_if_current R robot execution_id) (\<lambda>_.
       observe R f ''robot.execution.stopped'' payload))))))"

definition operator_confirmed :: "robot_execution \<Rightarrow> bool" where
  "operator_confirmed e \<longleftrightarrow> e_status e = ''stopped'' \<and> get_bool (e_result e) ''safe'' = Some True \<and>
     get_string (e_result e) ''confirmation_source'' = Some ''operator''"

definition operator_matches :: "robot_execution \<Rightarrow> robot_execution \<Rightarrow> bool" where
  "operator_matches expected e \<longleftrightarrow> e_project_id e = e_project_id expected \<and> e_robot_id e = e_robot_id expected \<and>
     (e_workflow_id expected = [] \<or> e_workflow_id e = e_workflow_id expected) \<and>
     (e_task_id expected = [] \<or> e_task_id e = e_task_id expected) \<and>
     (e_subtask_id expected = [] \<or> e_subtask_id e = e_subtask_id expected)"

definition operator_payload :: "robot_execution \<Rightarrow> string \<Rightarrow> string \<Rightarrow> time \<Rightarrow> any_map" where
  "operator_payload e user reason now = with_pre_stop_error e
     [(''safe'', JBool True), (''hold_confirmed'', JBool True), (''confirmation_source'', JStr ''operator''),
      (''confirmed_by'', JStr user), (''confirmed_at'', JInt (int now)), (''confirmation_reason'', JStr reason)]"

definition record_operator_stop ::
  "robot_env \<Rightarrow> robot_execution \<Rightarrow> string \<Rightarrow> string \<Rightarrow> time \<Rightarrow> (sys, robot_execution) prog" where
  "record_operator_stop R e user reason now =
     (let payload = operator_payload e user reason now;
          f = e\<lparr>e_status := ''stopped'', e_result := payload, e_error := [], e_updated_at := now\<rparr> in
      go (store (save_robot_execution f)) (\<lambda>_.
      go (publish_execution f ''robot.execution.stop_confirmed_by_operator'') (\<lambda>_.
      go (release_if_current R (e_robot_id f) (e_id f)) (\<lambda>_.
      go (observe R f ''robot.execution.stop_confirmed_by_operator'' payload) (\<lambda>_. ok f)))))"

definition confirm_operator_stop :: "robot_env \<Rightarrow> robot_execution \<Rightarrow> string \<Rightarrow> string \<Rightarrow> (sys, robot_execution) prog" where
  "confirm_operator_stop R expected0 user0 reason0 =
     (let expected = expected0\<lparr>e_id := trim_space (e_id expected0), e_project_id := trim_space (e_project_id expected0),
            e_robot_id := trim_space (e_robot_id expected0)\<rparr>;
          user = trim_space user0; reason = trim_space reason0 in
      if e_id expected = [] \<or> e_project_id expected = [] \<or> e_robot_id expected = [] \<or> user = [] \<or> reason = []
      then err ErrInvalidState
      else at_now (\<lambda>now. attempt (store (get_robot_execution (e_id expected))) (\<lambda>r. case r of
        Inl x \<Rightarrow> if errors_is x ErrNotFound then
            record_operator_stop R (expected\<lparr>e_status := ''stopped'',
              e_request_key := ''operator-confirm-stop:'' @ e_id expected, e_revision := 1, e_created_at := now\<rparr>) user reason now
          else err x
      | Inr e \<Rightarrow>
          if \<not> operator_matches expected e then err ErrNotFound
          else if operator_confirmed e then ok e
          else if e_status e \<notin> {''stopping'', ''interrupted'', ''failed'', ''stopped'', ''cancelled''} then err ErrInvalidState
          else record_operator_stop R (e\<lparr>e_revision := e_revision e + 1\<rparr>) user reason now)))"

definition reply_agent_request :: "robot_env \<Rightarrow> string \<Rightarrow> any_map \<Rightarrow> (sys, unit) prog" where
  "reply_agent_request R execution_id payload =
     go (store (get_robot_execution execution_id)) (\<lambda>e.
     go (send_command R (e_pilot_instance_id e) ''agent.reply'' (PMap payload)) (\<lambda>_. ok ()))"

section \<open>Direct Runs\<close>

definition run_ended :: string where
  "run_ended = ''conversation_run_ended''"

text \<open>\<open>errors.Join\<close> of the errors of the stops; an Execution that is not active is no error.\<close>

fun stop_each :: "robot_env \<Rightarrow> robot_execution list \<Rightarrow> error option \<Rightarrow> (sys, unit) prog" where
  "stop_each R [] result = (case result of None \<Rightarrow> ok () | Some e \<Rightarrow> err e)"
| "stop_each R (x # xs) result =
    (if e_task_id x \<noteq> [] \<or> (\<not> active_robot_status (e_status x) \<and> e_status x \<noteq> ''interrupted'')
     then stop_each R xs result
     else attempt (robot_stop R (e_project_id x) (e_id x) run_ended) (\<lambda>r.
       stop_each R xs (case r of
         Inr _ \<Rightarrow> result
       | Inl e \<Rightarrow> if errors_is e ErrExecutionNotActive then result
           else Some (case result of None \<Rightarrow> e | Some e0 \<Rightarrow> Joined e0 e))))"

definition stop_direct_run_executions :: "robot_env \<Rightarrow> string \<Rightarrow> (sys, unit) prog" where
  "stop_direct_run_executions R run_id =
     go (store (list_robot_executions_by_run run_id)) (\<lambda>xs. stop_each R xs None)"

definition stop_direct_run :: "robot_env \<Rightarrow> string \<Rightarrow> (sys, unit) prog" where
  "stop_direct_run R run_id = go (cancel_direct_run run_id) (\<lambda>_. stop_direct_run_executions R run_id)"

definition finish_direct_run :: "robot_env \<Rightarrow> string \<Rightarrow> (sys, unit) prog" where
  "finish_direct_run R run_id = go (store (get_run_session run_id)) (\<lambda>run.
     if r_robot_id run = [] then ok ()
     else if r_status run \<notin> {RCompleted, RFailed, RCancelled} then err ErrInvalidState
     else go (if r_status run \<noteq> RCompleted then stop_direct_run_executions R run_id else ok ()) (\<lambda>_.
     attempt (store (get_active_robot_pilot (r_robot_id run))) (\<lambda>r. case r of
       Inr p \<Rightarrow> go (publish_pilot_view p ''robot.run.finished'') (\<lambda>_. notify_robot_available R p)
     | Inl _ \<Rightarrow> ok ())))"

end
