(* ===== verification/RobotEvents.thy ===== *)
theory RobotEvents
  imports RobotRun
begin

text \<open>
  What a Pilot reports (\<open>internal/robot/service.go\<close>: \<open>HandleCommandAckResult\<close>, \<open>HandlePilotEvent\<close>,
  \<open>recoverPersistedExecutionTerminal\<close>, \<open>Reconcile\<close>, \<open>announceArtifact\<close>, \<open>TransferHandler\<close>): the
  acknowledgement of a command, the progress of an Execution, and the reconciliation after a
  Pilot has connected again.
\<close>

section \<open>Acknowledgements\<close>

definition fail_rejected_execution :: "robot_env \<Rightarrow> string \<Rightarrow> string \<Rightarrow> string \<Rightarrow> (sys, unit) prog" where
  "fail_rejected_execution R pilot execution_id message =
     go (store (get_robot_execution execution_id)) (\<lambda>e.
     if e_pilot_instance_id e \<noteq> pilot \<or> \<not> active_robot_status (e_status e) then ok ()
     else at_now (\<lambda>now.
       let f = e\<lparr>e_status := ''failed'', e_error := error_map ''PILOT_START_REJECTED'' message,
                 e_revision := e_revision e + 1, e_updated_at := now\<rparr> in
       go (store (save_robot_execution f)) (\<lambda>_.
       go (attempt (store (get_robot_pilot pilot)) (\<lambda>r. case r of
             Inr p \<Rightarrow> if rp_current_execution_id p = e_id f then set_pilot_execution R p [] else ok ()
           | Inl _ \<Rightarrow> ok ())) (\<lambda>_.
       go (publish_execution f ''robot.execution.failed'') (\<lambda>_.
       observe R f ''robot.execution.failed'' (e_error f))))))"

definition interrupt_rejected_stop :: "robot_env \<Rightarrow> string \<Rightarrow> string \<Rightarrow> string \<Rightarrow> (sys, unit) prog" where
  "interrupt_rejected_stop R pilot execution_id message =
     go (store (get_robot_execution execution_id)) (\<lambda>e.
     if e_pilot_instance_id e \<noteq> pilot \<or> \<not> active_robot_status (e_status e) then ok ()
     else at_now (\<lambda>now.
       let f = e\<lparr>e_status := ''interrupted'', e_error := error_map ''PILOT_STOP_REJECTED'' message,
                 e_revision := e_revision e + 1, e_updated_at := now\<rparr> in
       go (store (save_robot_execution f)) (\<lambda>_.
       go (attempt (store (get_robot_pilot pilot)) (\<lambda>r. case r of
             Inr p \<Rightarrow> set_pilot_interrupted p (e_id f)
           | Inl _ \<Rightarrow> ok ())) (\<lambda>_.
       go (publish_execution f ''robot.execution.interrupted'') (\<lambda>_.
       observe R f ''robot.execution.interrupted'' (e_error f))))))"

text \<open>What a refused command (\<open>ok = false\<close>) does to the rows.\<close>

definition rejected_command :: "robot_env \<Rightarrow> string \<Rightarrow> pilot_command \<Rightarrow> string \<Rightarrow> (sys, unit) prog" where
  "rejected_command R pilot c message =
    (if is_skill_command (cd_type c) then at_now (\<lambda>now. store (save_robot_pilot_skill
         \<lparr>pk_pilot_instance_id = pilot, pk_name = string_value (command_map (cd_payload c)) ''name'',
          pk_version = string_value (command_map (cd_payload c)) ''version'', pk_enabled = False,
          pk_status = ''failed'', pk_error = message, pk_updated_at = now\<rparr>))
     else if cd_type c = ''execution.start'' then
       (let i = execution_id_from_payload (cd_payload c) in
        if i \<noteq> [] then fail_rejected_execution R pilot i message else ok ())
     else if cd_type c = ''execution.stop'' then
       (let i = string_value (command_map (cd_payload c)) ''execution_id'' in
        if i \<noteq> [] then interrupt_rejected_stop R pilot i message else ok ())
     else ok ())"

definition spawn_reconcile_skills :: "string \<Rightarrow> (sys, unit) prog" where
  "spawn_reconcile_skills robot = on_hub (start_robot_job (JobReconcileSkills robot))"

definition put_ack :: "string \<Rightarrow> command_ack \<Rightarrow> hub \<Rightarrow> hub" where
  "put_ack i a h = h\<lparr>hb_acks := put_key i a (hb_acks h)\<rparr>"

definition handle_command_ack :: "robot_env \<Rightarrow> string \<Rightarrow> string \<Rightarrow> bool \<Rightarrow> string \<Rightarrow> any_map \<Rightarrow> (sys, unit) prog" where
  "handle_command_ack R pilot i accepted message0 result = reading (\<lambda>s.
     let found = map_of (hb_commands (hub s)) i in
     go (on_hub (forget_command i)) (\<lambda>_. case found of
       None \<Rightarrow> err (ErrText ''command.ack matches no command'')
     | Some pending \<Rightarrow>
         if pd_pilot_instance_id pending \<noteq> pilot then err (ErrText ''command.ack matches no command'')
         else if pd_waits pending then
           on_hub (put_ack i \<lparr>ak_ok = accepted, ak_error = message0, ak_result = result\<rparr>)
         else if accepted then
           (if is_skill_command (cd_type (pd_command pending)) then
              attempt (store (get_robot_pilot pilot)) (\<lambda>r. case r of
                Inr p \<Rightarrow> spawn_reconcile_skills (rp_robot_id p)
              | Inl _ \<Rightarrow> ok ())
            else ok ())
         else
           let message = (if trim_space message0 = [] then ''Pilot refused the command'' else message0) in
           go (rejected_command R pilot (pd_command pending) message) (\<lambda>_.
           err (ErrText (''Pilot command '' @ cd_type (pd_command pending) @ '' ('' @ i @ '') failed: '' @ message)))))"

section \<open>Events of an Execution\<close>

text \<open>The status an event asks for, before the two guards.\<close>

definition reported_status :: "robot_execution \<Rightarrow> string \<Rightarrow> any_map \<Rightarrow> string" where
  "reported_status e typ payload =
    (if typ = ''agent.requested'' then ''waiting_agent''
     else if typ = ''agent.resolved'' then ''running''
     else if execution_lifecycle_event typ then
       (let st = (if string_value payload ''skill_status'' \<noteq> [] then string_value payload ''skill_status''
                  else string_value payload ''status'') in
        if st \<noteq> [] then st else e_status e)
     else e_status e)"

text \<open>A status that is not active stays when the report is active; \<open>stopping\<close> does not go back.\<close>

definition guarded_status :: "string \<Rightarrow> string \<Rightarrow> string" where
  "guarded_status previous new =
    (let st = (if \<not> active_robot_status previous \<and> active_robot_status new then previous else new) in
     if previous = ''stopping'' \<and> st \<noteq> ''stopping'' \<and> active_robot_status st then previous else st)"

definition json_number :: "json option \<Rightarrow> json option" where
  "json_number v = (case v of Some (JInt n) \<Rightarrow> Some (JInt n) | Some (JNum t) \<Rightarrow> Some (JNum t) | _ \<Rightarrow> None)"

definition or_old :: "'a option \<Rightarrow> 'a \<Rightarrow> 'a" where
  "or_old new old = (case new of Some x \<Rightarrow> x | None \<Rightarrow> old)"

definition apply_event :: "robot_execution \<Rightarrow> string \<Rightarrow> any_map \<Rightarrow> time \<Rightarrow> robot_execution" where
  "apply_event e typ payload now =
     (let st = guarded_status (e_status e) (reported_status e typ payload);
          stage = or_old (get_string payload ''stage'') (e_stage e);
          progress = (if st = ''completed'' then Some (JInt 1)
            else case json_number (map_of payload ''progress'') of Some n \<Rightarrow> Some n | None \<Rightarrow> e_progress e);
          result = (if execution_lifecycle_event typ then or_old (get_object payload ''result'') (e_result e) else e_result e);
          failure = (if execution_lifecycle_event typ then or_old (get_object payload ''error'') (e_error e) else e_error e);
          outcome = (if typ = ''skill.stop.finalized'' then or_old (get_object payload ''stop_outcome'') result else result)
      in e\<lparr>e_status := st, e_stage := stage, e_progress := progress, e_result := outcome,
           e_error := (if st = ''completed'' then [] else failure),
           e_revision := e_revision e + 1, e_updated_at := now\<rparr>)"

text \<open>The robot's pointer after an event.\<close>

definition settle_pilot :: "robot_env \<Rightarrow> string \<Rightarrow> robot_execution \<Rightarrow> (sys, unit) prog" where
  "settle_pilot R pilot e =
    (if e_status e = ''interrupted'' then attempt (store (get_robot_pilot pilot)) (\<lambda>r. case r of
         Inr p \<Rightarrow> set_pilot_interrupted p (e_id e)
       | Inl _ \<Rightarrow> ok ())
     else if \<not> active_robot_status (e_status e) then attempt (store (get_robot_pilot pilot)) (\<lambda>r. case r of
         Inr p \<Rightarrow> set_pilot_execution R p []
       | Inl _ \<Rightarrow> ok ())
     else ok ())"

definition event_time :: "robot_env \<Rightarrow> any_map \<Rightarrow> time \<Rightarrow> time" where
  "event_time R payload now =
    (if string_value payload ''occurred_at'' = [] then now
     else or_old (ro_parse_time R (string_value payload ''occurred_at'')) now)"

definition handle_execution_event :: "robot_env \<Rightarrow> string \<Rightarrow> string \<Rightarrow> int \<Rightarrow> any_map \<Rightarrow> (sys, unit) prog" where
  "handle_execution_event R pilot typ sequence0 payload =
     (let i = string_value payload ''execution_id'' in
      if i = [] then err (ErrText (''Pilot event '' @ typ @ '' has no execution_id''))
      else go (store (get_robot_execution i)) (\<lambda>e.
      if e_pilot_instance_id e \<noteq> pilot then err (ErrText ''Execution of another Pilot'')
      else go (if sequence0 \<le> 0 then store (next_robot_execution_event_sequence i) else ok sequence0) (\<lambda>sequence.
      at_now (\<lambda>now.
      go (store (append_robot_execution_event \<lparr>ev_execution_id = i, ev_sequence = sequence, ev_type = typ,
           ev_payload = payload, ev_created_at = event_time R payload now\<rparr>)) (\<lambda>_.
      let f = apply_event e typ payload now; shown = put_key ''sequence'' (JInt sequence) payload in
      go (store (save_robot_execution f)) (\<lambda>_.
      go (settle_pilot R pilot f) (\<lambda>_.
      go (publish_execution f typ) (\<lambda>_.
      observe R f typ shown))))))))"

section \<open>Reconciliation\<close>

definition terminal_event_status :: "execution_event \<Rightarrow> string" where
  "terminal_event_status ev =
    (if string_value (ev_payload ev) ''skill_status'' \<noteq> [] then string_value (ev_payload ev) ''skill_status''
     else string_value (ev_payload ev) ''status'')"

definition decides_terminal :: "execution_event \<Rightarrow> bool" where
  "decides_terminal ev \<longleftrightarrow> ev_type ev = ''execution.terminal'' \<and> terminal_event_status ev \<noteq> [] \<and>
     \<not> active_robot_status (terminal_event_status ev)"

definition recovered_execution :: "robot_execution \<Rightarrow> execution_event \<Rightarrow> time \<Rightarrow> robot_execution" where
  "recovered_execution e ev now =
     (let p = ev_payload ev; st = terminal_event_status ev;
          f = e\<lparr>e_status := st,
                e_stage := (if string_value p ''stage'' \<noteq> [] then string_value p ''stage'' else e_stage e),
                e_result := or_old (get_object p ''result'') (e_result e),
                e_error := or_old (get_object p ''error'') (e_error e),
                e_revision := e_revision e + 1, e_updated_at := now\<rparr>
      in if st = ''completed'' then f\<lparr>e_progress := Some (JInt 1), e_error := []\<rparr> else f)"

text \<open>The value is \<open>None\<close> when nothing had to be recovered.\<close>

definition recover_persisted_terminal :: "robot_execution \<Rightarrow> (sys, (robot_execution \<times> any_map) option) prog" where
  "recover_persisted_terminal e =
     go (store (list_robot_execution_events (e_id e) 0 1000)) (\<lambda>events.
     case find decides_terminal (rev events) of
       None \<Rightarrow> ok None
     | Some ev \<Rightarrow>
         if e_status e = terminal_event_status ev then ok None
         else at_now (\<lambda>now.
           let f = recovered_execution e ev now in
           go (store (save_robot_execution f)) (\<lambda>_.
           ok (Some (f, put_key ''sequence'' (JInt (ev_sequence ev)) (ev_payload ev))))))"

definition missing_error :: any_map where
  "missing_error = error_map ''PILOT_EXECUTION_MISSING'' ''the Pilot reconnected without this active Execution''"

text \<open>
  One row of the loop: \<open>p\<close> is the Pilot as read at the start, \<open>remote\<close> the reports of the Pilot by
  Execution, \<open>pointer\<close> the \<open>terminalCurrentExecutionID\<close> found so far.
\<close>

definition reconcile_recovered ::
  "robot_env \<Rightarrow> robot_pilot \<Rightarrow> robot_execution \<Rightarrow> any_map \<Rightarrow> string \<Rightarrow> (sys, string) prog" where
  "reconcile_recovered R p f payload pointer =
     go (if rp_current_execution_id p = e_id f \<and> e_status f = ''interrupted'' then set_pilot_interrupted p (e_id f)
         else ok ()) (\<lambda>_.
     go (publish_execution f ''robot.execution.reconciled'') (\<lambda>_.
     go (observe R f ''execution.terminal'' payload) (\<lambda>_.
     ok (if rp_current_execution_id p = e_id f \<and> e_status f \<noteq> ''interrupted'' then e_id f else pointer))))"

definition reconcile_active ::
  "robot_env \<Rightarrow> robot_pilot \<Rightarrow> (string \<times> any_map) list \<Rightarrow> robot_execution \<Rightarrow> (sys, robot_execution option) prog" where
  "reconcile_active R p remote e = at_now (\<lambda>now. case map_of remote (e_id e) of
     None \<Rightarrow>
       (let f = e\<lparr>e_status := ''interrupted'', e_revision := e_revision e + 1, e_updated_at := now,
                  e_error := missing_error\<rparr> in
        ignoring (store (save_robot_execution f)) (
        go (publish_execution f ''robot.execution.interrupted'') (\<lambda>_.
        go (set_pilot_interrupted p (e_id f)) (\<lambda>_.
        go (observe R f ''robot.execution.interrupted'' (e_error f)) (\<lambda>_. ok None)))))
   | Some item \<Rightarrow>
       let st = string_value item ''status'' in
       if st \<noteq> [] \<and> st \<noteq> e_status e then
         (let f = e\<lparr>e_status := st, e_revision := e_revision e + 1, e_updated_at := now\<rparr> in
          ignoring (store (save_robot_execution f)) (
          ok (if active_robot_status (e_status f) then Some f else None)))
       else ok (Some e))"

fun reconcile_rows ::
  "robot_env \<Rightarrow> robot_pilot \<Rightarrow> (string \<times> any_map) list \<Rightarrow> robot_execution list \<Rightarrow> string \<Rightarrow>
   (sys, robot_execution list \<times> string) prog" where
  "reconcile_rows R p remote [] pointer = ok ([], pointer)"
| "reconcile_rows R p remote (e0 # es) pointer =
     go (if e_status e0 \<noteq> ''completed'' then recover_persisted_terminal e0 else ok None) (\<lambda>recovered.
     let e = (case recovered of Some (f, _) \<Rightarrow> f | None \<Rightarrow> e0) in
     go (case recovered of Some (f, payload) \<Rightarrow> reconcile_recovered R p f payload pointer | None \<Rightarrow> ok pointer) (\<lambda>pointer1.
     let pointer2 = (if rp_current_execution_id p = e_id e \<and> \<not> active_robot_status (e_status e) \<and>
         e_status e \<noteq> ''interrupted'' then e_id e else pointer1) in
     go (if active_robot_status (e_status e) then reconcile_active R p remote e else ok None) (\<lambda>kept.
     go (reconcile_rows R p remote es pointer2) (\<lambda>(rest, pointer3).
     ok ((case kept of Some f \<Rightarrow> [f] | None \<Rightarrow> []) @ rest, pointer3)))))"

text \<open>\<open>remoteByID\<close>: a later report of the same Execution replaces an earlier one.\<close>

definition remote_by_id :: "any_map list \<Rightarrow> (string \<times> any_map) list" where
  "remote_by_id remote = foldl (\<lambda>m item. let i = string_value item ''execution_id'' in
     if i \<noteq> [] then put_key i item m else m) [] remote"

definition release_terminal :: "robot_env \<Rightarrow> string \<Rightarrow> string \<Rightarrow> (sys, unit) prog" where
  "release_terminal R pilot pointer =
    (if pointer = [] then ok ()
     else go (store (get_robot_pilot pilot)) (\<lambda>last.
       if rp_current_execution_id last = pointer then set_pilot_execution R last [] else ok ()))"

definition reconcile :: "robot_env \<Rightarrow> string \<Rightarrow> any_map list \<Rightarrow> (sys, robot_execution list) prog" where
  "reconcile R pilot remote =
     go (store (get_robot_pilot pilot)) (\<lambda>p.
     go (store (list_robot_executions [] (rp_robot_id p) 100)) (\<lambda>rows.
     go (reconcile_rows R p (remote_by_id remote) rows []) (\<lambda>(recoverable, pointer).
     go (release_terminal R pilot pointer) (\<lambda>_. ok recoverable))))"

section \<open>Artifacts\<close>

definition announced_mapping :: "robot_env \<Rightarrow> string \<Rightarrow> any_map \<Rightarrow> time \<Rightarrow> robot_artifact_mapping" where
  "announced_mapping R pilot payload now =
     \<lparr>am_pilot_instance_id = pilot, am_local_artifact_id = string_value payload ''local_artifact_id'',
      am_server_artifact_id = [], am_execution_id = string_value payload ''execution_id'',
      am_action_id = string_value payload ''action_id'', am_observation_id = string_value payload ''observation_id'',
      am_media_type = string_value payload ''media_type'', am_summary = string_value payload ''summary'',
      am_size_bytes = number_value R payload ''size_bytes'', am_status = ''pending'', am_updated_at = now\<rparr>"

definition announce_artifact :: "robot_env \<Rightarrow> string \<Rightarrow> any_map \<Rightarrow> (sys, unit) prog" where
  "announce_artifact R pilot payload =
     (let execution_id = string_value payload ''execution_id''; local_id = string_value payload ''local_artifact_id'' in
      if execution_id = [] \<or> local_id = [] then err (ErrText ''artifact.announce has no execution_id or local_artifact_id'')
      else go (store (get_robot_execution execution_id)) (\<lambda>e.
      if e_pilot_instance_id e \<noteq> pilot then err (ErrText ''Artifact of another Pilot'')
      else at_now (\<lambda>now.
      let item = announced_mapping R pilot payload now in
      go (store (save_robot_artifact_mapping item)) (\<lambda>_.
      go (publish_device ''artifact_sync'' (pilot @ ''/'' @ local_id) ''artifact_sync.announced'' 1) (\<lambda>_.
      go (publish_robot_event (e_project_id e) ''artifact_sync'' local_id ''artifact_sync.announced'' (e_revision e)) (\<lambda>_.
      go (add_transfer (empty_transfer\<lparr>tf_mode := ''artifact_upload'', tf_pilot_instance_id := pilot,
           tf_execution_id := execution_id, tf_local_artifact_id := local_id, tf_media_type := am_media_type item,
           tf_summary := am_summary item, tf_expires_at := now + transfer_lifetime\<rparr>)) (\<lambda>token.
      go (send_command R pilot ''artifact.upload'' (PMap [(''execution_id'', JStr execution_id),
           (''local_artifact_id'', JStr local_id), (''upload_url'', JStr (''/pilot/v1/transfers/'' @ token))])) (\<lambda>_.
      ok ()))))))))"

text \<open>
  \<open>TransferHandler\<close>, after the check that the token belongs to this Pilot.  \<open>upload\<close> is
  \<open>PutUserArtifactStream\<close>, which stores the body of the request: it reads the network and so is a
  parameter; everything may happen while it runs.
\<close>

definition bound_transfer :: "string \<Rightarrow> string \<Rightarrow> (sys, transfer) prog" where
  "bound_transfer token pilot = at_now (\<lambda>now. reading (\<lambda>s. case map_of (hb_transfers (hub s)) token of
     None \<Rightarrow> err ErrTransferUnavailable
   | Some tr \<Rightarrow> if tf_pilot_instance_id tr \<noteq> pilot \<or> tf_expires_at tr < now then err ErrTransferUnavailable else ok tr))"

definition serve_download :: "string \<Rightarrow> string \<Rightarrow> (sys, transfer) prog" where
  "serve_download token pilot =
     go (bound_transfer token pilot) (\<lambda>tr.
     if tf_mode tr \<noteq> ''package_download'' \<and> tf_mode tr \<noteq> ''artifact_download'' then err ErrTransferUnavailable
     else if tf_mode tr = ''package_download'' then ok tr
     else go (store (get_artifact_meta (tf_artifact_id tr))) (\<lambda>_. ok tr))"

definition max_artifact_upload_bytes :: int where
  "max_artifact_upload_bytes = 2147483648"

definition finish_upload :: "transfer \<Rightarrow> artifact \<Rightarrow> (sys, unit) prog" where
  "finish_upload tr a =
     go (store (get_robot_artifact_mapping (tf_pilot_instance_id tr) (tf_local_artifact_id tr))) (\<lambda>m. at_now (\<lambda>now.
     let m' = m\<lparr>am_server_artifact_id := art_id a, am_status := ''synced'', am_size_bytes := art_size a, am_updated_at := now\<rparr> in
     go (store (save_robot_artifact_mapping m')) (\<lambda>_.
     go (store (get_robot_execution (tf_execution_id tr))) (\<lambda>e.
     go (publish_device ''artifact_sync'' (tf_pilot_instance_id tr @ ''/'' @ tf_local_artifact_id tr) ''artifact_sync.synced'' 2) (\<lambda>_.
     go (publish_robot_event (e_project_id e) ''artifact_sync'' (art_id a) ''artifact_sync.synced'' (e_revision e)) (\<lambda>_.
     publish_execution e ''robot.artifact.synced''))))))"

definition serve_upload ::
  "(project \<Rightarrow> transfer \<Rightarrow> (sys, artifact) prog) \<Rightarrow> string \<Rightarrow> string \<Rightarrow> int \<Rightarrow> (sys, unit) prog" where
  "serve_upload upload token pilot content_length =
     go (bound_transfer token pilot) (\<lambda>_.
     go (take_transfer token ''artifact_upload'') (\<lambda>tr.
     go (store (get_robot_execution (tf_execution_id tr))) (\<lambda>e.
     go (store (get_project (e_project_id e))) (\<lambda>p.
     if content_length > max_artifact_upload_bytes then err (ErrText ''artifact too large'')
     else attempt (upload p tr) (\<lambda>r. case r of
       Inl _ \<Rightarrow> err (ErrText ''artifact upload failed'')
     | Inr a \<Rightarrow> finish_upload tr a)))))"

end
