(* ===== verification/RobotFleet.thy ===== *)
theory RobotFleet
  imports RobotEvents
begin

text \<open>
  The connections of the Pilots (\<open>internal/robot/service.go\<close>: \<open>connect\<close>, \<open>disconnect\<close>, \<open>Heartbeat\<close>,
  \<open>HandlePilotEvent\<close>, Skill commands, Ability debugging; \<open>enrollment.go\<close>; \<open>gateway.go\<close>; \<open>state.go\<close>;
  \<open>contract.go\<close>): joining with a code, registering, heartbeats, bringing the Skills of a Pilot in
  line with what the user wants, and the messages of one connection.
\<close>

section \<open>Decoding reports\<close>

text \<open>\<open>json.Unmarshal\<close> into \<open>store.RobotPilot\<close> and \<open>store.RobotPilotSkill\<close>.\<close>

definition int_of_field :: "any_map \<Rightarrow> string \<Rightarrow> int option" where
  "int_of_field fs k = (case field fs k of
     None \<Rightarrow> Some 0 | Some JNull \<Rightarrow> Some 0 | Some (JInt n) \<Rightarrow> Some n | _ \<Rightarrow> None)"

definition bool_of_field :: "any_map \<Rightarrow> string \<Rightarrow> bool option" where
  "bool_of_field fs k = (case field fs k of
     None \<Rightarrow> Some False | Some JNull \<Rightarrow> Some False | Some (JBool b) \<Rightarrow> Some b | _ \<Rightarrow> None)"

definition time_of_field :: "robot_env \<Rightarrow> any_map \<Rightarrow> string \<Rightarrow> time option" where
  "time_of_field R fs k = (case field fs k of
     None \<Rightarrow> Some 0 | Some JNull \<Rightarrow> Some 0 | Some (JStr t) \<Rightarrow> ro_parse_time R t | _ \<Rightarrow> None)"

definition slice_of_field :: "(json \<Rightarrow> 'x option) \<Rightarrow> any_map \<Rightarrow> string \<Rightarrow> 'x list option option" where
  "slice_of_field f fs k = (case field fs k of
     None \<Rightarrow> Some None | Some JNull \<Rightarrow> Some None | Some (JArr js) \<Rightarrow> map_option Some (those (map f js)) | _ \<Rightarrow> None)"

definition map_of_field :: "any_map \<Rightarrow> string \<Rightarrow> any_map option" where
  "map_of_field fs k = (case field fs k of
     None \<Rightarrow> Some [] | Some JNull \<Rightarrow> Some [] | Some (JObj m) \<Rightarrow> Some m | _ \<Rightarrow> None)"

definition desired_skill_of_json :: "robot_env \<Rightarrow> json \<Rightarrow> robot_desired_skill option" where
  "desired_skill_of_json R j =
     Option.bind (json_fields j) (\<lambda>fs.
     Option.bind (string_of_field fs ''robot_id'') (\<lambda>robot.
     Option.bind (string_of_field fs ''name'') (\<lambda>name.
     Option.bind (string_of_field fs ''version'') (\<lambda>version.
     Option.bind (bool_of_field fs ''enabled'') (\<lambda>enabled.
     Option.bind (time_of_field R fs ''updated_at'') (\<lambda>updated.
       Some \<lparr>dk_robot_id = robot, dk_name = name, dk_version = version, dk_enabled = enabled, dk_updated_at = updated\<rparr>))))))"

definition pilot_skill_of_map :: "robot_env \<Rightarrow> any_map \<Rightarrow> robot_pilot_skill option" where
  "pilot_skill_of_map R fs =
     Option.bind (string_of_field fs ''pilot_instance_id'') (\<lambda>pilot.
     Option.bind (string_of_field fs ''name'') (\<lambda>name.
     Option.bind (string_of_field fs ''version'') (\<lambda>version.
     Option.bind (bool_of_field fs ''enabled'') (\<lambda>enabled.
     Option.bind (string_of_field fs ''status'') (\<lambda>status.
     Option.bind (string_of_field fs ''error'') (\<lambda>message.
     Option.bind (time_of_field R fs ''updated_at'') (\<lambda>updated.
       Some \<lparr>pk_pilot_instance_id = pilot, pk_name = name, pk_version = version, pk_enabled = enabled,
         pk_status = status, pk_error = message, pk_updated_at = updated\<rparr>)))))))"

definition runtime_state_of :: "string \<Rightarrow> runtime_state" where
  "runtime_state_of t =
    (if t = ''starting'' then RtStarting else if t = ''ready'' then RtReady else if t = ''degraded'' then RtDegraded
     else if t = ''stopping'' then RtStopping else if t = ''stopped'' then RtStopped
     else if t = ''failed'' then RtFailed else if t = ''interrupted'' then RtInterrupted else RtOther t)"

definition runtime_of_map :: "robot_env \<Rightarrow> any_map \<Rightarrow> runtime_instance option" where
  "runtime_of_map R fs =
     Option.bind (those (map (string_of_field fs) [''instance_id'', ''pilot_instance_id'', ''robot_id'',
       ''scene_instance_id'', ''bundle_name'', ''bundle_version'', ''robot_model'', ''backend'', ''kind'',
       ''backend_profile'', ''status'', ''failure_reason'', ''ability_framework_endpoint'', ''data_directory'',
       ''project_id''])) (\<lambda>ts.
     Option.bind (int_of_field fs ''ability_framework_port'') (\<lambda>port.
     Option.bind (int_of_field fs ''revision'') (\<lambda>revision.
     Option.bind (time_of_field R fs ''created_at'') (\<lambda>created.
     Option.bind (time_of_field R fs ''updated_at'') (\<lambda>updated.
       Some \<lparr>ri_id = ts ! 0, ri_pilot_instance_id = ts ! 1, ri_robot_id = ts ! 2, ri_scene_instance_id = ts ! 3,
         ri_bundle_name = ts ! 4, ri_bundle_version = ts ! 5, ri_robot_model = ts ! 6, ri_backend = ts ! 7,
         ri_kind = ts ! 8, ri_backend_profile = ts ! 9, ri_status = runtime_state_of (ts ! 10),
         ri_failure_reason = ts ! 11, ri_port = port, ri_endpoint = ts ! 12, ri_data_directory = ts ! 13,
         ri_project_id = ts ! 14, ri_revision = revision, ri_created_at = created, ri_updated_at = updated\<rparr>)))))"

definition runtime_of_field :: "robot_env \<Rightarrow> any_map \<Rightarrow> runtime_instance option option" where
  "runtime_of_field R fs = (case field fs ''runtime_instance'' of
     None \<Rightarrow> Some None | Some JNull \<Rightarrow> Some None
   | Some (JObj m) \<Rightarrow> map_option Some (runtime_of_map R m)
   | _ \<Rightarrow> None)"

definition pilot_of_map :: "robot_env \<Rightarrow> any_map \<Rightarrow> robot_pilot option" where
  "pilot_of_map R fs =
     Option.bind (those (map (string_of_field fs) [''pilot_instance_id'', ''robot_id'', ''display_name'', ''robot_model'',
       ''backend'', ''pilot_version'', ''status'', ''robot_status'', ''ability_framework_status'',
       ''current_execution_id''])) (\<lambda>ts.
     Option.bind (those (map (int_of_field fs) [''skill_catalog_revision'', ''ability_catalog_revision'', ''revision''])) (\<lambda>ns.
     Option.bind (slice_of_field json_fields fs ''abilities'') (\<lambda>abilities.
     Option.bind (slice_of_field json_fields fs ''sensors'') (\<lambda>sensors.
     Option.bind (map_of_field fs ''configuration'') (\<lambda>configuration.
     Option.bind (slice_of_field (desired_skill_of_json R) fs ''desired_skills'') (\<lambda>desired.
     Option.bind (runtime_of_field R fs) (\<lambda>runtime.
     Option.bind (time_of_field R fs ''last_seen_at'') (\<lambda>seen.
       Some \<lparr>rp_instance_id = ts ! 0, rp_robot_id = ts ! 1, rp_display_name = ts ! 2, rp_robot_model = ts ! 3,
         rp_backend = ts ! 4, rp_pilot_version = ts ! 5, rp_status = ts ! 6, rp_robot_status = ts ! 7,
         rp_ability_framework_status = ts ! 8, rp_skill_catalog_revision = ns ! 0,
         rp_ability_catalog_revision = ns ! 1, rp_current_execution_id = ts ! 9, rp_abilities = abilities,
         rp_sensors = sensors, rp_configuration = configuration, rp_desired_skills = desired, rp_runtime = runtime,
         rp_revision = ns ! 2, rp_last_seen_at = seen\<rparr>))))))))"

section \<open>Skill commands\<close>

definition name_version :: "string \<Rightarrow> string \<Rightarrow> any_map" where
  "name_version name version = [(''name'', JStr name), (''version'', JStr version)]"

definition install_skill :: "robot_env \<Rightarrow> string \<Rightarrow> string \<Rightarrow> string \<Rightarrow> (sys, unit) prog" where
  "install_skill R pilot name version =
     go (store (get_robot_skill_package name version)) (\<lambda>p. at_now (\<lambda>now.
     go (add_transfer (empty_transfer\<lparr>tf_mode := ''package_download'', tf_pilot_instance_id := pilot,
          tf_package_path := sp_package_path p, tf_expires_at := now + transfer_lifetime\<rparr>)) (\<lambda>token.
     attempt (send_skill_command_once R pilot ''skill.install''
         (name_version name version @ [(''package_url'', JStr (''/pilot/v1/transfers/'' @ token))])) (\<lambda>r.
     let drop_token = on_hub (drop_transfer token) in
     case r of
       Inl e \<Rightarrow> go drop_token (\<lambda>_. err e)
     | Inr (i, sent) \<Rightarrow> if sent then ok () else drop_token))))"

definition set_skill_enabled :: "robot_env \<Rightarrow> string \<Rightarrow> string \<Rightarrow> string \<Rightarrow> bool \<Rightarrow> (sys, unit) prog" where
  "set_skill_enabled R pilot name version enabled =
     go (send_skill_command_once R pilot (if enabled then ''skill.enable'' else ''skill.disable'')
       (name_version name version)) (\<lambda>_. ok ())"

definition uninstall_skill :: "robot_env \<Rightarrow> string \<Rightarrow> string \<Rightarrow> string \<Rightarrow> (sys, unit) prog" where
  "uninstall_skill R pilot name version =
     go (send_skill_command_once R pilot ''skill.uninstall'' (name_version name version)) (\<lambda>_. ok ())"

text \<open>One entry of the list of desired Skills against the actual ones.\<close>

definition reconcile_skill :: "robot_env \<Rightarrow> string \<Rightarrow> robot_pilot_skill list \<Rightarrow> robot_desired_skill \<Rightarrow> (sys, unit) prog" where
  "reconcile_skill R pilot actual target =
    (case find (\<lambda>x. pk_name x = dk_name target \<and> pk_version x = dk_version target) actual of
       None \<Rightarrow> install_skill R pilot (dk_name target) (dk_version target)
     | Some x \<Rightarrow>
         if pk_status x = ''uninstalled'' then install_skill R pilot (dk_name target) (dk_version target)
         else if pk_status x \<noteq> ''installed'' then ok ()
         else if pk_enabled x \<noteq> dk_enabled target
           then set_skill_enabled R pilot (dk_name target) (dk_version target) (dk_enabled target)
         else ok ())"

definition reconcile_desired_skills :: "robot_env \<Rightarrow> string \<Rightarrow> (sys, unit) prog" where
  "reconcile_desired_skills R robot =
     go (store (get_active_robot_pilot robot)) (\<lambda>p. reading (\<lambda>s.
     if \<not> is_online (rp_instance_id p) s then err ErrPilotOffline
     else go (store (list_robot_desired_skills robot)) (\<lambda>desired.
     go (store (list_robot_pilot_skills (rp_instance_id p))) (\<lambda>actual.
     for_each (reconcile_skill R (rp_instance_id p) actual) desired))))"

definition set_desired_skill :: "robot_env \<Rightarrow> string \<Rightarrow> string \<Rightarrow> string \<Rightarrow> bool \<Rightarrow> (sys, robot_desired_skill) prog" where
  "set_desired_skill R robot name version enabled =
    (if trim_space robot = [] \<or> trim_space name = [] \<or> trim_space version = []
     then err (ErrText ''robot_id, name and version are required'')
     else at_now (\<lambda>now.
       let x = \<lparr>dk_robot_id = robot, dk_name = name, dk_version = version, dk_enabled = enabled, dk_updated_at = now\<rparr> in
       go (store (save_robot_desired_skill x)) (\<lambda>_.
       attempt (reconcile_desired_skills R robot) (\<lambda>r. case r of
         Inr _ \<Rightarrow> ok x
       | Inl e \<Rightarrow> if errors_is e ErrPilotOffline \<or> errors_is e ErrNotFound then ok x else err e))))"

definition remove_desired_skill :: "robot_env \<Rightarrow> string \<Rightarrow> string \<Rightarrow> (sys, unit) prog" where
  "remove_desired_skill R robot name =
     go (store (delete_robot_desired_skill robot name)) (\<lambda>_.
     go (store (get_active_robot_pilot robot)) (\<lambda>p. reading (\<lambda>s.
     if \<not> is_online (rp_instance_id p) s then ok ()
     else case find (\<lambda>x. pk_name x = name) (skills_of (rp_instance_id p) (dbase s)) of
       Some x \<Rightarrow> uninstall_skill R (rp_instance_id p) (pk_name x) (pk_version x)
     | None \<Rightarrow> ok ())))"

section \<open>Joining\<close>

text \<open>The code is six random digits and the credential a random secret: both are arguments.\<close>

definition create_pilot_enrollment :: "string \<Rightarrow> string \<Rightarrow> (sys, pilot_enrollment) prog" where
  "create_pilot_enrollment code created_by =
    (if trim_space created_by = [] then err (ErrText ''created_by is required'')
     else at_now (\<lambda>now.
       go (fresh ''pen-'') (\<lambda>i.
       let x = \<lparr>pn_id = i, pn_code = code, pn_status = ''pending'', pn_expires_at = now + 300000000000,
                pn_created_by = created_by, pn_pilot_instance_id = [], pn_created_at = now, pn_claimed_at = None\<rparr> in
       go (store (save_pilot_enrollment x)) (\<lambda>_. ok x))))"

definition claim_enrollment :: "string \<Rightarrow> string \<Rightarrow> string \<Rightarrow> (sys, pilot_enrollment \<times> string) prog" where
  "claim_enrollment secret code pilot =
    (if trim_space code = [] \<or> trim_space pilot = [] then err (ErrText ''join_code and pilot_id are required'')
     else at_now (\<lambda>now.
       go (store (claim_pilot_enrollment (trim_space code) (trim_space pilot) (''pilot_'' @ secret) now)) (\<lambda>x.
       ok (x, ''pilot_'' @ secret))))"

definition revoke_pilot_enrollment :: "string \<Rightarrow> (sys, unit) prog" where
  "revoke_pilot_enrollment i = store (revoke_enrollment (trim_space i))"

definition validate_pilot_credential :: "string \<Rightarrow> (sys, string) prog" where
  "validate_pilot_credential value = attempt (store (get_pilot_credential (trim_space value))) (\<lambda>r. case r of
     Inr x \<Rightarrow> if pc_revoked_at x \<noteq> None then err ErrPilotCredentialInvalid else ok (pc_pilot_instance_id x)
   | Inl _ \<Rightarrow> err ErrPilotCredentialInvalid)"

section \<open>Connecting\<close>

definition accepting_runtime :: "runtime_state \<Rightarrow> bool" where
  "accepting_runtime st \<longleftrightarrow> st \<in> {RtStarting, RtReady, RtDegraded}"

text \<open>The Runtime instance of this very Pilot, if the robot's latest one is.\<close>

definition bound_runtime :: "robot_pilot \<Rightarrow> db \<Rightarrow> runtime_instance option" where
  "bound_runtime p s = (case latest_runtime (rp_robot_id p) s of
     Some x \<Rightarrow> if ri_pilot_instance_id x = rp_instance_id p then Some x else None
   | None \<Rightarrow> None)"

definition registered_pilot :: "robot_pilot \<Rightarrow> runtime_instance option \<Rightarrow> robot_pilot option \<Rightarrow> time \<Rightarrow> robot_pilot" where
  "registered_pilot p runtime previous now = (let q = p\<lparr>rp_runtime := runtime, rp_status := ''online'', rp_last_seen_at := now\<rparr> in
     case previous of
       Some old \<Rightarrow> q\<lparr>rp_revision := rp_revision old + 1, rp_current_execution_id :=
         (if rp_current_execution_id p = [] then rp_current_execution_id old else rp_current_execution_id p)\<rparr>
     | None \<Rightarrow> if rp_revision p \<le> 0 then q\<lparr>rp_revision := 1\<rparr> else q)"

definition close_session :: "pilot_session \<Rightarrow> pilot_session" where
  "close_session ss = ss\<lparr>ss_closed := True\<rparr>"

definition close_previous :: "string \<Rightarrow> hub \<Rightarrow> hub" where
  "close_previous pilot h = (case map_of (hb_sessions h) pilot of
     Some ss \<Rightarrow> drop_pending_skill_commands pilot (h\<lparr>hb_sessions := put_key pilot (close_session ss) (hb_sessions h)\<rparr>)
   | None \<Rightarrow> h)"

text \<open>The loop over the sessions of other Pilots of the same robot; \<open>False\<close> when one is occupied.\<close>

fun close_rivals :: "string \<Rightarrow> string \<Rightarrow> (string \<times> pilot_session) list \<Rightarrow> hub \<Rightarrow> bool \<times> hub" where
  "close_rivals pilot robot [] h = (True, h)"
| "close_rivals pilot robot ((i, ss) # rest) h =
    (if i \<noteq> pilot \<and> rp_robot_id (ss_pilot ss) = robot then
       if rp_current_execution_id (ss_pilot ss) \<noteq> [] then (False, h)
       else close_rivals pilot robot rest (h\<lparr>hb_sessions := delete_key i (hb_sessions h)\<rparr>)
     else close_rivals pilot robot rest h)"

definition open_session :: "robot_pilot \<Rightarrow> hub \<Rightarrow> hub" where
  "open_session p h = h\<lparr>
     hb_sessions := put_key (rp_instance_id p)
       \<lparr>ss_pilot = p, ss_send = [], ss_closed = False, ss_serial = hb_serials h\<rparr> (hb_sessions h),
     hb_serials := hb_serials h + 1\<rparr>"

definition register_session :: "robot_pilot \<Rightarrow> (sys, nat) prog" where
  "register_session p =
     go (on_hub (close_previous (rp_instance_id p))) (\<lambda>_. reading (\<lambda>s.
     case close_rivals (rp_instance_id p) (rp_robot_id p) (hb_sessions (hub s)) (hub s) of
       (False, h) \<Rightarrow> go (on_hub (\<lambda>_. h)) (\<lambda>_. err (Wrapped (''Robot '' @ rp_robot_id p @ '' has an unconfirmed execution'') ErrRobotBusy))
     | (True, h) \<Rightarrow> go (on_hub (\<lambda>_. open_session p h)) (\<lambda>_. ok (hb_serials h))))"

definition save_reported_skills :: "string \<Rightarrow> robot_pilot_skill list option \<Rightarrow> time \<Rightarrow> (sys, unit) prog" where
  "save_reported_skills pilot reported now = (case reported of
     None \<Rightarrow> ok ()
   | Some skills \<Rightarrow> store (replace_robot_pilot_skills pilot
       (map (\<lambda>x. x\<lparr>pk_pilot_instance_id := pilot, pk_updated_at := now\<rparr>) skills)))"

definition seed_desired_skills :: "robot_pilot \<Rightarrow> time \<Rightarrow> (sys, unit) prog" where
  "seed_desired_skills p now =
     go (store (list_robot_desired_skills (rp_robot_id p))) (\<lambda>desired.
     if desired \<noteq> [] then ok ()
     else for_each (\<lambda>x. store (save_robot_desired_skill (x\<lparr>dk_robot_id := rp_robot_id p, dk_updated_at := now\<rparr>)))
       (case rp_desired_skills p of Some xs \<Rightarrow> xs | None \<Rightarrow> []))"

definition connect :: "robot_env \<Rightarrow> robot_pilot \<Rightarrow> robot_pilot_skill list option \<Rightarrow> (sys, nat) prog" where
  "connect R pilot reported =
    (if trim_space (rp_instance_id pilot) = [] \<or> trim_space (rp_robot_id pilot) = []
     then err (ErrText ''pilot_instance_id and robot_id are required'')
     else at_now (\<lambda>now. reading (\<lambda>s.
     let runtime = bound_runtime pilot (dbase s) in
     if (case runtime of Some x \<Rightarrow> \<not> accepting_runtime (ri_status x) | None \<Rightarrow> False)
     then err (ErrText ''Runtime Instance does not accept the Pilot'')
     else
       let p = registered_pilot pilot runtime (find_by rp_instance_id (rp_instance_id pilot) (robot_pilots (dbase s))) now in
       go (register_session p) (\<lambda>serial.
       go (store (save_robot_pilot p)) (\<lambda>_.
       go (save_reported_skills (rp_instance_id p) reported now) (\<lambda>_.
       go (seed_desired_skills p now) (\<lambda>_.
       go (spawn_reconcile_skills (rp_robot_id p)) (\<lambda>_.
       go (publish_robot_event [] ''pilot'' (rp_instance_id p) ''pilot.online'' (rp_revision p)) (\<lambda>_.
       go (publish_pilot_view p ''pilot.online'') (\<lambda>_.
       go (notify_robot_available R p) (\<lambda>_. ok serial)))))))))))"

definition offline_pilot :: "robot_pilot \<Rightarrow> time \<Rightarrow> robot_pilot" where
  "offline_pilot p now = p\<lparr>rp_status := ''offline'', rp_robot_status := ''offline'',
     rp_ability_framework_status := ''offline'', rp_revision := rp_revision p + 1, rp_last_seen_at := now\<rparr>"

definition remove_session :: "string \<Rightarrow> hub \<Rightarrow> hub" where
  "remove_session pilot h =
     drop_pending_skill_commands pilot (h\<lparr>hb_sessions := delete_key pilot (hb_sessions h)\<rparr>)"

definition disconnect :: "string \<Rightarrow> nat \<Rightarrow> (sys, unit) prog" where
  "disconnect pilot serial = at_now (\<lambda>now. reading (\<lambda>s. case session_of pilot s of
     None \<Rightarrow> ok ()
   | Some ss \<Rightarrow>
       if ss_serial ss \<noteq> serial then ok ()
       else let p = offline_pilot (ss_pilot ss) now in
         go (on_hub (remove_session pilot)) (\<lambda>_.
         ignoring (store (save_robot_pilot p)) (
         go (publish_robot_event [] ''pilot'' pilot ''pilot.offline'' (rp_revision p)) (\<lambda>_.
         publish_pilot_view p ''pilot.offline'')))))"

section \<open>Heartbeats\<close>

definition or_previous :: "string \<Rightarrow> string \<Rightarrow> string" where
  "or_previous new old = (if new = [] then old else new)"

definition merge_heartbeat :: "string \<Rightarrow> robot_pilot \<Rightarrow> robot_pilot \<Rightarrow> robot_pilot" where
  "merge_heartbeat pilot old new = new\<lparr>
     rp_instance_id := pilot, rp_robot_id := rp_robot_id old,
     rp_display_name := or_previous (rp_display_name new) (rp_display_name old),
     rp_robot_model := or_previous (rp_robot_model new) (rp_robot_model old),
     rp_backend := or_previous (rp_backend new) (rp_backend old),
     rp_pilot_version := or_previous (rp_pilot_version new) (rp_pilot_version old),
     rp_status := ''online'',
     rp_robot_status := or_previous (rp_robot_status new) (rp_robot_status old),
     rp_ability_framework_status := or_previous (rp_ability_framework_status new) (rp_ability_framework_status old),
     rp_skill_catalog_revision := max (rp_skill_catalog_revision new) (rp_skill_catalog_revision old),
     rp_ability_catalog_revision := max (rp_ability_catalog_revision new) (rp_ability_catalog_revision old),
     rp_current_execution_id := or_previous (rp_current_execution_id new) (rp_current_execution_id old),
     rp_abilities := (case rp_abilities new of None \<Rightarrow> rp_abilities old | _ \<Rightarrow> rp_abilities new),
     rp_sensors := (case rp_sensors new of None \<Rightarrow> rp_sensors old | _ \<Rightarrow> rp_sensors new),
     rp_desired_skills := (case rp_desired_skills new of None \<Rightarrow> rp_desired_skills old | _ \<Rightarrow> rp_desired_skills new),
     rp_runtime := (case rp_runtime new of None \<Rightarrow> rp_runtime old | _ \<Rightarrow> rp_runtime new)\<rparr>"

definition beaten :: "robot_pilot \<Rightarrow> robot_pilot \<Rightarrow> time \<Rightarrow> robot_pilot" where
  "beaten old new now = new\<lparr>
     rp_revision := rp_revision old + (if pilot_status_changed old new then 1 else 0), rp_last_seen_at := now\<rparr>"

definition heartbeat :: "robot_env \<Rightarrow> string \<Rightarrow> robot_pilot \<Rightarrow> (sys, unit) prog" where
  "heartbeat R pilot update = at_now (\<lambda>now. reading (\<lambda>s. case session_of pilot s of
     None \<Rightarrow> err ErrPilotOffline
   | Some ss \<Rightarrow>
       let old = ss_pilot ss; merged = merge_heartbeat pilot old update; p = beaten old merged now in
       go (on_hub (update_session p)) (\<lambda>_.
       go (store (save_robot_pilot p)) (\<lambda>_.
       go (if pilot_status_changed old merged then
             go (publish_robot_event [] ''pilot'' pilot ''pilot.status'' (rp_revision p)) (\<lambda>_.
             publish_pilot_view p ''pilot.status'')
           else ok ()) (\<lambda>_.
       if \<not> robot_available old \<and> robot_available p then notify_robot_available R p else ok ())))))"

section \<open>Other events\<close>

definition skill_event_type :: "robot_pilot_skill \<Rightarrow> string" where
  "skill_event_type x = (if pk_status x = ''installed'' \<and> pk_enabled x then ''skill.enabled'' else ''skill.'' @ pk_status x)"

definition handle_skill_status :: "robot_env \<Rightarrow> string \<Rightarrow> any_map \<Rightarrow> (sys, unit) prog" where
  "handle_skill_status R pilot payload = (case pilot_skill_of_map R payload of
     None \<Rightarrow> err ErrJson
   | Some x0 \<Rightarrow> at_now (\<lambda>now.
       let x = x0\<lparr>pk_pilot_instance_id := pilot, pk_updated_at := now\<rparr> in
       go (store (save_robot_pilot_skill x)) (\<lambda>_.
       go (store (get_robot_pilot pilot)) (\<lambda>p0.
       let p = p0\<lparr>rp_skill_catalog_revision := rp_skill_catalog_revision p0 + 1, rp_revision := rp_revision p0 + 1,
                  rp_last_seen_at := now\<rparr> in
       go (store (save_robot_pilot p)) (\<lambda>_.
       go (on_hub (update_session p)) (\<lambda>_.
       go (publish_pilot_view p (skill_event_type x)) (\<lambda>_.
       go (if pk_status x = ''installed'' \<and> pk_enabled x then notify_robot_available R p else ok ()) (\<lambda>_.
       spawn_reconcile_skills (rp_robot_id p)))))))))"

definition handle_debug_status :: "robot_env \<Rightarrow> string \<Rightarrow> any_map \<Rightarrow> (sys, unit) prog" where
  "handle_debug_status R pilot payload = (case get_object payload ''debug'' of
     None \<Rightarrow> err (ErrText ''ability.debug.status has no debug'')
   | Some d \<Rightarrow> go (store (get_robot_pilot pilot)) (\<lambda>p.
       if string_value d ''robot_id'' \<noteq> [] \<and> string_value d ''robot_id'' \<noteq> rp_robot_id p
       then err (ErrText ''Ability debug of another Robot'')
       else if string_value d ''id'' = [] \<or> string_value d ''status'' = []
       then err (ErrText ''Ability debug without id or status'')
       else publish_device ''ability_debug'' (string_value d ''id'') (''ability_debug.'' @ string_value d ''status'')
         (if number_value R d ''revision'' \<le> 0 then 1 else number_value R d ''revision'')))"

definition handle_pilot_event :: "robot_env \<Rightarrow> string \<Rightarrow> string \<Rightarrow> int \<Rightarrow> any_map \<Rightarrow> (sys, unit) prog" where
  "handle_pilot_event R pilot typ sequence payload =
    (if typ = ''heartbeat'' then (case pilot_of_map R payload of None \<Rightarrow> err ErrJson | Some p \<Rightarrow> heartbeat R pilot p)
     else if typ = ''skill.status'' then handle_skill_status R pilot payload
     else if typ = ''artifact.announce'' then announce_artifact R pilot payload
     else if typ = ''ability.debug.status'' then handle_debug_status R pilot payload
     else handle_execution_event R pilot typ sequence payload)"

section \<open>Ability debugging\<close>

text \<open>\<open>stringList(v)\<close>\<close>

definition string_list :: "json option \<Rightarrow> string list" where
  "string_list v = (case v of
     Some (JArr xs) \<Rightarrow> List.map_filter (\<lambda>x. case x of JStr t \<Rightarrow> if t \<noteq> [] then Some t else None | _ \<Rightarrow> None) xs
   | _ \<Rightarrow> [])"

definition debug_task_allowed :: "robot_pilot \<Rightarrow> string \<Rightarrow> string \<Rightarrow> (sys, unit) prog" where
  "debug_task_allowed p instance_id task =
    (case find (\<lambda>a. string_value a ''instance_id'' = instance_id) (case rp_abilities p of Some xs \<Rightarrow> xs | None \<Rightarrow> []) of
       None \<Rightarrow> err ErrNotFound
     | Some a \<Rightarrow>
         if task \<in> set (string_list (map_of a ''tasks'')) \<and> task \<noteq> ''GetExecution'' \<and> task \<noteq> ''StopExecution''
         then ok () else err ErrAbilityTaskUnknown)"

definition start_ability_debug :: "robot_env \<Rightarrow> string \<Rightarrow> string \<Rightarrow> string \<Rightarrow> any_map \<Rightarrow> (sys, any_map) prog" where
  "start_ability_debug R robot instance_id task input =
     go (store (get_active_robot_pilot robot)) (\<lambda>p. reading (\<lambda>s.
     if \<not> is_online (rp_instance_id p) s then err ErrPilotOffline
     else if rp_current_execution_id p \<noteq> [] \<or> rp_robot_status p = ''busy'' \<or> rp_robot_status p = ''stopping''
     then err ErrRobotBusy
     else go (debug_task_allowed p instance_id task) (\<lambda>_.
     go (fresh ''debug-'') (\<lambda>i. at_now (\<lambda>now.
     let debug = [(''id'', JStr i), (''robot_id'', JStr robot), (''ability_instance_id'', JStr instance_id),
                  (''task_name'', JStr task), (''status'', JStr ''starting''), (''input'', JObj input),
                  (''revision'', JInt 1), (''started_at'', JInt (int now))] in
     go (send_command R (rp_instance_id p) ''ability.debug.start'' (PMap debug)) (\<lambda>_.
     go (publish_device ''ability_debug'' i ''ability_debug.started'' 1) (\<lambda>_. ok debug)))))))"

definition stop_ability_debug :: "robot_env \<Rightarrow> string \<Rightarrow> string \<Rightarrow> (sys, any_map) prog" where
  "stop_ability_debug R robot i =
     go (store (get_active_robot_pilot robot)) (\<lambda>p. reading (\<lambda>s.
     if \<not> is_online (rp_instance_id p) s then err ErrPilotOffline
     else go (send_command R (rp_instance_id p) ''ability.debug.stop'' (PMap [(''debug_id'', JStr i)])) (\<lambda>_.
       go (publish_device ''ability_debug'' i ''ability_debug.stopping'' 2) (\<lambda>_.
       ok [(''id'', JStr i), (''robot_id'', JStr robot), (''status'', JStr ''stopping''), (''revision'', JInt 2)]))))"

section \<open>The contract of a Skill\<close>

text \<open>\<open>compiles\<close> is \<open>contract.CompileObject\<close> without an error.\<close>

definition describe_skill_input :: "robot_env \<Rightarrow> (any_map \<Rightarrow> bool) \<Rightarrow> string \<Rightarrow> string \<Rightarrow> string \<Rightarrow> (sys, any_map) prog" where
  "describe_skill_input R compiles robot name version =
     go (store (get_active_robot_pilot robot)) (\<lambda>p. reading (\<lambda>s.
     if \<not> is_online (rp_instance_id p) s then err ErrPilotOffline
     else go (usable_skill p name version) (\<lambda>_.
     attempt (send_command_and_wait R (rp_instance_id p) ''skill.describe_input'' (name_version name version)) (\<lambda>r. case r of
       Inl e \<Rightarrow> err (Wrapped ''read installed Skill contract'' e)
     | Inr result \<Rightarrow>
         if map_of result ''name'' \<noteq> Some (JStr name) \<or> map_of result ''version'' \<noteq> Some (JStr version)
         then err (ErrText ''Skill contract identity mismatch'')
         else let schema = (case get_object result ''input_schema'' of Some m \<Rightarrow> m | None \<Rightarrow> []) in
           if compiles schema then ok schema else err (ErrText ''invalid installed Skill contract'')))))"

section \<open>The state of a robot\<close>

record state_observation =
  so_robot_id :: string
  so_observed_at :: "time option"
  so_generation :: int
  so_holding_object :: "string option"
  so_in_hold :: bool

record state_reading =
  sr_status :: string
  sr_source :: string
  sr_observed_at :: "time option"
  sr_generation :: "int option"
  sr_holding_object :: "string option"
  sr_in_hold :: "bool option"
  sr_reason :: string

text \<open>Ten seconds in nanoseconds.\<close>

definition robot_state_max_age :: time where
  "robot_state_max_age = 10000000000"

definition unavailable :: "string \<Rightarrow> string \<Rightarrow> state_reading" where
  "unavailable source reason = \<lparr>sr_status = ''unavailable'', sr_source = source, sr_observed_at = None,
     sr_generation = None, sr_holding_object = None, sr_in_hold = None, sr_reason = reason\<rparr>"

definition observed :: "string \<Rightarrow> state_observation \<Rightarrow> time \<Rightarrow> state_reading" where
  "observed source obs now =
     (let r = \<lparr>sr_status = ''observed'', sr_source = source, sr_observed_at = None, sr_generation = Some (so_generation obs),
            sr_holding_object = so_holding_object obs, sr_in_hold = Some (so_in_hold obs), sr_reason = []\<rparr> in
      case so_observed_at obs of
        None \<Rightarrow> r\<lparr>sr_status := ''stale'', sr_reason := ''observation_timestamp_missing''\<rparr>
      | Some t \<Rightarrow>
          if now > t + robot_state_max_age \<or> t > now + robot_state_max_age
          then r\<lparr>sr_observed_at := Some t, sr_status := ''stale'', sr_reason := ''observation_timestamp_out_of_range''\<rparr>
          else r\<lparr>sr_observed_at := Some t\<rparr>)"

text \<open>\<open>reader\<close>: the Runtime API, asked for the project, the scene and the robot.\<close>

definition read_robot_state ::
  "string \<Rightarrow> (string \<Rightarrow> string \<Rightarrow> string \<Rightarrow> error + state_observation) option \<Rightarrow> string \<Rightarrow> string \<Rightarrow> sys \<Rightarrow> state_reading" where
  "read_robot_state source reader project robot s = (case reader of
     None \<Rightarrow> unavailable ''unconfigured'' ''state_reader_not_configured''
   | Some f \<Rightarrow> (case latest_runtime robot (dbase s) of
       None \<Rightarrow> unavailable source ''runtime_state_unavailable''
     | Some x \<Rightarrow>
         if ri_scene_instance_id x = [] then unavailable source ''runtime_state_unavailable''
         else if project = [] \<or> (ri_project_id x \<noteq> [] \<and> ri_project_id x \<noteq> project)
           then unavailable source ''robot_outside_project''
         else (case f project (ri_scene_instance_id x) robot of
             Inl _ \<Rightarrow> unavailable source ''state_read_failed''
           | Inr obs \<Rightarrow> if so_robot_id obs \<noteq> robot then unavailable source ''state_robot_mismatch''
               else observed source obs (clock s))))"

section \<open>The gateway\<close>

datatype uplink =
    UpEvent string int any_map
  | UpHeartbeat any_map
  | UpReconcile "any_map list"
  | UpAck string bool string any_map
  | UpUnknown string

text \<open>\<open>register\<close> is the first message; then the gateway asks for a reconciliation.\<close>

definition gateway_register ::
  "robot_env \<Rightarrow> string \<Rightarrow> robot_pilot \<Rightarrow> robot_pilot_skill list \<Rightarrow> (sys, nat) prog" where
  "gateway_register R token p skills =
     go (validate_pilot_credential (trim_space token)) (\<lambda>pilot.
     if rp_instance_id p \<noteq> pilot then err (ErrText ''credential of another Pilot'')
     else go (connect R p (Some skills)) (\<lambda>serial. at_now (\<lambda>now.
       ignoring (send_command R pilot ''reconcile.request'' (PMap [(''requested_at'', JInt (int now))])) (ok serial))))"

text \<open>One message of an open connection; \<open>False\<close> ends the connection.\<close>

definition gateway_message :: "robot_env \<Rightarrow> string \<Rightarrow> uplink \<Rightarrow> (sys, bool) prog" where
  "gateway_message R pilot m = (case m of
     UpEvent typ sequence payload \<Rightarrow> ignoring (handle_pilot_event R pilot typ sequence payload) (ok True)
   | UpHeartbeat payload \<Rightarrow> attempt (handle_pilot_event R pilot ''heartbeat'' 0 payload) (\<lambda>r. case r of
       Inr _ \<Rightarrow> ok True | Inl _ \<Rightarrow> ok False)
   | UpReconcile remote \<Rightarrow> attempt (reconcile R pilot remote) (\<lambda>r. case r of
       Inl _ \<Rightarrow> ok False
     | Inr rows \<Rightarrow> ignoring (send_command R pilot ''reconcile.result''
         (PMap [(''executions'', JArr (map (\<lambda>e. JObj [(''id'', JStr (e_id e)), (''status'', JStr (e_status e))]) rows))])) (ok True))
   | UpAck i accepted message result \<Rightarrow> ignoring (handle_command_ack R pilot i accepted message result) (ok True)
   | UpUnknown typ \<Rightarrow> ok False)"

text \<open>The goroutines the service starts.\<close>

definition run_robot_job :: "robot_env \<Rightarrow> robot_job \<Rightarrow> (sys, unit) prog" where
  "run_robot_job R j = (case j of
     JobAvailable robot \<Rightarrow> (case ro_availability R of Some f \<Rightarrow> f robot | None \<Rightarrow> ok ())
   | JobReconcileSkills robot \<Rightarrow> quietly (reconcile_desired_skills R robot))"

end
