(* ===== verification/RobotDevices.thy ===== *)
theory RobotDevices
  imports RobotFleet
begin

text \<open>
  The device page (\<open>internal/robot/devices.go\<close>): the view of one robot, the snapshot of all robots
  and the events of the Runtime.  A view is a record with the keys of the Go map the page reads.
  The section at the end shows what the page promises: a robot without a connection is shown as
  offline, whatever its last report said, and the snapshot has one row for every robot.
\<close>

section \<open>Views\<close>

record device_view =
  dv_robot_id :: string
  dv_display_name :: string
  dv_model :: string
  dv_backend :: string
  dv_environment :: string
  dv_status :: string
  dv_revision :: int
  dv_pilot_instance_id :: string
  dv_pilot_status :: string
  dv_framework_status :: string
  dv_healthy_instances :: nat
  dv_total_instances :: nat
  dv_installed_skills :: "robot_pilot_skill list"
  dv_desired_skills :: "robot_desired_skill list"
  dv_abilities :: "any_map list"
  dv_runtime :: "runtime_instance option"
  dv_current_execution_id :: string
  dv_current_run :: "run_session option"
  dv_project_id :: "string option"
  dv_task_id :: "string option"
  dv_current_stage :: "string option"
  dv_progress :: "json option"

definition cached_ability :: "any_map \<Rightarrow> any_map" where
  "cached_ability a = put_key ''healthy'' (JBool False) (put_key ''state'' (JStr ''Unknown'')
     (put_key ''health'' (JStr ''unknown'') (put_key ''status'' (JStr ''offline'') a)))"

definition ability_healthy :: "any_map \<Rightarrow> bool" where
  "ability_healthy a = (case get_bool a ''healthy'' of
     Some b \<Rightarrow> b
   | None \<Rightarrow> get_string a ''health'' = Some ''healthy'' \<or> get_string a ''state'' = Some ''Running'')"

definition shown_pilot :: "bool \<Rightarrow> robot_pilot \<Rightarrow> robot_pilot" where
  "shown_pilot live p = (if live then p else
     p\<lparr>rp_status := ''offline'', rp_robot_status := ''offline'', rp_ability_framework_status := ''offline''\<rparr>)"

definition shown_abilities :: "bool \<Rightarrow> robot_pilot \<Rightarrow> any_map list" where
  "shown_abilities live p = (let xs = (case rp_abilities p of Some xs \<Rightarrow> xs | None \<Rightarrow> []) in
     if live then xs else map cached_ability xs)"

definition shown_status :: "robot_pilot \<Rightarrow> string" where
  "shown_status p =
    (if rp_robot_status p \<noteq> [] then rp_robot_status p
     else if rp_status p = ''online'' then ''idle'' else ''offline'')"

definition current_execution :: "robot_pilot \<Rightarrow> robot_execution list \<Rightarrow> robot_execution option" where
  "current_execution p es = find (\<lambda>e. e_id e = rp_current_execution_id p \<or> active_robot_status (e_status e)) es"

definition ok_rows :: "(db, 'a) prog \<Rightarrow> db \<Rightarrow> 'a option" where
  "ok_rows m s = (case fst (m s) of Inr x \<Rightarrow> Some x | Inl _ \<Rightarrow> None)"

definition device_view_of :: "robot_pilot \<Rightarrow> sys \<Rightarrow> device_view" where
  "device_view_of p0 s =
     (let d = dbase s;
          live = is_online (rp_instance_id p0) s;
          p1 = (case latest_runtime (rp_robot_id p0) d of Some x \<Rightarrow> p0\<lparr>rp_runtime := Some x\<rparr> | None \<Rightarrow> p0);
          p = shown_pilot live p1;
          abilities = shown_abilities live p1;
          current = (case ok_rows (list_robot_executions [] (rp_robot_id p0) 20) d of
            Some es \<Rightarrow> current_execution p es | None \<Rightarrow> None);
          run = ok_rows (get_robot_conversation_run (rp_robot_id p)) d
      in \<lparr>dv_robot_id = rp_robot_id p, dv_display_name = rp_display_name p, dv_model = rp_robot_model p,
          dv_backend = rp_backend p, dv_environment = (if rp_backend p \<noteq> ''real'' then ''simulation'' else ''real''),
          dv_status = (if run \<noteq> None \<and> live \<and> shown_status p = ''idle'' then ''busy'' else shown_status p),
          dv_revision = rp_revision p, dv_pilot_instance_id = rp_instance_id p, dv_pilot_status = rp_status p,
          dv_framework_status = rp_ability_framework_status p,
          dv_healthy_instances = (if live then length (filter ability_healthy abilities) else 0),
          dv_total_instances = length abilities, dv_installed_skills = skills_of (rp_instance_id p) d,
          dv_desired_skills = desired_of (rp_robot_id p) d, dv_abilities = abilities, dv_runtime = rp_runtime p,
          dv_current_execution_id = rp_current_execution_id p, dv_current_run = run,
          dv_project_id = (case current of Some e \<Rightarrow> Some (e_project_id e) | None \<Rightarrow> map_option r_project_id run),
          dv_task_id = map_option e_task_id current, dv_current_stage = map_option e_stage current,
          dv_progress = (case current of Some e \<Rightarrow> e_progress e | None \<Rightarrow> None)\<rparr>)"

definition runtime_text :: "runtime_state \<Rightarrow> string" where
  "runtime_text st = (case st of
     RtStarting \<Rightarrow> ''starting'' | RtReady \<Rightarrow> ''ready'' | RtDegraded \<Rightarrow> ''degraded'' | RtStopping \<Rightarrow> ''stopping''
   | RtStopped \<Rightarrow> ''stopped'' | RtFailed \<Rightarrow> ''failed'' | RtInterrupted \<Rightarrow> ''interrupted'' | RtOther t \<Rightarrow> t)"

definition runtime_device_view :: "runtime_instance \<Rightarrow> device_view" where
  "runtime_device_view r =
     \<lparr>dv_robot_id = ri_robot_id r, dv_display_name = ri_robot_id r, dv_model = ri_robot_model r,
      dv_backend = ri_backend r, dv_environment = (if ri_kind r = [] then ''unknown'' else ri_kind r),
      dv_status = runtime_text (ri_status r), dv_revision = ri_revision r,
      dv_pilot_instance_id = ri_pilot_instance_id r,
      dv_pilot_status = (if ri_status r \<in> {RtFailed, RtStopped, RtInterrupted} then ''offline'' else ''connecting''),
      dv_framework_status = runtime_text (ri_status r), dv_healthy_instances = 0, dv_total_instances = 0,
      dv_installed_skills = [], dv_desired_skills = [], dv_abilities = [], dv_runtime = Some r,
      dv_current_execution_id = [], dv_current_run = None, dv_project_id = None, dv_task_id = None,
      dv_current_stage = None, dv_progress = None\<rparr>"

definition device :: "string \<Rightarrow> (sys, device_view) prog" where
  "device robot = attempt (store (get_active_robot_pilot robot)) (\<lambda>r. case r of
     Inr p \<Rightarrow> reading (\<lambda>s. ok (device_view_of p s))
   | Inl e \<Rightarrow> attempt (store (get_latest_runtime_by_robot robot)) (\<lambda>r. case r of
       Inr x \<Rightarrow> ok (runtime_device_view x)
     | Inl f \<Rightarrow> if \<not> errors_is f ErrInstanceNotFound then err f else err e))"

section \<open>The snapshot\<close>

text \<open>The first Runtime instance of each robot, the list being ordered by its last change.\<close>

fun latest_runtimes :: "runtime_instance list \<Rightarrow> (string \<times> runtime_instance) list" where
  "latest_runtimes [] = []"
| "latest_runtimes (r # rs) =
     (ri_robot_id r, r) # filter (\<lambda>(i, x). i \<noteq> ri_robot_id r) (latest_runtimes rs)"

text \<open>The Pilot of each robot that was seen last; of two seen at once the first.\<close>

definition add_pilot :: "(string \<times> robot_pilot) list \<Rightarrow> robot_pilot \<Rightarrow> (string \<times> robot_pilot) list" where
  "add_pilot m p = (case map_of m (rp_robot_id p) of
     None \<Rightarrow> put_key (rp_robot_id p) p m
   | Some current \<Rightarrow> if rp_last_seen_at current < rp_last_seen_at p then put_key (rp_robot_id p) p m else m)"

definition latest_pilots :: "robot_pilot list \<Rightarrow> (string \<times> robot_pilot) list" where
  "latest_pilots ps = foldl add_pilot [] ps"

definition robot_views :: "sys \<Rightarrow> device_view list" where
  "robot_views s =
     (let runtimes = (case ok_rows list_runtime_instances (dbase s) of Some rs \<Rightarrow> latest_runtimes rs | None \<Rightarrow> []);
          pilots = (case ok_rows list_robot_pilots (dbase s) of Some ps \<Rightarrow> latest_pilots ps | None \<Rightarrow> [])
      in sort_key dv_robot_id
        (map (\<lambda>(i, p). device_view_of (case map_of runtimes i of Some x \<Rightarrow> p\<lparr>rp_runtime := Some x\<rparr> | None \<Rightarrow> p) s) pilots @
         map (\<lambda>(i, r). runtime_device_view r) (filter (\<lambda>(i, r). map_of pilots i = None) runtimes)))"

record device_snapshot =
  sn_event_sequence :: int
  sn_robots :: "device_view list"
  sn_skill_packages :: "robot_skill_package list"
  sn_executions :: "robot_execution list"

definition device_snapshot_of :: "(sys, device_snapshot) prog" where
  "device_snapshot_of =
     go (store list_robot_skill_packages) (\<lambda>packages.
     go (store (list_robot_executions [] [] 200)) (\<lambda>es. reading (\<lambda>s.
     ok \<lparr>sn_event_sequence = hb_sequence (hub s), sn_robots = robot_views s, sn_skill_packages = packages,
         sn_executions = es\<rparr>)))"

definition publish_runtime_event :: "string \<Rightarrow> string \<Rightarrow> runtime_instance \<Rightarrow> (sys, unit) prog" where
  "publish_runtime_event typ project r =
     go (publish_device ''robot_runtime_instance'' (ri_id r) typ (ri_revision r)) (\<lambda>_.
     if project \<noteq> [] then publish_robot_event project ''robot_runtime_instance'' (ri_id r) typ (ri_revision r) else ok ())"

section \<open>What the page promises\<close>

lemma cached_ability_unhealthy: "\<not> ability_healthy (cached_ability a)"
  by (simp add: ability_healthy_def cached_ability_def get_bool_def)

text \<open>A robot whose Pilot has no connection.\<close>

lemma offline_view:
  assumes "\<not> is_online (rp_instance_id p) s"
  shows "dv_status (device_view_of p s) = ''offline''" "dv_pilot_status (device_view_of p s) = ''offline''"
    "dv_framework_status (device_view_of p s) = ''offline''" "dv_healthy_instances (device_view_of p s) = 0"
    "filter ability_healthy (dv_abilities (device_view_of p s)) = []"
    "length (dv_abilities (device_view_of p s)) = (case rp_abilities p of Some xs \<Rightarrow> length xs | None \<Rightarrow> 0)"
  using assms
  by (auto simp: device_view_of_def Let_def shown_pilot_def shown_status_def shown_abilities_def
      filter_empty_conv cached_ability_unhealthy split: option.splits)

lemma latest_runtimes_keys:
  "fst ` set (latest_runtimes rs) = ri_robot_id ` set rs" "distinct (map fst (latest_runtimes rs))"
  "\<forall>(i, r) \<in> set (latest_runtimes rs). i = ri_robot_id r \<and> r \<in> set rs"
proof (induction rs)
  case (Cons r rs)
  { case 1 from Cons(1) show ?case by (auto simp: image_iff) force+ }
  { case 2 from Cons(2) show ?case by (auto simp: distinct_map_filter) }
  { case 3 from Cons(3) show ?case by auto }
qed auto

lemma latest_pilots_keys:
  "fst ` set (latest_pilots ps) = rp_robot_id ` set ps" "distinct (map fst (latest_pilots ps))"
  "\<forall>(i, p) \<in> set (latest_pilots ps). i = rp_robot_id p \<and> p \<in> set ps"
proof -
  have step: "fst ` set (add_pilot m p) = insert (rp_robot_id p) (fst ` set m) \<and> distinct (map fst (add_pilot m p)) \<and>
      (\<forall>(i, x) \<in> set (add_pilot m p). i = rp_robot_id x \<and> (x = p \<or> (i, x) \<in> set m))"
    if "distinct (map fst m)" "\<forall>(i, x) \<in> set m. i = rp_robot_id x" for m p
  proof -
    have "fst ` set (put_key (rp_robot_id p) p m) = insert (rp_robot_id p) (fst ` set m)"
      unfolding put_key_def by (subst set_map[symmetric], subst map_key_upsert) auto
    moreover have "set (put_key (rp_robot_id p) p m) \<subseteq> insert (rp_robot_id p, p) (set m)"
      unfolding put_key_def by (rule set_upsert)
    moreover have "rp_robot_id p \<in> fst ` set m" if "map_of m (rp_robot_id p) = Some x" for x
      using that by (force dest: map_of_SomeD)
    ultimately show ?thesis
      using that by (auto simp: add_pilot_def distinct_put_key split: option.splits)
  qed
  have main: "fst ` set (foldl add_pilot m ps) = fst ` set m \<union> rp_robot_id ` set ps \<and> distinct (map fst (foldl add_pilot m ps)) \<and>
      (\<forall>(i, x) \<in> set (foldl add_pilot m ps). i = rp_robot_id x \<and> (x \<in> set ps \<or> (i, x) \<in> set m))"
    if "distinct (map fst m)" "\<forall>(i, x) \<in> set m. i = rp_robot_id x" for m
    using that
  proof (induction ps arbitrary: m)
    case (Cons p ps)
    note st = step[OF Cons.prems, of p]
    have d: "distinct (map fst (add_pilot m p))" by (rule st[THEN conjunct2, THEN conjunct1])
    have k: "\<forall>(i, x) \<in> set (add_pilot m p). i = rp_robot_id x" using st[THEN conjunct2, THEN conjunct2] by auto
    note IH = Cons.IH[OF d k]
    have "fst ` set (foldl add_pilot m (p # ps)) = fst ` set m \<union> rp_robot_id ` set (p # ps)"
      using IH step[OF Cons.prems, of p] by auto
    moreover have "distinct (map fst (foldl add_pilot m (p # ps)))" using IH by simp
    moreover have "i = rp_robot_id x \<and> (x \<in> set (p # ps) \<or> (i, x) \<in> set m)" if "(i, x) \<in> set (foldl add_pilot m (p # ps))" for i x
    proof -
      have "(i, x) \<in> set (foldl add_pilot (add_pilot m p) ps)" using that by simp
      then have "i = rp_robot_id x \<and> (x \<in> set ps \<or> (i, x) \<in> set (add_pilot m p))" using IH by blast
      moreover have "i = rp_robot_id x \<and> (x = p \<or> (i, x) \<in> set m)" if "(i, x) \<in> set (add_pilot m p)"
        using bspec[OF st[THEN conjunct2, THEN conjunct2] that] by auto
      ultimately show ?thesis by auto
    qed
    ultimately show ?case by blast
  qed auto
  show "fst ` set (latest_pilots ps) = rp_robot_id ` set ps" "distinct (map fst (latest_pilots ps))"
    "\<forall>(i, p) \<in> set (latest_pilots ps). i = rp_robot_id p \<and> p \<in> set ps"
    using main[of "[]"] by (simp_all add: latest_pilots_def)
qed

lemma device_view_robot [simp]: "dv_robot_id (device_view_of p s) = rp_robot_id p"
  by (simp add: device_view_of_def Let_def shown_pilot_def split: option.splits)

lemma map_sort_key:
  assumes "distinct (map f xs)"
  shows "map f (sort_key f xs) = sorted_list_of_set (set (map f xs))"
proof (rule sorted_distinct_set_unique)
  show "distinct (map f (sort_key f xs))" using assms by (simp add: distinct_map)
qed simp_all

text \<open>One row for every robot that has a Pilot or a Runtime instance.\<close>

lemma one_view_per_robot:
  "map dv_robot_id (robot_views s) = sorted_list_of_set
     (rp_robot_id ` set (robot_pilots (dbase s)) \<union> ri_robot_id ` set (runtime_instances (dbase s)))"
proof -
  define rts where "rts = latest_runtimes (sort_key (\<lambda>r. - int (ri_updated_at r)) (sort_key ri_id (runtime_instances (dbase s))))"
  define ps where "ps = latest_pilots (sort_key (\<lambda>p. (rp_robot_id p, rp_instance_id p)) (robot_pilots (dbase s)))"
  define rest where "rest = filter (\<lambda>(i, r). map_of ps i = None) rts"
  have rts: "fst ` set rts = ri_robot_id ` set (runtime_instances (dbase s))" "distinct (map fst rts)"
    "\<forall>(i, r) \<in> set rts. i = ri_robot_id r"
    unfolding rts_def using latest_runtimes_keys by fastforce+
  have ps: "fst ` set ps = rp_robot_id ` set (robot_pilots (dbase s))" "distinct (map fst ps)"
    "\<forall>(i, p) \<in> set ps. i = rp_robot_id p"
    unfolding ps_def using latest_pilots_keys by fastforce+
  define vs where "vs = map (\<lambda>(i, p). device_view_of (case map_of rts i of Some x \<Rightarrow> p\<lparr>rp_runtime := Some x\<rparr> | None \<Rightarrow> p) s) ps @
     map (\<lambda>(i, r). runtime_device_view r) rest"
  have views: "robot_views s = sort_key dv_robot_id vs"
    by (simp add: robot_views_def ok_rows_def list_runtime_instances_def list_robot_pilots_def rts_def ps_def rest_def
        vs_def Let_def)
  have keys: "map dv_robot_id vs = map fst ps @ map fst rest"
    using ps(3) rts(3) by (auto simp: vs_def rest_def runtime_device_view_def split: option.splits)
  have "fst ` set ps \<union> fst ` set rest = fst ` set ps \<union> fst ` set rts"
    by (force simp: rest_def map_of_eq_None_iff)
  moreover have "fst ` set ps \<inter> fst ` set rest = {}"
    by (force simp: rest_def map_of_eq_None_iff)
  then have "distinct (map fst ps @ map fst rest)"
    using ps(2) rts(2) by (simp add: rest_def distinct_map_filter)
  then have "map dv_robot_id (robot_views s) = sorted_list_of_set (set (map fst ps @ map fst rest))"
    unfolding views keys[symmetric] by (rule map_sort_key)
  ultimately show ?thesis by (simp add: ps(1) rts(1))
qed

end
