(* ===== verification/RuntimeOrch.thy ===== *)
theory RuntimeOrch
  imports RobotDevices
begin

text \<open>
  The orchestrator of robot Runtimes (\<open>internal/robotruntime/orchestrator.go\<close>, the catalog of
  \<open>catalog.go\<close>): which Bundle runs a robot, and the life of a Runtime instance from its start to
  a stop that is only believed on evidence.  The launcher, which starts and stops processes, is a
  port; the files of the Bundle store and the data directory are outside the model.
\<close>

section \<open>Bundles\<close>

record match_key =
  mk_robot_model :: string
  mk_backend :: string
  mk_backend_profile :: string

record robot_bundle =
  bu_name :: string
  bu_version :: string
  bu_path :: string
  bu_match :: match_key
  bu_readiness_timeout :: time

definition valid_match :: "match_key \<Rightarrow> bool" where
  "valid_match m \<longleftrightarrow> trim_space (mk_robot_model m) \<noteq> [] \<and> trim_space (mk_backend m) \<noteq> [] \<and>
     trim_space (mk_backend_profile m) \<noteq> []"

definition register_bundle :: "robot_bundle \<Rightarrow> robot_bundle list \<Rightarrow> error + robot_bundle list" where
  "register_bundle b bs =
    (if trim_space (bu_name b) = [] \<or> trim_space (bu_version b) = [] then Inl (ErrText ''Runtime Bundle needs name and version'')
     else if \<not> valid_match (bu_match b) then Inl (ErrText ''Runtime Bundle needs robot_model, backend and backend_profile'')
     else if \<exists>x \<in> set bs. bu_name x = bu_name b \<and> bu_version x = bu_version b \<and> bu_match x = bu_match b
       then Inl (ErrText (''Runtime Bundle '' @ bu_name b @ ''@'' @ bu_version b @ '' is registered''))
     else Inr (bs @ [b]))"

fun register_all :: "robot_bundle list \<Rightarrow> robot_bundle list \<Rightarrow> error + robot_bundle list" where
  "register_all [] bs = Inr bs"
| "register_all (b # rest) bs = (case register_bundle b bs of Inl e \<Rightarrow> Inl e | Inr bs' \<Rightarrow> register_all rest bs')"

definition new_catalog :: "robot_bundle list \<Rightarrow> error + robot_bundle list" where
  "new_catalog bs = register_all bs []"

text \<open>
  The index of installed Bundles: the Bundles found in the directory of \<open>name\<close> replace those of
  that name.  The pairs are what \<open>loadCatalog\<close> found for each entry of the index.
\<close>

fun apply_index :: "(string \<times> robot_bundle list) list \<Rightarrow> robot_bundle list \<Rightarrow> error + robot_bundle list" where
  "apply_index [] bs = Inr bs"
| "apply_index ((name, found) # rest) bs =
    (if \<exists>b \<in> set found. bu_name b \<noteq> name then Inl (ErrText ''index does not match the name of the Bundle'')
     else apply_index rest (filter (\<lambda>b. bu_name b \<noteq> name) bs @ found))"

definition resolve_bundle :: "match_key \<Rightarrow> robot_bundle list \<Rightarrow> error + robot_bundle" where
  "resolve_bundle m bs =
    (if \<not> valid_match m then Inl (ErrText ''Runtime Bundle needs robot_model, backend and backend_profile'')
     else case filter (\<lambda>b. bu_match b = m) bs of
       [] \<Rightarrow> Inl (Detailed ErrBundleNotFound (mk_robot_model m))
     | [b] \<Rightarrow> Inr b
     | _ \<Rightarrow> Inl (Detailed ErrBundleAmbiguous (mk_robot_model m)))"

section \<open>Instances\<close>

record robot_descriptor =
  rd_robot_id :: string
  rd_scene_instance_id :: string
  rd_model :: string
  rd_backend :: string
  rd_kind :: string
  rd_backend_profile :: string

record start_request =
  sq_instance_id :: string
  sq_pilot_instance_id :: string
  sq_descriptor :: robot_descriptor
  sq_project_id :: string

text \<open>
  The launcher returns the endpoint of the AbilityFramework; a stop returns whether it is
  confirmed.  Other goroutines may run while the launcher works and while a lock is awaited.
\<close>

record launcher =
  la_start :: "runtime_instance \<Rightarrow> robot_bundle \<Rightarrow> robot_descriptor \<Rightarrow> (sys, string) prog"
  la_stop :: "runtime_instance \<Rightarrow> string \<Rightarrow> (sys, bool) prog"
  la_reclaim :: "(runtime_instance \<Rightarrow> string \<Rightarrow> (sys, bool) prog) option"

record orch_env =
  oe_bundles :: "robot_bundle list"
  oe_launcher :: launcher
  oe_await :: "string \<Rightarrow> (sys, unit) prog"
  oe_data_root :: string
  oe_port_first :: int
  oe_port_last :: int

definition descriptor_key :: "robot_descriptor \<Rightarrow> match_key" where
  "descriptor_key d = \<lparr>mk_robot_model = rd_model d, mk_backend = rd_backend d, mk_backend_profile = rd_backend_profile d\<rparr>"

text \<open>\<open>safePathPart\<close>\<close>

fun replace_dots :: "string \<Rightarrow> string" where
  "replace_dots (c # d # cs) =
    (if c = CHR ''.'' \<and> d = CHR ''.'' then CHR ''_'' # replace_dots cs else c # replace_dots (d # cs))"
| "replace_dots cs = cs"

definition safe_path_part :: "string \<Rightarrow> string" where
  "safe_path_part t = (let u = replace_dots (map (\<lambda>c. if c = CHR ''/'' then CHR ''_'' else c) (trim_space t)) in
     if u = [] then ''_'' else u)"

definition save_and_publish :: "runtime_instance \<Rightarrow> string \<Rightarrow> (sys, unit) prog" where
  "save_and_publish r typ =
     go (store (save_runtime_instance r)) (\<lambda>_. publish_runtime_event typ (ri_project_id r) r)"

definition bump_runtime :: "time \<Rightarrow> runtime_instance \<Rightarrow> runtime_instance" where
  "bump_runtime now r = r\<lparr>ri_revision := ri_revision r + 1, ri_updated_at := now\<rparr>"

definition take_runtime_lock :: "string \<Rightarrow> hub \<Rightarrow> hub" where
  "take_runtime_lock robot h = h\<lparr>hb_runtime_locks := robot # hb_runtime_locks h\<rparr>"

definition free_runtime_lock :: "string \<Rightarrow> hub \<Rightarrow> hub" where
  "free_runtime_lock robot h = h\<lparr>hb_runtime_locks := removeAll robot (hb_runtime_locks h)\<rparr>"

definition locking_robot :: "orch_env \<Rightarrow> string \<Rightarrow> (sys, 'a) prog \<Rightarrow> (sys, 'a) prog" where
  "locking_robot E robot m = reading (\<lambda>s.
     go (if robot \<in> set (hb_runtime_locks (hub s)) then oe_await E robot else ok ()) (\<lambda>_.
     go (on_hub (take_runtime_lock robot)) (\<lambda>_.
     attempt m (\<lambda>r. go (on_hub (free_runtime_lock robot)) (\<lambda>_. case r of
       Inr x \<Rightarrow> ok x
     | Inl e \<Rightarrow> err e)))))"

section \<open>Start\<close>

text \<open>\<open>err == nil && evidence.Confirmed\<close>\<close>

definition confirmed :: "error + bool \<Rightarrow> bool" where
  "confirmed r \<longleftrightarrow> r = Inr True"

definition give_up_start :: "runtime_instance \<Rightarrow> error \<Rightarrow> bool \<Rightarrow> (sys, runtime_instance) prog" where
  "give_up_start r cause sure = at_now (\<lambda>now.
     let f = bump_runtime now (r\<lparr>ri_status := (if sure then RtFailed else RtInterrupted), ri_failure_reason := error_text cause\<rparr>) in
     ignoring (save_and_publish f (''robot.runtime.'' @ runtime_text (ri_status f))) (err cause))"

definition fail_start :: "orch_env \<Rightarrow> runtime_instance \<Rightarrow> error \<Rightarrow> bool \<Rightarrow> (sys, runtime_instance) prog" where
  "fail_start E r cause may_have_started =
     attempt (if may_have_started then la_stop (oe_launcher E) r ''runtime startup failed'' else ok True) (\<lambda>v.
     if confirmed v \<and> ri_port r > 0 then
       attempt (store (release_port (ri_id r))) (\<lambda>w. give_up_start r cause (w = Inr ()))
     else give_up_start r cause (confirmed v))"

definition new_runtime :: "start_request \<Rightarrow> string \<Rightarrow> time \<Rightarrow> runtime_instance" where
  "new_runtime q i now = (let d = sq_descriptor q in
     \<lparr>ri_id = i, ri_pilot_instance_id = sq_pilot_instance_id q, ri_robot_id = rd_robot_id d,
      ri_scene_instance_id = rd_scene_instance_id d, ri_bundle_name = [], ri_bundle_version = [],
      ri_robot_model = rd_model d, ri_backend = rd_backend d, ri_kind = rd_kind d,
      ri_backend_profile = rd_backend_profile d, ri_status = RtStarting, ri_failure_reason = [], ri_port = 0,
      ri_endpoint = [], ri_data_directory = [], ri_project_id = sq_project_id q, ri_revision = 1,
      ri_created_at = now, ri_updated_at = now\<rparr>)"

text \<open>The external processes are up; a row that cannot be saved leaves them interrupted.\<close>

definition finish_start :: "runtime_instance \<Rightarrow> string \<Rightarrow> (sys, runtime_instance) prog" where
  "finish_start r endpoint = at_now (\<lambda>now.
     let f = bump_runtime now (r\<lparr>ri_endpoint := endpoint, ri_status := RtReady, ri_failure_reason := []\<rparr>) in
     attempt (save_and_publish f ''robot.runtime.ready'') (\<lambda>v. case v of
       Inr _ \<Rightarrow> ok f
     | Inl e \<Rightarrow> at_now (\<lambda>later. ignoring (store (save_runtime_instance
         (bump_runtime later (f\<lparr>ri_status := RtInterrupted, ri_failure_reason := error_text e\<rparr>)))) (err e))))"

definition launch_runtime :: "orch_env \<Rightarrow> start_request \<Rightarrow> robot_bundle \<Rightarrow> runtime_instance \<Rightarrow> (sys, runtime_instance) prog" where
  "launch_runtime E q b r =
     go (save_and_publish r ''robot.runtime.starting'') (\<lambda>_.
     attempt (store (acquire_port (ri_id r) (oe_port_first E) (oe_port_last E))) (\<lambda>v. case v of
       Inl e \<Rightarrow> fail_start E r e False
     | Inr port \<Rightarrow> at_now (\<lambda>now. let f = bump_runtime now (r\<lparr>ri_port := port\<rparr>) in
       attempt (store (save_runtime_instance f)) (\<lambda>v. case v of
         Inl e \<Rightarrow> fail_start E f e False
       | Inr _ \<Rightarrow>
       attempt (la_start (oe_launcher E) f b (sq_descriptor q)) (\<lambda>v. case v of
         Inl e \<Rightarrow> fail_start E f (Wrapped ''start the Ability Runtime'' e) True
       | Inr endpoint \<Rightarrow>
           if trim_space endpoint = [] then fail_start E f (ErrText ''Ability Runtime without endpoint'') True
           else finish_start f endpoint)))))"

definition start_instance :: "orch_env \<Rightarrow> start_request \<Rightarrow> (sys, runtime_instance) prog" where
  "start_instance E q =
     go (if trim_space (sq_instance_id q) = [] then fresh ''runtime-'' else ok (trim_space (sq_instance_id q))) (\<lambda>i. at_now (\<lambda>now.
     case resolve_bundle (descriptor_key (sq_descriptor q)) (oe_bundles E) of
       Inl e \<Rightarrow> attempt (save_and_publish ((new_runtime q i now)\<lparr>ri_status := RtFailed, ri_failure_reason := error_text e\<rparr>)
           ''robot.runtime.failed'') (\<lambda>v. case v of Inr _ \<Rightarrow> err e | Inl f \<Rightarrow> err (Joined e f))
     | Inr b \<Rightarrow> launch_runtime E q b ((new_runtime q i now)\<lparr>ri_bundle_name := bu_name b, ri_bundle_version := bu_version b,
         ri_data_directory := oe_data_root E @ ''/robots/'' @ safe_path_part (rd_robot_id (sq_descriptor q)) @ ''/'' @
           safe_path_part i\<rparr>)))"

definition runtime_start :: "orch_env \<Rightarrow> start_request \<Rightarrow> (sys, runtime_instance) prog" where
  "runtime_start E q = (let robot = rd_robot_id (sq_descriptor q) in
     if trim_space (sq_pilot_instance_id q) = [] \<or> trim_space robot = []
     then err (ErrText ''starting a Runtime needs pilot_instance_id and robot_id'')
     else locking_robot E robot (attempt (store (get_active_runtime_by_robot robot)) (\<lambda>v. case v of
       Inr x \<Rightarrow> if active_runtime (ri_status x) then err (Detailed ErrRobotAlreadyInUse (ri_id x)) else start_instance E q
     | Inl e \<Rightarrow> if \<not> errors_is e ErrInstanceNotFound then err e else start_instance E q)))"

section \<open>Stop\<close>

definition interrupt_stop :: "runtime_instance \<Rightarrow> string \<Rightarrow> error option \<Rightarrow> (sys, runtime_instance) prog" where
  "interrupt_stop r step cause = at_now (\<lambda>now.
     let f = bump_runtime now (r\<lparr>ri_status := RtInterrupted, ri_failure_reason :=
       step @ '': '' @ (case cause of Some e \<Rightarrow> error_text e | None \<Rightarrow> ''no evidence of a stop'')\<rparr>) in
     ignoring (save_and_publish f ''robot.runtime.interrupted'')
       (err (case cause of Some e \<Rightarrow> e | None \<Rightarrow> ErrText (step @ '': no evidence of a stop''))))"

definition cause_of :: "error + 'a \<Rightarrow> error option" where
  "cause_of r = (case r of Inl e \<Rightarrow> Some e | Inr _ \<Rightarrow> None)"

text \<open>After a confirmed stop: the port is released, then the instance is stopped.\<close>

definition finish_stop :: "runtime_instance \<Rightarrow> (sys, runtime_instance) prog" where
  "finish_stop r =
     attempt (store (release_port (ri_id r))) (\<lambda>v. case v of
       Inl e \<Rightarrow> interrupt_stop r ''port_release'' (Some e)
     | Inr _ \<Rightarrow> at_now (\<lambda>now. let f = bump_runtime now (r\<lparr>ri_status := RtStopped\<rparr>) in
         go (save_and_publish f ''robot.runtime.stopped'') (\<lambda>_. ok f)))"

definition stop_instance :: "orch_env \<Rightarrow> runtime_instance \<Rightarrow> string \<Rightarrow> (sys, runtime_instance) prog" where
  "stop_instance E r reason =
    (if ri_status r = RtStopped \<or> ri_status r = RtFailed then ok r
     else at_now (\<lambda>now. let f = bump_runtime now (r\<lparr>ri_status := RtStopping, ri_failure_reason := []\<rparr>) in
       go (save_and_publish f ''robot.runtime.stopping'') (\<lambda>_.
       attempt (la_stop (oe_launcher E) f reason) (\<lambda>v.
       if \<not> confirmed v then interrupt_stop f ''robot_instance'' (cause_of v) else finish_stop f))))"

definition on_instance :: "orch_env \<Rightarrow> string \<Rightarrow> (runtime_instance \<Rightarrow> (sys, 'a) prog) \<Rightarrow> (sys, 'a) prog" where
  "on_instance E i k =
     go (store (get_runtime_instance i)) (\<lambda>r0.
     locking_robot E (ri_robot_id r0) (go (store (get_runtime_instance i)) k))"

definition runtime_stop :: "orch_env \<Rightarrow> string \<Rightarrow> string \<Rightarrow> (sys, runtime_instance) prog" where
  "runtime_stop E i reason = on_instance E i (\<lambda>r. stop_instance E r reason)"

definition mark_degraded :: "orch_env \<Rightarrow> string \<Rightarrow> string \<Rightarrow> (sys, runtime_instance) prog" where
  "mark_degraded E i reason = on_instance E i (\<lambda>r.
     if ri_status r \<noteq> RtReady \<and> ri_status r \<noteq> RtDegraded then err (ErrText (''Runtime '' @ i @ '' cannot be degraded''))
     else at_now (\<lambda>now. let f = bump_runtime now (r\<lparr>ri_status := RtDegraded, ri_failure_reason := reason\<rparr>) in
       go (save_and_publish f ''robot.runtime.degraded'') (\<lambda>_. ok f)))"

definition reclaimable :: "runtime_instance \<Rightarrow> string \<Rightarrow> bool \<Rightarrow> bool" where
  "reclaimable r next_scene hold_confirmed \<longleftrightarrow> ri_status r = RtInterrupted \<and>
     (ri_backend r = ''mujoco'' \<or> ri_backend r = ''isaac'') \<and> trim_space next_scene \<noteq> [] \<and>
     (ri_scene_instance_id r \<noteq> next_scene \<or> hold_confirmed)"

definition reclaim_simulation :: "orch_env \<Rightarrow> string \<Rightarrow> string \<Rightarrow> bool \<Rightarrow> string \<Rightarrow> (sys, runtime_instance) prog" where
  "reclaim_simulation E i next_scene hold_confirmed reason = on_instance E i (\<lambda>r.
     if \<not> reclaimable r next_scene hold_confirmed then err (ErrText (''Runtime '' @ i @ '' cannot be reclaimed''))
     else case la_reclaim (oe_launcher E) of
       None \<Rightarrow> err (ErrText ''launcher cannot reclaim a simulation'')
     | Some f \<Rightarrow> attempt (f r reason) (\<lambda>v.
         if \<not> confirmed v then interrupt_stop r ''managed_simulation_reclaim'' (cause_of v)
         else finish_stop (r\<lparr>ri_failure_reason := []\<rparr>)))"

section \<open>Path segments\<close>

fun no_dots :: "string \<Rightarrow> bool" where
  "no_dots (c # d # cs) = (\<not> (c = CHR ''.'' \<and> d = CHR ''.'') \<and> no_dots (d # cs))"
| "no_dots cs = True"

lemma replace_dots_first: "replace_dots (c # cs) \<noteq> [] \<and> hd (replace_dots (c # cs)) \<in> {c, CHR ''_''}"
  by (cases cs) auto

lemma no_dots_Cons: "no_dots (c # cs) \<longleftrightarrow> \<not> (c = CHR ''.'' \<and> cs \<noteq> [] \<and> hd cs = CHR ''.'') \<and> no_dots cs"
  by (cases cs) auto

lemma no_dots_replace: "no_dots (replace_dots cs)"
proof (induction cs rule: replace_dots.induct)
  case (1 c d cs)
  then show ?case using replace_dots_first[of d cs] by (auto simp: no_dots_Cons)
qed auto

lemma set_replace_dots: "set (replace_dots cs) \<subseteq> insert (CHR ''_'') (set cs)"
  by (induction cs rule: replace_dots.induct) auto

text \<open>A name from outside is one path segment: no separator and no \<open>..\<close>, and never empty.\<close>

lemma safe_path_part_is_segment:
  "safe_path_part t \<noteq> []" "CHR ''/'' \<notin> set (safe_path_part t)" "no_dots (safe_path_part t)"
  using set_replace_dots[of "map (\<lambda>c. if c = CHR ''/'' then CHR ''_'' else c) (trim_space t)"] no_dots_replace
  by (auto simp: safe_path_part_def Let_def split: if_splits)

section \<open>The catalog\<close>

lemma resolve_bundle_exact:
  "resolve_bundle m bs = Inr b \<longleftrightarrow> valid_match m \<and> filter (\<lambda>x. bu_match x = m) bs = [b]"
  by (auto simp: resolve_bundle_def split: list.splits)

end
