(* ===== verification/RobotKeeps.thy ===== *)
theory RobotKeeps
  imports RuntimeOrch SvcServer
begin

text \<open>
  The store as the Robot service and the orchestrator use it.  \<open>fleet_client\<close> extends the interface
  \<open>store_client\<close> by the writes of the fleet tables, \<open>robot_client\<close> by the writes of Executions; both
  providers of \<open>store_client\<close> satisfy them.  Who only uses \<open>fleet_client\<close> leaves the Executions alone:
  the third provider says so.
\<close>

section \<open>The interface\<close>

locale fleet_client = store_client R for R :: "db \<Rightarrow> db \<Rightarrow> bool" +
  assumes keeps_fleet_rows:
      "keeps R (save_robot_pilot p)"
      "keeps R (save_robot_pilot_skill x)"
      "keeps R (replace_robot_pilot_skills i xs)"
      "keeps R (save_robot_desired_skill y)"
      "keeps R (delete_robot_desired_skill robot name)"
      "keeps R (save_robot_artifact_mapping m)"
    and keeps_join_rows:
      "keeps R (save_pilot_enrollment n)"
      "keeps R (claim_pilot_enrollment code i credential now)"
      "keeps R (revoke_enrollment i)"
    and keeps_runtime_rows:
      "keeps R (save_runtime_instance r)"
      "keeps R (acquire_port i lo hi)"
      "keeps R (release_port i)"

locale robot_client = fleet_client R for R :: "db \<Rightarrow> db \<Rightarrow> bool" +
  assumes keeps_execution_rows:
      "keeps R (save_robot_execution e)"
      "keeps R (admit_robot_execution e agent)"

section \<open>The providers\<close>

text \<open>A write to a table of the fleet.\<close>

definition fleet_only :: "db \<Rightarrow> db \<Rightarrow> bool" where
  "fleet_only s t \<longleftrightarrow> projects t = projects s \<and> chat_sessions t = chat_sessions s \<and> workflows t = workflows s \<and>
     tasks t = tasks s \<and> subtasks t = subtasks s \<and> task_deps t = task_deps s \<and> subtask_deps t = subtask_deps s \<and>
     workflow_revisions t = workflow_revisions s \<and> plan_proposals t = plan_proposals s \<and>
     plan_submissions t = plan_submissions s \<and> runs t = runs s \<and> interactions t = interactions s \<and>
     executions t = executions s \<and> execution_events t = execution_events s \<and> artifacts t = artifacts s \<and>
     chat_messages t = chat_messages s \<and> semantic_maps t = semantic_maps s \<and> map_entities t = map_entities s \<and>
     desk t = desk s"

interpretation fleet: db_relation fleet_only
  by unfold_locales (simp_all add: fleet_only_def)

lemma fleet_writing:
  "keeps fleet_only (writing (\<lambda>s. s\<lparr>artifact_mappings := f1 s\<rparr>))" "keeps fleet_only (writing (\<lambda>s. s\<lparr>robot_pilots := f2 s\<rparr>))"
  "keeps fleet_only (writing (\<lambda>s. s\<lparr>runtime_instances := f3 s\<rparr>))" "keeps fleet_only (writing (\<lambda>s. s\<lparr>port_leases := f4 s\<rparr>))"
  "keeps fleet_only (writing (\<lambda>s. s\<lparr>pilot_skills := f5 s\<rparr>))" "keeps fleet_only (writing (\<lambda>s. s\<lparr>desired_skills := f6 s\<rparr>))"
  "keeps fleet_only (checked v7 pilot_skills (\<lambda>r s. s\<lparr>pilot_skills := r\<rparr>) f7)"
  "keeps fleet_only (checked v8 pilot_enrollments (\<lambda>r s. s\<lparr>pilot_enrollments := r\<rparr>) f8)"
  "keeps fleet_only (checked v9 pilot_credentials (\<lambda>r s. s\<lparr>pilot_credentials := r\<rparr>) f9)"
  "keeps fleet_only (updating pilot_enrollments (\<lambda>r s. s\<lparr>pilot_enrollments := r\<rparr>) p f)"
  by (rule keepsI; simp add: fleet_only_def run_writing checked_def updating_run split: option.splits)+

lemma fleet_reading: "keeps fleet_only (select_row q e)" "keeps fleet_only (select_rows k)"
  by (rule keeps_select_row keeps_select_rows fleet.frame_relation_axioms)+

lemma keeps_fleet_only:
  "keeps fleet_only (save_robot_pilot p)" "keeps fleet_only (save_robot_pilot_skill x)"
  "keeps fleet_only (replace_robot_pilot_skills i xs)" "keeps fleet_only (save_robot_desired_skill y)"
  "keeps fleet_only (delete_robot_desired_skill robot name)" "keeps fleet_only (save_robot_artifact_mapping m)"
  "keeps fleet_only (save_pilot_enrollment n)" "keeps fleet_only (claim_pilot_enrollment code i credential now)"
  "keeps fleet_only (revoke_enrollment i)" "keeps fleet_only (save_runtime_instance r)"
  "keeps fleet_only (acquire_port i lo hi)" "keeps fleet_only (release_port i)"
proof -
  show "keeps fleet_only (save_robot_pilot p)"
    unfolding save_robot_pilot_def by (rule keepsI; simp add: fleet_only_def run_writing)
qed (unfold save_robot_pilot_skill_def replace_robot_pilot_skills_def save_robot_desired_skill_def
    delete_robot_desired_skill_def save_robot_artifact_mapping_def save_pilot_enrollment_def claim_pilot_enrollment_def
    revoke_enrollment_def save_runtime_instance_def acquire_port_def release_port_def exec_pilot_skills_def
    update_enrollments_def; intro fleet.db_keeps_rules fleet_writing fleet_reading)+

lemma keeps_weaken: "keeps Q m \<Longrightarrow> (\<And>s t. Q s t \<Longrightarrow> R s t) \<Longrightarrow> keeps R m"
  by (simp add: keeps_def)

lemma fleet_only_lawful: "fleet_only s t \<Longrightarrow> lawful s t"
  by (auto simp: lawful_def constraints_hold_def fleet_only_def intro!: advances_same_rows)

lemma fleet_only_logs: "fleet_only s t \<Longrightarrow> logs_grow s t"
  by (simp add: logs_grow_def fleet_only_def executions_kept_eq)

text \<open>Executions: an insert and an update keep the rows that are there.\<close>

lemma lawful_executions: "keeps lawful (exec_executions f)"
proof (rule keepsI)
  fix s
  show "lawful s (snd (exec_executions f s))"
    by (auto simp: exec_executions_def checked_def lawful_def constraints_hold_def advances_refl
        intro!: advances_same_rows split: option.splits)
qed

lemma logs_append_execution: "keeps logs_grow (exec_executions (append_row r))"
  by (rule keepsI)
    (auto simp: logs_grow_def executions_kept_def same_request_def exec_executions_def checked_def append_row_def
      find_by_append split: option.splits)

lemma logs_update_execution:
  assumes "\<And>x. xr_id (f x) = xr_id x \<and> same_request x (f x)"
  shows "keeps logs_grow (exec_executions (update_where p f))"
proof (rule keepsI)
  fix s
  have "executions_kept s (s\<lparr>executions := update_where p f (executions s)\<rparr>)"
    using assms by (auto simp: executions_kept_def find_by_update_where same_request_def)
  then show "logs_grow s (snd (exec_executions (update_where p f) s))"
    by (auto simp: logs_grow_def exec_executions_def checked_def executions_kept_eq split: option.splits)
qed

context db_relation
begin

text \<open>Admission reads, binds the Run and inserts the Execution.\<close>

lemma keeps_admission:
  assumes "\<And>f. keeps R (exec_runs f)" "\<And>r. keeps R (exec_executions (append_row r))"
  shows "keeps R (admit_robot_execution e agent)"
  unfolding admit_robot_execution_def admit_robot_execution_tx_def admit_new_def check_direct_run_def
    validate_robot_task_admission_def robot_reservation_def robot_execution_reservation_def check_pilot_free_def
    get_robot_pilot_def or_invalid_def wrapping_def scan_workflow_def scan_task_def scan_subtask_def
  by (intro db_keeps_rules assms keeps_select_row keeps_select_rows frame_relation_axioms)

end

lemma lawful_save_execution: "keeps lawful (save_robot_execution e)"
  unfolding save_robot_execution_def by (intro law.db_keeps_rules lawful_executions)

lemma logs_save_execution: "keeps logs_grow (save_robot_execution e)"
  unfolding save_robot_execution_def
  by (intro logs.db_keeps_rules logs_append_execution logs_update_execution) (simp add: same_request_def)

lemma fleet_client_of_fleet_only:
  assumes "store_client R" "\<And>s t. fleet_only s t \<Longrightarrow> R s t"
  shows "fleet_client R"
  by (intro fleet_client.intro fleet_client_axioms.intro assms(1); rule keeps_weaken, rule keeps_fleet_only, erule assms(2))

interpretation lawful_fleet: robot_client lawful
  by (intro robot_client.intro robot_client_axioms.intro fleet_client_of_fleet_only lawful_store.store_client_axioms
      fleet_only_lawful lawful_save_execution law.keeps_admission[OF lawful_checked_aside(6) lawful_executions])

interpretation growing_fleet: robot_client logs_grow
  by (intro robot_client.intro robot_client_axioms.intro fleet_client_of_fleet_only growing_store.store_client_axioms
      fleet_only_logs logs_save_execution logs.keeps_admission[OF logs_checked(7) logs_append_execution])

section \<open>Who leaves the Executions alone\<close>

lemma fleet_only_executions: "fleet_only s t \<Longrightarrow> same_executions s t"
  by (simp add: same_executions_def fleet_only_def)

interpretation still_fleet: fleet_client same_executions
  by (intro fleet_client_of_fleet_only still_store.store_client_axioms fleet_only_executions)

end
