(* ===== verification/RobotServer.thy ===== *)
theory RobotServer
  imports RobotKeeps
begin

text \<open>
  Every handler of the Robot service and of the Runtime orchestrator, for any relation on the
  server.  \<open>fleet_service\<close> states what a relation must allow: the operations of the store through
  \<open>fleet_client\<close>, and the elementary changes of the memory \<open>hub\<close>; \<open>robot_service\<close> adds the writes of
  Executions.  The providers are in \<open>RobotHub\<close>.
\<close>

named_theorems robot_keeps

section \<open>The interface\<close>

definition finish_robot_job :: "robot_job \<Rightarrow> hub \<Rightarrow> hub" where
  "finish_robot_job j h = h\<lparr>hb_jobs := remove1 j (hb_jobs h)\<rparr>"

text \<open>A command may enter a queue that has room; a Skill command only when none for the Skill is pending.\<close>

definition may_enter :: "string \<Rightarrow> pilot_session \<Rightarrow> pilot_command \<Rightarrow> hub \<Rightarrow> bool" where
  "may_enter pilot ss c h \<longleftrightarrow> map_of (hb_sessions h) pilot = Some ss \<and> \<not> queue_full ss \<and>
     (is_skill_command (cd_type c) \<longrightarrow> (\<forall>(j, d) \<in> set (hb_commands h). pending_skill pilot d \<longrightarrow>
        \<not> same_skill (string_value (command_map (cd_payload c)) ''name'')
            (string_value (command_map (cd_payload c)) ''version'') (cd_payload (pd_command d))))"

locale fleet_service = service_client R Q + fleet_client R
  for R :: "db \<Rightarrow> db \<Rightarrow> bool" and Q :: "sys \<Rightarrow> sys \<Rightarrow> bool" +
  assumes moves_commands:
      "may_enter pilot ss c (hub s) \<Longrightarrow> Q s (s\<lparr>hub := push_command pilot ss c waits (hub s)\<rparr>)"
      "Q s (s\<lparr>hub := forget_command i (hub s)\<rparr>)"
      "Q s (s\<lparr>hub := put_ack i a (hub s)\<rparr>)"
      "Q s (s\<lparr>hub := take_ack i (hub s)\<rparr>)"
      "Q s (s\<lparr>hub := pop_command pilot (hub s)\<rparr>)"
    and moves_events:
      "Q s (s\<lparr>hub := add_device_event now kind i typ m (hub s)\<rparr>)"
      "Q s (s\<lparr>hub := add_robot_event ev (hub s)\<rparr>)"
      "Q s (s\<lparr>hub := add_subscriber (hub s)\<rparr>)"
      "Q s (s\<lparr>hub := remove_subscriber u (hub s)\<rparr>)"
    and moves_jobs:
      "Q s (s\<lparr>hub := start_robot_job j (hub s)\<rparr>)"
      "Q s (s\<lparr>hub := finish_robot_job j (hub s)\<rparr>)"
    and moves_transfers:
      "Q s (s\<lparr>hub := put_transfer tr (hub s)\<rparr>)"
      "Q s (s\<lparr>hub := drop_transfer i (hub s)\<rparr>)"
    and moves_locks:
      "Q s (s\<lparr>hub := take_runtime_lock i (hub s)\<rparr>)"
      "Q s (s\<lparr>hub := free_runtime_lock i (hub s)\<rparr>)"
    and moves_sessions:
      "Q s (s\<lparr>hub := update_session p (hub s)\<rparr>)"
      "Q s (s\<lparr>hub := close_previous i (hub s)\<rparr>)"
      "close_rivals i k xs (hub s) = (b, h) \<Longrightarrow> Q s (s\<lparr>hub := h\<rparr>)"
      "Q s (s\<lparr>hub := open_session p (hub s)\<rparr>)"
      "Q s (s\<lparr>hub := remove_session i (hub s)\<rparr>)"

text \<open>What also writes Executions, under the admission lock of the robot.\<close>

locale robot_service = fleet_service R Q + robot_client R
  for R :: "db \<Rightarrow> db \<Rightarrow> bool" and Q :: "sys \<Rightarrow> sys \<Rightarrow> bool" +
  assumes moves_admissions:
      "Q s (s\<lparr>hub := take_admission i (hub s)\<rparr>)"
      "Q s (s\<lparr>hub := free_admission i (hub s)\<rparr>)"

text \<open>The ports of the Robot service, called in any way.\<close>

definition robot_ports_keep :: "(sys \<Rightarrow> sys \<Rightarrow> bool) \<Rightarrow> robot_env \<Rightarrow> bool" where
  "robot_ports_keep Q P \<longleftrightarrow> (\<forall>f e typ m. ro_observer P = Some f \<longrightarrow> keeps Q (f e typ m)) \<and>
     (\<forall>f robot. ro_availability P = Some f \<longrightarrow> keeps Q (f robot)) \<and>
     (\<forall>i. keeps Q (ro_wait P i)) \<and> (\<forall>i. keeps Q (ro_await P i))"

definition orch_ports_keep :: "(sys \<Rightarrow> sys \<Rightarrow> bool) \<Rightarrow> orch_env \<Rightarrow> bool" where
  "orch_ports_keep Q G \<longleftrightarrow> (\<forall>r b d. keeps Q (la_start (oe_launcher G) r b d)) \<and>
     (\<forall>r reason. keeps Q (la_stop (oe_launcher G) r reason)) \<and>
     (\<forall>f r reason. la_reclaim (oe_launcher G) = Some f \<longrightarrow> keeps Q (f r reason)) \<and> (\<forall>i. keeps Q (oe_await G i))"

lemma robot_ports_keepD:
  assumes "robot_ports_keep Q P"
  shows "ro_observer P = Some f \<Longrightarrow> keeps Q (f e typ m)" "ro_availability P = Some g \<Longrightarrow> keeps Q (g robot)"
    "keeps Q (ro_wait P i)" "keeps Q (ro_await P i)"
  using assms by (simp_all add: robot_ports_keep_def)

lemma orch_ports_keepD:
  assumes "orch_ports_keep Q G"
  shows "keeps Q (la_start (oe_launcher G) r b d)" "keeps Q (la_stop (oe_launcher G) r reason)"
    "la_reclaim (oe_launcher G) = Some f \<Longrightarrow> keeps Q (f r reason)" "keeps Q (oe_await G i)"
  using assms by (simp_all add: orch_ports_keep_def)

context fleet_service
begin

subsection \<open>Reading\<close>

lemma keeps_robot_gets:
  "keeps R (get_robot_pilot i)" "keeps R (get_active_robot_pilot i)" "keeps R (get_latest_runtime_by_robot i)"
  "keeps R (get_active_runtime_by_robot i)" "keeps R (get_runtime_instance i)" "keeps R list_runtime_instances"
  "keeps R (get_robot_execution_by_request i j)" "keeps R (check_robot_admission i j k)"
  "keeps R (list_robot_executions i j n)" "keeps R (list_robot_executions_by_run i)"
  "keeps R (list_robot_execution_events i m n)" "keeps R (get_robot_pilot_skill i j k)"
  "keeps R (list_robot_pilot_skills i)" "keeps R (list_robot_desired_skills i)" "keeps R list_robot_pilots"
  "keeps R (get_artifact_meta i)" "keeps R (get_robot_artifact_mapping i j)" "keeps R (get_robot_skill_package i j)"
  "keeps R list_robot_skill_packages" "keeps R (get_pilot_credential i)" "keeps R (get_pilot_enrollment i)"
  unfolding get_robot_pilot_def get_active_robot_pilot_def get_latest_runtime_by_robot_def
    get_active_runtime_by_robot_def get_runtime_instance_def list_runtime_instances_def
    get_robot_execution_by_request_def check_robot_admission_def list_robot_executions_def
    list_robot_executions_by_run_def list_robot_execution_events_def get_robot_pilot_skill_def
    list_robot_pilot_skills_def list_robot_desired_skills_def list_robot_pilots_def get_artifact_meta_def
    get_robot_artifact_mapping_def get_robot_skill_package_def list_robot_skill_packages_def
    get_pilot_credential_def get_pilot_enrollment_def with_robot_execution_artifacts_def
    list_robot_artifact_mappings_def robot_reservation_def robot_execution_reservation_def robot_physical_reservation_def
  by (intro db_keeps_rules keeps_queries)+

lemmas robot_rules = store_rules keeps_robot_gets keeps_fleet_rows keeps_join_rows keeps_runtime_rows

subsection \<open>The memory\<close>

lemma keeps_on_hub: "(\<And>s. Q s (s\<lparr>hub := f (hub s)\<rparr>)) \<Longrightarrow> keeps Q (on_hub f)"
  by (rule keepsI) (simp add: run_on_hub)

lemma keeps_hub [robot_keeps]:
  "keeps Q (on_hub (forget_command i))" "keeps Q (on_hub (put_ack i a))" "keeps Q (on_hub (take_ack i))"
  "keeps Q (on_hub (pop_command i))" "keeps Q (on_hub (add_device_event now kind i typ m))"
  "keeps Q (on_hub (add_robot_event ev))" "keeps Q (on_hub add_subscriber)" "keeps Q (on_hub (remove_subscriber u))"
  "keeps Q (on_hub (start_robot_job j))" "keeps Q (on_hub (put_transfer tr))" "keeps Q (on_hub (drop_transfer i))"
  "keeps Q (on_hub (take_runtime_lock i))"
  "keeps Q (on_hub (free_runtime_lock i))" "keeps Q (on_hub (update_session p))" "keeps Q (on_hub (close_previous i))"
  "keeps Q (on_hub (remove_session i))"
  by (rule keeps_on_hub; rule moves_commands moves_events moves_jobs moves_transfers moves_locks moves_sessions)+

lemma keeps_enqueue: "\<not> is_skill_command (cd_type c) \<Longrightarrow> keeps Q (enqueue P pilot c waits)"
  unfolding enqueue_def
  by (rule keepsI)
    (auto simp: run_reading run_on_hub session_of_def may_enter_def run_simps whole.frame_refl
      intro!: moves_commands(1) split: option.splits)

lemma not_skill_commands:
  "\<not> is_skill_command ''execution.start''" "\<not> is_skill_command ''execution.stop''" "\<not> is_skill_command ''agent.reply''"
  "\<not> is_skill_command ''skill.validate_input''" "\<not> is_skill_command ''skill.describe_input''"
  "\<not> is_skill_command ''artifact.upload''" "\<not> is_skill_command ''ability.debug.start''"
  "\<not> is_skill_command ''ability.debug.stop''" "\<not> is_skill_command ''reconcile.request''"
  "\<not> is_skill_command ''reconcile.result''"
  by (simp_all add: is_skill_command_def)

lemma keeps_fresh [robot_keeps]: "keeps Q (fresh p)"
  unfolding fresh_def by (intro robot_rules)

lemma keeps_send_command:
  assumes "\<not> is_skill_command typ"
  shows "keeps Q (send_command P pilot typ payload)"
  unfolding send_command_def using assms by (intro robot_rules robot_keeps keeps_enqueue) simp

lemmas keeps_sends = not_skill_commands[THEN keeps_send_command]

lemma keeps_send_and_wait:
  assumes "robot_ports_keep Q P" "\<not> is_skill_command typ"
  shows "keeps Q (send_command_and_wait P pilot typ payload)"
proof -
  have "keeps Q (await_ack P i)" for i
    unfolding await_ack_def
    by (intro robot_rules robot_keeps robot_ports_keepD[OF assms(1)])
      (auto split: wait_end.split option.split intro!: robot_rules robot_keeps)
  then show ?thesis
    unfolding send_command_and_wait_def using assms(2) by (intro robot_rules robot_keeps keeps_enqueue) simp_all
qed

lemma keeps_send_skill:
  assumes "is_skill_command typ"
  shows "keeps Q (send_skill_command_once P pilot typ payload)"
proof -
  have enter: "keeps Q (reading (\<lambda>s. if \<not> is_online pilot s then err ErrPilotOffline
     else case find (\<lambda>(j, c). pending_skill pilot c \<and>
         same_skill (string_value payload ''name'') (string_value payload ''version'') (cd_payload (pd_command c)))
         (hb_commands (hub s)) of
       Some (j, c) \<Rightarrow> ok (cd_id (pd_command c), False)
     | None \<Rightarrow> go (enqueue P pilot \<lparr>cd_type = typ, cd_id = i, cd_payload = PMap payload\<rparr> False) (\<lambda>_. ok (i, True))))" for i
    unfolding enqueue_def
    by (rule keepsI)
      (auto simp: run_reading run_on_hub run_go session_of_def may_enter_def run_simps whole.frame_refl command_map_def
        find_None_iff intro!: moves_commands(1) split: option.splits)
  show ?thesis unfolding send_skill_command_once_def by (intro robot_rules robot_keeps enter)
qed

lemma keeps_publish [robot_keeps]:
  "keeps Q (publish_device kind i typ n)" "keeps Q (publish_robot_event p kind i typ n)"
  "keeps Q (publish_execution e typ)" "keeps Q (publish_pilot_view v typ)" "keeps Q (publish_runtime_event typ p r)"
  "keeps Q (subscribe_devices n)" "keeps Q (unsubscribe_devices k)"
  unfolding publish_device_def publish_robot_event_def publish_execution_def publish_pilot_view_def
    publish_runtime_event_def subscribe_devices_def unsubscribe_devices_def
  by (intro robot_rules robot_keeps)+

lemma keeps_pilot_pointer [robot_keeps]:
  "keeps Q (notify_robot_available P p)" "keeps Q (set_pilot_execution P p i)" "keeps Q (set_pilot_interrupted p i)"
  "keeps Q (spawn_reconcile_skills i)" "keeps Q (next_command i)"
  unfolding notify_robot_available_def set_pilot_execution_def set_pilot_interrupted_def spawn_reconcile_skills_def
    next_command_def
  by (intro robot_rules robot_keeps)+

lemma keeps_transfers [robot_keeps]:
  "keeps Q (add_transfer tr)" "keeps Q (take_transfer i mode)" "keeps Q (authorize_artifact_downloads e)"
  "keeps Q (bound_transfer i pilot)" "keeps Q (serve_download i pilot)"
  unfolding add_transfer_def take_transfer_def authorize_artifact_downloads_def authorize_download_def
    bound_transfer_def serve_download_def
  by (intro robot_rules robot_keeps)+

lemma keeps_observe [robot_keeps]: "robot_ports_keep Q P \<Longrightarrow> keeps Q (observe P e typ m)"
  unfolding observe_def by (auto split: option.split intro: robot_rules robot_ports_keepD)

subsection \<open>Scopes and locks\<close>

lemma keeps_scopes [robot_keeps]:
  "keeps Q (validate_robot_project p i)" "keeps Q (validate_direct_run_scope p i j k)"
  "keeps Q (validate_task_skill_scope q)" "keeps Q (cancel_direct_run i)" "keeps Q (usable_skill v name version)"
  "keeps Q (dispatch_check c q)" "keeps Q (may_stop e)"
  unfolding validate_direct_run_scope_def validate_robot_project_def validate_task_skill_scope_def or_outside_def
    cancel_direct_run_def usable_skill_def dispatch_check_def may_stop_def
  by (intro robot_rules svc_keeps)+

lemma keeps_validated_input [robot_keeps]: "robot_ports_keep Q P \<Longrightarrow> keeps Q (validated_input P q v)"
  unfolding validated_input_def by (intro robot_rules keeps_send_and_wait not_skill_commands)

subsection \<open>Artifacts\<close>

lemma keeps_artifacts [robot_keeps]:
  "keeps Q (announce_artifact P pilot m)"
  "(\<And>p tr. keeps Q (upload p tr)) \<Longrightarrow> keeps Q (serve_upload upload token pilot n)"
  unfolding announce_artifact_def serve_upload_def finish_upload_def Let_def
  by (intro robot_rules robot_keeps keeps_sends; assumption?)+

subsection \<open>The fleet\<close>

lemma keeps_skill_commands [robot_keeps]:
  "keeps Q (install_skill P pilot name version)" "keeps Q (set_skill_enabled P pilot name version enabled)"
  "keeps Q (uninstall_skill P pilot name version)"
  unfolding install_skill_def set_skill_enabled_def uninstall_skill_def Let_def
  by (intro robot_rules robot_keeps keeps_send_skill; simp add: is_skill_command_def)+

lemma keeps_desired [robot_keeps]:
  "keeps Q (reconcile_desired_skills P robot)" "keeps Q (set_desired_skill P robot name version enabled)"
  "keeps Q (remove_desired_skill P robot name)"
proof -
  show rec: "keeps Q (reconcile_desired_skills P robot)"
    unfolding reconcile_desired_skills_def reconcile_skill_def by (intro robot_rules robot_keeps)
  show "keeps Q (set_desired_skill P robot name version enabled)" "keeps Q (remove_desired_skill P robot name)"
    unfolding set_desired_skill_def remove_desired_skill_def Let_def by (intro robot_rules robot_keeps rec)+
qed

lemma keeps_joining [robot_keeps]:
  "keeps Q (create_pilot_enrollment code user)" "keeps Q (claim_enrollment secret code pilot)"
  "keeps Q (revoke_pilot_enrollment i)" "keeps Q (validate_pilot_credential token)"
  unfolding create_pilot_enrollment_def claim_enrollment_def revoke_pilot_enrollment_def validate_pilot_credential_def Let_def
  by (intro robot_rules robot_keeps)+

lemma keeps_register_session: "keeps Q (register_session p)"
  unfolding register_session_def
proof (rule whole.keeps_go[OF keeps_hub(15)], rule keepsI)
  fix u and s :: sys
  obtain b h where close: "close_rivals (rp_instance_id p) (rp_robot_id p) (hb_sessions (hub s)) (hub s) = (b, h)"
    by (cases "close_rivals (rp_instance_id p) (rp_robot_id p) (hb_sessions (hub s)) (hub s)")
  have "Q s (s\<lparr>hub := h\<rparr>)" by (rule moves_sessions(3)[OF close])
  moreover have "Q (s\<lparr>hub := h\<rparr>) (s\<lparr>hub := open_session p h\<rparr>)" using moves_sessions(4)[of "s\<lparr>hub := h\<rparr>" p] by simp
  ultimately have "Q s (s\<lparr>hub := open_session p h\<rparr>)" "Q s (s\<lparr>hub := h\<rparr>)" by (blast intro: whole.frame_trans)+
  then show "Q s (snd (reading (\<lambda>s. case close_rivals (rp_instance_id p) (rp_robot_id p) (hb_sessions (hub s)) (hub s) of
       (True, h) \<Rightarrow> go (on_hub (\<lambda>_. open_session p h)) (\<lambda>_. ok (hb_serials h))
     | (False, h) \<Rightarrow> go (on_hub (\<lambda>_. h)) (\<lambda>_. err (Wrapped (''Robot '' @ rp_robot_id p @ '' has an unconfirmed execution'') ErrRobotBusy))) s))"
    using close by (cases b) (simp_all add: run_simps run_on_hub)
qed

lemma keeps_connections [robot_keeps]:
  assumes ports: "robot_ports_keep Q P"
  shows "keeps Q (connect P p reported)" "keeps Q (disconnect pilot k)" "keeps Q (heartbeat P pilot p)"
  unfolding connect_def save_reported_skills_def seed_desired_skills_def disconnect_def heartbeat_def Let_def
  by (intro robot_rules robot_keeps keeps_register_session)+

lemma keeps_debug [robot_keeps]:
  assumes ports: "robot_ports_keep Q P"
  shows "keeps Q (start_ability_debug P robot i name m)" "keeps Q (stop_ability_debug P robot i)"
    "keeps Q (describe_skill_input P compiles robot name version)"
  unfolding start_ability_debug_def stop_ability_debug_def describe_skill_input_def debug_task_allowed_def Let_def
  by (intro robot_rules robot_keeps keeps_sends keeps_send_and_wait ports not_skill_commands)+

lemma keeps_fleet_gateway [robot_keeps]:
  assumes ports: "robot_ports_keep Q P"
  shows "keeps Q (gateway_register P token p skills)" "keeps Q (run_robot_job P j)"
proof -
  show "keeps Q (gateway_register P token p skills)"
    unfolding gateway_register_def by (intro robot_rules robot_keeps keeps_sends ports)
  show "keeps Q (run_robot_job P j)"
    unfolding run_robot_job_def
    by (cases j; simp only: robot_job.case; intro robot_rules robot_keeps robot_ports_keepD(2)[OF ports]; assumption)
qed

subsection \<open>Runtime instances\<close>

lemma keeps_runtimes [robot_keeps]:
  assumes ports: "orch_ports_keep Q G"
  shows "keeps Q (runtime_start G q)" "keeps Q (runtime_stop G i reason)" "keeps Q (mark_degraded G i reason)"
    "keeps Q (reclaim_simulation G i scene hold reason)"
proof -
  have lock: "keeps Q (locking_robot G robot m)" if "keeps Q m" for robot and m :: "(sys, 'x) prog"
    unfolding locking_robot_def by (intro robot_rules robot_keeps orch_ports_keepD(4)[OF ports] that)
  have inst: "keeps Q (on_instance G i k)" if "\<And>r. keeps Q (k r)" for i and k :: "runtime_instance \<Rightarrow> (sys, 'x) prog"
    unfolding on_instance_def by (intro robot_rules lock that)
  have save: "keeps Q (save_and_publish r kind)" for r kind
    unfolding save_and_publish_def by (intro robot_rules robot_keeps)
  have fail: "keeps Q (fail_start G r e sure)" for r e sure
    unfolding fail_start_def give_up_start_def Let_def by (intro robot_rules save orch_ports_keepD(2)[OF ports])
  have launch: "keeps Q (launch_runtime G q b r)" for b r
    unfolding launch_runtime_def finish_start_def Let_def
    by (intro robot_rules save fail orch_ports_keepD(1)[OF ports])
  show "keeps Q (runtime_start G q)"
    unfolding runtime_start_def start_instance_def Let_def by (intro robot_rules robot_keeps save launch lock)
  have halt: "keeps Q (interrupt_stop r step e)" "keeps Q (finish_stop r)" for r step e
    unfolding interrupt_stop_def finish_stop_def Let_def by (intro robot_rules save)+
  show "keeps Q (runtime_stop G i reason)" "keeps Q (mark_degraded G i reason)"
    "keeps Q (reclaim_simulation G i scene hold reason)"
    unfolding runtime_stop_def stop_instance_def mark_degraded_def reclaim_simulation_def Let_def
    by (intro robot_rules save halt inst orch_ports_keepD(2,3)[OF ports]; assumption)+
qed

end

text \<open>The handlers that write Executions.\<close>

context robot_service
begin

lemmas execution_rules = robot_rules keeps_execution_rows

lemma keeps_holding: "keeps Q m \<Longrightarrow> keeps Q (holding_admission i m)"
  unfolding holding_admission_def lock_admission_def unlock_admission_def
  by (intro robot_rules keeps_on_hub moves_admissions)

subsection \<open>Running and stopping\<close>

lemma keeps_robot_run [robot_keeps]:
  assumes ports: "robot_ports_keep Q P"
  shows "keeps Q (robot_run P c q)"
proof -
  have start: "keeps Q (start_admitted P c q v e)" for v e
    unfolding start_admitted_def dispatch_def Let_def by (intro execution_rules robot_keeps keeps_sends)
  have admit: "keeps Q (admit_and_start P c q v m)" for v m
    unfolding admit_and_start_def by (intro execution_rules robot_keeps start)
  have locked: "keeps Q (run_locked P c q)"
    unfolding run_locked_def by (intro execution_rules robot_keeps ports admit)
  show ?thesis unfolding robot_run_def by (intro execution_rules robot_keeps keeps_holding locked)
qed

lemma keeps_stop [robot_keeps]:
  assumes ports: "robot_ports_keep Q P"
  shows "keeps Q (robot_stop P p i reason)"
proof -
  have send: "keeps Q (send_stop P e reason)" for e
    unfolding send_stop_def Let_def by (intro execution_rules robot_keeps keeps_sends ports)
  have locked: "keeps Q (stop_locked P i reason)"
    unfolding stop_locked_def by (intro execution_rules robot_keeps send)
  show ?thesis
    unfolding robot_stop_def blocking_admission_def
    by (intro execution_rules robot_keeps keeps_holding locked robot_ports_keepD(4)[OF ports])
qed

lemma keeps_confirm [robot_keeps]:
  assumes ports: "robot_ports_keep Q P"
  shows "keeps Q (confirm_managed_simulation_hold P p i j reason)"
    "keeps Q (confirm_operator_stop P e user reason)" "keeps Q (reply_agent_request P i m)"
  unfolding confirm_managed_simulation_hold_def confirm_operator_stop_def record_operator_stop_def
    release_if_current_def reply_agent_request_def Let_def
  by (intro execution_rules robot_keeps keeps_sends ports)+

lemma keeps_direct_runs [robot_keeps]:
  assumes ports: "robot_ports_keep Q P"
  shows "keeps Q (stop_direct_run P i)" "keeps Q (finish_direct_run P i)"
proof -
  have "keeps Q (stop_each P xs result)" for xs result
    by (induction xs arbitrary: result) (auto intro!: execution_rules robot_keeps ports split: option.splits)
  then have stop: "keeps Q (stop_direct_run_executions P i)"
    unfolding stop_direct_run_executions_def by (intro execution_rules)
  show "keeps Q (stop_direct_run P i)" "keeps Q (finish_direct_run P i)"
    unfolding stop_direct_run_def finish_direct_run_def by (intro execution_rules robot_keeps stop)+
qed

subsection \<open>Reports\<close>

lemma keeps_ack [robot_keeps]:
  assumes ports: "robot_ports_keep Q P"
  shows "keeps Q (handle_command_ack P pilot i accepted message result)"
proof -
  have "keeps Q (rejected_command P pilot c m)" for c m
    unfolding rejected_command_def fail_rejected_execution_def interrupt_rejected_stop_def Let_def
    by (intro execution_rules robot_keeps ports)
  then show ?thesis unfolding handle_command_ack_def Let_def by (intro execution_rules robot_keeps)
qed

lemma keeps_execution_event [robot_keeps]:
  assumes ports: "robot_ports_keep Q P"
  shows "keeps Q (handle_execution_event P pilot typ n m)"
  unfolding handle_execution_event_def settle_pilot_def Let_def by (intro execution_rules robot_keeps ports)

lemma keeps_reconcile [robot_keeps]:
  assumes ports: "robot_ports_keep Q P"
  shows "keeps Q (reconcile P pilot remote)"
proof -
  have "keeps Q (reconcile_rows P v m es pointer)" for v m es pointer
  proof (induction es arbitrary: pointer)
    case (Cons e es)
    show ?case
      unfolding reconcile_rows.simps recover_persisted_terminal_def reconcile_recovered_def reconcile_active_def Let_def
      by (intro execution_rules robot_keeps ports Cons.IH)
  qed (unfold reconcile_rows.simps, rule whole.keeps_ok)
  then show ?thesis unfolding reconcile_def release_terminal_def by (intro execution_rules robot_keeps)
qed

lemma keeps_pilot_event [robot_keeps]:
  assumes ports: "robot_ports_keep Q P"
  shows "keeps Q (handle_pilot_event P pilot typ n m)"
  unfolding handle_pilot_event_def handle_skill_status_def handle_debug_status_def Let_def
  by (intro execution_rules robot_keeps ports)

lemma keeps_gateway_message [robot_keeps]:
  assumes ports: "robot_ports_keep Q P"
  shows "keeps Q (gateway_message P pilot msg)"
  unfolding gateway_message_def
  by (cases msg; simp only: uplink.case; intro execution_rules robot_keeps keeps_sends ports)

end

end
