(* ===== verification/RobotHub.thy ===== *)
theory RobotHub
  imports RobotServer
begin

text \<open>
  The providers of \<open>robot_service\<close>: the two relations of the store, and the law of the memory of
  the Robot service.  The relation that keeps the Executions as they are is a \<open>fleet_service\<close>.  \<open>hub_ok\<close> is its invariant: the keys of the maps are distinct and belong to
  their values, a queue holds 128 elements at most, a Skill of a Pilot has one command under way at
  most, and the device events are numbered from 1 without a gap.
\<close>

section \<open>The relations of the store\<close>

lemma fleet_service_on_db:
  assumes "fleet_client R"
  shows "fleet_service R (on_db R)"
proof -
  have store: "store_client R" and frame: "frame_relation R"
    using assms by (simp_all add: fleet_client_def store_client_def db_relation_def)
  show ?thesis
    by (intro fleet_service.intro fleet_service_axioms.intro service_on_db store assms)
      (simp_all add: on_db_def frame_relation.frame_refl[OF frame])
qed

lemma robot_service_on_db: "robot_client R \<Longrightarrow> robot_service R (on_db R)"
proof -
  assume client: "robot_client R"
  then have "frame_relation R"
    by (simp add: robot_client_def fleet_client_def store_client_def db_relation_def)
  with client show ?thesis
    by (intro robot_service.intro robot_service_axioms.intro fleet_service_on_db)
      (simp_all add: robot_client_def on_db_def frame_relation.frame_refl)
qed

interpretation lawful_robots: robot_service lawful "on_db lawful"
  by (rule robot_service_on_db[OF lawful_fleet.robot_client_axioms])

interpretation growing_robots: robot_service logs_grow "on_db logs_grow"
  by (rule robot_service_on_db[OF growing_fleet.robot_client_axioms])

interpretation still_robots: fleet_service same_executions "on_db same_executions"
  by (rule fleet_service_on_db[OF still_fleet.fleet_client_axioms])

section \<open>The invariant of the memory\<close>

definition skill_of_command :: "pending_command \<Rightarrow> string \<times> string \<times> string" where
  "skill_of_command c = (let m = command_map (cd_payload (pd_command c)) in
     (pd_pilot_instance_id c, string_value m ''name'', string_value m ''version''))"

definition skill_commands :: "hub \<Rightarrow> pending_command list" where
  "skill_commands h = filter (\<lambda>c. is_skill_command (cd_type (pd_command c))) (map snd (hb_commands h))"

definition session_ok :: "nat \<Rightarrow> string \<times> pilot_session \<Rightarrow> bool" where
  "session_ok n x \<longleftrightarrow> rp_instance_id (ss_pilot (snd x)) = fst x \<and> length (ss_send (snd x)) \<le> 128 \<and> ss_serial (snd x) < n"

definition hub_ok :: "hub \<Rightarrow> bool" where
  "hub_ok h \<longleftrightarrow>
     distinct (map fst (hb_sessions h)) \<and> list_all (session_ok (hb_serials h)) (hb_sessions h) \<and>
     distinct (map fst (hb_commands h)) \<and> list_all (\<lambda>(i, c). cd_id (pd_command c) = i) (hb_commands h) \<and>
     distinct (map skill_of_command (skill_commands h)) \<and>
     distinct (map fst (hb_transfers h)) \<and> list_all (\<lambda>(i, tr). tf_token tr = i) (hb_transfers h) \<and>
     list_all (\<lambda>b. length (sb_queue b) \<le> 128) (hb_subscribers h) \<and>
     map de_sequence (hb_device_events h) = [1..hb_sequence h] \<and> 0 \<le> hb_sequence h"

definition hub_law :: "sys \<Rightarrow> sys \<Rightarrow> bool" where
  "hub_law s t \<longleftrightarrow> (hub_ok (hub s) \<longrightarrow> hub_ok (hub t)) \<and> hb_serials (hub s) \<le> hb_serials (hub t) \<and>
     (\<exists>es. hb_device_events (hub t) = hb_device_events (hub s) @ es) \<and> (\<exists>es. hb_events (hub t) = hb_events (hub s) @ es)"

lemma hub_ok_empty: "hub_ok empty_hub"
  by (simp add: hub_ok_def empty_hub_def skill_commands_def)

subsection \<open>Maps\<close>

lemma put_key_set: "x \<in> set (put_key k v m) \<Longrightarrow> x = (k, v) \<or> x \<in> set m"
  using set_upsert[of fst "(k, v)" m] by (auto simp: put_key_def)

lemma list_all_put_key: "list_all P m \<Longrightarrow> P (k, v) \<Longrightarrow> list_all P (put_key k v m)"
  by (auto simp: list_all_iff dest: put_key_set)

lemma list_all_delete_key: "list_all P m \<Longrightarrow> list_all P (delete_key k m)"
  by (auto simp: list_all_iff delete_key_def)

lemma put_key_new: "k \<notin> fst ` set m \<Longrightarrow> put_key k v m = m @ [(k, v)]"
  by (simp add: put_key_def upsert_def)

lemma put_key_values: "distinct (map fst m) \<Longrightarrow> put_key k v m =
   (if k \<in> fst ` set m then map (\<lambda>(i, x). (i, if i = k then v else x)) m else m @ [(k, v)])"
  by (auto simp: put_key_def upsert_def update_where_def)

lemma session_ok_mono: "list_all (session_ok n) xs \<Longrightarrow> n \<le> k \<Longrightarrow> list_all (session_ok k) xs"
  by (auto simp: list_all_iff session_ok_def)

lemma map_of_session: "list_all (session_ok n) xs \<Longrightarrow> map_of xs i = Some ss \<Longrightarrow> session_ok n (i, ss)"
  by (auto simp: list_all_iff dest: map_of_SomeD)

lemma distinct_skills_filter:
  "distinct (map skill_of_command (skill_commands h)) \<Longrightarrow>
   distinct (map skill_of_command (skill_commands (h\<lparr>hb_commands := filter P (hb_commands h)\<rparr>)))"
proof -
  have "distinct (map f (filter p (map snd xs))) \<Longrightarrow> distinct (map f (filter p (map snd (filter P xs))))"
    for f :: "pending_command \<Rightarrow> 'k" and p xs
    by (induction xs) (auto split: if_splits)
  then show "distinct (map skill_of_command (skill_commands h)) \<Longrightarrow> ?thesis" by (simp add: skill_commands_def)
qed

lemma distinct_put_skill:
  fixes f :: "'v \<Rightarrow> 'k"
  assumes "distinct (map f (filter p (map snd m)))" "distinct (map fst m)"
    "p v \<Longrightarrow> \<forall>(j, d) \<in> set m. p d \<longrightarrow> f d \<noteq> f v"
  shows "distinct (map f (filter p (map snd (put_key i v m))))"
proof (cases "i \<in> fst ` set m")
  case False
  with assms show ?thesis by (auto simp: put_key_new)
next
  case True
  define g where "g = map (\<lambda>x. if fst x = i then (i, v) else x)"
  have same: "g m = m" if "i \<notin> fst ` set m" for m
    using that unfolding g_def by (intro map_idI) auto
  have sub: "set (filter p (map snd (g m))) \<subseteq> (if p v then {v} else {}) \<union> set (filter p (map snd m))" for m
    by (auto simp: g_def image_iff)
  have "distinct (map f (filter p (map snd (g m))))"
    using assms
  proof (induction m)
    case (Cons x m)
    then have IH: "distinct (map f (filter p (map snd (g m))))" by (simp split: if_splits)
    show ?case
    proof (cases "fst x = i")
      case True
      with Cons.prems(2) have tail: "g m = m" by (intro same) auto
      from True tail Cons.prems show ?thesis by (cases x) (auto simp: g_def split: if_splits)
    next
      case False
      then have head: "g (x # m) = x # g m" by (simp add: g_def)
      have "p (snd x) \<Longrightarrow> f (snd x) \<notin> f ` set (filter p (map snd (g m)))"
      proof
        assume px: "p (snd x)" and "f (snd x) \<in> f ` set (filter p (map snd (g m)))"
        then obtain y where y: "f (snd x) = f y" "y \<in> (if p v then {v} else {}) \<union> set (filter p (map snd m))"
          using sub[of m] by blast
        from px Cons.prems(1) have "f (snd x) \<notin> f ` set (filter p (map snd m))" by simp
        with y have "p v" "f (snd x) = f v" by (auto split: if_splits)
        with Cons.prems(3) px show False by (cases x) auto
      qed
      with IH head show ?thesis by simp
    qed
  qed (simp add: g_def)
  with True show ?thesis by (simp add: put_key_def upsert_def update_where_def g_def)
qed

subsection \<open>Every elementary change keeps the law\<close>

lemma hub_law_refl: "hub_law s s"
  by (simp add: hub_law_def)

lemma hub_law_trans: "hub_law s t \<Longrightarrow> hub_law t u \<Longrightarrow> hub_law s u"
  by (auto simp: hub_law_def)

text \<open>A change that publishes nothing.\<close>

lemma hub_lawI:
  assumes "hb_serials (hub s) \<le> hb_serials h" "hb_device_events h = hb_device_events (hub s)"
    "hb_events h = hb_events (hub s)" "hub_ok (hub s) \<Longrightarrow> hub_ok h"
  shows "hub_law s (s\<lparr>hub := h\<rparr>)"
  using assms by (simp add: hub_law_def)

lemma hub_ok_session:
  assumes "hub_ok h" "map_of (hb_sessions h) i = Some ss"
    "session_ok (hb_serials h) (i, ss) \<Longrightarrow> session_ok (hb_serials h) (i, ss')"
  shows "hub_ok (h\<lparr>hb_sessions := put_key i ss' (hb_sessions h)\<rparr>)"
  using assms map_of_session[OF _ assms(2)]
  by (simp add: hub_ok_def skill_commands_def distinct_put_key list_all_put_key)

lemma law_push:
  assumes "may_enter pilot ss c (hub s)"
  shows "hub_law s (s\<lparr>hub := push_command pilot ss c waits (hub s)\<rparr>)"
proof (rule hub_lawI)
  let ?h = "hub s"
  let ?d = "\<lparr>pd_pilot_instance_id = pilot, pd_command = c, pd_waits = waits\<rparr>"
  assume ok: "hub_ok ?h"
  let ?g = "?h\<lparr>hb_sessions := put_key pilot (ss\<lparr>ss_send := ss_send ss @ [c]\<rparr>) (hb_sessions ?h)\<rparr>"
  have "hub_ok ?g"
    by (rule hub_ok_session[OF ok]) (use assms in \<open>auto simp: may_enter_def session_ok_def queue_full_def\<close>)
  moreover have "distinct (map skill_of_command (skill_commands (?g\<lparr>hb_commands := put_key (cd_id c) ?d (hb_commands ?h)\<rparr>)))"
    unfolding skill_commands_def hub.select_convs hub.update_convs
  proof (simp, rule distinct_put_skill)
    show "distinct (map skill_of_command (filter (\<lambda>c. is_skill_command (cd_type (pd_command c))) (map snd (hb_commands ?h))))"
      "distinct (map fst (hb_commands ?h))"
      using ok by (simp_all add: hub_ok_def skill_commands_def)
    assume skill: "is_skill_command (cd_type (pd_command ?d))"
    show "\<forall>(j, d) \<in> set (hb_commands ?h). is_skill_command (cd_type (pd_command d)) \<longrightarrow>
        skill_of_command d \<noteq> skill_of_command ?d"
    proof clarify
      fix j d
      assume "(j, d) \<in> set (hb_commands ?h)" "is_skill_command (cd_type (pd_command d))"
        "skill_of_command d = skill_of_command ?d"
      with assms skill show False
        by (auto simp: may_enter_def pending_skill_def same_skill_def skill_of_command_def Let_def)
    qed
  qed
  ultimately show "hub_ok (push_command pilot ss c waits ?h)"
    by (simp add: hub_ok_def push_command_def distinct_put_key list_all_put_key)
qed (simp_all add: push_command_def)

lemma law_commands:
  "hub_law s (s\<lparr>hub := forget_command i (hub s)\<rparr>)" "hub_law s (s\<lparr>hub := put_ack i a (hub s)\<rparr>)"
  "hub_law s (s\<lparr>hub := take_ack i (hub s)\<rparr>)"
proof -
  show "hub_law s (s\<lparr>hub := forget_command i (hub s)\<rparr>)"
    by (rule hub_lawI)
      (auto simp: hub_ok_def forget_command_def delete_key_def distinct_skills_filter distinct_map_filter list_all_iff)
qed (rule hub_lawI; simp add: hub_ok_def put_ack_def take_ack_def skill_commands_def)+

lemma law_pop: "hub_law s (s\<lparr>hub := pop_command i (hub s)\<rparr>)"
  by (rule hub_lawI)
    (auto simp: pop_command_def session_ok_def intro!: hub_ok_session split: option.splits)

lemma law_update: "hub_law s (s\<lparr>hub := update_session p (hub s)\<rparr>)"
  by (rule hub_lawI)
    (auto simp: update_session_def session_ok_def intro!: hub_ok_session split: option.splits)

lemma law_open: "hub_law s (s\<lparr>hub := open_session p (hub s)\<rparr>)"
  by (rule hub_lawI)
    (auto simp: open_session_def hub_ok_def skill_commands_def distinct_put_key session_ok_def
      intro!: list_all_put_key intro: session_ok_mono)

lemma hub_ok_drop_pending: "hub_ok h \<Longrightarrow> hub_ok (drop_pending_skill_commands i h)"
  by (auto simp: drop_pending_skill_commands_def hub_ok_def distinct_skills_filter distinct_map_filter list_all_iff)

lemma law_close: "hub_law s (s\<lparr>hub := close_previous i (hub s)\<rparr>)"
  by (rule hub_lawI)
    (auto simp: close_previous_def session_ok_def close_session_def intro!: hub_ok_drop_pending hub_ok_session
      split: option.splits, simp_all add: drop_pending_skill_commands_def)

lemma hub_ok_without_session: "hub_ok h \<Longrightarrow> hub_ok (h\<lparr>hb_sessions := delete_key i (hb_sessions h)\<rparr>)"
  by (auto simp: hub_ok_def skill_commands_def distinct_delete_key list_all_delete_key)

lemma law_remove: "hub_law s (s\<lparr>hub := remove_session i (hub s)\<rparr>)"
  by (rule hub_lawI)
    (simp_all add: remove_session_def hub_ok_drop_pending hub_ok_without_session, simp_all add: drop_pending_skill_commands_def)

lemma law_rivals: "close_rivals i j xs (hub s) = (b, h) \<Longrightarrow> hub_law s (s\<lparr>hub := h\<rparr>)"
proof (rule hub_lawI)
  have "hb_serials h = hb_serials h0 \<and> hb_device_events h = hb_device_events h0 \<and> hb_events h = hb_events h0 \<and>
      (hub_ok h0 \<longrightarrow> hub_ok h)" if "close_rivals i j xs h0 = (b, h)" for h0
    using that by (induction i j xs h0 rule: close_rivals.induct) (auto simp: hub_ok_without_session split: if_splits)
  moreover assume "close_rivals i j xs (hub s) = (b, h)"
  ultimately show "hb_serials (hub s) \<le> hb_serials h" "hb_device_events h = hb_device_events (hub s)"
    "hb_events h = hb_events (hub s)" "hub_ok (hub s) \<Longrightarrow> hub_ok h" by simp_all
qed

lemma upto_snoc: "(0::int) \<le> n \<Longrightarrow> [1..n] @ [n + 1] = [1..n + 1]"
  by (simp add: upto_rec2)

lemma law_device_event: "hub_law s (s\<lparr>hub := add_device_event now kind i typ n (hub s)\<rparr>)"
  by (auto simp: hub_law_def add_device_event_def Let_def hub_ok_def skill_commands_def list_all_iff deliver_def upto_snoc)

lemma law_simple:
  "hub_law s (s\<lparr>hub := add_robot_event ev (hub s)\<rparr>)" "hub_law s (s\<lparr>hub := add_subscriber (hub s)\<rparr>)"
  "hub_law s (s\<lparr>hub := remove_subscriber u (hub s)\<rparr>)" "hub_law s (s\<lparr>hub := start_robot_job j (hub s)\<rparr>)"
  "hub_law s (s\<lparr>hub := finish_robot_job j (hub s)\<rparr>)" "hub_law s (s\<lparr>hub := put_transfer tr (hub s)\<rparr>)"
  "hub_law s (s\<lparr>hub := drop_transfer i (hub s)\<rparr>)" "hub_law s (s\<lparr>hub := take_admission i (hub s)\<rparr>)"
  "hub_law s (s\<lparr>hub := free_admission i (hub s)\<rparr>)" "hub_law s (s\<lparr>hub := take_runtime_lock i (hub s)\<rparr>)"
  "hub_law s (s\<lparr>hub := free_runtime_lock i (hub s)\<rparr>)"
  by (auto simp: hub_law_def hub_ok_def skill_commands_def add_robot_event_def add_subscriber_def remove_subscriber_def
      start_robot_job_def finish_robot_job_def put_transfer_def drop_transfer_def take_admission_def free_admission_def
      take_runtime_lock_def free_runtime_lock_def list_all_iff distinct_put_key distinct_map_filter delete_key_def
      session_ok_def dest: put_key_set)

interpretation hub_robots: robot_service "\<lambda>_ _. True" hub_law
  by unfold_locales
    (simp_all add: keeps_def law_push law_commands law_pop law_update law_open law_close law_remove law_device_event
      law_simple hub_law_refl law_rivals, (erule (1) hub_law_trans | simp add: hub_law_def)+)

end
