(* ===== verification/RobotWired.thy ===== *)
theory RobotWired
  imports RobotHub
begin

text \<open>
  The two services together, as \<open>internal/bootstrap/wire_access.go\<close> wires them: the Robot service is
  the robot port of the Workflow service, and the Workflow service observes the Robot service behind
  the map checkpoint of \<open>robot_map_checkpoint.go\<close>.  \<open>fleet_step\<close> is one step of the whole server: a
  request or a goroutine of the Workflow service, a request to the Robot service or the orchestrator,
  a message of a Pilot, or a goroutine of the Robot service.

  The wiring is circular: the observer is built from the Workflow service, whose robot port is built
  from the Robot service.  A confirmed stop may make the observer stop other robots, and a stop that
  cannot be sent calls the observer again; that call never reaches a robot.  So the circle is cut at
  depth one, and \<open>wiring_is_closed\<close> shows that the result satisfies the wiring of the code exactly.
\<close>

section \<open>The observer\<close>

text \<open>\<open>sync\<close> is \<open>SyncSceneMapCheckpoint\<close> of the simulation service.\<close>

definition map_checkpoint ::
  "(string \<Rightarrow> string \<Rightarrow> string \<Rightarrow> (sys, unit) prog) \<Rightarrow> robot_execution \<Rightarrow> (sys, unit) prog" where
  "map_checkpoint sync e =
    (if e_status e \<noteq> ''completed'' \<or> (e_skill_name e \<noteq> ''grasp-object'' \<and> e_skill_name e \<noteq> ''place-object'') then ok ()
     else if e_subtask_id e = [] then ok ()
     else go (store (get_active_robot_pilot (e_robot_id e))) (\<lambda>p.
     if rp_backend p \<noteq> ''mujoco'' then ok ()
     else go (store (get_subtask (e_subtask_id e))) (\<lambda>x.
     if st_status x = WSCompleted then ok ()
     else attempt (store (get_latest_runtime_by_robot (e_robot_id e))) (\<lambda>r. case r of
       Inl err0 \<Rightarrow> err (Wrapped ''find the scene instance of the Robot'' err0)
     | Inr i \<Rightarrow>
         if ri_project_id i \<noteq> [] \<and> ri_project_id i \<noteq> e_project_id e then err (ErrText ''Robot Runtime of another Project'')
         else if ri_scene_instance_id i = [] then err (ErrText ''Robot Runtime without scene_instance_id'')
         else sync (e_project_id e) (ri_scene_instance_id i)
           (if e_skill_name e = ''place-object'' then ''robot_place_completed'' else ''robot_grasp_completed'')))))"

definition observer_chain :: "(robot_execution \<Rightarrow> string \<Rightarrow> any_map \<Rightarrow> (sys, unit) prog) list \<Rightarrow>
    robot_execution \<Rightarrow> string \<Rightarrow> any_map \<Rightarrow> (sys, unit) prog" where
  "observer_chain observers e typ payload = for_each (\<lambda>f. f e typ payload) observers"

section \<open>The wiring\<close>

definition workflow_side :: "robot_env \<Rightarrow> env \<Rightarrow> env" where
  "workflow_side P E = E\<lparr>env_robot_reply := Some (reply_agent_request P),
     env_robot_stop := Some \<lparr>rs_stop = robot_stop P, rs_confirm = confirm_operator_stop P\<rparr>\<rparr>"

text \<open>The observers of the Robot service when the Workflow service has the ports \<open>E\<close>.\<close>

definition observed_by :: "(string \<Rightarrow> string \<Rightarrow> string \<Rightarrow> (sys, unit) prog) \<Rightarrow> env \<Rightarrow> robot_env \<Rightarrow> robot_env" where
  "observed_by sync E P = P\<lparr>
     ro_observer := Some (observer_chain [\<lambda>e typ m. map_checkpoint sync e, on_robot_execution_changed E []]),
     ro_availability := Some (on_robot_availability_changed E [])\<rparr>"

definition wire_once :: "(string \<Rightarrow> string \<Rightarrow> string \<Rightarrow> (sys, unit) prog) \<Rightarrow> env \<Rightarrow> robot_env \<Rightarrow> robot_env" where
  "wire_once sync E P = observed_by sync (workflow_side P E) P"

definition robot_side :: "(string \<Rightarrow> string \<Rightarrow> string \<Rightarrow> (sys, unit) prog) \<Rightarrow> env \<Rightarrow> robot_env \<Rightarrow> robot_env" where
  "robot_side sync E P = observed_by sync (workflow_side (wire_once sync E P) E) P"

lemma workflow_side_fields [simp]:
  "env_planner (workflow_side P E) = env_planner E" "env_executor (workflow_side P E) = env_executor E"
  "env_resumer (workflow_side P E) = env_resumer E" "env_bus (workflow_side P E) = env_bus E"
  by (simp_all add: workflow_side_def)

subsection \<open>What the observer sees of the robot port\<close>

definition same_outside :: "env \<Rightarrow> env \<Rightarrow> bool" where
  "same_outside E F \<longleftrightarrow> env_resumer E = env_resumer F \<and> env_bus E = env_bus F \<and>
     (env_executor E = None \<longleftrightarrow> env_executor F = None) \<and> (env_robot_reply E = None \<longleftrightarrow> env_robot_reply F = None) \<and>
     (decision_executor E = None \<longleftrightarrow> decision_executor F = None) \<and>
     (recovery_executor E = None \<longleftrightarrow> recovery_executor F = None)"

lemma same_outside_fields:
  assumes "same_outside E F"
  shows "env_resumer E = env_resumer F" "env_bus E = env_bus F" "(env_executor E = None) = (env_executor F = None)"
    "(env_robot_reply E = None) = (env_robot_reply F = None)"
    "(decision_executor E = None) = (decision_executor F = None)"
    "(recovery_executor E = None) = (recovery_executor F = None)"
  using assms by (simp_all add: same_outside_def)

lemma same_outside_events:
  assumes "same_outside E F"
  shows "publish E = publish F" "publish_view E = publish_view F" "publish_current E = publish_current F"
    "append_milestone E = append_milestone F" "pause_robot_subtask E = pause_robot_subtask F"
    "converge_stopped_workflow E = converge_stopped_workflow F" "fail_task E = fail_task F"
proof -
  show p: "publish E = publish F"
    by (intro ext) (unfold publish_def same_outside_fields[OF assms], rule refl)
  show v: "publish_view E = publish_view F" by (intro ext) (unfold publish_view_def p, rule refl)
  show c: "publish_current E = publish_current F" by (intro ext) (unfold publish_current_def v, rule refl)
  show m: "append_milestone E = append_milestone F"
    by (intro ext) (unfold append_milestone_def post_milestone_def post_message_def publish_conversation_message_def p, rule refl)
  show "pause_robot_subtask E = pause_robot_subtask F" by (intro ext) (unfold pause_robot_subtask_def c m, rule refl)
  show "converge_stopped_workflow E = converge_stopped_workflow F"
    by (intro ext) (unfold converge_stopped_workflow_def c m, rule refl)
  show "fail_task E = fail_task F" by (intro ext) (unfold fail_task_def c m, rule refl)
qed

lemma same_outside_schedule:
  assumes "same_outside E F"
  shows "schedule E = schedule F"
proof (intro ext)
  have tasks: "schedule_tasks E = schedule_tasks F"
  proof (intro ext)
    fix c user w ts s
    show "schedule_tasks E c user w ts s = schedule_tasks F c user w ts s"
    proof (induction ts arbitrary: s)
      case (Cons t ts)
      then have IH: "schedule_tasks E c user w ts = schedule_tasks F c user w ts" by (intro ext)
      show ?case unfolding schedule_tasks.simps map_changed_def same_outside_events[OF assms] IH by (rule refl)
    qed simp
  qed
  show "schedule E c user i s = schedule F c user i s" for c user i s
    unfolding schedule_def tasks same_outside_fields[OF assms] by (rule refl)
qed

lemma same_outside_finish:
  assumes "same_outside E F"
  shows "continue_or_finish_task E = continue_or_finish_task F"
    "launch_robot_agent_decision E = launch_robot_agent_decision F" "launch_task_recovery E = launch_task_recovery F"
    "finish_stopping_robot_subtask E = finish_stopping_robot_subtask F" "state_unknown E = state_unknown F"
    "on_robot_availability_changed E = on_robot_availability_changed F"
proof -
  note same = same_outside_events[OF assms] same_outside_schedule[OF assms]
  have resume: "resume_workflow_terminal E = resume_workflow_terminal F"
    by (intro ext) (unfold resume_workflow_terminal_def same_outside_fields[OF assms], rule refl)
  have ended: "workflow_ended E = workflow_ended F" by (intro ext) (unfold workflow_ended_def same resume, rule refl)
  have failed: "fail_workflow E = fail_workflow F" by (intro ext) (unfold fail_workflow_def same ended, rule refl)
  have finish: "finish_or_schedule E = finish_or_schedule F"
    by (intro ext) (unfold finish_or_schedule_def same ended failed, rule refl)
  show launch: "launch_robot_agent_decision E = launch_robot_agent_decision F" "launch_task_recovery E = launch_task_recovery F"
    by (intro ext; unfold launch_robot_agent_decision_def launch_task_recovery_def same same_outside_fields[OF assms]; rule refl)+
  have ends: "complete_task E = complete_task F" "reconnect_decision E = reconnect_decision F" "next_run E = next_run F"
    by (intro ext; unfold complete_task_def reconnect_decision_def next_run_def same finish launch; rule refl)+
  show "continue_or_finish_task E = continue_or_finish_task F"
    by (intro ext) (unfold continue_or_finish_task_def ends same finish, rule refl)
  show "finish_stopping_robot_subtask E = finish_stopping_robot_subtask F"
    by (intro ext) (unfold finish_stopping_robot_subtask_def same, rule refl)
  show "state_unknown E = state_unknown F" by (intro ext) (unfold state_unknown_def same, rule refl)
  show "on_robot_availability_changed E = on_robot_availability_changed F"
    by (intro ext) (unfold on_robot_availability_changed_def reschedule_waiting_def same, rule refl)
qed

text \<open>A report of an interrupted Execution never reaches a robot.\<close>

lemma observer_interrupted:
  assumes "same_outside E F" "e_status e = ''interrupted''"
  shows "on_robot_execution_changed E c e typ m = on_robot_execution_changed F c e typ m"
proof -
  have status: "on_status E c t x e kind n = on_status F c t x e kind n" for t x kind n
    using assms(2) by (simp add: on_status_def same_outside_finish[OF assms(1)])
  show ?thesis unfolding on_robot_execution_changed_def status by (rule refl)
qed

text \<open>Every other report may stop robots, and uses nothing else of the port.\<close>

lemma observer_same_stop:
  assumes "same_outside E F"
    and stop: "map_option rs_stop (env_robot_stop E) = map_option rs_stop (env_robot_stop F)"
  shows "on_robot_execution_changed E = on_robot_execution_changed F"
proof (intro ext)
  note same = same_outside_events[OF assms(1)] same_outside_finish[OF assms(1)]
  have unknown: "pause_stopping_robot_subtask_unknown E = pause_stopping_robot_subtask_unknown F"
    by (intro ext) (unfold pause_stopping_robot_subtask_unknown_def same, rule refl)
  have settle: "settle_terminal_execution_for_stop E = settle_terminal_execution_for_stop F"
    by (intro ext) (unfold settle_terminal_execution_for_stop_def unknown, rule refl)
  have after: "after_failed_stop E = after_failed_stop F"
    by (intro ext) (unfold after_failed_stop_def unknown settle, rule refl)
  have robot: "stop_robot_subtask E = stop_robot_subtask F"
    using stop by (intro ext) (cases "env_robot_stop E"; cases "env_robot_stop F"; simp add: stop_robot_subtask_def after)
  have one: "stop_task_subtask E = stop_task_subtask F"
    by (intro ext) (unfold stop_task_subtask_def unknown settle robot, rule refl)
  have subtasks: "stop_task_subtasks E = stop_task_subtasks F"
    by (intro ext) (unfold stop_task_subtasks_def one, rule refl)
  have task: "stop_workflow_task E = stop_workflow_task F"
    by (intro ext) (unfold stop_workflow_task_def subtasks, rule refl)
  have tasks: "stop_workflow_tasks E = stop_workflow_tasks F"
    by (intro ext) (unfold stop_workflow_tasks_def task, rule refl)
  have stopped: "finish_confirmed_robot_stop E = finish_confirmed_robot_stop F"
    by (intro ext) (unfold finish_confirmed_robot_stop_def same tasks, rule refl)
  show "on_robot_execution_changed E c e kind m s = on_robot_execution_changed F c e kind m s" for c e kind m s
    by (unfold on_robot_execution_changed_def on_status_def on_completed_def on_failed_def
        on_failed_while_stopping_def on_stopped_def same stopped, rule refl)
qed

subsection \<open>The circle closes\<close>

text \<open>Two Robot services that differ in their observers only, which agree on interrupted Executions.\<close>

definition same_robot :: "robot_env \<Rightarrow> robot_env \<Rightarrow> bool" where
  "same_robot P R \<longleftrightarrow> ro_await P = ro_await R \<and> ro_send_wins P = ro_send_wins R \<and>
     (\<forall>e typ m. e_status e = ''interrupted'' \<longrightarrow> observe P e typ m = observe R e typ m)"

lemma same_robot_stop:
  assumes "same_robot P R"
  shows "robot_stop P = robot_stop R"
proof (intro ext)
  have await: "ro_await P = ro_await R" and wins: "ro_send_wins P = ro_send_wins R"
    using assms by (simp_all add: same_robot_def)
  have send: "send_command P = send_command R"
    by (intro ext) (unfold send_command_def enqueue_def wins, rule refl)
  have report: "observe P (e\<lparr>e_status := ''interrupted'', e_revision := n, e_error := x\<rparr>) =
      observe R (e\<lparr>e_status := ''interrupted'', e_revision := n, e_error := x\<rparr>)" for e n x
    using assms by (intro ext) (simp add: same_robot_def)
  have stop: "send_stop P = send_stop R"
    by (intro ext) (unfold send_stop_def Let_def send report, rule refl)
  have locked: "stop_locked P = stop_locked R"
    by (intro ext) (unfold stop_locked_def stop, rule refl)
  show "robot_stop P project i reason s = robot_stop R project i reason s" for project i reason s
    unfolding robot_stop_def blocking_admission_def await locked by (rule refl)
qed

lemma same_outside_workflow_side: "same_outside (workflow_side P E) (workflow_side R E)"
  by (simp add: same_outside_def workflow_side_def decision_executor_def recovery_executor_def)

lemma observed_by_cong:
  assumes "on_robot_execution_changed E = on_robot_execution_changed F"
    "on_robot_availability_changed E = on_robot_availability_changed F"
  shows "observed_by sync E P = observed_by sync F P"
  by (simp add: observed_by_def assms)

lemma observed_by_interrupted:
  assumes "same_outside E F"
  shows "same_robot (observed_by sync E P) (observed_by sync F P)"
  by (simp add: same_robot_def observed_by_def observe_def observer_chain_def observer_interrupted[OF assms])

theorem wiring_is_closed:
  "robot_side sync E P = observed_by sync (workflow_side (robot_side sync E P) E) P"
proof -
  let ?W = "wire_once sync E P" and ?R = "robot_side sync E P"
  have "same_robot ?W ?R"
    unfolding wire_once_def robot_side_def by (rule observed_by_interrupted[OF same_outside_workflow_side])
  then have "map_option rs_stop (env_robot_stop (workflow_side ?W E)) = map_option rs_stop (env_robot_stop (workflow_side ?R E))"
    using same_robot_stop by (simp add: workflow_side_def)
  note changed = observer_same_stop[OF same_outside_workflow_side this]
  have "?R = observed_by sync (workflow_side ?W E) P" by (rule robot_side_def)
  also have "\<dots> = observed_by sync (workflow_side ?R E) P"
    by (rule observed_by_cong[OF changed]) (rule same_outside_finish(6)[OF same_outside_workflow_side])
  finally show ?thesis .
qed

end
