(* ===== verification/FleetServer.thy ===== *)
theory FleetServer
  imports RobotWired
begin

text \<open>
  The whole server as a step relation: the requests and goroutines of the Workflow service, the
  requests to the Robot service and the orchestrator, the messages of the Pilots and the goroutines
  of the Robot service, in any order, with the two services wired to each other.  The laws of the
  store and the invariant of the Robot service's memory hold along every run.
\<close>

section \<open>Requests\<close>

datatype fleet_request =
    RegisterPilot string robot_pilot "robot_pilot_skill list"
  | PilotMessage string uplink
  | PilotReads string
  | PilotGone string nat
  | RunSkill ctx run_request
  | StopSkill string string string
  | HoldConfirmed string string string string
  | StopDirect string
  | FinishDirect string
  | InstallSkill string string string
  | EnableSkill string string string bool
  | UninstallSkill string string string
  | DesireSkill string string string bool
  | DropSkill string string
  | NewEnrollment string string
  | ClaimEnrollment string string string
  | RevokeEnrollment string
  | StartDebug string string string any_map
  | StopDebug string string
  | DescribeInput string string string
  | FollowDevices int
  | UnfollowDevices nat
  | Download string string
  | Upload string string int
  | StartRuntime start_request
  | StopRuntime string string
  | DegradeRuntime string string
  | ReclaimRuntime string string bool string

text \<open>
  The parts around the two services: the orchestrator with its launcher, the simulation service
  behind the map checkpoint, the JSON Schema compiler and the body of an upload.
\<close>

record surroundings =
  su_orch :: orch_env
  su_sync :: "string \<Rightarrow> string \<Rightarrow> string \<Rightarrow> (sys, unit) prog"
  su_compiles :: "any_map \<Rightarrow> bool"
  su_upload :: "project \<Rightarrow> transfer \<Rightarrow> (sys, artifact) prog"

definition serve_fleet :: "robot_env \<Rightarrow> surroundings \<Rightarrow> fleet_request \<Rightarrow> (sys, unit) prog" where
  "serve_fleet R W q = (case q of
     RegisterPilot token p skills \<Rightarrow> void (gateway_register R token p skills)
   | PilotMessage pilot m \<Rightarrow> void (gateway_message R pilot m)
   | PilotReads pilot \<Rightarrow> void (next_command pilot)
   | PilotGone pilot serial \<Rightarrow> disconnect pilot serial
   | RunSkill c r \<Rightarrow> void (robot_run R c r)
   | StopSkill p i reason \<Rightarrow> void (robot_stop R p i reason)
   | HoldConfirmed p robot i reason \<Rightarrow> confirm_managed_simulation_hold R p robot i reason
   | StopDirect i \<Rightarrow> stop_direct_run R i
   | FinishDirect i \<Rightarrow> finish_direct_run R i
   | InstallSkill pilot name version \<Rightarrow> install_skill R pilot name version
   | EnableSkill pilot name version b \<Rightarrow> set_skill_enabled R pilot name version b
   | UninstallSkill pilot name version \<Rightarrow> uninstall_skill R pilot name version
   | DesireSkill robot name version b \<Rightarrow> void (set_desired_skill R robot name version b)
   | DropSkill robot name \<Rightarrow> remove_desired_skill R robot name
   | NewEnrollment code user \<Rightarrow> void (create_pilot_enrollment code user)
   | ClaimEnrollment secret code pilot \<Rightarrow> void (claim_enrollment secret code pilot)
   | RevokeEnrollment i \<Rightarrow> revoke_pilot_enrollment i
   | StartDebug robot i name m \<Rightarrow> void (start_ability_debug R robot i name m)
   | StopDebug robot i \<Rightarrow> void (stop_ability_debug R robot i)
   | DescribeInput robot name version \<Rightarrow> void (describe_skill_input R (su_compiles W) robot name version)
   | FollowDevices n \<Rightarrow> void (subscribe_devices n)
   | UnfollowDevices k \<Rightarrow> unsubscribe_devices k
   | Download token pilot \<Rightarrow> void (serve_download token pilot)
   | Upload token pilot n \<Rightarrow> serve_upload (su_upload W) token pilot n
   | StartRuntime r \<Rightarrow> void (runtime_start (su_orch W) r)
   | StopRuntime i reason \<Rightarrow> void (runtime_stop (su_orch W) i reason)
   | DegradeRuntime i reason \<Rightarrow> void (mark_degraded (su_orch W) i reason)
   | ReclaimRuntime i scene hold reason \<Rightarrow> void (reclaim_simulation (su_orch W) i scene hold reason))"

definition start_fleet_job :: "robot_env \<Rightarrow> robot_job \<Rightarrow> sys \<Rightarrow> sys" where
  "start_fleet_job R j s = snd (run_robot_job R j (s\<lparr>hub := finish_robot_job j (hub s)\<rparr>))"

section \<open>Runs\<close>

text \<open>Reports about robots come from the Robot service only, which calls the observer.\<close>

definition outside :: "request \<Rightarrow> bool" where
  "outside r = (case r of RobotChanged c e typ m \<Rightarrow> False | RobotAvailable c robot \<Rightarrow> False | _ \<Rightarrow> True)"

inductive fleet_step :: "env \<Rightarrow> robot_env \<Rightarrow> surroundings \<Rightarrow> renderer \<Rightarrow> sys \<Rightarrow> sys \<Rightarrow> bool"
  for E P W render where
  fleet_request: "outside r \<Longrightarrow>
    fleet_step E P W render s (snd (serve (workflow_side (robot_side (su_sync W) E P) E) render r s))"
| fleet_workflow_job: "j \<in> set (jobs s) \<Longrightarrow>
    fleet_step E P W render s (start_job (workflow_side (robot_side (su_sync W) E P) E) j s)"
| fleet_robot: "fleet_step E P W render s (snd (serve_fleet (robot_side (su_sync W) E P) W q s))"
| fleet_robot_job: "j \<in> set (hb_jobs (hub s)) \<Longrightarrow>
    fleet_step E P W render s (start_fleet_job (robot_side (su_sync W) E P) j s)"
| fleet_time: "clock s \<le> now \<Longrightarrow> fleet_step E P W render s (s\<lparr>clock := now\<rparr>)"

inductive_cases fleet_stepE: "fleet_step E P W render s t"

definition fleet_run :: "env \<Rightarrow> robot_env \<Rightarrow> surroundings \<Rightarrow> renderer \<Rightarrow> sys \<Rightarrow> sys \<Rightarrow> bool" where
  "fleet_run E P W render = (fleet_step E P W render)\<^sup>*\<^sup>*"

text \<open>An executable run.\<close>

datatype fleet_event =
    AtWorkflow request
  | AtFleet fleet_request
  | WorkflowJob nat
  | RobotJob nat
  | Wait time

fun play_fleet :: "env \<Rightarrow> robot_env \<Rightarrow> surroundings \<Rightarrow> renderer \<Rightarrow> fleet_event list \<Rightarrow> sys \<Rightarrow> sys" where
  "play_fleet E P W render [] s = s"
| "play_fleet E P W render (e # es) s = play_fleet E P W render es (case e of
     AtWorkflow r \<Rightarrow> if outside r
       then snd (serve (workflow_side (robot_side (su_sync W) E P) E) render r s) else s
   | AtFleet q \<Rightarrow> snd (serve_fleet (robot_side (su_sync W) E P) W q s)
   | WorkflowJob n \<Rightarrow> if n < length (jobs s)
       then start_job (workflow_side (robot_side (su_sync W) E P) E) (jobs s ! n) s else s
   | RobotJob n \<Rightarrow> if n < length (hb_jobs (hub s))
       then start_fleet_job (robot_side (su_sync W) E P) (hb_jobs (hub s) ! n) s else s
   | Wait n \<Rightarrow> s\<lparr>clock := clock s + n\<rparr>)"

lemma fleet_run_refl: "fleet_run E P W render s s"
  by (simp add: fleet_run_def)

lemma fleet_run_step:
  "fleet_step E P W render s t \<Longrightarrow> fleet_run E P W render t u \<Longrightarrow> fleet_run E P W render s u"
  unfolding fleet_run_def by (rule converse_rtranclp_into_rtranclp)

lemma fleet_event_step:
  "fleet_step E P W render s (play_fleet E P W render [e] s) \<or> play_fleet E P W render [e] s = s"
  by (cases e) (auto intro: fleet_request fleet_workflow_job fleet_robot fleet_robot_job fleet_time)

lemma play_fleet_runs: "fleet_run E P W render s (play_fleet E P W render es s)"
proof (induction es arbitrary: s)
  case (Cons e es)
  let ?t = "play_fleet E P W render [e] s"
  have "play_fleet E P W render (e # es) s = play_fleet E P W render es ?t" by simp
  then show ?case using Cons.IH[of ?t] fleet_event_step[of E P W render s e] by (auto intro: fleet_run_step)
qed (simp add: fleet_run_refl)

section \<open>Every run keeps the relation\<close>

text \<open>What the parts around the services do.\<close>

definition surroundings_keep :: "(sys \<Rightarrow> sys \<Rightarrow> bool) \<Rightarrow> surroundings \<Rightarrow> bool" where
  "surroundings_keep Q W \<longleftrightarrow> orch_ports_keep Q (su_orch W) \<and> (\<forall>p i r. keeps Q (su_sync W p i r)) \<and>
     (\<forall>p tr. keeps Q (su_upload W p tr))"

context robot_service
begin

lemma keeps_observers:
  assumes "ports_keep Q E" "robot_ports_keep Q P" "\<And>p i r. keeps Q (sync p i r)"
  shows "robot_ports_keep Q (observed_by sync E P)"
proof -
  have "keeps Q (map_checkpoint sync e)" for e
    unfolding map_checkpoint_def by (intro robot_rules assms(3))
  then have "keeps Q (observer_chain [\<lambda>e kind m. map_checkpoint sync e, on_robot_execution_changed E []] e kind m)"
    for e kind m
    unfolding observer_chain_def for_each.simps by (intro robot_rules keeps_robot_changed assms(1))
  then show ?thesis
    using assms(2) keeps_availability by (auto simp: robot_ports_keep_def observed_by_def)
qed

lemma keeps_workflow_side:
  assumes "ports_keep Q E" "robot_ports_keep Q P"
  shows "ports_keep Q (workflow_side P E)"
  using assms(1) keeps_stop[OF assms(2)] keeps_confirm[OF assms(2)] by (auto simp: ports_keep_def stopper_keeps_def workflow_side_def)

lemma keeps_serve_fleet:
  assumes R: "robot_ports_keep Q R'" and W: "surroundings_keep Q W"
  shows "keeps Q (serve_fleet R' W q)"
proof -
  have G: "orch_ports_keep Q (su_orch W)" and up: "keeps Q (su_upload W p tr)" for p tr
    using W by (simp_all add: surroundings_keep_def)
  note rules = keeps_fleet_gateway[OF R] keeps_gateway_message[OF R] keeps_connections[OF R] keeps_robot_run[OF R] keeps_stop[OF R] keeps_confirm[OF R]
    keeps_direct_runs[OF R] keeps_skill_commands keeps_desired keeps_joining keeps_debug[OF R] keeps_publish
    keeps_transfers keeps_artifacts(2)[OF up] keeps_runtimes[OF G] keeps_pilot_pointer
  show ?thesis
    unfolding serve_fleet_def void_def
    by (cases q; simp only: fleet_request.case; intro whole.keeps_go whole.keeps_ok rules)
qed

lemma fleet_step_keeps:
  assumes E: "ports_keep Q E" and P: "robot_ports_keep Q P" and W: "surroundings_keep Q W"
    and step: "fleet_step E P W render s t"
  shows "Q s t"
proof -
  let ?R = "robot_side (su_sync W) E P"
  have sync: "keeps Q (su_sync W p i r)" for p i r using W by (simp add: surroundings_keep_def)
  have R: "robot_ports_keep Q ?R"
    unfolding robot_side_def wire_once_def by (intro keeps_observers keeps_workflow_side E P sync)
  note F = keeps_workflow_side[OF E R]
  show ?thesis using step
  proof cases
    case (fleet_request r)
    then show ?thesis using keepsD[OF keeps_serve[OF F]] by simp
  next
    case (fleet_workflow_job j)
    then show ?thesis using step_keeps[OF F step_job] by simp
  next
    case (fleet_robot q)
    then show ?thesis using keepsD[OF keeps_serve_fleet[OF R W]] by simp
  next
    case (fleet_robot_job j)
    have "Q s (s\<lparr>hub := finish_robot_job j (hub s)\<rparr>)" by (rule moves_jobs)
    moreover have "Q (s\<lparr>hub := finish_robot_job j (hub s)\<rparr>) t"
      unfolding fleet_robot_job(1) start_fleet_job_def by (rule keepsD[OF keeps_fleet_gateway(2)[OF R]])
    ultimately show ?thesis by (rule whole.frame_trans)
  next
    case (fleet_time now)
    then show ?thesis by (simp add: moves_memory)
  qed
qed

theorem fleet_run_keeps:
  assumes "ports_keep Q E" "robot_ports_keep Q P" "surroundings_keep Q W" "fleet_run E P W render s t"
  shows "Q s t"
  using assms(4) unfolding fleet_run_def
  by (induction rule: rtranclp_induct) (auto intro: whole.frame_refl whole.frame_trans fleet_step_keeps[OF assms(1-3)])

end

text \<open>The three laws along the runs of the whole server.\<close>

definition parts_keep :: "(sys \<Rightarrow> sys \<Rightarrow> bool) \<Rightarrow> env \<Rightarrow> robot_env \<Rightarrow> surroundings \<Rightarrow> bool" where
  "parts_keep Q E P W \<longleftrightarrow> ports_keep Q E \<and> robot_ports_keep Q P \<and> surroundings_keep Q W"

lemma lawful_fleet_run:
  "parts_keep (on_db lawful) E P W \<Longrightarrow> fleet_run E P W render s t \<Longrightarrow> lawful (dbase s) (dbase t)"
  using lawful_robots.fleet_run_keeps[of E P W render s t] by (simp add: parts_keep_def on_db_def)

lemma growing_fleet_run:
  "parts_keep (on_db logs_grow) E P W \<Longrightarrow> fleet_run E P W render s t \<Longrightarrow> logs_grow (dbase s) (dbase t)"
  using growing_robots.fleet_run_keeps[of E P W render s t] by (simp add: parts_keep_def on_db_def)

lemma hub_fleet_run: "parts_keep hub_law E P W \<Longrightarrow> fleet_run E P W render s t \<Longrightarrow> hub_law s t"
  using hub_robots.fleet_run_keeps[of E P W render s t] by (simp add: parts_keep_def)

end
