(* ===== verification/RobotGuarantees.thy ===== *)
theory RobotGuarantees
  imports FleetServer
begin

text \<open>
  What single operations of the Robot service and the orchestrator promise: a \<open>Run\<close> that fails leaves
  no new active Execution behind, and a Runtime whose stop is not confirmed keeps its port.
\<close>

section \<open>A failed Run leaves no active Execution\<close>

definition live_of :: "string \<Rightarrow> db \<Rightarrow> string set" where
  "live_of robot d = xr_id ` {x \<in> set (executions d). xr_robot_id x = robot \<and> live_execution x}"

lemma live_execution_active: "live_execution x \<longleftrightarrow> active_robot_status (xr_status x)"
  by (simp add: live_execution_def live_execution_statuses_def active_robot_status_def)

definition no_new_live :: "string \<Rightarrow> sys \<Rightarrow> sys \<Rightarrow> bool" where
  "no_new_live robot s t \<longleftrightarrow> live_of robot (dbase t) \<subseteq> live_of robot (dbase s)"

interpretation calm_robot: frame_relation "no_new_live robot" for robot
  by unfold_locales (auto simp: no_new_live_def)

abbreviation still :: "sys \<Rightarrow> sys \<Rightarrow> bool" where
  "still \<equiv> on_db same_executions"

lemma still_no_new: "keeps still m \<Longrightarrow> keeps (no_new_live robot) m"
  by (erule keeps_weaken) (simp add: on_db_def same_executions_def no_new_live_def live_of_def)

text \<open>
  Saving an Execution that is no longer active ends it.  \<open>ends\<close> is a program whose failures end the
  Execution \<open>i\<close>, whose row it finds; all else it does leaves the Executions alone.
\<close>

definition row_present :: "string \<Rightarrow> db \<Rightarrow> bool" where
  "row_present i d \<longleftrightarrow> execution_violation (executions d) = None \<and> find_by xr_id i (executions d) \<noteq> None"

definition ends :: "string \<Rightarrow> string \<Rightarrow> (sys, 'a) prog \<Rightarrow> bool" where
  "ends robot i m \<longleftrightarrow> (\<forall>s t x. row_present i (dbase s) \<and> m s = (Inl x, t) \<longrightarrow>
     live_of robot (dbase t) \<subseteq> live_of robot (dbase s) - {i})"

lemma save_ended:
  assumes "row_present (e_id f) d" "\<not> active_robot_status (e_status f)"
  shows "live_of robot (snd (save_robot_execution f d)) \<subseteq> live_of robot d - {e_id f}"
proof -
  let ?g = "\<lambda>x. x\<lparr>xr_status := e_status f, xr_revision := e_revision f, xr_updated_at := e_updated_at f,
        xr_body := f, xr_subtask_id := e_subtask_id f\<rparr>"
  let ?rows = "update_where (\<lambda>x. xr_id x = e_id f) ?g (executions d)"
  have ids: "map xr_id ?rows = map xr_id (executions d)"
    "map (\<lambda>x. (xr_project_id x, xr_request_key x)) ?rows = map (\<lambda>x. (xr_project_id x, xr_request_key x)) (executions d)"
    by (simp_all add: update_where_def)
  have "execution_violation ?rows = execution_violation (executions d)"
    unfolding execution_violation_def ids by (rule refl)
  then have "snd (save_robot_execution f d) = d\<lparr>executions := ?rows\<rparr>"
    using assms(1) by (auto simp: row_present_def save_robot_execution_def run_simps exec_executions_def checked_def)
  then show ?thesis
    using assms(2) by (auto simp: live_of_def live_execution_active update_where_def split: if_splits)
qed

lemma still_same: "keeps still m \<Longrightarrow> executions (dbase (snd (m s))) = executions (dbase s)"
  by (auto simp: on_db_def same_executions_def dest: keepsD[of _ _ s])

lemma ends_ok: "ends robot i (ok x)"
  by (simp add: ends_def run_simps)

lemma ends_attempt:
  assumes "keeps still m" "\<And>r. ends robot i (k r)"
  shows "ends robot i (attempt m k)"
proof -
  have same: "row_present i (dbase (snd (m s))) = row_present i (dbase s)"
    "live_of r (dbase (snd (m s))) = live_of r (dbase s)" for s r
    by (simp_all add: row_present_def live_of_def still_same[OF assms(1)])
  show ?thesis using assms(2) unfolding ends_def run_attempt by (metis same)
qed

lemma ends_go:
  assumes "keeps still m" "\<And>s. fst (m s) = Inr ()" "\<And>x. ends robot i (k x)"
  shows "ends robot i (go m k)"
proof -
  have "go m k = attempt m (\<lambda>_. k ())"
    using assms(2) by (intro ext) (simp add: run_simps split: prod.splits sum.splits, metis fst_conv sum.simps(4))
  then show ?thesis using ends_attempt[OF assms(1,3)] by simp
qed

lemma ends_save:
  assumes "e_id f = i" "\<not> active_robot_status (e_status f)" "keeps still m"
  shows "ends robot i (ignoring (store (save_robot_execution f)) m)"
proof -
  have "live_of robot (dbase t) \<subseteq> live_of robot (dbase s) - {i}"
    if "row_present i (dbase s)" "m (s\<lparr>dbase := snd (save_robot_execution f (dbase s))\<rparr>) = (Inl x, t)" for s t x
    using save_ended[of f "dbase s" robot] still_same[OF assms(3), of "s\<lparr>dbase := snd (save_robot_execution f (dbase s))\<rparr>"]
      that assms(1,2) by (simp add: live_of_def)
  then show ?thesis by (auto simp: ends_def run_simps)
qed

lemma ends_at_now: "(\<And>n. ends robot i (k n)) \<Longrightarrow> ends robot i (at_now k)"
  unfolding ends_def run_simps by blast

lemma publishes:
  "fst (publish_execution e kind s) = Inr ()" "fst (set_pilot_execution R p j s) = Inr ()"
  by (simp_all add: publish_execution_def publish_robot_event_def publish_device_def set_pilot_execution_def
      publish_pilot_view_def notify_robot_available_def run_simps run_on_hub Let_def)

lemma start_admitted_ends:
  "ends robot (e_id e) (start_admitted R c q p e)"
proof -
  note still = still_robots.keeps_transfers still_robots.keeps_scopes still_robots.keeps_publish
    still_robots.keeps_pilot_pointer still_robots.keeps_sends
  have dispatch: "ends robot (e_id e) (dispatch R p e downloads)" for downloads
    unfolding dispatch_def Let_def
    by (intro ends_go ends_attempt ends_at_now ends_save publishes still still_robots.robot_rules)
      (auto split: sum.split intro!: ends_ok ends_at_now ends_save still still_robots.robot_rules simp: active_robot_status_def)
  show ?thesis
    unfolding start_admitted_def Let_def
    by (intro ends_attempt still)
      (auto split: sum.split intro!: ends_attempt ends_save dispatch still still_robots.robot_rules simp: active_robot_status_def)
qed

text \<open>A program whose failures start nothing.\<close>

definition refuses :: "string \<Rightarrow> (sys, 'a) prog \<Rightarrow> bool" where
  "refuses robot m \<longleftrightarrow> (\<forall>s t x. m s = (Inl x, t) \<longrightarrow> no_new_live robot s t)"

lemma refuses_keeps: "keeps (no_new_live robot) m \<Longrightarrow> refuses robot m"
  unfolding refuses_def by (blast dest: keeps_run)

lemma refuses_go: "keeps (no_new_live robot) m \<Longrightarrow> (\<And>x. refuses robot (k x)) \<Longrightarrow> refuses robot (go m k)"
  unfolding refuses_def go_Inl_iff by (blast dest: keeps_run intro: calm_robot.frame_trans)

lemma refuses_attempt: "keeps (no_new_live robot) m \<Longrightarrow> (\<And>r. refuses robot (k r)) \<Longrightarrow> refuses robot (attempt m k)"
  unfolding refuses_def run_attempt by (blast dest: keepsD intro: calm_robot.frame_trans)

lemma refuses_reading: "(\<And>s. refuses robot (k s)) \<Longrightarrow> refuses robot (reading k)"
  unfolding refuses_def run_reading by blast

lemma refuses_at_now: "(\<And>n. refuses robot (k n)) \<Longrightarrow> refuses robot (at_now k)"
  unfolding refuses_def run_at_now by blast

lemma refuses_holding:
  assumes "refuses robot m"
  shows "refuses robot (holding_admission i m)"
proof -
  have "live_of robot (dbase (snd (m s))) \<subseteq> live_of robot (dbase s)" if "fst (m s) = Inl e" for s e
    using assms that unfolding refuses_def no_new_live_def by (metis prod.collapse)
  from this[of "s\<lparr>hub := take_admission i (hub s)\<rparr>" for s] show ?thesis
    by (auto simp: refuses_def holding_admission_def lock_admission_def unlock_admission_def run_simps run_on_hub
      no_new_live_def split: sum.splits)
qed

lemma refuses_if: "refuses robot m \<Longrightarrow> refuses robot n \<Longrightarrow> refuses robot (if b then m else n)"
  by simp

lemma refuses_case_sum:
  "(\<And>x. refuses robot (f x)) \<Longrightarrow> (\<And>y. refuses robot (g y)) \<Longrightarrow> refuses robot (case r of Inl x \<Rightarrow> f x | Inr y \<Rightarrow> g y)"
  by (cases r) simp_all

lemma refuses_err: "refuses robot (err e)"
  by (rule refuses_keeps[OF calm_robot.keeps_err])

lemma refuses_ok: "refuses robot (ok x)"
  by (rule refuses_keeps[OF calm_robot.keeps_ok])

lemmas refuses_rules = refuses_err refuses_ok refuses_if refuses_case_sum refuses_reading refuses_at_now refuses_go
  refuses_attempt refuses_holding
lemma admitted_row:
  assumes "admit_robot_execution item agent d = (Inr (e, True), d')"
  shows "e = item \<and> row_present (e_id e) d' \<and> live_of robot d' \<subseteq> insert (e_id e) (live_of robot d)"
proof -
  have "execution_violation (executions d') = None"
    using assms by (auto simp: admit_robot_execution_def admit_robot_execution_tx_def go_Inr_iff split: option.splits
        dest!: admit_new_Inr)
  then show ?thesis
    using admit_Inr_new[OF assms]
    by (auto simp: row_present_def live_of_def execution_row_of_def find_by_append split: option.split)
qed

lemma admission_refuses: "refuses robot (admit_and_start R c q p input)"
  unfolding admit_and_start_def
proof (intro refuses_at_now refuses_go still_no_new still_robots.keeps_fresh)
  fix now i
  show "refuses robot (attempt (store (admit_robot_execution (new_execution R q input p now i) (rq_agent_id q))) (\<lambda>r. case r of
       Inl x \<Rightarrow> err (admission_error q x)
     | Inr (e, created) \<Rightarrow>
         if \<not> created then (if same_run_request R e q then ok e else err ErrRequestConflict)
         else start_admitted R c q p e))"
    unfolding refuses_def
  proof (intro allI impI)
    fix s t :: sys and x
    let ?a = "admit_robot_execution (new_execution R q input p now i) (rq_agent_id q) (dbase s)"
    assume run: "attempt (store (admit_robot_execution (new_execution R q input p now i) (rq_agent_id q))) (\<lambda>r. case r of
       Inl x \<Rightarrow> err (admission_error q x)
     | Inr (e, created) \<Rightarrow>
         if \<not> created then (if same_run_request R e q then ok e else err ErrRequestConflict)
         else start_admitted R c q p e) s = (Inl x, t)"
    obtain r d where a: "?a = (r, d)" by fastforce
    show "no_new_live robot s t"
    proof (cases "\<exists>e. r = Inr (e, True)")
      case True
      then obtain e where e: "r = Inr (e, True)" by blast
      note row = admitted_row[OF a[unfolded e], of robot]
      from run have "start_admitted R c q p e (s\<lparr>dbase := d\<rparr>) = (Inl x, t)" by (simp add: run_simps a e)
      with row have "live_of robot (dbase t) \<subseteq> live_of robot d - {e_id e}"
        using start_admitted_ends[of robot e R c q p, unfolded ends_def, rule_format, of "s\<lparr>dbase := d\<rparr>"] by auto
      with row show ?thesis by (auto simp: no_new_live_def)
    next
      case False
      have "live_of robot d = live_of robot (dbase s)"
      proof (cases r)
        case (Inl e)
        then show ?thesis using a by (auto simp: admit_robot_execution_def tx_def live_of_def split: prod.splits sum.splits)
      next
        case (Inr y)
        with False a show ?thesis by (cases y) (auto dest!: admit_Inr_old)
      qed
      moreover from run False have "dbase t = d"
        by (auto simp: run_simps a split: sum.splits prod.splits if_splits)
      ultimately show ?thesis by (simp add: no_new_live_def)
    qed
  qed
qed

lemma waiting_starts_nothing:
  assumes "\<And>i. keeps (no_new_live robot) (ro_wait R i)"
  shows "keeps (no_new_live robot) (validated_input R q p)"
proof -
  have "keeps (no_new_live robot) (await_ack R i)" for i
    unfolding await_ack_def
    by (intro calm_robot.keeps_go calm_robot.keeps_reading assms)
      (auto split: wait_end.split option.split intro!: still_no_new still_robots.robot_rules still_robots.keeps_hub)
  then show ?thesis
    unfolding validated_input_def send_command_and_wait_def
    by (intro calm_robot.keeps_go calm_robot.keeps_attempt calm_robot.keeps_case_sum still_no_new[OF still_robots.keeps_fresh]
      still_no_new[OF still_robots.keeps_enqueue]) (auto intro: calm_robot.keeps_rules simp: is_skill_command_def)
qed

theorem failed_run_starts_nothing:
  assumes "\<And>i. keeps (no_new_live robot) (ro_wait R i)"
  shows "refuses robot (robot_run R c q)"
proof -
  note still = still_robots.keeps_scopes[THEN still_no_new]
  have store: "keeps (no_new_live robot) (store m)" if "keeps same_executions m" for m :: "(db, 'x) prog"
    using that by (intro still_no_new still_robots.robot_rules)
  show ?thesis
    unfolding robot_run_def run_locked_def
    by (intro refuses_rules admission_refuses waiting_starts_nothing[OF assms] still store calm_robot.keeps_if
      calm_robot.keeps_ok calm_robot.keeps_err still_robots.keeps_robot_gets)
qed

section \<open>A port is kept until the stop is confirmed\<close>

definition same_runtimes :: "sys \<Rightarrow> sys \<Rightarrow> bool" where
  "same_runtimes s t \<longleftrightarrow> port_leases (dbase t) = port_leases (dbase s) \<and>
     runtime_instances (dbase t) = runtime_instances (dbase s)"

text \<open>The launcher never confirms a stop, and leaves the tables alone.\<close>

definition never_confirms :: "orch_env \<Rightarrow> bool" where
  "never_confirms E \<longleftrightarrow> (\<forall>r reason s. fst (la_stop (oe_launcher E) r reason s) \<noteq> Inr True \<and>
     same_runtimes s (snd (la_stop (oe_launcher E) r reason s)))"

lemma saved_runtime:
  "save_and_publish r typ s = (x, t) \<Longrightarrow> x = Inr () \<and> port_leases (dbase t) = port_leases (dbase s) \<and>
     runtime_instances (dbase t) = upsert ri_id r (runtime_instances (dbase s))"
  by (auto simp: save_and_publish_def save_runtime_instance_def publish_runtime_event_def publish_device_def
      publish_robot_event_def run_simps run_on_hub split: if_splits)

lemma interrupted_runtime:
  assumes "interrupt_stop r step cause s = (x, t)"
  shows "(\<exists>e. x = Inl e) \<and> port_leases (dbase t) = port_leases (dbase s) \<and>
    (\<exists>r'. find_by ri_id (ri_id r) (runtime_instances (dbase t)) = Some r' \<and> ri_status r' = RtInterrupted)"
proof -
  let ?f = "bump_runtime (clock s) (r\<lparr>ri_status := RtInterrupted, ri_failure_reason :=
       step @ '': '' @ (case cause of Some e \<Rightarrow> error_text e | None \<Rightarrow> ''no evidence of a stop'')\<rparr>)"
  obtain y u where saved: "save_and_publish ?f ''robot.runtime.interrupted'' s = (y, u)" by fastforce
  with assms have "t = u" "\<exists>e. x = Inl e"
    by (auto simp: interrupt_stop_def Let_def run_at_now run_ignoring)
  with saved_runtime[OF saved] show ?thesis by (simp add: find_by_upsert bump_runtime_def)
qed

lemma unconfirmed_stop_instance:
  assumes "never_confirms E" "stop_instance E r reason s = (x, t)"
  shows "port_leases (dbase t) = port_leases (dbase s) \<and>
    (if ri_status r \<in> {RtStopped, RtFailed} then x = Inr r \<and> runtime_instances (dbase t) = runtime_instances (dbase s)
     else (\<exists>e. x = Inl e) \<and>
       (\<exists>r'. find_by ri_id (ri_id r) (runtime_instances (dbase t)) = Some r' \<and> ri_status r' = RtInterrupted))"
proof (cases "ri_status r \<in> {RtStopped, RtFailed}")
  case True
  with assms(2) show ?thesis by (auto simp: stop_instance_def)
next
  case False
  let ?f = "bump_runtime (clock s) (r\<lparr>ri_status := RtStopping, ri_failure_reason := []\<rparr>)"
  obtain y u where saved: "save_and_publish ?f ''robot.runtime.stopping'' s = (y, u)" by fastforce
  obtain v w where stop: "la_stop (oe_launcher E) ?f reason u = (v, w)" by fastforce
  then have v: "\<not> confirmed v" and w: "same_runtimes u w"
    using assms(1)[unfolded never_confirms_def, rule_format, of ?f reason u] by (simp_all add: confirmed_def)
  note saved' = saved_runtime[OF saved]
  have "stop_instance E r reason s = interrupt_stop ?f ''robot_instance'' (cause_of v) w"
    using False saved saved' stop v by (simp add: stop_instance_def Let_def run_at_now run_go run_attempt)
  with assms(2) interrupted_runtime[of ?f "''robot_instance''" "cause_of v" w x t] saved' w False show ?thesis
    by (simp add: bump_runtime_def same_runtimes_def)
qed

theorem unconfirmed_stop_keeps_the_port:
  assumes "never_confirms E" "runtime_stop E i reason s = (x, t)"
    and "\<forall>r. find_by ri_id i (runtime_instances (dbase s)) = Some r \<longrightarrow> ri_robot_id r \<notin> set (hb_runtime_locks (hub s))"
  shows "port_leases (dbase t) = port_leases (dbase s) \<and>
    (case find_by ri_id i (runtime_instances (dbase s)) of
       None \<Rightarrow> x = Inl ErrInstanceNotFound \<and> t = s
     | Some r \<Rightarrow>
         if ri_status r \<in> {RtStopped, RtFailed} then x = Inr r \<and> runtime_instances (dbase t) = runtime_instances (dbase s)
         else (\<exists>e. x = Inl e) \<and>
           (\<exists>r'. find_by ri_id i (runtime_instances (dbase t)) = Some r' \<and> ri_status r' = RtInterrupted))"
proof (cases "find_by ri_id i (runtime_instances (dbase s))")
  case None
  with assms(2) show ?thesis
    by (simp add: runtime_stop_def on_instance_def run_go run_store get_runtime_instance_def select_row_def)
next
  case (Some r)
  let ?s = "s\<lparr>hub := take_runtime_lock (ri_robot_id r) (hub s)\<rparr>"
  have id: "ri_id r = i" using Some by (auto dest: find_by_SomeD)
  obtain y u where stop: "stop_instance E r reason ?s = (y, u)" by fastforce
  have "x = y \<and> dbase t = dbase u"
    using assms(2,3) Some stop
    by (auto simp: runtime_stop_def on_instance_def locking_robot_def run_simps run_on_hub get_runtime_instance_def
        select_row_def split: sum.splits)
  with unconfirmed_stop_instance[OF assms(1) stop] Some show ?thesis by (auto simp: id split: if_splits)
qed

end
