(* ===== verification/Demo.thy ===== *)
theory Demo
  imports SvcRestart RobotGuarantees
begin

text \<open>
  Concrete data on which the properties are applied: a draft with two Tasks, the database in
  which its proposal waits for approval, a database with a running Workflow, and one in which a
  robot Task is about to start an Execution.
\<close>

definition demo_subtask_draft :: "string \<Rightarrow> string list \<Rightarrow> subtask_draft" where
  "demo_subtask_draft i deps = \<lparr>sdr_id = i, sdr_kind = ''robot_skill'', sdr_goal = ''grip'', sdr_spec = NoRaw,
     sdr_completion_criteria = NoRaw, sdr_depends_on = deps\<rparr>"

definition demo_task_draft :: "string \<Rightarrow> task_draft" where
  "demo_task_draft i = \<lparr>tdr_id = i, tdr_required_role = '' robot'', tdr_required_capabilities = NoRaw,
     tdr_resource_requirements = NoRaw, tdr_goal = ''fetch'', tdr_input = NoRaw,
     tdr_completion_criteria = NoRaw, tdr_subtasks = []\<rparr>"

definition demo_draft :: workflow_draft where
  "demo_draft = \<lparr>wdr_goal = ''tidy'', wdr_constraints = NoRaw, wdr_completion_criteria = NoRaw,
     wdr_map_scope = NoRaw, wdr_tasks = [demo_task_draft ''a'', demo_task_draft ''b''],
     wdr_dependencies = [(''b'', ''a'')]\<rparr>"

definition demo_project :: project where
  "demo_project = \<lparr>pr_id = ''p'', pr_owner_id = ''u'', pr_name = ''home'',
     pr_workspace_root = [], pr_is_default = True, pr_mode = ModeDevelopment, pr_is_active = True,
     pr_runtime_profile_id = [], pr_preferred_installation_id = [],
     pr_archived_at = None, pr_revision = 1, pr_created_at = 0, pr_updated_at = 0\<rparr>"

definition demo_conversation :: chat_session where
  "demo_conversation = \<lparr>cs_id = ''c'', cs_user_id = ''u'', cs_project_id = ''p'',
     cs_title = [], cs_created_at = 0, cs_archived_at = None, cs_revision = 1, cs_updated_at = 0\<rparr>"

definition demo_proposal :: plan_proposal where
  "demo_proposal = \<lparr>pp_id = ''plan-0'', pp_project_id = ''p'', pp_conversation_id = ''c'', pp_revision = 1,
     pp_status = PReady, pp_goal = ''tidy'', pp_summary = [], pp_approved_scope = NoRaw,
     pp_structured_plan = Raw (the (draft_json demo_draft)), pp_document_markdown = [],
     pp_created_at = 0, pp_updated_at = 0\<rparr>"

definition demo_db :: db where
  "demo_db = empty_db\<lparr>projects := [demo_project], chat_sessions := [demo_conversation],
     plan_proposals := [demo_proposal]\<rparr>"

text \<open>A database without any proposal yet.\<close>

definition demo_empty :: db where
  "demo_empty = empty_db\<lparr>projects := [demo_project], chat_sessions := [demo_conversation]\<rparr>"

definition demo_workflow :: workflow where
  "demo_workflow = \<lparr>w_id = ''wf'', w_project_id = ''p'', w_conversation_id = ''c'', w_goal = ''tidy'',
     w_approved_scope = NoRaw, w_constraints = NoRaw, w_completion_criteria = NoRaw, w_map_scope = NoRaw,
     w_status = WSRunning, w_reason = [], w_revision = 1, w_confirmed_revision = 1,
     w_source_interaction_id = [], w_created_at = 0, w_started_at = Some 0, w_updated_at = 0, w_ended_at = None\<rparr>"

definition demo_task :: "string \<Rightarrow> nat \<Rightarrow> work_status \<Rightarrow> string \<Rightarrow> task" where
  "demo_task i p st robot = \<lparr>t_id = i, t_workflow_id = ''wf'', t_position = p, t_required_role = ''robot'',
     t_required_capabilities = NoRaw, t_resource_requirements = NoRaw,
     t_assigned_agent_id = (if robot = [] then [] else ''robot:'' @ robot), t_assigned_robot_id = robot,
     t_assignment_revision = 0, t_goal = ''fetch'', t_input = NoRaw, t_completion_criteria = NoRaw,
     t_status = st, t_waiting_reason = [], t_result_summary = [], t_evidence = NoRaw,
     t_context_id = ''task:'' @ i, t_revision = 1, t_created_at = 0, t_updated_at = 0, t_ended_at = None\<rparr>"

definition demo_spec :: raw_json where
  "demo_spec = Raw (JObj [(''skill_name'', JStr ''grip'')])"

definition demo_subtask :: "string \<Rightarrow> string \<Rightarrow> work_status \<Rightarrow> string \<Rightarrow> subtask" where
  "demo_subtask i tid st ref = \<lparr>st_id = i, st_task_id = tid, st_position = 0, st_kind = ''robot_skill'',
     st_goal = ''grip'', st_spec = demo_spec, st_completion_criteria = NoRaw, st_evidence = NoRaw,
     st_execution_ref = ref, st_status = st, st_waiting_reason = [], st_result = NoRaw, st_revision = 1,
     st_created_at = 0, st_updated_at = 0, st_ended_at = None\<rparr>"

text \<open>Task \<open>b\<close> depends on Task \<open>a\<close>, which waits; Task \<open>r\<close> runs on robot \<open>r1\<close>.\<close>

definition demo_running :: db where
  "demo_running = empty_db\<lparr>projects := [demo_project], chat_sessions := [demo_conversation],
     workflows := [demo_workflow],
     tasks := [demo_task ''a'' 0 WSPending [], demo_task ''b'' 1 WSPending []],
     task_deps := [\<lparr>td_workflow_id = ''wf'', td_task_id = ''b'', td_depends_on = ''a''\<rparr>]\<rparr>"

definition demo_pilot :: robot_pilot where
  "demo_pilot = \<lparr>rp_instance_id = ''pilot'', rp_robot_id = ''r1'', rp_display_name = [], rp_robot_model = [],
     rp_backend = [], rp_pilot_version = [], rp_status = ''online'', rp_robot_status = ''idle'',
     rp_ability_framework_status = ''ready'', rp_skill_catalog_revision = 0, rp_ability_catalog_revision = 0,
     rp_current_execution_id = [], rp_abilities = None, rp_sensors = None, rp_configuration = [],
     rp_desired_skills = None, rp_runtime = None, rp_revision = 1, rp_last_seen_at = 0\<rparr>"

definition demo_execution :: "string \<Rightarrow> string \<Rightarrow> robot_execution" where
  "demo_execution i status = \<lparr>e_id = i, e_project_id = ''p'', e_workflow_id = ''wf'', e_task_id = ''r'',
     e_subtask_id = ''s'', e_run_id = [], e_robot_id = ''r1'', e_pilot_instance_id = ''pilot'',
     e_skill_name = ''grip'', e_skill_version = [], e_request_key = i, e_request_digest = [],
     e_status = status, e_stage = [], e_progress = None, e_input = [], e_artifact_refs = [], e_artifact_sync = [],
     e_result = [], e_error = [], e_revision = 1, e_created_at = 0, e_updated_at = 0\<rparr>"

definition demo_robot :: db where
  "demo_robot = empty_db\<lparr>projects := [demo_project], chat_sessions := [demo_conversation],
     workflows := [demo_workflow], tasks := [demo_task ''r'' 0 WSRunning ''r1''],
     subtasks := [demo_subtask ''s'' ''r'' WSRunning []], robot_pilots := [demo_pilot]\<rparr>"

definition demo_question :: interaction where
  "demo_question = \<lparr>i_id = ''q'', i_project_id = ''p'', i_session_id = ''c'', i_revision = 2,
     i_workflow_id = ''wf'', i_task_id = ''r'', i_ui_kind = ''question'', i_source_revision = 1,
     i_map_id = [], i_map_generation = 0, i_target_agent_id = [], i_response_schema = NoRaw, i_agent = ''a'',
     i_type = ''input'', i_status = IAnswered, i_payload = NoRaw, i_reply = Raw (JStr ''yes''), i_run_id = [],
     i_checkpoint_id = [], i_created_at = 0, i_answered_at = Some 1, i_expired_at = None, i_expires_at = None, i_cancelled_at = None, i_handled_at = None, i_handling_error = []\<rparr>"

definition demo_continuation :: run_session where
  "demo_continuation = \<lparr>r_id = [], r_project_id = ''p'', r_chat_session_id = ''c'', r_workflow_id = ''wf'',
     r_task_id = ''r'', r_source_interaction_id = ''q'', r_kind = KTaskExecution, r_context_id = ''task:r'',
     r_agent_id = ''robot:r1'', r_robot_id = [], r_agent_name = ''robot:r1'', r_provider = [],
     r_endpoint = [], r_model = [], r_trace_id = [], r_status = RQueued, r_error = [], r_revision = 0,
     r_started_at = None, r_updated_at = None, r_ended_at = None\<rparr>"

definition demo_paused :: db where
  "demo_paused = demo_robot\<lparr>tasks := [demo_task ''r'' 0 WSPaused ''r1''],
     subtasks := [], interactions := [demo_question]\<rparr>"

text \<open>A server: the ports answer at once, and the stopper records what it was asked in the event log.\<close>

definition demo_planner :: planner where
  "demo_planner = \<lparr>pl_resolve = Some (\<lambda>c p w t. ok \<lparr>ta_agent_id = ''helper'', ta_robot_id = []\<rparr>),
     pl_plan_with_result = Some (\<lambda>c r. ok \<lparr>tr_summary = ''one step'',
       tr_subtasks = [(demo_subtask_draft ''step'' [])\<lparr>sdr_id := [], sdr_kind := ''agent_step''\<rparr>]\<rparr>),
     pl_plan = (\<lambda>c r. ok [])\<rparr>"

definition demo_executor :: executor where
  "demo_executor = \<lparr>ex_execute = (\<lambda>c r. ok \<lparr>res_summary = ''done'', res_evidence = NoRaw\<rparr>),
     ex_decide = Some (\<lambda>c r. ok [(''choice'', JStr ''left'')]),
     ex_recover = Some (\<lambda>c r. ok \<lparr>rd_decision = ''fail_task'', rd_replacements = [], rd_summary = []\<rparr>)\<rparr>"

definition demo_stopper :: robot_stopper where
  "demo_stopper = \<lparr>rs_stop = (\<lambda>p i reason. go (store (append_robot_execution_event
       \<lparr>ev_execution_id = i, ev_sequence = 1, ev_type = ''execution.stop_requested'', ev_payload = [], ev_created_at = 0\<rparr>))
       (\<lambda>_. store (get_robot_execution i))),
     rs_confirm = (\<lambda>x user reason. err ErrOperatorConfirmationRequired)\<rparr>"

definition demo_env :: env where
  "demo_env = \<lparr>env_planner = Some demo_planner, env_executor = Some demo_executor,
     env_robot_reply = Some (\<lambda>i m. ok ()), env_robot_stop = Some demo_stopper, env_resumer = None, env_bus = True\<rparr>"

definition demo_sys :: "db \<Rightarrow> sys" where
  "demo_sys d = \<lparr>dbase = d, clock = 5, active_tasks = (\<lambda>_. None), active_resources = (\<lambda>_. None),
     active_runs = (\<lambda>_. None), shutting_down = False, tokens_drawn = 0, cancelled_tokens = [],
     published = [], jobs = [], waiters = (\<lambda>_. None), hub = empty_hub\<rparr>"

text \<open>The Robot service: the Pilot accepts every input, and the launcher never confirms a stop.\<close>

definition demo_robot_env :: robot_env where
  "demo_robot_env = \<lparr>ro_observer = None, ro_availability = None,
     ro_wait = (\<lambda>i. go (on_hub (put_ack i \<lparr>ak_ok = True, ak_error = [], ak_result = [(''valid'', JBool True)]\<rparr>)) (\<lambda>_. ok WaitAck)),
     ro_await = (\<lambda>i. ok ()), ro_send_wins = (\<lambda>i. True), ro_digest = (\<lambda>j. ''digest''), ro_parse_time = (\<lambda>t. None),
     ro_float = (\<lambda>t. 0)\<rparr>"

definition demo_orch :: orch_env where
  "demo_orch = \<lparr>oe_bundles = [], oe_launcher = \<lparr>la_start = (\<lambda>r b d. ok ''endpoint''), la_stop = (\<lambda>r reason. ok False),
       la_reclaim = None\<rparr>, oe_await = (\<lambda>i. ok ()), oe_data_root = ''/data'', oe_port_first = 9000, oe_port_last = 9001\<rparr>"

definition demo_surroundings :: surroundings where
  "demo_surroundings = \<lparr>su_orch = demo_orch, su_sync = (\<lambda>p i r. ok ()), su_compiles = (\<lambda>m. True),
     su_upload = (\<lambda>p tr. err ErrTransferUnavailable)\<rparr>"

abbreviation demo_play :: "event list \<Rightarrow> db \<Rightarrow> sys" where
  "demo_play es d \<equiv> play demo_env (\<lambda>d summary scope. ''plan'') es (demo_sys d)"

lemmas demo_defs =
  demo_subtask_draft_def demo_task_draft_def demo_draft_def demo_project_def demo_conversation_def
  demo_proposal_def demo_db_def demo_empty_def demo_workflow_def demo_task_def demo_spec_def
  demo_subtask_def demo_running_def demo_pilot_def demo_execution_def demo_robot_def
  demo_question_def demo_continuation_def demo_paused_def empty_db_def

context service_client
begin

lemma demo_ports: "ports_keep Q demo_env"
proof -
  have "keeps Q (rs_stop demo_stopper p i reason)" for p i reason
    unfolding demo_stopper_def by (simp, intro store_rules)
  moreover have "keeps Q (ok x)" "keeps Q (err e)" for x e
    by (rule whole.keeps_ok whole.keeps_err)+
  ultimately show ?thesis
    by (auto simp: ports_keep_def demo_env_def planner_keeps_def demo_planner_def executor_keeps_def demo_executor_def
        stopper_keeps_def, auto simp: demo_stopper_def)
qed

end

context robot_service
begin

lemma demo_parts: "parts_keep Q demo_env demo_robot_env demo_surroundings"
proof -
  have "robot_ports_keep Q demo_robot_env"
    unfolding robot_ports_keep_def demo_robot_env_def by (auto intro!: robot_rules keeps_hub)
  moreover have "surroundings_keep Q demo_surroundings"
    unfolding surroundings_keep_def orch_ports_keep_def demo_surroundings_def demo_orch_def
    by (auto intro: whole.keeps_ok whole.keeps_err)
  ultimately show ?thesis by (simp add: parts_keep_def demo_ports)
qed

end

end
