(* ===== verification/RobotRestart.thy ===== *)
theory RobotRestart
  imports RobotWired SvcRestart
begin

text \<open>
  A restart of both services together: while \<open>RecoverInterruptedWorkflows\<close> stops the robots of the
  stopping Workflows, the Robot service starts nothing.  A stop that is sent changes no Task; one that
  cannot be sent reports the Execution as interrupted, which pauses its SubTask and Task.
\<close>

section \<open>A stop of the Robot service\<close>

lemma starts_still:
  assumes "workflows (dbase t) = workflows (dbase s)" "tasks (dbase t) = tasks (dbase s)"
    "subtasks (dbase t) = subtasks (dbase s)" "hb_admissions (hub t) = hb_admissions (hub s)"
  shows "starts_nothing s t"
  using assms by (simp add: starts_nothing_def)

lemma starts_hub: "(\<And>h. hb_admissions (f h) = hb_admissions h) \<Longrightarrow> keeps starts_nothing (on_hub f)"
  by (rule keepsI) (simp add: run_on_hub starts_still)

lemma starts_publish_execution: "keeps starts_nothing (publish_execution e typ)"
  unfolding publish_execution_def publish_robot_event_def publish_device_def
  by (intro starts_rules starts_hub) (simp_all add: add_robot_event_def add_device_event_def Let_def)

lemma starts_send: "keeps starts_nothing (send_command R pilot typ payload)"
  unfolding send_command_def enqueue_def fresh_def
  by (intro starts_rules starts_calm_gets[OF same_gets(18)] starts_hub) (simp_all add: push_command_def)

lemma starts_save: "keeps starts_nothing (store (save_robot_execution e))"
  by (rule keepsI)
    (auto simp: run_store save_robot_execution_def run_simps exec_executions_def checked_def split: option.splits
      intro!: starts_still)

lemma starts_gets: "keeps starts_nothing (store (get_active_robot_pilot robot))"
  "keeps starts_nothing (store (get_run_session i))"
  unfolding get_active_robot_pilot_def get_run_session_def
  by (intro starts_calm_gets same_queries)+

lemma starts_may_stop: "keeps starts_nothing (may_stop e)"
  unfolding may_stop_def by (intro starts_rules starts_gets)

lemma starts_cancel_run: "keeps starts_nothing (cancel_direct_run i)"
  unfolding cancel_direct_run_def by (intro starts_rules starts_gets)

text \<open>The Workflow service, told of an interrupted Execution, pauses what waits for it.\<close>

lemma starts_report:
  assumes "e_status e = ''interrupted''"
  shows "keeps starts_nothing (on_robot_execution_changed E c e typ payload)"
proof -
  have "on_status E c t x e typ payload = state_unknown E t x e typ payload" for t x
    using assms by (simp add: on_status_def)
  then show ?thesis
    unfolding on_robot_execution_changed_def attach_reported_def
    by (simp only:) (unfold state_unknown_def pause_robot_subtask_def, intro starts_rules starts_nothing_ops, simp_all)
qed

text \<open>
  The wiring at the time of the recovery: \<open>wireAccess\<close> has made the Workflow service the only
  observer of the Robot service; the map checkpoint joins it after the recovery.
\<close>

definition observed_at_boot :: "env \<Rightarrow> robot_env \<Rightarrow> robot_env" where
  "observed_at_boot E P = P\<lparr>ro_observer := Some (on_robot_execution_changed E []),
     ro_availability := Some (on_robot_availability_changed E [])\<rparr>"

definition boot_side :: "env \<Rightarrow> robot_env \<Rightarrow> robot_env" where
  "boot_side E P = observed_at_boot (workflow_side (observed_at_boot (workflow_side P E) P) E) P"

lemma starts_observers:
  "e_status e = ''interrupted'' \<Longrightarrow> keeps starts_nothing (observe (observed_at_boot E P) e typ payload)"
  unfolding observe_def observed_at_boot_def by (simp add: starts_report)

lemma starts_stop_locked: "keeps starts_nothing (stop_locked (observed_at_boot E P) i reason)"
  unfolding stop_locked_def send_stop_def Let_def
  by (intro starts_rules starts_may_stop starts_cancel_run starts_save starts_send starts_publish_execution
      starts_observers) simp_all

lemma starts_moved:
  "starts_nothing s t \<Longrightarrow> dbase s' = dbase s \<Longrightarrow> dbase t' = dbase t \<Longrightarrow> hb_admissions (hub t') = hb_admissions (hub s') \<Longrightarrow>
   starts_nothing s' t'"
  by (simp add: starts_nothing_def)

lemma no_start_blocking:
  assumes "keeps starts_nothing m"
  shows "keeps no_start (blocking_admission R robot m)"
proof (rule keepsI)
  fix s :: sys
  let ?s = "s\<lparr>hub := take_admission robot (hub s)\<rparr>"
  show "no_start s (snd (blocking_admission R robot m s))"
    unfolding no_start_def
  proof
    assume free: "hb_admissions (hub s) = []"
    obtain r t where run: "m ?s = (r, t)" by fastforce
    have m: "starts_nothing ?s t" using assms run by (rule keeps_run)
    have "snd (blocking_admission R robot m s) = t\<lparr>hub := free_admission robot (hub t)\<rparr>"
      using free run by (simp add: blocking_admission_def admission_locked_def holding_admission_def lock_admission_def
        unlock_admission_def run_simps run_on_hub split: sum.split)
    moreover have "hb_admissions (free_admission robot (hub t)) = []"
      using m free by (simp add: starts_nothing_def free_admission_def take_admission_def)
    ultimately show "starts_nothing s (snd (blocking_admission R robot m s))"
      using m free by (auto intro: starts_moved)
  qed
qed

theorem stop_of_the_robots_starts_nothing:
  "stop_starts_nothing (workflow_side (boot_side E P) E)"
proof -
  have "keeps no_start (robot_stop (observed_at_boot F P) p i reason)" for F p i reason
    unfolding robot_stop_def by (intro no_start.row_rules no_start_blocking starts_stop_locked)
  then show ?thesis
    unfolding stop_starts_nothing_def workflow_side_def boot_side_def by simp
qed

end
