(* ===== verification/RobotReports.thy ===== *)
theory RobotReports
  imports RobotWired
begin

text \<open>
  What a message of a Pilot does to the Executions, with the observers of the whole server behind it:
  a late or repeated report never takes an Execution back to work, and the one thing the observer may
  do to other Executions is to have them stopped.
\<close>

section \<open>What a stop does to the Executions\<close>

definition rows_ok :: "db \<Rightarrow> bool" where
  "rows_ok d \<longleftrightarrow> (\<forall>x \<in> set (executions d). e_id (xr_body x) = xr_id x \<and> e_status (xr_body x) = xr_status x)"

text \<open>The status of an Execution before and after other Executions were stopped, itself perhaps among them.\<close>

definition stops_row :: "string \<Rightarrow> string \<Rightarrow> bool" where
  "stops_row old new \<longleftrightarrow> new = old \<or>
     (active_robot_status old \<or> old = ''interrupted'') \<and> (new = ''stopping'' \<or> new = ''interrupted'')"

definition rows_become :: "(string \<Rightarrow> string \<Rightarrow> bool) \<Rightarrow> db \<Rightarrow> db \<Rightarrow> bool" where
  "rows_become may d d' \<longleftrightarrow> (rows_ok d \<longrightarrow> rows_ok d' \<and> (\<forall>i x. find_by xr_id i (executions d) = Some x \<longrightarrow>
     (\<exists>y. find_by xr_id i (executions d') = Some y \<and> may (xr_status x) (xr_status y))))"

lemma rows_becomeD:
  assumes "rows_become may d d'" "rows_ok d"
  shows "rows_ok d'" "find_by xr_id i (executions d) = Some x \<Longrightarrow>
    \<exists>y. find_by xr_id i (executions d') = Some y \<and> may (xr_status x) (xr_status y)"
  using assms by (simp_all add: rows_become_def)

lemma rows_become_trans:
  assumes "rows_become p d1 d2" "rows_become q d2 d3" "\<And>a b c. p a b \<Longrightarrow> q b c \<Longrightarrow> r a c"
  shows "rows_become r d1 d3"
  unfolding rows_become_def
proof (intro impI conjI allI)
  assume ok: "rows_ok d1"
  note one = rows_becomeD[OF assms(1) ok] and two = rows_becomeD[OF assms(2) rows_becomeD(1)[OF assms(1) ok]]
  show "rows_ok d3" by (rule two(1))
  show "\<exists>y. find_by xr_id i (executions d3) = Some y \<and> r (xr_status x) (xr_status y)"
    if "find_by xr_id i (executions d1) = Some x" for i x
    using one(2)[OF that] two(2) assms(3) by blast
qed

lemma rows_become_same: "executions d' = executions d \<Longrightarrow> (\<And>st. may st st) \<Longrightarrow> rows_become may d d'"
  by (simp add: rows_become_def rows_ok_def)

lemma stops_row_refl: "stops_row st st"
  by (simp add: stops_row_def)

lemma stops_row_trans: "stops_row a b \<Longrightarrow> stops_row b c \<Longrightarrow> stops_row a c"
  by (auto simp: stops_row_def)

text \<open>Three relations on the server: no Execution changes; Executions are stopped; the same for a
  program that takes the admission lock of a robot and finds it free.\<close>

definition kept :: "sys \<Rightarrow> sys \<Rightarrow> bool" where
  "kept s t \<longleftrightarrow> executions (dbase t) = executions (dbase s) \<and> hb_admissions (hub t) = hb_admissions (hub s)"

definition halting :: "sys \<Rightarrow> sys \<Rightarrow> bool" where
  "halting s t \<longleftrightarrow> (rows_ok (dbase s) \<longrightarrow>
     rows_become stops_row (dbase s) (dbase t) \<and> hb_admissions (hub t) = hb_admissions (hub s))"

definition unlocked_halting :: "sys \<Rightarrow> sys \<Rightarrow> bool" where
  "unlocked_halting s t \<longleftrightarrow> (rows_ok (dbase s) \<and> hb_admissions (hub s) = [] \<longrightarrow> halting s t)"

lemma kept_halting: "kept s t \<Longrightarrow> halting s t"
  by (auto simp: kept_def halting_def intro: rows_become_same stops_row_refl)

lemma halting_trans: "halting s t \<Longrightarrow> halting t u \<Longrightarrow> halting s u"
  using rows_becomeD(1)[of stops_row "dbase s" "dbase t"]
  by (auto simp: halting_def intro: rows_become_trans stops_row_trans)

lemma rivals_admissions: "close_rivals i k xs h = (b, h') \<Longrightarrow> hb_admissions h' = hb_admissions h"
  by (induction i k xs h rule: close_rivals.induct) (auto split: if_splits)

lemma admissions_kept:
  "hb_admissions (push_command pilot ss c waits h) = hb_admissions h"
  "hb_admissions (forget_command i h) = hb_admissions h" "hb_admissions (put_ack i a h) = hb_admissions h"
  "hb_admissions (take_ack i h) = hb_admissions h" "hb_admissions (pop_command pilot h) = hb_admissions h"
  "hb_admissions (add_device_event now kind i typ m h) = hb_admissions h"
  "hb_admissions (add_robot_event ev h) = hb_admissions h" "hb_admissions (add_subscriber h) = hb_admissions h"
  "hb_admissions (remove_subscriber n h) = hb_admissions h" "hb_admissions (start_robot_job j h) = hb_admissions h"
  "hb_admissions (finish_robot_job j h) = hb_admissions h" "hb_admissions (put_transfer tr h) = hb_admissions h"
  "hb_admissions (drop_transfer i h) = hb_admissions h" "hb_admissions (take_runtime_lock i h) = hb_admissions h"
  "hb_admissions (free_runtime_lock i h) = hb_admissions h" "hb_admissions (update_session p h) = hb_admissions h"
  "hb_admissions (close_previous i h) = hb_admissions h" "hb_admissions (open_session p h) = hb_admissions h"
  "hb_admissions (remove_session i h) = hb_admissions h"
  by (simp_all add: push_command_def forget_command_def put_ack_def take_ack_def pop_command_def add_device_event_def
      Let_def add_robot_event_def add_subscriber_def remove_subscriber_def start_robot_job_def finish_robot_job_def
      put_transfer_def drop_transfer_def take_runtime_lock_def free_runtime_lock_def update_session_def
      close_previous_def close_session_def open_session_def remove_session_def drop_pending_skill_commands_def
      split: option.split)

interpretation kept: fleet_service same_executions kept
  by unfold_locales
    (simp_all add: kept_def same_executions_def admissions_kept, drule rivals_admissions, simp)

lemma fleet_service_above:
  assumes "frame_relation Q" "\<And>s t. kept s t \<Longrightarrow> Q s t"
  shows "fleet_service same_executions Q"
  by (intro fleet_service.intro fleet_service_axioms.intro service_client.intro service_client_axioms.intro assms(1)
      still_store.store_client_axioms still_fleet.fleet_client_axioms; rule assms(2))
    (rule kept.moves_db kept.moves_memory kept.moves_commands kept.moves_events kept.moves_jobs kept.moves_transfers
      kept.moves_locks kept.moves_sessions; assumption)+

lemma halting_frame: "frame_relation halting"
  by unfold_locales (rule kept_halting, simp add: kept_def, erule (1) halting_trans)

interpretation halting: fleet_service same_executions halting
  by (rule fleet_service_above[OF halting_frame kept_halting])

lemma unlocked_frame: "frame_relation unlocked_halting"
proof
  show "unlocked_halting s t \<Longrightarrow> unlocked_halting t u \<Longrightarrow> unlocked_halting s u" for s t u
    unfolding unlocked_halting_def using halting_trans[of s t u] rows_becomeD(1)[of stops_row "dbase s" "dbase t"]
    by (auto simp: halting_def)
qed (simp add: unlocked_halting_def halting.whole.frame_refl)

interpretation unlocked: fleet_service same_executions unlocked_halting
  by (rule fleet_service_above[OF unlocked_frame]) (simp add: unlocked_halting_def kept_halting)

section \<open>Saving an Execution that was read\<close>

text \<open>\<open>known e\<close>: the Execution is in the store with this status.\<close>

definition known :: "robot_execution \<Rightarrow> db \<Rightarrow> bool" where
  "known e d \<longleftrightarrow> rows_ok d \<and> (\<exists>x. find_by xr_id (e_id e) (executions d) = Some x \<and> xr_status x = e_status e)"

definition after :: "(sys \<Rightarrow> sys \<Rightarrow> bool) \<Rightarrow> robot_execution \<Rightarrow> (sys, 'a) prog \<Rightarrow> bool" where
  "after Q e m \<longleftrightarrow> (\<forall>s. known e (dbase s) \<longrightarrow> Q s (snd (m s)))"

lemma known_kept: "kept s t \<Longrightarrow> known e (dbase t) = known e (dbase s)"
  by (simp add: known_def kept_def rows_ok_def)

lemma merge_artifacts_same: "e_id (merge_artifacts e ms) = e_id e" "e_status (merge_artifacts e ms) = e_status e"
  by (induction e ms rule: merge_artifacts.induct) (simp_all add: Let_def)

lemma get_known:
  assumes "get_robot_execution i d = (Inr e, d')" "rows_ok d"
  shows "d' = d \<and> known e d"
proof (cases "find_by xr_id i (executions d)")
  case None
  with assms(1) show ?thesis by (simp add: get_robot_execution_def select_row_def run_simps)
next
  case (Some x)
  then obtain ms where "get_robot_execution i d = (Inr (merge_artifacts ((xr_body x)\<lparr>e_artifact_sync := []\<rparr>) ms), d)"
    by (auto simp: get_robot_execution_def with_robot_execution_artifacts_def list_robot_artifact_mappings_def
        select_row_def select_rows_def run_simps)
  with assms(1) have "d' = d" "e = merge_artifacts ((xr_body x)\<lparr>e_artifact_sync := []\<rparr>) ms" by simp_all
  moreover have "e_id (xr_body x) = i" "e_status (xr_body x) = xr_status x"
    using assms(2) find_by_SomeD[OF Some] by (auto simp: rows_ok_def)
  ultimately show ?thesis using assms(2) Some by (simp add: known_def merge_artifacts_same)
qed

text \<open>What the programs below share: steps that leave the Executions alone do not matter.\<close>

locale reporting =
  fixes Q :: "sys \<Rightarrow> sys \<Rightarrow> bool"
  assumes kept_step: "kept s t \<Longrightarrow> Q s t"
    and kept_first: "kept s t \<Longrightarrow> Q t v \<Longrightarrow> Q s v"
    and kept_last: "Q s t \<Longrightarrow> kept t v \<Longrightarrow> Q s v"
    and needs_rows: "\<not> rows_ok (dbase s) \<Longrightarrow> Q s t"
begin

lemma still: "keeps kept m \<Longrightarrow> keeps Q m"
  by (auto simp: keeps_def intro: kept_step)

lemma go_first:
  assumes "keeps kept m" "\<And>x. keeps Q (k x)"
  shows "keeps Q (go m k)"
proof (rule keepsI)
  fix s
  obtain r t where run: "m s = (r, t)" by fastforce
  have m: "kept s t" using assms(1) run by (rule keeps_run)
  show "Q s (snd (go m k s))"
    using kept_step[OF m] kept_first[OF m keepsD[OF assms(2)]] by (cases r) (simp_all add: run_go run)
qed

lemma attempt_first: "keeps kept m \<Longrightarrow> (\<And>r. keeps Q (k r)) \<Longrightarrow> keeps Q (attempt m k)"
  unfolding keeps_def run_attempt using kept_first by blast

lemma attempt_last: "keeps Q m \<Longrightarrow> (\<And>r. keeps kept (k r)) \<Longrightarrow> keeps Q (attempt m k)"
  unfolding keeps_def run_attempt using kept_last by blast

lemma ignoring_last: "keeps Q m \<Longrightarrow> keeps kept k \<Longrightarrow> keeps Q (ignoring m k)"
  unfolding keeps_def run_ignoring using kept_last by blast

lemma go_last:
  assumes "keeps Q m" "\<And>x. keeps kept (k x)"
  shows "keeps Q (go m k)"
proof (rule keepsI)
  fix s
  obtain r t where run: "m s = (r, t)" by fastforce
  have m: "Q s t" using assms(1) run by (rule keeps_run)
  show "Q s (snd (go m k s))"
    using m kept_last[OF m keepsD[OF assms(2)]] by (cases r) (simp_all add: run_go run)
qed

lemma simple: "(\<And>s. keeps Q (f s)) \<Longrightarrow> keeps Q (reading f)" "(\<And>n. keeps Q (g n)) \<Longrightarrow> keeps Q (at_now g)"
  "(b \<Longrightarrow> keeps Q m) \<Longrightarrow> (\<not> b \<Longrightarrow> keeps Q n) \<Longrightarrow> keeps Q (if b then m else n)"
  by (simp_all add: keeps_def run_reading run_at_now)

lemma after_keeps: "keeps Q m \<Longrightarrow> after Q e m"
  by (simp add: after_def keepsD)

lemma after_if: "(b \<Longrightarrow> after Q e m) \<Longrightarrow> (\<not> b \<Longrightarrow> after Q e n) \<Longrightarrow> after Q e (if b then m else n)"
  by simp

lemma after_at_now: "(\<And>n. after Q e (k n)) \<Longrightarrow> after Q e (at_now k)"
  unfolding after_def run_at_now by blast

lemma after_go:
  assumes "keeps kept m" "\<And>x. after Q e (k x)"
  shows "after Q e (go m k)"
  unfolding after_def
proof (intro allI impI)
  fix s :: sys
  assume known: "known e (dbase s)"
  obtain r t where run: "m s = (r, t)" by fastforce
  have m: "kept s t" using assms(1) run by (rule keeps_run)
  have "Q t (snd (k x t))" for x using assms(2) known known_kept[OF m] by (simp add: after_def)
  then show "Q s (snd (go m k s))"
    using kept_step[OF m] kept_first[OF m] by (cases r) (simp_all add: run_go run)
qed

lemma after_attempt:
  assumes "keeps kept m" "\<And>r. after Q e (k r)"
  shows "after Q e (attempt m k)"
  unfolding after_def run_attempt
proof (intro allI impI)
  fix s :: sys
  assume known: "known e (dbase s)"
  have m: "kept s (snd (m s))" using assms(1) by (rule keepsD)
  then have "Q (snd (m s)) (snd (k (fst (m s)) (snd (m s))))"
    using assms(2) known known_kept[OF m] by (simp add: after_def)
  with m show "Q s (snd (k (fst (m s)) (snd (m s))))" by (rule kept_first)
qed

lemma reads_execution:
  assumes "\<And>e. after Q e (k e)"
  shows "keeps Q (go (store (get_robot_execution i)) k)"
proof (rule keepsI)
  fix s :: sys
  show "Q s (snd (go (store (get_robot_execution i)) k s))"
  proof (cases "rows_ok (dbase s)")
    case True
    obtain r d where run: "get_robot_execution i (dbase s) = (r, d)" by fastforce
    have same: "kept s (s\<lparr>dbase := d\<rparr>)"
      using keeps_run[OF kept.keeps_gets(15) run] by (simp add: kept_def same_executions_def)
    show ?thesis
    proof (cases r)
      case (Inl x)
      with same run show ?thesis by (simp add: run_go run_store kept_step)
    next
      case (Inr e)
      with get_known[of i "dbase s" e d] run True have "d = dbase s" "known e (dbase s)" by simp_all
      with Inr run assms show ?thesis by (simp add: run_go run_store after_def)
    qed
  qed (rule needs_rows)
qed

end

interpretation halting: reporting halting
proof
  fix s t v :: sys
  show 1: "kept s t \<Longrightarrow> halting s t" by (rule kept_halting)
  show "kept s t \<Longrightarrow> halting t v \<Longrightarrow> halting s v" "halting s v \<Longrightarrow> kept v t \<Longrightarrow> halting s t"
    by (blast intro: kept_halting halting_trans)+
qed (simp add: halting_def)

text \<open>A save of the Execution that was read either fails or rewrites its row.\<close>

lemma save_known:
  assumes "known e d" "e_id f = e_id e"
  shows "save_robot_execution f d = (Inl x, d') \<Longrightarrow> d' = d"
    and "save_robot_execution f d = (Inr u, d') \<Longrightarrow> known f d' \<and>
      (\<forall>i y. find_by xr_id i (executions d) = Some y \<longrightarrow> (\<exists>z. find_by xr_id i (executions d') = Some z \<and>
        xr_status z = (if i = e_id f then e_status f else xr_status y)))"
proof -
  obtain y where y: "find_by xr_id (e_id f) (executions d) = Some y" and ok: "rows_ok d"
    using assms by (auto simp: known_def)
  let ?g = "\<lambda>x. x\<lparr>xr_status := e_status f, xr_revision := e_revision f, xr_updated_at := e_updated_at f,
        xr_body := f, xr_subtask_id := e_subtask_id f\<rparr>"
  let ?rows = "update_where (\<lambda>x. xr_id x = e_id f) ?g (executions d)"
  show "d' = d" if "save_robot_execution f d = (Inl x, d')"
    using that y by (auto simp: save_robot_execution_def run_simps exec_executions_def checked_def split: option.splits)
  show "known f d' \<and> (\<forall>i y. find_by xr_id i (executions d) = Some y \<longrightarrow> (\<exists>z. find_by xr_id i (executions d') = Some z \<and>
        xr_status z = (if i = e_id f then e_status f else xr_status y)))"
    if "save_robot_execution f d = (Inr u, d')"
  proof -
    have d': "executions d' = ?rows"
      using that y by (auto simp: save_robot_execution_def run_simps exec_executions_def checked_def split: option.splits)
    have "rows_ok d'" using ok by (auto simp: rows_ok_def d' update_where_def)
    moreover have "\<exists>z. find_by xr_id i (executions d') = Some z \<and>
        xr_status z = (if i = e_id f then e_status f else xr_status y)"
      if "find_by xr_id i (executions d) = Some y" for i y
      using that find_by_SomeD[OF that] by (auto simp: d' find_by_update_where)
    ultimately show ?thesis using y unfolding known_def by fastforce
  qed
qed

section \<open>A stop, seen from the observer\<close>

text \<open>Told of an interrupted Execution, the Workflow service pauses its Task and calls nobody.\<close>

lemma interrupted_report_kept:
  assumes "e_status e = ''interrupted''"
  shows "keeps kept (on_robot_execution_changed E c e typ payload)"
proof -
  have "on_status E c t x e typ payload = state_unknown E t x e typ payload" for t x
    using assms by (simp add: on_status_def)
  then show ?thesis
    unfolding on_robot_execution_changed_def attach_reported_def
    by (simp only:) (unfold state_unknown_def, intro kept.store_rules kept.keeps_pause_robot)
qed

lemma interrupted_observe_kept:
  assumes "e_status e = ''interrupted''"
  shows "keeps kept (observe (observed_by sync E P) e typ payload)"
  using assms unfolding observe_def observed_by_def observer_chain_def map_checkpoint_def
  by (simp, intro kept.robot_rules interrupted_report_kept, simp_all)

lemma save_halts:
  assumes known: "known e (dbase s)" and id: "e_id f = e_id e" and may: "stops_row (e_status e) (e_status f)"
    and run: "save_robot_execution f (dbase s) = (r, d)"
  shows "halting s (s\<lparr>dbase := d\<rparr>)"
proof (cases r)
  case (Inl x)
  with run save_known(1)[OF known id] show ?thesis by (auto intro: halting.whole.frame_refl)
next
  case (Inr u)
  note saved = save_known(2)[OF known id, of u d, OF run[unfolded Inr]]
  have "rows_become stops_row (dbase s) d"
    unfolding rows_become_def
  proof (intro impI conjI allI)
    show "rows_ok d" using saved by (simp add: known_def)
    fix i x assume x: "find_by xr_id i (executions (dbase s)) = Some x"
    then obtain z where "find_by xr_id i (executions d) = Some z"
      "xr_status z = (if i = e_id f then e_status f else xr_status x)" using saved by blast
    moreover have "xr_status x = e_status e" if "i = e_id f" using that x known id by (simp add: known_def)
    ultimately show "\<exists>y. find_by xr_id i (executions d) = Some y \<and> stops_row (xr_status x) (xr_status y)"
      using may by (auto intro: stops_row_refl)
  qed
  then show ?thesis by (simp add: halting_def)
qed

lemma after_save_halting:
  assumes "e_id f = e_id e" "stops_row (e_status e) (e_status f)" "\<And>u. after halting f (k u)"
  shows "after halting e (go (store (save_robot_execution f)) k)"
  unfolding after_def
proof (intro allI impI)
  fix s :: sys
  assume known: "known e (dbase s)"
  obtain r d where run: "save_robot_execution f (dbase s) = (r, d)" by fastforce
  note saved = save_halts[OF known assms(1,2) run]
  show "halting s (snd (go (store (save_robot_execution f)) k s))"
  proof (cases r)
    case (Inr u)
    have "halting (s\<lparr>dbase := d\<rparr>) (snd (k u (s\<lparr>dbase := d\<rparr>)))"
      using assms(3) save_known(2)[OF known assms(1) run[unfolded Inr]] by (simp add: after_def)
    with saved run Inr show ?thesis by (auto simp: run_go run_store intro: halting_trans)
  qed (use saved run in \<open>simp add: run_go run_store\<close>)
qed

lemma after_saving_halting:
  assumes "e_id f = e_id e" "stops_row (e_status e) (e_status f)" "keeps halting m"
  shows "after halting e (ignoring (store (save_robot_execution f)) m)"
  unfolding after_def
proof (intro allI impI)
  fix s :: sys
  assume known: "known e (dbase s)"
  obtain r d where run: "save_robot_execution f (dbase s) = (r, d)" by fastforce
  have "halting (s\<lparr>dbase := d\<rparr>) (snd (m (s\<lparr>dbase := d\<rparr>)))" using assms(3) by (rule keepsD)
  with save_halts[OF known assms(1,2) run] run
  show "halting s (snd (ignoring (store (save_robot_execution f)) m s))"
    by (auto simp: run_ignoring run_store intro: halting_trans)
qed

lemma may_stop_open:
  "may_stop e s = (Inr u, t) \<Longrightarrow> active_robot_status (e_status e) \<or> e_status e = ''interrupted''"
  by (auto simp: may_stop_def split: if_splits)

lemma after_may_stop:
  assumes "active_robot_status (e_status e) \<or> e_status e = ''interrupted'' \<Longrightarrow> after halting e m"
  shows "after halting e (go (may_stop e) (\<lambda>_. m))"
proof (cases "active_robot_status (e_status e) \<or> e_status e = ''interrupted''")
  case True
  then show ?thesis using assms by (intro halting.after_go kept.keeps_scopes)
next
  case False
  have "keeps kept (go (may_stop e) (\<lambda>_. m))"
  proof (rule keepsI)
    fix s
    obtain r t where run: "may_stop e s = (r, t)" by fastforce
    with False may_stop_open obtain x where "r = Inl x" by (cases r) auto
    with run keeps_run[OF kept.keeps_scopes(7) run] show "kept s (snd (go (may_stop e) (\<lambda>_. m) s))" by (simp add: run_go)
  qed
  then show ?thesis by (intro halting.after_keeps halting.still)
qed

lemma stop_locked_halting: "keeps halting (stop_locked (observed_by sync E P) i reason)"
proof -
  have send: "after halting f (send_stop (observed_by sync E P) f reason)"
    if "e_status f = ''stopping''" for f :: robot_execution
    unfolding send_stop_def Let_def
  proof (intro halting.after_attempt kept.keeps_sends)
    fix r :: "error + string"
    show "after halting f (case r of
       Inl x \<Rightarrow> ignoring (store (save_robot_execution (f\<lparr>e_status := ''interrupted'', e_revision := e_revision f + 1,
                   e_error := error_map ''PILOT_OFFLINE'' (error_text x)\<rparr>))) (
         go (publish_execution (f\<lparr>e_status := ''interrupted'', e_revision := e_revision f + 1,
                   e_error := error_map ''PILOT_OFFLINE'' (error_text x)\<rparr>) ''robot.execution.stopping'') (\<lambda>_.
         ignoring (observe (observed_by sync E P) (f\<lparr>e_status := ''interrupted'', e_revision := e_revision f + 1,
                   e_error := error_map ''PILOT_OFFLINE'' (error_text x)\<rparr>) ''robot.execution.interrupted''
           [(''reason'', JStr reason)]) (err x)))
     | Inr _ \<Rightarrow> go (publish_execution f ''robot.execution.stopping'') (\<lambda>_. ok f))"
    proof (cases r)
      case (Inl x)
      show ?thesis
        unfolding Inl sum.case using that
        by (intro after_saving_halting halting.still kept.base_rules kept.keeps_publish interrupted_observe_kept)
          (simp_all add: stops_row_def active_robot_status_def)
    next
      case (Inr x)
      show ?thesis
        unfolding Inr sum.case
        by (intro halting.after_keeps halting.still kept.base_rules kept.keeps_publish)
    qed
  qed
  show ?thesis
    unfolding stop_locked_def Let_def
    by (intro halting.reads_execution after_may_stop halting.after_go kept.keeps_scopes halting.after_at_now
        after_save_halting send kept.robot_rules) (auto simp: stops_row_def)
qed

lemma robot_stop_halting: "keeps unlocked_halting (robot_stop (observed_by sync E P) p i reason)"
proof -
  have block: "keeps unlocked_halting (blocking_admission R robot m)" if m: "keeps halting m" for R robot and m :: "(sys, 'x) prog"
  proof (rule keepsI)
    fix s :: sys
    let ?s = "s\<lparr>hub := take_admission robot (hub s)\<rparr>"
    show "unlocked_halting s (snd (blocking_admission R robot m s))"
      unfolding unlocked_halting_def
    proof
      assume free: "rows_ok (dbase s) \<and> hb_admissions (hub s) = []"
      obtain r t where run: "m ?s = (r, t)" by fastforce
      have halted: "halting ?s t" using m run by (rule keeps_run)
      have "snd (blocking_admission R robot m s) = t\<lparr>hub := free_admission robot (hub t)\<rparr>"
        using free run by (simp add: blocking_admission_def admission_locked_def holding_admission_def lock_admission_def
          unlock_admission_def run_simps run_on_hub split: sum.split)
      with halted free show "halting s (snd (blocking_admission R robot m s))"
        by (simp add: halting_def free_admission_def take_admission_def)
    qed
  qed
  show ?thesis
    unfolding robot_stop_def by (intro unlocked.base_rules unlocked.keeps_gets block stop_locked_halting)
qed

text \<open>
  The observer of the wired server stops robots and starts no Agent itself, so the Agents of \<open>E\<close> may be
  replaced by ones that refuse everything.
\<close>

definition refusing_planner :: planner where
  "refusing_planner = \<lparr>pl_resolve = None, pl_plan_with_result = None, pl_plan = (\<lambda>c r. err ErrPlannerUnavailable)\<rparr>"

definition refusing_executor :: "executor \<Rightarrow> executor" where
  "refusing_executor ex = \<lparr>ex_execute = (\<lambda>c r. err ErrExecutorUnavailable),
     ex_decide = map_option (\<lambda>_ c r. err ErrExecutorUnavailable) (ex_decide ex),
     ex_recover = map_option (\<lambda>_ c r. err ErrExecutorUnavailable) (ex_recover ex)\<rparr>"

definition without_agents :: "env \<Rightarrow> env" where
  "without_agents E = E\<lparr>env_planner := map_option (\<lambda>_. refusing_planner) (env_planner E),
     env_executor := map_option refusing_executor (env_executor E),
     env_robot_reply := map_option (\<lambda>_ i m. ok ()) (env_robot_reply E),
     env_robot_stop := map_option (\<lambda>st. st\<lparr>rs_confirm := \<lambda>e user reason. err ErrExecutorUnavailable\<rparr>) (env_robot_stop E)\<rparr>"

lemma without_agents_outside: "same_outside E (without_agents E)"
  by (cases "env_executor E")
    (auto simp: same_outside_def without_agents_def decision_executor_def recovery_executor_def refusing_executor_def)

lemma observer_without_agents: "on_robot_execution_changed E = on_robot_execution_changed (without_agents E)"
  by (rule observer_same_stop[OF without_agents_outside]) (cases "env_robot_stop E"; simp add: without_agents_def)

text \<open>What the observer calls beside the Robot service: the continuation of the Conversation, the
  synchronisation of the map.\<close>

definition callbacks_keep :: "(sys \<Rightarrow> sys \<Rightarrow> bool) \<Rightarrow> (string \<Rightarrow> string \<Rightarrow> string \<Rightarrow> (sys, unit) prog) \<Rightarrow> env \<Rightarrow> bool" where
  "callbacks_keep Q sync E \<longleftrightarrow> (\<forall>cr. env_resumer E = Some cr \<longrightarrow> resumer_keeps Q cr) \<and> (\<forall>p i r. keeps Q (sync p i r))"

lemma changed_halting:
  assumes "callbacks_keep unlocked_halting sync E"
  shows "keeps unlocked_halting (on_robot_execution_changed (workflow_side (observed_by sync F P) E) c e typ payload)"
proof -
  let ?E = "without_agents (workflow_side (observed_by sync F P) E)"
  have "ports_keep unlocked_halting ?E"
    using assms robot_stop_halting[of sync F P]
    by (auto simp: ports_keep_def without_agents_def workflow_side_def refusing_planner_def refusing_executor_def
        planner_keeps_def executor_keeps_def stopper_keeps_def callbacks_keep_def
        intro: unlocked.whole.keeps_ok unlocked.whole.keeps_err)
  then show ?thesis
    unfolding observer_without_agents[of "workflow_side (observed_by sync F P) E"] by (rule unlocked.keeps_robot_changed)
qed

lemma observe_halting:
  assumes "callbacks_keep unlocked_halting sync E"
  shows "keeps unlocked_halting (observe (robot_side sync E P) e typ payload)"
proof -
  have "keeps unlocked_halting (map_checkpoint sync e)"
    unfolding map_checkpoint_def using assms by (intro unlocked.robot_rules) (simp add: callbacks_keep_def)
  moreover have "observe (robot_side sync E P) e typ payload = (go (map_checkpoint sync e) (\<lambda>_.
      go (on_robot_execution_changed (workflow_side (observed_by sync (workflow_side P E) P) E) [] e typ payload) (\<lambda>_. ok ())))"
    by (simp add: robot_side_def wire_once_def observe_def observed_by_def[of _ "workflow_side (observed_by _ _ _) _"]
      observer_chain_def)
  ultimately show ?thesis
    by (simp only:) (intro unlocked.base_rules changed_halting assms)
qed

section \<open>Late reports revive nothing\<close>

text \<open>What a message may do to the status of an Execution.\<close>

definition may_become :: "string \<Rightarrow> string \<Rightarrow> bool" where
  "may_become old new \<longleftrightarrow>
     (\<not> active_robot_status old \<longrightarrow> \<not> active_robot_status new \<or> old = ''interrupted'' \<and> new = ''stopping'') \<and>
     (old = ''stopping'' \<longrightarrow> new = ''stopping'' \<or> \<not> active_robot_status new)"

definition revives_nothing :: "sys \<Rightarrow> sys \<Rightarrow> bool" where
  "revives_nothing s t \<longleftrightarrow>
     (rows_ok (dbase s) \<and> hb_admissions (hub s) = [] \<longrightarrow> rows_become may_become (dbase s) (dbase t))"

lemma may_become_refl: "may_become st st"
  by (simp add: may_become_def)

lemma stop_statuses: "active_robot_status ''stopping''" "\<not> active_robot_status ''interrupted''"
  by (simp_all add: active_robot_status_def)

lemma stops_may_become:
  assumes "stops_row a b"
  shows "may_become a b"
  using assms stop_statuses unfolding stops_row_def may_become_def by (elim disjE conjE) auto

lemma may_become_stops:
  assumes "may_become a b" "stops_row b c" "b \<noteq> ''interrupted'' \<or> c = b"
  shows "may_become a c"
proof (cases "c = b")
  case False
  with assms(2,3) have "active_robot_status b" "c = ''stopping'' \<or> c = ''interrupted''"
    by (simp_all add: stops_row_def)
  with assms(1) stop_statuses show ?thesis unfolding may_become_def by blast
qed (use assms(1) in simp)

lemma rows_become_weaken: "rows_become p d d' \<Longrightarrow> (\<And>a b. p a b \<Longrightarrow> q a b) \<Longrightarrow> rows_become q d d'"
  unfolding rows_become_def by blast

lemma rows_become_kept:
  assumes "kept s t"
  shows "rows_become may (dbase t) d = rows_become may (dbase s) d" "rows_become may d (dbase t) = rows_become may d (dbase s)"
    "rows_ok (dbase t) = rows_ok (dbase s)"
  using assms by (simp_all add: rows_become_def rows_ok_def kept_def)

interpretation reports: reporting revives_nothing
proof
  fix s t v :: sys
  show "kept s t \<Longrightarrow> revives_nothing s t"
    by (simp add: revives_nothing_def kept_def rows_become_same may_become_refl)
  show "kept s t \<Longrightarrow> revives_nothing t v \<Longrightarrow> revives_nothing s v"
    unfolding revives_nothing_def using rows_become_kept[of s t] by (auto simp: kept_def)
  show "revives_nothing s t \<Longrightarrow> kept t v \<Longrightarrow> revives_nothing s v"
    unfolding revives_nothing_def using rows_become_kept[of t v] by auto
qed (simp add: revives_nothing_def)

lemma after_save_reports:
  assumes id: "e_id f = e_id e" and may: "may_become (e_status e) (e_status f)"
    and rest: "keeps unlocked_halting m" "e_status f = ''interrupted'' \<Longrightarrow> keeps kept m"
  shows "after revives_nothing e (go (store (save_robot_execution f)) (\<lambda>_. m))"
  unfolding after_def
proof (intro allI impI)
  fix s :: sys
  assume known: "known e (dbase s)"
  obtain r d where run: "save_robot_execution f (dbase s) = (r, d)" by fastforce
  show "revives_nothing s (snd (go (store (save_robot_execution f)) (\<lambda>_. m) s))"
  proof (cases r)
    case (Inl x)
    with run save_known(1)[OF known id] show ?thesis
      by (auto simp: run_go run_store intro: reports.kept_step kept.whole.frame_refl)
  next
    case (Inr u)
    note saved = save_known(2)[OF known id run[unfolded Inr]]
    let ?s = "s\<lparr>dbase := d\<rparr>" and ?t = "snd (m (s\<lparr>dbase := d\<rparr>))"
    have "rows_become may_become (dbase s) (dbase ?t)" if free: "hb_admissions (hub s) = []"
      unfolding rows_become_def
    proof (intro impI conjI allI)
      have "halting ?s ?t"
        using keepsD[OF rest(1), of ?s] free saved by (simp add: unlocked_halting_def known_def)
      then have rows: "rows_become stops_row d (dbase ?t)" using saved by (simp add: halting_def known_def)
      then show "rows_ok (dbase ?t)" using saved by (auto simp: known_def dest: rows_becomeD(1))
      fix i x assume x: "find_by xr_id i (executions (dbase s)) = Some x"
      then obtain z where z: "find_by xr_id i (executions d) = Some z"
        "xr_status z = (if i = e_id f then e_status f else xr_status x)" using saved by blast
      obtain y where y: "find_by xr_id i (executions (dbase ?t)) = Some y" "stops_row (xr_status z) (xr_status y)"
        using rows_becomeD(2)[OF rows _ z(1)] saved by (auto simp: known_def)
      have "may_become (xr_status x) (xr_status y)"
      proof (cases "i = e_id f")
        case True
        then have st: "xr_status x = e_status e" "xr_status z = e_status f" using x z known id by (auto simp: known_def)
        have "y = z" if "e_status f = ''interrupted''"
          using keepsD[OF rest(2)[OF that], of ?s] y(1) z(1) by (simp add: kept_def)
        with st y(2) may show ?thesis by (auto intro: may_become_stops)
      next
        case False
        with y(2) z(2) show ?thesis by (auto intro: stops_may_become)
      qed
      with y(1) show "\<exists>y. find_by xr_id i (executions (dbase ?t)) = Some y \<and> may_become (xr_status x) (xr_status y)" by blast
    qed
    with run Inr show ?thesis by (simp add: revives_nothing_def run_go run_store)
  qed
qed

lemma event_becomes: "may_become (e_status e) (e_status (apply_event e typ payload now))"
  by (simp add: may_become_def apply_event_def guarded_status_def Let_def)

text \<open>The messages, with the wired observers.\<close>

lemma settle_kept: "keeps kept (settle_pilot R pilot f)"
  unfolding settle_pilot_def by (intro kept.robot_rules kept.keeps_pilot_pointer)

lemma kept_unlocked: "keeps kept m \<Longrightarrow> keeps unlocked_halting m"
  by (auto simp: keeps_def unlocked_halting_def kept_halting)

lemma interrupted_wired: "e_status f = ''interrupted'' \<Longrightarrow> keeps kept (observe (robot_side sync E P) f typ payload)"
  unfolding robot_side_def by (rule interrupted_observe_kept)

lemmas message_rules = reports.simple reports.go_first reports.attempt_first reports.reads_execution
  reports.after_if reports.after_at_now

lemma reports_event:
  assumes "callbacks_keep unlocked_halting sync E"
  shows "keeps revives_nothing (handle_execution_event (robot_side sync E P) pilot typ n payload)"
proof -
  let ?R = "robot_side sync E P"
  have seq: "keeps kept (if n \<le> 0 then store (next_robot_execution_event_sequence i) else ok n)"
    "keeps kept (store (append_robot_execution_event ev))" for i ev
    by (intro kept.robot_rules)+
  have id: "e_id (apply_event e typ payload now) = e_id e" for e now by (simp add: apply_event_def Let_def)
  have settle: "keeps unlocked_halting (go (settle_pilot ?R pilot f) (\<lambda>_. go (publish_execution f typ) (\<lambda>_. observe ?R f typ shown)))"
    "e_status f = ''interrupted'' \<Longrightarrow>
      keeps kept (go (settle_pilot ?R pilot f) (\<lambda>_. go (publish_execution f typ) (\<lambda>_. observe ?R f typ shown)))" for f shown
    by (intro unlocked.whole.keeps_go kept_unlocked[OF settle_kept] unlocked.keeps_publish observe_halting[OF assms])
      (intro kept.whole.keeps_go settle_kept kept.keeps_publish interrupted_wired; assumption)
  show ?thesis
    unfolding handle_execution_event_def Let_def
    by (intro reports.simple reports.reads_execution reports.after_if reports.after_go reports.after_at_now seq
        after_save_reports id event_becomes settle reports.after_keeps reports.still kept.whole.keeps_err)
qed

lemma becomes: "may_become st ''failed''" "may_become st ''interrupted''"
  by (simp_all add: may_become_def active_robot_status_def)

lemma reports_rejected:
  assumes "callbacks_keep unlocked_halting sync E"
  shows "keeps revives_nothing (rejected_command (robot_side sync E P) pilot c message)"
proof -
  let ?R = "robot_side sync E P"
  have pilots: "keeps kept (attempt (store (get_robot_pilot pilot)) (\<lambda>r. case r of
      Inr p \<Rightarrow> if rp_current_execution_id p = i then set_pilot_execution ?R p [] else ok () | Inl _ \<Rightarrow> ok ()))"
    "keeps kept (attempt (store (get_robot_pilot pilot)) (\<lambda>r. case r of
      Inr p \<Rightarrow> set_pilot_interrupted p i | Inl _ \<Rightarrow> ok ()))" for i
    by (intro kept.robot_rules kept.keeps_pilot_pointer)+
  have tell: "keeps unlocked_halting (go m (\<lambda>_. go (publish_execution f kind) (\<lambda>_. observe ?R f how shown)))"
    "e_status f = ''interrupted'' \<Longrightarrow> keeps kept (go m (\<lambda>_. go (publish_execution f kind) (\<lambda>_. observe ?R f how shown)))"
    if "keeps kept m" for m :: "(sys, unit) prog" and f kind how shown
    by (intro unlocked.whole.keeps_go kept_unlocked[OF that] unlocked.keeps_publish observe_halting[OF assms])
      (intro kept.whole.keeps_go that kept.keeps_publish interrupted_wired; assumption)
  have "keeps revives_nothing (fail_rejected_execution ?R pilot i message)" for i
    unfolding fail_rejected_execution_def Let_def
    by (intro reports.reads_execution reports.after_if reports.after_at_now after_save_reports tell pilots
        reports.after_keeps[OF reports.still[OF kept.whole.keeps_ok]]) (simp_all add: becomes)
  moreover have "keeps revives_nothing (interrupt_rejected_stop ?R pilot i message)" for i
    unfolding interrupt_rejected_stop_def Let_def
    by (intro reports.reads_execution reports.after_if reports.after_at_now after_save_reports tell pilots
        reports.after_keeps[OF reports.still[OF kept.whole.keeps_ok]]) (simp_all add: becomes)
  moreover have "keeps revives_nothing (store (save_robot_pilot_skill x))" for x
    by (intro reports.still kept.robot_rules)
  ultimately show ?thesis
    unfolding rejected_command_def Let_def
    by (intro reports.simple reports.still[OF kept.whole.keeps_ok])
qed

lemma reports_ack:
  assumes "callbacks_keep unlocked_halting sync E"
  shows "keeps revives_nothing (handle_command_ack (robot_side sync E P) pilot i accepted message result)"
proof -
  have rejected: "keeps revives_nothing (go (rejected_command (robot_side sync E P) pilot c message') (\<lambda>_. err x))"
    for c message' x
    by (intro reports.go_last reports_rejected[OF assms] kept.whole.keeps_err)
  have found: "keeps revives_nothing (case found of None \<Rightarrow> err (ErrText ''command.ack matches no command'')
     | Some pending \<Rightarrow>
         if pd_pilot_instance_id pending \<noteq> pilot then err (ErrText ''command.ack matches no command'')
         else if pd_waits pending then
           on_hub (put_ack i \<lparr>ak_ok = accepted, ak_error = message, ak_result = result\<rparr>)
         else if accepted then
           (if is_skill_command (cd_type (pd_command pending)) then
              attempt (store (get_robot_pilot pilot)) (\<lambda>r. case r of
                Inr p \<Rightarrow> spawn_reconcile_skills (rp_robot_id p)
              | Inl _ \<Rightarrow> ok ())
            else ok ())
         else
           let message = (if trim_space message = [] then ''Pilot refused the command'' else message) in
           go (rejected_command (robot_side sync E P) pilot (pd_command pending) message) (\<lambda>_.
           err (ErrText (''Pilot command '' @ cd_type (pd_command pending) @ '' ('' @ i @ '') failed: '' @ message))))" for found
  proof (cases found)
    case (Some pending)
    show ?thesis
      unfolding Some option.case Let_def
      by (intro reports.simple(3) rejected) (intro reports.still kept.robot_rules kept.keeps_hub kept.keeps_pilot_pointer)+
  qed (simp add: reports.still kept.whole.keeps_err)
  show ?thesis
    unfolding handle_command_ack_def Let_def
    by (intro reports.simple(1) reports.go_first kept.keeps_hub found[unfolded Let_def])
qed

text \<open>No message of a Pilot but a reconciliation revives an Execution.\<close>

theorem messages_revive_nothing:
  assumes "callbacks_keep unlocked_halting sync E" "\<And>remote. msg \<noteq> UpReconcile remote"
  shows "keeps revives_nothing (gateway_message (robot_side sync E P) pilot msg)"
proof -
  let ?R = "robot_side sync E P"
  have quiet: "keeps kept (handle_skill_status ?R pilot m)" "keeps kept (handle_debug_status ?R pilot m)"
    "keeps kept (heartbeat ?R pilot p)" "keeps kept (announce_artifact ?R pilot m)" for p m
    unfolding handle_skill_status_def handle_debug_status_def heartbeat_def announce_artifact_def Let_def
    by (intro kept.robot_rules kept.keeps_publish kept.keeps_pilot_pointer kept.keeps_hub kept.keeps_sends
        kept.keeps_transfers)+
  have event: "keeps revives_nothing (handle_pilot_event ?R pilot kind n m)" for kind n m
  proof -
    have beat: "keeps kept (case pilot_of_map ?R m of None \<Rightarrow> err ErrJson | Some p \<Rightarrow> heartbeat ?R pilot p)"
      by (cases "pilot_of_map ?R m") (simp_all add: kept.whole.keeps_err quiet)
    show ?thesis
      unfolding handle_pilot_event_def
      by (intro reports.simple(3) reports_event[OF assms(1)]) (intro reports.still beat quiet)+
  qed
  show ?thesis
  proof (cases msg)
    case (UpReconcile remote)
    with assms(2) show ?thesis by blast
  next
    case (UpHeartbeat payload)
    show ?thesis
      unfolding gateway_message_def UpHeartbeat uplink.case
      by (intro reports.attempt_last event kept.robot_rules)
  qed (unfold gateway_message_def, simp_all only: uplink.case,
      (intro reports.ignoring_last event reports_ack[OF assms(1)] kept.whole.keeps_ok reports.still)+)
qed

end
