(* ===== verification/StoreMaps.thy ===== *)
theory StoreMaps
  imports StoreQuery
begin

text \<open>
  The semantic maps of a Project (\<open>internal/store/semantic_map.go\<close>): two maps (simulation and
  real), each with numbered generations of which the last one is open; Entities, Relations and
  source mappings belong to one generation.  \<open>apply_map_update\<close> is the only writer of map content.

  Floating point: comparisons are exact on \<open>float64\<close>; the arithmetic of the machine (which the
  compiler may fuse) is the parameter \<open>float_ops\<close>.
\<close>

section \<open>Floats\<close>

record float_ops =
  fo_add :: "float64 \<Rightarrow> float64 \<Rightarrow> float64"
  fo_sub :: "float64 \<Rightarrow> float64 \<Rightarrow> float64"
  fo_mul :: "float64 \<Rightarrow> float64 \<Rightarrow> float64"
  fo_div :: "float64 \<Rightarrow> float64 \<Rightarrow> float64"
  fo_sqrt :: "float64 \<Rightarrow> float64"

fun fl_less :: "float64 \<Rightarrow> float64 \<Rightarrow> bool" where
  "fl_less (Fin a) (Fin b) = (a < b)"
| "fl_less (Fin a) PosInf = True"
| "fl_less NegInf (Fin b) = True"
| "fl_less NegInf PosInf = True"
| "fl_less _ _ = False"

definition fl_le :: "float64 \<Rightarrow> float64 \<Rightarrow> bool" where
  "fl_le a b \<longleftrightarrow> a \<noteq> NaN \<and> (a = b \<or> fl_less a b)"

fun fl_abs :: "float64 \<Rightarrow> float64" where
  "fl_abs (Fin n) = Fin (abs n)"
| "fl_abs NegInf = PosInf"
| "fl_abs x = x"

definition fl_max :: "float64 \<Rightarrow> float64 \<Rightarrow> float64" where
  "fl_max a b = (if a = PosInf \<or> b = PosInf then PosInf else if a = NaN \<or> b = NaN then NaN
     else if fl_less a b then b else a)"

definition fl_zero :: float64 where "fl_zero = Fin 0"
definition fl_one :: float64 where "fl_one = Fin (2 ^ 1074)"
definition fl_two :: float64 where "fl_two = Fin (2 ^ 1075)"

text \<open>The doubles nearest to \<open>1e-3\<close> and \<open>1e-6\<close>.\<close>

definition fl_milli :: float64 where "fl_milli = Fin (4611686018427388 * 2 ^ 1012)"
definition fl_micro :: float64 where "fl_micro = Fin (4722366482869645 * 2 ^ 1002)"

section \<open>Validation\<close>

definition valid_entity_status :: "string \<Rightarrow> bool" where
  "valid_entity_status st \<longleftrightarrow> st = ''active'' \<or> st = ''uncertain'' \<or> st = ''removed''"

definition ascii_lower :: "string \<Rightarrow> string" where
  "ascii_lower = map (\<lambda>c. if of_char c \<in> {65..90 :: nat} then char_of (of_char c + 32 :: nat) else c)"

definition stable_map_predicate :: "string \<Rightarrow> bool" where
  "stable_map_predicate p \<longleftrightarrow> ascii_lower (trim_space p) \<notin> {''near'', ''left_of'', ''right_of'', ''in_front_of'',
     ''behind'', ''visible'', ''reachable'', ''distance''} \<and> trim_space p \<noteq> []"

definition finite_float :: "float64 \<Rightarrow> bool" where
  "finite_float v \<longleftrightarrow> v \<noteq> NaN \<and> v \<noteq> PosInf \<and> v \<noteq> NegInf"

definition validate_position :: "position \<Rightarrow> bool" where
  "validate_position p \<longleftrightarrow> finite_float (po_x p) \<and> finite_float (po_y p) \<and> finite_float (po_z p)"

definition quaternion_norm :: "float_ops \<Rightarrow> quaternion \<Rightarrow> float64" where
  "quaternion_norm F q = fo_sqrt F (fo_add F (fo_add F (fo_add F (fo_mul F (qu_x q) (qu_x q)) (fo_mul F (qu_y q) (qu_y q)))
     (fo_mul F (qu_z q) (qu_z q))) (fo_mul F (qu_w q) (qu_w q)))"

definition validate_pose :: "float_ops \<Rightarrow> pose \<Rightarrow> (db, unit) prog" where
  "validate_pose F p =
    (let q = ps_orientation p in
     if \<not> validate_position (ps_position p) \<or>
        \<not> (finite_float (qu_x q) \<and> finite_float (qu_y q) \<and> finite_float (qu_z q) \<and> finite_float (qu_w q))
     then err (Wrapped ''pose must be finite'' ErrInvalidState)
     else if fl_less fl_milli (fl_abs (fo_sub F (quaternion_norm F q) fl_one))
     then err (Wrapped ''quaternion must be normalized'' ErrInvalidState)
     else ok ())"

definition validate_bounds :: "bounds \<Rightarrow> (db, unit) prog" where
  "validate_bounds b =
    (if bo_kind b = [] \<or> bo_kind b = ''point'' then ok ()
     else if bo_kind b = ''box'' then
       (case bo_size b of
          None \<Rightarrow> err (Wrapped ''box size'' ErrInvalidState)
        | Some z \<Rightarrow>
          if \<not> validate_position z \<or> fl_le (po_x z) fl_zero \<or> fl_le (po_y z) fl_zero \<or> fl_less (po_z z) fl_zero
          then err (Wrapped ''box size'' ErrInvalidState) else ok ())
     else if bo_kind b = ''cylinder'' then
       (if \<not> finite_float (bo_radius b) \<or> \<not> finite_float (bo_height b) \<or> fl_le (bo_radius b) fl_zero \<or>
           fl_less (bo_height b) fl_zero
        then err (Wrapped ''cylinder size'' ErrInvalidState) else ok ())
     else if bo_kind b = ''plane'' \<or> bo_kind b = ''region'' \<or> bo_kind b = ''polygon'' then
       (if length (bo_points b) < 3 then err (Wrapped ''region needs three points'' ErrInvalidState)
        else if list_all validate_position (bo_points b) then ok ()
        else err (Wrapped ''region point'' ErrInvalidState))
     else err (Wrapped ''bounds kind'' ErrInvalidState))"

text \<open>The ray casting of \<open>pointInsideBounds\<close>: one edge from \<open>pj\<close> to \<open>pi\<close> after another.\<close>

fun inside_polygon :: "float_ops \<Rightarrow> position \<Rightarrow> position \<Rightarrow> position list \<Rightarrow> bool \<Rightarrow> bool" where
  "inside_polygon F p pj [] inside = inside"
| "inside_polygon F p pj (pi # rest) inside = inside_polygon F p pi rest
     (if fl_less (po_y p) (po_y pi) \<noteq> fl_less (po_y p) (po_y pj) \<and>
         fl_less (po_x p) (fo_add F (fo_div F (fo_mul F (fo_sub F (po_x pj) (po_x pi)) (fo_sub F (po_y p) (po_y pi)))
           (fo_sub F (po_y pj) (po_y pi))) (po_x pi))
      then \<not> inside else inside)"

definition point_inside_bounds :: "float_ops \<Rightarrow> position \<Rightarrow> position \<Rightarrow> bounds \<Rightarrow> bool" where
  "point_inside_bounds F p c b = (case (bo_kind b = ''box'', bo_size b) of
     (True, Some z) \<Rightarrow>
       fl_le (fl_abs (fo_sub F (po_x p) (po_x c))) (fo_div F (po_x z) fl_two) \<and>
       fl_le (fl_abs (fo_sub F (po_y p) (po_y c))) (fo_div F (po_y z) fl_two) \<and>
       fl_le (fl_abs (fo_sub F (po_z p) (po_z c))) (fl_max (fo_div F (po_z z) fl_two) fl_micro)
   | _ \<Rightarrow> 3 \<le> length (bo_points b) \<and> inside_polygon F p (last (bo_points b)) (bo_points b) False)"

section \<open>Rows\<close>

definition me_key :: "map_entity \<Rightarrow> string \<times> int \<times> string" where
  "me_key e = (me_map_id e, me_generation e, me_id e)"

definition mr_key :: "map_relation \<Rightarrow> string \<times> int \<times> string" where
  "mr_key r = (mr_map_id r, mr_generation r, mr_id r)"

definition mg_key :: "map_generation \<Rightarrow> string \<times> int" where
  "mg_key g = (mg_map_id g, mg_generation g)"

definition mo_key :: "map_source \<Rightarrow> string \<times> int \<times> string \<times> string" where
  "mo_key x = (mo_map_id x, mo_generation x, mo_source x, mo_source_id x)"

definition desk_put :: "(desk \<Rightarrow> desk) \<Rightarrow> (db, unit) prog" where
  "desk_put f = writing (\<lambda>s. s\<lparr>desk := f (desk s)\<rparr>)"

lemma run_desk_put [run_simps]: "desk_put f s = (Inr (), s\<lparr>desk := f (desk s)\<rparr>)"
  by (simp add: desk_put_def run_writing)

definition get_map_generation :: "string \<Rightarrow> int \<Rightarrow> (db, map_generation) prog" where
  "get_map_generation map_id generation =
     select_row (\<lambda>s. find_by mg_key (map_id, generation) (map_generations (desk s))) ErrNotFound"

definition get_semantic_map_by_id :: "string \<Rightarrow> (db, semantic_map) prog" where
  "get_semantic_map_by_id i = select_row (\<lambda>s. find_by sm_id i (semantic_maps s)) ErrNotFound"

definition list_semantic_maps :: "string \<Rightarrow> (db, semantic_map list) prog" where
  "list_semantic_maps project_id =
     select_rows (\<lambda>s. sort_key sm_slot (filter (\<lambda>m. sm_project_id m = project_id) (semantic_maps s)))"

definition get_map_entity_tx :: "string \<Rightarrow> int \<Rightarrow> string \<Rightarrow> (db, map_entity) prog" where
  "get_map_entity_tx map_id generation i = select_row (\<lambda>s. find_by me_key (map_id, generation, i) (map_entities s)) ErrNotFound"

definition get_map_relation_tx :: "string \<Rightarrow> int \<Rightarrow> string \<Rightarrow> (db, map_relation) prog" where
  "get_map_relation_tx map_id generation i =
     select_row (\<lambda>s. find_by mr_key (map_id, generation, i) (map_relations (desk s))) ErrNotFound"

definition insert_generation :: "map_generation \<Rightarrow> (db, unit) prog" where
  "insert_generation g = reading (\<lambda>s.
     if mg_key g \<in> mg_key ` set (map_generations (desk s))
     then err (ErrUnique ''map_generations.map_id, map_generations.generation'')
     else desk_put (\<lambda>d. d\<lparr>map_generations := map_generations d @ [g]\<rparr>))"

text \<open>\<open>INSERT OR IGNORE\<close> of the map, and its first generation when the row was new.\<close>

definition ensure_semantic_map :: "string \<Rightarrow> time \<Rightarrow> string \<Rightarrow> (db, unit) prog" where
  "ensure_semantic_map project_id now slot =
     go (new_id ''map-'') (\<lambda>i. reading (\<lambda>s.
       if i \<in> sm_id ` set (semantic_maps s) \<or>
          (project_id, slot) \<in> (\<lambda>m. (sm_project_id m, sm_slot m)) ` set (semantic_maps s) then ok ()
       else go (writing (\<lambda>s. s\<lparr>semantic_maps := semantic_maps s @
           [\<lparr>sm_id = i, sm_project_id = project_id, sm_slot = slot, sm_generation = 1, sm_revision = 0,
             sm_frame_id = ''world'', sm_created_at = now, sm_updated_at = now\<rparr>]\<rparr>)) (\<lambda>_.
         insert_generation \<lparr>mg_map_id = i, mg_generation = 1, mg_revision = 0, mg_reason = ''initial'',
           mg_created_at = now, mg_closed_at = None\<rparr>)))"

definition ensure_semantic_maps_tx :: "string \<Rightarrow> time \<Rightarrow> (db, unit) prog" where
  "ensure_semantic_maps_tx project_id now =
     for_each (ensure_semantic_map project_id now) [''simulation_map'', ''real_map'']"

definition ensure_semantic_maps :: "string \<Rightarrow> time \<Rightarrow> (db, semantic_map list) prog" where
  "ensure_semantic_maps project_id now =
     go (get_project project_id) (\<lambda>_.
     go (tx (ensure_semantic_maps_tx project_id now)) (\<lambda>_.
       list_semantic_maps project_id))"

section \<open>Reading\<close>

record map_snapshot =
  ms_map :: semantic_map
  ms_generation :: map_generation
  ms_read_only :: bool
  ms_entities :: "map_entity list"
  ms_relations :: "map_relation list"
  ms_name_matches :: "(string \<times> nat) list"

record map_query =
  q_generation :: int
  q_entity_id :: string
  q_entity_ids :: "string list"
  q_entity_names :: "string list"
  q_entity_type :: string
  q_entity_types :: "string list"
  q_status :: string
  q_region_id :: string
  q_predicate :: string
  q_subject_id :: string
  q_object_id :: string
  q_limit :: int

definition everything :: "int \<Rightarrow> map_query" where
  "everything generation = \<lparr>q_generation = generation, q_entity_id = [], q_entity_ids = [], q_entity_names = [],
     q_entity_type = [], q_entity_types = [], q_status = [], q_region_id = [], q_predicate = [],
     q_subject_id = [], q_object_id = [], q_limit = 0\<rparr>"

definition entity_matches :: "map_query \<Rightarrow> map_entity \<Rightarrow> bool" where
  "entity_matches q e \<longleftrightarrow> (q_entity_id q \<noteq> [] \<longrightarrow> me_id e = q_entity_id q) \<and>
     (q_entity_ids q \<noteq> [] \<longrightarrow> me_id e \<in> set (q_entity_ids q)) \<and>
     (q_entity_type q \<noteq> [] \<longrightarrow> me_type e = q_entity_type q) \<and>
     (q_entity_types q \<noteq> [] \<longrightarrow> me_type e \<in> set (q_entity_types q)) \<and>
     (q_status q \<noteq> [] \<longrightarrow> me_status e = q_status q) \<and>
     (q_entity_names q \<noteq> [] \<longrightarrow> me_name e \<in> set (q_entity_names q))"

definition query_map_entities :: "string \<Rightarrow> int \<Rightarrow> map_query \<Rightarrow> (db, map_entity list) prog" where
  "query_map_entities map_id generation q =
    (if q_status q \<noteq> [] \<and> \<not> valid_entity_status (q_status q) then err ErrInvalidState
     else select_rows (\<lambda>s. sort_key (\<lambda>e. (me_type e, me_name e, me_id e))
       (filter (\<lambda>e. me_map_id e = map_id \<and> me_generation e = generation \<and> entity_matches q e) (map_entities s))))"

text \<open>The inner join of a Relation with its two Entities.\<close>

definition live_entity :: "db \<Rightarrow> string \<Rightarrow> int \<Rightarrow> string \<Rightarrow> bool" where
  "live_entity s map_id generation i \<longleftrightarrow>
     (\<exists>e \<in> set (map_entities s). me_key e = (map_id, generation, i) \<and> me_status e \<noteq> ''removed'')"

definition relation_matches :: "map_query \<Rightarrow> map_relation \<Rightarrow> bool" where
  "relation_matches q r \<longleftrightarrow> (q_predicate q \<noteq> [] \<longrightarrow> mr_predicate r = q_predicate q) \<and>
     (q_subject_id q \<noteq> [] \<longrightarrow> mr_subject_id r = q_subject_id q) \<and>
     (q_object_id q \<noteq> [] \<longrightarrow> mr_object_id r = q_object_id q)"

definition query_map_relations :: "string \<Rightarrow> int \<Rightarrow> map_query \<Rightarrow> (db, map_relation list) prog" where
  "query_map_relations map_id generation q =
     select_rows (\<lambda>s. sort_key (\<lambda>r. (mr_predicate r, mr_subject_id r, mr_object_id r, mr_id r))
       (filter (\<lambda>r. mr_map_id r = map_id \<and> mr_generation r = generation \<and>
           live_entity s map_id generation (mr_subject_id r) \<and> live_entity s map_id generation (mr_object_id r) \<and>
           relation_matches q r) (map_relations (desk s))))"

definition filter_entities_in_region ::
  "float_ops \<Rightarrow> string \<Rightarrow> int \<Rightarrow> string \<Rightarrow> map_entity list \<Rightarrow> (db, map_entity list) prog" where
  "filter_entities_in_region F map_id generation region_id items =
     go (select_row (\<lambda>s. find (\<lambda>e. me_key e = (map_id, generation, region_id) \<and> me_status e \<noteq> ''removed'') (map_entities s))
       ErrNotFound) (\<lambda>region.
     if bo_kind (me_bounds region) \<notin> {''region'', ''plane'', ''box''} then err ErrInvalidState
     else ok (filter (\<lambda>e. point_inside_bounds F (ps_position (me_pose e)) (ps_position (me_pose region))
       (me_bounds region)) items))"

definition entity_filter :: "map_query \<Rightarrow> bool" where
  "entity_filter q \<longleftrightarrow> q_entity_id q \<noteq> [] \<or> q_entity_ids q \<noteq> [] \<or> q_entity_names q \<noteq> [] \<or> q_entity_type q \<noteq> [] \<or>
     q_entity_types q \<noteq> [] \<or> q_status q \<noteq> [] \<or> q_region_id q \<noteq> []"

definition relation_filter :: "map_query \<Rightarrow> bool" where
  "relation_filter q \<longleftrightarrow> q_predicate q \<noteq> [] \<or> q_subject_id q \<noteq> [] \<or> q_object_id q \<noteq> []"

definition limited :: "int \<Rightarrow> 'r list \<Rightarrow> 'r list" where
  "limited limit rows = (if 0 < limit \<and> limit < int (length rows) then take (nat limit) rows else rows)"

text \<open>
  The loop over the Relations under an Entity condition: a Relation with one selected end is kept
  and selects both ends, for the Relations after it too.
\<close>

fun connected_relations :: "string set \<Rightarrow> map_relation list \<Rightarrow> map_relation list \<times> string set" where
  "connected_relations selected [] = ([], selected)"
| "connected_relations selected (r # rs) =
    (if mr_subject_id r \<in> selected \<or> mr_object_id r \<in> selected
     then let (kept, ends) = connected_relations (insert (mr_subject_id r) (insert (mr_object_id r) selected)) rs
       in (r # kept, ends)
     else connected_relations selected rs)"

definition relation_ends :: "map_relation list \<Rightarrow> string set" where
  "relation_ends rs = mr_subject_id ` set rs \<union> mr_object_id ` set rs"

text \<open>
  The Relations that stay and the Entities they and the condition select.  The limit is applied to
  both lists before the Relations are narrowed to the selected Entities.
\<close>

definition map_subset :: "map_query \<Rightarrow> map_entity list \<Rightarrow> map_relation list \<Rightarrow> map_relation list \<times> string set" where
  "map_subset q entities relations =
    (let seeds = me_id ` set (if entity_filter q then limited (q_limit q) entities else entities);
         first = limited (q_limit q) relations;
         (kept, ends) = (if entity_filter q then connected_relations seeds first else (first, seeds))
     in (kept, if relation_filter q then relation_ends kept else ends))"

definition limit_map_query_subset ::
  "string \<Rightarrow> int \<Rightarrow> map_query \<Rightarrow> map_entity list \<Rightarrow> map_relation list \<Rightarrow> (db, map_entity list \<times> map_relation list) prog" where
  "limit_map_query_subset map_id generation q entities relations =
    (if \<not> entity_filter q \<and> \<not> relation_filter q then ok (entities, relations)
     else let (kept, selected) = map_subset q entities relations in
       if selected = {} then ok ([], kept)
       else go (query_map_entities map_id generation (everything generation)) (\<lambda>all.
         ok (filter (\<lambda>e. me_id e \<in> selected) all, kept)))"

definition snapshot_of :: "semantic_map \<Rightarrow> map_generation \<Rightarrow> int \<Rightarrow> map_entity list \<Rightarrow> map_relation list \<Rightarrow>
    (string \<times> nat) list \<Rightarrow> map_snapshot" where
  "snapshot_of m g generation entities relations names =
     \<lparr>ms_map = m\<lparr>sm_generation := generation, sm_revision := mg_revision g,
        sm_updated_at := (case mg_closed_at g of Some t \<Rightarrow> t | None \<Rightarrow> sm_updated_at m)\<rparr>,
      ms_generation = g, ms_read_only = (generation \<noteq> sm_generation m \<or> mg_closed_at g \<noteq> None),
      ms_entities = entities, ms_relations = relations, ms_name_matches = names\<rparr>"

definition get_map_snapshot :: "string \<Rightarrow> string \<Rightarrow> int \<Rightarrow> (db, map_snapshot) prog" where
  "get_map_snapshot project_id slot wanted =
     go (get_semantic_map project_id slot) (\<lambda>m.
     let generation = (if wanted = 0 then sm_generation m else wanted) in
     go (get_map_generation (sm_id m) generation) (\<lambda>g.
     go (query_map_entities (sm_id m) generation (everything generation)) (\<lambda>entities.
     go (query_map_relations (sm_id m) generation (everything generation)) (\<lambda>relations.
       ok (snapshot_of m g generation entities relations [])))))"

text \<open>How many Entities were found under each wanted name.\<close>

definition name_matches :: "map_query \<Rightarrow> map_entity list \<Rightarrow> (string \<times> nat) list" where
  "name_matches q entities = map (\<lambda>n. (n, count_where (\<lambda>e. me_name e = n) entities)) (remdups (q_entity_names q))"

definition query_semantic_map :: "float_ops \<Rightarrow> string \<Rightarrow> string \<Rightarrow> map_query \<Rightarrow> (db, map_snapshot) prog" where
  "query_semantic_map F project_id slot wanted =
    (if \<not> entity_filter wanted \<and> \<not> relation_filter wanted
     then err (Wrapped ''map.query needs a condition'' ErrInvalidState)
     else go (get_semantic_map project_id slot) (\<lambda>m.
       let q = (if q_generation wanted = 0 then wanted\<lparr>q_generation := sm_generation m\<rparr> else wanted) in
       go (get_map_generation (sm_id m) (q_generation q)) (\<lambda>g.
       go (query_map_entities (sm_id m) (q_generation q) q) (\<lambda>found.
       go (query_map_relations (sm_id m) (q_generation q) q) (\<lambda>relations.
       go (if q_region_id q \<noteq> []
           then filter_entities_in_region F (sm_id m) (q_generation q) (q_region_id q) found
           else ok found) (\<lambda>entities.
       go (limit_map_query_subset (sm_id m) (q_generation q) q entities relations) (\<lambda>(es, rs).
         ok (snapshot_of m g (q_generation q) es rs (name_matches q entities)))))))))"

section \<open>Writing\<close>

record map_update =
  mu_generation :: int
  mu_expected_revision :: int
  mu_source :: string
  mu_entities :: "map_entity list"
  mu_remove_entity_ids :: "string list"
  mu_relations :: "map_relation list"
  mu_source_entities :: "(string \<times> map_entity) list"
  mu_remove_relation_ids :: "string list"

definition update_semantic_maps :: "(semantic_map \<Rightarrow> bool) \<Rightarrow> (semantic_map \<Rightarrow> semantic_map) \<Rightarrow> (db, nat) prog" where
  "update_semantic_maps = updating semantic_maps (\<lambda>r s. s\<lparr>semantic_maps := r\<rparr>)"

definition update_generations :: "(map_generation \<Rightarrow> bool) \<Rightarrow> (map_generation \<Rightarrow> map_generation) \<Rightarrow> (db, nat) prog" where
  "update_generations = updating (\<lambda>s. map_generations (desk s)) (\<lambda>r s. s\<lparr>desk := (desk s)\<lparr>map_generations := r\<rparr>\<rparr>)"

definition update_entities :: "(map_entity \<Rightarrow> bool) \<Rightarrow> (map_entity \<Rightarrow> map_entity) \<Rightarrow> (db, nat) prog" where
  "update_entities = updating map_entities (\<lambda>r s. s\<lparr>map_entities := r\<rparr>)"

definition update_relations :: "(map_relation \<Rightarrow> bool) \<Rightarrow> (map_relation \<Rightarrow> map_relation) \<Rightarrow> (db, nat) prog" where
  "update_relations = updating (\<lambda>s. map_relations (desk s)) (\<lambda>r s. s\<lparr>desk := (desk s)\<lparr>map_relations := r\<rparr>\<rparr>)"

definition create_map_generation_tx :: "semantic_map \<Rightarrow> int \<Rightarrow> string \<Rightarrow> time \<Rightarrow> (db, unit) prog" where
  "create_map_generation_tx m expected reason now =
     go (update_generations (\<lambda>g. mg_key g = (sm_id m, sm_generation m)) (\<lambda>g. g\<lparr>mg_closed_at := Some now\<rparr>)) (\<lambda>_.
     go (update_semantic_maps (\<lambda>x. sm_id x = sm_id m \<and> sm_revision x = expected)
       (\<lambda>x. x\<lparr>sm_generation := sm_generation x + 1, sm_revision := 0, sm_updated_at := now\<rparr>)) (\<lambda>n.
     if n = 0 then err ErrRevisionConflict
     else insert_generation \<lparr>mg_map_id = sm_id m, mg_generation = sm_generation m + 1, mg_revision = 0,
       mg_reason = trim_space reason, mg_created_at = now, mg_closed_at = None\<rparr>))"

definition create_map_generation :: "string \<Rightarrow> string \<Rightarrow> int \<Rightarrow> string \<Rightarrow> time \<Rightarrow> (db, semantic_map) prog" where
  "create_map_generation project_id slot expected reason now =
     go (get_semantic_map project_id slot) (\<lambda>m.
     if sm_revision m \<noteq> expected then err ErrRevisionConflict
     else go (tx (create_map_generation_tx m expected reason now)) (\<lambda>_. get_semantic_map project_id slot))"

text \<open>The Entity a source object stands for: the one it was mapped to before, or a new one.\<close>

definition map_source_entity :: "semantic_map \<Rightarrow> string \<Rightarrow> string \<times> map_entity \<Rightarrow> (db, map_entity) prog" where
  "map_source_entity m source = (\<lambda>(source_id, entity).
    (if source = ''user'' \<or> trim_space source_id = [] then err ErrInvalidState
     else reading (\<lambda>s. case find_by mo_key (sm_id m, sm_generation m, source, source_id) (map_sources (desk s)) of
         None \<Rightarrow>
           go (if me_id entity = [] then new_id ''entity-'' else ok (me_id entity)) (\<lambda>i.
           go (desk_put (\<lambda>d. d\<lparr>map_sources := map_sources d @
               [\<lparr>mo_map_id = sm_id m, mo_generation = sm_generation m, mo_source = source,
                 mo_source_id = source_id, mo_entity_id = i\<rparr>]\<rparr>)) (\<lambda>_.
             ok (entity\<lparr>me_id := i\<rparr>)))
       | Some x \<Rightarrow>
           if me_id entity \<noteq> [] \<and> me_id entity \<noteq> mo_entity_id x
           then err (Wrapped ''source object is bound to another Entity'' ErrInvalidState)
           else ok (entity\<lparr>me_id := mo_entity_id x\<rparr>))))"

fun merge_evidence_from :: "string list \<Rightarrow> string list \<Rightarrow> string list" where
  "merge_evidence_from merged [] = merged"
| "merge_evidence_from merged (v # vs) =
    (let w = trim_space v in
     if w = [] \<or> w \<in> set merged then merge_evidence_from merged vs
     else merge_evidence_from (merged @ [w]) vs)"

definition merge_map_evidence :: "string list \<Rightarrow> string list \<Rightarrow> string list" where
  "merge_map_evidence existing incoming = merge_evidence_from [] (existing @ incoming)"

definition manual :: "map_entity \<Rightarrow> string \<Rightarrow> bool" where
  "manual e field \<longleftrightarrow> map_of (me_manual_fields e) field = Some True"

definition preserve_manual :: "map_entity \<Rightarrow> map_entity \<Rightarrow> map_entity" where
  "preserve_manual incoming existing = incoming
    \<lparr>me_status := (if manual existing ''existence'' then me_status existing else me_status incoming),
     me_type := (if manual existing ''type'' then me_type existing else me_type incoming),
     me_name := (if manual existing ''name'' then me_name existing else me_name incoming),
     me_frame_id := (if manual existing ''frame_id'' then me_frame_id existing else me_frame_id incoming),
     me_pose := (if manual existing ''pose'' then me_pose existing else me_pose incoming),
     me_bounds := (if manual existing ''bounds'' then me_bounds existing else me_bounds incoming),
     me_properties := (if manual existing ''properties'' then me_properties existing else me_properties incoming),
     me_evidence := merge_map_evidence (me_evidence existing) (me_evidence incoming),
     me_manual_fields := me_manual_fields existing\<rparr>"

definition all_manual :: "(string \<times> bool) list" where
  "all_manual = map (\<lambda>f. (f, True)) [''existence'', ''type'', ''name'', ''frame_id'', ''pose'', ''bounds'', ''properties'']"

text \<open>\<open>INSERT ... ON CONFLICT DO UPDATE\<close>: the row takes the new values, its revision goes up by one.\<close>

definition upsert_entity :: "map_entity \<Rightarrow> (db, unit) prog" where
  "upsert_entity e = writing (\<lambda>s. s\<lparr>map_entities :=
    (if me_key e \<in> me_key ` set (map_entities s)
     then update_where (\<lambda>x. me_key x = me_key e) (\<lambda>x. e\<lparr>me_revision := me_revision x + 1\<rparr>) (map_entities s)
     else map_entities s @ [e\<lparr>me_revision := 1\<rparr>])\<rparr>)"

text \<open>The row that an accepted Entity becomes, given the row that is there.\<close>

definition stored_entity :: "semantic_map \<Rightarrow> string \<Rightarrow> time \<Rightarrow> map_entity option \<Rightarrow> map_entity \<Rightarrow> map_entity" where
  "stored_entity m source now old given =
    (let kept = (case old of
           Some existing \<Rightarrow> if source \<noteq> ''user'' then preserve_manual given existing else given
         | None \<Rightarrow> given);
         final = (if source = ''user'' then kept\<lparr>me_manual_fields := all_manual\<rparr> else kept)
     in final\<lparr>me_map_id := sm_id m, me_generation := sm_generation m, me_source := source, me_updated_at := now\<rparr>)"

definition apply_entity :: "float_ops \<Rightarrow> semantic_map \<Rightarrow> string \<Rightarrow> time \<Rightarrow> map_entity \<Rightarrow> (db, unit) prog" where
  "apply_entity F m source now given =
     go (if me_id given = [] then new_id ''entity-'' else ok (me_id given)) (\<lambda>i.
     let entity = given\<lparr>me_id := i, me_status := (if me_status given = [] then ''active'' else me_status given)\<rparr> in
     if \<not> valid_entity_status (me_status entity) \<or> trim_space (me_type entity) = [] \<or> trim_space (me_name entity) = []
     then err ErrInvalidState
     else
       let framed = (if me_frame_id entity = [] then entity\<lparr>me_frame_id := sm_frame_id m\<rparr> else entity) in
       go (validate_pose F (me_pose framed)) (\<lambda>_.
       go (validate_bounds (me_bounds framed)) (\<lambda>_. reading (\<lambda>s.
         upsert_entity (stored_entity m source now
           (find_by me_key (sm_id m, sm_generation m, i) (map_entities s)) framed)))))"

definition remove_entity :: "semantic_map \<Rightarrow> string \<Rightarrow> time \<Rightarrow> string \<Rightarrow> (db, unit) prog" where
  "remove_entity m source now i =
     go (get_map_entity_tx (sm_id m) (sm_generation m) i) (\<lambda>existing.
     if source \<noteq> ''user'' \<and> manual existing ''existence''
     then err (Wrapped ''a source cannot remove a manual Entity'' ErrInvalidState)
     else unit_of (update_entities (\<lambda>e. me_key e = (sm_id m, sm_generation m, i))
       (\<lambda>e. e\<lparr>me_status := ''removed'', me_revision := me_revision e + 1, me_updated_at := now\<rparr>)))"

definition upsert_relation :: "map_relation \<Rightarrow> (db, unit) prog" where
  "upsert_relation r = desk_put (\<lambda>d. d\<lparr>map_relations :=
    (if mr_key r \<in> mr_key ` set (map_relations d)
     then update_where (\<lambda>x. mr_key x = mr_key r)
       (\<lambda>x. r\<lparr>mr_predicate := (if mr_manual x \<and> \<not> mr_manual r then mr_predicate x else mr_predicate r),
              mr_manual := (mr_manual x \<or> mr_manual r), mr_revision := mr_revision x + 1\<rparr>) (map_relations d)
     else map_relations d @ [r\<lparr>mr_revision := 1\<rparr>])\<rparr>)"

definition apply_relation :: "semantic_map \<Rightarrow> string \<Rightarrow> time \<Rightarrow> map_relation \<Rightarrow> (db, unit) prog" where
  "apply_relation m source now given =
     go (if mr_id given = [] then new_id ''relation-'' else ok (mr_id given)) (\<lambda>i.
     if mr_subject_id given = [] \<or> mr_object_id given = [] \<or> mr_subject_id given = mr_object_id given \<or>
        \<not> stable_map_predicate (mr_predicate given) then err ErrInvalidState
     else reading (\<lambda>s.
       if source \<noteq> ''user'' \<and> (case find_by mr_key (sm_id m, sm_generation m, i) (map_relations (desk s)) of None \<Rightarrow> False | Some x \<Rightarrow> mr_manual x)
       then err (Wrapped ''a source cannot overwrite a manual Relation'' ErrInvalidState)
       else go (for_each (check_map_entity (sm_id m) (sm_generation m)) [mr_subject_id given, mr_object_id given]) (\<lambda>_.
         upsert_relation (given\<lparr>mr_id := i, mr_map_id := sm_id m, mr_generation := sm_generation m, mr_source := source,
           mr_manual := (source = ''user'' \<or> mr_manual given), mr_updated_at := now\<rparr>))))"

definition remove_relation :: "semantic_map \<Rightarrow> string \<Rightarrow> string \<Rightarrow> (db, unit) prog" where
  "remove_relation m source i = desk_put (\<lambda>d. d\<lparr>map_relations :=
     filter (\<lambda>r. \<not> (mr_key r = (sm_id m, sm_generation m, i) \<and> (\<not> mr_manual r \<or> source = ''user''))) (map_relations d)\<rparr>)"

definition apply_map_update_tx :: "float_ops \<Rightarrow> semantic_map \<Rightarrow> map_update \<Rightarrow> time \<Rightarrow> (db, unit) prog" where
  "apply_map_update_tx F m update now =
    (let source = mu_source update in
     go (collect (map_source_entity m source) (mu_source_entities update)) (\<lambda>mapped.
     go (for_each (apply_entity F m source now) (mu_entities update @ mapped)) (\<lambda>_.
     go (for_each (remove_entity m source now) (mu_remove_entity_ids update)) (\<lambda>_.
     go (for_each (apply_relation m source now) (mu_relations update)) (\<lambda>_.
     go (for_each (remove_relation m source) (mu_remove_relation_ids update)) (\<lambda>_.
     go (update_semantic_maps (\<lambda>x. sm_id x = sm_id m \<and> sm_generation x = sm_generation m \<and> sm_revision x = sm_revision m)
       (\<lambda>x. x\<lparr>sm_revision := sm_revision x + 1, sm_updated_at := now\<rparr>)) (\<lambda>n.
     if n = 0 then err ErrRevisionConflict
     else unit_of (update_generations (\<lambda>g. mg_key g = (sm_id m, sm_generation m))
       (\<lambda>g. g\<lparr>mg_revision := mg_revision g + 1\<rparr>)))))))))"

definition apply_map_update :: "float_ops \<Rightarrow> string \<Rightarrow> string \<Rightarrow> map_update \<Rightarrow> time \<Rightarrow> (db, map_snapshot) prog" where
  "apply_map_update F project_id slot update now =
    (if mu_source update \<notin> {''user'', ''task'', ''simulation'', ''observation''}
     then err (Wrapped ''map update source'' ErrInvalidState)
     else go (get_semantic_map project_id slot) (\<lambda>m.
       if mu_generation update \<noteq> sm_generation m then err ErrStaleMapGeneration
       else if mu_expected_revision update \<noteq> sm_revision m then err ErrRevisionConflict
       else go (tx (apply_map_update_tx F m update now)) (\<lambda>_.
         get_map_snapshot project_id slot (sm_generation m))))"

section \<open>Sources\<close>

definition resolve_map_source_entity :: "string \<Rightarrow> string \<Rightarrow> int \<Rightarrow> string \<Rightarrow> string \<Rightarrow> (db, string) prog" where
  "resolve_map_source_entity project_id slot generation source source_id =
     go (get_semantic_map project_id slot) (\<lambda>m.
     if generation \<noteq> sm_generation m then err ErrStaleMapGeneration
     else go (select_row (\<lambda>s. find_by mo_key (sm_id m, generation, source, source_id) (map_sources (desk s))) ErrNotFound) (\<lambda>x.
       go (validate_map_reference project_id slot generation [mo_entity_id x]) (\<lambda>_. ok (mo_entity_id x))))"

definition resolve_map_entity_source :: "string \<Rightarrow> string \<Rightarrow> int \<Rightarrow> string \<Rightarrow> string \<Rightarrow> (db, string) prog" where
  "resolve_map_entity_source project_id slot generation source entity_id =
     go (get_semantic_map project_id slot) (\<lambda>m.
     if generation \<noteq> sm_generation m then err ErrStaleMapGeneration
     else go (validate_map_reference project_id slot generation [entity_id]) (\<lambda>_.
       go (select_row (\<lambda>s. find (\<lambda>x. mo_map_id x = sm_id m \<and> mo_generation x = generation \<and> mo_source x = source \<and>
           mo_entity_id x = entity_id) (map_sources (desk s))) ErrNotFound) (\<lambda>x. ok (mo_source_id x))))"

end
