(* ===== verification/StoreMapLaws.thy ===== *)
theory StoreMapLaws
  imports StoreMaps
begin

text \<open>
  What the writers of the semantic maps keep.  \<open>manual_law\<close>: what a user entered survives every
  write of another source.  \<open>touches k\<close>: a write of one generation changes nothing outside it.
  \<open>map_ok\<close> is the invariant that ties the two revisions and the open generation together; a closed
  generation is frozen (\<open>frozen\<close>).
\<close>

section \<open>Manual edits\<close>

definition manual_kept :: "map_entity \<Rightarrow> map_entity \<Rightarrow> bool" where
  "manual_kept e e' \<longleftrightarrow> me_manual_fields e' = me_manual_fields e \<and>
     (manual e ''existence'' \<longrightarrow> me_status e' = me_status e) \<and>
     (manual e ''type'' \<longrightarrow> me_type e' = me_type e) \<and>
     (manual e ''name'' \<longrightarrow> me_name e' = me_name e) \<and>
     (manual e ''frame_id'' \<longrightarrow> me_frame_id e' = me_frame_id e) \<and>
     (manual e ''pose'' \<longrightarrow> me_pose e' = me_pose e) \<and>
     (manual e ''bounds'' \<longrightarrow> me_bounds e' = me_bounds e) \<and>
     (manual e ''properties'' \<longrightarrow> me_properties e' = me_properties e)"

definition manual_law :: "db \<Rightarrow> db \<Rightarrow> bool" where
  "manual_law s t \<longleftrightarrow>
     (\<forall>k e. find_by me_key k (map_entities s) = Some e \<longrightarrow>
        (\<exists>e'. find_by me_key k (map_entities t) = Some e' \<and> manual_kept e e')) \<and>
     (\<forall>k r. find_by mr_key k (map_relations (desk s)) = Some r \<and> mr_manual r \<longrightarrow>
        find_by mr_key k (map_relations (desk t)) = Some r)"

lemma manual_kept_refl: "manual_kept e e"
  by (simp add: manual_kept_def)

lemma manual_kept_trans: "manual_kept a b \<Longrightarrow> manual_kept b c \<Longrightarrow> manual_kept a c"
  by (simp add: manual_kept_def manual_def)

interpretation manual: db_relation manual_law
proof unfold_locales
  fix s show "manual_law s s" by (auto simp: manual_law_def intro: manual_kept_refl)
next
  fix s t u assume "manual_law s t" "manual_law t u"
  then show "manual_law s u" unfolding manual_law_def by (blast intro: manual_kept_trans)
next
  fix s n show "manual_law s (s\<lparr>uuids_drawn := n\<rparr>)" by (auto simp: manual_law_def intro: manual_kept_refl)
qed

lemma preserve_manual_kept: "manual_kept e (preserve_manual x e)"
  by (simp add: manual_kept_def preserve_manual_def)

lemma manual_kept_fields:
  "manual_kept e x \<Longrightarrow> manual_kept e (x\<lparr>me_id := i\<rparr>)" "manual_kept e x \<Longrightarrow> manual_kept e (x\<lparr>me_map_id := i\<rparr>)"
  "manual_kept e x \<Longrightarrow> manual_kept e (x\<lparr>me_generation := n\<rparr>)" "manual_kept e x \<Longrightarrow> manual_kept e (x\<lparr>me_source := i\<rparr>)"
  "manual_kept e x \<Longrightarrow> manual_kept e (x\<lparr>me_updated_at := now\<rparr>)" "manual_kept e x \<Longrightarrow> manual_kept e (x\<lparr>me_revision := n\<rparr>)"
  by (simp_all add: manual_kept_def)

lemma manual_entities:
  "map_relations (desk t) = map_relations (desk s) \<Longrightarrow>
   (\<And>k e. find_by me_key k (map_entities s) = Some e \<Longrightarrow>
      \<exists>e'. find_by me_key k (map_entities t) = Some e' \<and> manual_kept e e') \<Longrightarrow> manual_law s t"
  by (simp add: manual_law_def)

lemma manual_same: "map_relations (desk t) = map_relations (desk s) \<Longrightarrow> map_entities t = map_entities s \<Longrightarrow> manual_law s t"
  by (auto simp: manual_law_def intro: manual_kept_refl)

lemma manual_reads: "keeps (=) m \<Longrightarrow> keeps manual_law m"
  by (metis keeps_def manual.frame_refl)

lemma find_upsert:
  assumes "\<And>x. key (f x) = key r"
  shows "find_by key k (if key r \<in> key ` set rows then update_where (\<lambda>x. key x = key r) f rows else rows @ [z]) =
    (case find_by key k rows of Some x \<Rightarrow> Some (if k = key r then f x else x)
     | None \<Rightarrow> if key r \<in> key ` set rows then None else find_by key k [z])"
proof (cases "key r \<in> key ` set rows")
  case True
  have "find_by key k (update_where (\<lambda>x. key x = key r) f rows) =
    map_option (\<lambda>x. if key x = key r then f x else x) (find_by key k rows)"
    using assms by (induction rows) auto
  with True show ?thesis by (auto split: option.splits dest: find_by_SomeD)
next
  case False
  then show ?thesis
    by (auto simp: find_by_append split: option.splits) (metis find_by_SomeD image_eqI)
qed

lemma me_key_simps [simp]:
  "me_key (x\<lparr>me_map_id := a, me_generation := g, me_source := c, me_updated_at := now\<rparr>) = (a, g, me_id x)"
  "me_key (x\<lparr>me_revision := n\<rparr>) = me_key x"
  "me_key (x\<lparr>me_status := st, me_revision := n, me_updated_at := now\<rparr>) = me_key x"
  by (simp_all add: me_key_def)

lemma manual_upsert_entity:
  assumes "\<And>e. find_by me_key (me_key x) (map_entities s) = Some e \<Longrightarrow> manual_kept e x"
  shows "manual_law s (snd (upsert_entity x s))"
proof (rule manual_entities)
  fix k e assume old: "find_by me_key k (map_entities s) = Some e"
  let ?rows = "if me_key x \<in> me_key ` set (map_entities s)
     then update_where (\<lambda>y. me_key y = me_key x) (\<lambda>y. x\<lparr>me_revision := me_revision y + 1\<rparr>) (map_entities s)
     else map_entities s @ [x\<lparr>me_revision := 1\<rparr>]"
  have "find_by me_key k ?rows = Some (if k = me_key x then x\<lparr>me_revision := me_revision e + 1\<rparr> else e)"
    by (subst find_upsert) (simp_all add: old)
  moreover have "map_entities (snd (upsert_entity x s)) = ?rows" by (simp add: upsert_entity_def run_writing)
  ultimately show "\<exists>e'. find_by me_key k (map_entities (snd (upsert_entity x s))) = Some e' \<and> manual_kept e e'"
    using assms[of e] old by (auto intro: manual_kept_fields(6) manual_kept_refl)
qed (simp add: upsert_entity_def run_writing)

lemma manual_validate: "keeps manual_law (validate_pose F p)" "keeps manual_law (validate_bounds b)"
  unfolding validate_pose_def validate_bounds_def by (intro manual.keeps_rules)+

lemma me_key_stored: "me_id x = i \<Longrightarrow> me_key (stored_entity m source now old x) = (sm_id m, sm_generation m, i)"
  by (simp add: stored_entity_def me_key_def preserve_manual_def Let_def split: option.splits)

lemma manual_kept_stored: "source \<noteq> ''user'' \<Longrightarrow> manual_kept e (stored_entity m source now (Some e) x)"
  using preserve_manual_kept[of e x] by (simp add: stored_entity_def manual_kept_def Let_def)

lemma manual_apply_entity:
  assumes "source \<noteq> ''user''"
  shows "keeps manual_law (apply_entity F m source now given)"
proof -
  have kept: "manual_law s (snd (upsert_entity (stored_entity m source now
      (find_by me_key (sm_id m, sm_generation m, i) (map_entities s)) x) s))" if "me_id x = i" for s i x
    using assms by (intro manual_upsert_entity) (simp add: me_key_stored[OF that] manual_kept_stored)
  have final: "keeps manual_law (reading (\<lambda>s. upsert_entity (stored_entity m source now
      (find_by me_key (sm_id m, sm_generation m, i) (map_entities s)) x)))" if "me_id x = i" for i x
    by (rule keepsI) (simp only: run_reading kept[OF that])
  show ?thesis
    unfolding apply_entity_def Let_def
    by (intro manual.db_keeps_rules manual_validate final) simp_all
qed

lemma manual_queries:
  "keeps manual_law (get_map_entity_tx a b c)" "keeps manual_law (get_semantic_map p slot)"
  "keeps manual_law (get_map_generation a b)" "keeps manual_law (query_map_entities a b q)"
  "keeps manual_law (query_map_relations a b q)" "keeps manual_law (check_map_entity a b c)"
  unfolding get_map_entity_tx_def get_semantic_map_def get_map_generation_def query_map_entities_def
    query_map_relations_def check_map_entity_def
  by (intro manual.db_keeps_rules manual_reads reads_only)+

lemma manual_desk_put: "(\<And>d. map_relations (f d) = map_relations d) \<Longrightarrow> keeps manual_law (desk_put f)"
  by (rule keepsI) (simp add: run_desk_put manual_same)

lemma manual_map_source: "keeps manual_law (map_source_entity m source x)"
  unfolding map_source_entity_def by (intro manual.db_keeps_rules manual_desk_put) simp

lemma manual_updates:
  "keeps manual_law (update_semantic_maps p f)" "keeps manual_law (update_generations p2 f2)"
  by (rule keepsI; simp add: updating_run update_semantic_maps_def update_generations_def manual_same)+

lemma manual_remove_entity:
  assumes "source \<noteq> ''user''"
  shows "keeps manual_law (remove_entity m source now i)"
proof (rule keepsI)
  fix s
  let ?k = "(sm_id m, sm_generation m, i)" and ?f = "\<lambda>e. e\<lparr>me_status := ''removed'', me_revision := me_revision e + 1, me_updated_at := now\<rparr>"
  show "manual_law s (snd (remove_entity m source now i s))"
  proof (cases "find_by me_key ?k (map_entities s)")
    case None
    then have "snd (remove_entity m source now i s) = s"
      by (simp add: remove_entity_def get_map_entity_tx_def run_go select_row_def)
    then show ?thesis by (simp add: manual.frame_refl)
  next
    case (Some x)
    show ?thesis
    proof (cases "manual x ''existence''")
      case True
      then have "snd (remove_entity m source now i s) = s"
        using assms Some by (simp add: remove_entity_def get_map_entity_tx_def run_go select_row_def)
      then show ?thesis by (simp add: manual.frame_refl)
    next
      case False
      let ?rows = "update_where (\<lambda>e. me_key e = ?k) ?f (map_entities s)"
      have t: "snd (remove_entity m source now i s) = s\<lparr>map_entities := ?rows\<rparr>"
        using Some False by (simp add: remove_entity_def get_map_entity_tx_def run_go select_row_def unit_of_def
            update_entities_def updating_run)
      have found: "find_by me_key k ?rows = map_option (\<lambda>e. if me_key e = ?k then ?f e else e) (find_by me_key k (map_entities s))"
        for k by (rule find_by_update_where) simp
      show ?thesis unfolding t
      proof (rule manual_entities)
        fix k e assume e: "find_by me_key k (map_entities s) = Some e"
        then have "me_key e = ?k \<Longrightarrow> e = x" using Some find_by_SomeD[OF e] by simp
        then have "manual_kept e (if me_key e = ?k then ?f e else e)"
          using False by (auto simp: manual_kept_def manual_def)
        with e show "\<exists>e'. find_by me_key k (map_entities (s\<lparr>map_entities := ?rows\<rparr>)) = Some e' \<and> manual_kept e e'"
          by (simp add: found)
      qed simp
    qed
  qed
qed

lemma manual_relations:
  "map_entities t = map_entities s \<Longrightarrow>
   (\<And>k r. find_by mr_key k (map_relations (desk s)) = Some r \<Longrightarrow> mr_manual r \<Longrightarrow>
      find_by mr_key k (map_relations (desk t)) = Some r) \<Longrightarrow> manual_law s t"
  by (auto simp: manual_law_def intro: manual_kept_refl)

lemma mr_key_simps [simp]:
  "mr_key (x\<lparr>mr_id := i, mr_map_id := a, mr_generation := g, mr_source := c, mr_manual := b, mr_updated_at := now\<rparr>) = (a, g, i)"
  "mr_key (x\<lparr>mr_revision := n\<rparr>) = mr_key x"
  "mr_key (x\<lparr>mr_predicate := pr, mr_manual := b, mr_revision := n\<rparr>) = mr_key x"
  by (simp_all add: mr_key_def)

lemma manual_upsert_relation:
  assumes "\<And>r. find_by mr_key (mr_key x) (map_relations (desk s)) = Some r \<Longrightarrow> \<not> mr_manual r"
  shows "manual_law s (snd (upsert_relation x s))"
proof (rule manual_relations)
  fix k r assume old: "find_by mr_key k (map_relations (desk s)) = Some r" "mr_manual r"
  then have "k \<noteq> mr_key x" using assms by auto
  let ?f = "\<lambda>y. x\<lparr>mr_predicate := (if mr_manual y \<and> \<not> mr_manual x then mr_predicate y else mr_predicate x),
     mr_manual := (mr_manual y \<or> mr_manual x), mr_revision := mr_revision y + 1\<rparr>"
  have "find_by mr_key k (if mr_key x \<in> mr_key ` set (map_relations (desk s))
      then update_where (\<lambda>y. mr_key y = mr_key x) ?f (map_relations (desk s))
      else map_relations (desk s) @ [x\<lparr>mr_revision := 1\<rparr>]) = Some r"
    using \<open>k \<noteq> mr_key x\<close> by (subst find_upsert) (simp add: mr_key_def, simp add: old(1))
  then have "find_by mr_key k (map_relations (desk (snd (upsert_relation x s)))) = Some r"
    unfolding upsert_relation_def run_desk_put by simp
  then show "find_by mr_key k (map_relations (desk (snd (upsert_relation x s)))) = Some r" .
qed (simp add: upsert_relation_def run_desk_put)

lemma manual_apply_relation:
  assumes "source \<noteq> ''user''"
  shows "keeps manual_law (apply_relation m source now given)"
proof -
  let ?checks = "\<lambda>g. for_each (check_map_entity (sm_id m) (sm_generation m)) [mr_subject_id g, mr_object_id g]"
  let ?row = "\<lambda>i b. given\<lparr>mr_id := i, mr_map_id := sm_id m, mr_generation := sm_generation m, mr_source := source,
           mr_manual := b, mr_updated_at := now\<rparr>"
  have pure: "snd (check_map_entity a b c s) = s" for a b c s
    by (simp add: check_map_entity_def run_reading split: option.splits)
  have checks: "snd (?checks g s) = s" for g s
    using pure by (auto simp: run_go split: prod.splits sum.splits) (metis snd_conv)+
  have step: "manual_law s (snd (go (?checks given) (\<lambda>_. upsert_relation (?row i b)) s))"
    if "\<And>x. find_by mr_key (sm_id m, sm_generation m, i) (map_relations (desk s)) = Some x \<Longrightarrow> \<not> mr_manual x" for s i b
  proof (cases "?checks given s")
    case (Pair c t)
    with checks[of given s] have "t = s" by simp
    with Pair have run: "go (?checks given) (\<lambda>_. upsert_relation (?row i b)) s =
        (case c of Inl e \<Rightarrow> (Inl e, s) | Inr _ \<Rightarrow> upsert_relation (?row i b) s)"
      by (cases c) (simp_all add: go_def del: for_each.simps)
    have "manual_law s (snd (upsert_relation (?row i b) s))"
      by (rule manual_upsert_relation) (simp add: that)
    then show ?thesis unfolding run by (cases c) (simp_all add: manual.frame_refl)
  qed
  have final: "keeps manual_law (reading (\<lambda>s.
       if source \<noteq> ''user'' \<and> (case find_by mr_key (sm_id m, sm_generation m, i) (map_relations (desk s)) of None \<Rightarrow> False | Some x \<Rightarrow> mr_manual x)
       then err (Wrapped ''a source cannot overwrite a manual Relation'' ErrInvalidState)
       else go (?checks given) (\<lambda>_. upsert_relation (?row i b))))" for i b
  proof (rule keepsI)
    fix s :: db
    show "manual_law s (snd (reading (\<lambda>s.
       if source \<noteq> ''user'' \<and> (case find_by mr_key (sm_id m, sm_generation m, i) (map_relations (desk s)) of None \<Rightarrow> False | Some x \<Rightarrow> mr_manual x)
       then err (Wrapped ''a source cannot overwrite a manual Relation'' ErrInvalidState)
       else go (?checks given) (\<lambda>_. upsert_relation (?row i b))) s))"
      using assms
      by (cases "find_by mr_key (sm_id m, sm_generation m, i) (map_relations (desk s))")
        (auto simp: run_reading manual.frame_refl simp del: for_each.simps intro!: step)
  qed
  show ?thesis
    unfolding apply_relation_def by (intro manual.db_keeps_rules final)
qed

lemma manual_remove_relation:
  assumes "source \<noteq> ''user''"
  shows "keeps manual_law (remove_relation m source i)"
  by (rule keepsI, rule manual_relations) (simp_all add: remove_relation_def run_desk_put assms find_by_filter)

lemma manual_get_map_snapshot: "keeps manual_law (get_map_snapshot p slot g)"
  unfolding get_map_snapshot_def by (intro manual.db_keeps_rules manual_queries)

lemma manual_apply_map_update:
  assumes "mu_source u \<noteq> ''user''"
  shows "keeps manual_law (apply_map_update F p slot u now)"
  unfolding apply_map_update_def apply_map_update_tx_def unit_of_def Let_def
  by (intro manual.db_keeps_rules manual_queries manual_map_source manual_apply_entity manual_remove_entity
      manual_apply_relation manual_remove_relation manual_updates manual_get_map_snapshot assms)

section \<open>Generations\<close>

definition rows_of :: "string \<times> int \<Rightarrow> db \<Rightarrow> map_entity list \<times> map_relation list \<times> map_source list" where
  "rows_of k s = (filter (\<lambda>e. (me_map_id e, me_generation e) = k) (map_entities s),
     filter (\<lambda>r. (mr_map_id r, mr_generation r) = k) (map_relations (desk s)),
     filter (\<lambda>x. (mo_map_id x, mo_generation x) = k) (map_sources (desk s)))"

text \<open>The database outside the rows of one generation stays as it was.\<close>

definition touches :: "string \<times> int \<Rightarrow> db \<Rightarrow> db \<Rightarrow> bool" where
  "touches k s t \<longleftrightarrow> semantic_maps t = semantic_maps s \<and> map_generations (desk t) = map_generations (desk s) \<and>
     (\<forall>j. j \<noteq> k \<longrightarrow> rows_of j t = rows_of j s)"

interpretation touch: db_relation "touches k" for k
  by unfold_locales (auto simp: touches_def rows_of_def)

lemma touches_reads: "keeps (=) m \<Longrightarrow> keeps (touches k) m"
  by (metis keeps_def touch.frame_refl)

lemma touches_checks:
  "keeps (touches k) (validate_pose F p)" "keeps (touches k) (validate_bounds b)"
  "keeps (touches k) (get_map_entity_tx a b' c)" "keeps (touches k) (check_map_entity a b' c)"
  unfolding validate_pose_def validate_bounds_def get_map_entity_tx_def check_map_entity_def
  by (intro touch.db_keeps_rules touches_reads reads_only)+

lemma filter_update_where:
  "(\<And>r. p r \<Longrightarrow> \<not> q (f r) \<and> \<not> q r) \<Longrightarrow> filter q (update_where p f rows) = filter q rows"
  by (induction rows) auto

lemma touches_upsert_entity:
  "me_map_id x = a \<Longrightarrow> me_generation x = g \<Longrightarrow> keeps (touches (a, g)) (upsert_entity x)"
  by (rule keepsI) (auto simp: upsert_entity_def run_writing touches_def rows_of_def me_key_def intro!: filter_update_where)

lemma touches_upsert_relation:
  "mr_map_id x = a \<Longrightarrow> mr_generation x = g \<Longrightarrow> keeps (touches (a, g)) (upsert_relation x)"
  by (rule keepsI) (auto simp: upsert_relation_def run_desk_put touches_def rows_of_def mr_key_def intro!: filter_update_where)

lemma touches_steps:
  fixes m :: semantic_map
  defines "k \<equiv> (sm_id m, sm_generation m)"
  shows "keeps (touches k) (map_source_entity m source x)" "keeps (touches k) (apply_entity F m source now given)"
    "keeps (touches k) (remove_entity m source now i)" "keeps (touches k) (apply_relation m source now rel)"
    "keeps (touches k) (remove_relation m source i)"
proof -
  have put: "keeps (touches k) (desk_put (\<lambda>d. d\<lparr>map_sources := map_sources d @
      [\<lparr>mo_map_id = sm_id m, mo_generation = sm_generation m, mo_source = a, mo_source_id = b, mo_entity_id = c\<rparr>]\<rparr>))" for a b c
    by (rule keepsI) (auto simp: run_desk_put touches_def rows_of_def k_def)
  show "keeps (touches k) (map_source_entity m source x)"
    unfolding map_source_entity_def by (intro touch.db_keeps_rules put)
  have "me_map_id (stored_entity m source now old e) = sm_id m \<and> me_generation (stored_entity m source now old e) = sm_generation m"
    for old e by (simp add: stored_entity_def Let_def)
  then show "keeps (touches k) (apply_entity F m source now given)"
    unfolding apply_entity_def Let_def k_def
    by (intro touch.db_keeps_rules touches_checks touches_upsert_entity) simp_all
  have "keeps (touches k) (update_entities (\<lambda>e. me_key e = (sm_id m, sm_generation m, i))
      (\<lambda>e. e\<lparr>me_status := st, me_revision := me_revision e + 1, me_updated_at := now\<rparr>))" for st
    by (rule keepsI) (auto simp: update_entities_def updating_run touches_def rows_of_def k_def me_key_def
        intro!: filter_update_where)
  then show "keeps (touches k) (remove_entity m source now i)"
    unfolding remove_entity_def unit_of_def by (intro touch.db_keeps_rules touches_checks)
  show "keeps (touches k) (apply_relation m source now rel)"
    unfolding apply_relation_def k_def
    by (intro touch.db_keeps_rules touches_checks touches_upsert_relation) simp_all
  show "keeps (touches k) (remove_relation m source i)"
    by (rule keepsI) (auto simp: remove_relation_def run_desk_put touches_def rows_of_def k_def mr_key_def
        intro!: filter_cong)
qed

text \<open>
  The invariant: rows are unique; the generation a map names is open and has the map's revision;
  every earlier generation is closed and there is no later one.
\<close>

definition map_ok :: "db \<Rightarrow> bool" where
  "map_ok s \<longleftrightarrow> distinct (map sm_id (semantic_maps s)) \<and>
     distinct (map (\<lambda>m. (sm_project_id m, sm_slot m)) (semantic_maps s)) \<and>
     distinct (map mg_key (map_generations (desk s))) \<and>
     (\<forall>m \<in> set (semantic_maps s). \<exists>g \<in> set (map_generations (desk s)).
        mg_key g = (sm_id m, sm_generation m) \<and> mg_closed_at g = None \<and> mg_revision g = sm_revision m) \<and>
     (\<forall>g \<in> set (map_generations (desk s)). \<exists>m \<in> set (semantic_maps s). mg_map_id g = sm_id m \<and>
        mg_generation g \<le> sm_generation m \<and> (mg_generation g < sm_generation m \<longleftrightarrow> mg_closed_at g \<noteq> None))"

text \<open>A closed generation keeps its row and its content.\<close>

definition frozen :: "db \<Rightarrow> db \<Rightarrow> bool" where
  "frozen s t \<longleftrightarrow> (\<forall>g \<in> set (map_generations (desk s)). mg_closed_at g \<noteq> None \<longrightarrow>
     g \<in> set (map_generations (desk t)) \<and> rows_of (mg_key g) t = rows_of (mg_key g) s)"

definition map_law :: "db \<Rightarrow> db \<Rightarrow> bool" where
  "map_law s t \<longleftrightarrow> (map_ok s \<longrightarrow> map_ok t \<and> frozen s t)"

interpretation map_laws: db_relation map_law
proof unfold_locales
  fix s show "map_law s s" by (simp add: map_law_def frozen_def)
next
  fix s t u assume "map_law s t" "map_law t u"
  then show "map_law s u" by (auto simp: map_law_def frozen_def)
next
  fix s n show "map_law s (s\<lparr>uuids_drawn := n\<rparr>)" by (simp add: map_law_def map_ok_def frozen_def rows_of_def)
qed

lemma set_update_one:
  assumes "m \<in> set xs" "\<And>x. x \<in> set xs \<Longrightarrow> p x \<longleftrightarrow> x = m"
  shows "set (update_where p f xs) = insert (f m) (set xs - {m})"
proof -
  have "update_where p f xs = map (\<lambda>x. if x = m then f m else x) xs"
    using assms(2) by (simp add: update_where_def)
  then show ?thesis using assms(1) by auto
qed

lemma mg_key_simps [simp]:
  "mg_key (g\<lparr>mg_closed_at := c\<rparr>) = mg_key g" "mg_key (g\<lparr>mg_revision := n\<rparr>) = mg_key g"
  "mg_key \<lparr>mg_map_id = a, mg_generation = k, mg_revision = n, mg_reason = why, mg_created_at = at, mg_closed_at = c\<rparr> = (a, k)"
  by (simp_all add: mg_key_def)

lemma map_ok_same: "map_ok s \<Longrightarrow> m \<in> set (semantic_maps s) \<Longrightarrow> m' \<in> set (semantic_maps s) \<Longrightarrow> sm_id m' = sm_id m \<Longrightarrow> m' = m"
  unfolding map_ok_def by (auto simp: distinct_map dest: inj_onD)

lemma map_ok_current:
  assumes "map_ok s" "m \<in> set (semantic_maps s)" "g \<in> set (map_generations (desk s))" "mg_key g = (sm_id m, sm_generation m)"
  shows "mg_closed_at g = None" "mg_revision g = sm_revision m"
proof -
  obtain h where h: "h \<in> set (map_generations (desk s))" "mg_key h = mg_key g" "mg_closed_at h = None" "mg_revision h = sm_revision m"
    using assms unfolding map_ok_def by metis
  have "inj_on mg_key (set (map_generations (desk s)))"
    using assms(1) by (simp add: map_ok_def distinct_map)
  then have "h = g" using h assms(3) by (auto dest: inj_onD)
  with h show "mg_closed_at g = None" "mg_revision g = sm_revision m" by auto
qed

lemma map_ok_owner:
  assumes "map_ok s" "g \<in> set (map_generations (desk s))"
  obtains m where "m \<in> set (semantic_maps s)" "mg_map_id g = sm_id m" "mg_generation g \<le> sm_generation m"
    "mg_generation g < sm_generation m \<longleftrightarrow> mg_closed_at g \<noteq> None"
  using assms unfolding map_ok_def by blast

lemma map_ok_open:
  assumes "map_ok s" "m \<in> set (semantic_maps s)"
  obtains g where "g \<in> set (map_generations (desk s))" "mg_key g = (sm_id m, sm_generation m)" "mg_closed_at g = None"
    "mg_revision g = sm_revision m"
  using assms unfolding map_ok_def by blast

text \<open>A map gets a first generation.\<close>

lemma map_law_ensure: "keeps map_law (ensure_semantic_map project_id now slot)"
proof -
  have "map_law s (snd (ensure_semantic_map project_id now slot s))" for s
  proof -
    let ?i = "''map-'' @ digits (uuids_drawn s)" and ?s = "s\<lparr>uuids_drawn := uuids_drawn s + 1\<rparr>"
    let ?m = "\<lparr>sm_id = ?i, sm_project_id = project_id, sm_slot = slot, sm_generation = 1, sm_revision = 0,
             sm_frame_id = ''world'', sm_created_at = now, sm_updated_at = now\<rparr>"
    let ?g = "\<lparr>mg_map_id = ?i, mg_generation = 1, mg_revision = 0, mg_reason = ''initial'',
           mg_created_at = now, mg_closed_at = None\<rparr>"
    let ?t = "?s\<lparr>semantic_maps := semantic_maps s @ [?m], desk := (desk s)\<lparr>map_generations := map_generations (desk s) @ [?g]\<rparr>\<rparr>"
    show ?thesis
    proof (cases "?i \<in> sm_id ` set (semantic_maps s) \<or>
          (project_id, slot) \<in> (\<lambda>m. (sm_project_id m, sm_slot m)) ` set (semantic_maps s)")
      case True
      then have "snd (ensure_semantic_map project_id now slot s) = ?s"
        by (auto simp: ensure_semantic_map_def run_simps)
      then show ?thesis by (simp add: map_laws.uuid_step)
    next
      case False
      show ?thesis unfolding map_law_def
      proof (intro impI)
        assume ok: "map_ok s"
        have fresh: "mg_map_id g \<noteq> ?i" if "g \<in> set (map_generations (desk s))" for g
          using map_ok_owner[OF ok that] False by (metis image_eqI)
        have "(?i, 1) \<notin> mg_key ` set (map_generations (desk s))"
        proof
          assume "(?i, 1) \<in> mg_key ` set (map_generations (desk s))"
          then obtain g where g: "g \<in> set (map_generations (desk s))" "mg_key g = (?i, 1)" by (metis imageE)
          then have "mg_map_id g = ?i" by (simp only: mg_key_def prod.inject)
          with fresh[OF g(1)] show False by contradiction
        qed
        with False have "snd (ensure_semantic_map project_id now slot s) = ?t"
          by (simp add: ensure_semantic_map_def insert_generation_def run_simps)
        moreover have "map_ok ?t"
          using ok False fresh by (force simp: map_ok_def mg_key_def)
        moreover have "frozen s ?t" by (simp add: frozen_def rows_of_def)
        ultimately show "map_ok (snd (ensure_semantic_map project_id now slot s)) \<and>
            frozen s (snd (ensure_semantic_map project_id now slot s))" by simp
      qed
    qed
  qed
  then show ?thesis by (rule keepsI)
qed

text \<open>The open generation is closed and its successor opened.\<close>

lemma create_generation_state:
  assumes "create_map_generation_tx m expected reason now s = (Inr u, t)"
  shows "t = s\<lparr>semantic_maps := update_where (\<lambda>x. sm_id x = sm_id m \<and> sm_revision x = expected)
       (\<lambda>x. x\<lparr>sm_generation := sm_generation x + 1, sm_revision := 0, sm_updated_at := now\<rparr>) (semantic_maps s),
     desk := (desk s)\<lparr>map_generations := update_where (\<lambda>g. mg_key g = (sm_id m, sm_generation m))
       (\<lambda>g. g\<lparr>mg_closed_at := Some now\<rparr>) (map_generations (desk s)) @
       [\<lparr>mg_map_id = sm_id m, mg_generation = sm_generation m + 1, mg_revision = 0,
         mg_reason = trim_space reason, mg_created_at = now, mg_closed_at = None\<rparr>]\<rparr>\<rparr>"
  using assms by (auto simp: create_map_generation_tx_def update_generations_def update_semantic_maps_def updating_run
      insert_generation_def run_simps split: if_splits)

lemma map_law_create_tx:
  assumes ok: "map_ok s" and m: "m \<in> set (semantic_maps s)"
    and run: "create_map_generation_tx m (sm_revision m) reason now s = (Inr u, t)"
  shows "map_ok t \<and> frozen s t"
proof -
  let ?f = "\<lambda>x. x\<lparr>sm_generation := sm_generation x + 1, sm_revision := 0, sm_updated_at := now\<rparr>"
  let ?p = "\<lambda>x. sm_id x = sm_id m \<and> sm_revision x = sm_revision m"
  let ?c = "\<lambda>g. g\<lparr>mg_closed_at := Some now\<rparr>" and ?q = "\<lambda>g. mg_key g = (sm_id m, sm_generation m)"
  let ?new = "\<lparr>mg_map_id = sm_id m, mg_generation = sm_generation m + 1, mg_revision = 0,
         mg_reason = trim_space reason, mg_created_at = now, mg_closed_at = None\<rparr>"
  note same = map_ok_same[OF ok m]
  have maps: "semantic_maps t = update_where ?p ?f (semantic_maps s)"
    and gens: "map_generations (desk t) = update_where ?q ?c (map_generations (desk s)) @ [?new]"
    and rows: "rows_of k t = rows_of k s" for k
    by (simp_all add: create_generation_state[OF run] rows_of_def)
  have in_maps: "set (semantic_maps t) = insert (?f m) (set (semantic_maps s) - {m})"
    unfolding maps using m same by (intro set_update_one) blast+
  have old: "mg_generation g \<le> sm_generation m" if "g \<in> set (map_generations (desk s))" "mg_map_id g = sm_id m" for g
    using map_ok_owner[OF ok that(1)] same that(2) by metis
  have in_gens: "set (map_generations (desk t)) =
      insert ?new ({g \<in> set (map_generations (desk s)). \<not> ?q g} \<union> ?c ` {g \<in> set (map_generations (desk s)). ?q g})"
    unfolding gens by (auto simp: set_update_where)
  have "map_ok t"
    unfolding map_ok_def
  proof (intro conjI ballI)
    show "distinct (map sm_id (semantic_maps t))" "distinct (map (\<lambda>m. (sm_project_id m, sm_slot m)) (semantic_maps t))"
      using ok by (simp_all add: maps map_key_update_where map_ok_def)
    have "mg_key ?new \<notin> mg_key ` set (map_generations (desk s))"
      using old by (force simp: mg_key_def)
    moreover have "map mg_key (map_generations (desk t)) = map mg_key (map_generations (desk s)) @ [mg_key ?new]"
      by (simp add: gens map_key_update_where)
    ultimately show "distinct (map mg_key (map_generations (desk t)))"
      using ok by (simp add: map_ok_def)
  next
    fix x assume "x \<in> set (semantic_maps t)"
    then consider "x = ?f m" | "x \<in> set (semantic_maps s)" "x \<noteq> m" by (auto simp: in_maps)
    then show "\<exists>g \<in> set (map_generations (desk t)). mg_key g = (sm_id x, sm_generation x) \<and> mg_closed_at g = None \<and>
        mg_revision g = sm_revision x"
    proof cases
      case 1 then show ?thesis by (intro bexI[of _ ?new]) (simp_all add: in_gens mg_key_def)
    next
      case 2
      then obtain g where "g \<in> set (map_generations (desk s))" "mg_key g = (sm_id x, sm_generation x)" "mg_closed_at g = None"
        "mg_revision g = sm_revision x" using map_ok_open[OF ok] by metis
      with 2 same show ?thesis by (intro bexI[of _ g]) (auto simp: in_gens)
    qed
  next
    fix g assume "g \<in> set (map_generations (desk t))"
    then consider "g = ?new" | "g \<in> set (map_generations (desk s))" "\<not> ?q g"
      | h where "h \<in> set (map_generations (desk s))" "?q h" "g = ?c h" by (auto simp: in_gens)
    then show "\<exists>x \<in> set (semantic_maps t). mg_map_id g = sm_id x \<and> mg_generation g \<le> sm_generation x \<and>
        (mg_generation g < sm_generation x \<longleftrightarrow> mg_closed_at g \<noteq> None)"
    proof cases
      case 1 then show ?thesis by (intro bexI[of _ "?f m"]) (simp_all add: in_maps)
    next
      case 2
      then obtain x where x: "x \<in> set (semantic_maps s)" "mg_map_id g = sm_id x" "mg_generation g \<le> sm_generation x"
        "mg_generation g < sm_generation x \<longleftrightarrow> mg_closed_at g \<noteq> None" using map_ok_owner[OF ok] by metis
      show ?thesis
      proof (cases "x = m")
        case True
        with x 2 show ?thesis by (intro bexI[of _ "?f m"]) (auto simp: in_maps mg_key_def)
      next
        case False with x show ?thesis by (intro bexI[of _ x]) (auto simp: in_maps)
      qed
    next
      case 3 then show ?thesis by (intro bexI[of _ "?f m"]) (simp_all add: in_maps mg_key_def)
    qed
  qed
  moreover have "frozen s t"
    unfolding frozen_def using map_ok_current(1)[OF ok m] by (auto simp: rows in_gens)
  ultimately show ?thesis ..
qed

text \<open>The content of the open generation changes, and both revisions go up by one.\<close>

lemma map_law_apply_tx:
  assumes ok: "map_ok s" and m: "m \<in> set (semantic_maps s)" and run: "apply_map_update_tx F m v now s = (Inr u, t)"
  shows "map_ok t \<and> frozen s t"
proof -
  let ?k = "(sm_id m, sm_generation m)"
  let ?p = "\<lambda>x. sm_id x = sm_id m \<and> sm_generation x = sm_generation m \<and> sm_revision x = sm_revision m"
  let ?f = "\<lambda>x. x\<lparr>sm_revision := sm_revision x + 1, sm_updated_at := now\<rparr>"
  let ?q = "\<lambda>g. mg_key g = ?k" and ?c = "\<lambda>g. g\<lparr>mg_revision := mg_revision g + 1\<rparr>"
  let ?body = "\<lambda>k. go (collect (map_source_entity m (mu_source v)) (mu_source_entities v)) (\<lambda>mapped.
     go (for_each (apply_entity F m (mu_source v) now) (mu_entities v @ mapped)) (\<lambda>_.
     go (for_each (remove_entity m (mu_source v) now) (mu_remove_entity_ids v)) (\<lambda>_.
     go (for_each (apply_relation m (mu_source v) now) (mu_relations v)) (\<lambda>_.
     go (for_each (remove_relation m (mu_source v)) (mu_remove_relation_ids v)) (\<lambda>_. k)))))"
  obtain w where w: "?body (ok ()) s = (Inr (), w)"
    and maps: "semantic_maps t = update_where ?p ?f (semantic_maps w)"
    and gens: "map_generations (desk t) = update_where ?q ?c (map_generations (desk w))"
    and rows: "rows_of j t = rows_of j w" for j
    using run by (auto simp: apply_map_update_tx_def Let_def run_go unit_of_def update_semantic_maps_def
        update_generations_def updating_run rows_of_def split: prod.splits sum.splits if_splits)
  have "keeps (touches ?k) (?body (ok ()))"
    by (intro touch.db_keeps_rules touches_steps)
  then have touched: "touches ?k s w" using w by (rule keeps_run)
  have same: "x = m" if "x \<in> set (semantic_maps s)" "sm_id x = sm_id m" for x
    using map_ok_same[OF ok m] that by blast
  have smaps: "semantic_maps w = semantic_maps s" and sgens: "map_generations (desk w) = map_generations (desk s)"
    using touched by (simp_all add: touches_def)
  have in_maps: "set (semantic_maps t) = insert (?f m) (set (semantic_maps s) - {m})"
    unfolding maps smaps using m same by (intro set_update_one) blast+
  have in_gens: "set (map_generations (desk t)) =
      {g \<in> set (map_generations (desk s)). \<not> ?q g} \<union> ?c ` {g \<in> set (map_generations (desk s)). ?q g}"
    unfolding gens sgens by (auto simp: set_update_where)
  have "map_ok t"
    unfolding map_ok_def
  proof (intro conjI ballI)
    show "distinct (map sm_id (semantic_maps t))" "distinct (map (\<lambda>m. (sm_project_id m, sm_slot m)) (semantic_maps t))"
      "distinct (map mg_key (map_generations (desk t)))"
      using ok by (simp_all add: maps gens smaps sgens map_key_update_where map_ok_def)
  next
    fix x assume "x \<in> set (semantic_maps t)"
    then consider "x = ?f m" | "x \<in> set (semantic_maps s)" "x \<noteq> m" by (auto simp: in_maps)
    then show "\<exists>g \<in> set (map_generations (desk t)). mg_key g = (sm_id x, sm_generation x) \<and> mg_closed_at g = None \<and>
        mg_revision g = sm_revision x"
    proof cases
      case 1
      obtain g where "g \<in> set (map_generations (desk s))" "?q g" "mg_closed_at g = None" "mg_revision g = sm_revision m"
        using map_ok_open[OF ok m] by metis
      with 1 show ?thesis by (intro bexI[of _ "?c g"]) (auto simp: in_gens intro!: image_eqI[of _ _ g])
    next
      case 2
      then obtain g where "g \<in> set (map_generations (desk s))" "mg_key g = (sm_id x, sm_generation x)" "mg_closed_at g = None"
        "mg_revision g = sm_revision x" using map_ok_open[OF ok] by metis
      with 2 same show ?thesis by (intro bexI[of _ g]) (auto simp: in_gens)
    qed
  next
    fix g assume "g \<in> set (map_generations (desk t))"
    then obtain h where h: "h \<in> set (map_generations (desk s))" "mg_key g = mg_key h" "mg_closed_at g = mg_closed_at h"
      by (auto simp: in_gens mg_key_def)
    obtain x where x: "x \<in> set (semantic_maps s)" "mg_map_id h = sm_id x" "mg_generation h \<le> sm_generation x"
        "mg_generation h < sm_generation x \<longleftrightarrow> mg_closed_at h \<noteq> None" using map_ok_owner[OF ok h(1)] by metis
    with h show "\<exists>x \<in> set (semantic_maps t). mg_map_id g = sm_id x \<and> mg_generation g \<le> sm_generation x \<and>
        (mg_generation g < sm_generation x \<longleftrightarrow> mg_closed_at g \<noteq> None)"
      by (intro bexI[of _ "if x = m then ?f m else x"]) (auto simp: in_maps mg_key_def)
  qed
  moreover have "frozen s t"
    unfolding frozen_def
  proof (intro ballI impI)
    fix g assume g: "g \<in> set (map_generations (desk s))" "mg_closed_at g \<noteq> None"
    then have "mg_key g \<noteq> ?k" using map_ok_current(1)[OF ok m] by auto
    moreover have "rows_of (mg_key g) w = rows_of (mg_key g) s"
      using touched \<open>mg_key g \<noteq> ?k\<close> unfolding touches_def by blast
    ultimately show "g \<in> set (map_generations (desk t)) \<and> rows_of (mg_key g) t = rows_of (mg_key g) s"
      using g(1) by (simp add: rows in_gens)
  qed
  ultimately show ?thesis ..
qed

section \<open>Runs of the map writers\<close>

lemma map_law_tx:
  assumes "\<And>u t. map_ok s \<Longrightarrow> m s = (Inr u, t) \<Longrightarrow> map_ok t \<and> frozen s t"
  shows "map_law s (snd (tx m s))"
proof (cases "m s")
  case (Pair r t)
  show ?thesis
  proof (cases r)
    case (Inl e)
    with Pair show ?thesis by (simp add: run_tx map_laws.uuid_step)
  next
    case (Inr u)
    with Pair assms show ?thesis by (simp add: run_tx map_law_def)
  qed
qed

lemma get_semantic_map_found:
  "get_semantic_map p slot s = (r, t) \<Longrightarrow> t = s \<and> (\<forall>m. r = Inr m \<longrightarrow> m \<in> set (semantic_maps s))"
  by (auto simp: get_semantic_map_def select_row_def split: if_splits option.splits dest: find_SomeD)

lemma map_law_reads: "keeps (=) m \<Longrightarrow> keeps map_law m"
  by (metis keeps_def map_laws.frame_refl)

lemma map_queries_pure:
  "keeps (=) (get_semantic_map p slot)" "keeps (=) (get_map_snapshot p slot g)" "keeps (=) (get_project i)"
  "keeps (=) (list_semantic_maps p)" "keeps (=) (query_map_entities a b q)"
  unfolding get_semantic_map_def get_map_snapshot_def get_map_generation_def query_map_entities_def
    query_map_relations_def get_project_def list_semantic_maps_def
  by (intro frame_eq.keeps_rules reads_only)+

lemma map_law_ensure_all: "keeps map_law (ensure_semantic_maps p now)"
  unfolding ensure_semantic_maps_def ensure_semantic_maps_tx_def
  by (intro map_laws.db_keeps_rules map_law_ensure map_law_reads map_queries_pure)

text \<open>A writer: find the map, check what the caller knows of it, run the transaction, read back.\<close>

lemma map_law_writer:
  assumes body: "\<And>s m u t. map_ok s \<Longrightarrow> m \<in> set (semantic_maps s) \<Longrightarrow> good m \<Longrightarrow> body m s = (Inr u, t) \<Longrightarrow> map_ok t \<and> frozen s t"
    and reads: "\<And>m. keeps (=) (after m)"
  shows "keeps map_law (go (get_semantic_map p slot) (\<lambda>m. if \<not> good m then err (bad m) else go (tx (body m)) (\<lambda>_. after m)))"
proof (rule keepsI)
  fix s
  obtain r u where get: "get_semantic_map p slot s = (r, u)" by fastforce
  with get_semantic_map_found have u: "u = s" and found: "\<And>m. r = Inr m \<Longrightarrow> m \<in> set (semantic_maps s)" by blast+
  show "map_law s (snd (go (get_semantic_map p slot) (\<lambda>m. if \<not> good m then err (bad m) else go (tx (body m)) (\<lambda>_. after m)) s))"
  proof (cases r)
    case (Inl e) with get u show ?thesis by (simp add: run_go map_laws.frame_refl)
  next
    case (Inr m)
    show ?thesis
    proof (cases "good m")
      case False with get u Inr show ?thesis by (simp add: run_go map_laws.frame_refl)
    next
      case True
      have "map_law s (snd (tx (body m) s))"
        using body[OF _ found[OF Inr] True] by (rule map_law_tx)
      moreover obtain r' t where run: "tx (body m) s = (r', t)" by fastforce
      moreover have "map_law t (snd (after m t))" by (rule keepsD[OF map_law_reads[OF reads]])
      moreover have "snd (go (tx (body m)) (\<lambda>_. after m) s) = (case r' of Inl _ \<Rightarrow> t | Inr _ \<Rightarrow> snd (after m t))"
        using run by (cases r') (simp_all add: go_def del: tx_Inr_iff)
      ultimately have "map_law s (snd (go (tx (body m)) (\<lambda>_. after m) s))"
        by (cases r') (auto simp del: tx_Inr_iff intro: map_laws.frame_trans)
      then show ?thesis using get u Inr True by (simp add: run_go del: tx_Inr_iff)
    qed
  qed
qed

lemma map_law_create: "keeps map_law (create_map_generation p slot expected reason now)"
proof -
  have "keeps map_law (go (get_semantic_map p slot) (\<lambda>m. if \<not> sm_revision m = expected then err ErrRevisionConflict
      else go (tx (create_map_generation_tx m expected reason now)) (\<lambda>_. get_semantic_map p slot)))"
    by (rule map_law_writer) (auto intro: map_queries_pure dest: map_law_create_tx)
  then show ?thesis by (simp add: create_map_generation_def)
qed

lemma map_law_apply: "keeps map_law (apply_map_update F p slot v now)"
proof -
  let ?bad = "\<lambda>m. if mu_generation v \<noteq> sm_generation m then ErrStaleMapGeneration else ErrRevisionConflict"
  have "keeps map_law (go (get_semantic_map p slot) (\<lambda>m.
      if \<not> (mu_generation v = sm_generation m \<and> mu_expected_revision v = sm_revision m) then err (?bad m)
      else go (tx (apply_map_update_tx F m v now)) (\<lambda>_. get_map_snapshot p slot (sm_generation m))))"
    by (rule map_law_writer) (auto intro: map_queries_pure dest: map_law_apply_tx)
  moreover have "(\<lambda>m. if \<not> (mu_generation v = sm_generation m \<and> mu_expected_revision v = sm_revision m) then err (?bad m)
      else go (tx (apply_map_update_tx F m v now)) (\<lambda>_. get_map_snapshot p slot (sm_generation m))) =
    (\<lambda>m. if mu_generation v \<noteq> sm_generation m then err ErrStaleMapGeneration
       else if mu_expected_revision v \<noteq> sm_revision m then err ErrRevisionConflict
       else go (tx (apply_map_update_tx F m v now)) (\<lambda>_. get_map_snapshot p slot (sm_generation m)))"
    by auto
  ultimately show ?thesis
    unfolding apply_map_update_def by (intro map_laws.keeps_if map_laws.keeps_err) simp_all
qed

inductive map_step :: "float_ops \<Rightarrow> db \<Rightarrow> db \<Rightarrow> bool" for F where
  maps_ensured: "map_step F s (snd (ensure_semantic_maps p now s))"
| generation_created: "map_step F s (snd (create_map_generation p slot expected reason now s))"
| map_updated: "map_step F s (snd (apply_map_update F p slot v now s))"

inductive_cases map_stepE: "map_step F s t"

definition map_run :: "float_ops \<Rightarrow> db \<Rightarrow> db \<Rightarrow> bool" where
  "map_run F = (map_step F)\<^sup>*\<^sup>*"

lemma map_step_law: "map_step F s t \<Longrightarrow> map_law s t"
  by (erule map_stepE) (simp_all add: keepsD[OF map_law_ensure_all] keepsD[OF map_law_create] keepsD[OF map_law_apply])

lemma map_run_law: "map_run F s t \<Longrightarrow> map_law s t"
  unfolding map_run_def by (induction rule: rtranclp_induct) (auto intro: map_laws.frame_refl map_laws.frame_trans map_step_law)

section \<open>Queries\<close>

lemma connected_relations_spec:
  "connected_relations selected rs = (kept, ends) \<Longrightarrow>
     set kept \<subseteq> set rs \<and> relation_ends kept \<subseteq> ends \<and> selected \<subseteq> ends \<and> length kept \<le> length rs"
proof (induction rs arbitrary: selected kept)
  case Nil
  then show ?case by (simp add: relation_ends_def)
next
  case (Cons r rs)
  let ?more = "insert (mr_subject_id r) (insert (mr_object_id r) selected)"
  show ?case
  proof (cases "mr_subject_id r \<in> selected \<or> mr_object_id r \<in> selected")
    case True
    with Cons.prems obtain ks where ks: "connected_relations ?more rs = (ks, ends)" "kept = r # ks"
      by (auto split: prod.splits)
    from Cons.IH[OF ks(1)] ks(2) show ?thesis by (auto simp: relation_ends_def)
  next
    case False
    with Cons.prems have "connected_relations selected rs = (kept, ends)" by simp
    from Cons.IH[OF this] show ?thesis by auto
  qed
qed

lemma set_limited: "set (limited n rows) \<subseteq> set rows"
  by (auto simp: limited_def dest: in_set_takeD)

lemma length_limited: "0 < n \<Longrightarrow> int (length (limited n rows)) \<le> n"
  by (auto simp: limited_def)

lemma relations_are_live:
  assumes "query_map_relations map_id g q s = (Inr rs, t)" "r \<in> set rs"
  shows "live_entity s map_id g (mr_subject_id r)" "live_entity s map_id g (mr_object_id r)"
  using assms by (auto simp: query_map_relations_def select_rows_def)

lemma map_subset_spec:
  assumes "map_subset q entities relations = (kept, selected)" and filters: "entity_filter q \<or> relation_filter q"
  shows "set kept \<subseteq> set relations" "relation_ends kept \<subseteq> selected" "0 < q_limit q \<Longrightarrow> int (length kept) \<le> q_limit q"
proof -
  define seeds where "seeds = me_id ` set (if entity_filter q then limited (q_limit q) entities else entities)"
  define first where "first = limited (q_limit q) relations"
  obtain ends where ends: "(if entity_filter q then connected_relations seeds first else (first, seeds)) = (kept, ends)"
    and sel: "selected = (if relation_filter q then relation_ends kept else ends)"
    using assms unfolding map_subset_def Let_def seeds_def[symmetric] first_def[symmetric] by (auto split: prod.splits)
  have kept: "set kept \<subseteq> set first" "length kept \<le> length first"
    using ends connected_relations_spec by (auto split: if_splits)
  show "set kept \<subseteq> set relations" using kept(1) set_limited unfolding first_def by fastforce
  show "int (length kept) \<le> q_limit q" if "0 < q_limit q"
    using kept(2) length_limited[OF that, of relations] by (simp add: first_def)
  show "relation_ends kept \<subseteq> selected"
    using ends filters connected_relations_spec by (auto simp: sel split: if_splits)
qed

lemma everything_matches [simp]: "entity_matches (everything g) e"
  by (simp add: entity_matches_def everything_def)

lemma limited_subset_closed:
  assumes sub: "limit_map_query_subset map_id g q entities relations s = (Inr (es, rs), t)"
    and filters: "entity_filter q \<or> relation_filter q"
    and live: "\<And>r. r \<in> set relations \<Longrightarrow> live_entity s map_id g (mr_subject_id r) \<and> live_entity s map_id g (mr_object_id r)"
  shows "relation_ends rs \<subseteq> me_id ` set es \<and> (0 < q_limit q \<longrightarrow> int (length rs) \<le> q_limit q) \<and> t = s"
proof -
  obtain kept selected where sel: "map_subset q entities relations = (kept, selected)" by fastforce
  note spec = map_subset_spec[OF sel filters]
  have "q_status (everything g) = []" by (simp add: everything_def)
  then have run: "rs = kept" "t = s" "es = (if selected = {} then [] else filter (\<lambda>e. me_id e \<in> selected)
      (sort_key (\<lambda>e. (me_type e, me_name e, me_id e))
        (filter (\<lambda>e. me_map_id e = map_id \<and> me_generation e = g) (map_entities s))))"
    using sub filters sel by (auto simp: limit_map_query_subset_def query_map_entities_def run_go split: if_splits)
  have "i \<in> me_id ` set es" if i: "i \<in> relation_ends kept" for i
  proof -
    from i spec(1) obtain r where "r \<in> set relations" "i = mr_subject_id r \<or> i = mr_object_id r"
      by (auto simp: relation_ends_def)
    with live obtain e where "e \<in> set (map_entities s)" "me_key e = (map_id, g, i)"
      unfolding live_entity_def by blast
    moreover have "i \<in> selected" using i spec(2) by auto
    ultimately show ?thesis by (auto simp: run me_key_def intro!: image_eqI[of _ _ e])
  qed
  then have "relation_ends rs \<subseteq> me_id ` set es" unfolding run(1) by blast
  then show ?thesis using spec(3) by (simp add: run(1,2))
qed

lemma map_query_closed:
  assumes "query_semantic_map F project_id slot wanted s = (Inr v, t)"
  shows "relation_ends (ms_relations v) \<subseteq> me_id ` set (ms_entities v) \<and>
    (0 < q_limit wanted \<longrightarrow> int (length (ms_relations v)) \<le> q_limit wanted) \<and> t = s"
proof -
  have filters: "entity_filter wanted \<or> relation_filter wanted"
    using assms by (auto simp: query_semantic_map_def split: if_splits)
  obtain m where m: "get_semantic_map project_id slot s = (Inr m, s)"
    using assms filters get_semantic_map_found
    by (auto simp: query_semantic_map_def run_go split: if_splits prod.splits sum.splits)
  define q where "q = (if q_generation wanted = 0 then wanted\<lparr>q_generation := sm_generation m\<rparr> else wanted)"
  have q: "q_limit q = q_limit wanted" "entity_filter q \<or> relation_filter q"
    using filters by (simp_all add: q_def entity_filter_def relation_filter_def)
  obtain g where g: "get_map_generation (sm_id m) (q_generation q) s = (Inr g, s)"
    using assms filters m by (auto simp: query_semantic_map_def run_go q_def[symmetric] get_map_generation_def
        split: prod.splits sum.splits)
  obtain found where found: "query_map_entities (sm_id m) (q_generation q) q s = (Inr found, s)"
    using assms filters m g by (auto simp: query_semantic_map_def run_go q_def[symmetric] query_map_entities_def
        split: prod.splits sum.splits if_splits)
  obtain relations where rels: "query_map_relations (sm_id m) (q_generation q) q s = (Inr relations, s)"
    by (simp add: query_map_relations_def)
  have pure: "filter_entities_in_region F a b c items s = (r, u) \<Longrightarrow> u = s" for a b c items r u
    by (auto simp: filter_entities_in_region_def run_go select_row_def split: option.splits if_splits)
  obtain entities es rs where
      sub: "limit_map_query_subset (sm_id m) (q_generation q) q entities relations s = (Inr (es, rs), t)"
    and v: "ms_entities v = es" "ms_relations v = rs"
    using assms filters m g found rels
    by (auto simp: query_semantic_map_def run_go q_def[symmetric] snapshot_of_def
        split: prod.splits sum.splits if_splits dest!: pure)
  have "live_entity s (sm_id m) (q_generation q) (mr_subject_id r) \<and> live_entity s (sm_id m) (q_generation q) (mr_object_id r)"
    if "r \<in> set relations" for r using rels that by (auto simp: query_map_relations_def)
  from limited_subset_closed[OF sub q(2) this] show ?thesis by (simp add: v q(1))
qed

end
