(* ===== verification/EventBus.thy ===== *)
theory EventBus
  imports Prelude "HOL-Library.Sublist"
begin

text \<open>
  The event bus (\<open>internal/event/bus.go\<close>).  Every subscriber has a mailbox: a queue, the buffered
  channel \<open>out\<close> the subscriber reads, and a worker goroutine that moves events from one to the
  other.  A mailbox is modelled at the grain of its critical sections: \<open>mail_move\<close> is what one
  goroutine does between two points at which another may run.  The invariant \<open>mail_ok\<close> holds after
  any interleaving; it gives order, no loss, and no lost wake-up.
\<close>

section \<open>Mailboxes\<close>

record 'p bus_event =
  be_topic :: string
  be_payload :: "'p option"
  be_ts :: time

definition subscribe_buffer :: nat where
  "subscribe_buffer = 64"

text \<open>\<open>Event{}\<close>, which overwrites a slot that was read.\<close>

definition no_event :: "'p bus_event" where
  "no_event = \<lparr>be_topic = [], be_payload = None, be_ts = 0\<rparr>"

text \<open>Where the worker stands in \<open>run\<close>.\<close>

datatype 'p worker = Looking | Sending "'p bus_event" | Delivered | Waiting | Exited

fun in_hand :: "'p worker \<Rightarrow> 'p bus_event list" where
  "in_hand (Sending ev) = [ev]"
| "in_hand _ = []"

text \<open>
  \<open>mb_signals\<close> counts the publishers between the \<open>Unlock\<close> of \<open>enqueue\<close> and their attempt to fill
  \<open>wake\<close>; \<open>mb_done\<close> says that the channel \<open>done\<close> is closed.
\<close>

record 'p mailbox =
  mb_out :: "'p bus_event list"
  mb_wake :: bool
  mb_done :: bool
  mb_queue :: "'p bus_event list"
  mb_head :: nat
  mb_inflight :: bool
  mb_stopped :: bool
  mb_worker :: "'p worker"
  mb_signals :: nat

definition new_subscription :: "'p mailbox" where
  "new_subscription = \<lparr>mb_out = [], mb_wake = False, mb_done = False, mb_queue = [], mb_head = 0,
     mb_inflight = False, mb_stopped = False, mb_worker = Looking, mb_signals = 0\<rparr>"

text \<open>The critical section of \<open>enqueue\<close>: accepted or not, the backlog, and the mailbox after it.\<close>

definition enqueue_event :: "'p bus_event \<Rightarrow> bool \<Rightarrow> 'p mailbox \<Rightarrow> (bool \<times> nat) \<times> 'p mailbox" where
  "enqueue_event ev droppable m =
    (if mb_stopped m then ((False, 0), m)
     else if \<not> mb_inflight m \<and> length (mb_queue m) \<le> mb_head m \<and> length (mb_out m) < subscribe_buffer
     then ((True, 0), m\<lparr>mb_out := mb_out m @ [ev]\<rparr>)
     else let backlog = length (mb_queue m) - mb_head m in
       if droppable \<and> subscribe_buffer \<le> backlog then ((False, backlog), m)
       else ((True, backlog + 1), m\<lparr>mb_queue := mb_queue m @ [ev], mb_signals := mb_signals m + 1\<rparr>))"

definition next_event :: "'p mailbox \<Rightarrow> 'p bus_event option \<times> 'p mailbox" where
  "next_event m =
    (if mb_stopped m \<or> length (mb_queue m) \<le> mb_head m then
       (None, if length (mb_queue m) \<le> mb_head m then m\<lparr>mb_queue := [], mb_head := 0\<rparr> else m)
     else
       let m' = m\<lparr>mb_queue := (mb_queue m)[mb_head m := no_event], mb_head := mb_head m + 1, mb_inflight := True\<rparr> in
       (Some (mb_queue m ! mb_head m),
        if mb_head m' = length (mb_queue m') then m'\<lparr>mb_queue := [], mb_head := 0\<rparr> else m'))"

definition delivered_event :: "'p mailbox \<Rightarrow> 'p mailbox" where
  "delivered_event m = m\<lparr>mb_inflight := False\<rparr>"

definition stop_mailbox :: "'p mailbox \<Rightarrow> 'p mailbox" where
  "stop_mailbox m =
    (if mb_stopped m then m
     else m\<lparr>mb_stopped := True, mb_queue := [], mb_head := 0, mb_inflight := False, mb_done := True\<rparr>)"

text \<open>
  One move: a publisher offers an event (with the flag of \<open>PublishDroppable\<close>) or signals \<open>wake\<close>; the
  worker looks for the next event, sends it, reports it delivered, is woken or quits; the
  subscriber takes an event from \<open>out\<close>; the mailbox is stopped.  \<open>None\<close>: the goroutine cannot run.
\<close>

datatype 'p move = Offer "'p bus_event" bool | Signal | Look | Send | Settle | Wake | Quit | Take | Halt

fun mail_move :: "'p move \<Rightarrow> 'p mailbox \<Rightarrow> 'p mailbox option" where
  "mail_move (Offer ev droppable) m = Some (snd (enqueue_event ev droppable m))"
| "mail_move Signal m = (if 0 < mb_signals m then Some (m\<lparr>mb_signals := mb_signals m - 1, mb_wake := True\<rparr>) else None)"
| "mail_move Look m = (if mb_worker m = Looking then
     (case next_event m of
        (Some ev, m') \<Rightarrow> Some (m'\<lparr>mb_worker := Sending ev\<rparr>)
      | (None, m') \<Rightarrow> Some (m'\<lparr>mb_worker := Waiting\<rparr>)) else None)"
| "mail_move Send m = (case mb_worker m of
     Sending ev \<Rightarrow> (if length (mb_out m) < subscribe_buffer
        then Some (m\<lparr>mb_out := mb_out m @ [ev], mb_worker := Delivered\<rparr>) else None)
   | _ \<Rightarrow> None)"
| "mail_move Settle m = (if mb_worker m = Delivered then Some ((delivered_event m)\<lparr>mb_worker := Looking\<rparr>) else None)"
| "mail_move Wake m = (if mb_worker m = Waiting \<and> mb_wake m then Some (m\<lparr>mb_wake := False, mb_worker := Looking\<rparr>) else None)"
| "mail_move Quit m = (if mb_done m \<and> (mb_worker m = Waiting \<or> in_hand (mb_worker m) \<noteq> []) then Some (m\<lparr>mb_worker := Exited\<rparr>) else None)"
| "mail_move Take m = (if mb_out m = [] then None else Some (m\<lparr>mb_out := tl (mb_out m)\<rparr>))"
| "mail_move Halt m = Some (stop_mailbox m)"

text \<open>
  A history: the mailbox, the events it accepted and the events the subscriber took.
\<close>

type_synonym 'p history = "'p mailbox \<times> 'p bus_event list \<times> 'p bus_event list"

definition accepts :: "'p move \<Rightarrow> 'p mailbox \<Rightarrow> 'p bus_event list" where
  "accepts a m = (case a of Offer ev droppable \<Rightarrow> (if fst (fst (enqueue_event ev droppable m)) then [ev] else []) | _ \<Rightarrow> [])"

definition takes :: "'p move \<Rightarrow> 'p mailbox \<Rightarrow> 'p bus_event list" where
  "takes a m = (case a of Take \<Rightarrow> take 1 (mb_out m) | _ \<Rightarrow> [])"

definition follow :: "'p move \<Rightarrow> 'p history \<Rightarrow> 'p history option" where
  "follow a = (\<lambda>(m, accepted, taken). map_option (\<lambda>m'. (m', accepted @ accepts a m, taken @ takes a m)) (mail_move a m))"

primrec follow_all :: "'p move list \<Rightarrow> 'p history \<Rightarrow> 'p history option" where
  "follow_all [] h = Some h"
| "follow_all (a # as) h = Option.bind (follow a h) (follow_all as)"

section \<open>The invariant of a mailbox\<close>

definition pending :: "'p mailbox \<Rightarrow> 'p bus_event list" where
  "pending m = drop (mb_head m) (mb_queue m)"

fun busy :: "'p worker \<Rightarrow> bool" where
  "busy (Sending ev) = True"
| "busy Delivered = True"
| "busy _ = False"

definition mail_ok :: "'p history \<Rightarrow> bool" where
  "mail_ok = (\<lambda>(m, accepted, taken).
     length (mb_out m) \<le> subscribe_buffer \<and>
     (mb_queue m = [] \<longrightarrow> mb_head m = 0) \<and> (mb_queue m \<noteq> [] \<longrightarrow> mb_head m < length (mb_queue m)) \<and>
     (mb_done m \<longleftrightarrow> mb_stopped m) \<and> (mb_worker m = Exited \<longrightarrow> mb_stopped m) \<and>
     (mb_stopped m \<longrightarrow> mb_queue m = [] \<and> (\<exists>lost. taken @ mb_out m @ in_hand (mb_worker m) @ lost = accepted)) \<and>
     (\<not> mb_stopped m \<longrightarrow> taken @ mb_out m @ in_hand (mb_worker m) @ pending m = accepted \<and>
        (mb_inflight m \<longleftrightarrow> busy (mb_worker m)) \<and>
        (mb_worker m = Waiting \<and> pending m \<noteq> [] \<longrightarrow> mb_wake m \<or> 0 < mb_signals m)))"

lemma mail_ok_new: "mail_ok (new_subscription, [], [])"
  by (simp add: mail_ok_def new_subscription_def pending_def)

lemma pending_empty: "mail_ok (m, acc, got) \<Longrightarrow> pending m = [] \<longleftrightarrow> mb_queue m = []"
  by (auto simp: mail_ok_def pending_def split: if_splits)

lemma idle_hand: "\<not> busy w \<Longrightarrow> in_hand w = []"
  by (cases w) simp_all

lemma enqueue_cases:
  obtains n where "enqueue_event ev d m = ((False, n), m)"
  | "enqueue_event ev d m = ((True, 0), m\<lparr>mb_out := mb_out m @ [ev]\<rparr>)" "\<not> mb_stopped m" "\<not> mb_inflight m" "pending m = []"
      "length (mb_out m) < subscribe_buffer"
  | n where "enqueue_event ev d m = ((True, n), m\<lparr>mb_queue := mb_queue m @ [ev], mb_signals := mb_signals m + 1\<rparr>)" "\<not> mb_stopped m"
  by (cases "mb_stopped m"; cases "\<not> mb_inflight m \<and> length (mb_queue m) \<le> mb_head m \<and> length (mb_out m) < subscribe_buffer";
      cases "d \<and> subscribe_buffer \<le> length (mb_queue m) - mb_head m")
    (auto simp: enqueue_event_def Let_def pending_def)

lemma mail_ok_offer:
  assumes ok: "mail_ok (m, acc, got)"
  shows "mail_ok (snd (enqueue_event ev d m), acc @ accepts (Offer ev d) m, got)"
proof (rule enqueue_cases[of ev d m])
  fix n assume "enqueue_event ev d m = ((False, n), m)"
  with ok show ?thesis by (simp add: accepts_def)
next
  assume run: "enqueue_event ev d m = ((True, 0), m\<lparr>mb_out := mb_out m @ [ev]\<rparr>)" "\<not> mb_stopped m" "\<not> mb_inflight m"
    "pending m = []" "length (mb_out m) < subscribe_buffer"
  with ok have "in_hand (mb_worker m) = []" by (auto simp: mail_ok_def intro: idle_hand)
  with run ok show ?thesis by (auto simp: accepts_def mail_ok_def pending_def)
next
  fix n assume "enqueue_event ev d m = ((True, n), m\<lparr>mb_queue := mb_queue m @ [ev], mb_signals := mb_signals m + 1\<rparr>)"
    "\<not> mb_stopped m"
  with ok show ?thesis by (auto simp: accepts_def mail_ok_def pending_def split: if_splits)
qed

lemma tl_of_drop: "tl (drop n xs) = drop (Suc n) xs"
  by (simp add: drop_Suc tl_drop)

lemma next_event_some:
  assumes "mail_ok (m, acc, got)" "\<not> mb_stopped m" "pending m \<noteq> []"
  shows "\<exists>m'. next_event m = (Some (hd (pending m)), m') \<and> pending m' = tl (pending m) \<and> mb_inflight m' \<and>
    mb_out m' = mb_out m \<and> mb_stopped m' = mb_stopped m \<and> mb_done m' = mb_done m \<and> mb_wake m' = mb_wake m \<and>
    mb_signals m' = mb_signals m \<and> (if mb_queue m' = [] then mb_head m' = 0 else mb_head m' < length (mb_queue m'))"
  using assms
  by (auto simp: next_event_def pending_def Let_def hd_drop_conv_nth mail_ok_def tl_of_drop split: if_splits)

lemma mail_ok_look:
  assumes ok: "mail_ok (m, acc, got)" and run: "mail_move Look m = Some m'"
  shows "mail_ok (m', acc, got)"
proof (cases "\<not> mb_stopped m \<and> pending m \<noteq> []")
  case True
  then obtain m1 where next_def: "next_event m = (Some (hd (pending m)), m1)" "pending m1 = tl (pending m)" "mb_inflight m1"
      "mb_out m1 = mb_out m" "mb_stopped m1 = mb_stopped m" "mb_done m1 = mb_done m"
      "if mb_queue m1 = [] then mb_head m1 = 0 else mb_head m1 < length (mb_queue m1)"
    using next_event_some[OF ok] by blast
  with True run ok show ?thesis
    by (cases "pending m") (auto simp: mail_ok_def pending_def split: if_splits)
next
  case False
  with run ok show ?thesis
    by (auto simp: mail_ok_def pending_def next_event_def split: if_splits)
qed

lemma mail_ok_move:
  assumes ok: "mail_ok (m, acc, got)" and run: "mail_move a m = Some m'"
  shows "mail_ok (m', acc @ accepts a m, got @ takes a m)"
proof (cases a)
  case (Offer ev d)
  with run mail_ok_offer[OF ok, of ev d] show ?thesis by (simp add: takes_def)
next
  case Look
  with mail_ok_look[OF ok] run show ?thesis by (simp add: accepts_def takes_def)
next
  case Take
  with run obtain ev out where out: "mb_out m = ev # out" and m': "m' = m\<lparr>mb_out := out\<rparr>"
    by (cases "mb_out m") auto
  from ok show ?thesis unfolding Take m'
    by (simp add: mail_ok_def out accepts_def takes_def pending_def)
next
  case Halt
  have m': "m' = stop_mailbox m" using Halt run by simp
  show ?thesis
  proof (cases "mb_stopped m")
    case True
    with Halt ok m' show ?thesis by (simp add: accepts_def takes_def stop_mailbox_def)
  next
    case False
    with ok have "got @ mb_out m @ in_hand (mb_worker m) @ pending m = acc" by (simp add: mail_ok_def)
    then have "\<exists>lost. got @ mb_out m @ in_hand (mb_worker m) @ lost = acc" by blast
    with False ok Halt m' show ?thesis by (simp add: mail_ok_def accepts_def takes_def stop_mailbox_def)
  qed
next
  case Signal
  with run have m': "m' = m\<lparr>mb_signals := mb_signals m - 1, mb_wake := True\<rparr>" by (simp split: if_splits)
  from ok show ?thesis unfolding Signal m'
    by (simp add: mail_ok_def accepts_def takes_def pending_def split: if_splits)
next
  case Send
  with run obtain ev where worker: "mb_worker m = Sending ev" "length (mb_out m) < subscribe_buffer"
      and m': "m' = m\<lparr>mb_out := mb_out m @ [ev], mb_worker := Delivered\<rparr>"
    by (cases "mb_worker m") (auto split: if_splits)
  from ok worker show ?thesis unfolding Send m'
    by (simp add: mail_ok_def accepts_def takes_def pending_def split: if_splits)
next
  case Settle
  with run have worker: "mb_worker m = Delivered" and m': "m' = (delivered_event m)\<lparr>mb_worker := Looking\<rparr>"
    by (simp_all split: if_splits)
  from ok worker show ?thesis unfolding Settle m'
    by (simp add: mail_ok_def accepts_def takes_def pending_def delivered_event_def split: if_splits)
next
  case Wake
  with run have worker: "mb_worker m = Waiting" and m': "m' = m\<lparr>mb_wake := False, mb_worker := Looking\<rparr>"
    by (simp_all split: if_splits)
  from ok worker show ?thesis unfolding Wake m'
    by (simp add: mail_ok_def accepts_def takes_def pending_def split: if_splits)
next
  case Quit
  with run have stopped: "mb_done m" and m': "m' = m\<lparr>mb_worker := Exited\<rparr>"
    by (simp_all split: if_splits)
  with ok have open_end: "mb_stopped m" "\<exists>lost. got @ mb_out m @ in_hand (mb_worker m) @ lost = acc"
    by (auto simp: mail_ok_def split: if_splits)
  then have "\<exists>lost. got @ mb_out m @ lost = acc" by blast
  with ok open_end(1) show ?thesis unfolding Quit m'
    by (simp add: mail_ok_def accepts_def takes_def)
qed

lemma mail_ok_follow: "mail_ok h \<Longrightarrow> follow a h = Some h' \<Longrightarrow> mail_ok h'"
  by (cases h) (auto simp: follow_def dest: mail_ok_move)

lemma mail_ok_follow_all: "mail_ok h \<Longrightarrow> follow_all as h = Some h' \<Longrightarrow> mail_ok h'"
  by (induction as arbitrary: h) (auto simp: bind_eq_Some_conv dest: mail_ok_follow)

section \<open>What is accepted\<close>

text \<open>The reliable events that were offered.\<close>

definition reliable :: "'p move list \<Rightarrow> 'p bus_event list" where
  "reliable as = concat (map (\<lambda>a. case a of Offer ev False \<Rightarrow> [ev] | _ \<Rightarrow> []) as)"

definition offered :: "'p move list \<Rightarrow> 'p bus_event list" where
  "offered as = concat (map (\<lambda>a. case a of Offer ev d \<Rightarrow> [ev] | _ \<Rightarrow> []) as)"

lemma accepts_offer:
  "accepts a m = [] \<or> (\<exists>ev d. a = Offer ev d \<and> accepts a m = [ev])"
  by (auto simp: accepts_def split: move.splits)

lemma reliable_accepted: "\<not> mb_stopped m \<Longrightarrow> accepts (Offer ev False) m = [ev]"
  by (simp add: accepts_def enqueue_event_def Let_def)

lemma still_running: "follow a (m, acc, got) = Some (m', acc', got') \<Longrightarrow> a \<noteq> Halt \<Longrightarrow> mb_stopped m' = mb_stopped m"
  by (cases a) (auto simp: follow_def enqueue_event_def next_event_def delivered_event_def Let_def split: if_splits worker.splits)

lemma accepted_between:
  "follow_all as (m, acc, got) = Some (m', acc', got') \<Longrightarrow> \<not> mb_stopped m \<Longrightarrow> Halt \<notin> set as \<Longrightarrow>
   \<exists>new. acc' = acc @ new \<and> subseq (reliable as) new \<and> subseq new (offered as) \<and> \<not> mb_stopped m'"
proof (induction as arbitrary: m acc got)
  case (Cons a as)
  from Cons.prems(1) obtain m1 acc1 got1 where step: "follow a (m, acc, got) = Some (m1, acc1, got1)"
      and rest: "follow_all as (m1, acc1, got1) = Some (m', acc', got')"
    by (auto simp: bind_eq_Some_conv)
  have "\<not> mb_stopped m1" using still_running[OF step] Cons.prems(2,3) by auto
  from Cons.IH[OF rest this] Cons.prems(3) obtain new where
    new: "acc' = acc1 @ new" "subseq (reliable as) new" "subseq new (offered as)" "\<not> mb_stopped m'" by auto
  have acc1: "acc1 = acc @ accepts a m" using step by (auto simp: follow_def)
  have lower: "subseq (reliable (a # as)) (accepts a m @ new)"
    using new(2) reliable_accepted[OF Cons.prems(2)]
    by (auto simp: reliable_def split: move.splits bool.splits)
  have upper: "subseq (accepts a m @ new) (offered (a # as))"
    using new(3) accepts_offer[of a m] by (auto simp: offered_def split: move.splits intro: list_emb_append_mono)
  show ?case using acc1 new(1,4) lower upper by auto
qed (simp add: reliable_def offered_def)

section \<open>Delivery\<close>

text \<open>
  Every move but an offer and a stop brings the mailbox closer to rest, and at rest everything is
  delivered: the worker is never left waiting with events in the queue.
\<close>

fun worker_left :: "'p worker \<Rightarrow> nat" where
  "worker_left (Sending ev) = 4"
| "worker_left Delivered = 2"
| "worker_left Looking = 1"
| "worker_left _ = 0"

definition mail_left :: "'p mailbox \<Rightarrow> nat" where
  "mail_left m = 4 * length (pending m) + worker_left (mb_worker m) + length (mb_out m) +
     (if mb_wake m then 2 else 0) + 3 * mb_signals m"

fun own :: "'p move \<Rightarrow> bool" where
  "own (Offer ev d) = False"
| "own Halt = False"
| "own _ = True"

lemma own_move_less:
  assumes ok: "mail_ok (m, acc, got)" and running: "\<not> mb_stopped m" and a: "own a" and run: "mail_move a m = Some m'"
  shows "mail_left m' < mail_left m"
proof (cases a)
  case Look
  show ?thesis
  proof (cases "pending m = []")
    case True
    with Look run ok running show ?thesis
      by (auto simp: mail_left_def pending_def next_event_def mail_ok_def split: if_splits)
  next
    case False
    then obtain m1 where "next_event m = (Some (hd (pending m)), m1)" "pending m1 = tl (pending m)"
        "mb_out m1 = mb_out m" "mb_wake m1 = mb_wake m" "mb_signals m1 = mb_signals m"
      using next_event_some[OF ok running] by blast
    with Look run False show ?thesis
      by (cases "pending m") (auto simp: mail_left_def pending_def split: if_splits)
  qed
next
  case Send
  with run show ?thesis by (cases "mb_worker m") (auto simp: mail_left_def pending_def split: if_splits)
next
  case Take
  with run show ?thesis by (cases "mb_out m") (auto simp: mail_left_def pending_def)
next
  case Quit
  with run ok running show ?thesis by (simp add: mail_ok_def split: if_splits)
qed (use a run in \<open>auto simp: mail_left_def pending_def delivered_event_def split: if_splits\<close>)

lemma mail_at_rest:
  assumes ok: "mail_ok (m, acc, got)" and running: "\<not> mb_stopped m" and rest: "\<And>a. own a \<Longrightarrow> mail_move a m = None"
  shows "got = acc \<and> pending m = [] \<and> mb_worker m = Waiting"
proof -
  have out: "mb_out m = []" using rest[of Take] by (auto split: if_splits)
  have worker: "mb_worker m = Waiting"
  proof (cases "mb_worker m")
    case Looking with rest[of Look] show ?thesis by (auto split: prod.splits option.splits)
  next
    case (Sending ev) with rest[of Send] out show ?thesis by (simp add: subscribe_buffer_def)
  next
    case Delivered with rest[of Settle] show ?thesis by simp
  next
    case Exited with ok running show ?thesis by (simp add: mail_ok_def)
  qed
  have "\<not> mb_wake m" "mb_signals m = 0"
    using rest[of Wake] rest[of Signal] worker by (auto split: if_splits)
  with ok running worker out show ?thesis by (auto simp: mail_ok_def)
qed

text \<open>So whatever the order, the own moves of a running mailbox end, and then every accepted event was taken.\<close>

lemma own_moves_bounded:
  assumes "mail_ok (m, acc, got)" "\<not> mb_stopped m" "list_all own as" "follow_all as (m, acc, got) = Some (m', acc', got')"
  shows "length as + mail_left m' \<le> mail_left m \<and> acc' = acc \<and> \<not> mb_stopped m'"
  using assms
proof (induction as arbitrary: m acc got)
  case (Cons a as)
  from Cons.prems(4) obtain m1 acc1 got1 where step: "follow a (m, acc, got) = Some (m1, acc1, got1)"
      and rest: "follow_all as (m1, acc1, got1) = Some (m', acc', got')"
    by (auto simp: bind_eq_Some_conv)
  have a: "own a" "a \<noteq> Halt" using Cons.prems(3) by (auto elim: own.elims)
  have run: "mail_move a m = Some m1" "acc1 = acc"
    using step a by (auto simp: follow_def accepts_def split: move.splits)
  have "\<not> mb_stopped m1" using still_running[OF step a(2)] Cons.prems(2) by simp
  from Cons.IH[OF mail_ok_follow[OF Cons.prems(1) step] this _ rest] Cons.prems(3) run(2)
    own_move_less[OF Cons.prems(1,2) a(1) run(1)] show ?case by auto
qed simp

lemma mailbox_delivers:
  assumes run: "follow_all as (new_subscription, [], []) = Some (m, acc, got)" and unhalted: "Halt \<notin> set as"
  shows "subseq (reliable as) acc \<and> subseq acc (offered as) \<and> prefix got acc \<and>
    (\<forall>bs m' acc' got'. list_all own bs \<and> follow_all bs (m, acc, got) = Some (m', acc', got') \<longrightarrow>
       length bs \<le> mail_left m \<and> acc' = acc \<and> ((\<forall>a. own a \<longrightarrow> mail_move a m' = None) \<longrightarrow> got' = acc))"
proof -
  have start: "\<not> mb_stopped (new_subscription :: 'a mailbox)" by (simp add: new_subscription_def)
  from accepted_between[OF run start unhalted] have bounds: "subseq (reliable as) acc" "subseq acc (offered as)" "\<not> mb_stopped m"
    by auto
  have ok: "mail_ok (m, acc, got)" by (rule mail_ok_follow_all[OF mail_ok_new run])
  then have "prefix got acc" using bounds(3) by (auto simp: mail_ok_def prefix_def)
  moreover have "length bs \<le> mail_left m \<and> acc' = acc \<and> ((\<forall>a. own a \<longrightarrow> mail_move a m' = None) \<longrightarrow> got' = acc)"
    if "list_all own bs" "follow_all bs (m, acc, got) = Some (m', acc', got')" for bs m' acc' got'
    using own_moves_bounded[OF ok bounds(3) that] mail_at_rest[OF mail_ok_follow_all[OF ok that(2)]] by auto
  ultimately show ?thesis using bounds by blast
qed

section \<open>The bus\<close>

text \<open>
  The routing table (topic and subscriber) and the mailboxes.  \<open>Publish\<close> reads the table under its
  lock and then offers the event to one subscriber after the other.
\<close>

record 'p bus =
  bs_subs :: "(string \<times> nat) list"
  bs_boxes :: "nat \<Rightarrow> 'p mailbox option"
  bs_next :: nat

definition new_bus :: "'p bus" where
  "new_bus = \<lparr>bs_subs = [], bs_boxes = (\<lambda>_. None), bs_next = 0\<rparr>"

definition subscribe :: "string \<Rightarrow> 'p bus \<Rightarrow> nat \<times> 'p bus" where
  "subscribe topic b = (bs_next b, b\<lparr>bs_subs := bs_subs b @ [(topic, bs_next b)],
     bs_boxes := (bs_boxes b)(bs_next b \<mapsto> new_subscription), bs_next := bs_next b + 1\<rparr>)"

definition unsubscribe :: "nat \<Rightarrow> 'p bus \<Rightarrow> 'p bus" where
  "unsubscribe i b = (if i \<in> snd ` set (bs_subs b)
     then b\<lparr>bs_subs := filter (\<lambda>x. snd x \<noteq> i) (bs_subs b),
       bs_boxes := (bs_boxes b)(i := map_option stop_mailbox (bs_boxes b i))\<rparr>
     else b)"

definition subscribers :: "'p bus \<Rightarrow> string \<Rightarrow> nat list" where
  "subscribers b topic = map snd (filter (\<lambda>x. fst x = topic) (bs_subs b))"

definition offer_to :: "'p bus_event \<Rightarrow> bool \<Rightarrow> nat \<Rightarrow> 'p bus \<Rightarrow> 'p bus" where
  "offer_to ev droppable i b =
     b\<lparr>bs_boxes := (bs_boxes b)(i := map_option (\<lambda>m. snd (enqueue_event ev droppable m)) (bs_boxes b i))\<rparr>"

definition publish_event :: "string \<Rightarrow> 'p option \<Rightarrow> time \<Rightarrow> bool \<Rightarrow> 'p bus \<Rightarrow> 'p bus" where
  "publish_event topic payload now droppable b =
     fold (offer_to \<lparr>be_topic = topic, be_payload = payload, be_ts = now\<rparr> droppable) (subscribers b topic) b"

text \<open>What one subscriber sees of a publication does not depend on the others.\<close>

lemma fold_offers:
  "distinct is \<Longrightarrow> bs_boxes (fold (offer_to ev d) is b) i =
     (if i \<in> set is then map_option (\<lambda>m. snd (enqueue_event ev d m)) (bs_boxes b i) else bs_boxes b i)"
  by (induction "is" arbitrary: b) (auto simp: offer_to_def)

definition bus_ok :: "'p bus \<Rightarrow> bool" where
  "bus_ok b \<longleftrightarrow> distinct (map snd (bs_subs b)) \<and> (\<forall>i. bs_boxes b i \<noteq> None \<longrightarrow> i < bs_next b) \<and>
     (\<forall>i \<in> snd ` set (bs_subs b). \<exists>m. bs_boxes b i = Some m \<and> \<not> mb_stopped m)"

lemma bus_ok_new: "bus_ok new_bus"
  by (simp add: bus_ok_def new_bus_def)

lemma bus_ok_subscribe: "bus_ok b \<Longrightarrow> bus_ok (snd (subscribe topic b))"
  by (force simp: bus_ok_def subscribe_def new_subscription_def)

lemma bus_ok_unsubscribe: "bus_ok b \<Longrightarrow> bus_ok (unsubscribe i b)"
  by (auto simp: bus_ok_def unsubscribe_def distinct_map_filter)

lemma distinct_subscribers: "bus_ok b \<Longrightarrow> distinct (subscribers b topic)"
  by (auto simp: bus_ok_def subscribers_def distinct_map_filter)

lemma publish_reaches_all:
  assumes "bus_ok b" "i \<in> set (subscribers b topic)"
  shows "\<exists>m. bs_boxes b i = Some m \<and>
     bs_boxes (publish_event topic payload now d b) i =
       Some (snd (enqueue_event \<lparr>be_topic = topic, be_payload = payload, be_ts = now\<rparr> d m)) \<and>
     (\<not> d \<longrightarrow> fst (fst (enqueue_event \<lparr>be_topic = topic, be_payload = payload, be_ts = now\<rparr> d m)))"
proof -
  have "i \<in> snd ` set (bs_subs b)" using assms(2) by (auto simp: subscribers_def)
  with assms(1) obtain m where m: "bs_boxes b i = Some m" "\<not> mb_stopped m" by (auto simp: bus_ok_def)
  with assms(2) show ?thesis
    by (simp add: publish_event_def fold_offers[OF distinct_subscribers[OF assms(1)]] enqueue_event_def Let_def)
qed

end
