(* ===== verification/StoreEvents.thy ===== *)
theory StoreEvents
  imports StoreMaps
begin

text \<open>
  The event log of a Project (\<open>internal/store/events.go\<close>, \<open>events_run.go\<close>): every event but the trace
  events takes the next number of its Project, and a client that was away asks for the events after
  the last number it has seen.  \<open>numbered\<close> is the invariant (the numbers of a Project are 1 to n in
  the order of insertion), \<open>replay_is_the_rest\<close> what it is for.
\<close>

section \<open>Writing\<close>

definition channel_trace :: string where
  "channel_trace = ''trace''"

definition resolve_event_project :: "event_row \<Rightarrow> db \<Rightarrow> event_row" where
  "resolve_event_project ev s =
    (if er_project_id ev = [] \<and> er_session_id ev \<noteq> [] then
       ev\<lparr>er_project_id := (case find_by cs_id (er_session_id ev) (chat_sessions s) of
         Some c \<Rightarrow> cs_project_id c | None \<Rightarrow> [])\<rparr>
     else ev)"

text \<open>The next number of the Project, and the counter moved on.\<close>

definition draw_sequence :: "string \<Rightarrow> (db, int) prog" where
  "draw_sequence p = reading (\<lambda>s. case map_of (event_sequences (desk s)) p of
     None \<Rightarrow> go (desk_put (\<lambda>d. d\<lparr>event_sequences := event_sequences d @ [(p, 2)]\<rparr>)) (\<lambda>_. ok 1)
   | Some n \<Rightarrow> go (desk_put (\<lambda>d. d\<lparr>event_sequences := update_where (\<lambda>x. fst x = p) (\<lambda>x. (p, n + 1)) (event_sequences d)\<rparr>))
       (\<lambda>_. ok n))"

definition event_violation :: "event_row list \<Rightarrow> string option" where
  "event_violation es =
    (if \<not> distinct (map er_id es) then Some ''events.id''
     else if \<not> distinct (map (\<lambda>e. (er_project_id e, er_sequence e))
         (filter (\<lambda>e. er_project_id e \<noteq> [] \<and> 0 < er_sequence e) es)) then Some ''events.project_id, events.sequence''
     else None)"

definition exec_events :: "(event_row list \<Rightarrow> event_row list) \<Rightarrow> (db, unit) prog" where
  "exec_events = checked event_violation (\<lambda>s. event_rows (desk s)) (\<lambda>r s. s\<lparr>desk := (desk s)\<lparr>event_rows := r\<rparr>\<rparr>)"

definition takes_number :: "event_row \<Rightarrow> bool" where
  "takes_number ev \<longleftrightarrow> er_project_id ev \<noteq> [] \<and> er_sequence ev = 0 \<and> er_channel ev \<noteq> channel_trace"

definition insert_event_tx :: "event_row \<Rightarrow> (db, event_row) prog" where
  "insert_event_tx ev =
     go (if takes_number ev then go (draw_sequence (er_project_id ev)) (\<lambda>n. ok (ev\<lparr>er_sequence := n\<rparr>)) else ok ev) (\<lambda>e.
     go (exec_events (append_row e)) (\<lambda>_. ok e))"

definition insert_project_event :: "event_row \<Rightarrow> (db, event_row) prog" where
  "insert_project_event ev = reading (\<lambda>s. tx (insert_event_tx (resolve_event_project ev s)))"

definition insert_event :: "event_row \<Rightarrow> (db, unit) prog" where
  "insert_event ev = unit_of (insert_project_event ev)"

section \<open>Reading\<close>

definition limit_rows :: "int \<Rightarrow> 'r list \<Rightarrow> 'r list" where
  "limit_rows limit rows = (if 0 < limit then take (nat limit) rows else rows)"

text \<open>The columns \<^verbatim>\<open>ListEventsAfter\<close> selects; the others keep their zero value.\<close>

definition session_event_columns :: "event_row \<Rightarrow> event_row" where
  "session_event_columns e = e\<lparr>er_project_id := [], er_resource_type := [], er_resource_id := [], er_revision := 0, er_sequence := 0\<rparr>"

definition list_events_after :: "string \<Rightarrow> string \<Rightarrow> int \<Rightarrow> (db, event_row list) prog" where
  "list_events_after session_id last_id limit = select_rows (\<lambda>s.
     map session_event_columns (limit_rows limit (sort_key er_id (filter (\<lambda>e. er_session_id e = session_id \<and> last_id < er_id e \<and>
       er_channel e \<noteq> channel_trace) (event_rows (desk s))))))"

definition latest_project_event_sequence :: "string \<Rightarrow> (db, int) prog" where
  "latest_project_event_sequence p = select_rows (\<lambda>s.
     (case map er_sequence (filter (\<lambda>e. er_project_id e = p) (event_rows (desk s))) of
        [] \<Rightarrow> 0 | n # ns \<Rightarrow> foldl max n ns))"

definition project_events :: "db \<Rightarrow> string \<Rightarrow> event_row list" where
  "project_events s p = filter (\<lambda>e. er_project_id e = p \<and> er_channel e \<noteq> channel_trace) (event_rows (desk s))"

definition list_project_events_after :: "string \<Rightarrow> int \<Rightarrow> int \<Rightarrow> (db, event_row list) prog" where
  "list_project_events_after p after limit =
     go (latest_project_event_sequence p) (\<lambda>n.
     if n < after then err ErrEventGap
     else select_rows (\<lambda>s. limit_rows limit (sort_key er_sequence (filter (\<lambda>e. after < er_sequence e) (project_events s p)))))"

text \<open>\<^verbatim>\<open>json_extract(..., '$.run_id')\<close>: no value, a text, or a value no Run identifier equals.\<close>

datatype run_mark = NoMark | RunMark string | OtherMark

definition run_mark :: "raw_json \<Rightarrow> run_mark" where
  "run_mark raw = (case raw of Raw (JObj fs) \<Rightarrow>
       (case map_of fs ''run_id'' of None \<Rightarrow> NoMark | Some JNull \<Rightarrow> NoMark | Some (JStr t) \<Rightarrow> RunMark t | Some _ \<Rightarrow> OtherMark)
     | _ \<Rightarrow> NoMark)"

definition of_run :: "string \<Rightarrow> event_row \<Rightarrow> bool" where
  "of_run run e \<longleftrightarrow> (run_mark (er_payload e) = RunMark run \<or> run_mark (er_parent e) = RunMark run) \<and>
     run_mark (er_payload e) \<in> {NoMark, RunMark [], RunMark run} \<and>
     run_mark (er_parent e) \<in> {NoMark, RunMark [], RunMark run}"

definition list_run_events_after :: "string \<Rightarrow> string \<Rightarrow> int \<Rightarrow> int \<Rightarrow> (db, event_row list) prog" where
  "list_run_events_after p run after limit =
    (if p = [] \<or> run = [] \<or> after < 0 \<or> limit \<le> 0 \<or> 501 < limit then err ErrInvalidState
     else select_rows (\<lambda>s. limit_rows limit (sort_key er_sequence
       (filter (\<lambda>e. after < er_sequence e \<and> of_run run e) (project_events s p)))))"

section \<open>The numbers of a Project\<close>

text \<open>
  The events of a Project carry the numbers 1 to n in the order in which they were written, trace
  events carry none, and the counter is one ahead.
\<close>

definition numbered :: "db \<Rightarrow> bool" where
  "numbered s \<longleftrightarrow> event_violation (event_rows (desk s)) = None \<and>
     (\<forall>e \<in> set (event_rows (desk s)). er_channel e = channel_trace \<longrightarrow> er_sequence e = 0) \<and>
     (\<forall>p. p \<noteq> [] \<longrightarrow> map er_sequence (project_events s p) = map int [1..<Suc (length (project_events s p))] \<and>
        map_of (event_sequences (desk s)) p =
          (if project_events s p = [] then None else Some (int (length (project_events s p)) + 1)))"

lemma map_of_update_pair:
  "map_of (update_where (\<lambda>x. fst x = p) (\<lambda>x. (p, v)) xs) q = (if q = p then map_option (\<lambda>_. v) (map_of xs p) else map_of xs q)"
  by (induction xs) auto

lemma numbered_append:
  assumes ok: "numbered s" and fits: "event_violation (event_rows (desk s) @ [e]) = None"
    and trace: "er_channel e = channel_trace \<Longrightarrow> er_sequence e = 0"
    and number: "er_project_id e \<noteq> [] \<and> er_channel e \<noteq> channel_trace \<Longrightarrow>
      er_sequence e = int (length (project_events s (er_project_id e))) + 1"
    and rows: "event_rows (desk t) = event_rows (desk s) @ [e]"
    and counters: "\<And>p. p \<noteq> [] \<Longrightarrow> map_of (event_sequences (desk t)) p =
      (if p = er_project_id e \<and> er_channel e \<noteq> channel_trace then Some (er_sequence e + 1) else map_of (event_sequences (desk s)) p)"
  shows "numbered t"
  unfolding numbered_def
proof (intro conjI allI impI)
  show "event_violation (event_rows (desk t)) = None" using fits rows by simp
  show "\<forall>x \<in> set (event_rows (desk t)). er_channel x = channel_trace \<longrightarrow> er_sequence x = 0"
    using ok trace by (auto simp: rows numbered_def)
next
  fix p :: string assume p: "p \<noteq> []"
  let ?old = "project_events s p"
  have old: "map er_sequence ?old = map int [1..<Suc (length ?old)]"
    and count: "map_of (event_sequences (desk s)) p = (if ?old = [] then None else Some (int (length ?old) + 1))"
    using ok p by (simp_all add: numbered_def)
  have new: "project_events t p = ?old @ (if er_project_id e = p \<and> er_channel e \<noteq> channel_trace then [e] else [])"
    by (simp add: project_events_def rows)
  show "map er_sequence (project_events t p) = map int [1..<Suc (length (project_events t p))]"
    using old number p by (auto simp: new)
  show "map_of (event_sequences (desk t)) p =
      (if project_events t p = [] then None else Some (int (length (project_events t p)) + 1))"
    using count number p by (auto simp: new counters[OF p])
qed

lemma draw_sequence_run:
  "draw_sequence p s = (Inr (case map_of (event_sequences (desk s)) p of None \<Rightarrow> 1 | Some n \<Rightarrow> n),
     s\<lparr>desk := (desk s)\<lparr>event_sequences := (case map_of (event_sequences (desk s)) p of
       None \<Rightarrow> event_sequences (desk s) @ [(p, 2)]
     | Some n \<Rightarrow> update_where (\<lambda>x. fst x = p) (\<lambda>x. (p, n + 1)) (event_sequences (desk s)))\<rparr>\<rparr>)"
  by (simp add: draw_sequence_def run_simps split: option.splits)

lemma numbered_insert_tx:
  assumes ok: "numbered s" and zero: "er_sequence ev = 0" and run: "insert_event_tx ev s = (Inr e, t)"
  shows "numbered t"
proof (cases "takes_number ev")
  case True
  let ?p = "er_project_id ev"
  let ?n = "case map_of (event_sequences (desk s)) ?p of None \<Rightarrow> 1 | Some n \<Rightarrow> n"
  have p: "?p \<noteq> []" using True by (simp add: takes_number_def)
  have "map_of (event_sequences (desk s)) ?p =
      (if project_events s ?p = [] then None else Some (int (length (project_events s ?p)) + 1))"
    using ok p by (simp add: numbered_def)
  then have n: "?n = int (length (project_events s ?p)) + 1" by simp
  have t: "event_violation (event_rows (desk s) @ [ev\<lparr>er_sequence := ?n\<rparr>]) = None"
    "event_rows (desk t) = event_rows (desk s) @ [ev\<lparr>er_sequence := ?n\<rparr>]"
    "event_sequences (desk t) = (case map_of (event_sequences (desk s)) ?p of
       None \<Rightarrow> event_sequences (desk s) @ [(?p, 2)]
     | Some n \<Rightarrow> update_where (\<lambda>x. fst x = ?p) (\<lambda>x. (?p, n + 1)) (event_sequences (desk s)))"
    using run True by (auto simp: insert_event_tx_def run_go draw_sequence_run exec_events_def checked_def append_row_def
        split: option.splits)
  show ?thesis
  proof (rule numbered_append[OF ok t(1)])
    show "event_rows (desk t) = event_rows (desk s) @ [ev\<lparr>er_sequence := ?n\<rparr>]" by (rule t(2))
    show "map_of (event_sequences (desk t)) q =
        (if q = er_project_id (ev\<lparr>er_sequence := ?n\<rparr>) \<and> er_channel (ev\<lparr>er_sequence := ?n\<rparr>) \<noteq> channel_trace
         then Some (er_sequence (ev\<lparr>er_sequence := ?n\<rparr>) + 1) else map_of (event_sequences (desk s)) q)" if "q \<noteq> []" for q
      using True by (auto simp: t(3) takes_number_def map_of_update_pair map_add_def split: option.splits)
  qed (use True n in \<open>auto simp: takes_number_def\<close>)
next
  case False
  then have t: "event_violation (event_rows (desk s) @ [ev]) = None" "event_rows (desk t) = event_rows (desk s) @ [ev]"
    "event_sequences (desk t) = event_sequences (desk s)"
    using run by (auto simp: insert_event_tx_def run_go exec_events_def checked_def append_row_def split: option.splits)
  have side: "er_project_id ev = [] \<or> er_channel ev = channel_trace" using False zero by (auto simp: takes_number_def)
  show ?thesis
    by (rule numbered_append[OF ok t(1) _ _ t(2)]) (use zero side t(3) in auto)
qed

text \<open>Every event written without a number keeps the numbering.\<close>

lemma numbered_insert:
  assumes "numbered s" "er_sequence ev = 0"
  shows "numbered (snd (insert_project_event ev s))"
proof -
  let ?e = "resolve_event_project ev s"
  have zero: "er_sequence ?e = 0" using assms(2) by (simp add: resolve_event_project_def)
  obtain r t where run: "insert_event_tx ?e s = (r, t)" by fastforce
  show ?thesis
  proof (cases r)
    case (Inl x)
    with run assms(1) show ?thesis
      by (simp add: insert_project_event_def run_reading run_tx numbered_def project_events_def)
  next
    case (Inr x)
    with run numbered_insert_tx[OF assms(1) zero] show ?thesis
      by (simp add: insert_project_event_def run_reading run_tx)
  qed
qed

section \<open>Replay\<close>

lemma sort_key_sorted: "sorted (map f xs) \<Longrightarrow> sort_key f xs = xs"
  by (induction xs) (auto simp: insort_is_Cons)

lemma filter_numbers:
  assumes "map f es = map int [a..<a + length es]"
  shows "filter (\<lambda>e. int k < f e) es = drop (Suc k - a) es"
  using assms
proof (induction es arbitrary: a)
  case (Cons e es)
  from Cons.prems have e: "f e = int a" and es: "map f es = map int [Suc a..<Suc a + length es]"
    by (simp_all add: upt_rec del: upt_Suc split: if_splits)
  have rest: "filter (\<lambda>e. int k < f e) es = drop (Suc k - Suc a) es" by (rule Cons.IH[OF es])
  show ?case
  proof (cases "k < a")
    case True with e rest show ?thesis by simp
  next
    case False
    then have "Suc k - a = Suc (Suc k - Suc a)" by linarith
    with False e rest show ?thesis by simp
  qed
qed simp

lemma foldl_max_bound: "(\<forall>n \<in> set (m # ns). n \<le> b) \<Longrightarrow> b \<in> set (m # ns) \<Longrightarrow> foldl max m ns = (b :: int)"
  by (induction ns arbitrary: m) (auto simp: max_def)

lemma latest_number:
  assumes ok: "numbered s" and p: "p \<noteq> []"
  shows "latest_project_event_sequence p s = (Inr (int (length (project_events s p))), s)"
proof -
  let ?es = "project_events s p" and ?all = "filter (\<lambda>e. er_project_id e = p) (event_rows (desk s))"
  have nums: "map er_sequence ?es = map int [1..<Suc (length ?es)]" using ok p by (simp add: numbered_def)
  have bound: "er_sequence e \<le> int (length ?es)" if "e \<in> set ?all" for e
  proof (cases "er_channel e = channel_trace")
    case True with ok that show ?thesis by (auto simp: numbered_def)
  next
    case False
    with that have "er_sequence e \<in> set (map er_sequence ?es)" by (auto simp: project_events_def)
    then show ?thesis unfolding nums by auto
  qed
  have top: "int (length ?es) \<in> er_sequence ` set ?all \<or> ?es = []"
  proof (cases "?es = []")
    case False
    then have "int (length ?es) \<in> set (map er_sequence ?es)" unfolding nums by (cases ?es) auto
    then show ?thesis by (auto simp: project_events_def)
  qed simp
  have zero: "er_sequence e = 0" if "?es = []" "e \<in> set ?all" for e
    using that ok by (auto simp: project_events_def numbered_def filter_empty_conv)
  show ?thesis
  proof (cases "map er_sequence ?all")
    case Nil
    then have "?es = []" by (auto simp: project_events_def filter_empty_conv)
    with Nil show ?thesis by (simp add: latest_project_event_sequence_def)
  next
    case (Cons n ns)
    have set: "set (n # ns) = er_sequence ` set ?all" using Cons by (metis list.set_map)
    have "foldl max n ns = int (length ?es)"
    proof (rule foldl_max_bound)
      show "\<forall>x \<in> set (n # ns). x \<le> int (length ?es)" unfolding set using bound by blast
      show "int (length ?es) \<in> set (n # ns)" unfolding set
      proof (cases "?es = []")
        case True
        have "n \<in> er_sequence ` set ?all" using set by auto
        then obtain e where "e \<in> set ?all" by blast
        with zero[OF True this] True show "int (length ?es) \<in> er_sequence ` set ?all" by (metis imageI list.size(3) of_nat_0)
      qed (use top in blast)
    qed
    with Cons show ?thesis by (simp add: latest_project_event_sequence_def)
  qed
qed

lemma replay_is_the_rest:
  assumes ok: "numbered s" and p: "p \<noteq> []"
  shows "list_project_events_after p (int k) 0 s =
    (if k \<le> length (project_events s p) then Inr (drop k (project_events s p)) else Inl ErrEventGap, s)"
proof -
  let ?es = "project_events s p"
  have nums: "map er_sequence ?es = map int [1..<1 + length ?es]" using ok p by (simp add: numbered_def)
  have rest: "filter (\<lambda>e. int k < er_sequence e) ?es = drop k ?es" using filter_numbers[OF nums, of k] by simp
  have "sorted (map er_sequence ?es)"
    unfolding nums sorted_map by (simp del: upt_Suc)
  then have "sorted (map er_sequence (drop k ?es))"
    by (simp add: drop_map[symmetric] sorted_wrt_drop)
  then show ?thesis
    by (simp add: list_project_events_after_def run_go latest_number[OF ok p] limit_rows_def rest sort_key_sorted)
qed

text \<open>A sequence of events, each written or refused.\<close>

primrec record_events :: "event_row list \<Rightarrow> db \<Rightarrow> db" where
  "record_events [] s = s"
| "record_events (ev # evs) s = record_events evs (snd (insert_project_event ev s))"

lemma numbered_record: "numbered s \<Longrightarrow> (\<And>ev. ev \<in> set evs \<Longrightarrow> er_sequence ev = 0) \<Longrightarrow> numbered (record_events evs s)"
  by (induction evs arbitrary: s) (simp_all add: numbered_insert)

lemma insert_appends: "\<exists>new. project_events (snd (insert_project_event ev s)) p = project_events s p @ new"
  by (auto simp: insert_project_event_def run_reading run_tx insert_event_tx_def run_go draw_sequence_run exec_events_def
      checked_def append_row_def project_events_def split: option.splits)

lemma record_appends: "\<exists>new. project_events (record_events evs s) p = project_events s p @ new"
proof (induction evs arbitrary: s)
  case (Cons ev evs)
  from Cons.IH[of "snd (insert_project_event ev s)"] insert_appends[of ev s p] show ?case by (metis append.assoc record_events.simps(2))
qed simp

lemma catch_up:
  assumes "numbered s" "\<And>ev. ev \<in> set evs \<Longrightarrow> er_sequence ev = 0" "p \<noteq> []"
  shows "\<exists>new. project_events (record_events evs s) p = project_events s p @ new \<and>
    list_project_events_after p (int (length (project_events s p))) 0 (record_events evs s) = (Inr new, record_events evs s)"
proof -
  from record_appends[of evs s p] obtain new where new: "project_events (record_events evs s) p = project_events s p @ new" by blast
  show ?thesis
    using replay_is_the_rest[OF numbered_record[OF assms(1,2)] assms(3), where k = "length (project_events s p)"] new by auto
qed

end
