(* ===== verification/EventPipe.thy ===== *)
theory EventPipe
  imports EventBus StoreEvents
begin

text \<open>
  The way of an event from the bus to the browser.  The aggregator (\<open>server/aggregate/aggregator.go\<close>,
  \<open>rules.go\<close>) takes the events off its mailbox one by one, normalises, grades and stores them and
  hands them to the hub (\<open>server/ws/hub.go\<close>), which puts them into the send buffers of the
  subscribed connections (\<open>gateway.go\<close>); a connection writes its buffer to its socket and, on a
  \<open>sync\<close>, replays what the log holds after a number (\<open>studio.go\<close>).  \<open>pipe_step\<close> is one move of one
  goroutine.
\<close>

section \<open>Envelopes\<close>

text \<open>
  A payload: a \<open>map[string]any\<close>, a \<open>json.RawMessage\<close>, bytes (with their base64 text), any other value
  with its encoding, or a value \<open>json.Marshal\<close> refuses.
\<close>

datatype event_payload =
    FieldsPayload any_map
  | RawPayload raw_json
  | BytesPayload raw_json string
  | OtherPayload json
  | Unencodable

record envelope =
  en_id :: string
  en_project_id :: string
  en_session_id :: string
  en_resource_type :: string
  en_resource_id :: string
  en_revision :: int
  en_sequence :: int
  en_ts :: time
  en_agent_id :: string
  en_agent_role :: string
  en_agent_name :: string
  en_channel :: string
  en_type :: string
  en_importance :: string
  en_run_id :: string
  en_trace_id :: string
  en_payload :: event_payload

text \<open>What \<open>unmarshal\<close> into \<open>map[string]any\<close> accepts.\<close>

fun raw_fields :: "raw_json \<Rightarrow> any_map option" where
  "raw_fields (Raw (JObj fs)) = Some fs"
| "raw_fields (Raw JNull) = Some []"
| "raw_fields _ = None"

fun payload_fields :: "event_payload \<Rightarrow> any_map option" where
  "payload_fields (FieldsPayload fs) = Some fs"
| "payload_fields (RawPayload raw) = raw_fields raw"
| "payload_fields (BytesPayload raw text) = raw_fields raw"
| "payload_fields _ = None"

definition classify_alert_level :: "int \<Rightarrow> string" where
  "classify_alert_level level = (if 3 \<le> level then ''critical'' else if 1 \<le> level then ''low'' else ''normal'')"

definition alert_severity :: "(string \<times> string) list" where
  "alert_severity = [(''critical'', ''critical''), (''fatal'', ''critical''), (''high'', ''critical''),
     (''warning'', ''normal''), (''warn'', ''normal''), (''medium'', ''normal''),
     (''info'', ''low''), (''low'', ''low''), (''debug'', ''low'')]"

text \<open>\<open>trunc\<close> is the conversion of a \<open>float64\<close> that is no integer literal to \<open>int\<close>.\<close>

definition classify_alert :: "(string \<Rightarrow> int) \<Rightarrow> event_payload \<Rightarrow> string" where
  "classify_alert trunc payload = (case payload_fields payload of None \<Rightarrow> ''normal''
   | Some fs \<Rightarrow> (case map_of fs ''level'' of
        Some (JInt n) \<Rightarrow> classify_alert_level n
      | Some (JNum t) \<Rightarrow> classify_alert_level (trunc t)
      | Some (JStr t) \<Rightarrow> (case map_of alert_severity (ascii_lower t) of Some i \<Rightarrow> i | None \<Rightarrow> ''normal'')
      | _ \<Rightarrow> ''normal''))"

definition channel_defaults :: "(string \<times> string) list" where
  "channel_defaults = [(''dialogue'', ''normal''), (''trace'', ''low''), (''artifact'', ''normal'')]"

definition classify :: "(string \<Rightarrow> int) \<Rightarrow> string \<Rightarrow> event_payload \<Rightarrow> string" where
  "classify trunc channel payload =
    (if channel = ''interaction'' then ''critical''
     else if channel = ''alert'' then classify_alert trunc payload
     else case map_of channel_defaults channel of Some i \<Rightarrow> i | None \<Rightarrow> ''normal'')"

section \<open>Records\<close>

definition parent_json :: "envelope \<Rightarrow> raw_json" where
  "parent_json env = Raw (JObj (filter (\<lambda>(k, v). v \<noteq> JStr [])
     [(''run_id'', JStr (en_run_id env)), (''trace_id'', JStr (en_trace_id env))]))"

fun payload_json :: "event_payload \<Rightarrow> raw_json option" where
  "payload_json (FieldsPayload fs) = Some (Raw (JObj fs))"
| "payload_json (RawPayload NoRaw) = Some (Raw JNull)"
| "payload_json (RawPayload (Raw j)) = Some (Raw j)"
| "payload_json (RawPayload (BadRaw t)) = None"
| "payload_json (BytesPayload raw text) = Some (Raw (JStr text))"
| "payload_json (OtherPayload j) = Some (Raw j)"
| "payload_json Unencodable = None"

definition to_record :: "envelope \<Rightarrow> event_row option" where
  "to_record env = map_option (\<lambda>payload. \<lparr>er_id = en_id env, er_project_id = en_project_id env,
     er_session_id = en_session_id env, er_resource_type = en_resource_type env, er_resource_id = en_resource_id env,
     er_revision = en_revision env, er_sequence = en_sequence env, er_channel = en_channel env, er_type = en_type env,
     er_importance = en_importance env, er_agent_id = en_agent_id env, er_agent_role = en_agent_role env,
     er_parent = parent_json env, er_payload = payload, er_ts = en_ts env\<rparr>) (payload_json (en_payload env))"

text \<open>\<open>json.Unmarshal\<close> into \<open>ParentRef\<close>: a missing or null field is empty, another type is an error.\<close>

definition parent_field :: "any_map \<Rightarrow> string \<Rightarrow> string option" where
  "parent_field fs k = (case map_of fs k of None \<Rightarrow> Some [] | Some JNull \<Rightarrow> Some [] | Some (JStr t) \<Rightarrow> Some t | Some _ \<Rightarrow> None)"

definition parse_parent :: "raw_json \<Rightarrow> (string \<times> string) option" where
  "parse_parent raw = (case raw_fields raw of None \<Rightarrow> None
   | Some fs \<Rightarrow> (case (parent_field fs ''run_id'', parent_field fs ''trace_id'') of
        (Some r, Some t) \<Rightarrow> Some (r, t) | _ \<Rightarrow> None))"

definition from_record :: "event_row \<Rightarrow> envelope option" where
  "from_record row = map_option (\<lambda>(run, trace). \<lparr>en_id = er_id row, en_project_id = er_project_id row,
     en_session_id = er_session_id row, en_resource_type = er_resource_type row, en_resource_id = er_resource_id row,
     en_revision = er_revision row, en_sequence = er_sequence row, en_ts = er_ts row, en_agent_id = er_agent_id row,
     en_agent_role = er_agent_role row, en_agent_name = er_agent_id row, en_channel = er_channel row,
     en_type = er_type row, en_importance = er_importance row, en_run_id = run, en_trace_id = trace,
     en_payload = RawPayload (er_payload row)\<rparr>) (parse_parent (er_parent row))"

text \<open>A row the aggregator wrote is read back as an envelope that stands for the same row.\<close>

lemma parse_parent_json: "parse_parent (parent_json env) = Some (en_run_id env, en_trace_id env)"
  by (cases "en_run_id env = []"; cases "en_trace_id env = []") (simp_all add: parse_parent_def parent_json_def parent_field_def)

lemma payload_json_raw: "payload_json p = Some raw \<Longrightarrow> payload_json (RawPayload raw) = Some raw"
  by (cases p rule: payload_json.cases) auto

lemma from_to_record:
  assumes "to_record env = Some row"
  shows "from_record row = Some (env\<lparr>en_agent_name := en_agent_id env, en_payload := RawPayload (er_payload row)\<rparr>)"
  using assms by (auto simp: to_record_def from_record_def parse_parent_json)

lemma record_roundtrip:
  assumes "to_record env = Some row"
  shows "\<exists>env'. from_record row = Some env' \<and> to_record env' = Some row"
  using from_to_record[OF assms] assms by (auto simp: to_record_def parent_json_def payload_json_raw)

section \<open>The aggregator\<close>

text \<open>\<open>evt-<19 digits of the time>-<9 digits of the sequence>\<close>; longer numbers are not cut.\<close>

definition zero_padded :: "nat \<Rightarrow> nat \<Rightarrow> string" where
  "zero_padded width n = replicate (width - length (digits n)) CHR ''0'' @ digits n"

definition event_id :: "time \<Rightarrow> nat \<Rightarrow> string" where
  "event_id now n = ''evt-'' @ zero_padded 19 now @ ''-'' @ zero_padded 9 n"

definition normalize :: "(string \<Rightarrow> int) \<Rightarrow> time \<Rightarrow> nat \<Rightarrow> envelope \<Rightarrow> envelope" where
  "normalize trunc now n env =
    (let agent = (if en_agent_id env = [] then ''system'' else en_agent_id env) in
     env\<lparr>en_id := event_id now n, en_ts := (if en_ts env = 0 then now else en_ts env),
       en_agent_id := agent, en_agent_name := (if en_agent_name env = [] then agent else en_agent_name env),
       en_importance := classify trunc (en_channel env) (en_payload env)\<rparr>)"

text \<open>
  The aggregator up to \<open>hub.Publish\<close>: the envelope to forward, if any.  A payload of another type and
  an event without channel or type are dropped before an identifier is drawn.
\<close>

definition handle_event :: "(string \<Rightarrow> int) \<Rightarrow> time \<Rightarrow> nat \<Rightarrow> envelope option \<Rightarrow> db \<Rightarrow> envelope option \<times> nat \<times> db" where
  "handle_event trunc now seq payload s = (case payload of
     None \<Rightarrow> (None, seq, s)
   | Some given \<Rightarrow>
     if en_channel given = [] \<or> en_type given = [] then (None, seq, s)
     else let env = normalize trunc now (seq + 1) given in
       (case to_record env of
          None \<Rightarrow> (None, seq + 1, s)
        | Some row \<Rightarrow> (case insert_project_event row s of
             (Inr stored, t) \<Rightarrow> (Some (env\<lparr>en_project_id := er_project_id stored, en_resource_type := er_resource_type stored,
                 en_resource_id := er_resource_id stored, en_revision := er_revision stored,
                 en_sequence := er_sequence stored\<rparr>), seq + 1, t)
           | (Inl e, t) \<Rightarrow> (None, seq + 1, t))))"

definition replay_project_events :: "string \<Rightarrow> int \<Rightarrow> db \<Rightarrow> error + envelope list" where
  "replay_project_events project_id after s =
    (case fst (list_project_events_after project_id after 0 s) of
       Inl e \<Rightarrow> Inl e | Inr rows \<Rightarrow> Inr (List.map_filter from_record rows))"

definition replay_events :: "string \<Rightarrow> string \<Rightarrow> db \<Rightarrow> error + envelope list" where
  "replay_events session_id last_id s =
    (case fst (list_events_after session_id last_id 0 s) of
       Inl e \<Rightarrow> Inl e | Inr rows \<Rightarrow> Inr (List.map_filter from_record rows))"

section \<open>Connections\<close>

definition send_buffer :: nat where
  "send_buffer = 64"

datatype ws_message = WsEvent envelope | WsError string | WsSyncDone nat int

text \<open>
  A connection: its send buffer, whether \<open>done\<close> is closed, the messages written to the socket, and
  the messages its reader has still to put into the buffer before it reads the next uplink.  The last
  field is not part of the program: how many events of the Project the client does not count on,
  those before it subscribed, less what it asked for by \<open>sync\<close>.
\<close>

record ws_conn =
  wc_project :: string
  wc_send :: "ws_message list"
  wc_done :: bool
  wc_written :: "ws_message list"
  wc_todo :: "ws_message list"
  wc_from :: nat

record ws_hub =
  wh_sessions :: "(string \<times> nat) list"
  wh_projects :: "(string \<times> nat) list"
  wh_all :: "nat list"

definition subscribe_project :: "string \<Rightarrow> nat \<Rightarrow> ws_hub \<Rightarrow> ws_hub" where
  "subscribe_project p i h = h\<lparr>wh_all := List.insert i (wh_all h), wh_projects := List.insert (p, i) (wh_projects h)\<rparr>"

definition unsubscribe_project :: "string \<Rightarrow> nat \<Rightarrow> ws_hub \<Rightarrow> ws_hub" where
  "unsubscribe_project p i h = h\<lparr>wh_all := removeAll i (wh_all h), wh_projects := removeAll (p, i) (wh_projects h)\<rparr>"

definition subscribe_session :: "string \<Rightarrow> nat \<Rightarrow> ws_hub \<Rightarrow> ws_hub" where
  "subscribe_session session i h = h\<lparr>wh_all := List.insert i (wh_all h),
     wh_sessions := (if session = [] then wh_sessions h else List.insert (session, i) (wh_sessions h))\<rparr>"

definition unsubscribe_session :: "string \<Rightarrow> nat \<Rightarrow> ws_hub \<Rightarrow> ws_hub" where
  "unsubscribe_session session i h = h\<lparr>wh_all := removeAll i (wh_all h), wh_sessions := removeAll (session, i) (wh_sessions h)\<rparr>"

definition members :: "(string \<times> nat) list \<Rightarrow> string \<Rightarrow> nat list" where
  "members xs k = map snd (filter (\<lambda>x. fst x = k) xs)"

text \<open>The target set of \<open>hub.Publish\<close>.\<close>

definition targets :: "envelope \<Rightarrow> ws_hub \<Rightarrow> nat list" where
  "targets env h = remdups
    (if en_session_id env = [] \<and> en_project_id env = [] then wh_all h
     else members (wh_sessions h) (en_session_id env) @ members (wh_projects h) (en_project_id env))"

text \<open>
  \<open>enqueue\<close>: a trace event is dropped when the buffer is full, any other waits for room; a closed
  connection gives up.  \<open>give_up\<close> is the choice of the \<open>select\<close> when both are possible; \<open>None\<close>: the
  caller waits.
\<close>

definition conn_enqueue :: "bool \<Rightarrow> envelope \<Rightarrow> ws_conn \<Rightarrow> ws_conn option" where
  "conn_enqueue give_up env c =
    (if wc_done c \<and> give_up then Some c
     else if length (wc_send c) < send_buffer then Some (c\<lparr>wc_send := wc_send c @ [WsEvent env]\<rparr>)
     else if en_channel env = channel_trace then Some c
     else None)"

definition conn_reply :: "bool \<Rightarrow> ws_message \<Rightarrow> ws_conn \<Rightarrow> ws_conn option" where
  "conn_reply give_up msg c =
    (if wc_done c \<and> give_up then Some c
     else if length (wc_send c) < send_buffer then Some (c\<lparr>wc_send := wc_send c @ [msg]\<rparr>)
     else None)"

definition conn_put :: "bool \<Rightarrow> ws_message \<Rightarrow> ws_conn \<Rightarrow> ws_conn option" where
  "conn_put give_up msg c = (case msg of WsEvent env \<Rightarrow> conn_enqueue give_up env c | _ \<Rightarrow> conn_reply give_up msg c)"

text \<open>What \<open>handleProjectSync\<close> will put into the buffer.\<close>

definition handle_project_sync :: "string \<Rightarrow> int \<Rightarrow> db \<Rightarrow> ws_message list" where
  "handle_project_sync project_id after s =
    (if after < 0 then [WsError ''WS_BAD_MESSAGE'']
     else case replay_project_events project_id after s of
       Inl e \<Rightarrow> [WsError ''SYNC_FAILED'']
     | Inr envs \<Rightarrow> map WsEvent envs @ [WsSyncDone (length envs) (fold max (map en_sequence envs) after)])"

text \<open>\<open>handleSync\<close> of the connections of a Conversation.\<close>

definition handle_sync :: "string \<Rightarrow> string \<Rightarrow> db \<Rightarrow> ws_message list" where
  "handle_sync session last_id s =
    (if last_id = [] then [WsSyncDone 0 0]
     else case replay_events session last_id s of
       Inl e \<Rightarrow> [WsError ''SYNC_FAILED'']
     | Inr envs \<Rightarrow> map WsEvent envs @ [WsSyncDone (length envs) 0])"

section \<open>The pipe\<close>

record pipe =
  pp_db :: db
  pp_seq :: nat
  pp_hub :: ws_hub
  pp_conns :: "nat \<Rightarrow> ws_conn option"
  pp_agg :: "(envelope \<times> nat list) option"

text \<open>
  The aggregator takes an event, or hands the current one to one of the connections left; a Studio
  connection opens, asks for a replay, puts the next answer into its buffer, writes a message (or
  fails to, which closes it), is closed or leaves the hub; a connection of a Conversation opens or
  asks for a replay.
\<close>

datatype pipe_move =
    PTake time "envelope option"
  | PHand nat bool
  | POpen nat string
  | PSync nat int
  | PAnswer nat bool
  | PWrite nat bool
  | PClose nat
  | PLeave nat
  | PWatch nat string
  | PResume nat string string

definition new_conn :: "string \<Rightarrow> nat \<Rightarrow> ws_conn" where
  "new_conn p n = \<lparr>wc_project = p, wc_send = [], wc_done = False, wc_written = [], wc_todo = [], wc_from = n\<rparr>"

definition on_conn :: "nat \<Rightarrow> (ws_conn \<Rightarrow> ws_conn option) \<Rightarrow> pipe \<Rightarrow> pipe option" where
  "on_conn i f s = (case pp_conns s i of None \<Rightarrow> None
   | Some c \<Rightarrow> map_option (\<lambda>c'. s\<lparr>pp_conns := (pp_conns s)(i \<mapsto> c')\<rparr>) (f c))"

definition take_event :: "(string \<Rightarrow> int) \<Rightarrow> time \<Rightarrow> envelope option \<Rightarrow> pipe \<Rightarrow> pipe" where
  "take_event trunc now payload s =
    (case handle_event trunc now (pp_seq s) payload (pp_db s) of (forward, n, d) \<Rightarrow>
       s\<lparr>pp_db := d, pp_seq := n, pp_agg := (case forward of None \<Rightarrow> None
         | Some env \<Rightarrow> (case targets env (pp_hub s) of [] \<Rightarrow> None | ts \<Rightarrow> Some (env, ts)))\<rparr>)"

fun pipe_step :: "(string \<Rightarrow> int) \<Rightarrow> pipe_move \<Rightarrow> pipe \<Rightarrow> pipe option" where
  "pipe_step trunc (PTake now payload) s = (if pp_agg s = None then Some (take_event trunc now payload s) else None)"
| "pipe_step trunc (PHand i give_up) s = (case pp_agg s of None \<Rightarrow> None
   | Some (env, ts) \<Rightarrow> if i \<notin> set ts then None
       else map_option (\<lambda>s'. s'\<lparr>pp_agg := (case removeAll i ts of [] \<Rightarrow> None | ts' \<Rightarrow> Some (env, ts'))\<rparr>)
         (on_conn i (conn_enqueue give_up env) s))"
| "pipe_step trunc (POpen i p) s = (if pp_conns s i \<noteq> None \<or> p = [] then None
     else Some (s\<lparr>pp_conns := (pp_conns s)(i \<mapsto> new_conn p (length (project_events (pp_db s) p))),
       pp_hub := subscribe_project p i (pp_hub s)\<rparr>))"
| "pipe_step trunc (PSync i after) s = on_conn i (\<lambda>c. if wc_todo c \<noteq> [] \<or> wc_project c = [] then None
     else Some (c\<lparr>wc_todo := handle_project_sync (wc_project c) after (pp_db s),
       wc_from := (if 0 \<le> after \<and> nat after \<le> length (project_events (pp_db s) (wc_project c))
         then min (wc_from c) (nat after) else wc_from c)\<rparr>)) s"
| "pipe_step trunc (PAnswer i give_up) s = on_conn i (\<lambda>c. case wc_todo c of [] \<Rightarrow> None
     | msg # rest \<Rightarrow> map_option (\<lambda>c'. c'\<lparr>wc_todo := rest\<rparr>) (conn_put give_up msg c)) s"
| "pipe_step trunc (PWrite i good) s = on_conn i (\<lambda>c. case wc_send c of [] \<Rightarrow> None
     | msg # rest \<Rightarrow> if wc_done c then None
         else Some (if good then c\<lparr>wc_send := rest, wc_written := wc_written c @ [msg]\<rparr>
           else c\<lparr>wc_send := rest, wc_done := True\<rparr>)) s"
| "pipe_step trunc (PResume i session last_id) s = on_conn i (\<lambda>c. if wc_todo c \<noteq> [] \<or> wc_project c \<noteq> [] then None
     else Some (c\<lparr>wc_todo := handle_sync session last_id (pp_db s)\<rparr>)) s"
| "pipe_step trunc (PClose i) s = on_conn i (\<lambda>c. Some (c\<lparr>wc_done := True\<rparr>)) s"
| "pipe_step trunc (PLeave i) s = (case pp_conns s i of None \<Rightarrow> None
   | Some c \<Rightarrow> if wc_done c \<and> wc_project c \<noteq> [] then Some (s\<lparr>pp_hub := unsubscribe_project (wc_project c) i (pp_hub s)\<rparr>) else None)"
| "pipe_step trunc (PWatch i session) s = (if pp_conns s i \<noteq> None then None
     else Some (s\<lparr>pp_conns := (pp_conns s)(i \<mapsto> new_conn [] 0), pp_hub := subscribe_session session i (pp_hub s)\<rparr>))"

primrec pipe_run :: "(string \<Rightarrow> int) \<Rightarrow> pipe_move list \<Rightarrow> pipe \<Rightarrow> pipe option" where
  "pipe_run trunc [] s = Some s"
| "pipe_run trunc (a # as) s = Option.bind (pipe_step trunc a s) (pipe_run trunc as)"

section \<open>What a step of the aggregator does to the log\<close>

text \<open>Every row of the log is the record of some envelope.\<close>

definition readable :: "db \<Rightarrow> bool" where
  "readable s \<longleftrightarrow> (\<forall>row \<in> set (event_rows (desk s)). \<exists>env. to_record env = Some row)"

lemma insert_stores:
  "insert_project_event row s = (Inr stored, t) \<Longrightarrow>
   event_rows (desk t) = event_rows (desk s) @ [stored] \<and>
   stored = row\<lparr>er_project_id := er_project_id stored, er_sequence := er_sequence stored\<rparr>"
  "insert_project_event row s = (Inl e, t) \<Longrightarrow> desk t = desk s"
proof -
  have resolved: "\<exists>p. resolve_event_project row s = row\<lparr>er_project_id := p\<rparr>"
    by (auto simp: resolve_event_project_def intro: exI[of _ "er_project_id row"])
  then obtain p where p: "resolve_event_project row s = row\<lparr>er_project_id := p\<rparr>" by blast
  show "event_rows (desk t) = event_rows (desk s) @ [stored] \<and>
   stored = row\<lparr>er_project_id := er_project_id stored, er_sequence := er_sequence stored\<rparr>"
    if "insert_project_event row s = (Inr stored, t)"
    using that
    by (auto simp: insert_project_event_def run_reading run_tx insert_event_tx_def run_go draw_sequence_run exec_events_def
        checked_def append_row_def p split: option.splits if_splits)
  show "desk t = desk s" if "insert_project_event row s = (Inl e, t)"
    using that by (auto simp: insert_project_event_def run_reading run_tx split: sum.splits prod.splits)
qed

lemma handle_event_log:
  assumes run: "handle_event trunc now n payload s = (forward, n', t)"
    and ok: "numbered s" "readable s" and zero: "\<And>given. payload = Some given \<Longrightarrow> en_sequence given = 0"
  shows "numbered t \<and> readable t \<and> (case forward of
      None \<Rightarrow> event_rows (desk t) = event_rows (desk s)
    | Some env \<Rightarrow> \<exists>row. to_record env = Some row \<and> event_rows (desk t) = event_rows (desk s) @ [row])"
proof (cases payload)
  case None
  with run ok show ?thesis by (auto simp: handle_event_def)
next
  case (Some given)
  let ?env = "normalize trunc now (n + 1) given"
  show ?thesis
  proof (cases "en_channel given = [] \<or> en_type given = [] \<or> to_record ?env = None")
    case True
    with run Some have "forward = None \<and> t = s"
      by (cases "en_channel given = [] \<or> en_type given = []") (simp_all add: handle_event_def Let_def)
    with ok show ?thesis by simp
  next
    case False
    then obtain row where row: "to_record ?env = Some row" by auto
    have zero': "er_sequence row = 0" using row zero[OF Some] by (auto simp: to_record_def normalize_def Let_def)
    obtain r where insert: "insert_project_event row s = (r, t)" 
        and forward: "forward = (case r of Inl e \<Rightarrow> None | Inr stored \<Rightarrow> Some (?env\<lparr>en_project_id := er_project_id stored,
          en_resource_type := er_resource_type stored, en_resource_id := er_resource_id stored,
          en_revision := er_revision stored, en_sequence := er_sequence stored\<rparr>))"
      using run False row Some by (auto simp: handle_event_def Let_def split: prod.splits sum.splits)
    have num: "numbered t" using numbered_insert[OF ok(1) zero'] insert by simp
    show ?thesis
    proof (cases r)
      case (Inl e)
      with insert_stores(2)[of row s e t] insert forward num ok(2) show ?thesis by (simp add: readable_def)
    next
      case (Inr stored)
      with insert have stored: "event_rows (desk t) = event_rows (desk s) @ [stored]"
          "stored = row\<lparr>er_project_id := er_project_id stored, er_sequence := er_sequence stored\<rparr>"
        using insert_stores(1)[of row s stored t] by blast+
      have columns: "er_resource_type stored = er_resource_type row" "er_resource_id stored = er_resource_id row"
          "er_revision stored = er_revision row"
        by (subst stored(2), simp)+
      have "to_record (?env\<lparr>en_project_id := er_project_id stored, en_resource_type := er_resource_type stored,
          en_resource_id := er_resource_id stored, en_revision := er_revision stored, en_sequence := er_sequence stored\<rparr>) = Some stored"
        using row by (subst (6) stored(2)) (auto simp: to_record_def parent_json_def columns)
      with stored(1) Inr forward num ok(2) show ?thesis by (auto simp: readable_def)
    qed
  qed
qed

section \<open>No event is lost on the way\<close>

definition on_the_way :: "(envelope \<times> nat list) option \<Rightarrow> nat \<Rightarrow> ws_conn \<Rightarrow> event_row \<Rightarrow> bool" where
  "on_the_way agg i c row \<longleftrightarrow> (\<exists>env. to_record env = Some row \<and>
     (WsEvent env \<in> set (wc_written c) \<union> set (wc_send c) \<union> set (wc_todo c) \<or> (\<exists>ts. agg = Some (env, ts) \<and> i \<in> set ts)))"

definition conn_ok :: "db \<Rightarrow> ws_hub \<Rightarrow> (envelope \<times> nat list) option \<Rightarrow> nat \<Rightarrow> ws_conn \<Rightarrow> bool" where
  "conn_ok s h agg i c \<longleftrightarrow> wc_done c \<or> wc_project c = [] \<or>
     (wc_project c, i) \<in> set (wh_projects h) \<and> wc_from c \<le> length (project_events s (wc_project c)) \<and>
     (\<forall>row \<in> set (drop (wc_from c) (project_events s (wc_project c))). on_the_way agg i c row)"

definition pipe_ok :: "pipe \<Rightarrow> bool" where
  "pipe_ok s \<longleftrightarrow> numbered (pp_db s) \<and> readable (pp_db s) \<and>
     (\<forall>i c. pp_conns s i = Some c \<longrightarrow> conn_ok (pp_db s) (pp_hub s) (pp_agg s) i c)"

lemma conn_ok_more:
  assumes "conn_ok s h agg i c" "wc_project c' = wc_project c" "wc_from c' = wc_from c" "wc_done c \<Longrightarrow> wc_done c'"
    "set (wc_written c) \<union> set (wc_send c) \<union> set (wc_todo c) \<subseteq> set (wc_written c') \<union> set (wc_send c') \<union> set (wc_todo c')"
  shows "conn_ok s h agg i c'"
proof -
  have "on_the_way agg i c row \<Longrightarrow> on_the_way agg i c' row" for row
    using assms(5) by (auto simp: on_the_way_def)
  with assms(1-4) show ?thesis by (auto simp: conn_ok_def)
qed

lemma pipe_ok_conn:
  assumes ok: "pipe_ok s" and run: "on_conn i f s = Some s'"
    and keep: "\<And>c c'. pp_conns s i = Some c \<Longrightarrow> f c = Some c' \<Longrightarrow> conn_ok (pp_db s) (pp_hub s) (pp_agg s) i c \<Longrightarrow>
      conn_ok (pp_db s) (pp_hub s) (pp_agg s) i c'"
  shows "pipe_ok s' \<and> pp_db s' = pp_db s \<and> pp_hub s' = pp_hub s \<and> pp_agg s' = pp_agg s"
  using ok run keep by (auto simp: on_conn_def pipe_ok_def split: option.splits if_splits)

lemma member_of_target:
  assumes "(en_project_id env, i) \<in> set (wh_projects h)" "en_project_id env \<noteq> []"
  shows "i \<in> set (targets env h)"
  using assms by (force simp: targets_def members_def)

lemma conn_ok_take:
  assumes ok: "conn_ok s h None i c" and log: "readable s"
    and step: "case forward of None \<Rightarrow> event_rows (desk t) = event_rows (desk s)
      | Some env \<Rightarrow> \<exists>row. to_record env = Some row \<and> event_rows (desk t) = event_rows (desk s) @ [row]"
    and agg: "agg = (case forward of None \<Rightarrow> None | Some env \<Rightarrow> (case targets env h of [] \<Rightarrow> None | ts \<Rightarrow> Some (env, ts)))"
  shows "conn_ok t h agg i c"
proof (cases "wc_done c \<or> wc_project c = []")
  case False
  let ?p = "wc_project c"
  from ok False have member: "(?p, i) \<in> set (wh_projects h)" and bound: "wc_from c \<le> length (project_events s ?p)"
    and old: "\<forall>row \<in> set (drop (wc_from c) (project_events s ?p)). on_the_way None i c row"
    by (auto simp: conn_ok_def)
  have kept: "\<forall>row \<in> set (drop (wc_from c) (project_events s ?p)). on_the_way agg i c row"
    using old by (auto simp: on_the_way_def)
  show ?thesis
  proof (cases forward)
    case None
    with step have "project_events t ?p = project_events s ?p" by (simp add: project_events_def)
    with member bound kept show ?thesis by (simp add: conn_ok_def)
  next
    case (Some env)
    with step obtain row where row: "to_record env = Some row" "event_rows (desk t) = event_rows (desk s) @ [row]" by auto
    have new: "project_events t ?p = project_events s ?p @ (if er_project_id row = ?p \<and> er_channel row \<noteq> channel_trace then [row] else [])"
      by (simp add: project_events_def row(2))
    have "on_the_way agg i c row" if "er_project_id row = ?p"
    proof -
      have "en_project_id env = ?p" using row(1) that by (auto simp: to_record_def)
      then have "i \<in> set (targets env h)" using member False by (intro member_of_target) auto
      then have "\<exists>ts. agg = Some (env, ts) \<and> i \<in> set ts" using agg Some by (cases "targets env h") auto
      with row(1) show ?thesis by (auto simp: on_the_way_def)
    qed
    with member bound kept show ?thesis by (auto simp: conn_ok_def new)
  qed
qed (auto simp: conn_ok_def)

lemma on_the_way_other:
  assumes "on_the_way (Some (env, ts)) j c row" "j \<noteq> i"
  shows "on_the_way (case removeAll i ts of [] \<Rightarrow> None | ts' \<Rightarrow> Some (env, ts')) j c row"
proof -
  have "j \<in> set ts \<Longrightarrow> j \<in> set (removeAll i ts)" using assms(2) by simp
  then have "j \<in> set ts \<Longrightarrow> \<exists>ts'. (case removeAll i ts of [] \<Rightarrow> None | ts' \<Rightarrow> Some (env, ts')) = Some (env, ts') \<and> j \<in> set ts'"
    by (cases "removeAll i ts") auto
  with assms(1) show ?thesis by (fastforce simp: on_the_way_def)
qed

lemma conn_ok_hand:
  assumes ok: "conn_ok s h (Some (env, ts)) i c" and run: "conn_enqueue give_up env c = Some c'"
  shows "conn_ok s h (case removeAll i ts of [] \<Rightarrow> None | ts' \<Rightarrow> Some (env, ts')) i c'"
proof (cases "wc_done c \<or> wc_project c = []")
  case True
  with run show ?thesis by (auto simp: conn_ok_def conn_enqueue_def split: if_splits)
next
  case False
  have c': "wc_project c' = wc_project c" "wc_from c' = wc_from c"
    and sent: "set (wc_written c) \<union> set (wc_send c) \<union> set (wc_todo c) \<subseteq> set (wc_written c') \<union> set (wc_send c') \<union> set (wc_todo c')"
    and put: "en_channel env \<noteq> channel_trace \<Longrightarrow> WsEvent env \<in> set (wc_send c')"
    using run False by (auto simp: conn_enqueue_def split: if_splits)
  have "on_the_way (case removeAll i ts of [] \<Rightarrow> None | ts' \<Rightarrow> Some (env, ts')) i c' row"
    if "on_the_way (Some (env, ts)) i c row" "er_channel row \<noteq> channel_trace" for row
  proof -
    from that(1) obtain e where e: "to_record e = Some row"
        "WsEvent e \<in> set (wc_written c) \<union> set (wc_send c) \<union> set (wc_todo c) \<or> e = env"
      by (auto simp: on_the_way_def)
    have "e = env \<Longrightarrow> en_channel env \<noteq> channel_trace" using e(1) that(2) by (auto simp: to_record_def)
    with e sent put show ?thesis by (auto simp: on_the_way_def)
  qed
  moreover have "er_channel row \<noteq> channel_trace" if "row \<in> set (drop k (project_events s (wc_project c)))" for row k
    using in_set_dropD[OF that] by (simp add: project_events_def)
  ultimately show ?thesis using ok False c' by (auto simp: conn_ok_def)
qed

lemma conn_ok_sync:
  assumes ok: "conn_ok s h agg i c" and log: "numbered s" "readable s" and idle: "wc_todo c = []" "wc_project c \<noteq> []"
  shows "conn_ok s h agg i (c\<lparr>wc_todo := handle_project_sync (wc_project c) after s,
       wc_from := (if 0 \<le> after \<and> nat after \<le> length (project_events s (wc_project c))
         then min (wc_from c) (nat after) else wc_from c)\<rparr>)" (is "conn_ok s h agg i ?c")
proof (cases "wc_done c")
  case False
  let ?es = "project_events s (wc_project c)"
  have old: "on_the_way agg i ?c row" if "row \<in> set (drop (wc_from c) ?es)" for row
  proof -
    from ok False idle that have "on_the_way agg i c row" by (auto simp: conn_ok_def)
    with idle(1) show ?thesis by (fastforce simp: on_the_way_def)
  qed
  show ?thesis
  proof (cases "0 \<le> after \<and> nat after \<le> length ?es")
    case True
    then have "list_project_events_after (wc_project c) after 0 s = (Inr (drop (nat after) ?es), s)"
      using replay_is_the_rest[OF log(1) idle(2), of "nat after"] by simp
    then have todo: "wc_todo ?c = map WsEvent (List.map_filter from_record (drop (nat after) ?es)) @
        [WsSyncDone (length (List.map_filter from_record (drop (nat after) ?es)))
          (fold max (map en_sequence (List.map_filter from_record (drop (nat after) ?es))) after)]"
      using True by (simp add: handle_project_sync_def replay_project_events_def)
    have new: "on_the_way agg i ?c row" if row: "row \<in> set (drop (nat after) ?es)" for row
    proof -
      have "row \<in> set (event_rows (desk s))" using in_set_dropD[OF row] by (simp add: project_events_def)
      with log(2) obtain env where "to_record env = Some row" by (auto simp: readable_def)
      from record_roundtrip[OF this] obtain env' where env': "from_record row = Some env'" "to_record env' = Some row" by blast
      then have "env' \<in> set (List.map_filter from_record (drop (nat after) ?es))"
        using row by (force simp: List.map_filter_def)
      then have "WsEvent env' \<in> set (wc_todo ?c)" unfolding todo by auto
      with env'(2) show ?thesis by (auto simp: on_the_way_def simp del: ws_conn.simps)
    qed
    have "on_the_way agg i ?c row" if "row \<in> set (drop (min (wc_from c) (nat after)) ?es)" for row
      using that old new by (cases "wc_from c \<le> nat after") (auto simp: min_def)
    with ok False True show ?thesis by (auto simp: conn_ok_def)
  next
    case refused: False
    have "wc_from ?c = wc_from c" using refused by auto
    with ok False old show ?thesis by (auto simp: conn_ok_def)
  qed
qed (simp add: conn_ok_def)

lemma conn_ok_answer:
  assumes ok: "conn_ok s h agg i c" and todo: "wc_todo c = msg # rest" and put: "conn_put give_up msg c = Some b"
  shows "conn_ok s h agg i (b\<lparr>wc_todo := rest\<rparr>)"
proof (cases "wc_done c \<or> wc_project c = []")
  case True
  with put show ?thesis
    by (auto simp: conn_ok_def conn_put_def conn_enqueue_def conn_reply_def split: ws_message.splits if_splits)
next
  case False
  have b: "wc_project b = wc_project c" "wc_from b = wc_from c"
    and sent: "set (wc_written c) \<union> set (wc_send c) \<subseteq> set (wc_written b) \<union> set (wc_send b)"
    and new: "\<And>env. msg = WsEvent env \<Longrightarrow> en_channel env \<noteq> channel_trace \<Longrightarrow> msg \<in> set (wc_send b)"
    using put False by (auto simp: conn_put_def conn_enqueue_def conn_reply_def split: ws_message.splits if_splits)
  have "on_the_way agg i (b\<lparr>wc_todo := rest\<rparr>) row" if "on_the_way agg i c row" "er_channel row \<noteq> channel_trace" for row
  proof -
    from that(1) obtain e where e: "to_record e = Some row"
        "WsEvent e \<in> set (wc_written c) \<union> set (wc_send c) \<union> set rest \<or> WsEvent e = msg \<or> (\<exists>ts. agg = Some (e, ts) \<and> i \<in> set ts)"
      using todo by (auto simp: on_the_way_def)
    have "en_channel e \<noteq> channel_trace" using e(1) that(2) by (auto simp: to_record_def)
    with e(2) sent new have "WsEvent e \<in> set (wc_written b) \<union> set (wc_send b) \<union> set rest \<or> (\<exists>ts. agg = Some (e, ts) \<and> i \<in> set ts)"
      by blast
    with e(1) show ?thesis by (fastforce simp: on_the_way_def)
  qed
  moreover have "er_channel row \<noteq> channel_trace" if "row \<in> set (drop k (project_events s (wc_project c)))" for row k
    using in_set_dropD[OF that] by (simp add: project_events_def)
  ultimately show ?thesis using ok False b by (auto simp: conn_ok_def)
qed

definition publishable :: "pipe_move \<Rightarrow> bool" where
  "publishable a \<longleftrightarrow> (case a of PTake now (Some env) \<Rightarrow> en_sequence env = 0 | _ \<Rightarrow> True)"

lemma pipe_ok_step:
  assumes ok: "pipe_ok s" and run: "pipe_step trunc a s = Some t" and a: "publishable a"
  shows "pipe_ok t"
proof (cases a)
  case (PTake now payload)
  with run have agg: "pp_agg s = None" and t: "t = take_event trunc now payload s" by (auto split: if_splits)
  obtain forward n d where h: "handle_event trunc now (pp_seq s) payload (pp_db s) = (forward, n, d)" by (metis prod_cases3)
  have "\<And>given. payload = Some given \<Longrightarrow> en_sequence given = 0" using a PTake by (simp add: publishable_def)
  from handle_event_log[OF h _ _ this] ok have log: "numbered d" "readable d"
      "case forward of None \<Rightarrow> event_rows (desk d) = event_rows (desk (pp_db s))
       | Some env \<Rightarrow> \<exists>row. to_record env = Some row \<and> event_rows (desk d) = event_rows (desk (pp_db s)) @ [row]"
    by (auto simp: pipe_ok_def)
  let ?agg = "case forward of None \<Rightarrow> None | Some env \<Rightarrow> (case targets env (pp_hub s) of [] \<Rightarrow> None | ts \<Rightarrow> Some (env, ts))"
  have t': "t = s\<lparr>pp_db := d, pp_seq := n, pp_agg := ?agg\<rparr>" unfolding t take_event_def h by simp
  have "conn_ok d (pp_hub s) ?agg i c" if "pp_conns s i = Some c" for i c
  proof -
    have "conn_ok (pp_db s) (pp_hub s) None i c" using ok agg that unfolding pipe_ok_def by metis
    moreover have "readable (pp_db s)" using ok by (simp add: pipe_ok_def)
    ultimately show ?thesis by (rule conn_ok_take[OF _ _ log(3) refl])
  qed
  with log(1,2) show ?thesis by (auto simp: pipe_ok_def t')
next
  case (PHand i give_up)
  with run obtain env ts u where agg: "pp_agg s = Some (env, ts)" and put: "on_conn i (conn_enqueue give_up env) s = Some u"
      and t: "t = u\<lparr>pp_agg := (case removeAll i ts of [] \<Rightarrow> None | ts' \<Rightarrow> Some (env, ts'))\<rparr>"
    by (auto split: option.splits if_splits)
  from put obtain c c' where c: "pp_conns s i = Some c" "conn_enqueue give_up env c = Some c'"
      and u: "u = s\<lparr>pp_conns := (pp_conns s)(i \<mapsto> c')\<rparr>"
    by (auto simp: on_conn_def split: option.splits)
  let ?agg = "case removeAll i ts of [] \<Rightarrow> None | ts' \<Rightarrow> Some (env, ts')"
  have "conn_ok (pp_db s) (pp_hub s) ?agg j b" if "pp_conns t j = Some b" for j b
  proof (cases "j = i")
    case True
    with that c ok agg show ?thesis unfolding t u
      by (auto simp: pipe_ok_def intro: conn_ok_hand)
  next
    case False
    with that ok agg have "conn_ok (pp_db s) (pp_hub s) (Some (env, ts)) j b" by (auto simp: pipe_ok_def t u)
    with False show ?thesis by (auto simp: conn_ok_def intro: on_the_way_other)
  qed
  with ok show ?thesis by (auto simp: pipe_ok_def t u)
next
  case (POpen i p)
  with run have fresh: "pp_conns s i = None"
    and t: "t = s\<lparr>pp_conns := (pp_conns s)(i \<mapsto> new_conn p (length (project_events (pp_db s) p))), pp_hub := subscribe_project p i (pp_hub s)\<rparr>"
    by (auto split: if_splits)
  with ok show ?thesis
    by (auto simp: pipe_ok_def conn_ok_def new_conn_def subscribe_project_def split: if_splits)
next
  case (PSync i after)
  have "conn_ok (pp_db s) (pp_hub s) (pp_agg s) i c'"
    if "(if wc_todo c \<noteq> [] \<or> wc_project c = [] then None
      else Some (c\<lparr>wc_todo := handle_project_sync (wc_project c) after (pp_db s),
       wc_from := (if 0 \<le> after \<and> nat after \<le> length (project_events (pp_db s) (wc_project c))
         then min (wc_from c) (nat after) else wc_from c)\<rparr>)) = Some c'"
      "conn_ok (pp_db s) (pp_hub s) (pp_agg s) i c" for c c'
    using that ok conn_ok_sync[OF that(2), of after] by (auto simp: pipe_ok_def split: if_splits)
  with pipe_ok_conn[OF ok run[unfolded PSync pipe_step.simps]] show ?thesis by blast
next
  case (PAnswer i give_up)
  have "conn_ok (pp_db s) (pp_hub s) (pp_agg s) i c'"
    if "(case wc_todo c of [] \<Rightarrow> None | msg # rest \<Rightarrow> map_option (\<lambda>c'. c'\<lparr>wc_todo := rest\<rparr>) (conn_put give_up msg c)) = Some c'"
      "conn_ok (pp_db s) (pp_hub s) (pp_agg s) i c" for c c'
    using that(1) by (cases "wc_todo c") (auto intro: conn_ok_answer[OF that(2)])
  with pipe_ok_conn[OF ok run[unfolded PAnswer pipe_step.simps]] show ?thesis by blast
next
  case (PWrite i good)
  have "conn_ok (pp_db s) (pp_hub s) (pp_agg s) i c'"
    if "(case wc_send c of [] \<Rightarrow> None
     | msg # rest \<Rightarrow> if wc_done c then None
         else Some (if good then c\<lparr>wc_send := rest, wc_written := wc_written c @ [msg]\<rparr>
           else c\<lparr>wc_send := rest, wc_done := True\<rparr>)) = Some c'"
      "conn_ok (pp_db s) (pp_hub s) (pp_agg s) i c" for c c'
  proof (cases good)
    case True
    with that show ?thesis by (auto intro!: conn_ok_more[OF that(2)] split: list.splits if_splits)
  next
    case False
    with that(1) have "wc_done c'" by (auto split: list.splits if_splits)
    then show ?thesis by (simp add: conn_ok_def)
  qed
  with pipe_ok_conn[OF ok run[unfolded PWrite pipe_step.simps]] show ?thesis by blast
next
  case (PClose i)
  have "conn_ok (pp_db s) (pp_hub s) (pp_agg s) i c'" if "Some (c\<lparr>wc_done := True\<rparr>) = Some c'" for c c'
    using that by (auto simp: conn_ok_def)
  with pipe_ok_conn[OF ok run[unfolded PClose pipe_step.simps]] show ?thesis by blast
next
  case (PLeave i)
  with run obtain c where c: "pp_conns s i = Some c" "wc_done c"
      and t: "t = s\<lparr>pp_hub := unsubscribe_project (wc_project c) i (pp_hub s)\<rparr>"
    by (auto split: option.splits if_splits)
  have "conn_ok (pp_db s) (pp_hub t) (pp_agg s) j b" if "pp_conns s j = Some b" for j b
  proof (cases "j = i")
    case True with c that show ?thesis by (simp add: conn_ok_def)
  next
    case False
    with ok that show ?thesis by (auto simp: pipe_ok_def conn_ok_def t unsubscribe_project_def)
  qed
  with ok show ?thesis by (auto simp: pipe_ok_def t)
next
  case (PWatch i session)
  with run have t: "t = s\<lparr>pp_conns := (pp_conns s)(i \<mapsto> new_conn [] 0), pp_hub := subscribe_session session i (pp_hub s)\<rparr>"
    by (auto split: if_splits)
  with ok show ?thesis
    by (auto simp: pipe_ok_def conn_ok_def new_conn_def subscribe_session_def split: if_splits)
next
  case (PResume i session last_id)
  have "conn_ok (pp_db s) (pp_hub s) (pp_agg s) i c'"
    if "(if wc_todo c \<noteq> [] \<or> wc_project c \<noteq> [] then None
     else Some (c\<lparr>wc_todo := handle_sync session last_id (pp_db s)\<rparr>)) = Some c'" for c c'
    using that by (auto simp: conn_ok_def split: if_splits)
  with pipe_ok_conn[OF ok run[unfolded PResume pipe_step.simps]] show ?thesis by blast
qed

lemma pipe_ok_run: "pipe_ok s \<Longrightarrow> pipe_run trunc as s = Some t \<Longrightarrow> list_all publishable as \<Longrightarrow> pipe_ok t"
  by (induction as arbitrary: s) (auto simp: bind_eq_Some_conv dest: pipe_ok_step)

lemma studio_log:
  assumes "pipe_run trunc as s = Some t" "list_all publishable as" "numbered (pp_db s)" "readable (pp_db s)" "pp_conns s = Map.empty"
    and "pp_conns t i = Some c" "\<not> wc_done c" "wc_project c \<noteq> []" "row \<in> set (drop (wc_from c) (project_events (pp_db t) (wc_project c)))"
  shows "on_the_way (pp_agg t) i c row"
proof -
  have "pipe_ok s" using assms(3-5) by (simp add: pipe_ok_def)
  from pipe_ok_run[OF this assms(1,2)] assms(6) have "conn_ok (pp_db t) (pp_hub t) (pp_agg t) i c" by (simp add: pipe_ok_def)
  with assms(7-9) show ?thesis by (auto simp: conn_ok_def)
qed

end
