(* ===== verification/StoreProject.thy ===== *)
theory StoreProject
  imports StoreMaps StoreRun
begin

text \<open>
  Projects (\<open>internal/store/project.go\<close>, \<open>project_simulation.go\<close>): one Project of the whole
  installation is active, and only the active one may have unfinished work.  The law \<open>projects_law\<close>
  says so along every run of the operations.
\<close>

section \<open>Constraints and helpers\<close>

definition project_violation :: "project list \<Rightarrow> string option" where
  "project_violation ps =
    (if \<not> distinct (map pr_id ps) then Some ''projects.id''
     else if 1 < length (filter pr_is_active ps) then Some ''projects.is_active''
     else if \<not> distinct (map pr_owner_id (filter pr_is_default ps)) then Some ''projects.owner_id''
     else None)"

definition exec_projects :: "(project list \<Rightarrow> project list) \<Rightarrow> (db, unit) prog" where
  "exec_projects = checked project_violation projects (\<lambda>r s. s\<lparr>projects := r\<rparr>)"

text \<open>An \<open>UPDATE\<close> and the number of rows it hit.\<close>

definition hit_projects :: "(project \<Rightarrow> bool) \<Rightarrow> (project \<Rightarrow> project) \<Rightarrow> (db, nat) prog" where
  "hit_projects p f = reading (\<lambda>s. go (exec_projects (update_where p f)) (\<lambda>_. ok (count_where p (projects s))))"

definition insert_project_or_ignore :: "project \<Rightarrow> (db, unit) prog" where
  "insert_project_or_ignore r = reading (\<lambda>s.
     if project_violation (projects s @ [r]) = None then writing (\<lambda>s. s\<lparr>projects := projects s @ [r]\<rparr>) else ok ())"

text \<open>The disk: the workspace directory of a Project, and whether it can be made.\<close>

record disk =
  dk_workspace :: "string \<Rightarrow> string"
  dk_mkdir :: "string \<Rightarrow> bool"

definition make_workspace :: "disk \<Rightarrow> string \<Rightarrow> (db, string) prog" where
  "make_workspace D i = (if dk_mkdir D (dk_workspace D i) then ok (dk_workspace D i) else err (ErrText ''make workspace''))"

definition default_project_id :: "string \<Rightarrow> string" where
  "default_project_id owner = (if owner = [] then system_default_project_id else ''proj-default-'' @ owner)"

text \<open>Unfinished work of a Project, as the guards below ask for it.\<close>

definition unfinished :: "db \<Rightarrow> string \<Rightarrow> bool" where
  "unfinished s p \<longleftrightarrow> (\<exists>w \<in> set (workflows s). w_project_id w = p \<and> open_work_status (w_status w)) \<or>
     (\<exists>r \<in> set (runs s). r_project_id r = p \<and> active_run_status (r_status r)) \<or>
     (\<exists>i \<in> set (interactions s). i_project_id i = p \<and> i_status i = IPending)"

section \<open>Creating\<close>

definition bump_project :: "time \<Rightarrow> project \<Rightarrow> project" where
  "bump_project now p = p\<lparr>pr_revision := pr_revision p + 1, pr_updated_at := now\<rparr>"

definition activate_if_none_tx :: "string \<Rightarrow> time \<Rightarrow> (db, unit) prog" where
  "activate_if_none_tx i now = reading (\<lambda>s.
     if count_where (\<lambda>p. pr_is_active p \<and> pr_archived_at p = None) (projects s) \<noteq> 0 then ok ()
     else unit_of (hit_projects (\<lambda>p. pr_id p = i \<and> pr_archived_at p = None)
       (\<lambda>p. (bump_project now p)\<lparr>pr_is_active := True\<rparr>)))"

definition new_project :: "string \<Rightarrow> string \<Rightarrow> string \<Rightarrow> string \<Rightarrow> bool \<Rightarrow> string \<Rightarrow> string \<Rightarrow> time \<Rightarrow> project" where
  "new_project i owner name root is_default profile installation now = \<lparr>pr_id = i, pr_owner_id = owner, pr_name = name,
     pr_workspace_root = root, pr_is_default = is_default, pr_mode = ModeDevelopment, pr_is_active = False,
     pr_runtime_profile_id = profile, pr_preferred_installation_id = installation, pr_archived_at = None,
     pr_revision = 1, pr_created_at = now, pr_updated_at = now\<rparr>"

definition ensure_default_tx :: "string \<Rightarrow> string \<Rightarrow> string \<Rightarrow> time \<Rightarrow> (db, unit) prog" where
  "ensure_default_tx i owner root now =
     go (insert_project_or_ignore (new_project i owner ''Default Project'' root True [] [] now)) (\<lambda>_.
     go (if owner \<noteq> [] then activate_if_none_tx i now else ok ()) (\<lambda>_.
       ensure_semantic_maps_tx i now))"

definition ensure_default_project :: "disk \<Rightarrow> string \<Rightarrow> time \<Rightarrow> (db, project) prog" where
  "ensure_default_project D owner now =
    (let i = default_project_id owner in
     go (make_workspace D i) (\<lambda>root.
     go (tx (ensure_default_tx i owner root now)) (\<lambda>_. get_project i)))"

definition create_project_tx :: "project \<Rightarrow> time \<Rightarrow> (db, unit) prog" where
  "create_project_tx p now =
     go (exec_projects (append_row p)) (\<lambda>_.
     go (activate_if_none_tx (pr_id p) now) (\<lambda>_.
       ensure_semantic_maps_tx (pr_id p) now))"

definition create_project_with_runtime_preference ::
  "disk \<Rightarrow> string \<Rightarrow> string \<Rightarrow> string \<Rightarrow> string \<Rightarrow> time \<Rightarrow> (db, project) prog" where
  "create_project_with_runtime_preference D owner given_name profile installation now =
    (let name = trim_space given_name in
     if owner = [] \<or> name = [] then err (ErrText ''Project owner_id and name must not be empty'')
     else go (new_id ''proj-'') (\<lambda>i.
       go (make_workspace D i) (\<lambda>root.
       go (tx (create_project_tx (new_project i owner name root False (trim_space profile) (trim_space installation) now) now)) (\<lambda>_.
         get_project i))))"

definition create_project :: "disk \<Rightarrow> string \<Rightarrow> string \<Rightarrow> time \<Rightarrow> (db, project) prog" where
  "create_project D owner name now = create_project_with_runtime_preference D owner name [] [] now"

section \<open>Reading\<close>

definition get_active_project :: "string \<Rightarrow> (db, project) prog" where
  "get_active_project owner = select_row (\<lambda>s. find (\<lambda>p. pr_owner_id p = owner \<and> pr_is_active p \<and> pr_archived_at p = None)
     (projects s)) ErrNotFound"

definition list_development_projects :: "(db, project list) prog" where
  "list_development_projects = select_rows (\<lambda>s. sort_key pr_id
     (filter (\<lambda>p. pr_archived_at p = None \<and> pr_mode p = ModeDevelopment) (projects s)))"

definition list_projects :: "string \<Rightarrow> bool \<Rightarrow> (db, project list) prog" where
  "list_projects owner archived = select_rows (\<lambda>s. sort_key (\<lambda>p. (\<not> pr_is_active p, - int (pr_updated_at p), pr_id p))
     (filter (\<lambda>p. pr_owner_id p = owner \<and> (archived \<or> pr_archived_at p = None)) (projects s)))"

definition count_projects_using_runtime :: "string \<Rightarrow> (db, nat) prog" where
  "count_projects_using_runtime installation =
     select_rows (\<lambda>s. count_where (\<lambda>p. pr_preferred_installation_id p = installation) (projects s))"

section \<open>Changing\<close>

definition project_write_error :: "string \<Rightarrow> string \<Rightarrow> int \<Rightarrow> db \<Rightarrow> error" where
  "project_write_error owner i expected s = (case find_by pr_id i (projects s) of
     None \<Rightarrow> ErrNotFound
   | Some p \<Rightarrow>
       if pr_owner_id p \<noteq> owner then ErrNotFound
       else if pr_archived_at p \<noteq> None then ErrProjectArchived
       else if \<not> pr_is_active p then ErrProjectInactive
       else if pr_revision p \<noteq> expected then ErrRevisionConflict
       else ErrInvalidState)"

definition update_project_name :: "string \<Rightarrow> string \<Rightarrow> string \<Rightarrow> int \<Rightarrow> time \<Rightarrow> (db, project) prog" where
  "update_project_name owner i given_name expected now =
    (let name = trim_space given_name in
     if name = [] \<or> expected \<le> 0 then err (ErrText ''Project name and revision must be valid'')
     else go (hit_projects (\<lambda>p. pr_id p = i \<and> pr_owner_id p = owner \<and> pr_is_active p \<and> pr_archived_at p = None \<and>
         pr_revision p = expected) (\<lambda>p. (bump_project now p)\<lparr>pr_name := name\<rparr>)) (\<lambda>n.
       if n = 0 then reading (\<lambda>s. err (project_write_error owner i expected s)) else get_project i))"

definition activate_tx :: "string \<Rightarrow> string \<Rightarrow> time \<Rightarrow> (db, unit) prog" where
  "activate_tx owner i now =
     go (select_row (\<lambda>s. find (\<lambda>p. pr_id p = i \<and> pr_owner_id p = owner) (projects s)) ErrNotFound) (\<lambda>p.
     if pr_archived_at p \<noteq> None then err ErrProjectArchived
     else if pr_is_active p then ok ()
     else reading (\<lambda>s.
       if \<exists>q \<in> set (projects s). pr_is_active q \<and> pr_id q \<noteq> i \<and> unfinished s (pr_id q) then err ErrProjectHasActiveWork
       else go (hit_projects pr_is_active (\<lambda>q. (bump_project now q)\<lparr>pr_is_active := False\<rparr>)) (\<lambda>_.
         unit_of (hit_projects (\<lambda>q. pr_id q = i) (\<lambda>q. (bump_project now q)\<lparr>pr_is_active := True\<rparr>)))))"

definition activate_project :: "string \<Rightarrow> string \<Rightarrow> time \<Rightarrow> (db, project) prog" where
  "activate_project owner i now = go (tx (activate_tx owner i now)) (\<lambda>_. get_project i)"

text \<open>
  The Project that takes the place of an archived active one: the Default Project of the user, else
  the one changed last.
\<close>

definition replacement :: "string \<Rightarrow> string \<Rightarrow> db \<Rightarrow> project option" where
  "replacement owner i s = (case sort_key (\<lambda>p. (\<not> pr_is_default p, - int (pr_updated_at p)))
       (filter (\<lambda>p. pr_owner_id p = owner \<and> pr_id p \<noteq> i \<and> pr_archived_at p = None) (projects s)) of
     [] \<Rightarrow> None | p # ps \<Rightarrow> Some p)"

text \<open>The transaction returns the row when the Project had been archived before.\<close>

definition archive_tx :: "string \<Rightarrow> string \<Rightarrow> int \<Rightarrow> time \<Rightarrow> (db, project option) prog" where
  "archive_tx owner i expected now =
     go (select_row (\<lambda>s. find (\<lambda>p. pr_id p = i \<and> pr_owner_id p = owner) (projects s)) ErrNotFound) (\<lambda>p.
     if pr_is_default p then err ErrDefaultProject
     else if pr_archived_at p \<noteq> None then ok (Some p)
     else if pr_revision p \<noteq> expected then err ErrRevisionConflict
     else reading (\<lambda>s.
       if unfinished s i then err ErrProjectHasActiveWork
       else go (if pr_is_active p
                then (case replacement owner i s of
                    None \<Rightarrow> err (Wrapped ''no Project to switch to'' ErrInvalidState)
                  | Some q \<Rightarrow> ok (pr_id q))
                else ok []) (\<lambda>next_project.
         go (hit_projects (\<lambda>q. pr_id q = i \<and> pr_owner_id q = owner \<and> pr_revision q = expected)
           (\<lambda>q. (bump_project now q)\<lparr>pr_archived_at := Some now, pr_is_active := False\<rparr>)) (\<lambda>n.
         if n = 0 then err ErrRevisionConflict
         else go (if next_project \<noteq> []
             then unit_of (hit_projects (\<lambda>q. pr_id q = next_project) (\<lambda>q. (bump_project now q)\<lparr>pr_is_active := True\<rparr>))
             else ok ()) (\<lambda>_. ok None)))))"

definition archive_project :: "string \<Rightarrow> string \<Rightarrow> int \<Rightarrow> time \<Rightarrow> (db, project) prog" where
  "archive_project owner i expected now =
    (if expected \<le> 0 then err (ErrText ''revision must be positive'')
     else go (tx (archive_tx owner i expected now)) (\<lambda>done. case done of Some p \<Rightarrow> ok p | None \<Rightarrow> get_project i))"

definition set_project_mode :: "string \<Rightarrow> project_mode \<Rightarrow> int \<Rightarrow> time \<Rightarrow> (db, project) prog" where
  "set_project_mode i mode expected now =
     go (hit_projects (\<lambda>p. pr_id p = i \<and> pr_is_active p \<and> pr_archived_at p = None \<and> pr_revision p = expected)
       (\<lambda>p. (bump_project now p)\<lparr>pr_mode := mode\<rparr>)) (\<lambda>n.
     if n = 0 then go (get_project i) (\<lambda>p.
       if pr_archived_at p \<noteq> None then err ErrProjectArchived
       else if \<not> pr_is_active p then err ErrProjectInactive
       else err ErrRevisionConflict)
     else get_project i)"

definition set_project_runtime_preference :: "string \<Rightarrow> string \<Rightarrow> string \<Rightarrow> string \<Rightarrow> time \<Rightarrow> (db, project) prog" where
  "set_project_runtime_preference owner i given_profile given_installation now =
    (let profile = trim_space given_profile; installation = trim_space given_installation in
     if profile = [] then err (ErrText ''runtime_profile_id must not be empty'')
     else attempt (get_project i) (\<lambda>r. case r of
         Inl _ \<Rightarrow> err ErrNotFound
       | Inr p \<Rightarrow>
         if pr_owner_id p \<noteq> owner then err ErrNotFound
         else if pr_archived_at p \<noteq> None then err ErrProjectArchived
         else if pr_runtime_profile_id p = profile \<and> pr_preferred_installation_id p = installation then ok p
         else go (hit_projects (\<lambda>q. pr_id q = i \<and> pr_owner_id q = owner \<and> pr_archived_at q = None)
             (\<lambda>q. (bump_project now q)\<lparr>pr_runtime_profile_id := profile, pr_preferred_installation_id := installation\<rparr>)) (\<lambda>n.
           if n \<noteq> 1 then err ErrInvalidState else get_project i)))"

definition remember_project_runtime_preference :: "string \<Rightarrow> string \<Rightarrow> string \<Rightarrow> time \<Rightarrow> (db, unit) prog" where
  "remember_project_runtime_preference i profile installation now =
     go (hit_projects (\<lambda>q. pr_id q = i \<and> pr_archived_at q = None)
       (\<lambda>q. (bump_project now q)\<lparr>pr_runtime_profile_id := trim_space profile,
          pr_preferred_installation_id := trim_space installation\<rparr>)) (\<lambda>n.
     if n \<noteq> 1 then err ErrNotFound else ok ())"

section \<open>Bindings and scenes\<close>

definition normalized_bindings :: "string list \<Rightarrow> string list" where
  "normalized_bindings values = sort (remdups (filter (\<lambda>v. v \<noteq> []) (map trim_space values)))"

text \<open>The inserts cannot collide: the rows of the Project were deleted and the values are distinct.\<close>

definition replace_bindings_tx :: "string \<Rightarrow> project_bindings \<Rightarrow> time \<Rightarrow> (db, unit) prog" where
  "replace_bindings_tx i bindings now =
     go (desk_put (\<lambda>d. d\<lparr>agent_bindings := filter (\<lambda>x. fst x \<noteq> i) (agent_bindings d),
         skill_bindings := filter (\<lambda>x. fst x \<noteq> i) (skill_bindings d)\<rparr>)) (\<lambda>_.
     go (desk_put (\<lambda>d. d\<lparr>agent_bindings := agent_bindings d @ map (Pair i) (normalized_bindings (pb_agent_ids bindings)),
         skill_bindings := skill_bindings d @ map (Pair i) (normalized_bindings (pb_skill_names bindings))\<rparr>)) (\<lambda>_.
       unit_of (hit_projects (\<lambda>p. pr_id p = i) (bump_project now))))"

definition replace_project_bindings :: "string \<Rightarrow> project_bindings \<Rightarrow> time \<Rightarrow> (db, unit) prog" where
  "replace_project_bindings i bindings now =
     go (get_project i) (\<lambda>_. tx (replace_bindings_tx i bindings now))"

definition get_project_bindings :: "string \<Rightarrow> (db, project_bindings) prog" where
  "get_project_bindings i =
     go (get_project i) (\<lambda>_. select_rows (\<lambda>s.
       \<lparr>pb_agent_ids = sort (map snd (filter (\<lambda>x. fst x = i) (agent_bindings (desk s)))),
        pb_skill_names = sort (map snd (filter (\<lambda>x. fst x = i) (skill_bindings (desk s))))\<rparr>))"

definition scene_violation :: "scene_reference list \<Rightarrow> string option" where
  "scene_violation rs =
    (if \<not> distinct (map sr_project_scene_id rs) then Some ''project_scene_references.project_scene_id''
     else if \<not> distinct (map (\<lambda>r. (sr_ref_project_id r, sr_catalog_scene_id r, sr_scene_version r)) rs)
     then Some ''project_scene_references.project_id, catalog_scene_id, scene_version'' else None)"

definition exec_scenes :: "(scene_reference list \<Rightarrow> scene_reference list) \<Rightarrow> (db, unit) prog" where
  "exec_scenes = checked scene_violation (\<lambda>s. scene_references (desk s)) (\<lambda>r s. s\<lparr>desk := (desk s)\<lparr>scene_references := r\<rparr>\<rparr>)"

definition add_project_scene_reference :: "scene_reference \<Rightarrow> time \<Rightarrow> (db, scene_reference) prog" where
  "add_project_scene_reference r now =
    (if sr_ref_project_id r = [] \<or> sr_catalog_scene_id r = [] \<or> sr_scene_version r = []
     then err (ErrText ''scene reference is incomplete'')
     else go (if sr_project_scene_id r = [] then new_id ''project-scene-'' else ok (sr_project_scene_id r)) (\<lambda>i.
       let row = r\<lparr>sr_project_scene_id := i, sr_added_at := (if sr_added_at r = 0 then now else sr_added_at r)\<rparr> in
       go (exec_scenes (append_row row)) (\<lambda>_. ok row)))"

definition list_project_scene_references :: "string \<Rightarrow> (db, scene_reference list) prog" where
  "list_project_scene_references i = select_rows (\<lambda>s. sort_key (\<lambda>r. (- int (sr_added_at r), sr_project_scene_id r))
     (filter (\<lambda>r. sr_ref_project_id r = i) (scene_references (desk s))))"

definition get_project_scene_reference :: "string \<Rightarrow> string \<Rightarrow> (db, scene_reference) prog" where
  "get_project_scene_reference i scene = select_row (\<lambda>s. find (\<lambda>r. sr_ref_project_id r = i \<and> sr_project_scene_id r = scene)
     (scene_references (desk s))) ErrNotFound"

end
