(* ===== verification/StoreProjectLaws.thy ===== *)
theory StoreProjectLaws
  imports StoreProject StoreMapLaws
begin

text \<open>
  What every operation on Projects keeps: at most one Project is active, an active one is not
  archived, once there is an active one there always is, and only an active Project (or one of the
  system itself) has unfinished work.
\<close>

definition projects_ok :: "db \<Rightarrow> bool" where
  "projects_ok s \<longleftrightarrow> project_violation (projects s) = None \<and>
     (\<forall>p \<in> set (projects s). pr_id p \<noteq> [] \<and> (pr_is_active p \<longrightarrow> pr_archived_at p = None))"

definition held :: "db \<Rightarrow> bool" where
  "held s \<longleftrightarrow> (\<exists>p \<in> set (projects s). pr_is_active p)"

definition confined :: "db \<Rightarrow> bool" where
  "confined s \<longleftrightarrow> (\<forall>i. unfinished s i \<longrightarrow> (\<exists>p \<in> set (projects s). pr_id p = i \<and> (pr_is_active p \<or> pr_owner_id p = [])))"

definition aged :: "project \<Rightarrow> project \<Rightarrow> bool" where
  "aged p q \<longleftrightarrow> pr_id q = pr_id p \<and> pr_owner_id q = pr_owner_id p \<and> pr_revision p \<le> pr_revision q \<and>
     (pr_archived_at p \<noteq> None \<longrightarrow> pr_archived_at q = pr_archived_at p)"

definition project_law :: "db \<Rightarrow> db \<Rightarrow> bool" where
  "project_law s t \<longleftrightarrow> workflows t = workflows s \<and> runs t = runs s \<and> interactions t = interactions s \<and>
     (projects_ok s \<longrightarrow> projects_ok t \<and> (held s \<longrightarrow> held t) \<and> (confined s \<longrightarrow> confined t) \<and>
       (\<forall>p \<in> set (projects s). \<exists>q \<in> set (projects t). aged p q))"

lemma aged_refl: "aged p p"
  by (simp add: aged_def)

lemma aged_trans: "aged p q \<Longrightarrow> aged q r \<Longrightarrow> aged p r"
  by (auto simp: aged_def)

lemma project_law_same:
  "projects t = projects s \<Longrightarrow> workflows t = workflows s \<Longrightarrow> runs t = runs s \<Longrightarrow> interactions t = interactions s \<Longrightarrow> project_law s t"
  by (auto simp: project_law_def projects_ok_def held_def confined_def unfinished_def intro: aged_refl)

interpretation project_rel: db_relation project_law
proof unfold_locales
  fix s show "project_law s s" by (simp add: project_law_same)
next
  fix s t u assume "project_law s t" "project_law t u"
  then show "project_law s u" unfolding project_law_def by (metis aged_trans)
next
  fix s n show "project_law s (s\<lparr>uuids_drawn := n\<rparr>)" by (simp add: project_law_same)
qed

lemma project_violation_None:
  "project_violation ps = None \<longleftrightarrow> distinct (map pr_id ps) \<and> length (filter pr_is_active ps) \<le> 1 \<and>
     distinct (map pr_owner_id (filter pr_is_default ps))"
  by (auto simp: project_violation_def)

text \<open>A transformation of the rows that keeps identity, owner and the mark of the Default Project.\<close>

lemma project_law_map:
  assumes rows: "projects t = map g (projects s)" "workflows t = workflows s" "runs t = runs s" "interactions t = interactions s"
    and aged: "\<And>p. projects_ok s \<Longrightarrow> p \<in> set (projects s) \<Longrightarrow> aged p (g p) \<and> pr_is_default (g p) = pr_is_default p"
    and open_one: "\<And>p. projects_ok s \<Longrightarrow> p \<in> set (projects s) \<Longrightarrow> pr_is_active (g p) \<Longrightarrow> pr_archived_at (g p) = None"
    and one: "projects_ok s \<Longrightarrow> length (filter (\<lambda>p. pr_is_active (g p)) (projects s)) \<le> 1"
    and held: "projects_ok s \<Longrightarrow> held s \<Longrightarrow> \<exists>p \<in> set (projects s). pr_is_active (g p)"
    and left: "\<And>p. projects_ok s \<Longrightarrow> p \<in> set (projects s) \<Longrightarrow> pr_is_active p \<Longrightarrow> \<not> pr_is_active (g p) \<Longrightarrow> \<not> unfinished s (pr_id p)"
  shows "project_law s t"
proof -
  have "projects_ok t \<and> (held s \<longrightarrow> held t) \<and> (confined s \<longrightarrow> confined t) \<and> (\<forall>p \<in> set (projects s). \<exists>q \<in> set (projects t). aged p q)"
    if ok: "projects_ok s"
  proof (intro conjI impI ballI)
    have ids: "map pr_id (projects t) = map pr_id (projects s)"
      using aged[OF ok] by (simp add: rows aged_def)
    have owners: "map pr_owner_id (filter pr_is_default (projects t)) = map pr_owner_id (filter pr_is_default (projects s))"
    proof -
      have "filter (\<lambda>p. pr_is_default (g p)) (projects s) = filter pr_is_default (projects s)"
        using aged[OF ok] by (intro filter_cong) auto
      then show ?thesis using aged[OF ok] by (simp add: rows filter_map o_def aged_def)
    qed
    have "length (filter pr_is_active (projects t)) \<le> 1" using one[OF ok] by (simp add: rows filter_map o_def)
    then have "project_violation (projects t) = None"
      using ok unfolding projects_ok_def project_violation_None ids owners by simp
    then show "projects_ok t" using open_one[OF ok] ok aged[OF ok] by (auto simp: projects_ok_def rows aged_def)
  next
    assume "held s" with held[OF ok] show "held t" by (auto simp: held_def rows)
  next
    assume c: "confined s"
    show "confined t"
      unfolding confined_def
    proof (intro allI impI)
      fix i assume "unfinished t i"
      then have work: "unfinished s i" by (simp add: unfinished_def rows)
      with c obtain p where p: "p \<in> set (projects s)" "pr_id p = i" "pr_is_active p \<or> pr_owner_id p = []"
        by (auto simp: confined_def)
      have "pr_is_active (g p) \<or> pr_owner_id (g p) = []"
        using p left[OF ok p(1)] work aged[OF ok p(1)] by (auto simp: aged_def)
      with p aged[OF ok p(1)] show "\<exists>q \<in> set (projects t). pr_id q = i \<and> (pr_is_active q \<or> pr_owner_id q = [])"
        by (auto simp: rows aged_def)
    qed
  next
    fix p assume "p \<in> set (projects s)"
    with aged[OF ok] show "\<exists>q \<in> set (projects t). aged p q" by (auto simp: rows)
  qed
  then show ?thesis using rows by (simp add: project_law_def)
qed

lemma hit_projects_run:
  "hit_projects p f s = (case project_violation (update_where p f (projects s)) of
     Some c \<Rightarrow> (Inl (ErrUnique c), s)
   | None \<Rightarrow> (Inr (count_where p (projects s)), s\<lparr>projects := update_where p f (projects s)\<rparr>))"
  by (simp add: hit_projects_def run_reading exec_projects_def checked_def run_go split: option.splits)

text \<open>An update that leaves activity and archiving alone.\<close>

definition quiet :: "(project \<Rightarrow> project) \<Rightarrow> bool" where
  "quiet f \<longleftrightarrow> (\<forall>p. pr_id (f p) = pr_id p \<and> pr_owner_id (f p) = pr_owner_id p \<and> pr_is_default (f p) = pr_is_default p \<and>
     pr_is_active (f p) = pr_is_active p \<and> pr_archived_at (f p) = pr_archived_at p \<and> pr_revision p \<le> pr_revision (f p))"

lemma quiet_update:
  assumes "quiet f"
  shows "keeps project_law (hit_projects p f)"
proof (rule keepsI)
  fix s :: db
  let ?g = "\<lambda>r. if p r then f r else r"
  have "project_law s (s\<lparr>projects := update_where p f (projects s)\<rparr>)"
  proof (rule project_law_map[where g = ?g])
    show "projects (s\<lparr>projects := update_where p f (projects s)\<rparr>) = map ?g (projects s)" by (simp add: update_where_def)
    have same: "pr_is_active (?g q) = pr_is_active q" for q using assms by (simp add: quiet_def)
    show "length (filter (\<lambda>q. pr_is_active (?g q)) (projects s)) \<le> 1" if "projects_ok s"
      using that unfolding same by (simp add: projects_ok_def project_violation_None)
    show "\<exists>q \<in> set (projects s). pr_is_active (?g q)" if "held s"
      using that unfolding same by (simp add: held_def)
  qed (use assms in \<open>auto simp: quiet_def aged_def projects_ok_def split: if_splits\<close>)
  then show "project_law s (snd (hit_projects p f s))"
    by (simp add: hit_projects_run project_rel.frame_refl split: option.splits)
qed

lemma quiet_bumps [simp]:
  "quiet (bump_project now)" "quiet (\<lambda>p. (bump_project now p)\<lparr>pr_name := name\<rparr>)" "quiet (\<lambda>p. (bump_project now p)\<lparr>pr_mode := mode\<rparr>)"
  "quiet (\<lambda>p. (bump_project now p)\<lparr>pr_runtime_profile_id := profile, pr_preferred_installation_id := installation\<rparr>)"
  by (simp_all add: quiet_def bump_project_def)

section \<open>The operations\<close>

lemma project_keeps_select:
  "keeps project_law (select_row f e)" "keeps project_law (select_rows g)"
  by (rule keepsI; simp add: select_row_def select_rows_def project_rel.frame_refl split: option.splits)+

lemma keeps_update_project_name: "keeps project_law (update_project_name owner i name expected now)"
  unfolding update_project_name_def get_project_def Let_def by (intro project_rel.db_keeps_rules quiet_update project_keeps_select) simp_all

lemma keeps_set_project_mode: "keeps project_law (set_project_mode i mode expected now)"
  unfolding set_project_mode_def get_project_def by (intro project_rel.db_keeps_rules quiet_update project_keeps_select) simp_all

lemma keeps_remember: "keeps project_law (remember_project_runtime_preference i profile installation now)"
  unfolding remember_project_runtime_preference_def by (intro project_rel.db_keeps_rules quiet_update project_keeps_select) simp_all

lemma keeps_runtime_preference: "keeps project_law (set_project_runtime_preference owner i profile installation now)"
  unfolding set_project_runtime_preference_def get_project_def Let_def
  by (intro project_rel.db_keeps_rules quiet_update project_keeps_select) simp_all

lemma keeps_desk_put: "keeps project_law (desk_put f)"
  by (rule keepsI) (simp add: run_desk_put project_law_same)

lemma keeps_replace_bindings: "keeps project_law (replace_project_bindings i bindings now)"
  unfolding replace_project_bindings_def replace_bindings_tx_def unit_of_def get_project_def
  by (intro project_rel.db_keeps_rules quiet_update keeps_desk_put project_keeps_select) simp_all

lemma keeps_ensure_maps: "keeps project_law (ensure_semantic_maps_tx i now)"
proof -
  have insert: "keeps project_law (insert_generation g)" for g
    by (rule keepsI) (simp add: insert_generation_def run_reading run_desk_put project_law_same)
  have map: "keeps project_law (writing (\<lambda>s. s\<lparr>semantic_maps := f s\<rparr>))" for f
    by (rule keepsI) (simp add: run_writing project_law_same)
  show ?thesis
    unfolding ensure_semantic_maps_tx_def ensure_semantic_map_def
    by (intro project_rel.db_keeps_rules insert map)
qed

lemma at_most_one:
  assumes "length (filter P xs) \<le> 1" "x \<in> set xs" "P x" "y \<in> set xs" "P y"
  shows "x = y"
proof -
  have "x \<in> set (filter P xs)" "y \<in> set (filter P xs)" using assms by auto
  with assms(1) show ?thesis by (cases "filter P xs" rule: list.exhaust) (auto simp: Suc_le_eq)
qed

lemma one_by_id:
  assumes "distinct (map pr_id ps)" "\<And>p. p \<in> set ps \<Longrightarrow> P p \<Longrightarrow> pr_id p = i"
  shows "length (filter P ps) \<le> 1"
  using assms
proof (induction ps)
  case (Cons p ps)
  show ?case
  proof (cases "P p")
    case True
    then have "pr_id p = i" using Cons.prems(2)[of p] by simp
    then have "\<not> P q" if "q \<in> set ps" for q
      using Cons.prems that by (metis image_eqI list.set_intros(1,2) list.simps(9) distinct.simps(2) set_map)
    then have "filter P ps = []" by (simp add: filter_empty_conv)
    with True show ?thesis by simp
  qed (use Cons in auto)
qed simp

lemma fewer: "(\<And>x. P x \<Longrightarrow> Q x) \<Longrightarrow> length (filter P xs) \<le> length (filter Q xs)"
  by (induction xs) auto

lemma nobody_active:
  assumes "projects_ok s" "count_where (\<lambda>p. pr_is_active p \<and> pr_archived_at p = None) (projects s) = 0"
  shows "p \<in> set (projects s) \<Longrightarrow> \<not> pr_is_active p"
  using assms by (auto simp: count_where_0 projects_ok_def)

lemma keeps_activate_if_none: "keeps project_law (activate_if_none_tx i now)"
proof (rule keepsI)
  fix s :: db
  let ?sel = "\<lambda>p. pr_id p = i \<and> pr_archived_at p = None"
  let ?g = "\<lambda>p. if ?sel p then (bump_project now p)\<lparr>pr_is_active := True\<rparr> else p"
  have step: "project_law s (s\<lparr>projects := update_where ?sel (\<lambda>p. (bump_project now p)\<lparr>pr_is_active := True\<rparr>) (projects s)\<rparr>)"
    if none: "count_where (\<lambda>p. pr_is_active p \<and> pr_archived_at p = None) (projects s) = 0"
  proof (rule project_law_map[where g = ?g])
    show "length (filter (\<lambda>p. pr_is_active (?g p)) (projects s)) \<le> 1" if "projects_ok s"
    proof (rule one_by_id)
      show "distinct (map pr_id (projects s))" using that by (simp add: projects_ok_def project_violation_None)
      show "p \<in> set (projects s) \<Longrightarrow> pr_is_active (?g p) \<Longrightarrow> pr_id p = i" for p
        using nobody_active[OF that none] by (auto split: if_splits)
    qed
    show "\<exists>p \<in> set (projects s). pr_is_active (?g p)" if "projects_ok s" "held s"
      using nobody_active[OF that(1) none] that(2) by (auto simp: held_def)
  qed (auto simp: update_where_def aged_def bump_project_def projects_ok_def split: if_splits)
  then show "project_law s (snd (activate_if_none_tx i now s))"
    by (simp add: activate_if_none_tx_def run_reading unit_of_def run_go hit_projects_run project_rel.frame_refl split: option.splits)
qed

text \<open>A new row is inactive.\<close>

lemma law_insert:
  assumes t: "t = s\<lparr>projects := projects s @ [p]\<rparr>" and fits: "project_violation (projects s @ [p]) = None"
    and p: "\<not> pr_is_active p" "pr_id p \<noteq> []"
  shows "project_law s t"
proof -
  have "projects_ok s \<longrightarrow> projects_ok t" using fits p by (auto simp: t projects_ok_def)
  moreover have "held s \<longrightarrow> held t" by (auto simp: held_def t)
  moreover have "confined s \<longrightarrow> confined t" by (fastforce simp: confined_def unfinished_def t)
  ultimately show ?thesis by (auto simp: project_law_def t intro: aged_refl)
qed

lemma keeps_insert_project:
  assumes "\<not> pr_is_active p" "pr_id p \<noteq> []"
  shows "keeps project_law (exec_projects (append_row p))" "keeps project_law (insert_project_or_ignore p)"
proof -
  show "keeps project_law (exec_projects (append_row p))"
    by (rule keepsI) (auto simp: exec_projects_def checked_def append_row_def project_rel.frame_refl split: option.splits
        intro: law_insert[OF refl _ assms])
  show "keeps project_law (insert_project_or_ignore p)"
    by (rule keepsI) (auto simp: insert_project_or_ignore_def run_reading run_writing project_rel.frame_refl
        intro: law_insert[OF refl _ assms])
qed

lemma new_project_inactive [simp]:
  "\<not> pr_is_active (new_project i owner name root d profile installation now)"
  "pr_id (new_project i owner name root d profile installation now) = i"
  by (simp_all add: new_project_def)

lemma default_id_nonempty [simp]: "default_project_id owner \<noteq> []"
  by (simp add: default_project_id_def system_default_project_id_def)

lemma keeps_with_new_id:
  assumes "prefix \<noteq> []" "\<And>i. i \<noteq> [] \<Longrightarrow> keeps project_law (k i)"
  shows "keeps project_law (go (new_id prefix) k)"
proof (rule keepsI)
  fix s :: db
  have "project_law s (s\<lparr>uuids_drawn := uuids_drawn s + 1\<rparr>)" by (rule project_rel.uuid_step)
  moreover have "keeps project_law (k (prefix @ digits (uuids_drawn s)))" using assms by simp
  ultimately show "project_law s (snd (go (new_id prefix) k s))"
    by (auto simp: run_go run_new_id keeps_def intro: project_rel.frame_trans)
qed

lemma keeps_make_workspace: "keeps project_law (make_workspace D i)"
  unfolding make_workspace_def by (intro project_rel.db_keeps_rules)

lemma keeps_ensure_default_project: "keeps project_law (ensure_default_project D owner now)"
  unfolding ensure_default_project_def ensure_default_tx_def get_project_def Let_def
  by (intro project_rel.db_keeps_rules project_keeps_select keeps_insert_project keeps_activate_if_none keeps_ensure_maps
      keeps_make_workspace) simp_all

lemma keeps_create_project:
  "keeps project_law (create_project_with_runtime_preference D owner name profile installation now)"
  unfolding create_project_with_runtime_preference_def create_project_tx_def get_project_def Let_def
  by (intro project_rel.keeps_rules keeps_with_new_id project_rel.keeps_tx project_keeps_select keeps_insert_project
      keeps_activate_if_none keeps_ensure_maps keeps_make_workspace) simp_all

section \<open>Switching and archiving\<close>

text \<open>Inside these transactions no Project is active for a moment, so the law is shown for the whole.\<close>

lemma keeps_whole_tx:
  assumes "\<And>s x t. m s = (Inr x, t) \<Longrightarrow> project_law s t"
  shows "keeps project_law (tx m)"
proof (rule keepsI)
  fix s :: db
  obtain r t where run: "m s = (r, t)" by fastforce
  show "project_law s (snd (tx m s))"
    using assms run by (cases r) (auto simp: run_tx project_rel.uuid_step)
qed

lemma hit_projects_Inr:
  "hit_projects p f s = (Inr n, t) \<longleftrightarrow> n = count_where p (projects s) \<and> t = s\<lparr>projects := update_where p f (projects s)\<rparr> \<and>
     project_violation (update_where p f (projects s)) = None"
  by (auto simp: hit_projects_run split: option.splits)

lemma same_id:
  assumes "projects_ok s" "p \<in> set (projects s)" "q \<in> set (projects s)" "pr_id p = pr_id q"
  shows "p = q"
  using assms by (auto simp: projects_ok_def project_violation_None distinct_map dest: inj_onD)

lemma activate_run:
  assumes "activate_tx owner i now s = (Inr x, t)"
  shows "\<exists>p \<in> set (projects s). pr_id p = i \<and> pr_archived_at p = None \<and> (if pr_is_active p then t = s
    else (\<forall>q \<in> set (projects s). pr_is_active q \<and> pr_id q \<noteq> i \<longrightarrow> \<not> unfinished s (pr_id q)) \<and>
      t = s\<lparr>projects := update_where (\<lambda>q. pr_id q = i) (\<lambda>q. (bump_project now q)\<lparr>pr_is_active := True\<rparr>)
        (update_where pr_is_active (\<lambda>q. (bump_project now q)\<lparr>pr_is_active := False\<rparr>) (projects s))\<rparr>)"
proof -
  from assms obtain p where p: "find (\<lambda>p. pr_id p = i \<and> pr_owner_id p = owner) (projects s) = Some p"
      "pr_archived_at p = None"
    and rest: "pr_is_active p \<and> t = s \<or> \<not> pr_is_active p \<and> (reading (\<lambda>s.
       if \<exists>q \<in> set (projects s). pr_is_active q \<and> pr_id q \<noteq> i \<and> unfinished s (pr_id q) then err ErrProjectHasActiveWork
       else go (hit_projects pr_is_active (\<lambda>q. (bump_project now q)\<lparr>pr_is_active := False\<rparr>)) (\<lambda>_.
         unit_of (hit_projects (\<lambda>q. pr_id q = i) (\<lambda>q. (bump_project now q)\<lparr>pr_is_active := True\<rparr>))))) s = (Inr x, t)"
    by (auto simp: activate_tx_def go_Inr_iff select_row_Inr split: if_splits)
  from p find_SomeD[OF p(1)] rest show ?thesis
    by (intro bexI[of _ p]) (auto simp: run_reading go_Inr_iff unit_of_def hit_projects_Inr split: if_splits)
qed

lemma activate_law:
  assumes run: "activate_tx owner i now s = (Inr x, t)"
  shows "project_law s t"
proof -
  from activate_run[OF run] obtain p where p: "p \<in> set (projects s)" "pr_id p = i" "pr_archived_at p = None"
    and rest: "if pr_is_active p then t = s
      else (\<forall>q \<in> set (projects s). pr_is_active q \<and> pr_id q \<noteq> i \<longrightarrow> \<not> unfinished s (pr_id q)) \<and>
      t = s\<lparr>projects := update_where (\<lambda>q. pr_id q = i) (\<lambda>q. (bump_project now q)\<lparr>pr_is_active := True\<rparr>)
        (update_where pr_is_active (\<lambda>q. (bump_project now q)\<lparr>pr_is_active := False\<rparr>) (projects s))\<rparr>"
    by blast
  show ?thesis
  proof (cases "pr_is_active p")
    case True
    with rest show ?thesis by (simp add: project_rel.frame_refl)
  next
    case False
    let ?f1 = "\<lambda>q. (bump_project now q)\<lparr>pr_is_active := False\<rparr>" and ?f2 = "\<lambda>q. (bump_project now q)\<lparr>pr_is_active := True\<rparr>"
    have guard: "\<forall>q \<in> set (projects s). pr_is_active q \<and> pr_id q \<noteq> i \<longrightarrow> \<not> unfinished s (pr_id q)"
      and t: "t = s\<lparr>projects := update_where (\<lambda>q. pr_id q = i) ?f2 (update_where pr_is_active ?f1 (projects s))\<rparr>"
      using rest False by simp_all
    let ?g = "\<lambda>q. if pr_id q = i then ?f2 (if pr_is_active q then ?f1 q else q) else if pr_is_active q then ?f1 q else q"
    show ?thesis
    proof (rule project_law_map[where g = ?g])
      show "projects t = map ?g (projects s)"
        by (auto simp: t update_where_def bump_project_def)
      have active: "pr_is_active (?g q) \<longleftrightarrow> pr_id q = i" for q by simp
      show "length (filter (\<lambda>q. pr_is_active (?g q)) (projects s)) \<le> 1" if "projects_ok s"
        unfolding active using that by (intro one_by_id) (auto simp: projects_ok_def project_violation_None)
      show "\<exists>q \<in> set (projects s). pr_is_active (?g q)" unfolding active using p by blast
      show "pr_archived_at (?g q) = None" if "projects_ok s" "q \<in> set (projects s)" "pr_is_active (?g q)" for q
        using same_id[OF that(1,2) p(1)] that(3) p unfolding active by (auto simp: bump_project_def)
      show "\<not> unfinished s (pr_id q)" if "projects_ok s" "q \<in> set (projects s)" "pr_is_active q" "\<not> pr_is_active (?g q)" for q
        using that guard unfolding active by blast
    qed (auto simp: t aged_def bump_project_def)
  qed
qed

lemma keeps_activate_project: "keeps project_law (activate_project owner i now)"
  unfolding activate_project_def get_project_def
  by (intro project_rel.db_keeps_rules(1-3) project_rel.keeps_go keeps_whole_tx project_keeps_select activate_law)

lemma replacement_row:
  assumes "replacement owner i s = Some q"
  shows "q \<in> set (projects s) \<and> pr_id q \<noteq> i \<and> pr_archived_at q = None \<and> pr_owner_id q = owner"
proof -
  from assms obtain ps where found: "sort_key (\<lambda>p. (\<not> pr_is_default p, - int (pr_updated_at p)))
       (filter (\<lambda>p. pr_owner_id p = owner \<and> pr_id p \<noteq> i \<and> pr_archived_at p = None) (projects s)) = q # ps"
    by (auto simp: replacement_def split: list.splits)
  have "q \<in> set (q # ps)" by simp
  then show ?thesis unfolding found[symmetric] by simp
qed

text \<open>A successful archiving: the row is closed, and when it was active another one takes its place.\<close>

lemma archive_run:
  assumes "archive_tx owner i expected now s = (Inr None, t)"
  shows "\<exists>p \<in> set (projects s). pr_id p = i \<and> pr_archived_at p = None \<and> pr_owner_id p = owner \<and> pr_revision p = expected \<and>
    \<not> unfinished s i \<and> (let rows = update_where (\<lambda>q. pr_id q = i \<and> pr_owner_id q = owner \<and> pr_revision q = expected)
       (\<lambda>q. (bump_project now q)\<lparr>pr_archived_at := Some now, pr_is_active := False\<rparr>) (projects s) in
     if pr_is_active p then \<exists>q \<in> set (projects s). pr_id q \<noteq> i \<and> pr_archived_at q = None \<and> 
         t = s\<lparr>projects := (if pr_id q = [] then rows
           else update_where (\<lambda>r. pr_id r = pr_id q) (\<lambda>r. (bump_project now r)\<lparr>pr_is_active := True\<rparr>) rows)\<rparr>
     else t = s\<lparr>projects := rows\<rparr>)"
proof -
  from assms obtain p where p: "find (\<lambda>p. pr_id p = i \<and> pr_owner_id p = owner) (projects s) = Some p"
      "pr_archived_at p = None" "\<not> unfinished s i" "pr_revision p = expected"
    and rest: "go (if pr_is_active p
                then (case replacement owner i s of
                    None \<Rightarrow> err (Wrapped ''no Project to switch to'' ErrInvalidState)
                  | Some q \<Rightarrow> ok (pr_id q))
                else ok []) (\<lambda>next_project.
         go (hit_projects (\<lambda>q. pr_id q = i \<and> pr_owner_id q = owner \<and> pr_revision q = expected)
           (\<lambda>q. (bump_project now q)\<lparr>pr_archived_at := Some now, pr_is_active := False\<rparr>)) (\<lambda>n.
         if n = 0 then err ErrRevisionConflict
         else go (if next_project \<noteq> []
             then unit_of (hit_projects (\<lambda>q. pr_id q = next_project) (\<lambda>q. (bump_project now q)\<lparr>pr_is_active := True\<rparr>))
             else ok ()) (\<lambda>_. ok None))) s = (Inr None, t)"
    by (auto simp: archive_tx_def go_Inr_iff select_row_Inr run_reading split: if_splits)
  show ?thesis
  proof (cases "pr_is_active p")
    case True
    with rest obtain q where "replacement owner i s = Some q"
        "t = s\<lparr>projects := (let rows = update_where (\<lambda>q. pr_id q = i \<and> pr_owner_id q = owner \<and> pr_revision q = expected)
           (\<lambda>q. (bump_project now q)\<lparr>pr_archived_at := Some now, pr_is_active := False\<rparr>) (projects s) in
         if pr_id q = [] then rows
           else update_where (\<lambda>r. pr_id r = pr_id q) (\<lambda>r. (bump_project now r)\<lparr>pr_is_active := True\<rparr>) rows)\<rparr>"
      by (auto simp: go_Inr_iff unit_of_def hit_projects_Inr Let_def split: option.splits if_splits)
    note q = this
    have row: "q \<in> set (projects s)" "pr_id q \<noteq> i" "pr_archived_at q = None" using replacement_row[OF q(1)] by simp_all
    from True p find_SomeD[OF p(1)] q(2) row show ?thesis
      by (intro bexI[of _ p]) (auto simp: Let_def intro!: bexI[of _ q])
  next
    case False
    with rest p find_SomeD[OF p(1)] show ?thesis
      by (intro bexI[of _ p]) (auto simp: go_Inr_iff hit_projects_Inr Let_def split: if_splits)
  qed
qed

lemma archive_law:
  assumes run: "archive_tx owner i expected now s = (Inr x, t)"
  shows "project_law s t"
proof (cases x)
  case (Some p)
  with run have "t = s"
    by (auto simp: archive_tx_def go_Inr_iff select_row_Inr run_reading unit_of_def hit_projects_Inr split: if_splits)
  then show ?thesis by (simp add: project_rel.frame_refl)
next
  case None
  let ?sel = "\<lambda>q. pr_id q = i \<and> pr_owner_id q = owner \<and> pr_revision q = expected"
  let ?arch = "\<lambda>q. (bump_project now q)\<lparr>pr_archived_at := Some now, pr_is_active := False\<rparr>"
  let ?act = "\<lambda>r. (bump_project now r)\<lparr>pr_is_active := True\<rparr>"
  from archive_run[OF run[unfolded None]] obtain p where p: "p \<in> set (projects s)" "pr_id p = i" "pr_archived_at p = None"
      "\<not> unfinished s i" "pr_owner_id p = owner" "pr_revision p = expected"
    and rest: "let rows = update_where ?sel ?arch (projects s) in
     if pr_is_active p then \<exists>q \<in> set (projects s). pr_id q \<noteq> i \<and> pr_archived_at q = None \<and>
         t = s\<lparr>projects := (if pr_id q = [] then rows else update_where (\<lambda>r. pr_id r = pr_id q) ?act rows)\<rparr>
     else t = s\<lparr>projects := rows\<rparr>"
    by blast
  let ?g = "\<lambda>q. if ?sel q then ?arch q else q"
  have unarchived: "pr_archived_at q = None" if "projects_ok s" "q \<in> set (projects s)" "pr_id q = i" for q
    using same_id[OF that(1,2) p(1)] that(3) p by simp
  have quiet_work: "\<not> unfinished s (pr_id q)" if "pr_id q = i" for q using p(4) that by simp
  show ?thesis
  proof (cases "pr_is_active p")
    case False
    with rest have t: "t = s\<lparr>projects := update_where ?sel ?arch (projects s)\<rparr>" by (simp add: Let_def)
    show ?thesis
    proof (rule project_law_map[where g = ?g])
      show "length (filter (\<lambda>q. pr_is_active (?g q)) (projects s)) \<le> 1" if "projects_ok s"
      proof -
        have "length (filter (\<lambda>q. pr_is_active (?g q)) (projects s)) \<le> length (filter pr_is_active (projects s))"
          by (rule fewer) (auto split: if_splits)
        with that show ?thesis by (simp add: projects_ok_def project_violation_None)
      qed
      show "\<exists>q \<in> set (projects s). pr_is_active (?g q)" if "projects_ok s" "held s"
      proof -
        from that(2) obtain q where q: "q \<in> set (projects s)" "pr_is_active q" by (auto simp: held_def)
        with False p same_id[OF that(1) q(1) p(1)] have "pr_id q \<noteq> i" by auto
        with q show ?thesis by (intro bexI[of _ q]) simp_all
      qed
    qed (use unarchived quiet_work in \<open>auto simp: t update_where_def aged_def bump_project_def projects_ok_def split: if_splits\<close>)
  next
    case True
    with rest obtain q where q: "q \<in> set (projects s)" "pr_id q \<noteq> i" "pr_archived_at q = None"
      and t: "t = s\<lparr>projects := (if pr_id q = [] then update_where ?sel ?arch (projects s)
        else update_where (\<lambda>r. pr_id r = pr_id q) ?act (update_where ?sel ?arch (projects s)))\<rparr>"
      by (auto simp: Let_def)
    show ?thesis
    proof (cases "projects_ok s")
      case False
      then show ?thesis by (simp add: project_law_def t)
    next
      case ok: True
      with q(1) have "pr_id q \<noteq> []" by (simp add: projects_ok_def)
      with t have t: "t = s\<lparr>projects := update_where (\<lambda>r. pr_id r = pr_id q) ?act (update_where ?sel ?arch (projects s))\<rparr>" by simp
      let ?h = "\<lambda>r. if pr_id r = pr_id q then ?act (?g r) else ?g r"
      have others: "\<not> pr_is_active r" if "r \<in> set (projects s)" "pr_id r \<noteq> i" for r
      proof
        assume "pr_is_active r"
        moreover have "length (filter pr_is_active (projects s)) \<le> 1" using ok by (simp add: projects_ok_def project_violation_None)
        ultimately have "r = p" using that(1) True p(1) by (intro at_most_one[of pr_is_active "projects s"])
        with that(2) p(2) show False by simp
      qed
      have rev: "pr_is_active p \<Longrightarrow> r \<in> set (projects s) \<Longrightarrow> pr_id r = i \<Longrightarrow> r = p" for r
        using same_id[OF ok _ p(1)] p(2) by auto
      show ?thesis
      proof (rule project_law_map[where g = ?h])
        show "projects t = map ?h (projects s)"
          by (auto simp: t update_where_def bump_project_def)
        show "\<exists>r \<in> set (projects s). pr_is_active (?h r)" using q(1) by (intro bexI[of _ q]) simp_all
        show "pr_archived_at (?h r) = None" if "r \<in> set (projects s)" "pr_is_active (?h r)" for r
          using that same_id[OF ok that(1) q(1)] others[OF that(1)] q p rev[OF True that(1)]
          by (auto simp: bump_project_def split: if_splits)
        show "\<not> unfinished s (pr_id r)" if "r \<in> set (projects s)" "pr_is_active r" for r
          using that others quiet_work by blast
        show "length (filter (\<lambda>r. pr_is_active (?h r)) (projects s)) \<le> 1"
        proof (rule one_by_id)
          show "distinct (map pr_id (projects s))" using ok by (simp add: projects_ok_def project_violation_None)
          show "pr_id r = pr_id q" if "r \<in> set (projects s)" "pr_is_active (?h r)" for r
            using that others[OF that(1)] rev[OF True that(1)] p by (auto simp: bump_project_def split: if_splits)
        qed
      qed (use unarchived[OF ok] in \<open>auto simp: t aged_def bump_project_def split: if_splits\<close>)
    qed
  qed
qed

lemma keeps_archive_project: "keeps project_law (archive_project owner i expected now)"
  unfolding archive_project_def get_project_def
  by (intro project_rel.db_keeps_rules(1-3) project_rel.keeps_rules keeps_whole_tx project_keeps_select archive_law)
    (auto split: option.split intro: project_rel.keeps_ok project_keeps_select)

section \<open>Runs\<close>

text \<open>The writers of the table of Projects.\<close>

inductive project_step :: "disk \<Rightarrow> db \<Rightarrow> db \<Rightarrow> bool" for D where
  "project_step D s (snd (ensure_default_project D owner now s))"
| "project_step D s (snd (create_project_with_runtime_preference D owner name profile installation now s))"
| "project_step D s (snd (update_project_name owner i name expected now s))"
| "project_step D s (snd (activate_project owner i now s))"
| "project_step D s (snd (archive_project owner i expected now s))"
| "project_step D s (snd (set_project_mode i mode expected now s))"
| "project_step D s (snd (set_project_runtime_preference owner i profile installation now s))"
| "project_step D s (snd (remember_project_runtime_preference i profile installation now s))"
| "project_step D s (snd (replace_project_bindings i bindings now s))"

lemmas project_operations = keeps_ensure_default_project keeps_create_project keeps_update_project_name keeps_activate_project
  keeps_archive_project keeps_set_project_mode keeps_runtime_preference keeps_remember keeps_replace_bindings

lemma project_step_law: "project_step D s t \<Longrightarrow> project_law s t"
  by (induction rule: project_step.induct) (use project_operations in \<open>auto simp: keeps_def\<close>)

lemma project_run_law: "(project_step D)\<^sup>*\<^sup>* s t \<Longrightarrow> project_law s t"
  by (induction rule: rtranclp_induct)
    (auto intro: project_rel.frame_refl project_rel.frame_trans project_step_law)

end
