(* ===== verification/StoreInteraction.thy ===== *)
theory StoreInteraction
  imports StoreProject
begin

text \<open>
  Interactions (\<open>internal/store/interaction.go\<close>): a question to the user and its life.  Creating one
  checks that Conversation, Project, Run, Workflow, Task and map belong together and are as the
  caller saw them; afterwards it is answered, expires or is cancelled, once.
\<close>

section \<open>Creating\<close>

text \<open>The Interaction with its Project, and its Conversation unless it is a record of the system.\<close>

definition interaction_conversation :: "interaction \<Rightarrow> (db, interaction \<times> chat_session option) prog" where
  "interaction_conversation x = attempt (get_chat_session (i_session_id x)) (\<lambda>r. case r of
     Inr c \<Rightarrow>
       let y = (if i_project_id x = [] then x\<lparr>i_project_id := cs_project_id c\<rparr> else x) in
       if i_project_id y \<noteq> cs_project_id c then err ErrInvalidState else ok (y, Some c)
   | Inl e \<Rightarrow>
       if errors_is e ErrNotFound \<and> i_project_id x = [] then ok (x\<lparr>i_project_id := system_default_project_id\<rparr>, None)
       else err (Wrapped ''Conversation of the Interaction does not exist'' e))"

definition check_interaction_project :: "interaction \<Rightarrow> chat_session option \<Rightarrow> (db, unit) prog" where
  "check_interaction_project x c = (case c of
     Some session \<Rightarrow>
       if cs_user_id session = [] then ok ()
       else attempt (get_project (i_project_id x)) (\<lambda>r. case r of
           Inl _ \<Rightarrow> err ErrProjectInactive
         | Inr p \<Rightarrow> if pr_archived_at p \<noteq> None \<or> \<not> pr_is_active p then err ErrProjectInactive else ok ())
   | None \<Rightarrow> ok ())"

definition check_interaction_run :: "interaction \<Rightarrow> chat_session option \<Rightarrow> (db, unit) prog" where
  "check_interaction_run x c =
    (if i_run_id x = [] \<or> c = None then ok ()
     else attempt (get_run_session (i_run_id x)) (\<lambda>r. case r of
         Inl _ \<Rightarrow> err (invalid ''Run of the Interaction'')
       | Inr run \<Rightarrow>
           if r_project_id run \<noteq> i_project_id x \<or> r_chat_session_id run \<noteq> i_session_id x \<or>
              i_workflow_id x \<noteq> [] \<and> r_workflow_id run \<noteq> i_workflow_id x \<or> i_task_id x \<noteq> [] \<and> r_task_id run \<noteq> i_task_id x
           then err (invalid ''Run of the Interaction'') else ok ()))"

definition check_interaction_workflow :: "interaction \<Rightarrow> (db, unit) prog" where
  "check_interaction_workflow x =
    (if i_workflow_id x = [] then ok ()
     else attempt (get_workflow (i_workflow_id x)) (\<lambda>r. case r of
         Inl _ \<Rightarrow> err (invalid ''Workflow of the Interaction'')
       | Inr w \<Rightarrow>
           if w_project_id w \<noteq> i_project_id x \<or> w_conversation_id w \<noteq> i_session_id x
           then err (invalid ''Workflow of the Interaction'')
           else if i_task_id x = [] \<and> 0 < i_source_revision x \<and> w_revision w \<noteq> i_source_revision x
           then err ErrRevisionConflict else ok ()))"

definition check_interaction_task :: "interaction \<Rightarrow> (db, unit) prog" where
  "check_interaction_task x =
    (if i_task_id x = [] then ok ()
     else attempt (get_task (i_task_id x)) (\<lambda>r. case r of
         Inl _ \<Rightarrow> err (invalid ''Task of the Interaction'')
       | Inr t \<Rightarrow>
           if t_workflow_id t \<noteq> i_workflow_id x then err (invalid ''Task of the Interaction'')
           else if 0 < i_source_revision x \<and> t_revision t \<noteq> i_source_revision x then err ErrRevisionConflict else ok ()))"

definition check_interaction_revision :: "interaction \<Rightarrow> chat_session option \<Rightarrow> (db, unit) prog" where
  "check_interaction_revision x c =
    (if i_workflow_id x = [] \<and> i_task_id x = [] \<and> 0 < i_source_revision x \<and>
        (case c of Some session \<Rightarrow> cs_revision session | None \<Rightarrow> 0) \<noteq> i_source_revision x
     then err ErrRevisionConflict else ok ())"

definition check_interaction_map :: "interaction \<Rightarrow> (db, unit) prog" where
  "check_interaction_map x =
    (if i_map_id x = [] then ok ()
     else attempt (get_semantic_map (i_project_id x) (i_map_id x)) (\<lambda>r. case r of
         Inl _ \<Rightarrow> err (invalid ''map of the Interaction'')
       | Inr m \<Rightarrow> if sm_generation m \<noteq> i_map_generation x then err ErrStaleMapGeneration else ok ()))"

text \<open>The columns the \<open>INSERT\<close> leaves out keep their defaults.\<close>

definition insert_interaction :: "interaction \<Rightarrow> (db, unit) prog" where
  "insert_interaction x = reading (\<lambda>s.
     if i_id x \<in> i_id ` set (interactions s) then err (ErrUnique ''interactions.id'')
     else writing (\<lambda>s. s\<lparr>interactions := interactions s @ [x\<lparr>i_revision := 1, i_answered_at := None, i_expired_at := None,
       i_cancelled_at := None, i_handled_at := None, i_handling_error := []\<rparr>]\<rparr>))"

definition create_interaction :: "interaction \<Rightarrow> (db, unit) prog" where
  "create_interaction given =
     go (interaction_conversation given) (\<lambda>(x, c).
     go (check_interaction_project x c) (\<lambda>_.
     go (check_interaction_run x c) (\<lambda>_.
     go (check_interaction_workflow x) (\<lambda>_.
     go (check_interaction_task x) (\<lambda>_.
     go (check_interaction_revision x c) (\<lambda>_.
     go (check_interaction_map x) (\<lambda>_.
       insert_interaction x)))))))"

section \<open>Reading\<close>

definition get_interaction :: "string \<Rightarrow> (db, interaction) prog" where
  "get_interaction i = select_row (\<lambda>s. find_by i_id i (interactions s)) ErrNotFound"

definition get_pending_interaction_by_run_id :: "string \<Rightarrow> (db, interaction) prog" where
  "get_pending_interaction_by_run_id run =
     select_row (\<lambda>s. latest i_created_at (filter (\<lambda>x. i_run_id x = run \<and> i_status x = IPending) (interactions s))) ErrNotFound"

definition list_pending_interactions :: "string \<Rightarrow> (db, interaction list) prog" where
  "list_pending_interactions session = select_rows (\<lambda>s. sort_key i_created_at
     (filter (\<lambda>x. i_session_id x = session \<and> i_status x = IPending) (interactions s)))"

record interaction_filter =
  if_owner_id :: string
  if_project_id :: string
  if_session_id :: string
  if_status :: "interaction_status option"

definition interaction_matches :: "db \<Rightarrow> interaction_filter \<Rightarrow> interaction \<Rightarrow> bool" where
  "interaction_matches s f x \<longleftrightarrow>
     (if_owner_id f \<noteq> [] \<longrightarrow> (\<exists>p \<in> set (projects s). pr_id p = i_project_id x \<and> pr_owner_id p = if_owner_id f)) \<and>
     (if_project_id f \<noteq> [] \<longrightarrow> i_project_id x = if_project_id f) \<and>
     (if_session_id f \<noteq> [] \<longrightarrow> i_session_id x = if_session_id f) \<and>
     (if_status f = None \<or> if_status f = Some (i_status x))"

text \<open>\<open>LIMIT ? OFFSET ?\<close>, newest first; a negative limit means all rows to SQLite, a negative offset none skipped.\<close>

definition page_of :: "int \<Rightarrow> int \<Rightarrow> 'r list \<Rightarrow> 'r list" where
  "page_of limit offset rows = (let rest = drop (nat offset) rows in if limit < 0 then rest else take (nat limit) rest)"

definition list_interactions :: "interaction_filter \<Rightarrow> int \<Rightarrow> int \<Rightarrow> (db, interaction list \<times> nat) prog" where
  "list_interactions f limit offset = select_rows (\<lambda>s.
     (page_of limit offset (rev (sort_key (\<lambda>x. (i_created_at x, i_id x)) (filter (interaction_matches s f) (interactions s)))),
      count_where (interaction_matches s f) (interactions s)))"

section \<open>Ending\<close>

definition answer_interaction :: "string \<Rightarrow> raw_json \<Rightarrow> time \<Rightarrow> (db, unit) prog" where
  "answer_interaction i reply now = answer_interaction_at_revision i reply 0 now"

definition finalize_interaction :: "string \<Rightarrow> interaction_status \<Rightarrow> raw_json \<Rightarrow> time option \<Rightarrow> time option \<Rightarrow> (db, unit) prog" where
  "finalize_interaction i status reply answered expired =
     go (update_interactions (\<lambda>x. i_id x = i \<and> i_status x = IPending)
       (\<lambda>x. x\<lparr>i_status := status, i_reply := reply, i_answered_at := answered, i_expired_at := expired,
          i_revision := i_revision x + 1\<rparr>)) (\<lambda>n.
     if n = 0 then err ErrNotPending else ok ())"

definition expire_interaction :: "string \<Rightarrow> time \<Rightarrow> (db, unit) prog" where
  "expire_interaction i now = finalize_interaction i IExpired NoRaw None (Some now)"

definition cancel_interaction :: "string \<Rightarrow> time \<Rightarrow> (db, unit) prog" where
  "cancel_interaction i now =
     go (finalize_interaction i ICancelled NoRaw None (Some now)) (\<lambda>_.
       unit_of (update_interactions (\<lambda>x. i_id x = i) (\<lambda>x. x\<lparr>i_cancelled_at := Some now\<rparr>)))"

definition cancel_pending_interactions :: "string \<Rightarrow> time \<Rightarrow> (db, nat) prog" where
  "cancel_pending_interactions session now =
     update_interactions (\<lambda>x. i_session_id x = session \<and> i_status x = IPending)
       (\<lambda>x. x\<lparr>i_status := ICancelled, i_expired_at := Some now, i_revision := i_revision x + 1\<rparr>)"

definition valid_interaction_ui_kind :: "string \<Rightarrow> bool" where
  "valid_interaction_ui_kind kind \<longleftrightarrow> kind \<in> {''form'', ''single_select'', ''multi_select'', ''parameter'',
     ''image_select'', ''map_select'', ''file_select''}"

section \<open>The end of an Interaction is final\<close>

text \<open>
  What stays of a row: everything about an ended Interaction but the marks of its handling, and
  these once it is handled; a question never changes.
\<close>

definition settled :: "interaction \<Rightarrow> interaction \<Rightarrow> bool" where
  "settled x y \<longleftrightarrow> i_id y = i_id x \<and> i_revision x \<le> i_revision y \<and>
     y\<lparr>i_status := i_status x, i_reply := i_reply x, i_answered_at := i_answered_at x, i_expired_at := i_expired_at x,
       i_cancelled_at := i_cancelled_at x, i_revision := i_revision x, i_handled_at := i_handled_at x,
       i_handling_error := i_handling_error x\<rparr> = x \<and>
     (i_status x \<noteq> IPending \<longrightarrow> i_status y = i_status x \<and> i_reply y = i_reply x \<and> i_answered_at y = i_answered_at x \<and>
       i_expired_at y = i_expired_at x \<and> i_cancelled_at y = i_cancelled_at x \<and> i_revision y = i_revision x) \<and>
     (i_handled_at x \<noteq> None \<longrightarrow> i_status x \<noteq> IPending \<longrightarrow> i_handled_at y = i_handled_at x \<and> i_handling_error y = i_handling_error x)"

lemma settled_refl: "settled x x"
  by (simp add: settled_def)

lemma settled_trans: "settled x y \<Longrightarrow> settled y z \<Longrightarrow> settled x z"
  by (cases x; cases y; cases z) (auto simp: settled_def)

definition interaction_law :: "db \<Rightarrow> db \<Rightarrow> bool" where
  "interaction_law s t \<longleftrightarrow> (distinct (map i_id (interactions s)) \<longrightarrow> distinct (map i_id (interactions t)) \<and>
     (\<forall>i x. find_by i_id i (interactions s) = Some x \<longrightarrow> (\<exists>y. find_by i_id i (interactions t) = Some y \<and> settled x y)))"

lemma interaction_law_same: "interactions t = interactions s \<Longrightarrow> interaction_law s t"
  by (auto simp: interaction_law_def intro: settled_refl)

interpretation interaction_rel: db_relation interaction_law
proof unfold_locales
  fix s show "interaction_law s s" by (simp add: interaction_law_same)
next
  fix s t u assume "interaction_law s t" "interaction_law t u"
  then show "interaction_law s u" unfolding interaction_law_def by (blast intro: settled_trans)
next
  fix s n show "interaction_law s (s\<lparr>uuids_drawn := n\<rparr>)" by (simp add: interaction_law_same)
qed

lemma find_updated:
  assumes "\<And>x. i_id (f x) = i_id x"
  shows "find_by i_id i (update_where p f xs) = map_option (\<lambda>x. if p x then f x else x) (find_by i_id i xs)"
  using assms by (intro find_by_update_where)

lemma law_update_interactions:
  assumes id: "\<And>x. i_id (f x) = i_id x" and settled: "\<And>x. p x \<Longrightarrow> settled x (f x)"
  shows "keeps interaction_law (update_interactions p f)"
proof (rule keepsI)
  fix s :: db
  show "interaction_law s (snd (update_interactions p f s))"
    using settled
    by (auto simp: interaction_law_def update_interactions_def updating_run find_updated[OF id] settled_refl
        map_key_update_where[of i_id, OF id])
qed

lemma law_reads: "keeps (=) m \<Longrightarrow> keeps interaction_law m"
  by (auto simp: keeps_def intro: interaction_law_same)

lemma law_insert_interaction: "keeps interaction_law (insert_interaction x)"
proof (rule keepsI)
  fix s :: db
  show "interaction_law s (snd (insert_interaction x s))"
    by (auto simp: insert_interaction_def run_reading run_writing interaction_law_def find_by_append settled_refl)
qed

lemma law_create_interaction: "keeps interaction_law (create_interaction x)"
proof -
  have reads: "keeps interaction_law (select_row f e)" for f :: "db \<Rightarrow> 'x option" and e by (intro law_reads reads_only)
  show ?thesis
    unfolding create_interaction_def interaction_conversation_def check_interaction_project_def check_interaction_run_def
      check_interaction_workflow_def check_interaction_task_def check_interaction_revision_def check_interaction_map_def
      get_chat_session_def get_project_def get_run_session_def get_workflow_def get_task_def get_semantic_map_def Let_def
    by (intro interaction_rel.db_keeps_rules law_insert_interaction law_reads reads_only)
qed

lemma law_ends:
  "keeps interaction_law (answer_interaction_at_revision i reply n now)"
  "keeps interaction_law (expire_interaction i now)"
  "keeps interaction_law (cancel_pending_interactions session now)"
  "keeps interaction_law (mark_interaction_handled i now e)"
  "keeps interaction_law (record_interaction_handling_error i e)"
  unfolding answer_interaction_at_revision_def expire_interaction_def finalize_interaction_def cancel_pending_interactions_def
    mark_interaction_handled_def record_interaction_handling_error_def
  by (intro interaction_rel.db_keeps_rules law_update_interactions; auto simp: settled_def handled_status_def)+

lemma law_cancel: "keeps interaction_law (cancel_interaction i now)"
proof (rule keepsI)
  fix s :: db
  let ?p = "\<lambda>x. i_id x = i \<and> i_status x = IPending" and ?xs = "interactions s"
  let ?f = "\<lambda>x. x\<lparr>i_status := ICancelled, i_reply := NoRaw, i_answered_at := None, i_expired_at := Some now, i_revision := i_revision x + 1\<rparr>"
  let ?g = "\<lambda>x. x\<lparr>i_cancelled_at := Some now\<rparr>"
  show "interaction_law s (snd (cancel_interaction i now s))"
  proof (cases "count_where ?p ?xs = 0")
    case True
    then have "interactions (snd (cancel_interaction i now s)) = ?xs"
      by (auto simp: cancel_interaction_def finalize_interaction_def run_go update_interactions_def updating_run
          count_where_0 update_where_none)
    then show ?thesis by (rule interaction_law_same)
  next
    case False
    then have t: "interactions (snd (cancel_interaction i now s)) = update_where (\<lambda>x. i_id x = i) ?g (update_where ?p ?f ?xs)"
      by (simp add: cancel_interaction_def finalize_interaction_def run_go unit_of_def update_interactions_def updating_run)
    from False obtain x where x: "x \<in> set ?xs" "i_id x = i" "i_status x = IPending" by (auto simp: count_where_0)
    have keys: "map i_id (update_where (\<lambda>x. i_id x = i) ?g (update_where ?p ?f ?xs)) = map i_id ?xs"
      by (subst map_key_update_where, simp, subst map_key_update_where) simp_all
    show ?thesis
      unfolding interaction_law_def t keys
    proof (intro impI conjI allI)
      fix j y assume d: "distinct (map i_id ?xs)" and y: "find_by i_id j ?xs = Some y"
      have "j = i \<Longrightarrow> y = x" using find_by_distinct[OF d x(1)] x(2) y by simp
      moreover have "find_by i_id j (update_where (\<lambda>x. i_id x = i) ?g (update_where ?p ?f ?xs)) =
          Some (if j = i then ?g (if ?p y then ?f y else y) else y)"
        using y find_by_SomeD[OF y] by (subst find_updated, simp, subst find_updated) auto
      ultimately show "\<exists>z. find_by i_id j (update_where (\<lambda>x. i_id x = i) ?g (update_where ?p ?f ?xs)) = Some z \<and> settled y z"
        using x by (auto simp: settled_def)
    qed
  qed
qed

section \<open>Runs\<close>

inductive interaction_step :: "db \<Rightarrow> db \<Rightarrow> bool" where
  "interaction_step s (snd (create_interaction x s))"
| "interaction_step s (snd (answer_interaction_at_revision i reply n now s))"
| "interaction_step s (snd (expire_interaction i now s))"
| "interaction_step s (snd (cancel_interaction i now s))"
| "interaction_step s (snd (cancel_pending_interactions session now s))"
| "interaction_step s (snd (mark_interaction_handled i now e s))"
| "interaction_step s (snd (record_interaction_handling_error i e s))"

lemma interaction_run_law: "interaction_step\<^sup>*\<^sup>* s t \<Longrightarrow> interaction_law s t"
proof (induction rule: rtranclp_induct)
  case (step t u)
  from step(2) have "interaction_law t u"
    by (cases rule: interaction_step.cases) (use law_create_interaction law_ends law_cancel in \<open>auto simp: keeps_def\<close>)
  with step(3) show ?case by (rule interaction_rel.frame_trans)
qed (rule interaction_rel.frame_refl)

lemma ended_refuses:
  assumes "distinct (map i_id (interactions s))" "find_by i_id i (interactions s) = Some x" "i_status x \<noteq> IPending"
  shows "answer_interaction_at_revision i reply n now s = (Inl ErrNotPending, s)"
    "expire_interaction i now s = (Inl ErrNotPending, s)" "cancel_interaction i now s = (Inl ErrNotPending, s)"
proof -
  have none: "\<not> (i_id y = i \<and> i_status y = IPending)" if "y \<in> set (interactions s)" for y
    using find_by_distinct[OF assms(1) that] assms(2,3) by auto
  show "answer_interaction_at_revision i reply n now s = (Inl ErrNotPending, s)"
    "expire_interaction i now s = (Inl ErrNotPending, s)" "cancel_interaction i now s = (Inl ErrNotPending, s)"
    using none
    by (auto simp: answer_interaction_at_revision_def expire_interaction_def cancel_interaction_def finalize_interaction_def
        run_go update_interactions_def updating_run count_where_0 update_where_none)
qed

end
