(* ===== verification/StudioGuarantees.thy ===== *)
theory StudioGuarantees
  imports Demo StoreMapLaws EventPipe StoreProjectLaws StoreInteraction
begin

text \<open>
  The properties of the Studio side: semantic maps, the event log, the way of an event to the browser,
  Projects and Interactions, with the concrete databases of the witnesses.
\<close>

section \<open>A small map\<close>

definition demo_floats :: float_ops where
  "demo_floats = \<lparr>fo_add = (\<lambda>a b. fl_one), fo_sub = (\<lambda>a b. fl_zero), fo_mul = (\<lambda>a b. fl_one), fo_div = (\<lambda>a b. fl_one),
     fo_sqrt = (\<lambda>a. fl_one)\<rparr>"

definition demo_pose :: pose where
  "demo_pose = \<lparr>ps_position = \<lparr>po_x = fl_zero, po_y = fl_zero, po_z = fl_zero\<rparr>,
     ps_orientation = \<lparr>qu_x = fl_zero, qu_y = fl_zero, qu_z = fl_zero, qu_w = fl_one\<rparr>\<rparr>"

definition demo_point :: bounds where
  "demo_point = \<lparr>bo_kind = ''point'', bo_size = None, bo_radius = fl_zero, bo_height = fl_zero, bo_points = []\<rparr>"

definition demo_entity :: "int \<Rightarrow> string \<Rightarrow> string \<Rightarrow> (string \<times> bool) list \<Rightarrow> map_entity" where
  "demo_entity g i name marks = \<lparr>me_map_id = ''m'', me_generation = g, me_id = i, me_type = ''object'', me_name = name,
     me_status = ''active'', me_frame_id = ''world'', me_pose = demo_pose, me_bounds = demo_point, me_properties = [],
     me_source = ''user'', me_source_timestamp = None, me_evidence = [], me_manual_fields = marks, me_revision = 1,
     me_updated_at = 0\<rparr>"

definition demo_relation :: "string \<Rightarrow> string \<Rightarrow> string \<Rightarrow> map_relation" where
  "demo_relation i a b = \<lparr>mr_map_id = ''m'', mr_generation = 2, mr_id = i, mr_subject_id = a, mr_predicate = ''on'',
     mr_object_id = b, mr_source = ''user'', mr_evidence = [], mr_manual = True, mr_revision = 1, mr_updated_at = 0\<rparr>"

text \<open>Generation 1 is closed and holds one Entity; generation 2 holds a cup on a table the user named, and a lamp.\<close>

definition demo_map_db :: db where
  "demo_map_db = empty_db
    \<lparr>semantic_maps := [\<lparr>sm_id = ''m'', sm_project_id = ''p'', sm_slot = ''real_map'', sm_generation = 2, sm_revision = 4,
       sm_frame_id = ''world'', sm_created_at = 0, sm_updated_at = 0\<rparr>],
     map_entities := [demo_entity 1 ''old'' ''chair'' [], demo_entity 2 ''t'' ''my table'' [(''name'', True), (''existence'', True)],
       demo_entity 2 ''c'' ''cup'' [], demo_entity 2 ''l'' ''lamp'' []],
     desk := empty_desk\<lparr>map_generations :=
       [\<lparr>mg_map_id = ''m'', mg_generation = 1, mg_revision = 3, mg_reason = [], mg_created_at = 0, mg_closed_at = Some 1\<rparr>,
        \<lparr>mg_map_id = ''m'', mg_generation = 2, mg_revision = 4, mg_reason = [], mg_created_at = 1, mg_closed_at = None\<rparr>],
      map_relations := [demo_relation ''r'' ''c'' ''t'', demo_relation ''r2'' ''l'' ''t'']\<rparr>\<rparr>"

text \<open>An observation that renames the table and takes it for removed.\<close>

definition demo_observation :: map_update where
  "demo_observation = \<lparr>mu_generation = 2, mu_expected_revision = 4, mu_source = ''observation'',
     mu_entities = [(demo_entity 2 ''t'' ''desk'' [])\<lparr>me_status := ''removed''\<rparr>], mu_remove_entity_ids = [''c''],
     mu_relations = [], mu_source_entities = [], mu_remove_relation_ids = [''r'']\<rparr>"

definition demo_query :: map_query where
  "demo_query = (everything 0)\<lparr>q_entity_id := ''c'', q_limit := 1\<rparr>"

lemmas demo_map_defs =
  demo_floats_def demo_pose_def demo_point_def demo_entity_def demo_relation_def demo_map_db_def demo_observation_def
  demo_query_def empty_db_def empty_desk_def

section \<open>Semantic maps\<close>

text \<open>
  C30.  What a user entered in a map survives every other source: an update by a Task, a simulation
  or an observation - accepted or refused - leaves every Entity in place with the values of all the
  fields marked manual (its existence, type, name, frame, pose, bounds, properties) and the marks
  themselves, and leaves every manual Relation as it was.
\<close>

theorem manual_edits_survive:
  assumes "mu_source v \<noteq> ''user''" "apply_map_update F project_id slot v now s = (r, t)"
  shows "(\<forall>k e. find_by me_key k (map_entities s) = Some e \<longrightarrow>
      (\<exists>e'. find_by me_key k (map_entities t) = Some e' \<and> manual_kept e e')) \<and>
    (\<forall>k x. find_by mr_key k (map_relations (desk s)) = Some x \<and> mr_manual x \<longrightarrow>
      find_by mr_key k (map_relations (desk t)) = Some x)"
  using keeps_run[OF manual_apply_map_update[OF assms(1)] assms(2)] by (simp add: manual_law_def)

theorem manual_edits_survive_witness:
  "\<exists>x t e. apply_map_update demo_floats ''p'' ''real_map'' demo_observation 7 demo_map_db = (Inr x, t) \<and>
     find_by me_key (''m'', 2, ''t'') (map_entities t) = Some e \<and> me_name e = ''my table'' \<and> me_status e = ''active'' \<and>
     find_by mr_key (''m'', 2, ''r'') (map_relations (desk t)) = Some (demo_relation ''r'' ''c'' ''t'')"
proof -
  have "succeeds (apply_map_update demo_floats ''p'' ''real_map'' demo_observation 7 demo_map_db)" by code_simp
  then obtain x t where run: "apply_map_update demo_floats ''p'' ''real_map'' demo_observation 7 demo_map_db = (Inr x, t)"
    by (auto dest: succeedsD)
  have source: "mu_source demo_observation \<noteq> ''user''" by (simp add: demo_observation_def)
  have rows: "find_by me_key (''m'', 2, ''t'') (map_entities demo_map_db) =
      Some (demo_entity 2 ''t'' ''my table'' [(''name'', True), (''existence'', True)])"
    "find_by mr_key (''m'', 2, ''r'') (map_relations (desk demo_map_db)) = Some (demo_relation ''r'' ''c'' ''t'')"
    by (simp_all add: demo_map_db_def me_key_def mr_key_def demo_entity_def demo_relation_def)
  note kept = manual_edits_survive[OF source run]
  from kept[THEN conjunct1] rows(1) obtain e where entity: "find_by me_key (''m'', 2, ''t'') (map_entities t) = Some e"
      "manual_kept (demo_entity 2 ''t'' ''my table'' [(''name'', True), (''existence'', True)]) e"
    by blast
  have "mr_manual (demo_relation ''r'' ''c'' ''t'')" by (simp add: demo_relation_def)
  with kept[THEN conjunct2] rows(2)
  have "find_by mr_key (''m'', 2, ''r'') (map_relations (desk t)) = Some (demo_relation ''r'' ''c'' ''t'')" by blast
  note entity this
  with run show ?thesis by (auto simp: manual_kept_def manual_def demo_entity_def)
qed

text \<open>
  C31.  Along every run of the writers of the maps - maps created, generations opened, updates - the
  current generation of a map is open and has the revision of the map, every earlier one is closed,
  and a closed generation never changes again: neither its row nor any Entity, Relation or source
  mapping in it.
\<close>

theorem closed_generations_are_frozen:
  assumes "map_run F s t" "map_ok s"
  shows "map_ok t \<and> frozen s t"
  using map_run_law[OF assms(1)] assms(2) by (simp add: map_law_def)

lemma demo_map_ok: "map_ok demo_map_db"
  by (simp add: map_ok_def demo_map_db_def mg_key_def empty_desk_def)

theorem closed_generations_are_frozen_witness:
  "map_ok (snd (create_map_generation ''p'' ''real_map'' 4 ''moved'' 9
      (snd (apply_map_update demo_floats ''p'' ''real_map'' demo_observation 7 demo_map_db)))) \<and>
   frozen demo_map_db (snd (create_map_generation ''p'' ''real_map'' 4 ''moved'' 9
      (snd (apply_map_update demo_floats ''p'' ''real_map'' demo_observation 7 demo_map_db))))"
proof -
  let ?s = "snd (apply_map_update demo_floats ''p'' ''real_map'' demo_observation 7 demo_map_db)"
  have "map_run demo_floats demo_map_db (snd (create_map_generation ''p'' ''real_map'' 4 ''moved'' 9 ?s))"
    unfolding map_run_def
    by (rule rtranclp.rtrancl_into_rtrancl[OF r_into_rtranclp]) (rule map_updated generation_created)+
  from closed_generations_are_frozen[OF this demo_map_ok] show ?thesis .
qed

text \<open>
  C32.  \<open>QuerySemanticMap\<close> returns a map without loose ends: both Entities of every Relation it
  returns are returned with it, a positive limit bounds the Relations, and nothing is written.
\<close>

theorem query_has_no_loose_ends:
  assumes "query_semantic_map F project_id slot wanted s = (Inr v, t)"
  shows "relation_ends (ms_relations v) \<subseteq> me_id ` set (ms_entities v) \<and>
    (0 < q_limit wanted \<longrightarrow> int (length (ms_relations v)) \<le> q_limit wanted) \<and> t = s"
  using assms by (rule map_query_closed)

theorem query_has_no_loose_ends_witness:
  "\<exists>v. query_semantic_map demo_floats ''p'' ''real_map'' demo_query demo_map_db = (Inr v, demo_map_db) \<and>
     relation_ends (ms_relations v) \<subseteq> me_id ` set (ms_entities v) \<and> int (length (ms_relations v)) \<le> 1"
proof -
  have "succeeds (query_semantic_map demo_floats ''p'' ''real_map'' demo_query demo_map_db)" by code_simp
  then obtain v t where run: "query_semantic_map demo_floats ''p'' ''real_map'' demo_query demo_map_db = (Inr v, t)"
    by (auto dest: succeedsD)
  have "q_limit demo_query = 1" by (simp add: demo_query_def everything_def)
  with query_has_no_loose_ends[OF run] run show ?thesis by auto
qed

text \<open>
  The limit cuts the list of all Relations before those of the selected Entity are looked for: with
  limit 1 the query for the lamp does not find the Relation of the lamp, which comes second.
\<close>

lemma query_limit_hides_relations:
  "(case fst (query_semantic_map demo_floats ''p'' ''real_map'' ((everything 0)\<lparr>q_entity_id := ''l'', q_limit := 1\<rparr>) demo_map_db) of
     Inr v \<Rightarrow> ms_relations v = [] | Inl _ \<Rightarrow> False)"
  by code_simp

section \<open>The event log\<close>

definition demo_log_event :: "string \<Rightarrow> string \<Rightarrow> event_row" where
  "demo_log_event i channel = \<lparr>er_id = i, er_project_id = [], er_session_id = ''c'', er_resource_type = ''task'',
     er_resource_id = ''t1'', er_revision = 0, er_sequence = 0, er_channel = channel, er_type = ''task.updated'',
     er_importance = [], er_agent_id = [], er_agent_role = [], er_parent = Raw (JObj []),
     er_payload = Raw JNull, er_ts = 0\<rparr>"

definition demo_log_db :: db where
  "demo_log_db = empty_db\<lparr>chat_sessions := [demo_conversation], desk := empty_desk\<lparr>event_rows :=
       [(demo_log_event ''1'' ''live'')\<lparr>er_project_id := ''p'', er_sequence := 1\<rparr>], event_sequences := [(''p'', 2)]\<rparr>\<rparr>"

lemma demo_log_numbered: "numbered demo_log_db"
proof -
  have old: "project_events demo_log_db ''p'' = [(demo_log_event ''1'' ''live'')\<lparr>er_project_id := ''p'', er_sequence := 1\<rparr>]"
    by code_simp
  have other: "project_events demo_log_db q = []" if "q \<noteq> ''p''" for q
    using that by (simp add: project_events_def demo_log_db_def empty_desk_def)
  have counters: "event_sequences (desk demo_log_db) = [(''p'', 2)]" by (simp add: demo_log_db_def empty_desk_def)
  show ?thesis
    unfolding numbered_def
  proof (intro conjI allI impI)
    fix q :: string
    show "map er_sequence (project_events demo_log_db q) = map int [1..<Suc (length (project_events demo_log_db q))]"
      by (cases "q = ''p''") (simp_all add: old other)
    show "map_of (event_sequences (desk demo_log_db)) q =
        (if project_events demo_log_db q = [] then None else Some (int (length (project_events demo_log_db q)) + 1))"
      by (cases "q = ''p''") (simp_all add: old other counters)
  qed (simp_all add: demo_log_db_def demo_log_event_def event_violation_def empty_desk_def channel_trace_def)
qed

text \<open>
  C33.  A client that was away misses nothing.  The events of a Project stay in the order in which they
  were written, whatever is written after them, by live and by trace channels and for other Projects;
  and a client that asks for what follows the last number it has seen gets exactly the events
  written since, none twice and none left out, while a number that was never given is refused
  with \<open>ErrEventGap\<close>.
\<close>

theorem clients_catch_up:
  assumes "numbered s" "\<And>ev. ev \<in> set evs \<Longrightarrow> er_sequence ev = 0" "p \<noteq> []"
  shows "numbered (record_events evs s) \<and>
    (\<exists>new. project_events (record_events evs s) p = project_events s p @ new \<and>
      list_project_events_after p (int (length (project_events s p))) 0 (record_events evs s) = (Inr new, record_events evs s)) \<and>
    (\<forall>k. length (project_events (record_events evs s) p) < k \<longrightarrow>
      list_project_events_after p (int k) 0 (record_events evs s) = (Inl ErrEventGap, record_events evs s))"
  using catch_up[OF assms] numbered_record[OF assms(1,2)] replay_is_the_rest[OF numbered_record[OF assms(1,2)] assms(3)]
  by simp

theorem clients_catch_up_witness:
  "list_project_events_after ''p'' 1 0 (record_events [demo_log_event ''2'' ''trace'', demo_log_event ''3'' ''live''] demo_log_db) =
     (Inr [(demo_log_event ''3'' ''live'')\<lparr>er_project_id := ''p'', er_sequence := 2\<rparr>],
      record_events [demo_log_event ''2'' ''trace'', demo_log_event ''3'' ''live''] demo_log_db)"
proof -
  let ?evs = "[demo_log_event ''2'' ''trace'', demo_log_event ''3'' ''live'']"
  let ?new = "(demo_log_event ''3'' ''live'')\<lparr>er_project_id := ''p'', er_sequence := 2\<rparr>"
  have old: "project_events demo_log_db ''p'' = [(demo_log_event ''1'' ''live'')\<lparr>er_project_id := ''p'', er_sequence := 1\<rparr>]"
    by code_simp
  have zero: "ev \<in> set ?evs \<Longrightarrow> er_sequence ev = 0" for ev by (auto simp: demo_log_event_def)
  have "project_events (record_events ?evs demo_log_db) ''p'' = project_events demo_log_db ''p'' @ [?new]" by code_simp
  with clients_catch_up[OF demo_log_numbered zero, where evs = ?evs and p = "''p''"] old show ?thesis by simp
qed

section \<open>The way of an event\<close>

text \<open>
  C34.  A mailbox of the bus loses nothing and keeps the order, whatever publishers, worker and
  subscriber do in whatever order, as long as it is not stopped: it accepts every reliable event and
  nothing that was not offered, in the order of the offers; what the subscriber has taken is a
  prefix of that; and without further offers the goroutines come to rest after finitely many moves,
  however they are scheduled, which they can only do when the subscriber has taken everything - the
  worker is never left asleep with events in the queue.
\<close>

theorem mailbox_loses_nothing:
  assumes "follow_all as (new_subscription, [], []) = Some (m, acc, got)" "Halt \<notin> set as"
  shows "subseq (reliable as) acc \<and> subseq acc (offered as) \<and> prefix got acc \<and>
    (\<forall>bs m' acc' got'. list_all own bs \<and> follow_all bs (m, acc, got) = Some (m', acc', got') \<longrightarrow>
       length bs \<le> mail_left m \<and> acc' = acc \<and> ((\<forall>a. own a \<longrightarrow> mail_move a m' = None) \<longrightarrow> got' = acc))"
  using assms by (rule mailbox_delivers)

definition demo_moves :: "nat move list" where
  "demo_moves = replicate 66 (Offer \<lparr>be_topic = ''t'', be_payload = Some 1, be_ts = 0\<rparr> False) @
     [Signal, Look, Take, Send, Offer \<lparr>be_topic = ''t'', be_payload = Some 2, be_ts = 0\<rparr> False, Settle, Take]"

theorem mailbox_loses_nothing_witness:
  "\<exists>m acc got. follow_all demo_moves (new_subscription, [], []) = Some (m, acc, got) \<and>
     subseq (reliable demo_moves) acc \<and> prefix got acc \<and> length got = 2 \<and> length acc = 67"
proof -
  have "case follow_all demo_moves (new_subscription, [], []) of Some (m, acc, got) \<Rightarrow> length got = 2 \<and> length acc = 67 | None \<Rightarrow> False"
    by code_simp
  then obtain m acc got where run: "follow_all demo_moves (new_subscription, [], []) = Some (m, acc, got)"
      "length got = 2" "length acc = 67"
    by (auto split: option.splits)
  have "Halt \<notin> set demo_moves" by (simp add: demo_moves_def)
  from mailbox_loses_nothing[OF run(1) this] run show ?thesis by blast
qed

text \<open>
  C35.  No event is lost between the aggregator and the browser: for every open connection of the
  Studio, whatever the aggregator, the hub, the readers, the writers and other connections do, each
  event of the Project stored since the connection subscribed - and each one after the number its
  client asked to be replayed from - is written to its socket, in its send buffer, among the
  answers its reader is about to give, or in the hands of the aggregator on its way to this
  connection, as an envelope that stands for exactly the stored row.
\<close>

theorem studio_misses_nothing:
  assumes "pipe_run trunc as s = Some t" "list_all publishable as" "numbered (pp_db s)" "readable (pp_db s)"
    and "pp_conns s = Map.empty" "pp_conns t i = Some c" "\<not> wc_done c" "wc_project c \<noteq> []"
    and "row \<in> set (drop (wc_from c) (project_events (pp_db t) (wc_project c)))"
  shows "\<exists>env. to_record env = Some row \<and>
    (WsEvent env \<in> set (wc_written c) \<union> set (wc_send c) \<union> set (wc_todo c) \<or> (\<exists>ts. pp_agg t = Some (env, ts) \<and> i \<in> set ts))"
  using studio_log[OF assms] by (simp add: on_the_way_def)

definition demo_envelope :: envelope where
  "demo_envelope = \<lparr>en_id = [], en_project_id = [], en_session_id = ''c'', en_resource_type = ''task'', en_resource_id = ''t1'',
     en_revision = 2, en_sequence = 0, en_ts = 0, en_agent_id = [], en_agent_role = [], en_agent_name = [], en_channel = ''alert'',
     en_type = ''task.updated'', en_importance = [], en_run_id = ''r'', en_trace_id = [],
     en_payload = FieldsPayload [(''level'', JInt 3)]\<rparr>"

definition demo_pipe :: pipe where
  "demo_pipe = \<lparr>pp_db = demo_log_db, pp_seq = 0, pp_hub = \<lparr>wh_sessions = [], wh_projects = [], wh_all = []\<rparr>,
     pp_conns = Map.empty, pp_agg = None\<rparr>"

definition demo_pipe_moves :: "pipe_move list" where
  "demo_pipe_moves = [POpen 1 ''p'', PTake 5 (Some demo_envelope), PSync 1 0, PHand 1 False, PAnswer 1 False, PWrite 1 True]"

theorem studio_misses_nothing_witness:
  "\<exists>t c row env. pipe_run (\<lambda>_. 0) demo_pipe_moves demo_pipe = Some t \<and> pp_conns t 1 = Some c \<and> wc_from c = 0 \<and>
     project_events (pp_db t) ''p'' ! 1 = row \<and> er_importance row = ''critical'' \<and> to_record env = Some row \<and>
     (WsEvent env \<in> set (wc_written c) \<union> set (wc_send c) \<union> set (wc_todo c) \<or> (\<exists>ts. pp_agg t = Some (env, ts) \<and> 1 \<in> set ts))"
proof -
  have "case pipe_run (\<lambda>_. 0) demo_pipe_moves demo_pipe of None \<Rightarrow> False
    | Some t \<Rightarrow> (case pp_conns t 1 of None \<Rightarrow> False
      | Some c \<Rightarrow> \<not> wc_done c \<and> wc_project c = ''p'' \<and> wc_from c = 0 \<and> length (project_events (pp_db t) ''p'') = 2 \<and>
          er_importance (project_events (pp_db t) ''p'' ! 1) = ''critical'')"
    by code_simp
  then obtain t c where run: "pipe_run (\<lambda>_. 0) demo_pipe_moves demo_pipe = Some t" "pp_conns t 1 = Some c" "\<not> wc_done c"
      "wc_project c = ''p''" "wc_from c = 0" "length (project_events (pp_db t) ''p'') = 2"
      "er_importance (project_events (pp_db t) ''p'' ! 1) = ''critical''"
    by (auto split: option.splits)
  have moves: "list_all publishable demo_pipe_moves" by (simp add: demo_pipe_moves_def publishable_def demo_envelope_def)
  have row: "to_record (the (from_record r)) = Some r" if "r = (demo_log_event ''1'' ''live'')\<lparr>er_project_id := ''p'', er_sequence := 1\<rparr>" for r
    unfolding that by code_simp
  have "readable demo_log_db" using row by (auto simp: readable_def demo_log_db_def empty_desk_def)
  then have start: "numbered (pp_db demo_pipe)" "readable (pp_db demo_pipe)" "pp_conns demo_pipe = Map.empty"
    using demo_log_numbered by (simp_all add: demo_pipe_def)
  have "project_events (pp_db t) ''p'' ! 1 \<in> set (drop (wc_from c) (project_events (pp_db t) (wc_project c)))"
    using run(4-6) by (simp add: nth_mem)
  from studio_misses_nothing[OF run(1) moves start run(2,3) _ this] run show ?thesis by fastforce
qed

section \<open>Projects\<close>

definition demo_disk :: disk where
  "demo_disk = \<lparr>dk_workspace = (\<lambda>i. ''/work/'' @ i), dk_mkdir = (\<lambda>_. True)\<rparr>"

definition demo_spare :: project where
  "demo_spare = demo_project\<lparr>pr_id := ''q'', pr_name := ''lab'', pr_is_default := False, pr_is_active := False\<rparr>"

definition demo_projects_db :: db where
  "demo_projects_db = empty_db\<lparr>projects := [demo_project, demo_spare]\<rparr>"

text \<open>
  C36.  One Project of the installation is active.  Along every run of the operations on Projects -
  default Projects, creation, renaming, activation, archiving, modes, preferences, bindings; successful
  or refused - at most one Project is active and it is not archived; once one is active one always
  is; unfinished Workflows, Runs and questions stay in the active Project (or one of the system);
  and no Project is lost, changes its owner or comes back from the archive.
\<close>

theorem one_active_project:
  assumes "(project_step D)\<^sup>*\<^sup>* s t" "projects_ok s"
  shows "projects_ok t \<and> (held s \<longrightarrow> held t) \<and> (confined s \<longrightarrow> confined t) \<and>
    (\<forall>p \<in> set (projects s). \<exists>q \<in> set (projects t). aged p q)"
  using project_run_law[OF assms(1)] assms(2) by (simp add: project_law_def)

theorem one_active_project_witness:
  "projects_ok (snd (archive_project ''u'' ''q'' 2 9 (snd (activate_project ''u'' ''q'' 5 demo_projects_db)))) \<and>
   held (snd (archive_project ''u'' ''q'' 2 9 (snd (activate_project ''u'' ''q'' 5 demo_projects_db)))) \<and>
   map (\<lambda>p. (pr_id p, pr_is_active p, pr_archived_at p))
     (projects (snd (archive_project ''u'' ''q'' 2 9 (snd (activate_project ''u'' ''q'' 5 demo_projects_db))))) =
     [(''p'', True, None), (''q'', False, Some 9)]"
proof -
  let ?s = "snd (activate_project ''u'' ''q'' 5 demo_projects_db)"
  have run: "(project_step demo_disk)\<^sup>*\<^sup>* demo_projects_db (snd (archive_project ''u'' ''q'' 2 9 ?s))"
    by (rule rtranclp.rtrancl_into_rtrancl[OF r_into_rtranclp]) (rule project_step.intros)+
  have "projects_ok demo_projects_db" "held demo_projects_db"
    by (simp_all add: projects_ok_def held_def project_violation_def demo_projects_db_def demo_spare_def demo_project_def)
  then have "projects_ok (snd (archive_project ''u'' ''q'' 2 9 ?s))" "held (snd (archive_project ''u'' ''q'' 2 9 ?s))"
    using one_active_project[OF run] by blast+
  moreover have "map (\<lambda>p. (pr_id p, pr_is_active p, pr_archived_at p)) (projects (snd (archive_project ''u'' ''q'' 2 9 ?s))) =
      [(''p'', True, None), (''q'', False, Some 9)]"
    by code_simp
  ultimately show ?thesis by blast
qed

section \<open>Interactions\<close>

text \<open>
  C37.  The end of a question is final.  Along every run of the operations on Interactions, once a
  question has been answered, has expired or was cancelled, its status, its reply and the time of
  its end stay as they are, and every later answer, expiry or cancellation is refused and changes
  nothing.
\<close>

theorem answers_are_final:
  assumes "interaction_step\<^sup>*\<^sup>* s t" "distinct (map i_id (interactions s))"
    and "find_by i_id i (interactions s) = Some x" "i_status x \<noteq> IPending"
  shows "(\<exists>y. find_by i_id i (interactions t) = Some y \<and> i_status y = i_status x \<and> i_reply y = i_reply x \<and>
      i_answered_at y = i_answered_at x \<and> i_expired_at y = i_expired_at x \<and> i_cancelled_at y = i_cancelled_at x) \<and>
    answer_interaction_at_revision i reply n now t = (Inl ErrNotPending, t) \<and>
    expire_interaction i now t = (Inl ErrNotPending, t) \<and> cancel_interaction i now t = (Inl ErrNotPending, t)"
proof -
  from interaction_run_law[OF assms(1)] assms(2,3) obtain y
    where y: "distinct (map i_id (interactions t))" "find_by i_id i (interactions t) = Some y" "settled x y"
    by (auto simp: interaction_law_def)
  with assms(4) show ?thesis by (simp add: settled_def ended_refuses[OF y(1,2)])
qed

definition demo_asked :: db where
  "demo_asked = empty_db\<lparr>projects := [demo_project], chat_sessions := [demo_conversation],
     interactions := [demo_question\<lparr>i_status := IPending, i_reply := NoRaw, i_answered_at := None\<rparr>]\<rparr>"

theorem answers_are_final_witness:
  "\<exists>y. find_by i_id ''q'' (interactions (snd (cancel_pending_interactions ''c'' 8
        (snd (answer_interaction_at_revision ''q'' (Raw (JStr ''yes'')) 1 5 demo_asked))))) = Some y \<and>
     i_status y = IAnswered \<and> i_reply y = Raw (JStr ''yes'') \<and> i_answered_at y = Some 5"
proof -
  let ?s = "snd (answer_interaction_at_revision ''q'' (Raw (JStr ''yes'')) 1 5 demo_asked)"
  have "case find_by i_id ''q'' (interactions ?s) of None \<Rightarrow> False
      | Some x \<Rightarrow> i_status x = IAnswered \<and> i_reply x = Raw (JStr ''yes'') \<and> i_answered_at x = Some 5"
    and keys: "distinct (map i_id (interactions ?s))"
    by code_simp+
  then obtain x where x: "find_by i_id ''q'' (interactions ?s) = Some x" "i_status x = IAnswered"
      "i_reply x = Raw (JStr ''yes'')" "i_answered_at x = Some 5"
    by (auto split: option.splits)
  have run: "interaction_step\<^sup>*\<^sup>* ?s (snd (cancel_pending_interactions ''c'' 8 ?s))"
    by (rule r_into_rtranclp) (rule interaction_step.intros)
  have "i_status x \<noteq> IPending" using x(2) by simp
  from answers_are_final[OF run keys x(1) this, THEN conjunct1] x(2-4) show ?thesis by (elim exE conjE) (intro exI conjI; simp)
qed

end
