(* ===== verification/Spec2Isabelle.thy ===== *)
theory Spec2Isabelle
  imports Demo RobotRestart RobotReports StudioGuarantees
begin

text \<open>
  A model of the core of Semantic Framework: the plans a user approves, the state machines their
  Tasks go through, the scheduling of Agents, and the Robots that carry out physical actions.
  Paths below are relative to \<open>src/internal/\<close>.

  \<^bold>\<open>The parts and how they interact.\<close>  The store (\<open>store/\<close>) keeps Workflows, Tasks, SubTasks,
  Plan Proposals, Agent Runs, Interactions and Robot Executions in SQLite; every change is one
  statement or transaction that names the revision the caller has read.  The Workflow service
  (\<open>workflow/\<close>) owns the in-memory gates and the goroutines: it approves proposals, binds Tasks to
  Agents and Robots, starts Agent Runs, turns the lifecycle of an Execution into the state of its
  SubTask, and stops, pauses, resumes and recovers Workflows.  The Robot service (\<open>robot/\<close>) keeps a
  session with a command queue for every connected Pilot, admits Executions, sends them to the robot
  and turns the reports of the Pilot into rows and events; the orchestrator (\<open>robotruntime/\<close>) starts
  and stops the Runtimes of simulated robots.  The bootstrap wires the two services to each other:
  each is a port of the other.  Agents, Conversations and launchers are ports.

  \<^bold>\<open>Theories and sources.\<close>
  \<^item> \<open>Prelude\<close>: errors, programs \<open>'s \<Rightarrow> (error + 'a) \<times> 's\<close> with one combinator for each way the code
    treats an error, tables as lists, JSON values.  \<open>frame_relation\<close> is the preorder a program
    keeps on every path.
  \<^item> \<open>StoreData\<close> (\<open>store/workflow.go\<close>, \<open>robot.go\<close>, \<open>chat.go\<close>, \<open>plan_proposal.go\<close>, \<open>interaction.go\<close>,
    \<open>project.go\<close>, \<open>migrate*.go\<close>): a record per Go struct, the database, the constraints of the
    schema, transactions that roll back.
  \<^item> \<open>StoreGraph\<close>, \<open>StorePlanCheck\<close> (\<open>store/workflow.go\<close>: \<open>validateDraft\<close>, \<open>validateSubTaskDrafts\<close>):
    Kahn's algorithm accepts exactly the acyclic graphs, and the validators exactly the
    well-formed drafts.
  \<^item> \<open>StoreQuery\<close>, \<open>StoreWorkflow\<close>, \<open>StoreTransition\<close> (\<open>store/workflow.go\<close>: reads, \<open>TransitionWorkflow\<close>,
    \<open>TransitionTask\<close>, \<open>TransitionSubTask\<close>, assignments): every branch of the transitions, and the
    locale \<open>revisioned\<close> for optimistic locking.
  \<^item> \<open>StorePlan\<close>, \<open>StoreProposal\<close>, \<open>StoreApproval\<close> (\<open>store/plan_proposal.go\<close>, \<open>workflow.go\<close>): the JSON
    text of a plan, the rows of a plan, submission, discard and the approving transaction.
  \<^item> \<open>StoreRun\<close>, \<open>StoreRobot\<close>, \<open>StoreOnce\<close> (\<open>store/chat.go\<close>, \<open>interaction.go\<close>,
    \<open>task_continuation.go\<close>, \<open>robot.go\<close>, \<open>robot_admission.go\<close>): Runs, Interactions, continuations,
    Executions and their events, admission; the operations a client may repeat.
  \<^item> \<open>StoreSteps\<close>, \<open>StoreLaws\<close>, \<open>StoreLogs\<close>: the step relations of the rows and the locale
    \<open>store_client\<close>, the interface the services rely on, with its providers: rows only move along
    their state machines under the constraints of the schema, logs only grow, and (for whoever does
    not write them) the Executions stay.
  \<^item> \<open>StoreFleet\<close> (\<open>store/robot.go\<close>, \<open>pilot_enrollment.go\<close>, \<open>robot_runtime.go\<close>): Pilots, Skills, join
    codes, Runtime instances and port leases.
  \<^item> \<open>StoreMaps\<close>, \<open>StoreMapLaws\<close> (\<open>store/semantic_map.go\<close>): the semantic maps of a Project, their
    generations, updates and queries; what a user entered survives, closed generations are frozen,
    and what a query returns is closed under its Relations.
  \<^item> \<open>StoreEvents\<close> (\<open>store/events.go\<close>, \<open>events_run.go\<close>): the numbered events of a Project and their
    replay.
  \<^item> \<open>EventBus\<close> (\<open>event/bus.go\<close>): the mailboxes of the bus as interleaved moves of goroutines.
    \<open>EventPipe\<close> (\<open>server/aggregate/\<close>, \<open>server/ws/hub.go\<close>, \<open>gateway.go\<close>, \<open>studio.go\<close>): the way of an
    event from the bus through the log and the hub to the socket of a browser.
  \<^item> \<open>StoreProject\<close>, \<open>StoreProjectLaws\<close> (\<open>store/project.go\<close>, \<open>project_simulation.go\<close>): Projects, of which one is
    active, and what every operation on them keeps.
    \<open>StoreInteraction\<close> (\<open>store/interaction.go\<close>): creating, listing and ending Interactions.
  \<^item> \<open>SvcBase\<close> (\<open>workflow/service.go\<close> type \<open>Service\<close>, \<open>types.go\<close>, \<open>events.go\<close>, the gates of
    \<open>scheduler.go\<close>), \<open>SvcSafety\<close> (what the event log of an Execution proves), \<open>SvcStop\<close>, \<open>SvcSchedule\<close>,
    \<open>SvcJobs\<close> (\<open>scheduler.go\<close>), \<open>SvcRobot\<close>, \<open>SvcObserve\<close> (\<open>robot_execution.go\<close>), \<open>SvcApi\<close>, \<open>SvcRecover\<close>
    (\<open>service.go\<close>, \<open>proposal.go\<close>, Interactions and restart of \<open>scheduler.go\<close>): one program per Go
    method; \<open>serve\<close> dispatches the requests, \<open>run_job\<close> the goroutines.
  \<^item> \<open>SvcKeeps\<close>, \<open>SvcServer\<close>: every handler keeps the relations of \<open>store_client\<close>, hence every run of
    the server does (\<open>server_step\<close>, \<open>server_run\<close>, and the executable \<open>play\<close>).
  \<^item> \<open>SvcGuarantees\<close>, \<open>SvcRestart\<close>: gates, stopping on evidence, stale requests, resuming, attempts
    at a decision, and the restart.
  \<^item> \<open>RobotState\<close>, \<open>RobotBase\<close>, \<open>RobotRun\<close>, \<open>RobotEvents\<close>, \<open>RobotFleet\<close>, \<open>RobotDevices\<close> (\<open>robot/\<close>): the
    memory of the Robot service (\<open>hub\<close>), its commands and device events, \<open>Run\<close> and \<open>Stop\<close>, the
    reports of a Pilot, connections and Skills, the device page.  \<open>RuntimeOrch\<close>
    (\<open>robotruntime/orchestrator.go\<close>, \<open>catalog.go\<close>): starting and stopping a Runtime.
  \<^item> \<open>RobotKeeps\<close>, \<open>RobotServer\<close>, \<open>RobotHub\<close>: the locales \<open>fleet_client\<close>, \<open>robot_client\<close> (the store),
    \<open>fleet_service\<close>, \<open>robot_service\<close> (store and memory), in whose contexts every handler keeps the
    relation; the providers, among them the invariant \<open>hub_ok\<close> of the memory.
  \<^item> \<open>RobotWired\<close>, \<open>FleetServer\<close> (\<open>bootstrap/wire_access.go\<close>, \<open>robot_map_checkpoint.go\<close>): the two services
    wired to each other and every run of the whole server (\<open>fleet_step\<close>, \<open>fleet_run\<close>, \<open>play_fleet\<close>).
  \<^item> \<open>RobotReports\<close>: late reports revive nothing, with the observers behind them, which may have other
    robots stopped.  \<open>RobotRestart\<close>: the wiring at the time of the recovery and what a stop of the
    Robot service then does to the Workflows.  \<open>RobotGuarantees\<close>: a failed Run leaves nothing
    active, an unconfirmed stop keeps the port.
  \<^item> \<open>Demo\<close>: the concrete data of the witnesses.
  \<^item> \<open>StudioGuarantees\<close>: the properties of the semantic maps, the events, Projects and Interactions,
    with their data.

  \<^bold>\<open>What is proved.\<close>  C1 to C4: drafts, approval and the stored plan.  C5: the transitions.
  C6 to C10: work done once and admission.  C11: progress of an acyclic plan.  C12 to C14: every
  run of the Workflow service.  C15 to C19: gates, stopping, resuming, stale requests, restart.
  C20, C21: the readings of an event log.  C22 to C24: decisions, answers and recovery.  C25: the
  services wired together.  C26, C27: Executions on a robot.  C28, C29: Runtimes and joining.  C30
  to C37 (in \<open>StudioGuarantees\<close>): semantic maps (C30 to C32), the event log (C33), the bus (C34),
  the connections of the Studio (C35), Projects (C36) and Interactions (C37).

  \<^bold>\<open>Modelling choices.\<close>
  \<^item> A handler runs atomically; a \<open>go\<close> statement appends a job that runs later, in any order.  A
    port is a program on the whole server, since other handlers may run while it does: \<open>ro_wait\<close> is
    what runs while \<open>sendCommandAndWait\<close> waits, \<open>ro_await\<close> and \<open>oe_await\<close> what runs until a lock is
    free, \<open>ro_send_wins\<close> the choice of a \<open>select\<close> with two ready cases.
  \<^item> A Go map is an association list, a channel the list of its elements; a session keeps a number in
    the place of the identity of its pointer.  SHA-256, \<open>time.Parse\<close> and floating-point numbers of a
    Pilot are parameters.
  \<^item> A context is the list of cancellation tokens above it.
  \<^item> Identifiers (\<open>uuid.NewString\<close>) are drawn from a counter, so they never repeat; a rollback does
    not give them back.
  \<^item> \<open>int64\<close> revisions and sequence numbers are integers: no operation does arithmetic on them that
    could leave 64 bits in less than \<open>2 ^ 62\<close> steps.
  \<^item> A \<open>json.RawMessage\<close> is absent, a JSON value, or a text that does not parse; white space and the
    case-insensitive match of keys by \<open>encoding/json\<close> are not represented.  A nil map is the empty
    map.  The Chinese texts of reasons and errors are ASCII texts, one for each.
  \<^item> SQL errors other than missing rows and violated constraints do not occur; values returned
    together with an error are dropped where no caller reads them.
  \<^item> \<open>renderPlanDocument\<close> is an argument of \<open>serve\<close>.

  \<^bold>\<open>Bounds.\<close>  The two safety readings page through a log of any length (\<open>safely_held_from\<close>,
  \<open>may_have_physical_from\<close> terminate because each page moves the cursor); \<open>held_pages\<close> gives the
  number of pages.  Stopping a row retries a lost race three times and a decision is attempted
  three times: both are the constants of the code, not fuel.  All other loops run over lists.

  \<^bold>\<open>Not modelled.\<close>  The Agents themselves (\<open>agent/\<close>: calls to a language model and tools), the Pilot
  process, HTTP and websocket transport, process supervision, installation, configuration and
  bootstrap, Conversation queries and checkpoints, and the simulation scenes: they are I/O around
  the logic above or parameters of it.
\<close>

section \<open>Plans\<close>

text \<open>
  C1.  \<open>ApprovePlanProposal\<close> turns a ready proposal, at the revision the client has read, into
  exactly one new running Workflow at revision 1, confirmed, provided its Project has no open
  one: the Tasks are the rows of the validated draft in its order, under an injective renaming
  of the draft's identifiers, the dependencies are the image of the draft's dependencies and
  have no cycle, and the proposal is approved at the next revision.
\<close>

theorem approve_creates_the_plan:
  assumes "approve_plan_proposal i n now s = (Inr v, t)"
  shows "\<exists>p j d0 d s1 f.
    find_by pp_id i (plan_proposals s) = Some p \<and> pp_revision p = n \<and> pp_status p = PReady \<and>
    pp_structured_plan p = Raw j \<and> draft_of_json j = Some d0 \<and> validate_draft d0 s = (Inr d, s1) \<and>
    wdr_tasks d \<noteq> [] \<and> open_workflows (pp_project_id p) s = 0 \<and>
    v_workflow v = approved_workflow (w_id (v_workflow v)) p d now \<and>
    workflows t = workflows s @ [v_workflow v] \<and> workflow_violation (workflows t) = None \<and>
    v_tasks v = plan_rows f (w_id (v_workflow v)) d now \<and>
    inj_on f (tdr_id ` set (wdr_tasks d)) \<and>
    dep_edges (v_dependencies v) = map_prod f f ` set (wdr_dependencies d) \<and>
    acyclic (dep_edges (v_dependencies v)) \<and>
    find_by pp_id i (plan_proposals t) =
      Some (p\<lparr>pp_status := PApproved, pp_revision := n + 1, pp_updated_at := now\<rparr>)"
  using assms by (rule approve_Inr)

theorem approve_creates_the_plan_witness:
  "\<exists>v t. approve_plan_proposal ''plan-0'' 1 5 demo_db = (Inr v, t) \<and>
     workflows t = [v_workflow v] \<and> w_status (v_workflow v) = WSRunning \<and> acyclic (dep_edges (v_dependencies v))"
proof -
  have "succeeds (approve_plan_proposal ''plan-0'' 1 5 demo_db)" by code_simp
  then obtain v t where run: "approve_plan_proposal ''plan-0'' 1 5 demo_db = (Inr v, t)"
    by (auto dest: succeedsD)
  have "workflows demo_db = []" by (simp add: demo_defs)
  with approve_creates_the_plan[OF run] run show ?thesis
    by (auto simp: approved_workflow_def dest: arg_cong[where f = w_status])
qed

text \<open>
  An approval that fails, at whatever statement, leaves every table as it was.
\<close>

theorem failed_approval_rolls_back:
  assumes "approve_plan_proposal i n now s = (Inl e, t)"
  shows "same_tables s t"
  using assms by (rule approve_Inl)

theorem failed_approval_rolls_back_witness:
  "\<exists>t. approve_plan_proposal ''plan-0'' 2 5 demo_db = (Inl ErrRevisionConflict, t) \<and> same_tables demo_db t"
proof -
  have "fst (approve_plan_proposal ''plan-0'' 2 5 demo_db) = Inl ErrRevisionConflict" by code_simp
  then obtain t where "approve_plan_proposal ''plan-0'' 2 5 demo_db = (Inl ErrRevisionConflict, t)"
    by (cases "approve_plan_proposal ''plan-0'' 2 5 demo_db") auto
  with failed_approval_rolls_back[OF this] show ?thesis by auto
qed

text \<open>
  C2.  \<open>validateDraft\<close> on a draft whose Tasks and SubTasks carry their identifiers: it accepts
  exactly the well-formed drafts (non-blank goals, roles and kinds, distinct identifiers,
  dependencies between existing and different Tasks, no cycle), returns them with the roles
  trimmed, and writes nothing.
\<close>

theorem validate_draft_exact:
  assumes "named_draft d"
  shows "validate_draft d s = (Inr d', t) \<longleftrightarrow> d' = trim_roles d \<and> t = s \<and> well_formed_draft d'"
  using assms by (rule validate_draft_named)

theorem validate_draft_exact_witness:
  "named_draft demo_draft \<and> validate_draft demo_draft empty_db = (Inr (trim_roles demo_draft), empty_db) \<and>
     well_formed_draft (trim_roles demo_draft)"
proof -
  have named: "named_draft demo_draft" by code_simp
  have "succeeds (validate_draft demo_draft empty_db)" by code_simp
  then obtain d' t where "validate_draft demo_draft empty_db = (Inr d', t)" by (auto dest: succeedsD)
  with validate_draft_exact[OF named, of empty_db d' t] named show ?thesis by auto
qed

text \<open>
  C3.  Any draft \<open>validateDraft\<close> returns, identifiers drawn where the Agent left them out, is
  well formed and has the Tasks of the submitted draft.
\<close>

theorem validated_draft_is_well_formed:
  assumes "validate_draft d s = (Inr d', t)"
  shows "well_formed_draft d' \<and> length (wdr_tasks d') = length (wdr_tasks d)"
  using assms by (rule validate_draft_sound)

definition demo_unnamed :: workflow_draft where
  "demo_unnamed = demo_draft\<lparr>wdr_tasks := [demo_task_draft []], wdr_dependencies := []\<rparr>"

theorem validated_draft_is_well_formed_witness:
  "\<exists>d' t. validate_draft demo_unnamed empty_db = (Inr d', t) \<and> well_formed_draft d' \<and> length (wdr_tasks d') = 1"
proof -
  have "succeeds (validate_draft demo_unnamed empty_db)" by code_simp
  then obtain d' t where run: "validate_draft demo_unnamed empty_db = (Inr d', t)" by (auto dest: succeedsD)
  with validated_draft_is_well_formed[OF run] show ?thesis by (auto simp: demo_unnamed_def)
qed

text \<open>
  \<open>validateSubTaskDrafts\<close> accepts exactly the non-empty lists of well-formed SubTasks whose
  dependencies stay inside the list and have no cycle.
\<close>

theorem validate_subtask_drafts_exact:
  assumes "named_subtasks items"
  shows "validate_subtask_drafts items s = (Inr items', t) \<longleftrightarrow> items' = items \<and> t = s \<and> well_formed_items items'"
  using assms by (rule validate_subtask_drafts_named)

theorem validate_subtask_drafts_exact_witness:
  "well_formed_items [demo_subtask_draft ''x'' [], demo_subtask_draft ''y'' [''x'']] \<and>
   \<not> well_formed_items [demo_subtask_draft ''x'' [''y''], demo_subtask_draft ''y'' [''x'']]"
proof -
  let ?good = "[demo_subtask_draft ''x'' [], demo_subtask_draft ''y'' [''x'']]"
  let ?bad = "[demo_subtask_draft ''x'' [''y''], demo_subtask_draft ''y'' [''x'']]"
  have named: "named_subtasks ?good" "named_subtasks ?bad" by code_simp+
  have "succeeds (validate_subtask_drafts ?good empty_db)" "\<not> succeeds (validate_subtask_drafts ?bad empty_db)"
    by code_simp+
  then obtain items' t e u where "validate_subtask_drafts ?good empty_db = (Inr items', t)"
    "validate_subtask_drafts ?bad empty_db = (Inl e, u)" by (auto dest!: succeedsD failsD)
  with validate_subtask_drafts_exact[OF named(1), of empty_db items' t]
    validate_subtask_drafts_exact[OF named(2), of empty_db ?bad empty_db]
  show ?thesis by auto
qed

text \<open>
  C4.  The structured plan of a proposal is the draft: what \<open>json.Marshal\<close> stores,
  \<open>json.Unmarshal\<close> reads back unchanged when the proposal is approved.
\<close>

theorem stored_plan_roundtrip:
  assumes "draft_json d = Some j"
  shows "draft_of_json j = Some d"
  using assms by (rule draft_roundtrip)

theorem stored_plan_roundtrip_witness:
  "\<exists>j. draft_json demo_draft = Some j \<and> draft_of_json j = Some demo_draft"
proof -
  have "draft_json demo_draft \<noteq> None" by code_simp
  then show ?thesis using stored_plan_roundtrip by blast
qed

section \<open>State machines\<close>

text \<open>
  C5.  Optimistic locking: of any number of transitions of one Task, SubTask or Workflow that
  name the same revision, in any order and to any status, at most one succeeds.
\<close>

theorem one_transition_per_revision:
  "successes (map (\<lambda>(to, reason, summary, evidence, now). transition_task i n to reason summary evidence now) ms) s \<le> 1 \<and>
   successes (map (\<lambda>(to, reason, result, now). transition_subtask i n to reason result now) ms') s \<le> 1 \<and>
   successes (map (\<lambda>(to, reason, now). transition_workflow_with_reason i n to reason now) ms'') s \<le> 1"
  using task_move.one_winner subtask_move.one_winner workflow_move.one_winner by blast

text \<open>
  A terminal Task, SubTask or Workflow never moves again.
\<close>

theorem terminal_rows_stay:
  "(\<forall>t. find_by t_id i (tasks s) = Some t \<and> terminal_work_status (t_status t) \<longrightarrow>
      \<not> succeeds (transition_task i n to reason summary evidence now s)) \<and>
   (\<forall>x. find_by st_id i (subtasks s) = Some x \<and> terminal_work_status (st_status x) \<longrightarrow>
      \<not> succeeds (transition_subtask i n to reason summary' now s)) \<and>
   (\<forall>w. find_by w_id i (workflows s) = Some w \<and> terminal_work_status (w_status w) \<longrightarrow>
      \<not> succeeds (transition_workflow_with_reason i n to reason now s))"
  using task_move.terminal_move_fails[where s = s and i = i and n = n and to = to and m = "(reason, summary, evidence, now)"]
    subtask_move.terminal_move_fails[where s = s and i = i and n = n and to = to and m = "(reason, summary', now)"]
    workflow_move.terminal_move_fails[where s = s and i = i and n = n and to = to and m = "(reason, now)"]
  by (auto simp: succeeds_def split: sum.splits)

theorem terminal_rows_stay_witness:
  "\<not> succeeds (transition_task ''a'' 1 WSRunning [] [] NoRaw 5
      (demo_running\<lparr>tasks := [demo_task ''a'' 0 WSCompleted []]\<rparr>))"
  using terminal_rows_stay[of "''a''" "demo_running\<lparr>tasks := [demo_task ''a'' 0 WSCompleted []]\<rparr>"]
  by (simp add: demo_task_def terminal_work_status_def)

text \<open>
  A Workflow transition that succeeds was allowed by the table from the stored status, at
  the stored revision; to run again the stored revision must be the confirmed one; the row moves
  to the next revision, which stays confirmed exactly if the old one was; Tasks, SubTasks, Runs
  and Executions are untouched.
\<close>

theorem workflow_transition_effect:
  assumes "transition_workflow_with_reason i expected to reason now s = (Inr w, t)"
  shows "\<exists>w0 confirmed. find_by w_id i (workflows s) = Some w0 \<and> w_revision w0 = expected \<and>
    allowed_workflow_transition (w_status w0) to \<and>
    (to = WSRunning \<longrightarrow> w_confirmed_revision w0 = w_revision w0) \<and>
    confirmed = (if w_confirmed_revision w0 = w_revision w0 then expected + 1 else w_confirmed_revision w0) \<and>
    w = move_workflow to reason confirmed now w0 \<and>
    workflows t = update_where (workflow_at i expected) (move_workflow to reason confirmed now) (workflows s) \<and>
    tasks t = tasks s \<and> subtasks t = subtasks s \<and> runs t = runs s \<and> executions t = executions s"
  using assms by (rule transition_workflow_Inr)

theorem workflow_transition_effect_witness:
  "\<exists>w t. transition_workflow_with_reason ''wf'' 1 WSPaused ''why'' 5 demo_running = (Inr w, t) \<and>
     w_confirmed_revision w = 2 \<and> tasks t = tasks demo_running"
proof -
  have "succeeds (transition_workflow_with_reason ''wf'' 1 WSPaused ''why'' 5 demo_running)" by code_simp
  then obtain w t where run: "transition_workflow_with_reason ''wf'' 1 WSPaused ''why'' 5 demo_running = (Inr w, t)"
    by (auto dest: succeedsD)
  have "find_by w_id ''wf'' (workflows demo_running) = Some demo_workflow" by (simp add: demo_defs)
  with workflow_transition_effect[OF run] run show ?thesis by (auto simp: demo_workflow_def)
qed

section \<open>Work that is done once\<close>

text \<open>
  C6.  \<open>SubmitPlanProposalForRun\<close> is idempotent per Run: once a Run has submitted a plan, every
  later valid submission of the same Run, whatever its content, returns the same proposal with
  the repeat flag and writes no table.
\<close>

theorem run_submits_once:
  assumes "submit_plan_proposal_for_run run p c d summary scope doc now s = (Inr (q, b), t)"
    and "distinct (map pp_id (plan_proposals s))" and "run \<noteq> []"
    and "validate_draft d2 t = (Inr d3, t')" "wdr_tasks d3 \<noteq> []"
  shows "\<exists>u. submit_plan_proposal_for_run run p c d2 summary2 scope2 doc2 now2 t = (Inr (q, True), u) \<and> same_tables t u"
  using assms by (rule submit_again)

theorem run_submits_once_witness:
  "\<exists>q t u. submit_plan_proposal_for_run ''run'' ''p'' ''c'' demo_draft [] NoRaw [] 1 demo_empty = (Inr (q, False), t) \<and>
     submit_plan_proposal_for_run ''run'' ''p'' ''c'' demo_draft ''again'' NoRaw [] 2 t = (Inr (q, True), u)"
proof -
  have "(case submit_plan_proposal_for_run ''run'' ''p'' ''c'' demo_draft [] NoRaw [] 1 demo_empty of
      (Inr (q, b), t) \<Rightarrow> \<not> b \<and> succeeds (validate_draft demo_draft t) | _ \<Rightarrow> False)" by code_simp
  then obtain q t d3 t' where run: "submit_plan_proposal_for_run ''run'' ''p'' ''c'' demo_draft [] NoRaw [] 1 demo_empty =
      (Inr (q, False), t)" and v: "validate_draft demo_draft t = (Inr d3, t')"
    by (auto dest!: succeedsD split: prod.splits sum.splits)
  have "wdr_tasks d3 \<noteq> []"
    using validate_draft_sound[OF v] by (auto simp: demo_draft_def)
  moreover have "distinct (map pp_id (plan_proposals demo_empty))" by (simp add: demo_defs)
  ultimately show ?thesis using run_submits_once[OF run _ _ v] run by blast
qed

text \<open>
  C7.  \<open>StartTaskContinuation\<close> is idempotent per Interaction: after a call that returned the
  queued Run \<open>r\<close> for an answered question, the same call returns the same Run and Task, says
  that nothing was started, and changes nothing.
\<close>

theorem continuation_starts_once:
  assumes "start_task_continuation tid n run retry now s = (Inr (r, tk, started), t)"
  shows "start_task_continuation tid n run retry now' t = (Inr (r, tk, False), t)"
  using assms by (rule continuation_again)

theorem continuation_starts_once_witness:
  "\<exists>r tk t. start_task_continuation ''r'' 1 demo_continuation False 5 demo_paused = (Inr (r, tk, True), t) \<and>
     start_task_continuation ''r'' 1 demo_continuation False 6 t = (Inr (r, tk, False), t)"
proof -
  have "(case fst (start_task_continuation ''r'' 1 demo_continuation False 5 demo_paused) of
      Inr (r, tk, b) \<Rightarrow> b | Inl e \<Rightarrow> False)" by code_simp
  then obtain r tk t where run: "start_task_continuation ''r'' 1 demo_continuation False 5 demo_paused = (Inr (r, tk, True), t)"
    by (cases "start_task_continuation ''r'' 1 demo_continuation False 5 demo_paused") (auto split: sum.splits)
  with continuation_starts_once[OF run, of 6] show ?thesis by blast
qed

text \<open>
  C8.  \<open>AdmitRobotExecution\<close>: a new Execution is admitted only on a free robot - no Execution is
  live on it, no other open Task and no other active Run is bound to it, the Pilot named is idle
  and the newest Runtime of the robot belongs to no other Project.  An Execution of a Task needs
  the running Workflow of its Project at the confirmed revision, whose scope allows the robot and
  the skill, the running Task of it assigned to this robot in the role \<open>robot\<close>, and a running
  SubTask of kind \<open>robot_skill\<close> that names the skill.  A direct Execution (a Run and no Task)
  names no Workflow and no SubTask and needs a running Conversation Run of the Agent of this
  robot that is bound to no other robot; this Run is bound to the robot.  Nothing is written but
  that binding and the one row.
\<close>

theorem admission_needs_a_free_robot:
  assumes "admit_robot_execution item agent s = (Inr (e, True), t)"
  shows "e = item \<and> (\<forall>x \<in> set (executions s). xr_robot_id x = e_robot_id item \<longrightarrow> \<not> live_execution x) \<and>
    (\<forall>x \<in> set (tasks s). t_assigned_robot_id x = e_robot_id item \<and> open_work_status (t_status x) \<longrightarrow>
      t_id x = e_task_id item) \<and>
    (\<forall>r \<in> set (runs s). r_robot_id r = e_robot_id item \<and> active_run_status (r_status r) \<longrightarrow>
      r_id r = (if e_task_id item = [] then e_run_id item else [])) \<and>
    (\<exists>p. find_by rp_instance_id (e_pilot_instance_id item) (robot_pilots s) = Some p \<and> \<not> pilot_occupied p) \<and>
    runtime_project (e_robot_id item) s \<in> {[], e_project_id item} \<and>
    (e_task_id item \<noteq> [] \<longrightarrow> (\<exists>w x y.
      find_by w_id (e_workflow_id item) (workflows s) = Some w \<and> w_project_id w = e_project_id item \<and>
      w_status w = WSRunning \<and> w_confirmed_revision w = w_revision w \<and>
      find_by t_id (e_task_id item) (tasks s) = Some x \<and> t_workflow_id x = w_id w \<and>
      t_assigned_robot_id x = e_robot_id item \<and> t_required_role x = ''robot'' \<and> t_status x = WSRunning \<and>
      find_by st_id (e_subtask_id item) (subtasks s) = Some y \<and> st_task_id y = t_id x \<and>
      st_status y = WSRunning \<and> st_kind y = ''robot_skill'' \<and> skill_matches (st_spec y) item \<and>
      within_scope (w_approved_scope w) item)) \<and>
    (e_task_id item = [] \<and> e_run_id item \<noteq> [] \<longrightarrow> (\<exists>r.
      find_by r_id (e_run_id item) (runs s) = Some r \<and> e_workflow_id item = [] \<and> e_subtask_id item = [] \<and>
      r_project_id r = e_project_id item \<and> r_kind r = KConversation \<and> r_task_id r = [] \<and> r_workflow_id r = [] \<and>
      r_status r = RRunning \<and> r_agent_id r = ''robot:'' @ e_robot_id item \<and> r_agent_id r = agent \<and>
      (r_robot_id r = [] \<or> r_robot_id r = e_robot_id item))) \<and>
    find_request (e_project_id item) (e_request_key item) s = None \<and>
    t = s\<lparr>runs := claim_run item (runs s), executions := executions s @ [execution_row_of item]\<rparr>"
proof -
  note new = admit_Inr_new[OF assms]
  obtain u t' where "admit_new item agent s = (Inr u, t')" using assms by (rule admit_Inr_checks)
  note checks = admit_new_checks[OF this]
  show ?thesis
    using new checks by (auto simp: validate_admission_Inr check_direct_run_Inr direct_item_def)
qed

lemma demo_admission:
  "admit_robot_execution (demo_execution ''x'' ''queued'') [] demo_robot =
     (Inr (demo_execution ''x'' ''queued'', True), snd (admit_robot_execution (demo_execution ''x'' ''queued'') [] demo_robot))"
proof -
  have "(case fst (admit_robot_execution (demo_execution ''x'' ''queued'') [] demo_robot) of
      Inr (e, b) \<Rightarrow> b \<and> e_id e = ''x'' | Inl e \<Rightarrow> False)" by code_simp
  then show ?thesis
    by (cases "admit_robot_execution (demo_execution ''x'' ''queued'') [] demo_robot")
      (auto split: sum.splits dest: admit_Inr_new)
qed

theorem admission_needs_a_free_robot_witness:
  "\<exists>t. admit_robot_execution (demo_execution ''x'' ''queued'') [] demo_robot =
      (Inr (demo_execution ''x'' ''queued'', True), t) \<and>
     executions t = [execution_row_of (demo_execution ''x'' ''queued'')]"
  using admission_needs_a_free_robot[OF demo_admission] demo_admission
  by (intro exI[of _ "snd (admit_robot_execution (demo_execution ''x'' ''queued'') [] demo_robot)"])
    (simp add: demo_robot_def empty_db_def)

text \<open>
  C9.  Admission is idempotent under the request key: whatever a later request with the same
  Project and key asks for, it gets the Execution admitted first and nothing changes.
\<close>

theorem admission_happens_once:
  assumes "admit_robot_execution item agent s = (Inr (e, b), t)"
    and "e_project_id item' = e_project_id item" "e_request_key item' = e_request_key item"
  shows "admit_robot_execution item' agent' t = (Inr (e, False), t)"
  using assms by (rule admit_again)

theorem admission_happens_once_witness:
  "\<exists>t. admit_robot_execution (demo_execution ''x'' ''queued'') [] demo_robot =
      (Inr (demo_execution ''x'' ''queued'', True), t) \<and>
     admit_robot_execution ((demo_execution ''x'' ''queued'')\<lparr>e_id := ''y''\<rparr>) [] t =
      (Inr (demo_execution ''x'' ''queued'', False), t)"
  using admission_happens_once[OF demo_admission, of "(demo_execution ''x'' ''queued'')\<lparr>e_id := ''y''\<rparr>" "[]"]
    demo_admission
  by (intro exI[of _ "snd (admit_robot_execution (demo_execution ''x'' ''queued'') [] demo_robot)"])
    (simp add: demo_execution_def)

text \<open>
  C10.  Admissions keep every robot with at most one live Execution.
\<close>

theorem one_live_execution_per_robot:
  assumes "admit_robot_execution item agent s = (Inr (e, b), t)" and "\<forall>robot. live_on robot s \<le> 1"
  shows "live_on robot t \<le> 1"
  using assms by (rule admit_one_live)

theorem one_live_execution_per_robot_witness:
  "\<exists>t. admit_robot_execution (demo_execution ''x'' ''queued'') [] demo_robot =
      (Inr (demo_execution ''x'' ''queued'', True), t) \<and> live_on ''r1'' t \<le> 1"
proof -
  have "\<forall>robot. live_on robot demo_robot \<le> 1" by (simp add: live_on_def demo_robot_def empty_db_def count_where_def)
  from one_live_execution_per_robot[OF demo_admission this] demo_admission show ?thesis by blast
qed

section \<open>Progress\<close>

text \<open>
  C11.  No deadlock in a plan: when the dependencies of a Workflow are acyclic and stay inside
  it, and each of its Tasks is pending or completed, one of them pending, then
  \<open>ListRunnableTasks\<close> returns a Task.
\<close>

theorem plan_has_a_runnable_task:
  assumes "sound_plan wid s" and "t \<in> set (tasks_of wid s)" "t_status t = WSPending"
    and "\<forall>x \<in> set (tasks_of wid s). t_status x = WSPending \<or> t_status x = WSCompleted"
  shows "\<exists>x xs. list_runnable_tasks wid s = (Inr (x # xs), s)"
  using assms by (rule runnable_exists)

theorem plan_has_a_runnable_task_witness:
  "\<exists>x xs. list_runnable_tasks ''wf'' demo_running = (Inr (x # xs), demo_running)"
proof -
  have tasks: "set (tasks_of ''wf'' demo_running) = {demo_task ''a'' 0 WSPending [], demo_task ''b'' 1 WSPending []}"
    by (auto simp: set_tasks_of demo_defs)
  have "acyclic {(''b'', ''a'')}" by (simp add: acyclic_insert wf_acyclic)
  then have sound: "sound_plan ''wf'' demo_running"
    by (simp add: sound_plan_def tasks) (simp add: demo_defs dep_edges_def)
  show ?thesis
    by (rule plan_has_a_runnable_task[OF sound, of "demo_task ''a'' 0 WSPending []"])
      (auto simp: tasks, auto simp: demo_task_def)
qed

section \<open>Runs of the server\<close>

text \<open>
  C12.  Whatever the server does - requests, goroutines and time in any order - as long as the
  ports use the same store: the constraints of the schema keep holding, no Workflow, Task or
  SubTask row is lost, and each row only moves along its state machine (\<open>workflow_step\<close>,
  \<open>task_step\<close>, \<open>subtask_step\<close>: one transition, one revision).
\<close>

theorem rows_follow_their_state_machines:
  assumes "ports_keep (on_db lawful) E" "server_run E render s t" "constraints_hold (dbase s)"
  shows "constraints_hold (dbase t) \<and>
    (\<forall>i w. find_by w_id i (workflows (dbase s)) = Some w \<longrightarrow>
       (\<exists>w'. find_by w_id i (workflows (dbase t)) = Some w' \<and> workflow_path w w')) \<and>
    (\<forall>i x. live_task i x (dbase s) \<longrightarrow> (\<exists>x'. live_task i x' (dbase t) \<and> task_path x x')) \<and>
    (\<forall>i y. live_subtask i y (dbase s) \<longrightarrow> (\<exists>y'. live_subtask i y' (dbase t) \<and> subtask_path y y'))"
  using lawful_run[OF assms(1,2)] assms(3) unfolding lawful_def advances_def by blast

definition demo_paused_run :: sys where
  "demo_paused_run = snd (pause_workflow demo_env ''u'' ''p'' ''wf'' 1 (demo_sys demo_running))"

lemma demo_pause_run: "server_run demo_env render (demo_sys demo_running) demo_paused_run"
proof -
  have "snd (serve demo_env render (Pause ''u'' ''p'' ''wf'' 1) (demo_sys demo_running)) = demo_paused_run"
    by (simp add: demo_paused_run_def serve_def void_def run_go split: prod.splits sum.splits)
  then have "server_step demo_env render (demo_sys demo_running) demo_paused_run"
    by (metis step_request)
  then show ?thesis using server_run_refl by (rule server_run_step)
qed

lemma demo_constraints: "constraints_hold demo_running"
  by code_simp

theorem rows_follow_their_state_machines_witness:
  "\<exists>w'. find_by w_id ''wf'' (workflows (dbase demo_paused_run)) = Some w' \<and> w_status w' = WSPaused \<and>
     workflow_path demo_workflow w' \<and> constraints_hold (dbase demo_paused_run)"
proof -
  have wf: "find_by w_id ''wf'' (workflows (dbase (demo_sys demo_running))) = Some demo_workflow"
    by (simp add: demo_defs demo_sys_def)
  have con: "constraints_hold (dbase (demo_sys demo_running))" using demo_constraints by (simp add: demo_sys_def)
  have "map_option w_status (find_by w_id ''wf'' (workflows (dbase demo_paused_run))) = Some WSPaused"
    unfolding demo_paused_run_def by code_simp
  then obtain w' where w': "find_by w_id ''wf'' (workflows (dbase demo_paused_run)) = Some w'" "w_status w' = WSPaused"
    by auto
  with rows_follow_their_state_machines[OF lawful_service.demo_ports demo_pause_run con] wf show ?thesis
    by (metis option.inject)
qed

text \<open>
  C13.  Along such a run what has ended stays: a completed, failed or stopped Workflow, Task or
  SubTask row is never written again; the Robot Execution a SubTask has been given never
  changes, and a SubTask that has one never becomes pending again, so that no physical work is
  ordered twice.
\<close>

theorem finished_work_stays:
  assumes "ports_keep (on_db lawful) E" "server_run E render s t" "constraints_hold (dbase s)"
  shows "(\<forall>i w. find_by w_id i (workflows (dbase s)) = Some w \<and> terminal_work_status (w_status w) \<longrightarrow>
       find_by w_id i (workflows (dbase t)) = Some w) \<and>
    (\<forall>i x. live_task i x (dbase s) \<and> terminal_work_status (t_status x) \<longrightarrow> live_task i x (dbase t)) \<and>
    (\<forall>i y. live_subtask i y (dbase s) \<and> terminal_work_status (st_status y) \<longrightarrow> live_subtask i y (dbase t)) \<and>
    (\<forall>i y. live_subtask i y (dbase s) \<and> st_execution_ref y \<noteq> [] \<longrightarrow>
       (\<exists>y'. live_subtask i y' (dbase t) \<and> st_execution_ref y' = st_execution_ref y \<and>
          (st_status y' = WSPending \<longrightarrow> st_status y = WSPending)))"
proof (intro conjI allI impI; elim conjE)
  note rows = lawful_rows[OF lawful_run[OF assms(1,2)] assms(3)]
  show "find_by w_id i (workflows (dbase t)) = Some w"
    if "find_by w_id i (workflows (dbase s)) = Some w" "terminal_work_status (w_status w)" for i w
    using rows(1)[OF that(1)] that(2) workflow_path_keeps by metis
  show "live_task i x (dbase t)" if "live_task i x (dbase s)" "terminal_work_status (t_status x)" for i x
    using rows(2)[OF that(1)] that(2) task_path_keeps by metis
  show "live_subtask i y (dbase t)" if "live_subtask i y (dbase s)" "terminal_work_status (st_status y)" for i y
    using rows(3)[OF that(1)] that(2) subtask_path_keeps by metis
  show "\<exists>y'. live_subtask i y' (dbase t) \<and> st_execution_ref y' = st_execution_ref y \<and>
          (st_status y' = WSPending \<longrightarrow> st_status y = WSPending)"
    if "live_subtask i y (dbase s)" "st_execution_ref y \<noteq> []" for i y
    using rows(3)[OF that(1)] that(2) subtask_path_keeps by metis
qed

definition demo_half_done :: db where
  "demo_half_done = demo_running\<lparr>tasks := [demo_task ''a'' 0 WSCompleted [], demo_task ''b'' 1 WSPending []]\<rparr>"

theorem finished_work_stays_witness:
  "live_task ''a'' (demo_task ''a'' 0 WSCompleted [])
     (dbase (snd (serve demo_env (\<lambda>d summary scope. []) (Pause ''u'' ''p'' ''wf'' 1) (demo_sys demo_half_done))))"
proof -
  have "constraints_hold (dbase (demo_sys demo_half_done))" unfolding demo_sys_def sys.simps by code_simp
  moreover have "live_task ''a'' (demo_task ''a'' 0 WSCompleted []) (dbase (demo_sys demo_half_done))"
    by (simp add: live_task_def demo_half_done_def demo_sys_def) (simp add: demo_defs)
  moreover have "terminal_work_status (t_status (demo_task ''a'' 0 WSCompleted []))"
    by (simp add: demo_task_def terminal_work_status_def)
  ultimately show ?thesis
    using finished_work_stays[OF lawful_service.demo_ports server_run_step[OF step_request server_run_refl]] by blast
qed

text \<open>
  C14.  The server never rewrites history: along every run the Workflow revisions, the messages of
  the Conversations, the plan submissions and the events of the Robot Executions are extended at
  the end only.
\<close>

theorem logs_only_grow:
  assumes "ports_keep (on_db logs_grow) E" "server_run E render s t"
  shows "prefix (workflow_revisions (dbase s)) (workflow_revisions (dbase t)) \<and>
    prefix (chat_messages (dbase s)) (chat_messages (dbase t)) \<and>
    prefix (plan_submissions (dbase s)) (plan_submissions (dbase t)) \<and>
    prefix (execution_events (dbase s)) (execution_events (dbase t))"
  using growing_run[OF assms] by (simp add: logs_grow_def)

theorem logs_only_grow_witness:
  "length (workflow_revisions (dbase demo_paused_run)) = 1 \<and>
   prefix (workflow_revisions (dbase demo_paused_run)) (workflow_revisions (dbase (snd (serve demo_env
     (\<lambda>d summary scope. []) (Resume [] ''u'' ''p'' ''wf'' 2) demo_paused_run))))"
proof
  show "length (workflow_revisions (dbase demo_paused_run)) = 1" unfolding demo_paused_run_def by code_simp
  show "prefix (workflow_revisions (dbase demo_paused_run)) (workflow_revisions (dbase (snd (serve demo_env
     (\<lambda>d summary scope. []) (Resume [] ''u'' ''p'' ''wf'' 2) demo_paused_run))))"
    using logs_only_grow[OF growing_service.demo_ports server_run_step[OF step_request server_run_refl]] by blast
qed

section \<open>Gates, stopping and resuming\<close>

text \<open>
  C15.  The gates of the scheduler exclude each other: once a Task is reserved, no second attempt
  at it starts; once it has claimed a resource (the workspace of the Project), no other Task gets
  that resource, and a refused claim changes nothing.
\<close>

theorem gates_exclude_each_other:
  assumes "reserve_task t s = (Inr True, s1)" "claim_task_resources w t s1 = (Inr True, s2)"
    and "t_id t \<noteq> []" "key \<in> set (task_resource_keys w t)"
  shows "(\<forall>u. t_id u = t_id t \<longrightarrow> reserve_task u s2 = (Inr False, s2)) \<and>
    (\<forall>v u. t_id u \<noteq> t_id t \<and> key \<in> set (task_resource_keys v u) \<longrightarrow> claim_task_resources v u s2 = (Inr False, s2))"
proof -
  have "active_tasks s2 = active_tasks s1"
    using assms(2) by (auto simp: claim_task_resources_def Let_def split: if_splits)
  then have "reserve_task u s2 = (Inr False, s2)" if "t_id u = t_id t" for u
    using assms(1) that by (auto simp: reserve_task_def split: if_splits)
  with claim_then_taken[OF assms(2,3) _ assms(4)] show ?thesis by blast
qed

definition demo_writer :: "string \<Rightarrow> task" where
  "demo_writer i = (demo_task i 0 WSPending [])\<lparr>t_resource_requirements := Raw (JObj [(''workspace_write'', JBool True)])\<rparr>"

theorem gates_exclude_each_other_witness:
  "\<exists>s2. claim_task_resources demo_workflow (demo_writer ''a'') (snd (reserve_task (demo_writer ''a'') (demo_sys demo_db))) = (Inr True, s2) \<and>
     claim_task_resources demo_workflow (demo_writer ''b'') s2 = (Inr False, s2)"
proof -
  let ?s1 = "snd (reserve_task (demo_writer ''a'') (demo_sys demo_db))"
  have reserved: "reserve_task (demo_writer ''a'') (demo_sys demo_db) = (Inr True, ?s1)"
    by (simp add: reserve_task_def demo_sys_def)
  have keys: "task_resource_keys demo_workflow (demo_writer i) = [''workspace:p'']" for i
    by (simp add: task_resource_keys_def demo_writer_def demo_task_def workspace_write_def json_fields_def field_def demo_workflow_def)
  have "fst (claim_task_resources demo_workflow (demo_writer ''a'') ?s1) = Inr True" by code_simp
  then obtain s2 where claimed: "claim_task_resources demo_workflow (demo_writer ''a'') ?s1 = (Inr True, s2)"
    by (cases "claim_task_resources demo_workflow (demo_writer ''a'') ?s1") auto
  have ids: "t_id (demo_writer i) = i" for i by (simp add: demo_writer_def demo_task_def)
  from gates_exclude_each_other[OF reserved claimed, of "''workspace:p''"]
  have "claim_task_resources demo_workflow (demo_writer ''b'') s2 = (Inr False, s2)" by (simp add: keys ids)
  with claimed show ?thesis by blast
qed

text \<open>
  C16.  \<open>moveTaskTowardStop\<close> and \<open>moveSubTaskTowardStop\<close>, whatever other writers do between their
  attempts: the row they return is neither pending nor running nor paused any more.
\<close>

theorem stop_moves_every_row:
  assumes "move_task_toward_stop x s = (Inr x', s')" "move_subtask_toward_stop y u = (Inr y', u')"
  shows "\<not> still_open (t_status x') \<and> \<not> still_open (st_status y')"
  using assms move_task_attempts_status move_subtask_attempts_status
  by (simp add: move_task_toward_stop_def move_subtask_toward_stop_def)

theorem stop_moves_every_row_witness:
  "\<exists>x' s' y' u'. move_task_toward_stop (demo_task ''r'' 0 WSRunning ''r1'') (demo_sys demo_robot) = (Inr x', s') \<and>
     move_subtask_toward_stop (demo_subtask ''s'' ''r'' WSRunning []) (demo_sys demo_robot) = (Inr y', u') \<and>
     \<not> still_open (t_status x') \<and> \<not> still_open (st_status y')"
proof -
  have "succeeds (move_task_toward_stop (demo_task ''r'' 0 WSRunning ''r1'') (demo_sys demo_robot))"
    "succeeds (move_subtask_toward_stop (demo_subtask ''s'' ''r'' WSRunning []) (demo_sys demo_robot))"
    by code_simp+
  then obtain x' s' y' u' where runs: "move_task_toward_stop (demo_task ''r'' 0 WSRunning ''r1'') (demo_sys demo_robot) = (Inr x', s')"
    "move_subtask_toward_stop (demo_subtask ''s'' ''r'' WSRunning []) (demo_sys demo_robot) = (Inr y', u')"
    by (auto dest!: succeedsD)
  with stop_moves_every_row[OF runs] show ?thesis by blast
qed

text \<open>
  \<open>convergeStoppedWorkflow\<close>: while a Task of the Workflow is running, stopping or paused
  nothing is written; when none is, a stopping Workflow that converges is stopped, with its
  reason, and no Task or SubTask row is touched.
\<close>

theorem convergence_waits_for_every_task:
  assumes "find_by w_id i (workflows (dbase s)) = Some w" "w_status w = WSStopping"
    and "converge_stopped_workflow E i s = (Inr (), t)"
  shows "if \<exists>x \<in> set (tasks_of i (dbase s)). blocks_convergence x then dbase t = dbase s
    else \<exists>w'. find_by w_id i (workflows (dbase t)) = Some w' \<and> w_status w' = WSStopped \<and> w_reason w' = w_reason w \<and>
      tasks (dbase t) = tasks (dbase s) \<and> subtasks (dbase t) = subtasks (dbase s)"
  using assms converge_blocked[OF assms(1)] converge_stops[OF assms(1,2) _ assms(3)] by (auto, metis prod.inject)

definition demo_converging :: db where
  "demo_converging = demo_running\<lparr>workflows := [demo_workflow\<lparr>w_status := WSStopping\<rparr>],
     tasks := [demo_task ''a'' 0 WSStopped [], demo_task ''b'' 1 WSCompleted []]\<rparr>"

theorem convergence_waits_for_every_task_witness:
  "\<exists>t w'. converge_stopped_workflow demo_env ''wf'' (demo_sys demo_converging) = (Inr (), t) \<and>
     find_by w_id ''wf'' (workflows (dbase t)) = Some w' \<and> w_status w' = WSStopped"
proof -
  have "succeeds (converge_stopped_workflow demo_env ''wf'' (demo_sys demo_converging))" by code_simp
  then obtain t where run: "converge_stopped_workflow demo_env ''wf'' (demo_sys demo_converging) = (Inr (), t)"
    by (auto dest: succeedsD)
  have wf: "find_by w_id ''wf'' (workflows (dbase (demo_sys demo_converging))) = Some (demo_workflow\<lparr>w_status := WSStopping\<rparr>)"
    by (simp add: demo_converging_def demo_sys_def demo_workflow_def)
  have "\<not> (\<exists>x \<in> set (tasks_of ''wf'' (dbase (demo_sys demo_converging))). blocks_convergence x)"
    by (auto simp: set_tasks_of demo_converging_def demo_sys_def demo_task_def blocks_convergence_def)
  with convergence_waits_for_every_task[OF wf _ run] run show ?thesis by auto
qed

text \<open>
  C17.  No physical step is repeated by an explicit resume: while a Task of the Workflow and a
  SubTask of it with a Robot Execution are both paused, \<open>ResumeWorkflow\<close> fails, for every user and
  revision, and changes nothing.
\<close>

theorem physical_work_is_not_resumed:
  assumes "find_by w_id i (workflows (dbase s)) = Some w"
    and "x \<in> set (tasks_of i (dbase s))" "t_status x = WSPaused"
    and "y \<in> set (subtasks (dbase s))" "st_task_id y = t_id x" "st_status y = WSPaused" "st_execution_ref y \<noteq> []"
  shows "\<exists>e. resume_workflow E c user p i n s = (Inl e, s)"
  using assms by (rule physical_work_blocks_resume)

definition demo_unknown :: db where
  "demo_unknown = demo_robot\<lparr>workflows := [demo_workflow\<lparr>w_status := WSPaused, w_reason := ''server_restarted''\<rparr>],
     tasks := [demo_task ''r'' 0 WSPaused ''r1''], subtasks := [demo_subtask ''s'' ''r'' WSPaused ''x'']\<rparr>"

theorem physical_work_is_not_resumed_witness:
  "\<exists>e. resume_workflow demo_env [] ''u'' ''p'' ''wf'' 1 (demo_sys demo_unknown) = (Inl e, demo_sys demo_unknown)"
  by (rule physical_work_is_not_resumed[where x = "demo_task ''r'' 0 WSPaused ''r1''" and
        y = "demo_subtask ''s'' ''r'' WSPaused ''x''" and
        w = "demo_workflow\<lparr>w_status := WSPaused, w_reason := ''server_restarted''\<rparr>"])
    (simp_all add: set_tasks_of demo_unknown_def demo_sys_def demo_workflow_def demo_task_def demo_subtask_def)

text \<open>
  C18.  A request that names a revision other than the stored one: pause, resume and the retry of a
  decision fail and leave every table as it was, whatever the status of the Workflow.  A stop does
  so unless the Workflow is stopping or stopped already; stop is idempotent there: of a stopping
  Workflow it does what a stop with the current revision does, of a stopped one it returns the
  stored view and writes nothing.  A confirmation by the operator fails and leaves every table as
  it was unless the Workflow has been stopped by such a confirmation, which is answered with the
  stored view.
\<close>

theorem stale_requests_change_nothing:
  assumes "find_by w_id i (workflows (dbase s)) = Some w" "w_revision w \<noteq> n"
  shows "unchanged s (pause_workflow E user p i n s) \<and> unchanged s (resume_workflow E c user p i n s) \<and>
    unchanged s (retry_robot_agent_decision E c user p i n s) \<and>
    (w_status w \<notin> {WSStopping, WSStopped} \<longrightarrow> unchanged s (stop_workflow E user p i n s)) \<and>
    (w_status w = WSStopping \<longrightarrow> stop_workflow E user p i n s = stop_workflow E user p i (w_revision w) s) \<and>
    (w_status w = WSStopped \<longrightarrow> (\<exists>e. stop_workflow E user p i n s = (Inl e, s)) \<or>
      stop_workflow E user p i n s = (Inr (view_of (dbase s) w), s)) \<and>
    (unchanged s (confirm_workflow_stop E user p i n b reason s) \<or>
      w_status w = WSStopped \<and> w_reason w = ''operator_confirmed_stop'' \<and>
      confirm_workflow_stop E user p i n b reason s = (Inr (view_of (dbase s) w), s))"
  by (intro conjI impI stale_requests[OF assms] stale_stop[OF assms] stale_confirmation[OF assms])

theorem stale_requests_change_nothing_witness:
  "unchanged (demo_sys demo_running) (pause_workflow demo_env ''u'' ''p'' ''wf'' 7 (demo_sys demo_running))"
  using stale_requests_change_nothing[of "''wf''" "demo_sys demo_running" demo_workflow 7 demo_env "''u''" "''p''"]
  by (simp add: demo_running_def demo_sys_def demo_workflow_def)

text \<open>
  C19.  Restart of both services: when \<open>RecoverInterruptedWorkflows\<close> has returned, no Task of a
  Workflow that was running or paused, and no SubTask of such a Task, is running.  The Workflow
  service has the Robot service of the model as its robot port, which the recovery calls for the
  stopping Workflows and which in turn calls back the observer of the Workflow service, the only
  one at that point of \<open>wireAccess\<close>.  It is assumed that the constraints of the schema hold and
  that, as in a process that has just started, no admission lock of a robot is held.
\<close>

theorem nothing_runs_after_a_restart:
  assumes "recover_interrupted_workflows (workflow_side (boot_side E P) E) now s = (Inr (), t)"
    and "constraints_hold (dbase s)" "hb_admissions (hub s) = []"
    and "w \<in> set (workflows (dbase s))" "w_status w = WSRunning \<or> w_status w = WSPaused"
  shows "\<forall>x \<in> set (tasks (dbase t)). t_workflow_id x = w_id w \<longrightarrow> t_status x \<noteq> WSRunning \<and>
    (\<forall>y \<in> set (subtasks (dbase t)). st_task_id y = t_id x \<longrightarrow> st_status y \<noteq> WSRunning)"
  using restart_leaves_nothing_running[OF stop_of_the_robots_starts_nothing assms(1) keyed_constraints[OF assms(2)] assms(3-5)]
  by (simp add: at_rest_def)

text \<open>A running Workflow, and one that was being stopped while its robot was moving.\<close>

definition demo_interrupted :: db where
  "demo_interrupted = demo_robot\<lparr>
     workflows := [demo_workflow, demo_workflow\<lparr>w_id := ''wg'', w_project_id := ''q'', w_status := WSStopping\<rparr>],
     tasks := [demo_task ''r'' 0 WSRunning ''r1'', (demo_task ''z'' 0 WSStopping ''r2'')\<lparr>t_workflow_id := ''wg''\<rparr>],
     subtasks := [demo_subtask ''s'' ''r'' WSRunning [], demo_subtask ''y'' ''z'' WSStopping ''x''],
     executions := [execution_row_of ((demo_execution ''x'' ''running'')\<lparr>e_project_id := ''q'',
       e_workflow_id := ''wg'', e_task_id := ''z'', e_subtask_id := ''y'', e_robot_id := ''r2''\<rparr>)]\<rparr>"

abbreviation demo_wired :: env where
  "demo_wired \<equiv> workflow_side (boot_side demo_env demo_robot_env) demo_env"

lemma demo_restart:
  "case recover_interrupted_workflows demo_wired 5 (demo_sys demo_interrupted) of
     (Inr _, t) \<Rightarrow> map (\<lambda>x. e_status (xr_body x)) (executions (dbase t)) = [''interrupted'']
   | (Inl _, _) \<Rightarrow> False"
  by code_simp

theorem nothing_runs_after_a_restart_witness:
  "\<exists>t. recover_interrupted_workflows demo_wired 5 (demo_sys demo_interrupted) = (Inr (), t) \<and>
     filter (\<lambda>x. t_workflow_id x = ''wf'' \<and> t_status x = WSRunning) (tasks (dbase t)) = [] \<and>
     map (\<lambda>x. e_status (xr_body x)) (executions (dbase t)) = [''interrupted'']"
proof -
  let ?run = "recover_interrupted_workflows demo_wired 5 (demo_sys demo_interrupted)"
  obtain t where run: "?run = (Inr (), t)"
    and stopped: "map (\<lambda>x. e_status (xr_body x)) (executions (dbase t)) = [''interrupted'']"
    using demo_restart by (auto split: prod.splits sum.splits)
  have con: "constraints_hold (dbase (demo_sys demo_interrupted))" unfolding demo_sys_def sys.simps by code_simp
  have wf: "demo_workflow \<in> set (workflows (dbase (demo_sys demo_interrupted)))" by (simp add: demo_interrupted_def demo_sys_def)
  from nothing_runs_after_a_restart[OF run con _ wf] run stopped show ?thesis
    by (auto simp: demo_workflow_def filter_empty_conv demo_sys_def empty_hub_def)
qed

section \<open>What the event log of an Execution proves\<close>

definition demo_event :: "int \<Rightarrow> string \<Rightarrow> any_map \<Rightarrow> execution_event" where
  "demo_event n typ payload = \<lparr>ev_execution_id = ''x'', ev_sequence = n, ev_type = typ, ev_payload = payload, ev_created_at = 0\<rparr>"

definition demo_log :: db where
  "demo_log = empty_db\<lparr>execution_events :=
     [demo_event 1 ''action.started'' [(''action_id'', JStr ''a''), (''physical'', JBool False), (''physical_started'', JBool False)],
      demo_event 2 ''action.terminal'' [(''action_id'', JStr ''a''), (''result'', JObj [(''safe'', JBool True)])]]\<rparr>"

lemma demo_log_ok: "stream_ok ''x'' demo_log"
  by (simp add: stream_ok_def demo_log_def demo_event_def events_of_def)

lemma demo_log_held: "robot_execution_safely_held ''x'' demo_log"
  by (simp add: safely_held_eq[OF demo_log_ok])
    (simp add: demo_log_def demo_event_def events_of_def held_step_def payload_flag_def get_bool_def get_object_def)

text \<open>
  C20.  \<open>robotExecutionSafelyHeld\<close> reads the log in pages of 1000 events; its answer is that of
  one pass over the whole stream: the last report of safety not followed by a physical start.
\<close>

theorem held_reading_is_complete:
  assumes "stream_ok i s"
  shows "robot_execution_safely_held i s = fold held_step (events_of i s) False"
  using assms by (rule safely_held_eq)

theorem held_reading_is_complete_witness: "robot_execution_safely_held ''x'' demo_log"
  using held_reading_is_complete[OF demo_log_ok]
  by (simp add: demo_log_def demo_event_def events_of_def held_step_def payload_flag_def get_bool_def get_object_def)

text \<open>
  C21.  The loop over the pages ends: on a stream of \<open>n\<close> events \<open>n div 1000 + 1\<close> queries give
  the answer.
\<close>

theorem held_reading_ends:
  assumes "stream_ok i s"
  shows "held_within (length (events_of i s) div 1000 + 1) i s 0 False = Some (robot_execution_safely_held i s)"
  using assms by (rule held_pages)

theorem held_reading_ends_witness: "held_within 1 ''x'' demo_log 0 False = Some True"
  using held_reading_ends[OF demo_log_ok] demo_log_held by (simp add: demo_log_def demo_event_def events_of_def)

text \<open>
  \<open>robotExecutionMayHavePhysicalAction\<close> answers no exactly when the whole log proves it: no
  action event without an identifier, no start that is not explicitly marked as read only, and
  every action that is mentioned has such a start.
\<close>

theorem physical_action_is_excluded_exactly:
  assumes "stream_ok i s"
  shows "robot_execution_may_have_physical_action i s \<longleftrightarrow>
    (\<exists>e \<in> set (events_of i s). suspicious e) \<or>
    (\<exists>e \<in> set (events_of i s). action_event e \<and>
       \<not> (\<exists>f \<in> set (events_of i s). starts f \<and> action_id f = action_id e))"
  using assms by (rule may_have_physical_iff)

theorem physical_action_is_excluded_exactly_witness: "\<not> robot_execution_may_have_physical_action ''x'' demo_log"
  using physical_action_is_excluded_exactly[OF demo_log_ok]
  by (simp add: demo_log_def demo_event_def events_of_def suspicious_def starts_def action_event_def action_id_def
      has_prefix_def get_bool_def get_string_def)

text \<open>
  \<open>latestRobotAgentRequest\<close> and \<open>robotExecutionStartedPhysicalAction\<close> read the first page
  only: on a stream of a thousand events or more they do not see any later event, so that a
  request for a decision, or the start of a physical action, after that is invisible to them.
\<close>

theorem late_events_are_invisible:
  assumes "stream_ok i d" "1000 \<le> length (events_of i d)"
    and "execution_events d' = execution_events d @ [e]" "ev_execution_id e = i"
    and "\<forall>x \<in> set (events_of i d). ev_sequence x < ev_sequence e"
  shows "latest_robot_agent_request i d' = latest_robot_agent_request i d \<and>
    robot_execution_started_physical_action i d' = robot_execution_started_physical_action i d"
  using late_event_invisible[OF assms] by blast

definition demo_ticks :: "int \<Rightarrow> db" where
  "demo_ticks n = empty_db\<lparr>execution_events := map (\<lambda>n. demo_event n ''skill.progress'' []) [1..n]\<rparr>"

lemma demo_ticks_events: "events_of ''x'' (demo_ticks n) = map (\<lambda>n. demo_event n ''skill.progress'' []) [1..n]"
proof -
  let ?es = "map (\<lambda>n. demo_event n ''skill.progress'' []) [1..n]"
  have "filter (\<lambda>e. ev_execution_id e = ''x'') ?es = ?es" by (simp add: demo_event_def filter_id_conv)
  moreover have "map ev_sequence ?es = [1..n]" by (simp add: demo_event_def comp_def)
  then have "sort_key ev_sequence ?es = ?es" by (intro sort_key_id_if_sorted) (simp only: sorted_upto)
  ultimately show ?thesis by (simp add: events_of_def demo_ticks_def)
qed

lemma demo_ticks_ok: "stream_ok ''x'' (demo_ticks n)"
  by (simp add: stream_ok_def demo_ticks_events comp_def) (simp add: demo_event_def)

lemma demo_ticks_idle: "\<not> robot_execution_started_physical_action ''x'' (demo_ticks n)"
proof -
  have "ev_type e \<noteq> ''action.started''" if "e \<in> set (event_page ''x'' 0 1000 (demo_ticks n))" for e
  proof -
    have "e \<in> set (map (\<lambda>n. demo_event n ''skill.progress'' []) [1..n])"
      using that unfolding event_page_1000 remaining_0[OF demo_ticks_ok] demo_ticks_events by (rule in_set_takeD)
    then show ?thesis by (auto simp: demo_event_def)
  qed
  then show ?thesis by (auto simp: robot_execution_started_physical_action_def list_ex_iff)
qed

theorem late_events_are_invisible_witness:
  "\<exists>d. ev_type (last (execution_events d)) = ''action.started'' \<and> payload_flag (last (execution_events d)) ''physical_started'' \<and>
     \<not> robot_execution_started_physical_action ''x'' d"
proof -
  define n :: int where "n = 1000"
  let ?e = "demo_event (n + 1) ''action.started'' [(''physical_started'', JBool True)]"
  let ?d = "(demo_ticks n)\<lparr>execution_events := execution_events (demo_ticks n) @ [?e]\<rparr>"
  have "1000 \<le> length (events_of ''x'' (demo_ticks n))" by (simp add: demo_ticks_events n_def del: upto_rec_numeral)
  moreover have "execution_events ?d = execution_events (demo_ticks n) @ [?e]" "ev_execution_id ?e = ''x''"
    "\<forall>x \<in> set (events_of ''x'' (demo_ticks n)). ev_sequence x < ev_sequence ?e"
    by (simp_all add: demo_ticks_events) (simp_all add: demo_event_def)
  ultimately have "robot_execution_started_physical_action ''x'' ?d = robot_execution_started_physical_action ''x'' (demo_ticks n)"
    using late_events_are_invisible[OF demo_ticks_ok] by blast
  then show ?thesis
    using demo_ticks_idle by (intro exI[of _ ?d]) (simp add: demo_event_def payload_flag_def get_bool_def)
qed

section \<open>Agents\<close>

text \<open>
  C22.  A Robot decision is attempted at most three times: as long as the Agent itself does not
  write the log, the goroutine adds one \<open>agent.decision_attempted\<close> event per attempt, numbered
  from 1 and at most 3, and the number sent with a decision is that of the last attempt.
\<close>

theorem decisions_are_attempted_three_times_at_most:
  assumes "quiet_agent resolve"
    and "decide_attempts E resolve c req (max_robot_agent_decision_attempts - 1) 1 s = (Inr r, t)"
  shows "\<exists>k. 1 \<le> k \<and> k \<le> 3 \<and>
    attempts_of (e_id (ar_execution req)) (dbase t) =
      attempts_of (e_id (ar_execution req)) (dbase s) @ map (\<lambda>a. Some (JInt (int a))) [1..<Suc k] \<and>
    (\<forall>m a. r = Some (m, a) \<longrightarrow> a = k)"
proof -
  from decide_attempts_log[OF assms] obtain k where k: "1 \<le> k" "k \<le> 1 + (max_robot_agent_decision_attempts - 1)"
    "attempts_of (e_id (ar_execution req)) (dbase t) =
      attempts_of (e_id (ar_execution req)) (dbase s) @ map (\<lambda>a. Some (JInt (int a))) [1..<Suc k]"
    "\<forall>m a. r = Some (m, a) \<longrightarrow> a = k" by blast
  then have "k \<le> 3" by (simp add: max_robot_agent_decision_attempts_def)
  with k show ?thesis by blast
qed

definition demo_decider :: "ctx \<Rightarrow> agent_request \<Rightarrow> (sys, any_map) prog" where
  "demo_decider c r = ok [(''choice'', JStr ''left'')]"

definition demo_request :: agent_request where
  "demo_request = \<lparr>ar_user_id = ''u'', ar_project = demo_project, ar_conversation = demo_conversation,
     ar_workflow = demo_workflow, ar_task = demo_task ''r'' 0 WSRunning ''r1'',
     ar_subtask = demo_subtask ''s'' ''r'' WSRunning ''x'', ar_execution = demo_execution ''x'' ''waiting_agent'',
     ar_event = [], ar_answer = None\<rparr>"

theorem decisions_are_attempted_three_times_at_most_witness:
  "\<exists>t. decide_attempts demo_env demo_decider [] demo_request 2 1 (demo_sys demo_robot) =
       (Inr (Some ([(''choice'', JStr ''left'')], 1)), t) \<and> attempts_of ''x'' (dbase t) = [Some (JInt 1)]"
proof -
  have quiet: "quiet_agent demo_decider"
    by (simp add: quiet_agent_def demo_decider_def keeps_def log_kept_def same_log_def)
  obtain t where "record_robot_decision_attempt ''x'' 1 None (demo_sys demo_robot) = (Inr (), t)"
    using record_attempt by blast
  then have run: "decide_attempts demo_env demo_decider [] demo_request (max_robot_agent_decision_attempts - 1) 1
      (demo_sys demo_robot) = (Inr (Some ([(''choice'', JStr ''left'')], 1)), t)"
    by (simp add: max_robot_agent_decision_attempts_def numeral_2_eq_2 decide_once_def demo_decider_def run_go run_attempt
        demo_request_def demo_execution_def)
  have "attempts_of ''x'' (dbase (demo_sys demo_robot)) = []"
    by (simp add: attempts_of_def demo_sys_def demo_robot_def empty_db_def)
  with decisions_are_attempted_three_times_at_most[OF quiet run] run show ?thesis
    by (auto simp: max_robot_agent_decision_attempts_def demo_request_def demo_execution_def)
qed

text \<open>
  C23.  \<open>resumeTaskFromInteraction\<close> is idempotent: an answer that already has a Run changes
  nothing; it is accepted exactly while its Task is running and that Run is queued, running or
  waiting for input, and refused as interrupted otherwise.
\<close>

theorem answers_are_routed_once:
  assumes "get_run_session_by_source_interaction (i_id answer) (dbase s) = (Inr run, d)"
  shows "\<exists>r. resume_task_from_interaction E c user answer s = (r, s) \<and>
    (r = Inr () \<longleftrightarrow> (\<exists>t. find_by t_id (i_task_id answer) (tasks (dbase s)) = Some t \<and> t_status t = WSRunning \<and>
       r_status run \<in> {RQueued, RRunning, RWaitingInput})) \<and>
    (r \<noteq> Inr () \<longrightarrow> r = Inl ErrContinuationInterrupted)"
  using assms by (rule answered_again)

definition demo_answered :: db where
  "demo_answered = demo_robot\<lparr>runs := [demo_continuation\<lparr>r_id := ''run-1''\<rparr>], interactions := [demo_question]\<rparr>"

theorem answers_are_routed_once_witness:
  "resume_task_from_interaction demo_env [] ''u'' demo_question (demo_sys demo_answered) = (Inr (), demo_sys demo_answered)"
proof -
  have "get_run_session_by_source_interaction (i_id demo_question) (dbase (demo_sys demo_answered)) =
      (Inr (demo_continuation\<lparr>r_id := ''run-1''\<rparr>), dbase (demo_sys demo_answered))"
    by (simp add: get_run_session_by_source_interaction_def select_row_def preferred_run_def demo_answered_def demo_sys_def
        demo_question_def demo_continuation_def latest_def trim_space_blank is_space_def)
  from answers_are_routed_once[OF this, of demo_env "[]" "''u''"] show ?thesis
    by (auto simp: demo_answered_def demo_sys_def demo_robot_def demo_question_def demo_task_def demo_continuation_def)
qed

text \<open>
  C24.  A flaw of \<open>launchTaskRecovery\<close>: when the Task changed between the check and the update,
  the error path releases the Task named by the zero value instead of the Task it has reserved.
  No goroutine is started, and the Task stays reserved, so that every later attempt at it is
  refused as busy until the server restarts.
\<close>

theorem failed_recovery_claim_leaks:
  assumes "active_tasks s (t_id x) = None" "t_id x \<noteq> []"
    and "fst (do_update_wait_reason (t_id x) (t_revision x) (st_id y) (st_revision y)
        ''robot_execution_failed'' ''recovery_running'' s) = Inl e"
  shows "\<exists>u. claim_recovery c x y execution s = (Inr (), u) \<and> jobs u = jobs s \<and>
    (\<forall>x'. t_id x' = t_id x \<longrightarrow> reserve_task x' u = (Inr False, u))"
  using recovery_claim_leaks[OF assms, of c execution] by (auto simp: reserve_task_def)

theorem failed_recovery_claim_leaks_witness:
  "\<exists>u. claim_recovery [] ((demo_task ''r'' 0 WSPaused ''r1'')\<lparr>t_revision := 7\<rparr>) (demo_subtask ''s'' ''r'' WSPaused ''x'')
       (demo_execution ''x'' ''failed'') (demo_sys demo_unknown) = (Inr (), u) \<and>
     reserve_task (demo_task ''r'' 0 WSPaused ''r1'') u = (Inr False, u)"
proof -
  let ?x = "(demo_task ''r'' 0 WSPaused ''r1'')\<lparr>t_revision := 7\<rparr>" and ?y = "demo_subtask ''s'' ''r'' WSPaused ''x''"
  have "fst (do_update_wait_reason (t_id ?x) (t_revision ?x) (st_id ?y) (st_revision ?y)
        ''robot_execution_failed'' ''recovery_running'' (demo_sys demo_unknown)) = Inl ErrRevisionConflict"
    by code_simp
  moreover have "active_tasks (demo_sys demo_unknown) (t_id ?x) = None" "t_id ?x \<noteq> []"
    by (simp_all add: demo_sys_def demo_task_def)
  ultimately show ?thesis
    using failed_recovery_claim_leaks[of "demo_sys demo_unknown" ?x ?y ErrRevisionConflict "[]" "demo_execution ''x'' ''failed''"]
    by (auto simp: demo_task_def)
qed

section \<open>The whole server\<close>

text \<open>
  C25.  The Workflow service and the Robot service wired to each other: along every run of the whole
  server - requests, messages of Pilots, goroutines and time in any order - the constraints of the
  schema keep holding, the rows of the Workflow follow their state machines, no Execution is lost or
  given to another robot, the events only grow, and the memory of the Robot service stays well
  formed: bounded queues, one command under way per Skill, device events numbered without a gap.
\<close>

theorem the_whole_server_keeps_its_laws:
  assumes "parts_keep (on_db lawful) E P W" "parts_keep (on_db logs_grow) E P W" "parts_keep hub_law E P W"
    and "fleet_run E P W render s t" "constraints_hold (dbase s)" "hub_ok (hub s)"
  shows "constraints_hold (dbase t) \<and>
    (\<forall>i w. find_by w_id i (workflows (dbase s)) = Some w \<longrightarrow>
       (\<exists>w'. find_by w_id i (workflows (dbase t)) = Some w' \<and> workflow_path w w')) \<and>
    (\<forall>i x. live_task i x (dbase s) \<longrightarrow> (\<exists>x'. live_task i x' (dbase t) \<and> task_path x x')) \<and>
    (\<forall>i y. live_subtask i y (dbase s) \<longrightarrow> (\<exists>y'. live_subtask i y' (dbase t) \<and> subtask_path y y')) \<and>
    (\<forall>i e. find_by xr_id i (executions (dbase s)) = Some e \<longrightarrow>
       (\<exists>e'. find_by xr_id i (executions (dbase t)) = Some e' \<and> xr_project_id e' = xr_project_id e \<and>
          xr_robot_id e' = xr_robot_id e \<and> xr_request_key e' = xr_request_key e)) \<and>
    prefix (execution_events (dbase s)) (execution_events (dbase t)) \<and>
    prefix (hb_device_events (hub s)) (hb_device_events (hub t)) \<and> hub_ok (hub t)"
proof (intro conjI)
  note law = lawful_fleet_run[OF assms(1,4)] and logs = growing_fleet_run[OF assms(2,4)] and mem = hub_fleet_run[OF assms(3,4)]
  show "constraints_hold (dbase t)" using law assms(5) by (simp add: lawful_def)
  note rows = lawful_rows[OF law assms(5)]
  show "\<forall>i w. find_by w_id i (workflows (dbase s)) = Some w \<longrightarrow>
       (\<exists>w'. find_by w_id i (workflows (dbase t)) = Some w' \<and> workflow_path w w')"
    "\<forall>i x. live_task i x (dbase s) \<longrightarrow> (\<exists>x'. live_task i x' (dbase t) \<and> task_path x x')"
    "\<forall>i y. live_subtask i y (dbase s) \<longrightarrow> (\<exists>y'. live_subtask i y' (dbase t) \<and> subtask_path y y')"
    using rows by blast+
  show "\<forall>i e. find_by xr_id i (executions (dbase s)) = Some e \<longrightarrow>
       (\<exists>e'. find_by xr_id i (executions (dbase t)) = Some e' \<and> xr_project_id e' = xr_project_id e \<and>
          xr_robot_id e' = xr_robot_id e \<and> xr_request_key e' = xr_request_key e)"
    "prefix (execution_events (dbase s)) (execution_events (dbase t))"
    using logs by (simp_all add: logs_grow_def executions_kept_def same_request_def)
  show "prefix (hb_device_events (hub s)) (hb_device_events (hub t))" "hub_ok (hub t)"
    using mem assms(6) by (auto simp: hub_law_def)
qed

text \<open>A Pilot without a credential knocks, a user follows the devices, and the Workflow is paused.\<close>

definition demo_fleet_run :: sys where
  "demo_fleet_run = play_fleet demo_env demo_robot_env demo_surroundings (\<lambda>d summary scope. [])
     [AtFleet (RegisterPilot ''wrong'' demo_pilot []), AtFleet (FollowDevices 0), AtWorkflow (Pause ''u'' ''p'' ''wf'' 1)]
     (demo_sys demo_running)"

theorem the_whole_server_keeps_its_laws_witness:
  "constraints_hold (dbase demo_fleet_run) \<and> hub_ok (hub demo_fleet_run)"
proof -
  have "constraints_hold (dbase (demo_sys demo_running))" using demo_constraints by (simp add: demo_sys_def)
  moreover have "hub_ok (hub (demo_sys demo_running))" by (simp add: demo_sys_def hub_ok_empty)
  ultimately show ?thesis
    unfolding demo_fleet_run_def
    using the_whole_server_keeps_its_laws[OF lawful_robots.demo_parts growing_robots.demo_parts hub_robots.demo_parts
        play_fleet_runs] by blast
qed

section \<open>Robots\<close>

text \<open>
  C26.  A \<open>Run\<close> of a Skill that fails, at whatever step, leaves no Execution behind that is active and
  was not before, as long as no other goroutine starts one on this robot while the admission lock is
  held: an admitted Execution that could not be sent has been stopped, failed or interrupted.
\<close>

theorem failed_run_leaves_nothing_active:
  assumes "\<And>i. keeps (no_new_live (rq_robot_id q)) (ro_wait R i)" "robot_run R c q s = (Inl e, t)"
  shows "live_of (rq_robot_id q) (dbase t) \<subseteq> live_of (rq_robot_id q) (dbase s)"
  using failed_run_starts_nothing[OF assms(1), of c q] assms(2) by (auto simp: refuses_def no_new_live_def)

text \<open>The session of the Pilot is closed and does not take the command that validates the input.\<close>

definition demo_skill :: robot_pilot_skill where
  "demo_skill = \<lparr>pk_pilot_instance_id = ''pilot'', pk_name = ''grip'', pk_version = ''1'', pk_enabled = True,
     pk_status = ''installed'', pk_error = [], pk_updated_at = 0\<rparr>"

definition demo_direct_run :: run_session where
  "demo_direct_run = demo_continuation\<lparr>r_id := ''d'', r_workflow_id := [], r_task_id := [], r_kind := KConversation,
     r_status := RRunning\<rparr>"

definition demo_direct :: db where
  "demo_direct = demo_robot\<lparr>subtasks := [], tasks := [], workflows := [], runs := [demo_direct_run], pilot_skills := [demo_skill]\<rparr>"

definition demo_closed :: sys where
  "demo_closed = (demo_sys demo_direct)\<lparr>hub := empty_hub\<lparr>hb_sessions :=
     [(''pilot'', \<lparr>ss_pilot = demo_pilot, ss_send = [], ss_closed = True, ss_serial = 0\<rparr>)], hb_serials := 1\<rparr>\<rparr>"

definition demo_run_request :: run_request where
  "demo_run_request = \<lparr>rq_project_id = ''p'', rq_workflow_id = [], rq_task_id = [], rq_subtask_id = [], rq_run_id = ''d'',
     rq_agent_id = ''robot:r1'', rq_robot_id = ''r1'', rq_skill_name = ''grip'', rq_skill_version = ''1'',
     rq_request_key = ''k'', rq_input = [], rq_artifact_refs = []\<rparr>"

definition demo_refusing :: robot_env where
  "demo_refusing = demo_robot_env\<lparr>ro_send_wins := (\<lambda>i. False)\<rparr>"

theorem failed_run_leaves_nothing_active_witness:
  "live_of ''r1'' (dbase (snd (robot_run demo_refusing [] demo_run_request demo_closed))) = {}"
proof -
  have wait: "keeps (no_new_live (rq_robot_id demo_run_request)) (ro_wait demo_refusing i)" for i
    unfolding demo_refusing_def demo_robot_env_def
    by (simp, intro still_no_new still_robots.robot_rules still_robots.keeps_hub)
  have "case fst (robot_run demo_refusing [] demo_run_request demo_closed) of Inl e \<Rightarrow> True | Inr x \<Rightarrow> False"
    by code_simp
  then obtain e where "robot_run demo_refusing [] demo_run_request demo_closed =
      (Inl e, snd (robot_run demo_refusing [] demo_run_request demo_closed))"
    by (cases "robot_run demo_refusing [] demo_run_request demo_closed") (auto split: sum.splits)
  from failed_run_leaves_nothing_active[OF wait this] show ?thesis
    by (simp add: demo_run_request_def live_of_def demo_closed_def demo_sys_def demo_direct_def demo_robot_def empty_db_def)
qed

text \<open>
  C27.  In the wired server, where a report reaches the map checkpoint and the Workflow service and the
  latter may have other robots stopped, no message of a Pilot - a late or repeated event, an
  acknowledgement, a heartbeat, an announced artifact - makes an Execution active that was not, but
  for one: an interrupted Execution may be told to stop.  No message takes a stopping Execution back
  to another active status.  A reconciliation is the one message left out: it takes over the status
  the Pilot names.  It is assumed that the continuation of the Conversation and the synchronisation
  of the map, which the observers call, do at most the same (\<open>callbacks_keep\<close>), that the columns of
  the Executions agree with their bodies, and that no admission lock of a robot is held.
\<close>

theorem late_messages_revive_nothing:
  assumes "callbacks_keep unlocked_halting sync E" "\<forall>remote. msg \<noteq> UpReconcile remote"
    and "rows_ok (dbase s)" "hb_admissions (hub s) = []" "find_by xr_id i (executions (dbase s)) = Some x"
  shows "\<exists>y. find_by xr_id i (executions (dbase (snd (gateway_message (robot_side sync E P) pilot msg s)))) = Some y \<and>
    (\<not> active_robot_status (xr_status x) \<longrightarrow>
      \<not> active_robot_status (xr_status y) \<or> xr_status x = ''interrupted'' \<and> xr_status y = ''stopping'') \<and>
    (xr_status x = ''stopping'' \<longrightarrow> xr_status y = ''stopping'' \<or> \<not> active_robot_status (xr_status y))"
proof -
  have "revives_nothing s (snd (gateway_message (robot_side sync E P) pilot msg s))"
    using keepsD[OF messages_revive_nothing[OF assms(1)]] assms(2) by blast
  with assms(3-5) obtain y where "find_by xr_id i (executions (dbase (snd (gateway_message (robot_side sync E P) pilot msg s)))) = Some y"
    "may_become (xr_status x) (xr_status y)" unfolding revives_nothing_def by (auto dest: rows_becomeD(2))
  then show ?thesis by (simp add: may_become_def)
qed

text \<open>
  A Pilot reports that an Execution runs which was stopped; the continuation of the Conversation is
  called when a Workflow ends.
\<close>

definition demo_stopped :: db where
  "demo_stopped = demo_robot\<lparr>executions := [execution_row_of (demo_execution ''x'' ''stopped'')]\<rparr>"

definition demo_late :: uplink where
  "demo_late = UpEvent ''execution.progress'' 1 [(''execution_id'', JStr ''x''), (''status'', JStr ''running'')]"

definition demo_talking :: env where
  "demo_talking = demo_env\<lparr>env_resumer := Some \<lparr>cr_resume_interaction = (\<lambda>i. ok ()), cr_resume_terminal = (\<lambda>v. ok ())\<rparr>\<rparr>"

abbreviation demo_robots :: robot_env where
  "demo_robots \<equiv> robot_side (\<lambda>p i r. ok ()) demo_talking demo_robot_env"

theorem late_messages_revive_nothing_witness:
  "\<exists>y. find_by xr_id ''x'' (executions (dbase (snd (gateway_message demo_robots ''pilot'' demo_late (demo_sys demo_stopped))))) =
      Some y \<and> \<not> active_robot_status (xr_status y)"
proof -
  let ?x = "execution_row_of (demo_execution ''x'' ''stopped'')"
  have "callbacks_keep unlocked_halting (\<lambda>p i r. ok ()) demo_talking"
    by (simp add: callbacks_keep_def resumer_keeps_def demo_talking_def unlocked.whole.keeps_ok)
  moreover have "\<forall>remote. demo_late \<noteq> UpReconcile remote" by (simp add: demo_late_def)
  moreover have "rows_ok (dbase (demo_sys demo_stopped))" "find_by xr_id ''x'' (executions (dbase (demo_sys demo_stopped))) = Some ?x"
    "hb_admissions (hub (demo_sys demo_stopped)) = []" "\<not> active_robot_status (xr_status ?x)" "xr_status ?x \<noteq> ''interrupted''"
    by (simp_all add: demo_sys_def demo_stopped_def demo_robot_def rows_ok_def execution_row_of_def demo_execution_def
        active_robot_status_def empty_hub_def)
  ultimately show ?thesis
    using late_messages_revive_nothing[of "\<lambda>p i r. ok ()" demo_talking demo_late "demo_sys demo_stopped" "''x''" ?x demo_robot_env "''pilot''"]
    by blast
qed

section \<open>Runtimes and joining\<close>

text \<open>
  C28.  A launcher that never confirms a stop - the processes may still run - never costs a Runtime
  its port.  \<open>Stop\<close> then changes no lease: of a Runtime that had ended before it returns the stored
  row and changes no row, of any other it fails and leaves the row as \<open>interrupted\<close>, never as
  stopped.  The launcher leaves the tables alone, and no other operation holds the lock of the
  robot.
\<close>

theorem unconfirmed_stop_changes_no_lease:
  assumes "never_confirms E"
    and "\<forall>r. find_by ri_id i (runtime_instances (dbase s)) = Some r \<longrightarrow> ri_robot_id r \<notin> set (hb_runtime_locks (hub s))"
  shows "port_leases (dbase (snd (runtime_stop E i reason s))) = port_leases (dbase s) \<and>
    (case find_by ri_id i (runtime_instances (dbase s)) of
       None \<Rightarrow> runtime_stop E i reason s = (Inl ErrInstanceNotFound, s)
     | Some r \<Rightarrow>
         if ri_status r \<in> {RtStopped, RtFailed}
         then fst (runtime_stop E i reason s) = Inr r \<and>
           runtime_instances (dbase (snd (runtime_stop E i reason s))) = runtime_instances (dbase s)
         else (\<exists>e. fst (runtime_stop E i reason s) = Inl e) \<and>
           (\<exists>r'. find_by ri_id i (runtime_instances (dbase (snd (runtime_stop E i reason s)))) = Some r' \<and>
             ri_status r' = RtInterrupted))"
proof -
  obtain x t where run: "runtime_stop E i reason s = (x, t)" by fastforce
  show ?thesis using unconfirmed_stop_keeps_the_port[OF assms(1) run assms(2)] by (auto simp: run split: option.splits)
qed

definition demo_runtime :: runtime_instance where
  "demo_runtime = \<lparr>ri_id = ''rt'', ri_pilot_instance_id = ''pilot'', ri_robot_id = ''r1'', ri_scene_instance_id = [],
     ri_bundle_name = [], ri_bundle_version = [], ri_robot_model = [], ri_backend = ''mujoco'', ri_kind = [],
     ri_backend_profile = [], ri_status = RtReady, ri_failure_reason = [], ri_port = 9000, ri_endpoint = ''e'',
     ri_data_directory = [], ri_project_id = ''p'', ri_revision = 1, ri_created_at = 0, ri_updated_at = 0\<rparr>"

definition demo_leased :: db where
  "demo_leased = demo_robot\<lparr>runtime_instances := [demo_runtime], port_leases := [(''rt'', 9000)]\<rparr>"

theorem unconfirmed_stop_changes_no_lease_witness:
  "port_leases (dbase (snd (runtime_stop demo_orch ''rt'' ''end'' (demo_sys demo_leased)))) = [(''rt'', 9000)] \<and>
   (\<exists>r'. find_by ri_id ''rt'' (runtime_instances (dbase (snd (runtime_stop demo_orch ''rt'' ''end'' (demo_sys demo_leased))))) =
      Some r' \<and> ri_status r' = RtInterrupted)"
proof -
  have "never_confirms demo_orch" by (simp add: never_confirms_def demo_orch_def run_simps same_runtimes_def)
  then show ?thesis
    using unconfirmed_stop_changes_no_lease[of demo_orch "''rt''" "demo_sys demo_leased" "''end''"]
    by (simp add: demo_sys_def demo_leased_def demo_runtime_def empty_hub_def)
qed

text \<open>
  C29.  A join code admits one Pilot: of any number of claims of one code, by any Pilots at any times,
  at most one succeeds.
\<close>

theorem a_code_admits_one_pilot:
  "successes (map (\<lambda>(pilot, credential, now). claim_pilot_enrollment code pilot credential now) claims) s \<le> 1"
  by (rule one_claim_per_code)

end
